(* ===== verification/Prelude.thy ===== *)
theory Prelude
  imports Main "HOL-Library.AList" "HOL-Library.Multiset"
begin

text \<open>
  Shared vocabulary of the development.

  \<^item> \<open>'e + 'a\<close> is the result of code that may raise: \<open>Inl\<close> is the exception, \<open>Inr\<close> the
    value. \<open>bindR\<close> runs the continuation only on a value, as Python code after a call does.
  \<^item> \<open>('s, 'e, 'a) sm\<close> is code that also reads and writes a state. The state after an
    exception is kept: a Python exception does not undo assignments. Undoing a database
    transaction is the separate combinator of theory \<open>Store\<close>.
  \<^item> \<open>triple P m Q X\<close> is total correctness of such code with a postcondition for a normal
    return (\<open>Q\<close>) and one for an exception (\<open>X\<close>).
  \<^item> Strings are lists of characters; a character stands for a code point below 256.
\<close>

section \<open>Results\<close>

definition bindR :: "'e + 'a \<Rightarrow> ('a \<Rightarrow> 'e + 'b) \<Rightarrow> 'e + 'b" where
  "bindR m f = (case m of Inl e \<Rightarrow> Inl e | Inr x \<Rightarrow> f x)"

definition checkR :: "bool \<Rightarrow> 'e \<Rightarrow> 'e + unit" where
  "checkR b e = (if b then Inr () else Inl e)"

primrec mapR :: "('a \<Rightarrow> 'e + 'b) \<Rightarrow> 'a list \<Rightarrow> 'e + 'b list" where
  "mapR f [] = Inr []"
| "mapR f (x # xs) = bindR (f x) (\<lambda>y. bindR (mapR f xs) (\<lambda>ys. Inr (y # ys)))"

definition ofOption :: "'e \<Rightarrow> 'a option \<Rightarrow> 'e + 'a" where
  "ofOption e x = (case x of None \<Rightarrow> Inl e | Some y \<Rightarrow> Inr y)"

definition isOk :: "'e + 'a \<Rightarrow> bool" where
  "isOk r = (case r of Inl _ \<Rightarrow> False | Inr _ \<Rightarrow> True)"

named_theorems res_simps "results, evaluated"

lemma bindR_simps [simp, res_simps]:
  "bindR (Inl e) f = Inl e" "bindR (Inr x) f = f x"
  by (simp_all add: bindR_def)

lemma bindR_Inr [res_simps]: "bindR m f = Inr y \<longleftrightarrow> (\<exists>x. m = Inr x \<and> f x = Inr y)"
  by (cases m) auto

lemma bindR_Inl: "bindR m f = Inl e \<longleftrightarrow> m = Inl e \<or> (\<exists>x. m = Inr x \<and> f x = Inl e)"
  by (cases m) auto

lemma bindR_assoc [simp]: "bindR (bindR m f) g = bindR m (\<lambda>x. bindR (f x) g)"
  by (cases m) auto

lemma checkR_Inr [simp, res_simps]: "checkR b e = Inr u \<longleftrightarrow> b"
  by (simp add: checkR_def)

lemma checkR_Inl [simp, res_simps]: "checkR b e = Inl e' \<longleftrightarrow> \<not> b \<and> e' = e"
  by (auto simp: checkR_def)

lemma checkR_simps [simp]: "checkR True e = Inr ()" "checkR False e = Inl e"
  by (simp_all add: checkR_def)

lemma ofOption_Inr [simp, res_simps]: "ofOption e x = Inr y \<longleftrightarrow> x = Some y"
  by (cases x) (auto simp: ofOption_def)

lemma ofOption_Inl [simp, res_simps]: "ofOption e x = Inl e' \<longleftrightarrow> x = None \<and> e' = e"
  by (cases x) (auto simp: ofOption_def)

lemma ofOption_simps [simp]: "ofOption e None = Inl e" "ofOption e (Some y) = Inr y"
  by (simp_all add: ofOption_def)

lemma isOk_simps [simp]: "isOk (Inl e) \<longleftrightarrow> False" "isOk (Inr x) \<longleftrightarrow> True"
  by (simp_all add: isOk_def)

lemma isOk_iff: "isOk r \<longleftrightarrow> (\<exists>x. r = Inr x)"
  by (cases r) auto

lemma mapR_Inr [res_simps]: "mapR f xs = Inr ys \<longleftrightarrow> list_all2 (\<lambda>x y. f x = Inr y) xs ys"
  by (induction xs arbitrary: ys) (auto simp: bindR_Inr list_all2_Cons1)

lemma mapR_ok: "isOk (mapR f xs) \<longleftrightarrow> (\<forall>x\<in>set xs. isOk (f x))"
proof (induction xs)
  case (Cons x xs)
  then show ?case by (cases "f x"; cases "mapR f xs") auto
qed simp

lemma mapR_InrD: "mapR f xs = Inr ys \<Longrightarrow> x \<in> set xs \<Longrightarrow> \<exists>y. f x = Inr y"
  using mapR_ok[of f xs] by (auto simp: isOk_iff)

lemma mapR_length: "mapR f xs = Inr ys \<Longrightarrow> length ys = length xs"
  by (auto simp: mapR_Inr dest: list_all2_lengthD)

section \<open>State and exceptions\<close>

type_synonym ('s, 'e, 'a) sm = "'s \<Rightarrow> ('e + 'a) \<times> 's"

definition returnS :: "'a \<Rightarrow> ('s, 'e, 'a) sm" where
  "returnS x = (\<lambda>s. (Inr x, s))"

definition raiseS :: "'e \<Rightarrow> ('s, 'e, 'a) sm" where
  "raiseS e = (\<lambda>s. (Inl e, s))"

definition bindS :: "('s, 'e, 'a) sm \<Rightarrow> ('a \<Rightarrow> ('s, 'e, 'b) sm) \<Rightarrow> ('s, 'e, 'b) sm" where
  "bindS m f = (\<lambda>s. case m s of (Inl e, t) \<Rightarrow> (Inl e, t) | (Inr x, t) \<Rightarrow> f x t)"

definition thenS :: "('s, 'e, 'a) sm \<Rightarrow> ('s, 'e, 'b) sm \<Rightarrow> ('s, 'e, 'b) sm" where
  "thenS m k = bindS m (\<lambda>_. k)"

definition getS :: "('s \<Rightarrow> 'a) \<Rightarrow> ('s, 'e, 'a) sm" where
  "getS f = (\<lambda>s. (Inr (f s), s))"

definition modifyS :: "('s \<Rightarrow> 's) \<Rightarrow> ('s, 'e, unit) sm" where
  "modifyS f = (\<lambda>s. (Inr (), f s))"

definition liftS :: "('s \<Rightarrow> 'e + 'a) \<Rightarrow> ('s, 'e, 'a) sm" where
  "liftS f = (\<lambda>s. (f s, s))"

definition guardS :: "bool \<Rightarrow> 'e \<Rightarrow> ('s, 'e, unit) sm" where
  "guardS b e = (if b then returnS () else raiseS e)"

definition whenS :: "bool \<Rightarrow> ('s, 'e, unit) sm \<Rightarrow> ('s, 'e, unit) sm" where
  "whenS b m = (if b then m else returnS ())"

text \<open>\<open>try: m except Exception as e: h e\<close>.\<close>

definition catchS :: "('s, 'e, 'a) sm \<Rightarrow> ('e \<Rightarrow> ('s, 'e, 'a) sm) \<Rightarrow> ('s, 'e, 'a) sm" where
  "catchS m h = (\<lambda>s. case m s of (Inl e, t) \<Rightarrow> h e t | (Inr x, t) \<Rightarrow> (Inr x, t))"

text \<open>\<open>try: m finally: f\<close>; an exception of \<open>f\<close> replaces the outcome of \<open>m\<close>.\<close>

definition finallyS :: "('s, 'e, 'a) sm \<Rightarrow> ('s, 'e, 'b) sm \<Rightarrow> ('s, 'e, 'a) sm" where
  "finallyS m f = (\<lambda>s. case m s of (r, t) \<Rightarrow>
     (case f t of (Inl e, u) \<Rightarrow> (Inl e, u) | (Inr _, u) \<Rightarrow> (r, u)))"

primrec forS :: "'a list \<Rightarrow> ('a \<Rightarrow> ('s, 'e, unit) sm) \<Rightarrow> ('s, 'e, unit) sm" where
  "forS [] f = returnS ()"
| "forS (x # xs) f = thenS (f x) (forS xs f)"

primrec mapS :: "('a \<Rightarrow> ('s, 'e, 'b) sm) \<Rightarrow> 'a list \<Rightarrow> ('s, 'e, 'b list) sm" where
  "mapS f [] = returnS []"
| "mapS f (x # xs) = bindS (f x) (\<lambda>y. bindS (mapS f xs) (\<lambda>ys. returnS (y # ys)))"

lemmas sm_defs = returnS_def raiseS_def bindS_def thenS_def getS_def modifyS_def liftS_def
  guardS_def whenS_def catchS_def finallyS_def

lemma returnS_apply [simp]: "returnS x s = (Inr x, s)"
  by (simp add: returnS_def)

lemma raiseS_apply [simp]: "raiseS e s = (Inl e, s)"
  by (simp add: raiseS_def)

lemma getS_apply [simp]: "getS f s = (Inr (f s), s)"
  by (simp add: getS_def)

lemma modifyS_apply [simp]: "modifyS f s = (Inr (), f s)"
  by (simp add: modifyS_def)

lemma liftS_apply [simp]: "liftS f s = (f s, s)"
  by (simp add: liftS_def)

lemma guardS_apply [simp]: "guardS True e s = (Inr (), s)" "guardS False e s = (Inl e, s)"
  by (simp_all add: guardS_def)

lemma bindS_step:
  "m s = (Inr x, t) \<Longrightarrow> bindS m f s = f x t"
  "m s = (Inl e, t) \<Longrightarrow> bindS m f s = (Inl e, t)"
  by (simp_all add: bindS_def)

lemma thenS_step:
  "m s = (Inr x, t) \<Longrightarrow> thenS m k s = k t"
  "m s = (Inl e, t) \<Longrightarrow> thenS m k s = (Inl e, t)"
  by (simp_all add: thenS_def bindS_def)

lemma sm_units:
  "thenS (returnS x) k = k" "thenS (raiseS e) k = raiseS e"
  "bindS (returnS x) f = f x" "bindS (raiseS e) f = raiseS e"
  by (simp_all add: fun_eq_iff thenS_def bindS_def)

lemma bindS_OkE:
  assumes "bindS m f s = (Inr y, u)"
  obtains x t where "m s = (Inr x, t)" "f x t = (Inr y, u)"
  using assms by (auto simp: bindS_def split: prod.splits sum.splits)

lemma thenS_OkE:
  assumes "thenS m k s = (Inr y, u)"
  obtains x t where "m s = (Inr x, t)" "k t = (Inr y, u)"
  using assms by (auto simp: thenS_def elim: bindS_OkE)

lemma thenS_ErrE:
  assumes "thenS m k s = (Inl e, u)"
  obtains "m s = (Inl e, u)" | x t where "m s = (Inr x, t)" "k t = (Inl e, u)"
  using assms by (auto simp: thenS_def bindS_def split: prod.splits sum.splits)

lemma bindS_ErrE:
  assumes "bindS m f s = (Inl e, u)"
  obtains "m s = (Inl e, u)" | x t where "m s = (Inr x, t)" "f x t = (Inl e, u)"
  using assms by (auto simp: bindS_def split: prod.splits sum.splits)

lemma guardS_Ok [simp]: "guardS b e s = (Inr u, t) \<longleftrightarrow> b \<and> t = s"
  by (auto simp: guardS_def)

lemma guardS_Err [simp]: "guardS b e s = (Inl e', t) \<longleftrightarrow> \<not> b \<and> e' = e \<and> t = s"
  by (auto simp: guardS_def)

section \<open>Triples\<close>

definition triple ::
  "('s \<Rightarrow> bool) \<Rightarrow> ('s, 'e, 'a) sm \<Rightarrow> ('a \<Rightarrow> 's \<Rightarrow> bool) \<Rightarrow> ('e \<Rightarrow> 's \<Rightarrow> bool) \<Rightarrow> bool"
where
  "triple P m Q X \<longleftrightarrow>
     (\<forall>s. P s \<longrightarrow> (case m s of (Inr x, t) \<Rightarrow> Q x t | (Inl e, t) \<Rightarrow> X e t))"

text \<open>\<open>keeps I m\<close>: \<open>m\<close> keeps \<open>I\<close>, whether it returns or raises.\<close>

definition keeps :: "('s \<Rightarrow> bool) \<Rightarrow> ('s, 'e, 'a) sm \<Rightarrow> bool" where
  "keeps I m \<longleftrightarrow> (\<forall>s. I s \<longrightarrow> I (snd (m s)))"

named_theorems keeps_intros "structural rules for keeps"

lemma keepsI: "(\<And>s. I s \<Longrightarrow> I (snd (m s))) \<Longrightarrow> keeps I m"
  by (simp add: keeps_def)

lemma keepsD: "keeps I m \<Longrightarrow> I s \<Longrightarrow> I (snd (m s))"
  by (simp add: keeps_def)

lemma keepsD2: "keeps I m \<Longrightarrow> I s \<Longrightarrow> m s = (r, t) \<Longrightarrow> I t"
  by (metis keeps_def snd_conv)

lemma keeps_triple: "keeps I m \<longleftrightarrow> triple I m (\<lambda>_. I) (\<lambda>_. I)"
  unfolding keeps_def triple_def
  by (intro iff_allI imp_cong refl) (auto split: prod.splits sum.splits)

lemma keeps_returnS [keeps_intros]: "keeps I (returnS x)"
  and keeps_raiseS [keeps_intros]: "keeps I (raiseS e)"
  and keeps_getS [keeps_intros]: "keeps I (getS f)"
  and keeps_liftS [keeps_intros]: "keeps I (liftS g)"
  and keeps_guardS [keeps_intros]: "keeps I (guardS b e)"
  by (auto simp: keeps_def guardS_def)

lemma keeps_bindS [keeps_intros]:
  assumes "keeps I m" and "\<And>x. keeps I (f x)"
  shows "keeps I (bindS m f)"
proof (rule keepsI)
  fix s assume "I s"
  obtain r t where mt: "m s = (r, t)" by force
  with assms(1) \<open>I s\<close> have "I t" by (auto simp: keeps_def)
  then show "I (snd (bindS m f s))"
    using mt assms(2) by (cases r) (auto simp: bindS_def keeps_def)
qed

lemma keeps_thenS [keeps_intros]: "keeps I m \<Longrightarrow> keeps I k \<Longrightarrow> keeps I (thenS m k)"
  by (auto simp: thenS_def intro: keeps_bindS)

lemma keeps_whenS [keeps_intros]: "(b \<Longrightarrow> keeps I m) \<Longrightarrow> keeps I (whenS b m)"
  by (auto simp: whenS_def intro: keeps_returnS)

lemma keeps_catchS [keeps_intros]:
  assumes "keeps I m" and "\<And>e. keeps I (h e)"
  shows "keeps I (catchS m h)"
  using assms by (fastforce simp: catchS_def keeps_def split: prod.splits sum.splits)

lemma keeps_finallyS [keeps_intros]:
  assumes "keeps I m" and "keeps I f"
  shows "keeps I (finallyS m f)"
proof (rule keepsI)
  fix s assume "I s"
  obtain r t where mt: "m s = (r, t)" by force
  obtain r' u where fu: "f t = (r', u)" by force
  from mt fu assms \<open>I s\<close> have "I u" by (metis keepsD2)
  then show "I (snd (finallyS m f s))"
    using mt fu by (cases r') (auto simp: finallyS_def)
qed

lemma keeps_forS [keeps_intros]: "(\<And>x. x \<in> set xs \<Longrightarrow> keeps I (f x)) \<Longrightarrow> keeps I (forS xs f)"
  by (induction xs) (auto intro!: keeps_intros)

lemma keeps_mapS [keeps_intros]: "(\<And>x. x \<in> set xs \<Longrightarrow> keeps I (f x)) \<Longrightarrow> keeps I (mapS f xs)"
  by (induction xs) (auto intro!: keeps_intros)

lemma keeps_if [keeps_intros]: "(b \<Longrightarrow> keeps I m) \<Longrightarrow> (\<not> b \<Longrightarrow> keeps I k) \<Longrightarrow> keeps I (if b then m else k)"
  by simp

lemma keeps_option [keeps_intros]:
  "(x = None \<Longrightarrow> keeps I m) \<Longrightarrow> (\<And>y. x = Some y \<Longrightarrow> keeps I (f y)) \<Longrightarrow>
   keeps I (case x of None \<Rightarrow> m | Some y \<Rightarrow> f y)"
  by (cases x) auto

lemma keeps_modifyS: "(\<And>s. I s \<Longrightarrow> I (f s)) \<Longrightarrow> keeps I (modifyS f)"
  by (auto simp: keeps_def)

text \<open>Sequencing of triples.\<close>

lemma tripleI:
  assumes "\<And>s x t. P s \<Longrightarrow> m s = (Inr x, t) \<Longrightarrow> Q x t"
    and "\<And>s e t. P s \<Longrightarrow> m s = (Inl e, t) \<Longrightarrow> X e t"
  shows "triple P m Q X"
  using assms by (auto simp: triple_def split: prod.splits sum.splits)

lemma tripleD: "triple P m Q X \<Longrightarrow> P s \<Longrightarrow> m s = (Inr x, t) \<Longrightarrow> Q x t"
  and tripleE: "triple P m Q X \<Longrightarrow> P s \<Longrightarrow> m s = (Inl e, t) \<Longrightarrow> X e t"
  by (auto simp: triple_def)

lemma triple_bindS:
  assumes "triple P m R X" and "\<And>x. triple (R x) (f x) Q X"
  shows "triple P (bindS m f) Q X"
  using assms by (fastforce simp: triple_def bindS_def split: prod.splits sum.splits)

lemma triple_thenS:
  assumes "triple P m (\<lambda>_. R) X" and "triple R k Q X"
  shows "triple P (thenS m k) Q X"
  using assms by (auto simp: thenS_def intro: triple_bindS)

lemma triple_pre: "triple P m Q X \<Longrightarrow> (\<And>s. P' s \<Longrightarrow> P s) \<Longrightarrow> triple P' m Q X"
  by (auto simp: triple_def)

lemma triple_post:
  "triple P m Q X \<Longrightarrow> (\<And>x s. Q x s \<Longrightarrow> Q' x s) \<Longrightarrow> (\<And>e s. X e s \<Longrightarrow> X' e s) \<Longrightarrow> triple P m Q' X'"
  by (fastforce simp: triple_def split: prod.splits sum.splits)

section \<open>Python strings\<close>

text \<open>
  \<open>str.lower\<close> on code points below 256: A-Z, and the capital letters from 192 to 222 but the
  multiplication sign (215).
\<close>

definition lower_char :: "char \<Rightarrow> char" where
  "lower_char c = (let n = (of_char c :: nat) in
     if (65 \<le> n \<and> n \<le> 90) \<or> (192 \<le> n \<and> n \<le> 222 \<and> n \<noteq> 215) then char_of (n + 32) else c)"

definition lower :: "string \<Rightarrow> string" where
  "lower s = List.map lower_char s"

definition join :: "string list \<Rightarrow> string" where
  "join ss = concat ss"

text \<open>\<open>str(n)\<close> for an integer.\<close>

definition digit_char :: "nat \<Rightarrow> char" where
  "digit_char d = char_of (48 + d)"

fun str_nat :: "nat \<Rightarrow> string" where
  "str_nat n = (if n < 10 then [digit_char n] else str_nat (n div 10) @ [digit_char (n mod 10)])"

declare str_nat.simps [simp del]

definition str_int :: "int \<Rightarrow> string" where
  "str_int i = (if i < 0 then ''-'' @ str_nat (nat (- i)) else str_nat (nat i))"

text \<open>
  \<open>int(s)\<close> in base ten: surrounding white space, one sign, digits with single underscores
  between them. \<open>None\<close> is \<open>ValueError\<close>.
\<close>

definition is_space :: "char \<Rightarrow> bool" where
  "is_space c = (let n = (of_char c :: nat) in (9 \<le> n \<and> n \<le> 13) \<or> (28 \<le> n \<and> n \<le> 32) \<or> n = 133 \<or> n = 160)"

definition is_digit :: "char \<Rightarrow> bool" where
  "is_digit c = (let n = (of_char c :: nat) in 48 \<le> n \<and> n \<le> 57)"

definition digit_val :: "char \<Rightarrow> nat" where
  "digit_val c = of_char c - 48"

definition strip :: "string \<Rightarrow> string" where
  "strip s = rev (dropWhile is_space (rev (dropWhile is_space s)))"

fun int_digits :: "nat \<Rightarrow> string \<Rightarrow> nat option" where
  "int_digits acc [] = Some acc"
| "int_digits acc (c # cs) =
     (if is_digit c then int_digits (10 * acc + digit_val c) cs
      else if c = CHR ''_'' then
        (case cs of [] \<Rightarrow> None
         | d # ds \<Rightarrow> if is_digit d then int_digits (10 * acc + digit_val d) ds else None)
      else None)"

fun int_unsigned :: "string \<Rightarrow> nat option" where
  "int_unsigned [] = None"
| "int_unsigned (c # cs) = (if is_digit c then int_digits (digit_val c) cs else None)"

definition py_int :: "string \<Rightarrow> int option" where
  "py_int s = (case strip s of
      [] \<Rightarrow> None
    | c # cs \<Rightarrow>
        if c = CHR ''-'' then map_option (\<lambda>n. - int n) (int_unsigned cs)
        else if c = CHR ''+'' then map_option int (int_unsigned cs)
        else map_option int (int_unsigned (c # cs)))"

lemma lower_Nil [simp]: "lower [] = []"
  and lower_append [simp]: "lower (s @ t) = lower s @ lower t"
  and length_lower [simp]: "length (lower s) = length s"
  by (simp_all add: lower_def)

lemma lower_char_idem: "lower_char (lower_char c) = lower_char c"
proof -
  have *: "n + 32 < 256" if "(65 \<le> n \<and> n \<le> 90) \<or> (192 \<le> n \<and> n \<le> (222::nat) \<and> n \<noteq> 215)" for n
    using that by auto
  show ?thesis
    by (auto simp: lower_char_def Let_def of_char_of take_bit_eq_mod)
qed

lemma lower_idem [simp]: "lower (lower s) = lower s"
  by (simp add: lower_def lower_char_idem)

lemma of_digit_char: "d < 10 \<Longrightarrow> of_char (digit_char d) = 48 + d"
  by (simp add: digit_char_def of_char_of)

lemma digit_char_facts [simp]:
  assumes "d < 10"
  shows "is_digit (digit_char d)" and "digit_val (digit_char d) = d"
    and "\<not> is_space (digit_char d)" and "digit_char d \<noteq> CHR ''-''" and "digit_char d \<noteq> CHR ''+''"
proof -
  have n: "of_char (digit_char d) = 48 + d"
    using assms by (rule of_digit_char)
  with assms show "is_digit (digit_char d)" "digit_val (digit_char d) = d"
    "\<not> is_space (digit_char d)"
    by (simp_all add: is_digit_def digit_val_def is_space_def)
  show "digit_char d \<noteq> CHR ''-''" "digit_char d \<noteq> CHR ''+''"
    using n by auto
qed

lemma str_nat_digits: "list_all is_digit (str_nat n) \<and> str_nat n \<noteq> []"
proof (induction n rule: str_nat.induct)
  case (1 n)
  then show ?case by (subst (1 2) str_nat.simps) auto
qed

lemma int_digits_append:
  assumes "list_all is_digit s"
  shows "int_digits acc (s @ t) = int_digits (foldl (\<lambda>a c. 10 * a + digit_val c) acc s) t"
  using assms by (induction s arbitrary: acc) auto

lemma str_nat_val: "foldl (\<lambda>a c. 10 * a + digit_val c) 0 (str_nat n) = n"
proof (induction n rule: str_nat.induct)
  case (1 n)
  show ?case
  proof (cases "n < 10")
    case True
    then show ?thesis by (subst str_nat.simps) simp
  next
    case False
    with 1 show ?thesis by (subst str_nat.simps) simp
  qed
qed

lemma int_unsigned_str_nat [simp]: "int_unsigned (str_nat n) = Some n"
proof -
  obtain c cs where s: "str_nat n = c # cs" and d: "is_digit c" "list_all is_digit cs"
    using str_nat_digits[of n] by (cases "str_nat n") auto
  then have "int_unsigned (str_nat n) = int_digits 0 (str_nat n)" by simp
  also have "\<dots> = Some n"
    using int_digits_append[of "str_nat n" 0 "[]"] str_nat_digits[of n] str_nat_val[of n] by simp
  finally show ?thesis .
qed

lemma is_digit_not_space: "is_digit c \<Longrightarrow> \<not> is_space c"
  by (auto simp: is_digit_def is_space_def Let_def)

lemma dropWhile_hd: "xs \<noteq> [] \<Longrightarrow> \<not> P (hd xs) \<Longrightarrow> dropWhile P xs = xs"
  by (cases xs) auto

lemma strip_id: "s \<noteq> [] \<Longrightarrow> \<not> is_space (hd s) \<Longrightarrow> \<not> is_space (last s) \<Longrightarrow> strip s = s"
  by (simp add: strip_def dropWhile_hd hd_rev)

lemma py_int_str_int [simp]: "py_int (str_int i) = Some i"
proof (cases "i < 0")
  case True
  let ?s = "str_nat (nat (- i))"
  have "\<not> is_space (last ?s)"
    using str_nat_digits[of "nat (- i)"] by (auto simp: list_all_iff is_digit_not_space)
  moreover have "\<not> is_space (CHR ''-'')" by (simp add: is_space_def)
  ultimately have "strip (CHR ''-'' # ?s) = CHR ''-'' # ?s"
    using str_nat_digits[of "nat (- i)"] by (intro strip_id) auto
  with True show ?thesis by (simp add: py_int_def str_int_def)
next
  case False
  obtain c cs where s: "str_nat (nat i) = c # cs" "is_digit c" "list_all is_digit (c # cs)"
    using str_nat_digits[of "nat i"] by (cases "str_nat (nat i)") auto
  then have "strip (c # cs) = c # cs"
    by (intro strip_id) (auto simp: list_all_iff is_digit_not_space)
  moreover have "c \<noteq> CHR ''-''" "c \<noteq> CHR ''+''" using s by (auto simp: is_digit_def)
  moreover have "int_unsigned (c # cs) = Some (nat i)" using int_unsigned_str_nat[of "nat i"] s by simp
  ultimately show ?thesis using False s by (simp add: py_int_def str_int_def)
qed

section \<open>Lists\<close>

text \<open>\<open>len(xs) == len(set(xs))\<close> is the code's test for duplicates.\<close>

lemma length_set_distinct: "length xs = card (set xs) \<longleftrightarrow> distinct xs"
  by (metis card_distinct distinct_card)

lemma sum_list_filter_le: "(\<And>x. x \<in> set xs \<Longrightarrow> 0 \<le> f x) \<Longrightarrow>
   sum_list (List.map f (filter P xs)) \<le> (sum_list (List.map f xs) :: int)"
  by (induction xs) (auto intro: add_increasing)

end
