(* ===== verification/Errors.thy ===== *)
theory Errors
  imports Prelude
begin

text \<open>
  The exceptions of \<^verbatim>\<open>cashu/core/errors.py\<close>, one constructor per class, and the Python
  exceptions that the modelled code raises itself or lets through. A constructor with a
  \<^typ>\<open>string option\<close> stands for a class whose \<^verbatim>\<open>detail\<close> argument may be left out;
  \<open>error_detail\<close> and \<open>error_code\<close> are the attributes an instance ends up with
  (\<^verbatim>\<open>detail or self.detail\<close>, \<^verbatim>\<open>code or self.code\<close>: an empty text is replaced too).
  \<open>Diverges\<close> is no exception: it marks a call that never returns (theory \<open>Curve\<close>), so that the
  code after the call is not run.
\<close>

datatype error =
    CashuError string int
  | NotAllowedError "string option"
  | InvalidProofsError
  | TransactionError "string option"
  | ProofsAlreadySpentError
  | ProofsArePendingError
  | OutputsAlreadySignedError
  | OutputsArePendingError
  | TransactionNotBalancedError string
  | SecretTooLongError string
  | WitnessTooLongError string
  | NoSecretInProofsError
  | TransactionUnitError string
  | TransactionAmountExceedsLimitError string
  | TransactionDuplicateInputsError
  | TransactionDuplicateOutputsError
  | TransactionMultipleUnitsError "string option"
  | TransactionUnitMismatchError
  | KeysetError "string option"
  | KeysetNotFoundError "string option"
  | LightningError "string option"
  | QuoteNotPaidError
  | QuoteAlreadyIssuedError
  | LightningPaymentFailedError "string option"
  | QuoteSignatureInvalidError
  | QuoteRequiresPubkeyError
  | ClearAuthRequiredError
  | ClearAuthFailedError
  | BlindAuthRequiredError
  | BlindAuthFailedError
  | BlindAuthAmountExceededError "string option"
  | BlindAuthRateLimitExceededError
  | PyException string
  | AssertionError string
  | ValueError string
  | KeyError string
  | IndexError
  | IntegrityError string
  | OperationalError string
  | UnboundLocalError string
  | Diverges

definition detail_or :: "string option \<Rightarrow> string \<Rightarrow> string" where
  "detail_or d dflt = (case d of None \<Rightarrow> dflt | Some s \<Rightarrow> if s = [] then dflt else s)"

text \<open>\<open>None\<close> for exceptions that are no \<^verbatim>\<open>CashuError\<close>: they have no code.\<close>

fun error_code :: "error \<Rightarrow> int option" where
  "error_code (CashuError _ c) = Some c"
| "error_code (NotAllowedError _) = Some 10000"
| "error_code InvalidProofsError = Some 10001"
| "error_code (TransactionError _) = Some 11000"
| "error_code ProofsAlreadySpentError = Some 11001"
| "error_code ProofsArePendingError = Some 11002"
| "error_code OutputsAlreadySignedError = Some 11003"
| "error_code OutputsArePendingError = Some 11004"
| "error_code (TransactionNotBalancedError _) = Some 11005"
| "error_code (SecretTooLongError _) = Some 11003"
| "error_code (WitnessTooLongError _) = Some 11004"
| "error_code NoSecretInProofsError = Some 10001"
| "error_code (TransactionUnitError _) = Some 11009"
| "error_code (TransactionAmountExceedsLimitError _) = Some 11006"
| "error_code TransactionDuplicateInputsError = Some 11007"
| "error_code TransactionDuplicateOutputsError = Some 11008"
| "error_code (TransactionMultipleUnitsError _) = Some 11009"
| "error_code TransactionUnitMismatchError = Some 11010"
| "error_code (KeysetError _) = Some 12000"
| "error_code (KeysetNotFoundError _) = Some 12001"
| "error_code (LightningError _) = Some 20000"
| "error_code QuoteNotPaidError = Some 20001"
| "error_code QuoteAlreadyIssuedError = Some 20002"
| "error_code (LightningPaymentFailedError _) = Some 20004"
| "error_code QuoteSignatureInvalidError = Some 20008"
| "error_code QuoteRequiresPubkeyError = Some 20009"
| "error_code ClearAuthRequiredError = Some 80001"
| "error_code ClearAuthFailedError = Some 80002"
| "error_code BlindAuthRequiredError = Some 81001"
| "error_code BlindAuthFailedError = Some 81002"
| "error_code (BlindAuthAmountExceededError _) = Some 81003"
| "error_code BlindAuthRateLimitExceededError = Some 81004"
| "error_code (PyException _) = None"
| "error_code (AssertionError _) = None"
| "error_code (ValueError _) = None"
| "error_code (KeyError _) = None"
| "error_code IndexError = None"
| "error_code (IntegrityError _) = None"
| "error_code (OperationalError _) = None"
| "error_code (UnboundLocalError _) = None"
| "error_code Diverges = None"

fun error_detail :: "error \<Rightarrow> string" where
  "error_detail (CashuError d _) = d"
| "error_detail (NotAllowedError d) = detail_or d ''not allowed''"
| "error_detail InvalidProofsError = ''proofs could not be verified''"
| "error_detail (TransactionError d) = detail_or d ''transaction error''"
| "error_detail ProofsAlreadySpentError = ''proofs already spent''"
| "error_detail ProofsArePendingError = ''proofs are pending''"
| "error_detail OutputsAlreadySignedError = ''outputs already signed''"
| "error_detail OutputsArePendingError = ''outputs are pending''"
| "error_detail (TransactionNotBalancedError d) = detail_or (Some d) ''transaction error''"
| "error_detail (SecretTooLongError d) = detail_or (Some d) ''transaction error''"
| "error_detail (WitnessTooLongError d) = detail_or (Some d) ''transaction error''"
| "error_detail NoSecretInProofsError = ''no secret in proofs''"
| "error_detail (TransactionUnitError d) = detail_or (Some d) ''transaction error''"
| "error_detail (TransactionAmountExceedsLimitError d) = detail_or (Some d) ''transaction error''"
| "error_detail TransactionDuplicateInputsError = ''Duplicate inputs provided''"
| "error_detail TransactionDuplicateOutputsError = ''Duplicate outputs provided''"
| "error_detail (TransactionMultipleUnitsError d) = detail_or d ''Inputs/Outputs of multiple units''"
| "error_detail TransactionUnitMismatchError = ''Inputs and outputs not of same unit''"
| "error_detail (KeysetError d) = detail_or d ''keyset error''"
| "error_detail (KeysetNotFoundError i) =
     (case i of None \<Rightarrow> ''keyset not found''
      | Some k \<Rightarrow> if k = [] then ''keyset not found'' else ''keyset not found: '' @ k)"
| "error_detail (LightningError d) = detail_or d ''Lightning error''"
| "error_detail QuoteNotPaidError = ''quote not paid''"
| "error_detail QuoteAlreadyIssuedError = ''quote already issued''"
| "error_detail (LightningPaymentFailedError d) = detail_or d ''Lightning payment failed''"
| "error_detail QuoteSignatureInvalidError = ''Signature for mint request invalid''"
| "error_detail QuoteRequiresPubkeyError = ''Pubkey required for mint quote''"
| "error_detail ClearAuthRequiredError = ''Endpoint requires clear auth''"
| "error_detail ClearAuthFailedError = ''Clear authentication failed''"
| "error_detail BlindAuthRequiredError = ''Endpoint requires blind auth''"
| "error_detail BlindAuthFailedError = ''Blind authentication failed''"
| "error_detail (BlindAuthAmountExceededError d) = detail_or d ''Maximum blind auth amount exceeded''"
| "error_detail BlindAuthRateLimitExceededError = ''Blind auth token mint rate limit exceeded''"
| "error_detail (PyException d) = d"
| "error_detail (AssertionError d) = d"
| "error_detail (ValueError d) = d"
| "error_detail (KeyError d) = d"
| "error_detail IndexError = []"
| "error_detail (OperationalError m) = m"
| "error_detail (IntegrityError d) = d"
| "error_detail (UnboundLocalError d) = d"
| "error_detail Diverges = []"

text \<open>Two different conditions that a client sees under the same code.\<close>

lemma error_code_shared:
  "error_code (SecretTooLongError d) = error_code OutputsAlreadySignedError"
  "error_code (WitnessTooLongError d) = error_code OutputsArePendingError"
  "error_code NoSecretInProofsError = error_code InvalidProofsError"
  by simp_all

abbreviation tx_error :: "string \<Rightarrow> error" where
  "tx_error d \<equiv> TransactionError (Some d)"

abbreviation not_allowed :: "string \<Rightarrow> error" where
  "not_allowed d \<equiv> NotAllowedError (Some d)"

end
