(* ===== verification/Split.thy ===== *)
theory Split
  imports Prelude
begin

text \<open>
  \<^verbatim>\<open>cashu/core/split.py\<close> and the pure helpers of \<^verbatim>\<open>cashu/core/helpers.py\<close>. The loop of
  \<open>amount_split\<close> runs over the bit positions; \<open>split_bits i n a\<close> is the loop from position
  \<open>i\<close> with \<open>n\<close> positions left.
\<close>

section \<open>amount_split\<close>

text \<open>\<open>int.bit_length()\<close> of a natural number.\<close>

fun bit_length :: "nat \<Rightarrow> nat" where
  "bit_length n = (if n = 0 then 0 else Suc (bit_length (n div 2)))"

declare bit_length.simps [simp del]

primrec split_bits :: "nat \<Rightarrow> nat \<Rightarrow> nat \<Rightarrow> int list" where
  "split_bits i 0 a = []"
| "split_bits i (Suc n) a =
     (if bit a i then 2 ^ i # split_bits (Suc i) n a else split_bits (Suc i) n a)"

definition amount_split :: "int \<Rightarrow> int list" where
  "amount_split amount =
     (if amount \<le> 0 then [] else split_bits 0 (bit_length (nat amount)) (nat amount))"

lemma bit_length_bound: "n < 2 ^ bit_length n"
proof (induction n rule: bit_length.induct)
  case (1 n)
  show ?case
  proof (cases "n = 0")
    case False
    with 1 have "n div 2 < 2 ^ bit_length (n div 2)" by simp
    with False show ?thesis by (subst bit_length.simps) simp
  qed simp
qed

lemma bit_length_lower: "0 < n \<Longrightarrow> 2 ^ (bit_length n - 1) \<le> n"
proof (induction n rule: bit_length.induct)
  case (1 n)
  show ?case
  proof (cases "n div 2 = 0")
    case True
    with 1 have "n = Suc 0" by auto
    then show ?thesis by (simp add: bit_length.simps[of "Suc 0"] bit_length.simps[of 0])
  next
    case False
    with 1 have "2 ^ (bit_length (n div 2) - 1) \<le> n div 2" by simp
    moreover have "bit_length n = Suc (bit_length (n div 2))" "bit_length (n div 2) \<noteq> 0"
      using False 1 by (simp_all add: bit_length.simps[of n] bit_length.simps[of "n div 2"])
    ultimately show ?thesis by (cases "bit_length (n div 2)") auto
  qed
qed

lemma bit_lt_length: "bit n i \<Longrightarrow> i < bit_length (n :: nat)"
proof (rule ccontr)
  assume "bit n i" "\<not> i < bit_length n"
  then have "n < 2 ^ i" using bit_length_bound[of n] by (meson le_less_trans not_less power_increasing_iff order_less_le_trans one_less_numeral_iff semiring_norm(76))
  then show False using \<open>bit n i\<close> by (simp add: bit_iff_odd)
qed

text \<open>The list holds the weights of the set bits, in increasing order.\<close>

lemma split_bits_filter:
  "split_bits i n a = List.map (\<lambda>j. 2 ^ j) (filter (\<lambda>j. bit a j) [i..<i + n])"
proof (induction n arbitrary: i)
  case (Suc n)
  have "[i..<i + Suc n] = i # [Suc i..<Suc i + n]"
    by (simp add: upt_rec)
  with Suc show ?case by simp
qed simp

lemma amount_split_filter:
  "0 < a \<Longrightarrow> amount_split a = List.map (\<lambda>j. 2 ^ j) (filter (\<lambda>j. bit (nat a) j) [0..<bit_length (nat a)])"
  by (simp add: amount_split_def split_bits_filter)

lemma sum_split_bits:
  "sum_list (split_bits i n a) = int (2 ^ i * ((a div 2 ^ i) mod 2 ^ n))"
proof (induction n arbitrary: i)
  case (Suc n)
  have m: "(a div 2 ^ i) mod 2 ^ Suc n = (a div 2 ^ i) mod 2 + 2 * ((a div 2 ^ Suc i) mod 2 ^ n)"
    by (simp add: mod_mult2_eq[symmetric] div_mult2_eq mult.commute)
       (metis div_mult2_eq mod_mult2_eq add.commute mult.commute)
  show ?case
  proof (cases "bit a i")
    case True
    then have "(a div 2 ^ i) mod 2 = 1" by (simp add: bit_iff_odd odd_iff_mod_2_eq_one)
    with True m Suc.IH[of "Suc i"] show ?thesis by (simp add: algebra_simps)
  next
    case False
    then have "(a div 2 ^ i) mod 2 = 0" by (simp add: bit_iff_odd even_iff_mod_2_eq_zero)
    with False m Suc.IH[of "Suc i"] show ?thesis by (simp add: algebra_simps)
  qed
qed simp

lemma sum_amount_split: "sum_list (amount_split a) = max 0 a"
  by (simp add: amount_split_def sum_split_bits bit_length_bound max_def)

lemma amount_split_sorted: "sorted_wrt (<) (amount_split a)"
proof (cases "0 < a")
  case True
  have "sorted_wrt (<) (filter (\<lambda>j. bit (nat a) j) [0..<bit_length (nat a)])"
    by (simp add: sorted_wrt_filter)
  then have "sorted_wrt (\<lambda>i j. (2 ^ i :: int) < 2 ^ j) (filter (\<lambda>j. bit (nat a) j) [0..<bit_length (nat a)])"
    by (rule sorted_wrt_mono_rel[rotated]) simp
  with True show ?thesis by (simp add: amount_split_filter sorted_wrt_map)
qed (simp add: amount_split_def)

lemma amount_split_pos: "x \<in> set (amount_split a) \<Longrightarrow> \<exists>i. x = 2 ^ i \<and> bit (nat a) i"
  by (cases "0 < a") (simp add: amount_split_filter, blast, simp add: amount_split_def)

lemma amount_split_distinct: "distinct (amount_split a)"
  using amount_split_sorted[of a] by (simp add: strict_sorted_iff)

end
