(* ===== verification/Base.thy ===== *)
theory Base
  imports Errors Split
begin

text \<open>
  The data of \<^verbatim>\<open>cashu/core/base.py\<close>: units and amounts, proofs, blinded messages and
  signatures, the two kinds of quotes with the guards that \<^verbatim>\<open>__setattr__\<close> puts on their state,
  and the mint's keysets. A Python attribute is a field of a record; a Python \<^verbatim>\<open>Optional\<close> is an
  \<^typ>\<open>'a option\<close>; dictionaries are association lists in insertion order.
\<close>

section \<open>Units, methods and amounts\<close>

datatype unit_t = sat | msat | usd | eur | btc | auth

fun unit_name :: "unit_t \<Rightarrow> string" where
  "unit_name sat = ''sat''"
| "unit_name msat = ''msat''"
| "unit_name usd = ''usd''"
| "unit_name eur = ''eur''"
| "unit_name btc = ''btc''"
| "unit_name auth = ''auth''"

fun unit_value :: "unit_t \<Rightarrow> int" where
  "unit_value sat = 0"
| "unit_value msat = 1"
| "unit_value usd = 2"
| "unit_value eur = 3"
| "unit_value btc = 4"
| "unit_value auth = 999"

definition all_units :: "unit_t list" where
  "all_units = [sat, msat, usd, eur, btc, auth]"

text \<open>\<open>Unit[name]\<close> and \<open>Unit(value)\<close>.\<close>

definition unit_of_name :: "string \<Rightarrow> error + unit_t" where
  "unit_of_name n = ofOption (KeyError n) (List.find (\<lambda>u. unit_name u = n) all_units)"

definition unit_of_value :: "int \<Rightarrow> error + unit_t" where
  "unit_of_value v =
     ofOption (ValueError (str_int v @ '' is not a valid Unit'')) (List.find (\<lambda>u. unit_value u = v) all_units)"

lemma unit_of_name_name [simp]: "unit_of_name (unit_name u) = Inr u"
  by (cases u) (simp_all add: unit_of_name_def all_units_def)

lemma unit_of_value_value [simp]: "unit_of_value (unit_value u) = Inr u"
  by (cases u) (simp_all add: unit_of_value_def all_units_def)

lemma unit_name_inj [simp]: "unit_name u = unit_name v \<longleftrightarrow> u = v"
  by (cases u; cases v) simp_all

lemma unit_of_name_Inr: "unit_of_name n = Inr u \<Longrightarrow> n = unit_name u"
  by (auto simp: unit_of_name_def find_Some_iff)

datatype method_t = bolt11

fun method_name :: "method_t \<Rightarrow> string" where
  "method_name bolt11 = ''bolt11''"

definition method_of_name :: "string \<Rightarrow> error + method_t" where
  "method_of_name n = (if n = ''bolt11'' then Inr bolt11 else Inl (KeyError n))"

record amount =
  a_unit :: unit_t
  a_amount :: int

abbreviation Amount :: "unit_t \<Rightarrow> int \<Rightarrow> amount" where
  "Amount u n \<equiv> \<lparr>a_unit = u, a_amount = n\<rparr>"

datatype rounding = round_none | round_up | round_down

text \<open>
  \<open>Amount.to\<close>. The code divides with floating point when it rounds up or down; the division here
  is exact, which is what the floating-point division gives for amounts below \<open>2 ^ 52\<close>.
\<close>

definition ceil_div :: "int \<Rightarrow> int \<Rightarrow> int" where
  "ceil_div a b = - ((- a) div b)"

definition amount_to :: "amount \<Rightarrow> unit_t \<Rightarrow> rounding \<Rightarrow> error + amount" where
  "amount_to a u r =
     (if a_unit a = u then Inr a
      else case a_unit a of
        sat \<Rightarrow> if u = msat then Inr (Amount u (a_amount a * 1000))
               else Inl (PyException (''Cannot convert '' @ unit_name (a_unit a) @ '' to '' @ unit_name u))
      | msat \<Rightarrow> if u = sat then
                  (case r of
                     round_up \<Rightarrow> Inr (Amount u (ceil_div (a_amount a) 1000))
                   | round_down \<Rightarrow> Inr (Amount u (a_amount a div 1000))
                   | round_none \<Rightarrow> Inr (Amount u (a_amount a div 1000)))
                else Inl (PyException (''Cannot convert '' @ unit_name (a_unit a) @ '' to '' @ unit_name u))
      | _ \<Rightarrow> Inr a)"

definition same_unit :: "amount \<Rightarrow> amount \<Rightarrow> 'a \<Rightarrow> error + 'a" where
  "same_unit a b v = (if a_unit a \<noteq> a_unit b then Inl (PyException ''Units must be the same'') else Inr v)"

definition amount_add :: "amount \<Rightarrow> amount \<Rightarrow> error + amount" where
  "amount_add a b = same_unit a b (Amount (a_unit a) (a_amount a + a_amount b))"

definition amount_sub :: "amount \<Rightarrow> amount \<Rightarrow> error + amount" where
  "amount_sub a b = same_unit a b (Amount (a_unit a) (a_amount a - a_amount b))"

definition amount_add_int :: "amount \<Rightarrow> int \<Rightarrow> amount" where
  "amount_add_int a n = Amount (a_unit a) (a_amount a + n)"

definition amount_sub_int :: "amount \<Rightarrow> int \<Rightarrow> amount" where
  "amount_sub_int a n = Amount (a_unit a) (a_amount a - n)"

definition amount_mul :: "amount \<Rightarrow> int \<Rightarrow> amount" where
  "amount_mul a n = Amount (a_unit a) (a_amount a * n)"

definition amount_eq :: "amount \<Rightarrow> amount \<Rightarrow> error + bool" where
  "amount_eq a b = same_unit a b (a_amount a = a_amount b)"

definition amount_lt :: "amount \<Rightarrow> amount \<Rightarrow> error + bool" where
  "amount_lt a b = same_unit a b (a_amount a < a_amount b)"

definition amount_le :: "amount \<Rightarrow> amount \<Rightarrow> error + bool" where
  "amount_le a b = same_unit a b (a_amount a \<le> a_amount b)"

definition amount_gt :: "amount \<Rightarrow> amount \<Rightarrow> error + bool" where
  "amount_gt a b = same_unit a b (a_amount a > a_amount b)"

definition amount_ge :: "amount \<Rightarrow> amount \<Rightarrow> error + bool" where
  "amount_ge a b = same_unit a b (a_amount a \<ge> a_amount b)"

lemma ceil_div_bounds: "0 < b \<Longrightarrow> a \<le> ceil_div a b * b \<and> ceil_div a b * b < a + b"
proof -
  assume b: "0 < b"
  have eq: "(- a) div b * b = - a - (- a) mod b" by (simp add: minus_mod_eq_div_mult)
  have "0 \<le> (- a) mod b" "(- a) mod b < b" using b by simp_all
  then show ?thesis using eq by (simp add: ceil_div_def)
qed

section \<open>Proofs, blinded messages, blinded signatures\<close>

datatype proof_spent_state = PS_unspent | PS_spent | PS_pending

record proof_state =
  ps_Y :: string
  ps_state :: proof_spent_state
  ps_witness :: "string option"

text \<open>The validator \<open>check_witness\<close>: only a spent state may carry a witness.\<close>

definition mk_proof_state :: "string \<Rightarrow> proof_spent_state \<Rightarrow> string option \<Rightarrow> error + proof_state" where
  "mk_proof_state y st w =
     (if w \<noteq> None \<and> st \<noteq> PS_spent
      then Inl (ValueError ''Witness can only be set if the spent state is \"SPENT\"'')
      else Inr \<lparr>ps_Y = y, ps_state = st, ps_witness = w\<rparr>)"

record dleq_wallet =
  dw_e :: string
  dw_s :: string
  dw_r :: string

record token_proof =
  p_id :: string
  p_amount :: int
  p_secret :: string
  p_Y :: string
  p_C :: string
  p_dleq :: "dleq_wallet option"
  p_witness :: "string option"

definition sum_proofs :: "token_proof list \<Rightarrow> int" where
  "sum_proofs ps = sum_list (List.map p_amount ps)"

record dleq =
  d_e :: string
  d_s :: string

record blinded_message =
  bm_amount :: int
  bm_id :: string
  bm_B :: string
  bm_C :: "string option"

record blinded_signature =
  bs_id :: string
  bs_amount :: int
  bs_C :: string
  bs_dleq :: "dleq option"

definition sum_promises :: "blinded_signature list \<Rightarrow> int" where
  "sum_promises ps = sum_list (List.map bs_amount ps)"

section \<open>Quotes\<close>

datatype mint_quote_state = MQ_unpaid | MQ_paid | MQ_pending | MQ_issued
datatype melt_quote_state = LQ_unpaid | LQ_pending | LQ_paid

fun mint_state_value :: "mint_quote_state \<Rightarrow> string" where
  "mint_state_value MQ_unpaid = ''UNPAID''"
| "mint_state_value MQ_paid = ''PAID''"
| "mint_state_value MQ_pending = ''PENDING''"
| "mint_state_value MQ_issued = ''ISSUED''"

fun melt_state_value :: "melt_quote_state \<Rightarrow> string" where
  "melt_state_value LQ_unpaid = ''UNPAID''"
| "melt_state_value LQ_pending = ''PENDING''"
| "melt_state_value LQ_paid = ''PAID''"

text \<open>\<open>str(state)\<close> gives the member's name.\<close>

fun melt_state_name :: "melt_quote_state \<Rightarrow> string" where
  "melt_state_name LQ_unpaid = ''unpaid''"
| "melt_state_name LQ_pending = ''pending''"
| "melt_state_name LQ_paid = ''paid''"

fun mint_state_name :: "mint_quote_state \<Rightarrow> string" where
  "mint_state_name MQ_unpaid = ''unpaid''"
| "mint_state_name MQ_paid = ''paid''"
| "mint_state_name MQ_pending = ''pending''"
| "mint_state_name MQ_issued = ''issued''"

record mint_quote =
  mq_quote :: string
  mq_method :: string
  mq_request :: string
  mq_checking_id :: string
  mq_unit :: string
  mq_amount :: int
  mq_state :: mint_quote_state
  mq_created_time :: "int option"
  mq_paid_time :: "int option"
  mq_expiry :: "int option"
  mq_pubkey :: "string option"

record melt_quote =
  lq_quote :: string
  lq_method :: string
  lq_request :: string
  lq_checking_id :: string
  lq_unit :: string
  lq_amount :: int
  lq_fee_reserve :: int
  lq_state :: melt_quote_state
  lq_created_time :: "int option"
  lq_paid_time :: "int option"
  lq_fee_paid :: int
  lq_payment_preimage :: "string option"
  lq_expiry :: "int option"
  lq_outputs :: "blinded_message list option"
  lq_change :: "blinded_signature list option"

text \<open>\<open>MintQuote.__setattr__("state", v)\<close> and \<open>MeltQuote.__setattr__("state", v)\<close>: the guards in
  the order of the code, then the assignment.\<close>

definition mint_set_state :: "mint_quote \<Rightarrow> mint_quote_state \<Rightarrow> error + mint_quote" where
  "mint_set_state q v =
     (if mq_state q = MQ_unpaid \<and> v \<noteq> MQ_paid then
        Inl (PyException (''Cannot change state of an unpaid mint quote to '' @ mint_state_name v @ ''.''))
      else if mq_state q = MQ_paid \<and> v \<noteq> MQ_pending \<and> v \<noteq> MQ_issued then
        Inl (PyException (''Cannot change state of a paid mint quote to '' @ mint_state_name v @ ''.''))
      else if mq_state q = MQ_pending \<and> v \<noteq> MQ_paid \<and> v \<noteq> MQ_issued then
        Inl (PyException ''Cannot change state of a pending mint quote.'')
      else if mq_state q = MQ_issued then
        Inl (PyException ''Cannot change state of an issued mint quote.'')
      else Inr (q\<lparr>mq_state := v\<rparr>))"

definition melt_set_state :: "melt_quote \<Rightarrow> melt_quote_state \<Rightarrow> error + melt_quote" where
  "melt_set_state q v =
     (if lq_state q = LQ_unpaid \<and> v \<noteq> LQ_pending \<and> v \<noteq> LQ_paid then
        Inl (PyException (''Cannot change state of an unpaid melt quote to '' @ melt_state_name v @ ''.''))
      else if lq_state q = LQ_paid then
        Inl (PyException ''Cannot change state of a paid melt quote.'')
      else Inr (q\<lparr>lq_state := v\<rparr>))"

text \<open>The transitions the guards allow, as relations.\<close>

inductive mint_transition :: "mint_quote_state \<Rightarrow> mint_quote_state \<Rightarrow> bool" where
  mt_pay: "mint_transition MQ_unpaid MQ_paid"
| mt_lock: "mint_transition MQ_paid MQ_pending"
| mt_issue_paid: "mint_transition MQ_paid MQ_issued"
| mt_release: "mint_transition MQ_pending MQ_paid"
| mt_issue: "mint_transition MQ_pending MQ_issued"

inductive melt_transition :: "melt_quote_state \<Rightarrow> melt_quote_state \<Rightarrow> bool" where
  lt_lock: "melt_transition LQ_unpaid LQ_pending"
| lt_pay: "melt_transition LQ_unpaid LQ_paid"
| lt_settle: "melt_transition LQ_pending LQ_paid"
| lt_release: "melt_transition LQ_pending LQ_unpaid"
| lt_stay: "melt_transition LQ_pending LQ_pending"

code_pred mint_transition .
code_pred melt_transition .

inductive_simps mint_transition_iff [simp]: "mint_transition a b"
inductive_simps melt_transition_iff [simp]: "melt_transition a b"

inductive_cases mint_transition_issuedE: "mint_transition a MQ_issued"
inductive_cases melt_transition_paidE: "melt_transition LQ_paid b"

lemma mint_set_state_Inr:
  "mint_set_state q v = Inr q' \<longleftrightarrow> mint_transition (mq_state q) v \<and> q' = q\<lparr>mq_state := v\<rparr>"
  by (cases "mq_state q"; cases v) (auto simp: mint_set_state_def)

lemma melt_set_state_Inr:
  "melt_set_state q v = Inr q' \<longleftrightarrow> melt_transition (lq_state q) v \<and> q' = q\<lparr>lq_state := v\<rparr>"
  by (cases "lq_state q"; cases v) (auto simp: melt_set_state_def)

section \<open>The answer of the melt endpoints\<close>

record melt_response =
  mr_quote :: string
  mr_amount :: int
  mr_unit :: "string option"
  mr_request :: "string option"
  mr_fee_reserve :: int
  mr_paid :: "bool option"
  mr_state :: "string option"
  mr_expiry :: "int option"
  mr_payment_preimage :: "string option"
  mr_change :: "blinded_signature list option"

definition from_melt_quote :: "melt_quote \<Rightarrow> melt_response" where
  "from_melt_quote q =
     \<lparr>mr_quote = lq_quote q, mr_amount = lq_amount q, mr_unit = Some (lq_unit q),
      mr_request = Some (lq_request q), mr_fee_reserve = lq_fee_reserve q,
      mr_paid = Some (lq_state q = LQ_paid), mr_state = Some (melt_state_value (lq_state q)),
      mr_expiry = lq_expiry q, mr_payment_preimage = lq_payment_preimage q,
      mr_change = lq_change q\<rparr>"

section \<open>Keysets\<close>

text \<open>The keys are dictionaries from amounts to private keys and to points (see theory \<open>Curve\<close>).\<close>

record mint_keyset =
  k_id :: string
  k_private_keys :: "(int \<times> int) list"
  k_public_keys :: "(int \<times> int) list"
  k_active :: bool
  k_unit :: unit_t
  k_derivation_path :: string
  k_input_fee_ppk :: int
  k_seed :: string
  k_version :: string
  k_amounts :: "int list"
  k_balance :: int
  k_fees_paid :: int
  k_final_expiry :: "int option"

end
