(* ===== verification/Curve.thy ===== *)
theory Curve
  imports Base
begin

text \<open>
  The blind Diffie-Hellman key exchange of \<^verbatim>\<open>cashu/core/crypto/b_dhke.py\<close> and the point
  operations of \<^verbatim>\<open>cashu/core/crypto/secp.py\<close>.

  The curve itself is the package \<^verbatim>\<open>coincurve\<close> and is a parameter: a record \<open>curve\<close> holds the
  operations the code calls. A point is an opaque value; \<open>pt_format\<close> and
  \<open>pt_format_unc\<close> are \<^verbatim>\<open>PublicKey.format()\<close> and \<^verbatim>\<open>format(compressed=False)\<close>,
  \<open>pt_parse\<close> is the constructor \<^verbatim>\<open>PublicKey(bytes)\<close> (\<open>None\<close>: it raises),
  \<open>pt_combine\<close> is \<^verbatim>\<open>combine\<close>, \<open>pt_multiply\<close> is \<^verbatim>\<open>multiply\<close>. A private key is its
  secret as an integer, with \<open>sc_add\<close> and \<open>sc_multiply\<close> for \<^verbatim>\<open>PrivateKey.add\<close> and
  \<^verbatim>\<open>PrivateKey.multiply\<close>. A byte string is a list of characters.
\<close>

section \<open>Bytes and hexadecimal digits\<close>

definition hex_digit :: "nat \<Rightarrow> char" where
  "hex_digit d = (if d < 10 then char_of (48 + d) else char_of (87 + d))"

text \<open>\<open>bytes.hex()\<close>.\<close>

definition to_hex :: "string \<Rightarrow> string" where
  "to_hex bs = concat (List.map (\<lambda>c. [hex_digit (of_char c div 16), hex_digit (of_char c mod 16)]) bs)"

definition hex_val :: "char \<Rightarrow> nat option" where
  "hex_val c = (let n = (of_char c :: nat) in
     if 48 \<le> n \<and> n \<le> 57 then Some (n - 48)
     else if 97 \<le> n \<and> n \<le> 102 then Some (n - 87)
     else if 65 \<le> n \<and> n \<le> 70 then Some (n - 55)
     else None)"

definition is_ascii_space :: "char \<Rightarrow> bool" where
  "is_ascii_space c = (let n = (of_char c :: nat) in (9 \<le> n \<and> n \<le> 13) \<or> n = 32)"

text \<open>\<open>bytes.fromhex(s)\<close>: white space is skipped between bytes; \<open>None\<close> is \<open>ValueError\<close>.\<close>

fun from_hex :: "string \<Rightarrow> string option" where
  "from_hex [] = Some []"
| "from_hex [c] = (if is_ascii_space c then Some [] else None)"
| "from_hex (c # d # cs) =
     (if is_ascii_space c then from_hex (d # cs)
      else case (hex_val c, hex_val d) of
        (Some x, Some y) \<Rightarrow> map_option (\<lambda>bs. char_of (16 * x + y) # bs) (from_hex cs)
      | _ \<Rightarrow> None)"

text \<open>\<open>s.encode("utf-8")\<close> for code points below 256.\<close>

definition utf8_char :: "char \<Rightarrow> string" where
  "utf8_char c = (let n = (of_char c :: nat) in
     if n < 128 then [c] else [char_of (192 + n div 64), char_of (128 + n mod 64)])"

definition encode_utf8 :: "string \<Rightarrow> string" where
  "encode_utf8 s = concat (List.map utf8_char s)"

text \<open>\<open>n.to_bytes(4, "little")\<close> for \<open>n < 2 ^ 32\<close>.\<close>

definition to_bytes_4_little :: "nat \<Rightarrow> string" where
  "to_bytes_4_little n = List.map (\<lambda>i. char_of ((n div 256 ^ i) mod 256)) [0, 1, 2, 3]"

section \<open>The curve\<close>

type_synonym point = int

record curve =
  pt_parse :: "string \<Rightarrow> point option"
  pt_format :: "point \<Rightarrow> string"
  pt_format_unc :: "point \<Rightarrow> string"
  pt_combine :: "point \<Rightarrow> point \<Rightarrow> point option"
  pt_multiply :: "point \<Rightarrow> int \<Rightarrow> point"
  pt_public :: "int \<Rightarrow> point"
  sc_parse :: "string \<Rightarrow> int option"
  sc_bytes :: "int \<Rightarrow> string"
  sc_add :: "int \<Rightarrow> int \<Rightarrow> int option"
  sc_multiply :: "int \<Rightarrow> int \<Rightarrow> int option"
  sha256 :: "string \<Rightarrow> string"
  xonly_verify :: "string \<Rightarrow> string \<Rightarrow> string \<Rightarrow> bool option"

text \<open>\<open>PublicKey(bytes.fromhex(h))\<close>.\<close>

definition pk_from_hex :: "curve \<Rightarrow> string \<Rightarrow> error + point" where
  "pk_from_hex C h =
     bindR (ofOption (ValueError ''non-hexadecimal number found in fromhex() arg'') (from_hex h))
       (\<lambda>bs. ofOption (ValueError ''The public key could not be parsed or is invalid.'') (pt_parse C bs))"

definition pk_hex :: "curve \<Rightarrow> point \<Rightarrow> string" where
  "pk_hex C p = to_hex (pt_format C p)"

text \<open>The operators that \<^verbatim>\<open>secp.py\<close> puts on \<^verbatim>\<open>PublicKey\<close>.\<close>

definition pk_add :: "curve \<Rightarrow> point \<Rightarrow> point \<Rightarrow> error + point" where
  "pk_add C p q = ofOption (ValueError ''The sum of the public keys is invalid.'') (pt_combine C p q)"

definition pk_neg :: "curve \<Rightarrow> point \<Rightarrow> error + point" where
  "pk_neg C p =
     (case pt_format C p of
        [] \<Rightarrow> Inl (KeyError [])
      | b # rest \<Rightarrow>
          if b = char_of (3::nat) then
            ofOption (ValueError ''invalid public key'') (pt_parse C (char_of (2::nat) # rest))
          else if b = char_of (2::nat) then
            ofOption (ValueError ''invalid public key'') (pt_parse C (char_of (3::nat) # rest))
          else Inl (KeyError [b]))"

definition pk_sub :: "curve \<Rightarrow> point \<Rightarrow> point \<Rightarrow> error + point" where
  "pk_sub C p q = bindR (pk_neg C q) (pk_add C p)"

definition pk_mul :: "curve \<Rightarrow> point \<Rightarrow> int \<Rightarrow> point" where
  "pk_mul C p k = pt_multiply C p k"

section \<open>Hash to curve\<close>

definition domain_separator :: string where
  "domain_separator = ''Secp256k1_HashToCurve_Cashu_''"

function h2c_loop :: "curve \<Rightarrow> string \<Rightarrow> nat \<Rightarrow> error + point" where
  "h2c_loop C h counter =
     (if counter < 2 ^ 16 then
        (case pt_parse C (char_of (2::nat) # sha256 C (h @ to_bytes_4_little counter)) of
           Some p \<Rightarrow> Inr p
         | None \<Rightarrow> h2c_loop C h (Suc counter))
      else Inl (ValueError ''No valid point found''))"
  by pat_completeness auto
termination
  by (relation "measure (\<lambda>(C, h, counter). 2 ^ 16 - counter)") auto

declare h2c_loop.simps [simp del]

definition hash_to_curve :: "curve \<Rightarrow> string \<Rightarrow> error + point" where
  "hash_to_curve C message = h2c_loop C (sha256 C (domain_separator @ message)) 0"

text \<open>
  Before 0.15.0 the loop had no bound. \<open>None\<close> is a loop that does not end.
\<close>

partial_function (option) hash_to_curve_deprecated :: "curve \<Rightarrow> string \<Rightarrow> point option" where
  "hash_to_curve_deprecated C msg_to_hash =
     (case pt_parse C (char_of (2::nat) # sha256 C msg_to_hash) of
        Some p \<Rightarrow> Some p
      | None \<Rightarrow> hash_to_curve_deprecated C (sha256 C msg_to_hash))"

declare hash_to_curve_deprecated.simps [code]

section \<open>Blinding, signing, unblinding, verifying\<close>

text \<open>\<open>r\<close> is the blinding factor given or drawn.\<close>

definition step1_alice :: "curve \<Rightarrow> string \<Rightarrow> int \<Rightarrow> error + point \<times> int" where
  "step1_alice C secret_msg r =
     bindR (hash_to_curve C (encode_utf8 secret_msg)) (\<lambda>Y.
     bindR (pk_add C Y (pt_public C r)) (\<lambda>B. Inr (B, r)))"

definition hash_e :: "curve \<Rightarrow> point list \<Rightarrow> string" where
  "hash_e C publickeys =
     sha256 C (encode_utf8 (concat (List.map (\<lambda>p. to_hex (pt_format_unc C p)) publickeys)))"

text \<open>\<open>p\<close> is the nonce, drawn by the code or given for testing.\<close>

definition step2_bob_dleq :: "curve \<Rightarrow> point \<Rightarrow> int \<Rightarrow> int \<Rightarrow> error + int \<times> int" where
  "step2_bob_dleq C B a p =
     (let R1 = pt_public C p; R2 = pk_mul C B p; C' = pk_mul C B a; A = pt_public C a;
          e = hash_e C [R1, R2, A, C']
      in bindR (ofOption (ValueError ''scalar'') (sc_parse C e)) (\<lambda>ek.
         bindR (ofOption (ValueError ''scalar'') (sc_multiply C a ek)) (\<lambda>ae.
         bindR (ofOption (ValueError ''scalar'') (sc_add C p ae)) (\<lambda>s.
         Inr (ek, s)))))"

definition step2_bob :: "curve \<Rightarrow> point \<Rightarrow> int \<Rightarrow> int \<Rightarrow> error + point \<times> int \<times> int" where
  "step2_bob C B a p =
     bindR (step2_bob_dleq C B a p) (\<lambda>(e, s). Inr (pk_mul C B a, e, s))"

definition step3_alice :: "curve \<Rightarrow> point \<Rightarrow> int \<Rightarrow> point \<Rightarrow> error + point" where
  "step3_alice C C' r A = pk_sub C C' (pk_mul C A r)"

definition verify_deprecated :: "curve \<Rightarrow> int \<Rightarrow> point \<Rightarrow> string \<Rightarrow> error + bool" where
  "verify_deprecated C a Cp secret_msg =
     bindR (ofOption Diverges (hash_to_curve_deprecated C (encode_utf8 secret_msg))) (\<lambda>Y.
     Inr (Cp = pk_mul C Y a))"

definition verify :: "curve \<Rightarrow> int \<Rightarrow> point \<Rightarrow> string \<Rightarrow> error + bool" where
  "verify C a Cp secret_msg =
     bindR (hash_to_curve C (encode_utf8 secret_msg)) (\<lambda>Y.
     if Cp = pk_mul C Y a then Inr True else verify_deprecated C a Cp secret_msg)"

definition alice_verify_dleq :: "curve \<Rightarrow> point \<Rightarrow> point \<Rightarrow> int \<Rightarrow> int \<Rightarrow> point \<Rightarrow> error + bool" where
  "alice_verify_dleq C B C' e s A =
     bindR (pk_sub C (pt_public C s) (pk_mul C A e)) (\<lambda>R1.
     bindR (pk_sub C (pk_mul C B s) (pk_mul C C' e)) (\<lambda>R2.
     Inr (sc_bytes C e = hash_e C [R1, R2, A, C'])))"

definition carol_verify_dleq_deprecated ::
  "curve \<Rightarrow> string \<Rightarrow> int \<Rightarrow> point \<Rightarrow> int \<Rightarrow> int \<Rightarrow> point \<Rightarrow> error + bool" where
  "carol_verify_dleq_deprecated C secret_msg r Cp e s A =
     bindR (ofOption Diverges (hash_to_curve_deprecated C (encode_utf8 secret_msg))) (\<lambda>Y.
     bindR (pk_add C Cp (pk_mul C A r)) (\<lambda>C'.
     bindR (pk_add C Y (pt_public C r)) (\<lambda>B.
     alice_verify_dleq C B C' e s A)))"

definition carol_verify_dleq ::
  "curve \<Rightarrow> string \<Rightarrow> int \<Rightarrow> point \<Rightarrow> int \<Rightarrow> int \<Rightarrow> point \<Rightarrow> error + bool" where
  "carol_verify_dleq C secret_msg r Cp e s A =
     bindR (hash_to_curve C (encode_utf8 secret_msg)) (\<lambda>Y.
     bindR (pk_add C Cp (pk_mul C A r)) (\<lambda>C'.
     bindR (pk_add C Y (pt_public C r)) (\<lambda>B.
     bindR (alice_verify_dleq C B C' e s A) (\<lambda>valid.
     if valid then Inr True else carol_verify_dleq_deprecated C secret_msg r Cp e s A))))"

section \<open>What the code relies on\<close>

text \<open>
  The laws of the group as \<^verbatim>\<open>coincurve\<close> documents its operations, on the set \<open>V\<close> of points and the
  set \<open>K\<close> of valid private keys: parsing, adding, multiplying stay in \<open>V\<close>; negation by flipping
  the parity byte succeeds and cancels; multiplication distributes over addition and commutes with
  key generation; adding and multiplying private keys is adding and multiplying their points;
  a scalar made from a digest of 32 bytes has that digest as its bytes (a shorter text is padded by the
  library, so nothing is said of it).
\<close>

definition curve_laws :: "curve \<Rightarrow> point set \<Rightarrow> int set \<Rightarrow> bool" where
  "curve_laws C V K \<longleftrightarrow>
     (\<forall>b p. pt_parse C b = Some p \<longrightarrow> p \<in> V) \<and>
     (\<forall>k\<in>K. pt_public C k \<in> V) \<and>
     (\<forall>p\<in>V. \<forall>k\<in>K. pt_multiply C p k \<in> V) \<and>
     (\<forall>p\<in>V. \<forall>q\<in>V. \<forall>r. pt_combine C p q = Some r \<longrightarrow> r \<in> V) \<and>
     (\<forall>p\<in>V. \<exists>q\<in>V. pk_neg C p = Inr q) \<and>
     (\<forall>p\<in>V. \<forall>q\<in>V. \<forall>r q'. pt_combine C p q = Some r \<longrightarrow> pk_neg C q = Inr q' \<longrightarrow> pt_combine C r q' = Some p) \<and>
     (\<forall>p\<in>V. \<forall>q\<in>V. \<forall>r. \<forall>k\<in>K. pt_combine C p q = Some r \<longrightarrow>
        pt_combine C (pt_multiply C p k) (pt_multiply C q k) = Some (pt_multiply C r k)) \<and>
     (\<forall>k\<in>K. \<forall>l\<in>K. pt_multiply C (pt_public C k) l = pt_multiply C (pt_public C l) k) \<and>
     (\<forall>p\<in>V. \<forall>q\<in>V. \<forall>r q'. pk_neg C q = Inr q' \<longrightarrow> pt_combine C p q' = Some r \<longrightarrow> pt_combine C r q = Some p) \<and>
     (\<forall>b k. sc_parse C b = Some k \<longrightarrow> k \<in> K) \<and>
     (\<forall>x k. sc_parse C (sha256 C x) = Some k \<longrightarrow> sc_bytes C k = sha256 C x) \<and>
     (\<forall>a\<in>K. \<forall>e\<in>K. \<forall>t. sc_multiply C a e = Some t \<longrightarrow> t \<in> K \<and>
        pt_public C t = pt_multiply C (pt_public C a) e \<and>
        (\<forall>p\<in>V. pt_multiply C p t = pt_multiply C (pt_multiply C p a) e)) \<and>
     (\<forall>a\<in>K. \<forall>b\<in>K. \<forall>t. sc_add C a b = Some t \<longrightarrow> t \<in> K \<and>
        pt_combine C (pt_public C a) (pt_public C b) = Some (pt_public C t) \<and>
        (\<forall>p\<in>V. pt_combine C (pt_multiply C p a) (pt_multiply C p b) = Some (pt_multiply C p t)))"

lemma h2c_loop_parsed: "h2c_loop C h n = Inr p \<Longrightarrow> \<exists>b. pt_parse C b = Some p"
proof (induction C h n rule: h2c_loop.induct)
  case (1 C h counter)
  show ?case
  proof (cases "counter < 2 ^ 16")
    case True
    with 1 show ?thesis
      by (cases "pt_parse C (char_of (2::nat) # sha256 C (h @ to_bytes_4_little counter))")
         (auto simp: h2c_loop.simps [of C h counter])
  next
    case False
    with "1.prems" show ?thesis by (simp add: h2c_loop.simps [of C h counter])
  qed
qed

text \<open>The laws, one by one.\<close>

lemma curve_lawsD:
  assumes "curve_laws C V K"
  shows parse_in: "\<forall>b p. pt_parse C b = Some p \<longrightarrow> p \<in> V"
    and public_in: "\<forall>k\<in>K. pt_public C k \<in> V"
    and multiply_in: "\<forall>p\<in>V. \<forall>k\<in>K. pt_multiply C p k \<in> V"
    and combine_in: "\<forall>p\<in>V. \<forall>q\<in>V. \<forall>r. pt_combine C p q = Some r \<longrightarrow> r \<in> V"
    and neg_ok: "\<forall>p\<in>V. \<exists>q\<in>V. pk_neg C p = Inr q"
    and neg_cancel: "\<forall>p\<in>V. \<forall>q\<in>V. \<forall>r q'. pt_combine C p q = Some r \<longrightarrow> pk_neg C q = Inr q' \<longrightarrow>
      pt_combine C r q' = Some p"
    and mul_dist: "\<forall>p\<in>V. \<forall>q\<in>V. \<forall>r. \<forall>k\<in>K. pt_combine C p q = Some r \<longrightarrow>
      pt_combine C (pt_multiply C p k) (pt_multiply C q k) = Some (pt_multiply C r k)"
    and mul_comm: "\<forall>k\<in>K. \<forall>l\<in>K. pt_multiply C (pt_public C k) l = pt_multiply C (pt_public C l) k"
    and scalar_parse: "\<forall>b k. sc_parse C b = Some k \<longrightarrow> k \<in> K"
    and digest_bytes: "\<forall>x k. sc_parse C (sha256 C x) = Some k \<longrightarrow> sc_bytes C k = sha256 C x"
    and scalar_mult: "\<forall>a\<in>K. \<forall>e\<in>K. \<forall>t. sc_multiply C a e = Some t \<longrightarrow> t \<in> K \<and>
      pt_public C t = pt_multiply C (pt_public C a) e \<and>
      (\<forall>p\<in>V. pt_multiply C p t = pt_multiply C (pt_multiply C p a) e)"
    and scalar_add: "\<forall>a\<in>K. \<forall>b\<in>K. \<forall>t. sc_add C a b = Some t \<longrightarrow> t \<in> K \<and>
      pt_combine C (pt_public C a) (pt_public C b) = Some (pt_public C t) \<and>
      (\<forall>p\<in>V. pt_combine C (pt_multiply C p a) (pt_multiply C p b) = Some (pt_multiply C p t))"
  by (insert assms, unfold curve_laws_def, (elim conjE, assumption)+)

lemma hash_to_curve_in:
  assumes "curve_laws C V K" "hash_to_curve C m = Inr p" shows "p \<in> V"
proof -
  obtain b where "pt_parse C b = Some p"
    using assms(2) by (auto simp: hash_to_curve_def dest!: h2c_loop_parsed)
  then show ?thesis using parse_in[OF assms(1)] by blast
qed

lemma pk_sub_cancel:
  assumes laws: "curve_laws C V K" and V: "p \<in> V" "q \<in> V" and c: "pt_combine C p q = Some r"
  shows "pk_sub C r q = Inr p"
proof -
  obtain q' where q': "pk_neg C q = Inr q'"
    using neg_ok[OF laws] V(2) by auto
  have "pt_combine C r q' = Some p"
    by (rule neg_cancel[OF laws, rule_format, OF V c q'])
  with q' show ?thesis by (simp add: pk_sub_def pk_add_def)
qed

lemma step1_aliceE:
  assumes "step1_alice C m r = Inr (B, r')"
  obtains Y where "hash_to_curve C (encode_utf8 m) = Inr Y" "pt_combine C Y (pt_public C r) = Some B" "r' = r"
  using assms by (auto simp: step1_alice_def bindR_Inr pk_add_def)

text \<open>Signing the blinded point and taking the blinding off gives \<open>a * Y\<close>.\<close>

lemma unblind:
  assumes laws: "curve_laws C V K" and K: "a \<in> K" "r \<in> K"
    and B: "step1_alice C m r = Inr (B, r')"
    and Y: "hash_to_curve C (encode_utf8 m) = Inr Y"
  shows "pt_combine C (pt_multiply C Y a) (pt_multiply C (pt_public C a) r) = Some (pt_multiply C B a)"
    and "step3_alice C (pk_mul C B a) r (pt_public C a) = Inr (pk_mul C Y a)"
proof -
  have comb: "pt_combine C Y (pt_public C r) = Some B"
    using B Y by (auto elim: step1_aliceE)
  have YV: "Y \<in> V" using laws Y by (rule hash_to_curve_in)
  have AV: "pt_public C a \<in> V" "pt_public C r \<in> V" using public_in[OF laws] K by simp_all
  have "pt_combine C (pt_multiply C Y a) (pt_multiply C (pt_public C r) a) = Some (pt_multiply C B a)"
    by (rule mul_dist[OF laws, rule_format, OF YV AV(2) K(1) comb])
  then show *: "pt_combine C (pt_multiply C Y a) (pt_multiply C (pt_public C a) r) = Some (pt_multiply C B a)"
    by (simp only: mul_comm[OF laws, rule_format, OF K])
  show "step3_alice C (pk_mul C B a) r (pt_public C a) = Inr (pk_mul C Y a)"
    unfolding step3_alice_def pk_mul_def
    by (rule pk_sub_cancel[OF laws _ _ *]) (use multiply_in[OF laws] K YV AV in simp_all)
qed

text \<open>The mint's discrete-logarithm proof passes the check, for any signed point of the curve.\<close>

lemma dleq_complete:
  assumes laws: "curve_laws C V K" and K: "a \<in> K" "p \<in> K" and B: "B \<in> V"
    and sign: "step2_bob_dleq C B a p = Inr (e, s)"
  shows "alice_verify_dleq C B (pk_mul C B a) e s (pt_public C a) = Inr True"
proof -
  obtain ae where e: "sc_parse C (hash_e C [pt_public C p, pt_multiply C B p, pt_public C a, pt_multiply C B a]) = Some e"
    and ae: "sc_multiply C a e = Some ae" and s: "sc_add C p ae = Some s"
    using sign by (auto simp: step2_bob_dleq_def bindR_Inr Let_def pk_mul_def)
  have eK: "e \<in> K" and eb: "sc_bytes C e = hash_e C [pt_public C p, pt_multiply C B p, pt_public C a, pt_multiply C B a]"
    using scalar_parse[OF laws] digest_bytes[OF laws] e by (simp, simp add: hash_e_def)
  have m: "ae \<in> K" "pt_public C ae = pt_multiply C (pt_public C a) e"
    "pt_multiply C B ae = pt_multiply C (pt_multiply C B a) e"
    using scalar_mult[OF laws, rule_format, OF K(1) eK ae] B by blast+
  have a: "pt_combine C (pt_public C p) (pt_public C ae) = Some (pt_public C s)"
    "pt_combine C (pt_multiply C B p) (pt_multiply C B ae) = Some (pt_multiply C B s)"
    using scalar_add[OF laws, rule_format, OF K(2) m(1) s] B by blast+
  have "pk_sub C (pt_public C s) (pt_public C ae) = Inr (pt_public C p)"
    by (rule pk_sub_cancel[OF laws _ _ a(1)]) (use public_in[OF laws] K m(1) in simp_all)
  moreover have "pk_sub C (pt_multiply C B s) (pt_multiply C B ae) = Inr (pt_multiply C B p)"
    by (rule pk_sub_cancel[OF laws _ _ a(2)]) (use multiply_in[OF laws] K B m(1) in simp_all)
  ultimately show ?thesis
    using eb m by (simp add: alice_verify_dleq_def pk_mul_def)
qed

lemma carol_complete:
  assumes laws: "curve_laws C V K" and K: "a \<in> K" "r \<in> K" "p \<in> K"
    and B: "step1_alice C m r = Inr (B, r')" and sign: "step2_bob_dleq C B a p = Inr (e, s)"
    and Y: "hash_to_curve C (encode_utf8 m) = Inr Y"
  shows "carol_verify_dleq C m r (pk_mul C Y a) e s (pt_public C a) = Inr True"
proof -
  have comb: "pt_combine C Y (pt_public C r) = Some B"
    using B Y by (auto elim: step1_aliceE)
  have YV: "Y \<in> V" using laws Y by (rule hash_to_curve_in)
  have "B \<in> V"
    using combine_in[OF laws] comb YV public_in[OF laws] K(2) by blast
  then have "alice_verify_dleq C B (pk_mul C B a) e s (pt_public C a) = Inr True"
    using dleq_complete[OF laws K(1,3) _ sign] by simp
  then show ?thesis
    using unblind(1)[OF laws K(1,2) B Y] Y comb
    by (simp add: carol_verify_dleq_def pk_add_def pk_mul_def)
qed

section \<open>A small curve\<close>

text \<open>
  The points \<open>1, 2, 3, 4\<close> modulo 5 under addition, for the witnesses: the compressed form of a
  point is a parity byte and the smaller of the point and its negation. The hash gives one of two
  bytes; it tells secrets of different parity apart.
\<close>

definition z5_hash :: "string \<Rightarrow> string" where
  "z5_hash s = (case s of
     [] \<Rightarrow> [char_of (1::nat)]
   | c # cs \<Rightarrow> if c = CHR ''S'' then [char_of (1 + (sum_list (List.map of_char s) mod 2) :: nat)]
               else if c = char_of (2::nat) then [c] else [char_of (1::nat)])"

definition z5_curve :: curve where
  "z5_curve =
     \<lparr>pt_parse = (\<lambda>b. case b of
         [f, x] \<Rightarrow> if f = char_of (2::nat) \<and> x = char_of (1::nat) then Some 1
                   else if f = char_of (2::nat) \<and> x = char_of (2::nat) then Some 2
                   else if f = char_of (3::nat) \<and> x = char_of (2::nat) then Some 3
                   else if f = char_of (3::nat) \<and> x = char_of (1::nat) then Some 4 else None
       | _ \<Rightarrow> None),
      pt_format = (\<lambda>p. if p mod 5 \<le> 2 then [char_of (2::nat), char_of (nat (p mod 5))]
                       else [char_of (3::nat), char_of (nat (5 - p mod 5))]),
      pt_format_unc = (\<lambda>p. [char_of (4::nat), char_of (nat (p mod 5))]),
      pt_combine = (\<lambda>p q. if (p + q) mod 5 = 0 then None else Some ((p + q) mod 5)),
      pt_multiply = (\<lambda>p k. (p * k) mod 5),
      pt_public = (\<lambda>k. k mod 5),
      sc_parse = (\<lambda>b. case b of
         [c] \<Rightarrow> if c = char_of (1::nat) then Some 1 else if c = char_of (2::nat) then Some 2
                else if c = char_of (3::nat) then Some 3 else if c = char_of (4::nat) then Some 4 else None
       | _ \<Rightarrow> None),
      sc_bytes = (\<lambda>k. [char_of (nat k)]),
      sc_add = (\<lambda>a b. if (a + b) mod 5 = 0 then None else Some ((a + b) mod 5)),
      sc_multiply = (\<lambda>a b. if (a * b) mod 5 = 0 then None else Some ((a * b) mod 5)),
      sha256 = z5_hash,
      xonly_verify = (\<lambda>pk sig msg. Some (sig = pk @ msg))\<rparr>"

lemma z5_curve_laws: "curve_laws z5_curve {1, 2, 3, 4} {1, 2, 3, 4}"
  unfolding curve_laws_def
proof (intro conjI)
  show "\<forall>b p. pt_parse z5_curve b = Some p \<longrightarrow> p \<in> {1, 2, 3, 4}"
    by (auto simp: z5_curve_def split: list.splits if_splits)
  show "\<forall>b k. sc_parse z5_curve b = Some k \<longrightarrow> k \<in> {1, 2, 3, 4}"
    by (auto simp: z5_curve_def split: list.splits if_splits)
  show "\<forall>x k. sc_parse z5_curve (sha256 z5_curve x) = Some k \<longrightarrow> sc_bytes z5_curve k = sha256 z5_curve x"
    by (auto simp: z5_curve_def split: list.splits if_splits)
qed (simp_all add: z5_curve_def pk_neg_def)

end
