(* ===== verification/Env.thy ===== *)
theory Env
  imports Curve
begin

text \<open>
  What a request sees of the world outside the mint's own state: the settings of
  \<^verbatim>\<open>cashu/core/settings.py\<close>, the clock, the drawn nonces, the curve (theory \<open>Curve\<close>), the Lightning
  backends behind the interface of \<^verbatim>\<open>cashu/lightning/base.py\<close>, and the package \<^verbatim>\<open>bolt11\<close>.
  Everything the mint does is a function of such an \<open>env\<close>, so a theorem about all \<open>env\<close> covers
  every answer of the outside world.

  The clock is in microseconds: \<^verbatim>\<open>time.time()\<close> is \<open>time_us / 1000000\<close>, \<^verbatim>\<open>int(time.time())\<close> is
  \<open>now_s\<close>. \<open>set_order\<close> is the order in which Python iterates over the set of a list's elements.
\<close>

section \<open>Lightning backends\<close>

datatype payment_result = PR_settled | PR_failed | PR_pending | PR_unknown

record payment_response =
  py_result :: payment_result
  py_checking_id :: "string option"
  py_fee :: "amount option"
  py_preimage :: "string option"
  py_error_message :: "string option"

record payment_status =
  st_result :: payment_result
  st_fee :: "amount option"
  st_preimage :: "string option"
  st_error_message :: "string option"

record payment_quote =
  pq_checking_id :: string
  pq_amount :: amount
  pq_fee :: amount

record invoice_response =
  ir_ok :: bool
  ir_checking_id :: "string option"
  ir_payment_request :: "string option"
  ir_error_message :: "string option"

text \<open>\<^verbatim>\<open>PostMeltQuoteRequest\<close>; the option holds the amount of a multi-path part.\<close>

record melt_quote_request =
  lr_unit :: string
  lr_request :: string
  lr_mpp :: "int option"

record mint_quote_request =
  mreq_unit :: string
  mreq_amount :: int
  mreq_description :: "string option"
  mreq_pubkey :: "string option"

definition is_mpp :: "melt_quote_request \<Rightarrow> bool" where
  "is_mpp r = (lr_mpp r \<noteq> None)"

definition mpp_amount :: "melt_quote_request \<Rightarrow> error + int" where
  "mpp_amount r = ofOption (PyException ''quote request is not mpp.'') (lr_mpp r)"

record backend =
  supports_mpp :: bool
  supports_description :: bool
  create_invoice :: "amount \<Rightarrow> string option \<Rightarrow> error + invoice_response"
  pay_invoice :: "melt_quote \<Rightarrow> int \<Rightarrow> error + payment_response"
  get_invoice_status :: "string \<Rightarrow> error + payment_status"
  get_payment_status :: "string \<Rightarrow> error + payment_status"
  get_payment_quote :: "melt_quote_request \<Rightarrow> error + payment_quote"

record bolt11_invoice =
  bi_date :: int
  bi_expiry :: "int option"
  bi_amount_msat :: "int option"

section \<open>The environment\<close>

record env =
  max_order :: nat
  mint_max_secret_length :: nat
  mint_max_witness_length :: nat
  mint_max_mint_bolt11_sat :: "int option"
  mint_max_melt_bolt11_sat :: "int option"
  mint_bolt11_disable_mint :: bool
  mint_bolt11_disable_melt :: bool
  mint_max_balance :: "int option"
  mint_disable_melt_on_error :: bool
  mint_watchdog_ignore_mismatch :: bool
  crv :: curve
  time_us :: int
  nonce :: "string \<Rightarrow> int"
  set_order :: "string list \<Rightarrow> string list"
  backends :: "(method_t \<times> (unit_t \<times> backend) list) list"
  bolt11_decode :: "string \<Rightarrow> error + bolt11_invoice"
  random_id :: string

definition now_s :: "env \<Rightarrow> int" where
  "now_s E = time_us E div 1000000"

text \<open>\<^verbatim>\<open>t < time.time()\<close> and \<^verbatim>\<open>t <= time.time()\<close> for an integer number of seconds \<open>t\<close>.\<close>

definition before_now :: "env \<Rightarrow> int \<Rightarrow> bool" where
  "before_now E t = (t * 1000000 < time_us E)"

definition not_after_now :: "env \<Rightarrow> int \<Rightarrow> bool" where
  "not_after_now E t = (t * 1000000 \<le> time_us E)"

lemma before_not_after: "before_now E t \<Longrightarrow> not_after_now E t"
  by (simp add: before_now_def not_after_now_def)

text \<open>An optional integer or text that Python takes for true.\<close>

definition truthy_int :: "int option \<Rightarrow> bool" where
  "truthy_int x = (case x of None \<Rightarrow> False | Some n \<Rightarrow> n \<noteq> 0)"

definition truthy_str :: "string option \<Rightarrow> bool" where
  "truthy_str x = (case x of None \<Rightarrow> False | Some s \<Rightarrow> s \<noteq> [])"

text \<open>\<^verbatim>\<open>self.backends[method][unit]\<close>.\<close>

definition get_backend :: "env \<Rightarrow> method_t \<Rightarrow> unit_t \<Rightarrow> error + backend" where
  "get_backend E m u =
     bindR (ofOption (KeyError (method_name m)) (map_of (backends E) m)) (\<lambda>us.
     ofOption (KeyError (unit_name u)) (map_of us u))"

text \<open>
  \<^verbatim>\<open>Proof.__init__\<close>: the point \<^verbatim>\<open>Y\<close> is computed from the secret, whatever the caller gave.
\<close>

definition Y_of :: "env \<Rightarrow> string \<Rightarrow> error + string" where
  "Y_of E secret = bindR (hash_to_curve (crv E) (encode_utf8 secret)) (\<lambda>p. Inr (pk_hex (crv E) p))"

definition init_proof :: "env \<Rightarrow> token_proof \<Rightarrow> error + token_proof" where
  "init_proof E p = bindR (Y_of E (p_secret p)) (\<lambda>y. Inr (p\<lparr>p_Y := y\<rparr>))"

definition wf_proof :: "env \<Rightarrow> token_proof \<Rightarrow> bool" where
  "wf_proof E p \<longleftrightarrow> Y_of E (p_secret p) = Inr (p_Y p)"

lemma init_proof_wf: "init_proof E p = Inr q \<Longrightarrow> wf_proof E q"
  by (auto simp: init_proof_def wf_proof_def bindR_Inr)

lemma wf_proof_same_secret:
  "wf_proof E p \<Longrightarrow> wf_proof E q \<Longrightarrow> p_secret p = p_secret q \<Longrightarrow> p_Y p = p_Y q"
  by (simp add: wf_proof_def)

end
