(* ===== verification/Json.thy ===== *)
theory Json
  imports Curve
begin

text \<open>
  What the code uses of Python's module \<^verbatim>\<open>json\<close>: \<^verbatim>\<open>json.loads\<close> on texts with code points below 256
  (an escape above \<^verbatim>\<open>\u00ff\<close> names a character outside the model and is refused here) and
  \<^verbatim>\<open>json.dumps\<close> with its default separators. A number with a fraction or an exponent is kept as
  its text; an object is a dictionary, where a repeated key keeps its place and takes the last value.

  The parser spends one unit of fuel per nested call and answers \<open>PFuel\<close> when it runs out;
  \<open>json_loads\<close> gives it \<open>2 * length + 2\<close> units, and \<open>json_loads_total\<close> in theory \<open>JsonFacts\<close>
  shows that this is enough.
\<close>

datatype json =
    JNull | JBool bool | JInt int | JFloat string | JStr string
  | JList "json list" | JObj "(string \<times> json) list"

datatype 'a pres = PDone 'a string | PFail | PFuel

definition json_ws :: "char \<Rightarrow> bool" where
  "json_ws c = (let n = (of_char c :: nat) in n = 32 \<or> n = 9 \<or> n = 10 \<or> n = 13)"

definition skip_ws :: "string \<Rightarrow> string" where
  "skip_ws s = dropWhile json_ws s"

definition ch :: "nat \<Rightarrow> char" where
  "ch n = char_of n"

definition hex4 :: "char \<Rightarrow> char \<Rightarrow> char \<Rightarrow> char \<Rightarrow> nat option" where
  "hex4 a b c d = (case (hex_val a, hex_val b, hex_val c, hex_val d) of
     (Some w, Some x, Some y, Some z) \<Rightarrow> Some (((w * 16 + x) * 16 + y) * 16 + z)
   | _ \<Rightarrow> None)"

text \<open>The character after a backslash, other than \<^verbatim>\<open>u\<close>.\<close>

definition unescape :: "char \<Rightarrow> char option" where
  "unescape c = (let n = (of_char c :: nat) in
     if n = 34 \<or> n = 92 \<or> n = 47 then Some c
     else if n = 98 then Some (ch 8) else if n = 102 then Some (ch 12)
     else if n = 110 then Some (ch 10) else if n = 114 then Some (ch 13)
     else if n = 116 then Some (ch 9) else None)"

definition cons_fst :: "char \<Rightarrow> (string \<times> string) option \<Rightarrow> (string \<times> string) option" where
  "cons_fst c x = map_option (\<lambda>(t, r). (c # t, r)) x"

text \<open>The rest of a string literal after its opening quote.\<close>

fun parse_str :: "string \<Rightarrow> (string \<times> string) option" where
  "parse_str [] = None"
| "parse_str (c # cs) =
     (if of_char c = (34::nat) then Some ([], cs)
      else if of_char c = (92::nat) then
        (case cs of
           [] \<Rightarrow> None
         | e # ds \<Rightarrow>
             if of_char e = (117::nat) then
               (case ds of
                  w # x # y # z # rest \<Rightarrow>
                    (case hex4 w x y z of
                       Some n \<Rightarrow> if n < 256 then cons_fst (ch n) (parse_str rest) else None
                     | None \<Rightarrow> None)
                | _ \<Rightarrow> None)
             else (case unescape e of Some u \<Rightarrow> cons_fst u (parse_str ds) | None \<Rightarrow> None))
      else if (of_char c :: nat) < 32 then None
      else cons_fst c (parse_str cs))"

text \<open>The number pattern \<^verbatim>\<open>(-?(?:0|[1-9][0-9]*))(\.[0-9]+)?([eE][-+]?[0-9]+)?\<close>.\<close>

definition frac_part :: "string \<Rightarrow> string" where
  "frac_part s = (case s of
     c # cs \<Rightarrow> if c = CHR ''.'' \<and> takeWhile is_digit cs \<noteq> [] then c # takeWhile is_digit cs else []
   | [] \<Rightarrow> [])"

definition exp_part :: "string \<Rightarrow> string" where
  "exp_part s = (case s of
     c # cs \<Rightarrow>
       if c = CHR ''e'' \<or> c = CHR ''E'' then
         (case cs of
            d # ds \<Rightarrow>
              if d = CHR ''-'' \<or> d = CHR ''+'' then
                (if takeWhile is_digit ds \<noteq> [] then c # d # takeWhile is_digit ds else [])
              else if takeWhile is_digit cs \<noteq> [] then c # takeWhile is_digit cs else []
          | [] \<Rightarrow> [])
       else []
   | [] \<Rightarrow> [])"

definition int_part :: "string \<Rightarrow> string" where
  "int_part s = (case s of
     c # cs \<Rightarrow> if c = CHR ''0'' then [c] else if is_digit c then takeWhile is_digit s else []
   | [] \<Rightarrow> [])"

definition digits_val :: "string \<Rightarrow> nat" where
  "digits_val s = foldl (\<lambda>a c. 10 * a + digit_val c) 0 s"

definition parse_num :: "string \<Rightarrow> (json \<times> string) option" where
  "parse_num s =
     (let neg = (s \<noteq> [] \<and> hd s = CHR ''-''); body = (if neg then tl s else s); i = int_part body
      in if i = [] then None
         else let r = drop (length i) body; f = frac_part r; r' = drop (length f) r; e = exp_part r';
                  rest = drop (length e) r'
              in Some (if f = [] \<and> e = []
                       then JInt (if neg then - int (digits_val i) else int (digits_val i))
                       else JFloat ((if neg then ''-'' else []) @ i @ f @ e), rest))"

definition starts :: "string \<Rightarrow> string \<Rightarrow> bool" where
  "starts p s = (take (length p) s = p)"

definition parse_atom :: "string \<Rightarrow> json pres" where
  "parse_atom s =
     (if starts ''null'' s then PDone JNull (drop 4 s)
      else if starts ''true'' s then PDone (JBool True) (drop 4 s)
      else if starts ''false'' s then PDone (JBool False) (drop 5 s)
      else case parse_num s of
        Some (v, r) \<Rightarrow> PDone v r
      | None \<Rightarrow>
          if starts ''NaN'' s then PDone (JFloat ''NaN'') (drop 3 s)
          else if starts ''Infinity'' s then PDone (JFloat ''Infinity'') (drop 8 s)
          else if starts ''-Infinity'' s then PDone (JFloat ''-Infinity'') (drop 9 s)
          else PFail)"

fun parse_value :: "nat \<Rightarrow> string \<Rightarrow> json pres"
  and parse_elems :: "nat \<Rightarrow> json list \<Rightarrow> string \<Rightarrow> json pres"
  and parse_pairs :: "nat \<Rightarrow> (string \<times> json) list \<Rightarrow> string \<Rightarrow> json pres"
where
  "parse_value 0 s = PFuel"
| "parse_value (Suc n) s =
     (case s of
        [] \<Rightarrow> PFail
      | c # cs \<Rightarrow>
          if of_char c = (34::nat) then
            (case parse_str cs of Some (t, r) \<Rightarrow> PDone (JStr t) r | None \<Rightarrow> PFail)
          else if c = CHR ''{'' then
            (case skip_ws cs of
               [] \<Rightarrow> PFail
             | d # ds \<Rightarrow> if d = CHR ''}'' then PDone (JObj []) ds else parse_pairs n [] (d # ds))
          else if c = CHR ''['' then
            (case skip_ws cs of
               [] \<Rightarrow> PFail
             | d # ds \<Rightarrow> if d = CHR '']'' then PDone (JList []) ds else parse_elems n [] (d # ds))
          else parse_atom s)"
| "parse_elems 0 acc s = PFuel"
| "parse_elems (Suc n) acc s =
     (case parse_value n s of
        PDone v r \<Rightarrow>
          (case skip_ws r of
             [] \<Rightarrow> PFail
           | d # ds \<Rightarrow>
               if d = CHR '']'' then PDone (JList (acc @ [v])) ds
               else if d = CHR '','' then parse_elems n (acc @ [v]) (skip_ws ds)
               else PFail)
      | PFail \<Rightarrow> PFail
      | PFuel \<Rightarrow> PFuel)"
| "parse_pairs 0 acc s = PFuel"
| "parse_pairs (Suc n) acc s =
     (case s of
        [] \<Rightarrow> PFail
      | q # cs \<Rightarrow>
          if of_char q \<noteq> (34::nat) then PFail
          else case parse_str cs of
            None \<Rightarrow> PFail
          | Some (k, r) \<Rightarrow>
              (case skip_ws r of
                 [] \<Rightarrow> PFail
               | d # ds \<Rightarrow>
                   if d \<noteq> CHR '':'' then PFail
                   else case parse_value n (skip_ws ds) of
                     PDone v r' \<Rightarrow>
                       (case skip_ws r' of
                          [] \<Rightarrow> PFail
                        | e # es \<Rightarrow>
                            if e = CHR ''}'' then PDone (JObj (AList.update k v acc)) es
                            else if e = CHR '','' then parse_pairs n (AList.update k v acc) (skip_ws es)
                            else PFail)
                   | PFail \<Rightarrow> PFail
                   | PFuel \<Rightarrow> PFuel))"

definition json_loads :: "string \<Rightarrow> error + json" where
  "json_loads s =
     (case parse_value (2 * length s + 2) (skip_ws s) of
        PDone v r \<Rightarrow> if skip_ws r = [] then Inr v else Inl (ValueError ''Extra data'')
      | PFail \<Rightarrow> Inl (ValueError ''Expecting value'')
      | PFuel \<Rightarrow> Inl Diverges)"

section \<open>json.dumps\<close>

definition dump_char :: "char \<Rightarrow> string" where
  "dump_char c = (let n = (of_char c :: nat) in
     if n = 34 then [ch 92, ch 34] else if n = 92 then [ch 92, ch 92]
     else if n = 10 then [ch 92, CHR ''n''] else if n = 13 then [ch 92, CHR ''r'']
     else if n = 9 then [ch 92, CHR ''t''] else if n = 12 then [ch 92, CHR ''f'']
     else if n = 8 then [ch 92, CHR ''b'']
     else if 32 \<le> n \<and> n \<le> 126 then [c]
     else [ch 92, CHR ''u'', CHR ''0'', CHR ''0'', hex_digit (n div 16), hex_digit (n mod 16)])"

definition dump_str :: "string \<Rightarrow> string" where
  "dump_str s = ch 34 # concat (List.map dump_char s) @ [ch 34]"

fun sep_by :: "string \<Rightarrow> string list \<Rightarrow> string" where
  "sep_by sep [] = []"
| "sep_by sep [x] = x"
| "sep_by sep (x # y # ys) = x @ sep @ sep_by sep (y # ys)"

text \<open>\<^verbatim>\<open>json.dumps(j, separators=(item, key))\<close>; the default separators are a comma and a colon, each with a
  space.\<close>

fun dumps_sep :: "string \<Rightarrow> string \<Rightarrow> json \<Rightarrow> string" where
  "dumps_sep item key JNull = ''null''"
| "dumps_sep item key (JBool b) = (if b then ''true'' else ''false'')"
| "dumps_sep item key (JInt i) = str_int i"
| "dumps_sep item key (JFloat s) = s"
| "dumps_sep item key (JStr s) = dump_str s"
| "dumps_sep item key (JList vs) = ''['' @ sep_by item (List.map (dumps_sep item key) vs) @ '']''"
| "dumps_sep item key (JObj kvs) =
     ''{'' @ sep_by item (List.map (\<lambda>(k, v). dump_str k @ key @ dumps_sep item key v) kvs) @ ''}''"

definition json_dumps :: "json \<Rightarrow> string" where
  "json_dumps j = dumps_sep '', '' '': '' j"

end
