(* ===== verification/Secrets.thy ===== *)
theory Secrets
  imports Env Json
begin

text \<open>
  Spending conditions as data: \<^verbatim>\<open>cashu/core/secret.py\<close> (tags, secrets, their text form),
  \<^verbatim>\<open>cashu/core/p2pk.py\<close>, \<^verbatim>\<open>cashu/core/htlc.py\<close>, the witnesses of \<^verbatim>\<open>cashu/core/base.py\<close> and the
  hash-lock check of \<^verbatim>\<open>cashu/core/nuts/nut14.py\<close>.

  Where the code converts a parsed text with the data classes of \<^verbatim>\<open>pydantic\<close>, the conversions here
  are the checks that class makes: a missing or ill-typed field is a \<open>ValueError\<close>, a further field
  is ignored.
\<close>

section \<open>Tags\<close>

type_synonym tags = "string list list"

text \<open>\<^verbatim>\<open>tags[key] = value\<close> for a text and for a list of texts.\<close>

definition set_tag :: "tags \<Rightarrow> string \<Rightarrow> string \<Rightarrow> tags" where
  "set_tag ts key v = ts @ [[key, v]]"

definition set_tag_list :: "tags \<Rightarrow> string \<Rightarrow> string list \<Rightarrow> tags" where
  "set_tag_list ts key vs = ts @ [key # vs]"

fun get_tag :: "tags \<Rightarrow> string \<Rightarrow> error + string option" where
  "get_tag [] name = Inr None"
| "get_tag ([] # ts) name = Inl IndexError"
| "get_tag ((k # vs) # ts) name =
     (if k = name then (case vs of [] \<Rightarrow> Inl IndexError | v # _ \<Rightarrow> Inr (Some v)) else get_tag ts name)"

definition get_tag_int :: "tags \<Rightarrow> string \<Rightarrow> error + int option" where
  "get_tag_int ts name =
     bindR (get_tag ts name) (\<lambda>t. case t of None \<Rightarrow> Inr None | Some v \<Rightarrow> Inr (py_int v))"

fun get_tag_all :: "tags \<Rightarrow> string \<Rightarrow> error + string list" where
  "get_tag_all [] name = Inr []"
| "get_tag_all ([] # ts) name = Inl IndexError"
| "get_tag_all ((k # vs) # ts) name =
     bindR (get_tag_all ts name) (\<lambda>r. Inr (if k = name then vs @ r else r))"

section \<open>Secrets\<close>

datatype secret_kind = Kind_P2PK | Kind_HTLC

definition secret_kind_of :: "string \<Rightarrow> error + secret_kind" where
  "secret_kind_of k =
     (if k = ''P2PK'' then Inr Kind_P2PK else if k = ''HTLC'' then Inr Kind_HTLC
      else Inl (ValueError (k @ '' is not a valid SecretKind'')))"

record secret =
  s_kind :: string
  s_data :: string
  s_tags :: tags
  s_nonce :: "string option"

text \<open>\<^verbatim>\<open>Secret.__eq__\<close>: the nonce does not count.\<close>

definition secret_eq :: "secret \<Rightarrow> secret \<Rightarrow> bool" where
  "secret_eq a b \<longleftrightarrow> s_kind a = s_kind b \<and> s_data a = s_data b \<and> s_tags a = s_tags b"

definition json_str :: "json \<Rightarrow> error + string" where
  "json_str j = (case j of JStr s \<Rightarrow> Inr s | _ \<Rightarrow> Inl (ValueError ''Input should be a valid string''))"

definition json_list :: "json \<Rightarrow> error + json list" where
  "json_list j = (case j of JList xs \<Rightarrow> Inr xs | _ \<Rightarrow> Inl (ValueError ''Input should be a valid list''))"

text \<open>\<^verbatim>\<open>Tags(tags=x)\<close>: anything that Python takes for false gives no tags.\<close>

definition json_falsy :: "json option \<Rightarrow> bool" where
  "json_falsy x = (case x of
     None \<Rightarrow> True | Some JNull \<Rightarrow> True | Some (JBool b) \<Rightarrow> \<not> b | Some (JInt i) \<Rightarrow> i = 0
   | Some (JStr s) \<Rightarrow> s = [] | Some (JList l) \<Rightarrow> l = [] | Some (JObj kvs) \<Rightarrow> kvs = [] | Some (JFloat _) \<Rightarrow> False)"

definition mk_tags :: "json option \<Rightarrow> error + tags" where
  "mk_tags x =
     (if json_falsy x then Inr []
      else case x of None \<Rightarrow> Inr [] | Some j \<Rightarrow>
        bindR (json_list j) (mapR (\<lambda>t. bindR (json_list t) (mapR json_str))))"

text \<open>\<^verbatim>\<open>Secret.deserialize\<close>. The unpacked text must be a list of two, the second a dictionary.\<close>

definition deserialize :: "string \<Rightarrow> error + secret" where
  "deserialize from_proof =
     bindR (json_loads from_proof) (\<lambda>j.
     case j of
       JList [kind, JObj kwargs] \<Rightarrow>
         bindR (ofOption (KeyError ''data'') (map_of kwargs ''data'')) (\<lambda>data.
         bindR (ofOption (KeyError ''nonce'') (map_of kwargs ''nonce'')) (\<lambda>nonce.
         bindR (mk_tags (map_of kwargs ''tags'')) (\<lambda>tags.
         bindR (json_str kind) (\<lambda>k.
         bindR (json_str data) (\<lambda>d.
         bindR (case nonce of JNull \<Rightarrow> Inr None | _ \<Rightarrow> bindR (json_str nonce) (\<lambda>n. Inr (Some n))) (\<lambda>n.
         Inr \<lparr>s_kind = k, s_data = d, s_tags = tags, s_nonce = n\<rparr>))))))
     | _ \<Rightarrow> Inl (ValueError ''not a secret''))"

text \<open>\<^verbatim>\<open>Secret.serialize\<close>; \<open>drawn\<close> is the nonce drawn when the secret has none.\<close>

definition serialize :: "secret \<Rightarrow> string \<Rightarrow> string" where
  "serialize s drawn =
     json_dumps (JList [JStr (s_kind s),
       JObj ([(''data'', JStr (s_data s)),
              (''nonce'', JStr (case s_nonce s of None \<Rightarrow> drawn | Some n \<Rightarrow> if n = [] then drawn else n))] @
             (if s_tags s = [] then []
              else [(''tags'', JList (List.map (\<lambda>t. JList (List.map JStr t)) (s_tags s)))]))])"

section \<open>P2PK and HTLC secrets\<close>

datatype sig_flag = SIG_INPUTS | SIG_ALL

definition sig_flag_of :: "string \<Rightarrow> error + sig_flag" where
  "sig_flag_of f =
     (if f = ''SIG_INPUTS'' then Inr SIG_INPUTS else if f = ''SIG_ALL'' then Inr SIG_ALL
      else Inl (ValueError (f @ '' is not a valid SigFlags'')))"

text \<open>\<^verbatim>\<open>P2PKSecret.from_secret\<close> and \<^verbatim>\<open>HTLCSecret.from_secret\<close> check the kind and copy the secret.\<close>

definition p2pk_from_secret :: "secret \<Rightarrow> error + secret" where
  "p2pk_from_secret s = bindR (secret_kind_of (s_kind s)) (\<lambda>k.
     bindR (checkR (k = Kind_P2PK) (AssertionError ''Secret is not a P2PK secret'')) (\<lambda>_. Inr s))"

definition htlc_from_secret :: "secret \<Rightarrow> error + secret" where
  "htlc_from_secret s = bindR (secret_kind_of (s_kind s)) (\<lambda>k.
     bindR (checkR (k = Kind_HTLC) (AssertionError ''Secret is not a HTLC secret'')) (\<lambda>_. Inr s))"

definition py_int_err :: "string \<Rightarrow> error + int" where
  "py_int_err s = ofOption (ValueError ''invalid literal for int() with base 10'') (py_int s)"

definition locktime :: "secret \<Rightarrow> error + int option" where
  "locktime s = bindR (get_tag (s_tags s) ''locktime'') (\<lambda>t.
     if truthy_str t then bindR (py_int_err (the t)) (\<lambda>n. Inr (Some n)) else Inr None)"

definition sigflag :: "secret \<Rightarrow> error + sig_flag" where
  "sigflag s = bindR (get_tag (s_tags s) ''sigflag'') (\<lambda>t.
     if truthy_str t then sig_flag_of (the t) else Inr SIG_INPUTS)"

definition n_sigs :: "secret \<Rightarrow> error + int" where
  "n_sigs s = bindR (get_tag_int (s_tags s) ''n_sigs'') (\<lambda>n.
     Inr (if truthy_int n then the n else 1))"

definition n_sigs_refund :: "secret \<Rightarrow> error + int option" where
  "n_sigs_refund s = get_tag_int (s_tags s) ''n_sigs_refund''"

text \<open>\<^verbatim>\<open>x or 1\<close>.\<close>

definition or_one :: "int option \<Rightarrow> int" where
  "or_one x = (if truthy_int x then the x else 1)"

text \<open>\<^verbatim>\<open>verify_schnorr_signature(message.encode("utf-8"), PublicKey(bytes.fromhex(pubkey)),
  bytes.fromhex(signature))\<close>.\<close>

definition verify_schnorr_signature :: "env \<Rightarrow> string \<Rightarrow> string \<Rightarrow> string \<Rightarrow> error + bool" where
  "verify_schnorr_signature E message pubkey signature =
     bindR (pk_from_hex (crv E) pubkey) (\<lambda>pk.
     bindR (ofOption (ValueError ''non-hexadecimal number found in fromhex() arg'') (from_hex signature)) (\<lambda>sig.
     ofOption (ValueError ''verify'')
       (xonly_verify (crv E) (tl (pt_format (crv E) pk)) sig (sha256 (crv E) (encode_utf8 message)))))"

section \<open>Witnesses\<close>

definition json_obj :: "json \<Rightarrow> error + (string \<times> json) list" where
  "json_obj j = (case j of JObj kvs \<Rightarrow> Inr kvs | _ \<Rightarrow> Inl (ValueError ''argument after ** must be a mapping''))"

definition p2pk_witness_signatures :: "string \<Rightarrow> error + string list" where
  "p2pk_witness_signatures w =
     bindR (json_loads w) (\<lambda>j. bindR (json_obj j) (\<lambda>kvs.
     bindR (ofOption (ValueError ''Field required'') (map_of kvs ''signatures'')) (\<lambda>sigs.
     bindR (json_list sigs) (mapR json_str))))"

definition opt_field :: "(json \<Rightarrow> error + 'a) \<Rightarrow> json option \<Rightarrow> error + 'a option" where
  "opt_field f x = (case x of None \<Rightarrow> Inr None | Some JNull \<Rightarrow> Inr None
     | Some j \<Rightarrow> bindR (f j) (\<lambda>v. Inr (Some v)))"

definition htlc_witness :: "string \<Rightarrow> error + string option \<times> string list option" where
  "htlc_witness w =
     bindR (json_loads w) (\<lambda>j. bindR (json_obj j) (\<lambda>kvs.
     bindR (opt_field json_str (map_of kvs ''preimage'')) (\<lambda>pre.
     bindR (opt_field (\<lambda>l. bindR (json_list l) (mapR json_str)) (map_of kvs ''signatures'')) (\<lambda>sigs.
     Inr (pre, sigs)))))"

text \<open>\<^verbatim>\<open>Proof.p2pksigs\<close> and \<^verbatim>\<open>Proof.htlcpreimage\<close>.\<close>

definition p2pksigs :: "token_proof \<Rightarrow> error + string list" where
  "p2pksigs p =
     bindR (checkR (truthy_str (p_witness p)) (AssertionError ''Witness is missing for p2pk signature'')) (\<lambda>_.
     Inr (case p2pk_witness_signatures (the (p_witness p)) of Inl _ \<Rightarrow> [] | Inr sigs \<Rightarrow> sigs))"

definition htlcpreimage :: "token_proof \<Rightarrow> error + string option" where
  "htlcpreimage p =
     bindR (checkR (truthy_str (p_witness p)) (AssertionError ''Witness is missing for htlc preimage'')) (\<lambda>_.
     Inr (case htlc_witness (the (p_witness p)) of Inl _ \<Rightarrow> None | Inr (pre, _) \<Rightarrow> pre))"

definition htlcsigs :: "token_proof \<Rightarrow> error + string list option" where
  "htlcsigs p =
     bindR (checkR (truthy_str (p_witness p)) (AssertionError ''Witness is missing for htlc signatures'')) (\<lambda>_.
     Inr (case htlc_witness (the (p_witness p)) of Inl _ \<Rightarrow> None | Inr (_, sigs) \<Rightarrow> sigs))"

section \<open>Hash locks\<close>

definition preimage_matches :: "env \<Rightarrow> string \<Rightarrow> string \<Rightarrow> error + unit" where
  "preimage_matches E preimage data =
     bindR (checkR (length preimage = 64) (tx_error ''HTLC preimage must be 64 characters hex.'')) (\<lambda>_.
     case (from_hex preimage, from_hex data) of
       (Some pb, Some db) \<Rightarrow> checkR (sha256 (crv E) pb = db) (tx_error ''HTLC preimage does not match.'')
     | _ \<Rightarrow> Inl (tx_error ''invalid preimage for HTLC: not a hex string.''))"

definition verify_htlc_spending_conditions :: "env \<Rightarrow> token_proof \<Rightarrow> error + bool" where
  "verify_htlc_spending_conditions E p =
     bindR (deserialize (p_secret p)) (\<lambda>s.
     bindR (checkR (s_kind s = ''HTLC'') (tx_error ''not an HTLC secret.'')) (\<lambda>_.
     bindR (htlc_from_secret s) (\<lambda>h.
     bindR (htlcpreimage p) (\<lambda>pre.
     bindR (locktime h) (\<lambda>lt.
     let locktime_passed = (case lt of None \<Rightarrow> False | Some t \<Rightarrow> not_after_now E t)
     in if truthy_str pre then bindR (preimage_matches E (the pre) (s_data h)) (\<lambda>_. Inr True)
        else if locktime_passed then Inr True
        else Inl (tx_error ''no HTLC preimage provided''))))))"

lemma secret_eq_refl [simp]: "secret_eq s s"
  by (simp add: secret_eq_def)

lemma secret_eq_sym: "secret_eq s t \<Longrightarrow> secret_eq t s"
  by (simp add: secret_eq_def)

lemma secret_eq_trans: "secret_eq s t \<Longrightarrow> secret_eq t u \<Longrightarrow> secret_eq s u"
  by (simp add: secret_eq_def)

end
