(* ===== verification/Conditions.thy ===== *)
theory Conditions
  imports Secrets
begin

text \<open>
  \<^verbatim>\<open>LedgerSpendingConditions\<close> of \<^verbatim>\<open>cashu/mint/conditions.py\<close>: the checks of P2PK and HTLC spending
  conditions, for one input (\<^verbatim>\<open>SIG_INPUTS\<close>) and for all inputs and outputs together
  (\<^verbatim>\<open>SIG_ALL\<close>). A method returns a truth value or raises; both are kept apart, because callers
  treat them differently.
\<close>

section \<open>Counting signatures\<close>

text \<open>
  The loop over the signatures for one key: the first valid one is taken out of the list.
  \<open>valid s\<close> is the signature check; it may raise.
\<close>

fun take_valid :: "(string \<Rightarrow> error + bool) \<Rightarrow> string list \<Rightarrow> error + string list option" where
  "take_valid valid [] = Inr None"
| "take_valid valid (s # ss) =
     bindR (valid s) (\<lambda>b. if b then Inr (Some ss)
       else bindR (take_valid valid ss) (\<lambda>r. Inr (map_option (\<lambda>rest. s # rest) r)))"

text \<open>The loop over the keys.\<close>

fun count_valid :: "(string \<Rightarrow> string \<Rightarrow> error + bool) \<Rightarrow> string list \<Rightarrow> string list \<Rightarrow> error + nat" where
  "count_valid valid [] sigs = Inr 0"
| "count_valid valid (k # ks) sigs =
     bindR (take_valid (valid k) sigs) (\<lambda>r. case r of
       None \<Rightarrow> count_valid valid ks sigs
     | Some rest \<Rightarrow> bindR (count_valid valid ks rest) (\<lambda>n. Inr (Suc n)))"

definition threshold_error :: "nat \<Rightarrow> int \<Rightarrow> error" where
  "threshold_error n required =
     tx_error (''signature threshold not met. '' @ str_int (int n) @ '' < '' @ str_int required @ ''.'')"

definition not_enough_error :: "string list \<Rightarrow> string list \<Rightarrow> int \<Rightarrow> error" where
  "not_enough_error pubkeys signatures n =
     tx_error (''not enough pubkeys ('' @ str_int (int (length pubkeys)) @ '') or signatures ('' @
       str_int (int (length signatures)) @ '') present for n_sigs ('' @ str_int n @ '').'')"

section \<open>One input\<close>

definition verify_p2pk_signatures :: "env \<Rightarrow> string \<Rightarrow> string list \<Rightarrow> string list \<Rightarrow> int \<Rightarrow> error + bool" where
  "verify_p2pk_signatures E message_to_sign pubkeys0 signatures0 n_required0 =
     (let pubkeys = List.map lower pubkeys0; signatures = List.map lower signatures0;
          n_required = (if n_required0 = 0 then 1 else n_required0)
      in bindR (checkR (distinct pubkeys) (tx_error ''pubkeys must be unique.'')) (\<lambda>_.
         bindR (checkR (signatures \<noteq> []) (tx_error ''no signatures in proof.'')) (\<lambda>_.
         bindR (checkR (distinct signatures) (tx_error ''signatures must be unique.'')) (\<lambda>_.
         bindR (checkR (n_required > 0) (tx_error ''n_sigs must be positive.'')) (\<lambda>_.
         bindR (checkR (\<not> (int (length pubkeys) < n_required \<or> int (length signatures) < n_required))
                       (not_enough_error pubkeys signatures n_required)) (\<lambda>_.
         bindR (count_valid (verify_schnorr_signature E message_to_sign) (set_order E pubkeys) signatures) (\<lambda>n.
         bindR (checkR (\<not> int n < n_required) (threshold_error n n_required)) (\<lambda>_.
         Inr True))))))))"

text \<open>\<^verbatim>\<open>try: ... except Exception as e: exception_to_raise = e\<close>: a path of spending.\<close>

definition try_path :: "env \<Rightarrow> string \<Rightarrow> string list \<Rightarrow> token_proof \<Rightarrow> int \<Rightarrow> error + bool" where
  "try_path E message pubkeys p n =
     bindR (p2pksigs p) (\<lambda>sigs. verify_p2pk_signatures E message pubkeys sigs n)"

definition verify_p2pk_sig_inputs :: "env \<Rightarrow> token_proof \<Rightarrow> secret \<Rightarrow> string option \<Rightarrow> error + bool" where
  "verify_p2pk_sig_inputs E p sec message =
     (let msg = (if truthy_str message then the message else p_secret p)
      in bindR (get_tag (s_tags sec) ''sigflag'') (\<lambda>flag.
         if truthy_str flag \<and> flag \<noteq> Some ''SIG_INPUTS'' then Inr True
         else bindR (secret_kind_of (s_kind sec)) (\<lambda>kind.
         bindR (get_tag_all (s_tags sec) ''pubkeys'') (\<lambda>more.
         bindR (n_sigs sec) (\<lambda>n.
         let main_pubkeys = (if kind = Kind_P2PK then [s_data sec] else []) @ more;
             main = (if main_pubkeys = [] then None
                     else Some (try_path E msg main_pubkeys p (if n = 0 then 1 else n)))
         in if main = Some (Inr True) then Inr True
            else let exc = (case main of Some (Inl e) \<Rightarrow> Some e | _ \<Rightarrow> None)
            in bindR (locktime sec) (\<lambda>lt.
               if truthy_int lt \<and> before_now E (the lt) then
                 bindR (get_tag_all (s_tags sec) ''refund'') (\<lambda>refund.
                 bindR (n_sigs_refund sec) (\<lambda>nr.
                 if refund = [] then Inr True
                 else case try_path E msg refund p (or_one nr) of
                   Inr True \<Rightarrow> Inr True
                 | Inr False \<Rightarrow> (case exc of Some e \<Rightarrow> Inl e | None \<Rightarrow> Inr True)
                 | Inl e \<Rightarrow> Inl e))
               else (case exc of Some e \<Rightarrow> Inl e | None \<Rightarrow> Inr True)))))))"

definition verify_input_spending_conditions :: "env \<Rightarrow> token_proof \<Rightarrow> error + bool" where
  "verify_input_spending_conditions E p =
     (case deserialize (p_secret p) of
        Inl _ \<Rightarrow>
          bindR (checkR (p_witness p = None)
                 (tx_error ''witness data not allowed without a spending condition.'')) (\<lambda>_. Inr True)
      | Inr sec \<Rightarrow>
          bindR (secret_kind_of (s_kind sec)) (\<lambda>kind.
          if kind = Kind_P2PK then
            bindR (p2pk_from_secret sec) (\<lambda>s. verify_p2pk_sig_inputs E p s None)
          else if kind = Kind_HTLC then
            bindR (htlc_from_secret sec) (\<lambda>s.
            bindR (verify_htlc_spending_conditions E p) (\<lambda>_. verify_p2pk_sig_inputs E p s None))
          else Inr True))"

section \<open>All inputs and outputs together\<close>

definition requires_sigall :: "token_proof \<Rightarrow> bool" where
  "requires_sigall p =
     (case deserialize (p_secret p) of
        Inl _ \<Rightarrow> False
      | Inr sec \<Rightarrow> bindR (p2pk_from_secret sec) sigflag = Inr SIG_ALL \<or>
                    bindR (htlc_from_secret sec) sigflag = Inr SIG_ALL)"

definition inputs_require_sigall :: "token_proof list \<Rightarrow> bool" where
  "inputs_require_sigall ps = list_ex requires_sigall ps"

definition verify_all_secrets_equal_and_return :: "token_proof list \<Rightarrow> error + secret" where
  "verify_all_secrets_equal_and_return ps =
     bindR (mapR (\<lambda>p. deserialize (p_secret p)) ps) (\<lambda>secrets.
     case secrets of
       [] \<Rightarrow> Inl (tx_error ''not all secrets are equal.'')
     | s # ss \<Rightarrow> bindR (checkR (list_all (secret_eq s) ss) (tx_error ''not all secrets are equal.'')) (\<lambda>_. Inr s))"

definition has_sig_all_tag :: "token_proof \<Rightarrow> bool" where
  "has_sig_all_tag p =
     (bindR (deserialize (p_secret p)) (\<lambda>sec. get_tag (s_tags sec) ''sigflag'') = Inr (Some ''SIG_ALL''))"

definition check_at_least_one_sig_all :: "token_proof list \<Rightarrow> bool" where
  "check_at_least_one_sig_all ps = list_ex has_sig_all_tag ps"

definition sigall_message :: "token_proof list \<Rightarrow> blinded_message list \<Rightarrow> string" where
  "sigall_message ps outs = join (List.map p_secret ps @ List.map bm_B outs)"

text \<open>The keys and the number of signatures a lock asks for now.\<close>

definition sigall_lock :: "env \<Rightarrow> secret \<Rightarrow> secret_kind \<Rightarrow> error + string list \<times> int" where
  "sigall_lock E s kind =
     bindR (get_tag_all (s_tags s) ''pubkeys'') (\<lambda>more.
     bindR (n_sigs s) (\<lambda>n.
     bindR (locktime s) (\<lambda>lt.
     if truthy_int lt \<and> before_now E (the lt) then
       bindR (get_tag_all (s_tags s) ''refund'') (\<lambda>refund.
       bindR (n_sigs_refund s) (\<lambda>nr. Inr (refund, or_one nr)))
     else Inr ((if kind = Kind_P2PK then [s_data s] else []) @ more, if n = 0 then 1 else n))))"

text \<open>The validation of the signatures of the first input.\<close>

definition check_sigall_signatures ::
  "env \<Rightarrow> string \<Rightarrow> string list \<Rightarrow> int \<Rightarrow> token_proof list \<Rightarrow> error + bool" where
  "check_sigall_signatures E message pubkeys0 n_required ps =
     (let pubkeys = List.map lower pubkeys0
      in bindR (checkR (distinct pubkeys) (tx_error ''pubkeys must be unique.'')) (\<lambda>_.
         bindR (checkR (n_required > 0) (tx_error ''n_sigs must be positive.'')) (\<lambda>_.
         case ps of [] \<Rightarrow> Inl IndexError | first # _ \<Rightarrow>
         bindR (checkR (truthy_str (p_witness first)) (tx_error ''no witness in proof.'')) (\<lambda>_.
         bindR (p2pk_witness_signatures (the (p_witness first))) (\<lambda>sigs0.
         let signatures = List.map lower sigs0
         in bindR (checkR (signatures \<noteq> []) (tx_error ''no signatures in proof.'')) (\<lambda>_.
            bindR (checkR (distinct signatures) (tx_error ''signatures must be unique.'')) (\<lambda>_.
            bindR (checkR (\<not> (int (length pubkeys) < n_required \<or> int (length signatures) < n_required))
                          (not_enough_error pubkeys signatures n_required)) (\<lambda>_.
            bindR (count_valid (verify_schnorr_signature E message) (set_order E pubkeys) signatures) (\<lambda>n.
            bindR (checkR (\<not> int n < n_required) (threshold_error n n_required)) (\<lambda>_.
            Inr True))))))))))"

definition verify_sigall_spending_conditions ::
  "env \<Rightarrow> token_proof list \<Rightarrow> blinded_message list \<Rightarrow> string option \<Rightarrow> error + bool" where
  "verify_sigall_spending_conditions E ps outs message =
     (if \<not> check_at_least_one_sig_all ps then Inr True
      else case verify_all_secrets_equal_and_return ps of
        Inl _ \<Rightarrow> Inr False
      | Inr sec \<Rightarrow>
          bindR (secret_kind_of (s_kind sec)) (\<lambda>kind.
          bindR (if kind = Kind_P2PK then p2pk_from_secret sec else htlc_from_secret sec) (\<lambda>s.
          bindR (sigall_lock E s kind) (\<lambda>(pubkeys, n).
          if pubkeys = [] then Inr True
          else check_sigall_signatures E
                 (if truthy_str message then the message else sigall_message ps outs) pubkeys n ps))))"

definition verify_input_output_spending_conditions ::
  "env \<Rightarrow> token_proof list \<Rightarrow> blinded_message list \<Rightarrow> string option \<Rightarrow> error + bool" where
  "verify_input_output_spending_conditions E ps outs message =
     (if \<not> inputs_require_sigall ps then Inr True
      else bindR (verify_all_secrets_equal_and_return ps) (\<lambda>_.
           verify_sigall_spending_conditions E ps outs message))"

end
