(* ===== verification/Store.thy ===== *)
theory Store
  imports Env
begin

text \<open>
  The state of the mint and its database: the tables that \<^verbatim>\<open>cashu/mint/migrations.py\<close> creates, the
  constraints it puts on them (\<open>UNIQUE\<close>, foreign keys, which the code switches on for SQLite), the
  statements of \<^verbatim>\<open>LedgerCrudSqlite\<close> (\<^verbatim>\<open>cashu/mint/crud.py\<close>) and the transactions of
  \<^verbatim>\<open>Database.get_connection\<close> (\<^verbatim>\<open>cashu/core/db.py\<close>).

  A table is the list of its rows in the order of insertion, which is the order in which SQLite
  returns them; \<open>fetchone\<close> is the first row. Columns that only hold the time of an insertion are
  left out. A violated constraint raises \<open>IntegrityError\<close>. Failures of the database itself (a lock
  that is not obtained in time, I/O errors) are not modelled.
\<close>

section \<open>Rows and tables\<close>

record proof_row =
  pr_amount :: int
  pr_c :: string
  pr_secret :: string
  pr_y :: string
  pr_id :: string
  pr_witness :: "string option"
  pr_melt_quote :: "string option"

record promise_row =
  pm_amount :: int
  pm_b :: string
  pm_id :: string
  pm_c :: "string option"
  pm_e :: "string option"
  pm_s :: "string option"
  pm_mint_quote :: "string option"
  pm_melt_quote :: "string option"
  pm_swap_id :: "string option"

record balance_row =
  bl_unit :: unit_t
  bl_backend_balance :: int
  bl_keyset_balance :: int
  bl_keyset_fees_paid :: int
  bl_time :: int

record mint_db =
  promises :: "promise_row list"
  proofs_used :: "proof_row list"
  proofs_pending :: "proof_row list"
  mint_quotes :: "mint_quote list"
  melt_quotes :: "melt_quote list"
  keyset_rows :: "mint_keyset list"
  balance_log :: "balance_row list"

datatype event = EvProof proof_state | EvMint mint_quote | EvMelt melt_quote

text \<open>
  The state of \<^verbatim>\<open>Ledger\<close>: database, keysets in memory (a dictionary from id to keyset), events
  handed to the event manager in order, and the flag \<^verbatim>\<open>disable_melt\<close>.
\<close>

record ledger =
  db :: mint_db
  keysets :: "(string \<times> mint_keyset) list"
  events :: "event list"
  disable_melt :: bool

type_synonym 'a op = "(ledger, error, 'a) sm"

definition keyset_of :: "ledger \<Rightarrow> string \<Rightarrow> mint_keyset option" where
  "keyset_of s k = map_of (keysets s) k"

section \<open>Transactions\<close>

text \<open>
  \<^verbatim>\<open>async with self.db.get_connection() as conn\<close>: an exception inside rolls the database back to
  where the transaction began and is raised again; memory keeps what the body did to it. Given a
  connection, the body runs inside the caller's transaction.
\<close>

definition transaction :: "'a op \<Rightarrow> 'a op" where
  "transaction m = (\<lambda>s. case m s of
     (Inl e, t) \<Rightarrow> (Inl e, t\<lparr>db := db s\<rparr>)
   | (Inr x, t) \<Rightarrow> (Inr x, t))"

definition with_conn :: "bool \<Rightarrow> 'a op \<Rightarrow> 'a op" where
  "with_conn given m = (if given then m else transaction m)"

definition get_db :: "(mint_db \<Rightarrow> 'a) \<Rightarrow> 'a op" where
  "get_db f = getS (\<lambda>s. f (db s))"

definition update_db :: "(mint_db \<Rightarrow> mint_db) \<Rightarrow> unit op" where
  "update_db f = modifyS (\<lambda>s. s\<lparr>db := f (db s)\<rparr>)"

definition execute :: "(mint_db \<Rightarrow> error + mint_db) \<Rightarrow> unit op" where
  "execute f = (\<lambda>s. case f (db s) of Inl e \<Rightarrow> (Inl e, s) | Inr d \<Rightarrow> (Inr (), s\<lparr>db := d\<rparr>))"

definition submit_event :: "event \<Rightarrow> unit op" where
  "submit_event ev = modifyS (\<lambda>s. s\<lparr>events := events s @ [ev]\<rparr>)"

section \<open>Inserting under a unique key\<close>

definition insert_unique :: "('r \<Rightarrow> 'k) \<Rightarrow> string \<Rightarrow> 'r \<Rightarrow> 'r list \<Rightarrow> error + 'r list" where
  "insert_unique key name r t =
     (if key r \<in> set (List.map key t) then Inl (IntegrityError (''UNIQUE constraint failed: '' @ name))
      else Inr (t @ [r]))"

text \<open>
  The contract of a table with a unique column, as the clients of the tables use it: an insertion
  that succeeds appends the row and its key was free, one whose key is free succeeds.
\<close>

locale unique_table =
  fixes ins :: "'r \<Rightarrow> 'r list \<Rightarrow> error + 'r list"
    and key :: "'r \<Rightarrow> 'k"
  assumes ins_Inr: "ins r t = Inr t' \<Longrightarrow> t' = t @ [r] \<and> key r \<notin> key ` set t"
    and ins_free: "key r \<notin> key ` set t \<Longrightarrow> \<exists>t'. ins r t = Inr t'"
begin

lemma ins_iff: "ins r t = Inr t' \<longleftrightarrow> key r \<notin> key ` set t \<and> t' = t @ [r]"
  using ins_Inr[of r t] ins_free[of r t] by auto

lemma ins_taken: "isOk (ins r t) \<longleftrightarrow> key r \<notin> key ` set t"
  by (auto simp: isOk_iff ins_iff)

lemma ins_distinct: "ins r t = Inr t' \<Longrightarrow> distinct (List.map key t) \<Longrightarrow> distinct (List.map key t')"
  by (auto simp: ins_iff)

lemma ins_keys: "ins r t = Inr t' \<Longrightarrow> key ` set t' = insert (key r) (key ` set t)"
  by (auto simp: ins_iff)

text \<open>A row is found under its key again, and only under its key.\<close>

lemma ins_lookup:
  "ins r t = Inr t' \<Longrightarrow> filter (\<lambda>x. key x = k) t' = filter (\<lambda>x. key x = k) t @ (if key r = k then [r] else [])"
  by (auto simp: ins_iff)

end

lemma insert_unique_iff:
  "insert_unique key name r t = Inr t' \<longleftrightarrow> key r \<notin> key ` set t \<and> t' = t @ [r]"
  by (auto simp: insert_unique_def)

text \<open>A reference to a row of another table (a foreign key), when the column is not null.\<close>

definition refers :: "('r \<Rightarrow> string) \<Rightarrow> 'r list \<Rightarrow> string option \<Rightarrow> bool" where
  "refers key t x = (case x of None \<Rightarrow> True | Some k \<Rightarrow> k \<in> set (List.map key t))"

definition check_fk :: "bool \<Rightarrow> error + unit" where
  "check_fk b = checkR b (IntegrityError ''FOREIGN KEY constraint failed'')"

end
