(* ===== verification/Crud.thy ===== *)
theory Crud
  imports Store
begin

text \<open>
  The statements of \<^verbatim>\<open>LedgerCrudSqlite\<close> (\<^verbatim>\<open>cashu/mint/crud.py\<close>) on promises, proofs, quotes and
  keyset balances. A method that reads is a function of the database; one that writes is an \<open>op\<close>.
  The statements on whole keysets are in theory \<open>Keysets\<close>, those on the balance log in
  theory \<open>Watchdog\<close>.
\<close>

section \<open>Promises (blinded messages and signatures)\<close>

definition insert_promise :: "promise_row \<Rightarrow> promise_row list \<Rightarrow> error + promise_row list" where
  "insert_promise = insert_unique pm_b ''promises.b_''"

definition store_blinded_message ::
  "int \<Rightarrow> string \<Rightarrow> string \<Rightarrow> string option \<Rightarrow> string option \<Rightarrow> string option \<Rightarrow> unit op" where
  "store_blinded_message amount b kid mint_id melt_id swap_id = execute (\<lambda>d.
     bindR (insert_promise
       \<lparr>pm_amount = amount, pm_b = b, pm_id = kid, pm_c = None, pm_e = None, pm_s = None,
        pm_mint_quote = mint_id, pm_melt_quote = melt_id, pm_swap_id = swap_id\<rparr> (promises d)) (\<lambda>t.
     bindR (check_fk (refers mq_quote (mint_quotes d) mint_id \<and> refers lq_quote (melt_quotes d) melt_id))
       (\<lambda>_. Inr (d\<lparr>promises := t\<rparr>))))"

definition row_to_message :: "promise_row \<Rightarrow> blinded_message" where
  "row_to_message r = \<lparr>bm_amount = pm_amount r, bm_id = pm_id r, bm_B = pm_b r, bm_C = pm_c r\<rparr>"

definition row_to_signature :: "promise_row \<Rightarrow> error + blinded_signature" where
  "row_to_signature r =
     bindR (ofOption (ValueError ''validation error'') (pm_c r)) (\<lambda>c.
     bindR (ofOption (ValueError ''validation error'') (pm_e r)) (\<lambda>e.
     bindR (ofOption (ValueError ''validation error'') (pm_s r)) (\<lambda>s.
     Inr \<lparr>bs_id = pm_id r, bs_amount = pm_amount r, bs_C = c, bs_dleq = Some \<lparr>d_e = e, d_s = s\<rparr>\<rparr>)))"

definition get_blinded_messages_melt_id :: "string \<Rightarrow> mint_db \<Rightarrow> blinded_message list" where
  "get_blinded_messages_melt_id melt_id d =
     List.map row_to_message (filter (\<lambda>r. pm_melt_quote r = Some melt_id \<and> pm_c r = None) (promises d))"

definition get_blind_signatures_melt_id :: "string \<Rightarrow> mint_db \<Rightarrow> error + blinded_signature list" where
  "get_blind_signatures_melt_id melt_id d =
     mapR row_to_signature (filter (\<lambda>r. pm_melt_quote r = Some melt_id \<and> pm_c r \<noteq> None) (promises d))"

definition delete_blinded_messages_melt_id :: "string \<Rightarrow> unit op" where
  "delete_blinded_messages_melt_id melt_id = update_db (\<lambda>d.
     d\<lparr>promises := filter (\<lambda>r. \<not> (pm_melt_quote r = Some melt_id \<and> pm_c r = None)) (promises d)\<rparr>)"

definition sign_row :: "int \<Rightarrow> string \<Rightarrow> string \<Rightarrow> string \<Rightarrow> string \<Rightarrow> promise_row \<Rightarrow> promise_row" where
  "sign_row amount b c e s r =
     (if pm_b r = b then r\<lparr>pm_amount := amount, pm_c := Some c, pm_e := Some e, pm_s := Some s\<rparr> else r)"

definition update_blinded_message_signature ::
  "int \<Rightarrow> string \<Rightarrow> string \<Rightarrow> string \<Rightarrow> string \<Rightarrow> unit op" where
  "update_blinded_message_signature amount b c e s = execute (\<lambda>d.
     if b \<notin> set (List.map pm_b (promises d)) then Inl (ValueError ''blinded message does not exist'')
     else Inr (d\<lparr>promises := List.map (sign_row amount b c e s) (promises d)\<rparr>))"

definition get_blind_signature :: "string \<Rightarrow> mint_db \<Rightarrow> error + blinded_signature option" where
  "get_blind_signature b d =
     (case filter (\<lambda>r. pm_b r = b \<and> pm_c r \<noteq> None) (promises d) of
        [] \<Rightarrow> Inr None
      | r # _ \<Rightarrow> bindR (row_to_signature r) (\<lambda>x. Inr (Some x)))"

definition get_outputs :: "string list \<Rightarrow> mint_db \<Rightarrow> blinded_message list" where
  "get_outputs bs d = List.map row_to_message (filter (\<lambda>r. pm_b r \<in> set bs) (promises d))"

section \<open>Spent and pending proofs\<close>

definition proof_to_row :: "token_proof \<Rightarrow> string option \<Rightarrow> proof_row" where
  "proof_to_row p quote_id =
     \<lparr>pr_amount = p_amount p, pr_c = p_C p, pr_secret = p_secret p, pr_y = p_Y p, pr_id = p_id p,
      pr_witness = p_witness p, pr_melt_quote = quote_id\<rparr>"

text \<open>
  \<^verbatim>\<open>Proof(**row)\<close>. The column is called \<^verbatim>\<open>c\<close>, the attribute \<^verbatim>\<open>C\<close>: it keeps its default, the empty
  text. \<^verbatim>\<open>Y\<close> is computed again.
\<close>

definition row_to_proof :: "env \<Rightarrow> proof_row \<Rightarrow> error + token_proof" where
  "row_to_proof E r = init_proof E
     \<lparr>p_id = pr_id r, p_amount = pr_amount r, p_secret = pr_secret r, p_Y = pr_y r, p_C = [],
      p_dleq = None, p_witness = pr_witness r\<rparr>"

definition insert_used :: "proof_row \<Rightarrow> proof_row list \<Rightarrow> error + proof_row list" where
  "insert_used = insert_unique pr_y ''proofs_used.y''"

definition insert_pending :: "proof_row \<Rightarrow> proof_row list \<Rightarrow> error + proof_row list" where
  "insert_pending = insert_unique pr_y ''proofs_pending.y''"

definition invalidate_proof :: "token_proof \<Rightarrow> string option \<Rightarrow> unit op" where
  "invalidate_proof p quote_id = execute (\<lambda>d.
     bindR (insert_used (proof_to_row p quote_id) (proofs_used d)) (\<lambda>t.
     bindR (check_fk (refers lq_quote (melt_quotes d) quote_id)) (\<lambda>_.
     Inr (d\<lparr>proofs_used := t\<rparr>))))"

definition set_proof_pending :: "token_proof \<Rightarrow> string option \<Rightarrow> unit op" where
  "set_proof_pending p quote_id = execute (\<lambda>d.
     bindR (insert_pending (proof_to_row p quote_id) (proofs_pending d)) (\<lambda>t.
     bindR (check_fk (refers lq_quote (melt_quotes d) quote_id)) (\<lambda>_.
     Inr (d\<lparr>proofs_pending := t\<rparr>))))"

definition unset_proof_pending :: "token_proof \<Rightarrow> unit op" where
  "unset_proof_pending p = update_db (\<lambda>d.
     d\<lparr>proofs_pending := filter (\<lambda>r. pr_secret r \<noteq> p_secret p) (proofs_pending d)\<rparr>)"

definition get_proofs_pending :: "env \<Rightarrow> string list \<Rightarrow> mint_db \<Rightarrow> error + token_proof list" where
  "get_proofs_pending E Ys d = mapR (row_to_proof E) (filter (\<lambda>r. pr_y r \<in> set Ys) (proofs_pending d))"

definition get_proofs_used :: "env \<Rightarrow> string list \<Rightarrow> mint_db \<Rightarrow> error + token_proof list" where
  "get_proofs_used E Ys d = mapR (row_to_proof E) (filter (\<lambda>r. pr_y r \<in> set Ys) (proofs_used d))"

definition get_pending_proofs_for_quote :: "env \<Rightarrow> string \<Rightarrow> mint_db \<Rightarrow> error + token_proof list" where
  "get_pending_proofs_for_quote E quote_id d =
     mapR (row_to_proof E) (filter (\<lambda>r. pr_melt_quote r = Some quote_id) (proofs_pending d))"

definition get_all_melt_quotes_from_pending_proofs :: "mint_db \<Rightarrow> melt_quote list" where
  "get_all_melt_quotes_from_pending_proofs d =
     filter (\<lambda>q. Some (lq_quote q) \<in> set (List.map pr_melt_quote (proofs_pending d))) (melt_quotes d)"

section \<open>Quotes\<close>

text \<open>A time of zero reads back as no time; the table \<^verbatim>\<open>mint_quotes\<close> has no column for the expiry.\<close>

definition norm_time :: "int option \<Rightarrow> int option" where
  "norm_time t = (if truthy_int t then t else None)"

definition mint_quote_row :: "mint_quote \<Rightarrow> mint_quote" where
  "mint_quote_row q = q\<lparr>mq_created_time := norm_time (mq_created_time q),
     mq_paid_time := norm_time (mq_paid_time q), mq_expiry := None,
     mq_pubkey := Some (case mq_pubkey q of None \<Rightarrow> [] | Some k \<Rightarrow> k)\<rparr>"

definition insert_mint_quote :: "mint_quote \<Rightarrow> mint_quote list \<Rightarrow> error + mint_quote list" where
  "insert_mint_quote = insert_unique mq_quote ''mint_quotes.quote''"

definition store_mint_quote :: "mint_quote \<Rightarrow> unit op" where
  "store_mint_quote q = execute (\<lambda>d.
     bindR (insert_mint_quote (mint_quote_row q) (mint_quotes d)) (\<lambda>t. Inr (d\<lparr>mint_quotes := t\<rparr>)))"

text \<open>The search criteria that are given (and not empty) are joined with \<^verbatim>\<open>AND\<close>.\<close>

definition criterion :: "string option \<Rightarrow> string \<Rightarrow> bool" where
  "criterion c v = (truthy_str c \<longrightarrow> c = Some v)"

definition get_mint_quote ::
  "string option \<Rightarrow> string option \<Rightarrow> string option \<Rightarrow> mint_db \<Rightarrow> error + mint_quote option" where
  "get_mint_quote quote_id checking_id request d =
     (if \<not> (truthy_str quote_id \<or> truthy_str checking_id \<or> truthy_str request)
      then Inl (ValueError ''No search criteria'')
      else Inr (List.find (\<lambda>q. criterion quote_id (mq_quote q) \<and> criterion checking_id (mq_checking_id q) \<and>
        criterion request (mq_request q)) (mint_quotes d)))"

definition get_mint_quote_by_request :: "string \<Rightarrow> mint_db \<Rightarrow> mint_quote option" where
  "get_mint_quote_by_request request d = List.find (\<lambda>q. mq_request q = request) (mint_quotes d)"

definition update_mint_quote :: "mint_quote \<Rightarrow> unit op" where
  "update_mint_quote q = update_db (\<lambda>d. d\<lparr>mint_quotes := List.map (\<lambda>r.
     if mq_quote r = mq_quote q
     then r\<lparr>mq_state := mq_state q, mq_paid_time := norm_time (mq_paid_time q)\<rparr> else r) (mint_quotes d)\<rparr>)"

definition melt_quote_row :: "melt_quote \<Rightarrow> melt_quote" where
  "melt_quote_row q = q\<lparr>lq_created_time := norm_time (lq_created_time q),
     lq_paid_time := norm_time (lq_paid_time q), lq_expiry := norm_time (lq_expiry q),
     lq_outputs := None, lq_change := None\<rparr>"

definition insert_melt_quote :: "melt_quote \<Rightarrow> melt_quote list \<Rightarrow> error + melt_quote list" where
  "insert_melt_quote = insert_unique lq_quote ''melt_quotes.quote''"

definition store_melt_quote :: "melt_quote \<Rightarrow> unit op" where
  "store_melt_quote q = execute (\<lambda>d.
     bindR (insert_melt_quote (melt_quote_row q) (melt_quotes d)) (\<lambda>t. Inr (d\<lparr>melt_quotes := t\<rparr>)))"

definition get_melt_quote_row ::
  "string option \<Rightarrow> string option \<Rightarrow> string option \<Rightarrow> mint_db \<Rightarrow> error + melt_quote option" where
  "get_melt_quote_row quote_id checking_id request d =
     (if \<not> (truthy_str quote_id \<or> truthy_str checking_id \<or> truthy_str request)
      then Inl (ValueError ''No search criteria'')
      else case List.find (\<lambda>q. criterion quote_id (lq_quote q) \<and> criterion checking_id (lq_checking_id q) \<and>
          criterion request (lq_request q)) (melt_quotes d) of
        None \<Rightarrow> Inr None
      | Some q \<Rightarrow> bindR (get_blind_signatures_melt_id (lq_quote q) d) (\<lambda>change.
          Inr (Some (q\<lparr>lq_change := Some change\<rparr>))))"

definition get_melt_quote_by_request :: "string \<Rightarrow> mint_db \<Rightarrow> melt_quote option" where
  "get_melt_quote_by_request request d = List.find (\<lambda>q. lq_request q = request) (melt_quotes d)"

definition get_melt_quotes_by_checking_id :: "string \<Rightarrow> mint_db \<Rightarrow> melt_quote list" where
  "get_melt_quotes_by_checking_id checking_id d = filter (\<lambda>q. lq_checking_id q = checking_id) (melt_quotes d)"

definition update_melt_quote :: "melt_quote \<Rightarrow> unit op" where
  "update_melt_quote q = update_db (\<lambda>d. d\<lparr>melt_quotes := List.map (\<lambda>r.
     if lq_quote r = lq_quote q
     then r\<lparr>lq_state := lq_state q, lq_fee_paid := lq_fee_paid q, lq_paid_time := norm_time (lq_paid_time q),
            lq_payment_preimage := lq_payment_preimage q, lq_checking_id := lq_checking_id q\<rparr>
     else r) (melt_quotes d)\<rparr>)"

section \<open>Keyset balances\<close>

definition bump_keyset_balance :: "string \<Rightarrow> int \<Rightarrow> unit op" where
  "bump_keyset_balance kid amount = update_db (\<lambda>d. d\<lparr>keyset_rows := List.map (\<lambda>k.
     if k_id k = kid then k\<lparr>k_balance := k_balance k + amount\<rparr> else k) (keyset_rows d)\<rparr>)"

definition bump_keyset_fees_paid :: "string \<Rightarrow> int \<Rightarrow> unit op" where
  "bump_keyset_fees_paid kid amount = update_db (\<lambda>d. d\<lparr>keyset_rows := List.map (\<lambda>k.
     if k_id k = kid then k\<lparr>k_fees_paid := k_fees_paid k + amount\<rparr> else k) (keyset_rows d)\<rparr>)"

definition get_balance :: "mint_keyset \<Rightarrow> mint_db \<Rightarrow> amount \<times> amount" where
  "get_balance k d = (case List.find (\<lambda>r. k_id r = k_id k) (keyset_rows d) of
     None \<Rightarrow> (Amount (k_unit k) 0, Amount (k_unit k) 0)
   | Some r \<Rightarrow> (Amount (k_unit k) (k_balance r), Amount (k_unit k) (k_fees_paid r)))"

section \<open>The tables keep their keys unique\<close>

interpretation promise_tbl: unique_table insert_promise pm_b
  by unfold_locales (auto simp: insert_promise_def insert_unique_iff)

interpretation used_tbl: unique_table insert_used pr_y
  by unfold_locales (auto simp: insert_used_def insert_unique_iff)

interpretation pending_tbl: unique_table insert_pending pr_y
  by unfold_locales (auto simp: insert_pending_def insert_unique_iff)

interpretation mint_quote_tbl: unique_table insert_mint_quote mq_quote
  by unfold_locales (auto simp: insert_mint_quote_def insert_unique_iff)

interpretation melt_quote_tbl: unique_table insert_melt_quote lq_quote
  by unfold_locales (auto simp: insert_melt_quote_def insert_unique_iff)

end
