(* ===== verification/Verification.thy ===== *)
theory Verification
  imports Conditions Crud
begin

text \<open>
  \<^verbatim>\<open>LedgerVerification\<close> of \<^verbatim>\<open>cashu/mint/verification.py\<close> and the quote signature of
  \<^verbatim>\<open>cashu/core/nuts/nut20.py\<close>: what the mint checks before it changes anything. The checks read the
  state (keysets in memory, promises in the database) and raise or return; a list comprehension
  whose element raises is \<open>mapR\<close>.
\<close>

section \<open>Single checks\<close>

definition the_keyset :: "ledger \<Rightarrow> string \<Rightarrow> error + mint_keyset" where
  "the_keyset s k = ofOption (KeyError k) (keyset_of s k)"

definition verify_amount :: "env \<Rightarrow> int \<Rightarrow> error + int" where
  "verify_amount E a =
     bindR (checkR (0 < a \<and> a < 2 ^ max_order E) (not_allowed (''invalid amount: '' @ str_int a))) (\<lambda>_. Inr a)"

definition verify_secret_criteria :: "env \<Rightarrow> token_proof \<Rightarrow> error + bool" where
  "verify_secret_criteria E p =
     bindR (checkR (p_secret p \<noteq> []) NoSecretInProofsError) (\<lambda>_.
     bindR (checkR (length (p_secret p) \<le> mint_max_secret_length E)
       (SecretTooLongError (''secret too long. max: '' @ str_int (int (mint_max_secret_length E))))) (\<lambda>_. Inr True))"

definition verify_input_witness_criteria :: "env \<Rightarrow> token_proof \<Rightarrow> error + bool" where
  "verify_input_witness_criteria E p =
     (case p_witness p of
        None \<Rightarrow> Inr True
      | Some w \<Rightarrow> bindR (checkR (length w \<le> mint_max_witness_length E)
          (WitnessTooLongError (''input witness data too long. max: '' @ str_int (int (mint_max_witness_length E)))))
          (\<lambda>_. Inr True))"

definition verify_no_duplicate_proofs :: "token_proof list \<Rightarrow> bool" where
  "verify_no_duplicate_proofs ps =
     (length (List.map p_secret ps) = length (remdups (List.map p_secret ps)))"

definition verify_no_duplicate_outputs :: "blinded_message list \<Rightarrow> bool" where
  "verify_no_duplicate_outputs outs =
     (length (List.map bm_B outs) = length (remdups (List.map bm_B outs)))"

definition verify_proof_bdhke :: "env \<Rightarrow> ledger \<Rightarrow> token_proof \<Rightarrow> error + bool" where
  "verify_proof_bdhke E s p =
     bindR (checkR (keyset_of s (p_id p) \<noteq> None)
       (AssertionError (''keyset '' @ p_id p @ '' unknown''))) (\<lambda>_.
     bindR (the_keyset s (p_id p)) (\<lambda>k.
     bindR (ofOption (KeyError (str_int (p_amount p))) (map_of (k_private_keys k) (p_amount p))) (\<lambda>key.
     bindR (pk_from_hex (crv E) (p_C p)) (\<lambda>C.
     verify (crv E) key C (p_secret p)))))"

definition verify_input_output_amounts :: "token_proof list \<Rightarrow> blinded_message list \<Rightarrow> bool" where
  "verify_input_output_amounts ins outs =
     (sum_list (List.map p_amount ins) \<ge> sum_list (List.map bm_amount outs))"

section \<open>Units and fees\<close>

definition proof_units :: "ledger \<Rightarrow> token_proof list \<Rightarrow> error + unit_t list" where
  "proof_units s ps = mapR (\<lambda>p. bindR (the_keyset s (p_id p)) (\<lambda>k. Inr (k_unit k))) ps"

definition one_unit :: "unit_t list \<Rightarrow> bool" where
  "one_unit us = (length (remdups us) = 1)"

definition verify_units_match :: "ledger \<Rightarrow> token_proof list \<Rightarrow> blinded_message list \<Rightarrow> error + unit_t" where
  "verify_units_match s ps outs =
     bindR (proof_units s ps) (\<lambda>up.
     bindR (mapR (\<lambda>x. bindR (the_keyset s (bm_id x)) (\<lambda>k. Inr (k_unit k))) (filter (\<lambda>x. bm_id x \<noteq> []) outs)) (\<lambda>uo.
     bindR (checkR (one_unit up) (TransactionMultipleUnitsError (Some ''inputs have different units.''))) (\<lambda>_.
     bindR (checkR (one_unit uo) (TransactionMultipleUnitsError (Some ''outputs have different units.''))) (\<lambda>_.
     bindR (checkR (hd up = hd uo) TransactionUnitMismatchError) (\<lambda>_. Inr (hd up))))))"

text \<open>Fees are thousandths (\<open>ppk\<close>) per input, rounded up over the whole transaction.\<close>

definition fee_of_ppk :: "int \<Rightarrow> int" where
  "fee_of_ppk n = (n + 999) div 1000"

definition proof_ppks :: "ledger \<Rightarrow> token_proof list \<Rightarrow> error + int list" where
  "proof_ppks s ps = mapR (\<lambda>p. bindR (the_keyset s (p_id p)) (\<lambda>k. Inr (k_input_fee_ppk k))) ps"

definition get_fees_for_proofs :: "ledger \<Rightarrow> token_proof list \<Rightarrow> error + int" where
  "get_fees_for_proofs s ps =
     bindR (proof_units s ps) (\<lambda>us.
     bindR (checkR (one_unit us) (TransactionUnitError ''inputs have different units.'')) (\<lambda>_.
     bindR (proof_ppks s ps) (\<lambda>ppks. Inr (fee_of_ppk (sum_list ppks)))))"

definition balance_error :: "int \<Rightarrow> int \<Rightarrow> int \<Rightarrow> error" where
  "balance_error i f out =
     tx_error (''inputs ('' @ str_int i @ '') - fees ('' @ str_int f @ '') vs outputs ('' @ str_int out @
       '') are not balanced.'')"

definition verify_equation_balanced ::
  "env \<Rightarrow> ledger \<Rightarrow> token_proof list \<Rightarrow> blinded_message list \<Rightarrow> error + unit" where
  "verify_equation_balanced E s ps outs =
     bindR (checkR (ps \<noteq> []) (tx_error ''no proofs provided.'')) (\<lambda>_.
     bindR (checkR (outs \<noteq> []) (tx_error ''no outputs provided.'')) (\<lambda>_.
     bindR (verify_units_match s ps outs) (\<lambda>_.
     bindR (mapR (\<lambda>p. verify_amount E (p_amount p)) ps) (\<lambda>as.
     bindR (get_fees_for_proofs s ps) (\<lambda>fees.
     bindR (mapR (\<lambda>x. verify_amount E (bm_amount x)) outs) (\<lambda>bs.
     checkR (sum_list bs + fees - sum_list as = 0) (balance_error (sum_list as) fees (sum_list bs))))))))"

section \<open>Outputs\<close>

definition check_outputs_pending_or_issued_before :: "ledger \<Rightarrow> blinded_message list \<Rightarrow> blinded_message list" where
  "check_outputs_pending_or_issued_before s outs = get_outputs (List.map bm_B outs) (db s)"

definition verify_outputs ::
  "env \<Rightarrow> ledger \<Rightarrow> blinded_message list \<Rightarrow> bool \<Rightarrow> error + unit" where
  "verify_outputs E s outs skip_amount_check =
     bindR (checkR (outs \<noteq> []) (tx_error ''no outputs provided.'')) (\<lambda>_.
     bindR (checkR (list_all (\<lambda>x. bm_id x = bm_id (hd outs)) outs)
       (tx_error ''outputs have different keyset ids.'')) (\<lambda>_.
     bindR (checkR (keyset_of s (bm_id (hd outs)) \<noteq> None) (tx_error ''keyset id unknown.'')) (\<lambda>_.
     bindR (the_keyset s (bm_id (hd outs))) (\<lambda>k.
     bindR (checkR (k_active k) (tx_error ''keyset id inactive.'')) (\<lambda>_.
     bindR (if skip_amount_check then Inr [] else mapR (\<lambda>x. verify_amount E (bm_amount x)) outs) (\<lambda>_.
     bindR (checkR (verify_no_duplicate_outputs outs) TransactionDuplicateOutputsError) (\<lambda>_.
     let stored_before = check_outputs_pending_or_issued_before s outs;
         signed_outputs = filter (\<lambda>x. bm_C x \<noteq> None) stored_before
     in if stored_before = [] then Inr ()
        else if list_ex (\<lambda>x. truthy_str (bm_C x)) signed_outputs then Inl OutputsAlreadySignedError
        else Inl OutputsArePendingError)))))))"

section \<open>Inputs, and inputs with outputs\<close>

definition verify_inputs :: "env \<Rightarrow> ledger \<Rightarrow> token_proof list \<Rightarrow> error + unit" where
  "verify_inputs E s ps =
     bindR (checkR (ps \<noteq> []) (tx_error ''no proofs provided.'')) (\<lambda>_.
     bindR (mapR (\<lambda>p. verify_amount E (p_amount p)) ps) (\<lambda>_.
     bindR (mapR (verify_secret_criteria E) ps) (\<lambda>_.
     bindR (mapR (verify_input_witness_criteria E) ps) (\<lambda>_.
     bindR (checkR (verify_no_duplicate_proofs ps) TransactionDuplicateInputsError) (\<lambda>_.
     bindR (mapR (verify_proof_bdhke E s) ps) (\<lambda>bs.
     bindR (checkR (list_all (\<lambda>b. b) bs) InvalidProofsError) (\<lambda>_.
     bindR (mapR (verify_input_spending_conditions E) ps) (\<lambda>cs.
     checkR (list_all (\<lambda>b. b) cs) (tx_error ''validation of input spending conditions failed.'')))))))))"

definition verify_inputs_and_outputs ::
  "env \<Rightarrow> ledger \<Rightarrow> token_proof list \<Rightarrow> blinded_message list option \<Rightarrow> error + unit" where
  "verify_inputs_and_outputs E s ps outputs =
     bindR (verify_inputs E s ps) (\<lambda>_.
     case outputs of
       None \<Rightarrow> Inr ()
     | Some outs \<Rightarrow>
         bindR (verify_equation_balanced E s ps outs) (\<lambda>_.
         bindR (verify_outputs E s outs False) (\<lambda>_.
         bindR (checkR (verify_input_output_amounts ps outs) (tx_error ''input amounts less than output.'')) (\<lambda>_.
         bindR (checkR (bm_id (hd outs) \<noteq> []) (AssertionError ''output id not set'')) (\<lambda>_.
         bindR (the_keyset s (bm_id (hd outs))) (\<lambda>ko.
         bindR (proof_units s ps) (\<lambda>us.
         bindR (checkR (list_all (\<lambda>u. u = k_unit ko) us)
           (tx_error ''input and output keysets have different units.'')) (\<lambda>_.
         bindR (verify_input_output_spending_conditions E ps outs None) (\<lambda>_. Inr ())))))))))"

section \<open>Units, methods and quote signatures\<close>

definition verify_and_get_unit_method :: "env \<Rightarrow> ledger \<Rightarrow> string \<Rightarrow> string \<Rightarrow> error + unit_t \<times> method_t" where
  "verify_and_get_unit_method E s unit_str method_str =
     bindR (method_of_name method_str) (\<lambda>m.
     bindR (unit_of_name unit_str) (\<lambda>u.
     bindR (checkR (list_ex (\<lambda>k. u = k_unit (snd k)) (keysets s))
       (not_allowed (''unit '' @ [CHR 0x27] @ unit_name u @ [CHR 0x27] @ '' not supported in any keyset.''))) (\<lambda>_.
     bindR (checkR (case map_of (backends E) m of None \<Rightarrow> False | Some us \<Rightarrow> us \<noteq> [] \<and> map_of us u \<noteq> None)
       (not_allowed (''no support for method '' @ [CHR 0x27] @ method_name m @ [CHR 0x27] @ '' with unit '' @
          [CHR 0x27] @ unit_name u @ [CHR 0x27] @ ''.''))) (\<lambda>_.
     Inr (u, m)))))"

definition construct_message :: "env \<Rightarrow> string \<Rightarrow> blinded_message list \<Rightarrow> string" where
  "construct_message E quote_id outs =
     sha256 (crv E) (encode_utf8 quote_id @ concat (List.map (\<lambda>x. encode_utf8 (bm_B x)) outs))"

definition nut20_verify_mint_quote ::
  "env \<Rightarrow> string \<Rightarrow> blinded_message list \<Rightarrow> string \<Rightarrow> string \<Rightarrow> error + bool" where
  "nut20_verify_mint_quote E quote_id outs public_key signature =
     bindR (ofOption (ValueError ''fromhex'') (from_hex public_key)) (\<lambda>pk.
     bindR (ofOption (ValueError ''fromhex'') (from_hex signature)) (\<lambda>sig.
     ofOption (ValueError ''verify'') (xonly_verify (crv E) (drop 1 pk) sig (construct_message E quote_id outs))))"

definition verify_mint_quote_witness ::
  "env \<Rightarrow> mint_quote \<Rightarrow> blinded_message list \<Rightarrow> string option \<Rightarrow> error + bool" where
  "verify_mint_quote_witness E q outs signature =
     (if \<not> truthy_str (mq_pubkey q) then Inr True
      else if \<not> truthy_str signature then Inr False
      else nut20_verify_mint_quote E (mq_quote q) outs (the (mq_pubkey q)) (the signature))"

section \<open>Facts about the checks\<close>

lemma no_duplicate_proofs_iff [simp]: "verify_no_duplicate_proofs ps \<longleftrightarrow> distinct (List.map p_secret ps)"
  using length_set_distinct[of "List.map p_secret ps"]
  by (simp add: verify_no_duplicate_proofs_def length_remdups_card_conv)

lemma no_duplicate_outputs_iff [simp]: "verify_no_duplicate_outputs outs \<longleftrightarrow> distinct (List.map bm_B outs)"
  using length_set_distinct[of "List.map bm_B outs"]
  by (simp add: verify_no_duplicate_outputs_def length_remdups_card_conv)

lemma verify_amount_Inr [res_simps]: "verify_amount E a = Inr b \<longleftrightarrow> b = a \<and> 0 < a \<and> a < 2 ^ max_order E"
  by (auto simp: verify_amount_def bindR_Inr)

lemma verify_amounts_Inr:
  "mapR (\<lambda>x. verify_amount E (f x)) xs = Inr ys \<longleftrightarrow>
     ys = List.map f xs \<and> (\<forall>x\<in>set xs. 0 < f x \<and> f x < 2 ^ max_order E)"
  by (induction xs arbitrary: ys) (auto simp: bindR_Inr verify_amount_Inr)

lemma the_keyset_Inr [simp]: "the_keyset s k = Inr ks \<longleftrightarrow> keyset_of s k = Some ks"
  by (simp add: the_keyset_def)

end
