(* ===== verification/DbAccess.thy ===== *)
theory DbAccess
  imports Verification
begin

text \<open>
  \<^verbatim>\<open>DbReadHelper\<close> (\<^verbatim>\<open>cashu/mint/db/read.py\<close>) and \<^verbatim>\<open>DbWriteHelper\<close> (\<^verbatim>\<open>cashu/mint/db/write.py\<close>):
  the state of proofs, and the transactions that make proofs and quotes pending and release them.
  Each \<open>transaction\<close> here runs under a table or row lock in the code, so that no other
  transaction of the mint touches the locked rows meanwhile.
\<close>

section \<open>Reading\<close>

definition dict_of :: "('k \<times> 'v) list \<Rightarrow> ('k \<times> 'v) list" where
  "dict_of kvs = foldl (\<lambda>d (k, v). AList.update k v d) [] kvs"

definition get_proofs_pending_dict :: "env \<Rightarrow> string list \<Rightarrow> mint_db \<Rightarrow> error + (string \<times> token_proof) list" where
  "get_proofs_pending_dict E Ys d =
     bindR (get_proofs_pending E Ys d) (\<lambda>ps. Inr (dict_of (List.map (\<lambda>p. (p_Y p, p)) ps)))"

definition get_proofs_spent_dict :: "env \<Rightarrow> string list \<Rightarrow> mint_db \<Rightarrow> error + (string \<times> token_proof) list" where
  "get_proofs_spent_dict E Ys d =
     bindR (get_proofs_used E Ys d) (\<lambda>ps. Inr (dict_of (List.map (\<lambda>p. (p_Y p, p)) ps)))"

definition proof_state_of ::
  "(string \<times> token_proof) list \<Rightarrow> (string \<times> token_proof) list \<Rightarrow> string \<Rightarrow> error + proof_state" where
  "proof_state_of spent pending Y =
     (if map_of spent Y = None \<and> map_of pending Y = None then mk_proof_state Y PS_unspent None
      else if map_of spent Y = None \<and> map_of pending Y \<noteq> None then mk_proof_state Y PS_pending None
      else bindR (ofOption (KeyError Y) (map_of spent Y)) (\<lambda>p. mk_proof_state Y PS_spent (p_witness p)))"

definition get_proofs_states :: "env \<Rightarrow> string list \<Rightarrow> mint_db \<Rightarrow> error + proof_state list" where
  "get_proofs_states E Ys d =
     bindR (get_proofs_spent_dict E Ys d) (\<lambda>spent.
     bindR (get_proofs_pending_dict E Ys d) (\<lambda>pending.
     mapR (proof_state_of spent pending) Ys))"

definition verify_proofs_spendable :: "env \<Rightarrow> token_proof list \<Rightarrow> mint_db \<Rightarrow> error + unit" where
  "verify_proofs_spendable E ps d =
     bindR (get_proofs_spent_dict E (List.map p_Y ps) d) (\<lambda>spent.
     checkR (length spent = 0) ProofsAlreadySpentError)"

section \<open>Proofs: pending and not\<close>

definition validate_proofs_pending :: "env \<Rightarrow> token_proof list \<Rightarrow> mint_db \<Rightarrow> error + unit" where
  "validate_proofs_pending E ps d =
     bindR (get_proofs_pending E (List.map p_Y ps) d) (\<lambda>pending.
     checkR (pending = []) ProofsArePendingError)"

text \<open>\<^verbatim>\<open>bump_keyset_balance(keyset=keysets[p.id], amount=...)\<close>.\<close>

definition bump_for :: "string \<Rightarrow> int \<Rightarrow> unit op" where
  "bump_for kid amount = bindS (liftS (\<lambda>s. the_keyset s kid)) (\<lambda>k. bump_keyset_balance (k_id k) amount)"

definition submit_proof_state :: "string \<Rightarrow> proof_spent_state \<Rightarrow> string option \<Rightarrow> unit op" where
  "submit_proof_state Y st w = bindS (liftS (\<lambda>_. mk_proof_state Y st w)) (\<lambda>ps. submit_event (EvProof ps))"

definition verify_spent_proofs_and_set_pending :: "env \<Rightarrow> token_proof list \<Rightarrow> string option \<Rightarrow> unit op" where
  "verify_spent_proofs_and_set_pending E ps quote_id =
     thenS (transaction
       (thenS (liftS (\<lambda>s. verify_proofs_spendable E ps (db s)))
       (thenS (liftS (\<lambda>s. validate_proofs_pending E ps (db s)))
       (forS ps (\<lambda>p. thenS (set_proof_pending p quote_id) (bump_for (p_id p) (- p_amount p)))))))
     (forS ps (\<lambda>p. submit_proof_state (p_Y p) PS_pending None))"

definition unset_proofs_pending :: "token_proof list \<Rightarrow> bool \<Rightarrow> bool \<Rightarrow> unit op" where
  "unset_proofs_pending ps spent conn =
     thenS (with_conn conn
       (forS ps (\<lambda>p. thenS (unset_proof_pending p) (bump_for (p_id p) (p_amount p)))))
     (whenS (\<not> spent) (forS ps (\<lambda>p. submit_proof_state (p_Y p) PS_unspent None)))"

section \<open>Mint quotes\<close>

definition mint_quote_or_fail :: "string \<Rightarrow> mint_quote op" where
  "mint_quote_or_fail quote_id =
     bindS (liftS (\<lambda>s. get_mint_quote (Some quote_id) None None (db s))) (\<lambda>q.
     liftS (\<lambda>_. ofOption (tx_error ''Mint quote not found.'') q))"

definition set_mint_quote_pending :: "string \<Rightarrow> mint_quote op" where
  "set_mint_quote_pending quote_id = transaction
     (bindS (mint_quote_or_fail quote_id) (\<lambda>q.
      thenS (guardS (mq_state q \<noteq> MQ_pending) (tx_error ''Mint quote already pending.''))
     (thenS (guardS (mq_state q = MQ_paid) (tx_error ''Mint quote is not paid yet.''))
     (bindS (liftS (\<lambda>_. mint_set_state q MQ_pending)) (\<lambda>q'.
      thenS (update_mint_quote q') (returnS q'))))))"

definition unset_mint_quote_pending :: "string \<Rightarrow> mint_quote_state \<Rightarrow> mint_quote op" where
  "unset_mint_quote_pending quote_id st =
     bindS (transaction
       (bindS (mint_quote_or_fail quote_id) (\<lambda>q.
        thenS (guardS (mq_state q = MQ_pending)
          (tx_error (''Mint quote not pending: '' @ mint_state_value (mq_state q) @ ''. Cannot set as '' @
             mint_state_value st @ ''.'')))
       (bindS (liftS (\<lambda>_. mint_set_state q st)) (\<lambda>q'.
        thenS (update_mint_quote q') (returnS q'))))))
     (\<lambda>q. thenS (submit_event (EvMint q)) (returnS q))"

definition update_mint_quote_state :: "string \<Rightarrow> mint_quote_state \<Rightarrow> unit op" where
  "update_mint_quote_state quote_id st = transaction
     (bindS (mint_quote_or_fail quote_id) (\<lambda>q.
      bindS (liftS (\<lambda>_. mint_set_state q st)) update_mint_quote))"

section \<open>Melt quotes\<close>

definition melt_quote_or_fail :: "string \<Rightarrow> melt_quote op" where
  "melt_quote_or_fail quote_id =
     bindS (liftS (\<lambda>s. get_melt_quote_row (Some quote_id) None None (db s))) (\<lambda>q.
     liftS (\<lambda>_. ofOption (tx_error ''Melt quote not found.'') q))"

definition paid_or_pending :: "melt_quote \<Rightarrow> bool" where
  "paid_or_pending q \<longleftrightarrow> lq_state q = LQ_pending \<or> lq_state q = LQ_paid"

definition set_melt_quote_pending :: "melt_quote \<Rightarrow> melt_quote op" where
  "set_melt_quote_pending q =
     thenS (guardS (lq_checking_id q \<noteq> []) (tx_error ''Melt quote doesn't have checking ID.''))
     (bindS (transaction
       (bindS (get_db (get_melt_quotes_by_checking_id (lq_checking_id q))) (\<lambda>qs.
        thenS (guardS (qs \<noteq> []) (tx_error ''Melt quote not found.''))
       (thenS (guardS (\<not> list_ex paid_or_pending qs) (tx_error ''Melt quote already paid or pending.''))
       (bindS (liftS (\<lambda>_. melt_set_state q LQ_pending)) (\<lambda>q'.
        thenS (update_melt_quote q') (returnS q')))))))
     (\<lambda>q'. thenS (submit_event (EvMelt q')) (returnS q')))"

definition unset_melt_quote_pending :: "melt_quote \<Rightarrow> melt_quote_state \<Rightarrow> melt_quote op" where
  "unset_melt_quote_pending q st =
     bindS (transaction
       (bindS (melt_quote_or_fail (lq_quote q)) (\<lambda>qdb.
        thenS (guardS (lq_state qdb = LQ_pending) (tx_error ''Melt quote not pending.''))
       (bindS (liftS (\<lambda>_. melt_set_state q st)) (\<lambda>q'.
        let q'' = q'\<lparr>lq_outputs := None\<rparr> in
        thenS (update_melt_quote q'') (returnS q''))))))
     (\<lambda>q'. thenS (submit_event (EvMelt q')) (returnS q'))"

definition update_melt_quote_state :: "string \<Rightarrow> melt_quote_state \<Rightarrow> unit op" where
  "update_melt_quote_state quote_id st = transaction
     (bindS (melt_quote_or_fail quote_id) (\<lambda>q.
      bindS (liftS (\<lambda>_. melt_set_state q st)) update_melt_quote))"

definition store_melt_quote_checked :: "melt_quote \<Rightarrow> unit op" where
  "store_melt_quote_checked q = transaction
     (bindS (get_db (get_melt_quotes_by_checking_id (lq_checking_id q))) (\<lambda>qs.
      thenS (guardS (\<not> list_ex paid_or_pending qs) (tx_error ''Melt quote already paid or pending.''))
     (store_melt_quote q)))"

end
