(* ===== verification/Watchdog.thy ===== *)
theory Watchdog
  imports DbAccess
begin

text \<open>
  \<^verbatim>\<open>LedgerWatchdog\<close> of \<^verbatim>\<open>cashu/mint/watchdog.py\<close>: the balance of a unit over all its keysets, and one
  round of the check that compares it with the balance of the Lightning backend. The statements of
  \<^verbatim>\<open>LedgerCrudSqlite\<close> on the balance log are here too.

  The keys of a keyset are generated again from its seed when its row is read
  (\<^verbatim>\<open>MintKeyset.from_row\<close>); a row of \<open>keyset_rows\<close> is the keyset so obtained.
\<close>

section \<open>The balance of a unit\<close>

definition get_keysets_of_unit :: "unit_t \<Rightarrow> mint_db \<Rightarrow> mint_keyset list" where
  "get_keysets_of_unit u d = filter (\<lambda>k. k_unit k = u) (keyset_rows d)"

primrec add_balances :: "mint_db \<Rightarrow> mint_keyset list \<Rightarrow> amount \<times> amount \<Rightarrow> error + amount \<times> amount" where
  "add_balances d [] acc = Inr acc"
| "add_balances d (k # ks) acc =
     bindR (amount_add (fst acc) (fst (get_balance k d))) (\<lambda>b.
     bindR (amount_add (snd acc) (snd (get_balance k d))) (\<lambda>f.
     add_balances d ks (b, f)))"

definition get_unit_balance_and_fees :: "unit_t \<Rightarrow> mint_db \<Rightarrow> error + amount \<times> amount" where
  "get_unit_balance_and_fees u d = add_balances d (get_keysets_of_unit u d) (Amount u 0, Amount u 0)"

section \<open>The balance log\<close>

definition store_balance_log :: "env \<Rightarrow> amount \<Rightarrow> amount \<Rightarrow> amount \<Rightarrow> unit op" where
  "store_balance_log E backend_balance keyset_balance keyset_fees =
     thenS (guardS (a_unit backend_balance = a_unit keyset_balance) (ValueError ''Units do not match''))
     (update_db (\<lambda>d. d\<lparr>balance_log := balance_log d @
        [\<lparr>bl_unit = a_unit backend_balance, bl_backend_balance = a_amount backend_balance,
          bl_keyset_balance = a_amount keyset_balance, bl_keyset_fees_paid = a_amount keyset_fees,
          bl_time = now_s E\<rparr>]\<rparr>))"

text \<open>\<^verbatim>\<open>ORDER BY time DESC LIMIT 1\<close>; among entries of the same second the first one.\<close>

definition newer :: "balance_row option \<Rightarrow> balance_row \<Rightarrow> balance_row option" where
  "newer best r = (case best of None \<Rightarrow> Some r | Some b \<Rightarrow> if bl_time r > bl_time b then Some r else Some b)"

definition get_last_balance_log_entry :: "unit_t \<Rightarrow> mint_db \<Rightarrow> balance_row option" where
  "get_last_balance_log_entry u d = foldl newer None (filter (\<lambda>r. bl_unit r = u) (balance_log d))"

section \<open>The check\<close>

text \<open>The result, and what the check puts into the queue that would abort the mint.\<close>

definition check_balances_and_abort ::
  "balance_row option \<Rightarrow> amount \<Rightarrow> amount \<Rightarrow> amount \<Rightarrow> error + bool \<times> bool list" where
  "check_balances_and_abort entry backend_balance keyset_balance keyset_fees =
     bindR (amount_add keyset_balance keyset_fees) (\<lambda>owed.
     bindR (amount_gt owed backend_balance) (\<lambda>short.
     if short then Inr (False, [True])
     else case entry of
       None \<Rightarrow> Inr (True, [])
     | Some l \<Rightarrow>
         bindR (amount_add (Amount (bl_unit l) (bl_keyset_balance l)) (Amount (bl_unit l) (bl_keyset_fees_paid l))) (\<lambda>owed_before.
         bindR (amount_sub (Amount (bl_unit l) (bl_backend_balance l)) owed_before) (\<lambda>last_delta.
         bindR (amount_sub backend_balance owed) (\<lambda>delta.
         bindR (amount_gt last_delta delta) (\<lambda>shrunk.
         if shrunk then Inr (False, [True]) else Inr (True, [])))))))"

text \<open>
  One round of \<^verbatim>\<open>dispatch_backend_checker\<close> for a unit, the answer of \<^verbatim>\<open>backend.status()\<close> given. The
  result is what the round put into the abort queue.
\<close>

definition backend_checker_round :: "env \<Rightarrow> unit_t \<Rightarrow> error + amount \<Rightarrow> bool list op" where
  "backend_checker_round E u status =
     bindS (liftS (\<lambda>_. status)) (\<lambda>backend_balance.
     bindS (get_db (get_last_balance_log_entry u)) (\<lambda>entry.
     bindS (liftS (\<lambda>s. get_unit_balance_and_fees u (db s))) (\<lambda>(keyset_balance, keyset_fees).
     bindS (liftS (\<lambda>_. check_balances_and_abort entry backend_balance keyset_balance keyset_fees)) (\<lambda>(ok, queue).
     thenS (whenS (ok \<or> mint_watchdog_ignore_mismatch E)
              (store_balance_log E backend_balance keyset_balance keyset_fees))
     (returnS queue)))))"

section \<open>Facts\<close>

definition row_balance :: "mint_db \<Rightarrow> mint_keyset \<Rightarrow> int" where
  "row_balance d k = a_amount (fst (get_balance k d))"

definition row_fees :: "mint_db \<Rightarrow> mint_keyset \<Rightarrow> int" where
  "row_fees d k = a_amount (snd (get_balance k d))"

lemma add_balances_sum:
  assumes "\<forall>k\<in>set ks. k_unit k = u"
  shows "add_balances d ks (Amount u a, Amount u b) =
    Inr (Amount u (a + sum_list (List.map (row_balance d) ks)), Amount u (b + sum_list (List.map (row_fees d) ks)))"
  using assms
proof (induction ks arbitrary: a b)
  case (Cons k ks)
  have "a_unit (fst (get_balance k d)) = u" "a_unit (snd (get_balance k d)) = u"
    using Cons.prems by (auto simp: get_balance_def split: option.splits)
  with Cons show ?case
    by (simp add: amount_add_def same_unit_def row_balance_def row_fees_def add.assoc)
qed simp

lemma get_unit_balance_sum:
  "get_unit_balance_and_fees u d =
     Inr (Amount u (sum_list (List.map (row_balance d) (get_keysets_of_unit u d))),
          Amount u (sum_list (List.map (row_fees d) (get_keysets_of_unit u d))))"
  using add_balances_sum[of "get_keysets_of_unit u d" u d 0 0]
  by (simp add: get_unit_balance_and_fees_def get_keysets_of_unit_def)

text \<open>With distinct ids, every row of the unit counts once, with its own balance.\<close>

lemma row_balance_distinct:
  assumes "distinct (List.map k_id (keyset_rows d))" and "k \<in> set (keyset_rows d)"
  shows "row_balance d k = k_balance k" and "row_fees d k = k_fees_paid k"
proof -
  obtain i where i: "i < length (keyset_rows d)" "keyset_rows d ! i = k"
    using assms(2) by (auto simp: in_set_conv_nth)
  have "List.find (\<lambda>r. k_id r = k_id k) (keyset_rows d) = Some k"
    unfolding find_Some_iff using i assms(1)
    by (intro exI[of _ i]) (auto simp: distinct_conv_nth)
  then show "row_balance d k = k_balance k" "row_fees d k = k_fees_paid k"
    by (simp_all add: row_balance_def row_fees_def get_balance_def)
qed

end
