(* ===== verification/Ledger.thy ===== *)
theory Ledger
  imports Watchdog
begin

text \<open>
  The operations of \<^verbatim>\<open>Ledger\<close> (\<^verbatim>\<open>cashu/mint/ledger.py\<close>): quotes, minting, melting, swapping, restoring,
  and the routines they share that store, sign and invalidate. Each definition is one method, with
  its calls in the order of the code. \<open>conn\<close> says whether the caller hands in its database
  connection (see \<open>with_conn\<close>). A keyword argument that no caller of the repository gives is left
  out (\<^verbatim>\<open>keyset\<close> of \<^verbatim>\<open>swap\<close>).

  The Python names \<^verbatim>\<open>mint_quote\<close>, \<^verbatim>\<open>melt_quote\<close>, \<^verbatim>\<open>get_mint_quote\<close> and \<^verbatim>\<open>get_melt_quote\<close> of the ledger are
  \<open>request_mint_quote\<close>, \<open>request_melt_quote\<close>, \<open>ledger_get_mint_quote\<close> and \<open>ledger_get_melt_quote\<close>
  here: the plain names are those of the records and of the statements on the tables.
\<close>

section \<open>Invalidating proofs\<close>

text \<open>\<^verbatim>\<open>proofs_by_keyset.setdefault(p.id, []).append(p)\<close>.\<close>

definition add_to_group :: "token_proof \<Rightarrow> (string \<times> token_proof list) list \<Rightarrow> (string \<times> token_proof list) list" where
  "add_to_group p g = AList.update (p_id p) ((case map_of g (p_id p) of None \<Rightarrow> [] | Some l \<Rightarrow> l) @ [p]) g"

definition group_by_keyset :: "token_proof list \<Rightarrow> (string \<times> token_proof list) list" where
  "group_by_keyset ps = foldl (\<lambda>g p. add_to_group p g) [] ps"

definition bump_fees_for :: "string \<Rightarrow> int \<Rightarrow> unit op" where
  "bump_fees_for kid amount = bindS (liftS (\<lambda>s. the_keyset s kid)) (\<lambda>k. bump_keyset_fees_paid (k_id k) amount)"

definition book_group_fees :: "string \<times> token_proof list \<Rightarrow> unit op" where
  "book_group_fees g = bindS (liftS (\<lambda>s. get_fees_for_proofs s (snd g))) (\<lambda>fees.
     whenS (fees > 0) (bump_fees_for (fst g) fees))"

text \<open>\<^verbatim>\<open>p.witness or None\<close>.\<close>

definition or_none :: "string option \<Rightarrow> string option" where
  "or_none x = (if truthy_str x then x else None)"

definition invalidate_one :: "string option \<Rightarrow> token_proof \<Rightarrow> unit op" where
  "invalidate_one quote_id p =
     thenS (invalidate_proof p quote_id)
    (thenS (bump_for (p_id p) (- p_amount p))
           (submit_proof_state (p_Y p) PS_spent (or_none (p_witness p))))"

definition invalidate_proofs :: "token_proof list \<Rightarrow> string option \<Rightarrow> bool \<Rightarrow> unit op" where
  "invalidate_proofs ps quote_id conn = with_conn conn
     (thenS (forS ps (invalidate_one quote_id)) (forS (group_by_keyset ps) book_group_fees))"

section \<open>Storing and signing blinded messages\<close>

text \<open>
  The loop of \<^verbatim>\<open>_store_blinded_messages\<close>; \<open>keyset\<close> is the loop's variable, set by the first output.
\<close>

primrec store_loop ::
  "string option \<Rightarrow> string option \<Rightarrow> string option \<Rightarrow> mint_keyset option \<Rightarrow> blinded_message list \<Rightarrow> unit op" where
  "store_loop mint_id melt_id swap_id keyset [] = returnS ()"
| "store_loop mint_id melt_id swap_id keyset (x # xs) =
     bindS (case keyset of Some k \<Rightarrow> returnS k | None \<Rightarrow> liftS (\<lambda>s. the_keyset s (bm_id x))) (\<lambda>k.
     bindS (getS (\<lambda>s. keyset_of s (bm_id x) \<noteq> None)) (\<lambda>known.
     thenS (guardS known (tx_error (''keyset '' @ bm_id x @ '' not found'')))
    (thenS (guardS (bm_id x = k_id k) (tx_error ''keyset id does not match output id''))
    (thenS (guardS (k_active k) (tx_error ''keyset is not active''))
    (thenS (store_blinded_message (bm_amount x) (bm_B x) (k_id k) mint_id melt_id swap_id)
           (store_loop mint_id melt_id swap_id (Some k) xs))))))"

definition store_blinded_messages ::
  "blinded_message list \<Rightarrow> string option \<Rightarrow> string option \<Rightarrow> bool \<Rightarrow> unit op" where
  "store_blinded_messages outs mint_id melt_id conn =
     with_conn conn (store_loop mint_id melt_id None None outs)"

text \<open>A signature that is made but not stored: keyset, \<^verbatim>\<open>B_\<close>, amount, \<^verbatim>\<open>C_\<close>, \<^verbatim>\<open>e\<close>, \<^verbatim>\<open>s\<close>.\<close>

record prepared =
  pp_id :: string
  pp_B :: point
  pp_amount :: int
  pp_C :: point
  pp_e :: int
  pp_s :: int

definition prepare_signature :: "env \<Rightarrow> ledger \<Rightarrow> blinded_message \<Rightarrow> error + prepared" where
  "prepare_signature E s x =
     bindR (pk_from_hex (crv E) (bm_B x)) (\<lambda>B.
     bindR (checkR (keyset_of s (bm_id x) \<noteq> None) (tx_error (''keyset '' @ bm_id x @ '' not found''))) (\<lambda>_.
     bindR (the_keyset s (bm_id x)) (\<lambda>k.
     bindR (checkR (bm_id x = k_id k) (tx_error ''keyset id does not match output id'')) (\<lambda>_.
     bindR (checkR (k_active k) (tx_error ''keyset is not active'')) (\<lambda>_.
     bindR (ofOption (KeyError (str_int (bm_amount x))) (map_of (k_private_keys k) (bm_amount x))) (\<lambda>a.
     bindR (step2_bob (crv E) B a (nonce E (bm_B x))) (\<lambda>(C, e, sc).
     Inr \<lparr>pp_id = bm_id x, pp_B = B, pp_amount = bm_amount x, pp_C = C, pp_e = e, pp_s = sc\<rparr>)))))))"

text \<open>\<^verbatim>\<open>PrivateKey.to_hex()\<close>.\<close>

definition scalar_hex :: "curve \<Rightarrow> int \<Rightarrow> string" where
  "scalar_hex C k = to_hex (sc_bytes C k)"

definition signature_of :: "env \<Rightarrow> prepared \<Rightarrow> blinded_signature" where
  "signature_of E pr = \<lparr>bs_id = pp_id pr, bs_amount = pp_amount pr, bs_C = pk_hex (crv E) (pp_C pr),
     bs_dleq = Some \<lparr>d_e = scalar_hex (crv E) (pp_e pr), d_s = scalar_hex (crv E) (pp_s pr)\<rparr>\<rparr>"

definition store_signature :: "env \<Rightarrow> prepared \<Rightarrow> blinded_signature op" where
  "store_signature E pr =
     thenS (update_blinded_message_signature (pp_amount pr) (pk_hex (crv E) (pp_B pr))
              (pk_hex (crv E) (pp_C pr)) (scalar_hex (crv E) (pp_e pr)) (scalar_hex (crv E) (pp_s pr)))
    (thenS (bump_for (pp_id pr) (pp_amount pr))
           (returnS (signature_of E pr)))"

text \<open>
  With no output, the loop sets no variable \<^verbatim>\<open>keyset\<close> and the statement after it raises.
\<close>

definition sign_blinded_messages :: "env \<Rightarrow> blinded_message list \<Rightarrow> bool \<Rightarrow> blinded_signature list op" where
  "sign_blinded_messages E outs conn =
     bindS (liftS (\<lambda>s. mapR (prepare_signature E s) outs)) (\<lambda>prs.
     thenS (guardS (outs \<noteq> []) (UnboundLocalError ''keyset''))
     (with_conn conn (mapS (store_signature E) prs)))"

section \<open>Change for overpaid fees\<close>

definition imprint :: "blinded_message list \<Rightarrow> int list \<Rightarrow> blinded_message list" where
  "imprint outs amounts = map2 (\<lambda>x a. x\<lparr>bm_amount := a\<rparr>) outs amounts"

text \<open>The outputs that are signed, with the amounts they get.\<close>

definition change_outputs :: "int \<Rightarrow> blinded_message list \<Rightarrow> blinded_message list" where
  "change_outputs overpaid_fee outs =
     (let return_amounts = amount_split overpaid_fee;
          n_return_outputs = min (length outs) (length return_amounts);
          return_amounts_sorted = rev (sort return_amounts)
      in imprint (take n_return_outputs outs) (take n_return_outputs return_amounts_sorted))"

definition generate_change_promises ::
  "env \<Rightarrow> int \<Rightarrow> int \<Rightarrow> blinded_message list option \<Rightarrow> string option \<Rightarrow> blinded_signature list op" where
  "generate_change_promises E fee_provided fee_paid outputs melt_id =
     (let overpaid_fee = fee_provided - fee_paid
      in if overpaid_fee \<le> 0 then returnS []
         else case outputs of None \<Rightarrow> returnS [] | Some outs \<Rightarrow>
           (let outs' = change_outputs overpaid_fee outs
            in thenS (guardS (verify_no_duplicate_outputs outs') (tx_error ''duplicate promises.''))
              (bindS (sign_blinded_messages E outs' False) (\<lambda>return_promises.
               thenS (whenS (truthy_str melt_id) (delete_blinded_messages_melt_id (the melt_id)))
              (returnS return_promises)))))"

section \<open>Mint quotes\<close>

text \<open>\<^verbatim>\<open>invoice_obj.date + invoice_obj.expiry\<close>.\<close>

definition invoice_expiry :: "bolt11_invoice \<Rightarrow> int option" where
  "invoice_expiry obj = map_option (\<lambda>x. bi_date obj + x) (bi_expiry obj)"

definition exceeds :: "int \<Rightarrow> int option \<Rightarrow> bool" where
  "exceeds n limit = (truthy_int limit \<and> n > the limit)"

definition request_mint_quote :: "env \<Rightarrow> mint_quote_request \<Rightarrow> mint_quote op" where
  "request_mint_quote E r =
     thenS (guardS (mreq_amount r > 0) (tx_error ''amount must be positive''))
    (thenS (guardS (\<not> exceeds (mreq_amount r) (mint_max_mint_bolt11_sat E))
       (TransactionAmountExceedsLimitError (''Maximum mint amount is '' @ str_int (the (mint_max_mint_bolt11_sat E)) @ '' sat.'')))
    (thenS (guardS (\<not> mint_bolt11_disable_mint E) (not_allowed ''Minting with bolt11 is disabled.''))
    (bindS (liftS (\<lambda>s. verify_and_get_unit_method E s (mreq_unit r) (method_name bolt11))) (\<lambda>(u, m).
     thenS (whenS (truthy_str (mreq_description r)) (bindS (liftS (\<lambda>_. get_backend E m u)) (\<lambda>b.
       guardS (supports_description b) (not_allowed ''Backend does not support descriptions.''))))
    (thenS (whenS (truthy_int (mint_max_balance E))
       (bindS (liftS (\<lambda>s. get_unit_balance_and_fees u (db s))) (\<lambda>(balance, fees_paid).
        guardS (\<not> a_amount (amount_add_int balance (mreq_amount r)) > the (mint_max_balance E))
          (not_allowed ''Mint has reached maximum balance.''))))
    (bindS (liftS (\<lambda>_. bindR (get_backend E m u) (\<lambda>b. create_invoice b (Amount u (mreq_amount r)) (mreq_description r)))) (\<lambda>ir.
     thenS (guardS (truthy_str (ir_payment_request ir) \<and> truthy_str (ir_checking_id ir))
       (LightningError (Some ''could not fetch bolt11 payment request from backend'')))
    (bindS (liftS (\<lambda>_. bolt11_decode E (the (ir_payment_request ir)))) (\<lambda>obj.
     let quote = \<lparr>mq_quote = random_id E, mq_method = method_name m, mq_request = lower (the (ir_payment_request ir)),
           mq_checking_id = the (ir_checking_id ir), mq_unit = mreq_unit r, mq_amount = mreq_amount r,
           mq_state = MQ_unpaid, mq_created_time = Some (now_s E), mq_paid_time = None,
           mq_expiry = invoice_expiry obj, mq_pubkey = mreq_pubkey r\<rparr>
     in thenS (store_mint_quote quote)
       (thenS (submit_event (EvMint quote))
              (returnS quote)))))))))))"

text \<open>
  The transaction in which \<^verbatim>\<open>get_mint_quote\<close> makes a quote paid; the listener of the backend
  (\<^verbatim>\<open>cashu/mint/tasks.py\<close>) may have done so in the meantime.
\<close>

definition mark_mint_quote_paid :: "env \<Rightarrow> string \<Rightarrow> mint_quote op" where
  "mark_mint_quote_paid E quote_id = transaction
     (bindS (liftS (\<lambda>s. get_mint_quote (Some quote_id) None None (db s))) (\<lambda>found.
      bindS (liftS (\<lambda>_. ofOption (PyException ''quote not found'') found)) (\<lambda>q.
      if mq_state q = MQ_unpaid then
        bindS (liftS (\<lambda>_. mint_set_state q MQ_paid)) (\<lambda>q'.
        let q'' = q'\<lparr>mq_paid_time := Some (now_s E)\<rparr>
        in thenS (update_mint_quote q'') (thenS (submit_event (EvMint q'')) (returnS q'')))
      else returnS q)))"

definition ledger_get_mint_quote :: "env \<Rightarrow> string \<Rightarrow> mint_quote op" where
  "ledger_get_mint_quote E quote_id =
     bindS (liftS (\<lambda>s. get_mint_quote (Some quote_id) None None (db s))) (\<lambda>found.
     bindS (liftS (\<lambda>_. ofOption (PyException ''quote not found'') found)) (\<lambda>q.
     bindS (liftS (\<lambda>s. verify_and_get_unit_method E s (mq_unit q) (mq_method q))) (\<lambda>(u, m).
     if mq_state q = MQ_unpaid then
       thenS (guardS (mq_checking_id q \<noteq> []) (CashuError ''quote has no checking id'' 0))
      (bindS (liftS (\<lambda>_. bindR (get_backend E m u) (\<lambda>b. get_invoice_status b (mq_checking_id q)))) (\<lambda>status.
       if st_result status = PR_settled then mark_mint_quote_paid E quote_id else returnS q))
     else returnS q)))"

text \<open>\<^verbatim>\<open>invoice_callback_dispatcher\<close> of \<^verbatim>\<open>cashu/mint/tasks.py\<close>: the backend reports a paid invoice.\<close>

definition invoice_callback_dispatcher :: "env \<Rightarrow> string \<Rightarrow> unit op" where
  "invoice_callback_dispatcher E checking_id =
     bindS (transaction
       (bindS (liftS (\<lambda>s. get_mint_quote None (Some checking_id) None (db s))) (\<lambda>found.
        case found of
          None \<Rightarrow> returnS None
        | Some q \<Rightarrow>
            if mq_state q = MQ_unpaid then
              bindS (liftS (\<lambda>_. mint_set_state q MQ_paid)) (\<lambda>q'.
              let q'' = q'\<lparr>mq_paid_time := Some (now_s E)\<rparr>
              in thenS (update_mint_quote q'') (returnS (Some q'')))
            else returnS (Some q))))
     (\<lambda>r. case r of None \<Rightarrow> returnS () | Some q \<Rightarrow> submit_event (EvMint q))"

section \<open>Minting\<close>

text \<open>The body of the \<^verbatim>\<open>try\<close> of \<^verbatim>\<open>mint\<close>.\<close>

definition mint_body :: "env \<Rightarrow> blinded_message list \<Rightarrow> string \<Rightarrow> string option \<Rightarrow> mint_quote \<Rightarrow> unit_t \<Rightarrow> blinded_signature list op" where
  "mint_body E outs quote_id signature q output_unit =
     thenS (guardS (mq_unit q = unit_name output_unit) (tx_error ''quote unit does not match output unit''))
    (thenS (guardS (mq_amount q = sum_list (List.map bm_amount outs)) (tx_error ''amount to mint does not match quote amount''))
    (thenS (guardS (\<not> (truthy_int (mq_expiry q) \<and> the (mq_expiry q) < now_s E)) (tx_error ''quote expired''))
    (bindS (liftS (\<lambda>_. verify_mint_quote_witness E q outs signature)) (\<lambda>ok.
     thenS (guardS ok QuoteSignatureInvalidError)
    (thenS (store_blinded_messages outs (Some quote_id) None False)
           (sign_blinded_messages E outs False))))))"

definition mint :: "env \<Rightarrow> blinded_message list \<Rightarrow> string \<Rightarrow> string option \<Rightarrow> blinded_signature list op" where
  "mint E outs quote_id signature =
     thenS (liftS (\<lambda>s. verify_outputs E s outs False))
    (bindS (liftS (\<lambda>s. the_keyset s (bm_id (hd outs)))) (\<lambda>k.
     bindS (ledger_get_mint_quote E quote_id) (\<lambda>q.
     thenS (guardS (mq_state q \<noteq> MQ_pending) (tx_error ''Mint quote already pending.''))
    (thenS (guardS (mq_state q \<noteq> MQ_issued) QuoteAlreadyIssuedError)
    (thenS (guardS (mq_state q = MQ_paid) QuoteNotPaidError)
    (thenS (set_mint_quote_pending quote_id)
    (bindS (catchS (mint_body E outs quote_id signature q (k_unit k))
             (\<lambda>e. thenS (unset_mint_quote_pending quote_id (mq_state q)) (raiseS e))) (\<lambda>promises.
     thenS (unset_mint_quote_pending quote_id MQ_issued)
           (returnS promises)))))))))"

section \<open>Melt quotes\<close>

definition create_internal_melt_quote :: "env \<Rightarrow> ledger \<Rightarrow> mint_quote \<Rightarrow> melt_quote_request \<Rightarrow> error + payment_quote" where
  "create_internal_melt_quote E s q r =
     bindR (verify_and_get_unit_method E s (lr_unit r) (method_name bolt11)) (\<lambda>(u, m).
     bindR (checkR (lower (lr_request r) = mq_request q) (tx_error ''bolt11 requests do not match'')) (\<lambda>_.
     bindR (checkR (mq_unit q = lr_unit r) (tx_error ''units do not match'')) (\<lambda>_.
     bindR (checkR (mq_method q = method_name m) (tx_error ''methods do not match'')) (\<lambda>_.
     bindR (checkR (mq_state q \<noteq> MQ_paid) (tx_error ''mint quote already paid'')) (\<lambda>_.
     bindR (checkR (mq_state q \<noteq> MQ_issued) (tx_error ''mint quote already issued'')) (\<lambda>_.
     bindR (checkR (mq_state q = MQ_unpaid) (tx_error ''mint quote is not unpaid'')) (\<lambda>_.
     bindR (checkR (mq_checking_id q \<noteq> []) (tx_error ''mint quote has no checking id'')) (\<lambda>_.
     bindR (checkR (\<not> is_mpp r) (tx_error ''internal payments do not support mpp'')) (\<lambda>_.
     Inr \<lparr>pq_checking_id = mq_checking_id q, pq_amount = Amount u (mq_amount q), pq_fee = Amount u 0\<rparr>)))))))))"

definition validate_payment_quote :: "env \<Rightarrow> ledger \<Rightarrow> melt_quote_request \<Rightarrow> payment_quote \<Rightarrow> error + unit" where
  "validate_payment_quote E s r pq =
     bindR (verify_and_get_unit_method E s (lr_unit r) (method_name bolt11)) (\<lambda>(u, m).
     bindR (checkR (pq_checking_id pq \<noteq> []) (PyException ''quote has no checking id'')) (\<lambda>_.
     bindR (if \<not> is_mpp r then Inr ()
            else bindR (mpp_amount r) (\<lambda>mpp. bindR (amount_to (pq_amount pq) msat round_none) (\<lambda>a.
              checkR (mpp = a_amount a) (tx_error ''quote amount not as requested'')))) (\<lambda>_.
     bindR (checkR (a_unit (pq_amount pq) = u) (tx_error ''payment quote amount units do not match'')) (\<lambda>_.
     checkR (a_unit (pq_fee pq) = u) (tx_error ''payment quote fee units do not match'')))))"

text \<open>Where \<^verbatim>\<open>melt_quote\<close> gets its payment quote from: a mint quote of this mint, or the backend.\<close>

definition find_payment_quote :: "env \<Rightarrow> ledger \<Rightarrow> melt_quote_request \<Rightarrow> unit_t \<Rightarrow> method_t \<Rightarrow> error + payment_quote" where
  "find_payment_quote E s r u m =
     bindR (get_mint_quote None None (Some (lower (lr_request r))) (db s)) (\<lambda>found.
     case found of
       Some q \<Rightarrow>
         if mq_unit q = lr_unit r then
           bindR (checkR (\<not> is_mpp r) (tx_error ''internal mpp not allowed.'')) (\<lambda>_. create_internal_melt_quote E s q r)
         else bindR (get_backend E m u) (\<lambda>b.
           bindR (checkR (\<not> (is_mpp r \<and> \<not> supports_mpp b)) (tx_error ''backend does not support mpp.'')) (\<lambda>_.
           get_payment_quote b r))
     | None \<Rightarrow> bindR (get_backend E m u) (\<lambda>b.
           bindR (checkR (\<not> (is_mpp r \<and> \<not> supports_mpp b)) (tx_error ''backend does not support mpp.'')) (\<lambda>_.
           get_payment_quote b r)))"

definition check_max_melt :: "env \<Rightarrow> amount \<Rightarrow> unit_t \<Rightarrow> error + unit" where
  "check_max_melt E a u =
     (if \<not> truthy_int (mint_max_melt_bolt11_sat E) then Inr ()
      else bindR (amount_to a u round_none) (\<lambda>b.
        checkR (\<not> a_amount b > the (mint_max_melt_bolt11_sat E))
          (not_allowed (''Maximum melt amount is '' @ str_int (the (mint_max_melt_bolt11_sat E)) @ '' sat.''))))"

definition request_melt_quote :: "env \<Rightarrow> melt_quote_request \<Rightarrow> melt_response op" where
  "request_melt_quote E r =
     thenS (guardS (\<not> mint_bolt11_disable_melt E) (not_allowed ''Melting with bol11 is disabled.''))
    (bindS (liftS (\<lambda>s. verify_and_get_unit_method E s (lr_unit r) (method_name bolt11))) (\<lambda>(u, m).
     bindS (liftS (\<lambda>s. find_payment_quote E s r u m)) (\<lambda>pq.
     thenS (liftS (\<lambda>s. validate_payment_quote E s r pq))
    (thenS (liftS (\<lambda>_. check_max_melt E (pq_amount pq) u))
    (bindS (liftS (\<lambda>_. bolt11_decode E (lr_request r))) (\<lambda>obj.
     thenS (guardS (truthy_int (bi_amount_msat obj)) (tx_error ''invoice has no amount.''))
    (bindS (liftS (\<lambda>_. amount_to (pq_amount pq) u round_none)) (\<lambda>a.
     bindS (liftS (\<lambda>_. amount_to (pq_fee pq) u round_none)) (\<lambda>f.
     let quote = \<lparr>lq_quote = random_id E, lq_method = method_name m, lq_request = lower (lr_request r),
           lq_checking_id = pq_checking_id pq, lq_unit = unit_name u, lq_amount = a_amount a,
           lq_fee_reserve = a_amount f, lq_state = LQ_unpaid, lq_created_time = Some (now_s E),
           lq_paid_time = None, lq_fee_paid = 0, lq_payment_preimage = None,
           lq_expiry = invoice_expiry obj, lq_outputs = None, lq_change = None\<rparr>
     in thenS (store_melt_quote_checked quote)
       (thenS (submit_event (EvMelt quote))
       (returnS ((from_melt_quote quote)\<lparr>mr_payment_preimage := None, mr_change := None\<rparr>))))))))))))"

section \<open>The state of a melt quote\<close>

definition keep_preimage :: "string option \<Rightarrow> melt_quote \<Rightarrow> melt_quote" where
  "keep_preimage pre q = (if truthy_str pre then q\<lparr>lq_payment_preimage := pre\<rparr> else q)"

definition keep_fee :: "amount option \<Rightarrow> unit_t \<Rightarrow> rounding \<Rightarrow> melt_quote \<Rightarrow> error + melt_quote" where
  "keep_fee fee u r q = (case fee of None \<Rightarrow> Inr q
     | Some a \<Rightarrow> bindR (amount_to a u r) (\<lambda>b. Inr (q\<lparr>lq_fee_paid := a_amount b\<rparr>)))"

text \<open>\<^verbatim>\<open>get_melt_quote\<close> when the backend reports the payment as settled.\<close>

definition settle_pending_melt :: "env \<Rightarrow> melt_quote \<Rightarrow> unit_t \<Rightarrow> payment_status \<Rightarrow> melt_quote op" where
  "settle_pending_melt E q u status =
     bindS (liftS (\<lambda>_. melt_set_state q LQ_paid)) (\<lambda>q1.
     bindS (liftS (\<lambda>_. keep_fee (st_fee status) u round_none q1)) (\<lambda>q2.
     let q3 = (keep_preimage (st_preimage status) q2)\<lparr>lq_paid_time := Some (now_s E)\<rparr>
     in bindS (liftS (\<lambda>s. get_pending_proofs_for_quote E (lq_quote q) (db s))) (\<lambda>pending.
        thenS (transaction (thenS (invalidate_proofs pending (Some (lq_quote q)) True)
                                  (unset_proofs_pending pending True True)))
       (bindS (get_db (get_blinded_messages_melt_id (lq_quote q))) (\<lambda>outs.
        bindS (if outs = [] then returnS q3
               else bindS (liftS (\<lambda>s. get_fees_for_proofs s pending)) (\<lambda>input_fees.
                 thenS (liftS (\<lambda>s. the_keyset s (bm_id (hd outs))))
                (bindS (generate_change_promises E (sum_proofs pending - lq_amount q - input_fees) (lq_fee_paid q3)
                    (Some outs) (Some (lq_quote q))) (\<lambda>promises.
                 returnS (q3\<lparr>lq_change := Some promises\<rparr>))))) (\<lambda>q4.
        thenS (update_melt_quote q4)
       (thenS (submit_event (EvMelt q4))
              (returnS q4))))))))"

text \<open>\<^verbatim>\<open>get_melt_quote\<close> when the payment has failed.\<close>

definition rollback_pending_melt :: "env \<Rightarrow> melt_quote \<Rightarrow> melt_quote op" where
  "rollback_pending_melt E q =
     bindS (liftS (\<lambda>_. melt_set_state q LQ_unpaid)) (\<lambda>q1.
     thenS (update_melt_quote q1)
    (thenS (submit_event (EvMelt q1))
    (bindS (liftS (\<lambda>s. get_pending_proofs_for_quote E (lq_quote q) (db s))) (\<lambda>pending.
     thenS (unset_proofs_pending pending True False)
    (thenS (delete_blinded_messages_melt_id (lq_quote q))
           (returnS q1))))))"

definition ledger_get_melt_quote :: "env \<Rightarrow> string \<Rightarrow> bool \<Rightarrow> melt_quote op" where
  "ledger_get_melt_quote E quote_id rollback_unknown =
     bindS (liftS (\<lambda>s. get_melt_quote_row (Some quote_id) None None (db s))) (\<lambda>found.
     bindS (liftS (\<lambda>_. ofOption (PyException ''quote not found'') found)) (\<lambda>q.
     bindS (liftS (\<lambda>s. verify_and_get_unit_method E s (lq_unit q) (lq_method q))) (\<lambda>(u, m).
     bindS (liftS (\<lambda>s. get_mint_quote None None (Some (lq_request q)) (db s))) (\<lambda>is_internal.
     if lq_state q = LQ_pending \<and> is_internal = None then
       bindS (liftS (\<lambda>_. bindR (get_backend E m u) (\<lambda>b. get_payment_status b (lq_checking_id q)))) (\<lambda>status.
       bindS (if st_result status = PR_settled then settle_pending_melt E q u status else returnS q) (\<lambda>q1.
       if st_result status = PR_failed \<or> (rollback_unknown \<and> st_result status = PR_unknown)
       then rollback_pending_melt E q1 else returnS q1))
     else returnS q))))"

text \<open>One run of the regular task.\<close>

definition check_pending_proofs_and_melt_quotes :: "env \<Rightarrow> unit op" where
  "check_pending_proofs_and_melt_quotes E =
     bindS (get_db get_all_melt_quotes_from_pending_proofs) (\<lambda>qs.
     forS qs (\<lambda>q. thenS (ledger_get_melt_quote E (lq_quote q) False) (returnS ())))"

section \<open>Melting\<close>

text \<open>The branch of \<^verbatim>\<open>melt_mint_settle_internally\<close> with a mint quote of the same unit.\<close>

definition settle_with_mint_quote :: "env \<Rightarrow> melt_quote \<Rightarrow> mint_quote \<Rightarrow> melt_quote op" where
  "settle_with_mint_quote E q mq =
     thenS (guardS (lq_state q \<noteq> LQ_paid) (tx_error ''melt quote already paid''))
    (bindS (liftS (\<lambda>_. bolt11_decode E (lq_request q))) (\<lambda>obj.
     thenS (guardS (truthy_int (bi_amount_msat obj)) (tx_error ''invoice has no amount.''))
    (thenS (guardS (mq_amount mq = lq_amount q) (tx_error ''amounts do not match''))
    (thenS (guardS (lq_request q = mq_request mq) (tx_error ''bolt11 requests do not match''))
    (thenS (guardS (mq_method mq = lq_method q) (tx_error ''methods do not match''))
    (thenS (guardS (mq_state mq \<noteq> MQ_paid) (tx_error ''mint quote already paid''))
    (thenS (guardS (mq_state mq \<noteq> MQ_issued) (tx_error ''mint quote already issued''))
    (thenS (guardS (mq_state mq = MQ_unpaid) (tx_error ''mint quote is not unpaid''))
    (bindS (liftS (\<lambda>_. melt_set_state (q\<lparr>lq_fee_paid := 0\<rparr>) LQ_paid)) (\<lambda>q1.
     bindS (liftS (\<lambda>_. mint_set_state mq MQ_paid)) (\<lambda>mq1.
     let q2 = q1\<lparr>lq_paid_time := Some (now_s E)\<rparr>;
         mq2 = mq1\<lparr>mq_paid_time := Some (now_s E)\<rparr>
     in thenS (transaction (thenS (update_melt_quote q2) (update_mint_quote mq2)))
       (thenS (submit_event (EvMelt q2))
       (thenS (submit_event (EvMint mq2))
              (returnS q2))))))))))))))"

definition melt_mint_settle_internally :: "env \<Rightarrow> melt_quote \<Rightarrow> melt_quote op" where
  "melt_mint_settle_internally E q =
     bindS (liftS (\<lambda>s. get_mint_quote None None (Some (lq_request q)) (db s))) (\<lambda>found.
     case found of
       None \<Rightarrow> returnS q
     | Some mq \<Rightarrow> if mq_unit mq \<noteq> lq_unit q then returnS q else settle_with_mint_quote E q mq)"

text \<open>
  \<^verbatim>\<open>melt\<close> up to the point where it changes the state: the quote, its unit and method, and the fee
  reserve that the proofs provide.
\<close>

definition given_outputs :: "blinded_message list option \<Rightarrow> blinded_message list" where
  "given_outputs outputs = (case outputs of None \<Rightarrow> [] | Some outs \<Rightarrow> outs)"

definition check_melt_outputs :: "env \<Rightarrow> ledger \<Rightarrow> melt_quote \<Rightarrow> blinded_message list \<Rightarrow> error + unit" where
  "check_melt_outputs E s q outs =
     (if outs = [] then Inr ()
      else bindR (verify_outputs E s outs True) (\<lambda>_.
           bindR (the_keyset s (bm_id (hd outs))) (\<lambda>k.
           checkR (lq_unit q = unit_name (k_unit k))
             (tx_error (''output unit '' @ unit_name (k_unit k) @ '' does not match quote unit '' @ lq_unit q)))))"

definition check_melt_amounts :: "ledger \<Rightarrow> melt_quote \<Rightarrow> token_proof list \<Rightarrow> error + int" where
  "check_melt_amounts s q ps =
     bindR (get_fees_for_proofs s ps) (\<lambda>input_fees.
     let total_provided = sum_proofs ps;
         total_needed = lq_amount q + lq_fee_reserve q + input_fees;
         fee_reserve_provided = total_provided - lq_amount q - input_fees
     in bindR (checkR (\<not> total_provided < total_needed)
          (tx_error (''not enough inputs provided for melt. Provided: '' @ str_int total_provided @ '', needed: '' @ str_int total_needed))) (\<lambda>_.
        bindR (checkR (\<not> fee_reserve_provided < lq_fee_reserve q)
          (tx_error (''not enough fee reserve provided for melt. Provided fee reserve: '' @ str_int fee_reserve_provided @
             '', needed: '' @ str_int (lq_fee_reserve q)))) (\<lambda>_.
        Inr fee_reserve_provided)))"

definition melt_message :: "token_proof list \<Rightarrow> blinded_message list \<Rightarrow> string \<Rightarrow> string" where
  "melt_message ps outs quote = join (List.map p_secret ps @ List.map bm_B outs) @ quote"

text \<open>The truth value of \<^verbatim>\<open>_verify_sigall_spending_conditions\<close> is not looked at here, only exceptions
  stop the melt.\<close>

definition melt_checks :: "env \<Rightarrow> token_proof list \<Rightarrow> string \<Rightarrow> blinded_message list \<Rightarrow> melt_quote \<Rightarrow> ledger \<Rightarrow> error + unit_t \<times> method_t \<times> int" where
  "melt_checks E ps quote outs q s =
     bindR (verify_and_get_unit_method E s (lq_unit q) (lq_method q)) (\<lambda>(u, m).
     bindR (check_melt_outputs E s q outs) (\<lambda>_.
     bindR (verify_sigall_spending_conditions E ps outs (Some (melt_message ps outs quote))) (\<lambda>_.
     bindR (check_melt_amounts s q ps) (\<lambda>fee_reserve_provided.
     bindR (verify_inputs_and_outputs E s ps None) (\<lambda>_.
     Inr (u, m, fee_reserve_provided))))))"

text \<open>\<^verbatim>\<open>pay_invoice\<close> with its \<^verbatim>\<open>except\<close> branch.\<close>

definition unknown_payment :: "error \<Rightarrow> payment_response" where
  "unknown_payment e = \<lparr>py_result = PR_unknown, py_checking_id = None, py_fee = None, py_preimage = None,
     py_error_message = Some (error_detail e)\<rparr>"

definition melt_pay :: "env \<Rightarrow> melt_quote \<Rightarrow> unit_t \<Rightarrow> method_t \<Rightarrow> (payment_response \<times> melt_quote) op" where
  "melt_pay E q u m = catchS
     (bindS (liftS (\<lambda>_. bindR (get_backend E m u) (\<lambda>b. pay_invoice b q (lq_fee_reserve q * 1000)))) (\<lambda>payment.
      if truthy_str (py_checking_id payment) \<and> py_checking_id payment \<noteq> Some (lq_checking_id q) then
        (let q1 = q\<lparr>lq_checking_id := the (py_checking_id payment)\<rparr>
         in thenS (update_melt_quote q1) (returnS (payment, q1)))
      else returnS (payment, q)))
     (\<lambda>e. returnS (unknown_payment e, q))"

datatype melt_step = Melt_return melt_response | Melt_continue melt_quote

text \<open>The payment is left pending and further melts are stopped.\<close>

definition melt_stuck :: "melt_quote \<Rightarrow> melt_step op" where
  "melt_stuck q = thenS (modifyS (\<lambda>s. s\<lparr>disable_melt := True\<rparr>)) (returnS (Melt_return (from_melt_quote q)))"

definition failed_detail :: "string option \<Rightarrow> string" where
  "failed_detail msg = ''Lightning payment failed'' @ (if truthy_str msg then '': '' @ the msg else []) @ ''.''"

definition melt_failed :: "token_proof list \<Rightarrow> melt_quote \<Rightarrow> melt_quote_state \<Rightarrow> string option \<Rightarrow> melt_step op" where
  "melt_failed ps q previous_state msg =
     thenS (unset_proofs_pending ps True False)
    (thenS (unset_melt_quote_pending q previous_state)
    (thenS (delete_blinded_messages_melt_id (lq_quote q))
           (raiseS (LightningPaymentFailedError (Some (failed_detail msg))))))"

text \<open>The \<^verbatim>\<open>match\<close> on the result of the payment.\<close>

definition melt_outcome :: "env \<Rightarrow> token_proof list \<Rightarrow> melt_quote_state \<Rightarrow> unit_t \<Rightarrow> method_t \<Rightarrow> payment_response \<Rightarrow> melt_quote \<Rightarrow> melt_step op" where
  "melt_outcome E ps previous_state u m payment q =
     (if py_result payment = PR_failed \<or> py_result payment = PR_unknown then
        (let checking_id = (if truthy_str (py_checking_id payment) then the (py_checking_id payment) else lq_checking_id q)
         in case bindR (get_backend E m u) (\<lambda>b. get_payment_status b checking_id) of
              Inl e \<Rightarrow> melt_stuck q
            | Inr status \<Rightarrow>
                if st_result status = PR_failed \<or> st_result status = PR_unknown
                then melt_failed ps q previous_state (py_error_message payment)
                else melt_stuck q)
      else if py_result payment = PR_settled then
        bindS (liftS (\<lambda>_. keep_fee (py_fee payment) u round_up q)) (\<lambda>q1.
        bindS (liftS (\<lambda>_. melt_set_state (keep_preimage (py_preimage payment) q1) LQ_paid)) (\<lambda>q2.
        returnS (Melt_continue (q2\<lparr>lq_paid_time := Some (now_s E)\<rparr>))))
      else returnS (Melt_return (from_melt_quote q)))"

text \<open>A successful melt: invalidate the proofs, return the change.\<close>

definition melt_finish :: "env \<Rightarrow> token_proof list \<Rightarrow> blinded_message list \<Rightarrow> int \<Rightarrow> melt_quote \<Rightarrow> melt_response op" where
  "melt_finish E ps outs fee_reserve_provided q =
     thenS (invalidate_proofs ps (Some (lq_quote q)) False)
    (thenS (unset_proofs_pending ps True False)
    (bindS (if outs = [] then returnS []
            else thenS (liftS (\<lambda>s. the_keyset s (bm_id (hd outs))))
                 (generate_change_promises E fee_reserve_provided (lq_fee_paid q) (Some outs) (Some (lq_quote q)))) (\<lambda>promises.
     let q1 = q\<lparr>lq_change := Some promises\<rparr>
     in thenS (update_melt_quote q1)
       (thenS (submit_event (EvMelt q1))
              (returnS (from_melt_quote q1))))))"

text \<open>\<^verbatim>\<open>melt\<close> once everything is verified: from making the proofs pending on.\<close>

definition melt_run :: "env \<Rightarrow> token_proof list \<Rightarrow> blinded_message list \<Rightarrow> melt_quote \<Rightarrow> unit_t \<times> method_t \<times> int \<Rightarrow> melt_response op" where
  "melt_run E ps outs q = (\<lambda>(u, m, fee_reserve_provided).
     thenS (verify_spent_proofs_and_set_pending E ps (Some (lq_quote q)))
    (bindS (set_melt_quote_pending q) (\<lambda>q1.
     thenS (whenS (outs \<noteq> []) (store_blinded_messages outs None (Some (lq_quote q1)) False))
    (bindS (melt_mint_settle_internally E q1) (\<lambda>q2.
     bindS (if lq_state q2 = LQ_paid then returnS (Melt_continue q2)
            else bindS (melt_pay E q2 u m) (\<lambda>(payment, q3). melt_outcome E ps (lq_state q) u m payment q3)) (\<lambda>step.
     case step of
       Melt_return r \<Rightarrow> returnS r
     | Melt_continue q4 \<Rightarrow> melt_finish E ps outs fee_reserve_provided q4))))))"

definition melt :: "env \<Rightarrow> token_proof list \<Rightarrow> string \<Rightarrow> blinded_message list option \<Rightarrow> melt_response op" where
  "melt E ps quote outputs =
     (let outs = given_outputs outputs in
     bindS (getS disable_melt) (\<lambda>disabled.
     thenS (guardS (\<not> (disabled \<and> mint_disable_melt_on_error E))
       (not_allowed ''Melt is disabled. Please contact the operator.''))
    (bindS (ledger_get_melt_quote E quote False) (\<lambda>q.
     thenS (guardS (lq_state q = LQ_unpaid) (tx_error (''melt quote is not unpaid: '' @ melt_state_name (lq_state q))))
    (bindS (liftS (melt_checks E ps quote outs q)) (melt_run E ps outs q))))))"

section \<open>Swapping and restoring\<close>

definition swap_body :: "env \<Rightarrow> token_proof list \<Rightarrow> blinded_message list \<Rightarrow> blinded_signature list op" where
  "swap_body E ps outs = transaction
     (thenS (store_blinded_messages outs None None True)
     (thenS (invalidate_proofs ps None True)
            (sign_blinded_messages E outs True)))"

definition swap :: "env \<Rightarrow> token_proof list \<Rightarrow> blinded_message list \<Rightarrow> blinded_signature list op" where
  "swap E ps outs =
     thenS (liftS (\<lambda>s. verify_inputs_and_outputs E s ps (Some outs)))
    (thenS (verify_spent_proofs_and_set_pending E ps None)
           (finallyS (swap_body E ps outs) (unset_proofs_pending ps True False)))"

primrec restore_loop :: "blinded_message list \<Rightarrow> mint_db \<Rightarrow> error + (blinded_message \<times> blinded_signature) list" where
  "restore_loop [] d = Inr []"
| "restore_loop (x # xs) d =
     bindR (get_blind_signature (bm_B x) d) (\<lambda>promise.
     bindR (restore_loop xs d) (\<lambda>rest.
     Inr (case promise of None \<Rightarrow> rest | Some sig \<Rightarrow> (x, sig) # rest)))"

definition restore :: "blinded_message list \<Rightarrow> (blinded_message list \<times> blinded_signature list) op" where
  "restore outs = bindS (liftS (\<lambda>s. restore_loop outs (db s))) (\<lambda>found.
     returnS (List.map fst found, List.map snd found))"

end
