(* ===== verification/Effects.thy ===== *)
theory Effects
  imports Ledger
begin

text \<open>
  What the statements and loops of the ledger do to the database, in closed form: each lemma gives
  the state after a step that returns as one record update. \<open>bump_all\<close> and \<open>fee_all\<close> collect the
  changes of keyset balances and of booked fees, so that a sequence of bumps is one list.
\<close>

section \<open>Balance changes\<close>

definition total :: "string \<Rightarrow> (string \<times> int) list \<Rightarrow> int" where
  "total kid bs = sum_list (List.map snd (filter (\<lambda>b. fst b = kid) bs))"

definition bump_all :: "(string \<times> int) list \<Rightarrow> mint_keyset list \<Rightarrow> mint_keyset list" where
  "bump_all bs ks = List.map (\<lambda>k. k\<lparr>k_balance := k_balance k + total (k_id k) bs\<rparr>) ks"

definition fee_all :: "(string \<times> int) list \<Rightarrow> mint_keyset list \<Rightarrow> mint_keyset list" where
  "fee_all bs ks = List.map (\<lambda>k. k\<lparr>k_fees_paid := k_fees_paid k + total (k_id k) bs\<rparr>) ks"

lemma total_simps [simp]:
  "total kid [] = 0"
  "total kid (b # bs) = (if fst b = kid then snd b else 0) + total kid bs"
  "total kid (bs @ cs) = total kid bs + total kid cs"
  by (simp_all add: total_def)

lemma bump_all_Nil [simp]: "bump_all [] ks = ks"
  by (simp add: bump_all_def)

lemma bump_all_bump_all [simp]: "bump_all bs (bump_all cs ks) = bump_all (cs @ bs) ks"
  by (simp add: bump_all_def)

lemma fee_all_Nil [simp]: "fee_all [] ks = ks"
  by (simp add: fee_all_def)

lemma fee_all_fee_all [simp]: "fee_all bs (fee_all cs ks) = fee_all (cs @ bs) ks"
  by (simp add: fee_all_def)

lemma bump_fee_commute: "bump_all bs (fee_all cs ks) = fee_all cs (bump_all bs ks)"
  by (simp add: bump_all_def fee_all_def)

lemma bump_all_ids [simp]: "List.map k_id (bump_all bs ks) = List.map k_id ks"
  by (simp add: bump_all_def comp_def)

lemma fee_all_ids [simp]: "List.map k_id (fee_all bs ks) = List.map k_id ks"
  by (simp add: fee_all_def comp_def)

definition neg_all :: "(string \<times> int) list \<Rightarrow> (string \<times> int) list" where
  "neg_all bs = List.map (\<lambda>b. (fst b, - snd b)) bs"

lemma total_neg_all [simp]: "total kid (neg_all bs) = - total kid bs"
  by (induction bs) (auto simp: neg_all_def)

lemma bump_all_cancel [simp]: "bump_all (neg_all bs @ bs) ks = ks" "bump_all (bs @ neg_all bs) ks = ks"
  by (simp_all add: bump_all_def)

text \<open>The amounts that proofs, outputs and prepared signatures move, per keyset.\<close>

definition proof_bumps :: "token_proof list \<Rightarrow> (string \<times> int) list" where
  "proof_bumps ps = List.map (\<lambda>p. (p_id p, p_amount p)) ps"

definition output_bumps :: "blinded_message list \<Rightarrow> (string \<times> int) list" where
  "output_bumps outs = List.map (\<lambda>x. (bm_id x, bm_amount x)) outs"

lemma bumps_simps [simp]:
  "proof_bumps [] = []" "proof_bumps (p # ps) = (p_id p, p_amount p) # proof_bumps ps"
  "output_bumps [] = []" "output_bumps (x # xs) = (bm_id x, bm_amount x) # output_bumps xs"
  "neg_all [] = []" "neg_all (b # bs) = (fst b, - snd b) # neg_all bs"
  by (simp_all add: proof_bumps_def output_bumps_def neg_all_def)

section \<open>Single statements\<close>

text \<open>The keysets in memory are filed under their own ids.\<close>

definition wf_keysets :: "ledger \<Rightarrow> bool" where
  "wf_keysets s \<longleftrightarrow> (\<forall>x\<in>set (keysets s). k_id (snd x) = fst x)"

lemma wf_keysetsD: "wf_keysets s \<Longrightarrow> keyset_of s kid = Some k \<Longrightarrow> k_id k = kid"
  by (auto simp: wf_keysets_def keyset_of_def dest!: map_of_SomeD)

lemma execute_Ok: "execute f s = (Inr u, t) \<longleftrightarrow> (\<exists>d. f (db s) = Inr d \<and> t = s\<lparr>db := d\<rparr>)"
  by (auto simp: execute_def split: sum.splits)

lemma execute_Err: "execute f s = (Inl e, t) \<longleftrightarrow> f (db s) = Inl e \<and> t = s"
  by (auto simp: execute_def split: sum.splits)

lemma update_db_apply [simp]: "update_db f s = (Inr (), s\<lparr>db := f (db s)\<rparr>)"
  by (simp add: update_db_def)

lemma get_db_apply [simp]: "get_db f s = (Inr (f (db s)), s)"
  by (simp add: get_db_def)

lemma submit_event_apply [simp]: "submit_event ev s = (Inr (), s\<lparr>events := events s @ [ev]\<rparr>)"
  by (simp add: submit_event_def)

lemma keyset_of_update [simp]:
  "keyset_of (s\<lparr>db := d\<rparr>) kid = keyset_of s kid" "keyset_of (s\<lparr>events := ev\<rparr>) kid = keyset_of s kid"
  "keyset_of (s\<lparr>disable_melt := b\<rparr>) kid = keyset_of s kid"
  by (simp_all add: keyset_of_def)

lemma the_keyset_update [simp]:
  "the_keyset (s\<lparr>db := d\<rparr>) kid = the_keyset s kid" "the_keyset (s\<lparr>events := ev\<rparr>) kid = the_keyset s kid"
  "the_keyset (s\<lparr>disable_melt := b\<rparr>) kid = the_keyset s kid"
  by (simp_all add: the_keyset_def)

lemma wf_keysets_update [simp]:
  "wf_keysets (s\<lparr>db := d\<rparr>) = wf_keysets s" "wf_keysets (s\<lparr>events := ev\<rparr>) = wf_keysets s"
  "wf_keysets (s\<lparr>disable_melt := b\<rparr>) = wf_keysets s"
  by (simp_all add: wf_keysets_def)

lemma bump_keyset_balance_apply [simp]:
  "bump_keyset_balance kid a s = (Inr (), s\<lparr>db := (db s)\<lparr>keyset_rows := bump_all [(kid, a)] (keyset_rows (db s))\<rparr>\<rparr>)"
  by (auto simp: bump_keyset_balance_def bump_all_def)

lemma bump_keyset_fees_paid_apply [simp]:
  "bump_keyset_fees_paid kid a s = (Inr (), s\<lparr>db := (db s)\<lparr>keyset_rows := fee_all [(kid, a)] (keyset_rows (db s))\<rparr>\<rparr>)"
  by (auto simp: bump_keyset_fees_paid_def fee_all_def)

lemma bump_for_known:
  assumes "wf_keysets s" and "keyset_of s kid \<noteq> None"
  shows "bump_for kid a s = (Inr (), s\<lparr>db := (db s)\<lparr>keyset_rows := bump_all [(kid, a)] (keyset_rows (db s))\<rparr>\<rparr>)"
  using assms by (auto simp: bump_for_def bindS_def the_keyset_def dest: wf_keysetsD)

lemma bump_for_unknown: "keyset_of s kid = None \<Longrightarrow> bump_for kid a s = (Inl (KeyError kid), s)"
  by (simp add: bump_for_def bindS_def the_keyset_def)

lemma bump_for_Ok:
  assumes "wf_keysets s"
  shows "bump_for kid a s = (Inr u, t) \<longleftrightarrow> keyset_of s kid \<noteq> None \<and>
    t = s\<lparr>db := (db s)\<lparr>keyset_rows := bump_all [(kid, a)] (keyset_rows (db s))\<rparr>\<rparr>"
  using assms by (cases "keyset_of s kid") (auto simp: bump_for_known bump_for_unknown)

lemma bump_fees_for_known:
  assumes "wf_keysets s" and "keyset_of s kid \<noteq> None"
  shows "bump_fees_for kid a s = (Inr (), s\<lparr>db := (db s)\<lparr>keyset_rows := fee_all [(kid, a)] (keyset_rows (db s))\<rparr>\<rparr>)"
  using assms by (auto simp: bump_fees_for_def bindS_def the_keyset_def dest: wf_keysetsD)

text \<open>A transaction that returns is its body; one that raises leaves the database as it was.\<close>

lemma transaction_Ok: "transaction m s = (Inr x, t) \<longleftrightarrow> m s = (Inr x, t)"
  by (auto simp: transaction_def split: prod.splits sum.splits)

lemma transaction_Err: "transaction m s = (Inl e, t) \<longleftrightarrow> (\<exists>t'. m s = (Inl e, t') \<and> t = t'\<lparr>db := db s\<rparr>)"
  by (auto simp: transaction_def split: prod.splits sum.splits)

lemma transaction_db: "transaction m s = (Inl e, t) \<Longrightarrow> db t = db s"
  by (auto simp: transaction_Err)

section \<open>The loops over proofs\<close>

definition pending_rows :: "token_proof list \<Rightarrow> string option \<Rightarrow> proof_row list" where
  "pending_rows ps qid = List.map (\<lambda>p. proof_to_row p qid) ps"

lemma proof_to_row_sel [simp]:
  "pr_y (proof_to_row p q) = p_Y p" "pr_secret (proof_to_row p q) = p_secret p"
  "pr_amount (proof_to_row p q) = p_amount p" "pr_id (proof_to_row p q) = p_id p"
  "pr_melt_quote (proof_to_row p q) = q" "pr_witness (proof_to_row p q) = p_witness p"
  by (simp_all add: proof_to_row_def)

lemma set_proof_pending_Ok:
  "set_proof_pending p qid s = (Inr u, t) \<longleftrightarrow>
     p_Y p \<notin> pr_y ` set (proofs_pending (db s)) \<and> refers lq_quote (melt_quotes (db s)) qid \<and>
     t = s\<lparr>db := (db s)\<lparr>proofs_pending := proofs_pending (db s) @ [proof_to_row p qid]\<rparr>\<rparr>"
  by (auto simp: set_proof_pending_def execute_Ok bindR_Inr pending_tbl.ins_iff check_fk_def)

lemma invalidate_proof_Ok:
  "invalidate_proof p qid s = (Inr u, t) \<longleftrightarrow>
     p_Y p \<notin> pr_y ` set (proofs_used (db s)) \<and> refers lq_quote (melt_quotes (db s)) qid \<and>
     t = s\<lparr>db := (db s)\<lparr>proofs_used := proofs_used (db s) @ [proof_to_row p qid]\<rparr>\<rparr>"
  by (auto simp: invalidate_proof_def execute_Ok bindR_Inr used_tbl.ins_iff check_fk_def)

lemma pending_loop_Ok:
  assumes "forS ps (\<lambda>p. thenS (set_proof_pending p qid) (bump_for (p_id p) (- p_amount p))) s = (Inr u, t)"
    and "wf_keysets s"
  shows "t = s\<lparr>db := (db s)\<lparr>proofs_pending := proofs_pending (db s) @ pending_rows ps qid,
           keyset_rows := bump_all (neg_all (proof_bumps ps)) (keyset_rows (db s))\<rparr>\<rparr>"
    and "\<forall>p\<in>set ps. keyset_of s (p_id p) \<noteq> None"
    and "\<forall>p\<in>set ps. p_Y p \<notin> pr_y ` set (proofs_pending (db s))"
    and "distinct (List.map p_Y ps)"
    and "ps = [] \<or> refers lq_quote (melt_quotes (db s)) qid"
proof -
  have "t = s\<lparr>db := (db s)\<lparr>proofs_pending := proofs_pending (db s) @ pending_rows ps qid,
           keyset_rows := bump_all (neg_all (proof_bumps ps)) (keyset_rows (db s))\<rparr>\<rparr> \<and>
    (\<forall>p\<in>set ps. keyset_of s (p_id p) \<noteq> None \<and> p_Y p \<notin> pr_y ` set (proofs_pending (db s))) \<and>
    distinct (List.map p_Y ps) \<and> (ps = [] \<or> refers lq_quote (melt_quotes (db s)) qid)"
    using assms
  proof (induction ps arbitrary: s)
    case Nil
    then show ?case by (simp add: pending_rows_def)
  next
    case (Cons p ps)
    let ?s1 = "s\<lparr>db := (db s)\<lparr>proofs_pending := proofs_pending (db s) @ [proof_to_row p qid]\<rparr>\<rparr>"
    let ?s2 = "?s1\<lparr>db := (db ?s1)\<lparr>keyset_rows := bump_all [(p_id p, - p_amount p)] (keyset_rows (db ?s1))\<rparr>\<rparr>"
    from Cons.prems have 1: "p_Y p \<notin> pr_y ` set (proofs_pending (db s))"
        "refers lq_quote (melt_quotes (db s)) qid" "keyset_of s (p_id p) \<noteq> None"
      and 2: "forS ps (\<lambda>p. thenS (set_proof_pending p qid) (bump_for (p_id p) (- p_amount p))) ?s2 = (Inr u, t)"
      by (auto elim!: thenS_OkE simp: set_proof_pending_Ok bump_for_Ok)
    have "wf_keysets ?s2" using Cons.prems by simp
    from Cons.IH[OF 2 this] 1 show ?case
      by (auto simp: pending_rows_def neg_all_def proof_bumps_def)
  qed
  then show "t = s\<lparr>db := (db s)\<lparr>proofs_pending := proofs_pending (db s) @ pending_rows ps qid,
           keyset_rows := bump_all (neg_all (proof_bumps ps)) (keyset_rows (db s))\<rparr>\<rparr>"
    and "\<forall>p\<in>set ps. keyset_of s (p_id p) \<noteq> None"
    and "\<forall>p\<in>set ps. p_Y p \<notin> pr_y ` set (proofs_pending (db s))"
    and "distinct (List.map p_Y ps)"
    and "ps = [] \<or> refers lq_quote (melt_quotes (db s)) qid"
    by simp_all
qed

lemma submit_proof_state_pending [simp]:
  "submit_proof_state Y st None s = (Inr (), s\<lparr>events := events s @ [EvProof \<lparr>ps_Y = Y, ps_state = st, ps_witness = None\<rparr>]\<rparr>)"
  by (simp add: submit_proof_state_def bindS_def mk_proof_state_def)

lemma submit_proof_state_spent [simp]:
  "submit_proof_state Y PS_spent w s = (Inr (), s\<lparr>events := events s @ [EvProof \<lparr>ps_Y = Y, ps_state = PS_spent, ps_witness = w\<rparr>]\<rparr>)"
  by (simp add: submit_proof_state_def bindS_def mk_proof_state_def)

definition state_events :: "token_proof list \<Rightarrow> proof_spent_state \<Rightarrow> event list" where
  "state_events ps st = List.map (\<lambda>p. EvProof \<lparr>ps_Y = p_Y p, ps_state = st, ps_witness = None\<rparr>) ps"

definition spent_events :: "token_proof list \<Rightarrow> event list" where
  "spent_events ps = List.map (\<lambda>p. EvProof \<lparr>ps_Y = p_Y p, ps_state = PS_spent, ps_witness = or_none (p_witness p)\<rparr>) ps"

lemma forS_state_events [simp]:
  "forS ps (\<lambda>p. submit_proof_state (p_Y p) st None) s = (Inr (), s\<lparr>events := events s @ state_events ps st\<rparr>)"
  by (induction ps arbitrary: s) (simp_all add: state_events_def thenS_def bindS_def)

text \<open>Releasing proofs: never fails when their keysets are known.\<close>

definition drop_secrets :: "string set \<Rightarrow> proof_row list \<Rightarrow> proof_row list" where
  "drop_secrets S rows = filter (\<lambda>r. pr_secret r \<notin> S) rows"

lemma unset_loop:
  assumes "wf_keysets s" and "\<forall>p\<in>set ps. keyset_of s (p_id p) \<noteq> None"
  shows "forS ps (\<lambda>p. thenS (unset_proof_pending p) (bump_for (p_id p) (p_amount p))) s =
    (Inr (), s\<lparr>db := (db s)\<lparr>proofs_pending := drop_secrets (p_secret ` set ps) (proofs_pending (db s)),
       keyset_rows := bump_all (proof_bumps ps) (keyset_rows (db s))\<rparr>\<rparr>)"
  using assms
proof (induction ps arbitrary: s)
  case Nil
  then show ?case by (simp add: drop_secrets_def)
next
  case (Cons p ps)
  let ?s1 = "s\<lparr>db := (db s)\<lparr>proofs_pending := filter (\<lambda>r. pr_secret r \<noteq> p_secret p) (proofs_pending (db s))\<rparr>\<rparr>"
  let ?s2 = "?s1\<lparr>db := (db ?s1)\<lparr>keyset_rows := bump_all [(p_id p, p_amount p)] (keyset_rows (db ?s1))\<rparr>\<rparr>"
  have "thenS (unset_proof_pending p) (bump_for (p_id p) (p_amount p)) s = (Inr (), ?s2)"
    using Cons.prems by (simp add: thenS_def bindS_def unset_proof_pending_def bump_for_known)
  moreover have "forS ps (\<lambda>p. thenS (unset_proof_pending p) (bump_for (p_id p) (p_amount p))) ?s2 =
    (Inr (), ?s2\<lparr>db := (db ?s2)\<lparr>proofs_pending := drop_secrets (p_secret ` set ps) (proofs_pending (db ?s2)),
       keyset_rows := bump_all (proof_bumps ps) (keyset_rows (db ?s2))\<rparr>\<rparr>)"
    using Cons.prems by (intro Cons.IH) auto
  ultimately show ?case
    by (simp add: thenS_step(1) drop_secrets_def conj_commute)
qed

lemma unset_proofs_pending_spent:
  assumes "wf_keysets s" and "\<forall>p\<in>set ps. keyset_of s (p_id p) \<noteq> None"
  shows "unset_proofs_pending ps True conn s =
    (Inr (), s\<lparr>db := (db s)\<lparr>proofs_pending := drop_secrets (p_secret ` set ps) (proofs_pending (db s)),
       keyset_rows := bump_all (proof_bumps ps) (keyset_rows (db s))\<rparr>\<rparr>)"
  using unset_loop[OF assms]
  by (simp add: unset_proofs_pending_def with_conn_def thenS_def bindS_def transaction_def whenS_def)

lemma verify_spent_and_set_pending_Ok:
  assumes "verify_spent_proofs_and_set_pending E ps qid s = (Inr u, t)" and "wf_keysets s"
  shows "t = s\<lparr>db := (db s)\<lparr>proofs_pending := proofs_pending (db s) @ pending_rows ps qid,
           keyset_rows := bump_all (neg_all (proof_bumps ps)) (keyset_rows (db s))\<rparr>,
           events := events s @ state_events ps PS_pending\<rparr>"
    and "\<forall>p\<in>set ps. keyset_of s (p_id p) \<noteq> None"
    and "\<forall>p\<in>set ps. p_Y p \<notin> pr_y ` set (proofs_pending (db s))"
    and "distinct (List.map p_Y ps)"
    and "verify_proofs_spendable E ps (db s) = Inr ()"
    and "ps = [] \<or> refers lq_quote (melt_quotes (db s)) qid"
proof -
  from assms(1) obtain t1 where v: "verify_proofs_spendable E ps (db s) = Inr ()"
    and loop: "forS ps (\<lambda>p. thenS (set_proof_pending p qid) (bump_for (p_id p) (- p_amount p))) s = (Inr (), t1)"
    and t: "t = t1\<lparr>events := events t1 @ state_events ps PS_pending\<rparr>"
    by (auto simp: verify_spent_proofs_and_set_pending_def transaction_Ok elim!: thenS_OkE)
  note p = pending_loop_Ok[OF loop assms(2)]
  show "t = s\<lparr>db := (db s)\<lparr>proofs_pending := proofs_pending (db s) @ pending_rows ps qid,
           keyset_rows := bump_all (neg_all (proof_bumps ps)) (keyset_rows (db s))\<rparr>,
           events := events s @ state_events ps PS_pending\<rparr>"
    using t p(1) by simp
  show "\<forall>p\<in>set ps. keyset_of s (p_id p) \<noteq> None"
    and "\<forall>p\<in>set ps. p_Y p \<notin> pr_y ` set (proofs_pending (db s))"
    and "distinct (List.map p_Y ps)"
    and "verify_proofs_spendable E ps (db s) = Inr ()"
    and "ps = [] \<or> refers lq_quote (melt_quotes (db s)) qid"
    using p(2-5) v by simp_all
qed

lemma verify_spent_and_set_pending_Err:
  "verify_spent_proofs_and_set_pending E ps qid s = (Inl e, t) \<Longrightarrow> db t = db s"
  by (auto simp: verify_spent_proofs_and_set_pending_def elim!: thenS_ErrE dest: transaction_db)

section \<open>Invalidating\<close>

lemma invalidate_one_Ok:
  assumes "wf_keysets s"
  shows "invalidate_one qid p s = (Inr u, t) \<longleftrightarrow>
    p_Y p \<notin> pr_y ` set (proofs_used (db s)) \<and> refers lq_quote (melt_quotes (db s)) qid \<and> keyset_of s (p_id p) \<noteq> None \<and>
    t = s\<lparr>db := (db s)\<lparr>proofs_used := proofs_used (db s) @ [proof_to_row p qid],
      keyset_rows := bump_all [(p_id p, - p_amount p)] (keyset_rows (db s))\<rparr>, events := events s @ spent_events [p]\<rparr>"
  using assms
  by (auto simp: invalidate_one_def invalidate_proof_Ok bump_for_Ok spent_events_def thenS_step
      elim!: thenS_OkE intro!: thenS_step)

definition used_rows :: "token_proof list \<Rightarrow> string option \<Rightarrow> proof_row list" where
  "used_rows ps qid = List.map (\<lambda>p. proof_to_row p qid) ps"

lemma invalidate_loop_Ok:
  assumes "forS ps (invalidate_one qid) s = (Inr u, t)" and "wf_keysets s"
  shows "t = s\<lparr>db := (db s)\<lparr>proofs_used := proofs_used (db s) @ used_rows ps qid,
           keyset_rows := bump_all (neg_all (proof_bumps ps)) (keyset_rows (db s))\<rparr>, events := events s @ spent_events ps\<rparr> \<and>
    (\<forall>p\<in>set ps. keyset_of s (p_id p) \<noteq> None \<and> p_Y p \<notin> pr_y ` set (proofs_used (db s))) \<and>
    distinct (List.map p_Y ps)"
  using assms
proof (induction ps arbitrary: s)
  case Nil
  then show ?case by (simp add: used_rows_def spent_events_def)
next
  case (Cons p ps)
  let ?s1 = "s\<lparr>db := (db s)\<lparr>proofs_used := proofs_used (db s) @ [proof_to_row p qid],
      keyset_rows := bump_all [(p_id p, - p_amount p)] (keyset_rows (db s))\<rparr>, events := events s @ spent_events [p]\<rparr>"
  from Cons.prems have 1: "p_Y p \<notin> pr_y ` set (proofs_used (db s))" "keyset_of s (p_id p) \<noteq> None"
    and 2: "forS ps (invalidate_one qid) ?s1 = (Inr u, t)"
    by (auto elim!: thenS_OkE simp: invalidate_one_Ok)
  have "wf_keysets ?s1" using Cons.prems by simp
  from Cons.IH[OF 2 this] 1 show ?case
    by (auto simp: used_rows_def neg_all_def proof_bumps_def spent_events_def)
qed

text \<open>The fees booked for the groups, as one list.\<close>

definition group_fee :: "ledger \<Rightarrow> string \<times> token_proof list \<Rightarrow> int" where
  "group_fee s g = (case get_fees_for_proofs s (snd g) of Inl _ \<Rightarrow> 0 | Inr f \<Rightarrow> max 0 f)"

definition fee_bumps :: "ledger \<Rightarrow> (string \<times> token_proof list) list \<Rightarrow> (string \<times> int) list" where
  "fee_bumps s gs = List.map (\<lambda>g. (fst g, group_fee s g)) gs"

lemma fees_update [simp]:
  "get_fees_for_proofs (s\<lparr>db := d\<rparr>) ps = get_fees_for_proofs s ps"
  "get_fees_for_proofs (s\<lparr>events := ev\<rparr>) ps = get_fees_for_proofs s ps"
  by (simp_all add: get_fees_for_proofs_def proof_units_def proof_ppks_def)

lemma group_fee_update [simp]:
  "group_fee (s\<lparr>db := d\<rparr>) g = group_fee s g" "group_fee (s\<lparr>events := ev\<rparr>) g = group_fee s g"
  by (simp_all add: group_fee_def)

lemma fee_all_zero: "(\<forall>b\<in>set bs. snd b = 0) \<Longrightarrow> fee_all bs ks = ks"
proof -
  assume z: "\<forall>b\<in>set bs. snd b = 0"
  have "total kid bs = 0" for kid using z by (induction bs) auto
  then show ?thesis by (simp add: fee_all_def)
qed

lemma ledger_db_id: "db s = d \<Longrightarrow> s\<lparr>db := d\<rparr> = s"
  by auto

lemma book_group_fees_Ok:
  assumes "book_group_fees g s = (Inr u, t)" and "wf_keysets s"
  shows "t = s\<lparr>db := (db s)\<lparr>keyset_rows := fee_all [(fst g, group_fee s g)] (keyset_rows (db s))\<rparr>\<rparr>"
proof -
  from assms(1) obtain f where f: "get_fees_for_proofs s (snd g) = Inr f"
    and w: "whenS (f > 0) (bump_fees_for (fst g) f) s = (Inr u, t)"
    by (auto simp: book_group_fees_def elim!: bindS_OkE)
  show ?thesis
  proof (cases "f > 0")
    case True
    then have k: "keyset_of s (fst g) \<noteq> None"
      using w by (auto simp: whenS_def bump_fees_for_def the_keyset_def elim!: bindS_OkE)
    show ?thesis using True w f bump_fees_for_known[OF assms(2) k]
      by (simp add: whenS_def group_fee_def)
  next
    case False
    then show ?thesis using w f by (simp add: whenS_def group_fee_def fee_all_zero)
  qed
qed

lemma book_fees_loop_Ok:
  assumes "forS gs book_group_fees s = (Inr u, t)" and "wf_keysets s"
  shows "t = s\<lparr>db := (db s)\<lparr>keyset_rows := fee_all (fee_bumps s gs) (keyset_rows (db s))\<rparr>\<rparr>"
  using assms
proof (induction gs arbitrary: s)
  case Nil
  then show ?case by (simp add: fee_bumps_def)
next
  case (Cons g gs)
  let ?s1 = "s\<lparr>db := (db s)\<lparr>keyset_rows := fee_all [(fst g, group_fee s g)] (keyset_rows (db s))\<rparr>\<rparr>"
  from Cons.prems have 1: "forS gs book_group_fees ?s1 = (Inr u, t)"
    by (auto elim!: thenS_OkE dest: book_group_fees_Ok)
  have "wf_keysets ?s1" using Cons.prems by simp
  from Cons.IH[OF 1 this] show ?case by (simp add: fee_bumps_def)
qed

text \<open>The effect of \<open>invalidate_proofs\<close>.\<close>

definition spend_fees :: "ledger \<Rightarrow> token_proof list \<Rightarrow> (string \<times> int) list" where
  "spend_fees s ps = fee_bumps s (group_by_keyset ps)"

lemma spend_fees_update [simp]:
  "spend_fees (s\<lparr>db := d\<rparr>) ps = spend_fees s ps" "spend_fees (s\<lparr>events := ev\<rparr>) ps = spend_fees s ps"
  by (simp_all add: spend_fees_def fee_bumps_def)

lemma invalidate_proofs_Ok:
  assumes "invalidate_proofs ps qid conn s = (Inr u, t)" and "wf_keysets s"
  shows "t = s\<lparr>db := (db s)\<lparr>proofs_used := proofs_used (db s) @ used_rows ps qid,
           keyset_rows := fee_all (spend_fees s ps) (bump_all (neg_all (proof_bumps ps)) (keyset_rows (db s)))\<rparr>,
           events := events s @ spent_events ps\<rparr>"
    and "\<forall>p\<in>set ps. keyset_of s (p_id p) \<noteq> None \<and> p_Y p \<notin> pr_y ` set (proofs_used (db s))"
    and "distinct (List.map p_Y ps)"
proof -
  from assms(1) obtain t1 where 1: "forS ps (invalidate_one qid) s = (Inr (), t1)"
    and 2: "forS (group_by_keyset ps) book_group_fees t1 = (Inr u, t)"
    by (auto simp: invalidate_proofs_def with_conn_def transaction_Ok split: if_splits elim!: thenS_OkE)
  note l = invalidate_loop_Ok[OF 1 assms(2)]
  then have "wf_keysets t1" using assms(2) by auto
  with book_fees_loop_Ok[OF 2] l
  show "t = s\<lparr>db := (db s)\<lparr>proofs_used := proofs_used (db s) @ used_rows ps qid,
           keyset_rows := fee_all (spend_fees s ps) (bump_all (neg_all (proof_bumps ps)) (keyset_rows (db s)))\<rparr>,
           events := events s @ spent_events ps\<rparr>"
    and "\<forall>p\<in>set ps. keyset_of s (p_id p) \<noteq> None \<and> p_Y p \<notin> pr_y ` set (proofs_used (db s))"
    and "distinct (List.map p_Y ps)"
    by (auto simp: spend_fees_def fee_bumps_def)
qed

section \<open>Storing and signing\<close>

definition new_row :: "string option \<Rightarrow> string option \<Rightarrow> blinded_message \<Rightarrow> promise_row" where
  "new_row mint_id melt_id x = \<lparr>pm_amount = bm_amount x, pm_b = bm_B x, pm_id = bm_id x, pm_c = None, pm_e = None,
     pm_s = None, pm_mint_quote = mint_id, pm_melt_quote = melt_id, pm_swap_id = None\<rparr>"

lemma store_loop_Ok:
  assumes "store_loop mint_id melt_id None keyset outs s = (Inr u, t)"
  shows "t = s\<lparr>db := (db s)\<lparr>promises := promises (db s) @ List.map (new_row mint_id melt_id) outs\<rparr>\<rparr> \<and>
    (\<forall>x\<in>set outs. keyset_of s (bm_id x) \<noteq> None \<and> bm_B x \<notin> pm_b ` set (promises (db s))) \<and>
    distinct (List.map bm_B outs)"
  using assms
proof (induction outs arbitrary: s keyset)
  case Nil
  then show ?case by simp
next
  case (Cons x xs)
  let ?s1 = "s\<lparr>db := (db s)\<lparr>promises := promises (db s) @ [new_row mint_id melt_id x]\<rparr>\<rparr>"
  from Cons.prems obtain k where 1: "keyset_of s (bm_id x) \<noteq> None" "bm_B x \<notin> pm_b ` set (promises (db s))"
    and 2: "store_loop mint_id melt_id None (Some k) xs ?s1 = (Inr u, t)"
    by (auto elim!: thenS_OkE bindS_OkE simp: store_blinded_message_def execute_Ok bindR_Inr promise_tbl.ins_iff
        new_row_def split: option.splits)
  from Cons.IH[OF 2] 1 show ?case
    by (auto simp: new_row_def)
qed

lemma store_blinded_messages_Ok:
  assumes "store_blinded_messages outs mint_id melt_id conn s = (Inr u, t)"
  shows "t = s\<lparr>db := (db s)\<lparr>promises := promises (db s) @ List.map (new_row mint_id melt_id) outs\<rparr>\<rparr>"
    and "\<forall>x\<in>set outs. keyset_of s (bm_id x) \<noteq> None \<and> bm_B x \<notin> pm_b ` set (promises (db s))"
    and "distinct (List.map bm_B outs)"
proof -
  from assms have "store_loop mint_id melt_id None None outs s = (Inr u, t)"
    by (auto simp: store_blinded_messages_def with_conn_def transaction_Ok split: if_splits)
  from store_loop_Ok[OF this]
  show "t = s\<lparr>db := (db s)\<lparr>promises := promises (db s) @ List.map (new_row mint_id melt_id) outs\<rparr>\<rparr>"
    and "\<forall>x\<in>set outs. keyset_of s (bm_id x) \<noteq> None \<and> bm_B x \<notin> pm_b ` set (promises (db s))"
    and "distinct (List.map bm_B outs)"
    by simp_all
qed

lemma store_loop_Err:
  "store_loop mint_id melt_id sw keyset outs s = (Inl e, t) \<Longrightarrow> events t = events s \<and> keysets t = keysets s \<and> disable_melt t = disable_melt s"
proof (induction outs arbitrary: s keyset)
  case (Cons x xs)
  from Cons.prems show ?case
    by (auto elim!: thenS_ErrE bindS_ErrE simp: store_blinded_message_def execute_Ok execute_Err
        dest!: Cons.IH split: option.splits)
qed simp

definition sign_with :: "env \<Rightarrow> prepared \<Rightarrow> promise_row \<Rightarrow> promise_row" where
  "sign_with E pr = sign_row (pp_amount pr) (pk_hex (crv E) (pp_B pr)) (pk_hex (crv E) (pp_C pr))
     (scalar_hex (crv E) (pp_e pr)) (scalar_hex (crv E) (pp_s pr))"

primrec sign_all :: "env \<Rightarrow> prepared list \<Rightarrow> promise_row list \<Rightarrow> promise_row list" where
  "sign_all E [] rows = rows"
| "sign_all E (pr # prs) rows = sign_all E prs (List.map (sign_with E pr) rows)"

definition prepared_bumps :: "prepared list \<Rightarrow> (string \<times> int) list" where
  "prepared_bumps prs = List.map (\<lambda>pr. (pp_id pr, pp_amount pr)) prs"

lemma sign_with_b [simp]: "pm_b (sign_with E pr r) = pm_b r" "pm_id (sign_with E pr r) = pm_id r"
  "pm_mint_quote (sign_with E pr r) = pm_mint_quote r" "pm_melt_quote (sign_with E pr r) = pm_melt_quote r"
  by (simp_all add: sign_with_def sign_row_def)

lemma sign_with_other: "pm_b r \<noteq> pk_hex (crv E) (pp_B pr) \<Longrightarrow> sign_with E pr r = r"
  by (simp add: sign_with_def sign_row_def)

lemma store_signature_Ok:
  assumes "wf_keysets s"
  shows "store_signature E pr s = (Inr sig, t) \<longleftrightarrow>
    pk_hex (crv E) (pp_B pr) \<in> pm_b ` set (promises (db s)) \<and> keyset_of s (pp_id pr) \<noteq> None \<and> sig = signature_of E pr \<and>
    t = s\<lparr>db := (db s)\<lparr>promises := List.map (sign_with E pr) (promises (db s)),
      keyset_rows := bump_all [(pp_id pr, pp_amount pr)] (keyset_rows (db s))\<rparr>\<rparr>"
proof -
  have u: "update_blinded_message_signature a b c e sc s = (Inr v, t) \<longleftrightarrow>
      b \<in> pm_b ` set (promises (db s)) \<and> t = s\<lparr>db := (db s)\<lparr>promises := List.map (sign_row a b c e sc) (promises (db s))\<rparr>\<rparr>"
    for a b c e sc v t
    by (auto simp: update_blinded_message_signature_def execute_Ok)
  show ?thesis
    using assms unfolding store_signature_def
    by (auto simp: u bump_for_Ok sign_with_def[abs_def] elim!: thenS_OkE intro!: thenS_step(1)[THEN trans])
qed

lemma sign_loop_Ok:
  assumes "mapS (store_signature E) prs s = (Inr sigs, t)" and "wf_keysets s"
  shows "sigs = List.map (signature_of E) prs \<and>
    t = s\<lparr>db := (db s)\<lparr>promises := sign_all E prs (promises (db s)),
      keyset_rows := bump_all (prepared_bumps prs) (keyset_rows (db s))\<rparr>\<rparr> \<and>
    (\<forall>pr\<in>set prs. pk_hex (crv E) (pp_B pr) \<in> pm_b ` set (promises (db s)))"
  using assms
proof (induction prs arbitrary: s sigs)
  case Nil
  then show ?case by (simp add: prepared_bumps_def)
next
  case (Cons pr prs)
  let ?s1 = "s\<lparr>db := (db s)\<lparr>promises := List.map (sign_with E pr) (promises (db s)),
      keyset_rows := bump_all [(pp_id pr, pp_amount pr)] (keyset_rows (db s))\<rparr>\<rparr>"
  from Cons.prems obtain ss where 1: "mapS (store_signature E) prs ?s1 = (Inr ss, t)"
    and 2: "sigs = signature_of E pr # ss" "pk_hex (crv E) (pp_B pr) \<in> pm_b ` set (promises (db s))"
    by (auto elim!: bindS_OkE simp: store_signature_Ok)
  have "wf_keysets ?s1" using Cons.prems by simp
  from Cons.IH[OF 1 this] 2 show ?case
    by (auto simp: prepared_bumps_def image_image)
qed

text \<open>The prepared signatures belong to the outputs, one by one.\<close>

definition prepared_for :: "env \<Rightarrow> blinded_message \<Rightarrow> prepared \<Rightarrow> bool" where
  "prepared_for E x pr \<longleftrightarrow> pp_id pr = bm_id x \<and> pp_amount pr = bm_amount x \<and> pk_from_hex (crv E) (bm_B x) = Inr (pp_B pr)"

lemma prepare_signature_for: "prepare_signature E s x = Inr pr \<Longrightarrow> prepared_for E x pr"
  by (auto simp: prepare_signature_def bindR_Inr prepared_for_def)

lemma sign_blinded_messages_Ok:
  assumes "sign_blinded_messages E outs conn s = (Inr sigs, t)" and "wf_keysets s"
  obtains prs where "mapR (prepare_signature E s) outs = Inr prs" "list_all2 (prepared_for E) outs prs"
    "outs \<noteq> []" "sigs = List.map (signature_of E) prs"
    "t = s\<lparr>db := (db s)\<lparr>promises := sign_all E prs (promises (db s)),
      keyset_rows := bump_all (output_bumps outs) (keyset_rows (db s))\<rparr>\<rparr>"
    "\<forall>pr\<in>set prs. pk_hex (crv E) (pp_B pr) \<in> pm_b ` set (promises (db s))"
proof -
  from assms(1) obtain prs where 1: "mapR (prepare_signature E s) outs = Inr prs" and 2: "outs \<noteq> []"
    and 3: "mapS (store_signature E) prs s = (Inr sigs, t)"
    by (auto simp: sign_blinded_messages_def with_conn_def transaction_Ok split: if_splits elim!: bindS_OkE thenS_OkE)
  from 1 have 4: "list_all2 (prepared_for E) outs prs"
    by (auto simp: mapR_Inr elim!: list_all2_mono prepare_signature_for)
  have "prepared_bumps prs = output_bumps outs"
    using 4 by (induction rule: list_all2_induct) (auto simp: prepared_bumps_def prepared_for_def)
  with that[OF 1 4 2] sign_loop_Ok[OF 3 assms(2)] show thesis by auto
qed

text \<open>
  An output whose \<^verbatim>\<open>B_\<close> is the text the mint would print for the point. The mint stores the text
  it was given and signs under the text it prints.
\<close>

definition canonical :: "env \<Rightarrow> blinded_message \<Rightarrow> bool" where
  "canonical E x \<longleftrightarrow> (case pk_from_hex (crv E) (bm_B x) of Inl _ \<Rightarrow> True | Inr p \<Rightarrow> pk_hex (crv E) p = bm_B x)"

lemma sign_all_append: "sign_all E prs (rows @ rows') = sign_all E prs rows @ sign_all E prs rows'"
  by (induction prs arbitrary: rows rows') auto

lemma sign_all_other:
  "\<forall>r\<in>set rows. \<forall>pr\<in>set prs. pm_b r \<noteq> pk_hex (crv E) (pp_B pr) \<Longrightarrow> sign_all E prs rows = rows"
proof (induction prs)
  case (Cons pr prs)
  have "List.map (sign_with E pr) rows = rows"
    using Cons.prems by (intro map_idI sign_with_other) auto
  with Cons show ?case by simp
qed simp

text \<open>Freshly stored rows, signed: each gets the signature prepared for it.\<close>

lemma sign_all_fresh:
  assumes "list_all2 (prepared_for E) outs prs" and "distinct (List.map bm_B outs)" and "\<forall>x\<in>set outs. canonical E x"
    and "\<And>x. pm_b (f x) = bm_B x"
  shows "sign_all E prs (List.map f outs) = map2 (\<lambda>x pr. sign_with E pr (f x)) outs prs"
  using assms(1-3)
proof (induction rule: list_all2_induct)
  case (Cons x xs pr prs)
  have b: "pk_hex (crv E) (pp_B pr) = bm_B x"
    using Cons by (auto simp: canonical_def prepared_for_def)
  have others: "\<forall>pr'\<in>set prs. pm_b (sign_with E pr (f x)) \<noteq> pk_hex (crv E) (pp_B pr')"
  proof
    fix pr' assume "pr' \<in> set prs"
    with Cons.hyps obtain y where "y \<in> set xs" "prepared_for E y pr'"
      by (metis in_set_conv_nth list_all2_conv_all_nth)
    moreover have "canonical E y" using Cons.prems \<open>y \<in> set xs\<close> by simp
    ultimately show "pm_b (sign_with E pr (f x)) \<noteq> pk_hex (crv E) (pp_B pr')"
      using Cons.prems by (auto simp: canonical_def prepared_for_def assms(4))
  qed
  have head: "sign_all E prs [sign_with E pr (f x)] = [sign_with E pr (f x)]"
    using others by (intro sign_all_other) simp
  have tail: "List.map (sign_with E pr) (List.map f xs) = List.map f xs"
    using Cons.prems b by (intro map_idI sign_with_other) (auto simp: assms(4), metis imageI)
  show ?case
    using Cons sign_all_append[of E prs "[sign_with E pr (f x)]" "List.map f xs"] head tail
    by (simp del: map_map)
qed simp

lemma sign_all_stored:
  assumes prs: "list_all2 (prepared_for E) outs prs" and "distinct (List.map bm_B outs)"
    and can: "\<forall>x\<in>set outs. canonical E x"
    and new: "\<forall>x\<in>set outs. P x \<and> bm_B x \<notin> pm_b ` set rows"
  shows "sign_all E prs (rows @ List.map (new_row mint_id melt_id) outs) =
    rows @ map2 (\<lambda>x pr. sign_with E pr (new_row mint_id melt_id x)) outs prs"
proof -
  have "\<forall>r\<in>set rows. \<forall>pr\<in>set prs. pm_b r \<noteq> pk_hex (crv E) (pp_B pr)"
  proof (intro ballI notI)
    fix r pr assume r: "r \<in> set rows" and pr: "pr \<in> set prs" and eq: "pm_b r = pk_hex (crv E) (pp_B pr)"
    obtain x where "x \<in> set outs" "prepared_for E x pr"
      using prs pr by (metis in_set_conv_nth list_all2_conv_all_nth)
    with can eq have "pm_b r = bm_B x" by (auto simp: canonical_def prepared_for_def)
    with new \<open>x \<in> set outs\<close> r show False by (metis imageI)
  qed
  then show ?thesis
    using sign_all_fresh[OF assms(1-3), of "new_row mint_id melt_id"]
    by (simp add: sign_all_append sign_all_other new_row_def)
qed

section \<open>The keysets in memory do not change during a request\<close>

abbreviation has_keysets :: "(string \<times> mint_keyset) list \<Rightarrow> ledger \<Rightarrow> bool" where
  "has_keysets K \<equiv> \<lambda>s. keysets s = K"

lemma keeps_execute [keeps_intros]: "keeps (has_keysets K) (execute f)"
  by (auto simp: keeps_def execute_def split: sum.splits)

lemma keeps_update_db [keeps_intros]: "keeps (has_keysets K) (update_db f)"
  by (auto simp: keeps_def)

lemma keeps_get_db [keeps_intros]: "keeps I (get_db f)"
  by (auto simp: keeps_def)

lemma keeps_submit_event [keeps_intros]: "keeps (has_keysets K) (submit_event ev)"
  by (auto simp: keeps_def)

lemma keeps_disable [keeps_intros]: "keeps (has_keysets K) (modifyS (\<lambda>s. s\<lparr>disable_melt := b\<rparr>))"
  by (auto simp: keeps_def)

lemma keeps_transaction [keeps_intros]: "keeps (has_keysets K) m \<Longrightarrow> keeps (has_keysets K) (transaction m)"
  by (fastforce simp: keeps_def transaction_def split: prod.splits sum.splits)

lemma keeps_prod [keeps_intros]: "(\<And>a b. x = (a, b) \<Longrightarrow> keeps I (f a b)) \<Longrightarrow> keeps I (case x of (a, b) \<Rightarrow> f a b)"
  by (cases x) auto

lemma keeps_sum [keeps_intros]:
  "(\<And>e. x = Inl e \<Longrightarrow> keeps I (f e)) \<Longrightarrow> (\<And>y. x = Inr y \<Longrightarrow> keeps I (g y)) \<Longrightarrow>
   keeps I (case x of Inl e \<Rightarrow> f e | Inr y \<Rightarrow> g y)"
  by (cases x) auto

lemma keeps_melt_step [keeps_intros]:
  "(\<And>r. x = Melt_return r \<Longrightarrow> keeps I (f r)) \<Longrightarrow> (\<And>q. x = Melt_continue q \<Longrightarrow> keeps I (g q)) \<Longrightarrow>
   keeps I (case x of Melt_return r \<Rightarrow> f r | Melt_continue q \<Rightarrow> g q)"
  by (cases x) auto

lemma keeps_with_conn [keeps_intros]: "keeps (has_keysets K) m \<Longrightarrow> keeps (has_keysets K) (with_conn c m)"
  by (auto simp: with_conn_def intro: keeps_intros)

lemma keeps_bump_for [keeps_intros]: "keeps (has_keysets K) (bump_for kid a)"
  by (auto simp: bump_for_def bump_keyset_balance_def intro!: keeps_intros)

lemma keeps_bump_fees_for [keeps_intros]: "keeps (has_keysets K) (bump_fees_for kid a)"
  by (auto simp: bump_fees_for_def bump_keyset_fees_paid_def intro!: keeps_intros)

lemma keeps_submit_proof_state [keeps_intros]: "keeps (has_keysets K) (submit_proof_state Y st w)"
  by (auto simp: submit_proof_state_def intro!: keeps_intros)

lemma keeps_invalidate_proofs [keeps_intros]: "keeps (has_keysets K) (invalidate_proofs ps qid c)"
  by (auto simp: invalidate_proofs_def invalidate_one_def invalidate_proof_def book_group_fees_def intro!: keeps_intros)

lemma keeps_unset_proofs_pending [keeps_intros]: "keeps (has_keysets K) (unset_proofs_pending ps sp c)"
  by (auto simp: unset_proofs_pending_def unset_proof_pending_def intro!: keeps_intros)

lemma keeps_set_pending [keeps_intros]: "keeps (has_keysets K) (verify_spent_proofs_and_set_pending E ps qid)"
  by (auto simp: verify_spent_proofs_and_set_pending_def set_proof_pending_def intro!: keeps_intros)

lemma keeps_store_loop [keeps_intros]: "keeps (has_keysets K) (store_loop a b c k outs)"
  by (induction outs arbitrary: k) (auto simp: store_blinded_message_def intro!: keeps_intros)

lemma keeps_store [keeps_intros]: "keeps (has_keysets K) (store_blinded_messages outs a b c)"
  by (auto simp: store_blinded_messages_def intro!: keeps_intros)

lemma keeps_sign [keeps_intros]: "keeps (has_keysets K) (sign_blinded_messages E outs c)"
  by (auto simp: sign_blinded_messages_def store_signature_def update_blinded_message_signature_def intro!: keeps_intros)

lemma keysets_kept: "keeps (has_keysets (keysets s)) m \<Longrightarrow> m s = (r, t) \<Longrightarrow> keysets t = keysets s"
  using keepsD2[of "has_keysets (keysets s)" m s r t] by simp

lemma wf_keysets_cong: "keysets t = keysets s \<Longrightarrow> wf_keysets t = wf_keysets s"
  by (simp add: wf_keysets_def keyset_of_def)

lemma keyset_of_cong: "keysets t = keysets s \<Longrightarrow> keyset_of t k = keyset_of s k"
  by (simp add: keyset_of_def)

end
