(* ===== verification/Samples.thy ===== *)
theory Samples
  imports Ledger "HOL-Library.Code_Target_Numeral"
begin

text \<open>
  A small mint for the witnesses: one keyset with the amounts 1, 2, 4, 8 and a fee of 100 ppk, the
  curve of theory \<open>Curve\<close> with four points, a backend whose payments settle, and states of
  the ledger with quotes and proofs.
\<close>

definition sample_backend :: backend where
  "sample_backend =
     \<lparr>supports_mpp = False, supports_description = True,
      create_invoice = (\<lambda>a memo. Inr \<lparr>ir_ok = True, ir_checking_id = Some ''chk'', ir_payment_request = Some ''LNBC'', ir_error_message = None\<rparr>),
      pay_invoice = (\<lambda>q limit. Inr \<lparr>py_result = PR_settled, py_checking_id = Some (lq_checking_id q), py_fee = Some (Amount sat 1),
         py_preimage = Some ''pre'', py_error_message = None\<rparr>),
      get_invoice_status = (\<lambda>c. Inr \<lparr>st_result = PR_settled, st_fee = None, st_preimage = None, st_error_message = None\<rparr>),
      get_payment_status = (\<lambda>c. Inr \<lparr>st_result = PR_settled, st_fee = Some (Amount sat 1), st_preimage = Some ''pre'', st_error_message = None\<rparr>),
      get_payment_quote = (\<lambda>r. Inr \<lparr>pq_checking_id = ''out'', pq_amount = Amount sat 4, pq_fee = Amount sat 2\<rparr>)\<rparr>"

definition failing_backend :: backend where
  "failing_backend = sample_backend
     \<lparr>pay_invoice := (\<lambda>q limit. Inr \<lparr>py_result = PR_failed, py_checking_id = None, py_fee = None,
         py_preimage = None, py_error_message = Some ''no route''\<rparr>),
      get_payment_status := (\<lambda>c. Inr \<lparr>st_result = PR_failed, st_fee = None, st_preimage = None, st_error_message = None\<rparr>)\<rparr>"

definition sample_env :: env where
  "sample_env =
     \<lparr>max_order = 4, mint_max_secret_length = 1024, mint_max_witness_length = 1024,
      mint_max_mint_bolt11_sat = None, mint_max_melt_bolt11_sat = None, mint_bolt11_disable_mint = False,
      mint_bolt11_disable_melt = False, mint_max_balance = None, mint_disable_melt_on_error = False,
      mint_watchdog_ignore_mismatch = False, crv = z5_curve, time_us = 5000000, nonce = (\<lambda>s. 1),
      set_order = (\<lambda>xs. xs), backends = [(bolt11, [(sat, sample_backend)])],
      bolt11_decode = (\<lambda>r. Inr \<lparr>bi_date = 1, bi_expiry = Some 100, bi_amount_msat = Some 4000\<rparr>),
      random_id = ''qid''\<rparr>"

definition sample_keyset :: mint_keyset where
  "sample_keyset =
     \<lparr>k_id = ''00ks'', k_private_keys = [(1, 1), (2, 3), (4, 1), (8, 3)], k_public_keys = [], k_active = True,
      k_unit = sat, k_derivation_path = ''m/0'', k_input_fee_ppk = 100, k_seed = ''s'', k_version = ''0.17.0'',
      k_amounts = [1, 2, 4, 8], k_balance = 15, k_fees_paid = 0, k_final_expiry = None\<rparr>"

definition empty_db :: mint_db where
  "empty_db = \<lparr>promises = [], proofs_used = [], proofs_pending = [], mint_quotes = [], melt_quotes = [],
     keyset_rows = [sample_keyset], balance_log = []\<rparr>"

definition sample_ledger :: ledger where
  "sample_ledger = \<lparr>db = empty_db, keysets = [(''00ks'', sample_keyset)], events = [], disable_melt = False\<rparr>"

text \<open>A proof: its \<^verbatim>\<open>Y\<close> and signature are those the curve gives.\<close>

definition sample_proof :: "int \<Rightarrow> string \<Rightarrow> token_proof" where
  "sample_proof a sec =
     (case hash_to_curve z5_curve (encode_utf8 sec) of
        Inl _ \<Rightarrow> \<lparr>p_id = [], p_amount = 0, p_secret = [], p_Y = [], p_C = [], p_dleq = None, p_witness = None\<rparr>
      | Inr Y \<Rightarrow> \<lparr>p_id = ''00ks'', p_amount = a, p_secret = sec, p_Y = pk_hex z5_curve Y,
          p_C = pk_hex z5_curve (pk_mul z5_curve Y (case map_of (k_private_keys sample_keyset) a of Some k \<Rightarrow> k | None \<Rightarrow> 1)),
          p_dleq = None, p_witness = None\<rparr>)"

definition sample_output :: "int \<Rightarrow> int \<Rightarrow> blinded_message" where
  "sample_output a B = \<lparr>bm_amount = a, bm_id = ''00ks'', bm_B = pk_hex z5_curve B, bm_C = None\<rparr>"

text \<open>A run that returns, as an equation.\<close>

lemma isOk_run: "isOk (fst r) \<Longrightarrow> r = (Inr (projr (fst r)), snd r)"
  by (cases r; cases "fst r") auto

end
