(* ===== verification/Swapping.thy ===== *)
theory Swapping
  imports Effects Samples
begin

text \<open>
  What a swap does to the mint: exactly when it is accepted, what it writes when it succeeds, and
  that it writes nothing when it fails.
\<close>

section \<open>What the verification of a swap establishes\<close>

text \<open>
  Rows of proofs are filed under the point of their secret (theory \<open>Env\<close>: \<open>Y_of\<close>); the
  promises have distinct \<^verbatim>\<open>B_\<close>.
\<close>

definition wf_rows :: "env \<Rightarrow> proof_row list \<Rightarrow> bool" where
  "wf_rows E rows \<longleftrightarrow> distinct (List.map pr_y rows) \<and> (\<forall>r\<in>set rows. Y_of E (pr_secret r) = Inr (pr_y r))"

definition wf_ledger :: "env \<Rightarrow> ledger \<Rightarrow> bool" where
  "wf_ledger E s \<longleftrightarrow> wf_keysets s \<and> wf_rows E (proofs_used (db s)) \<and> wf_rows E (proofs_pending (db s)) \<and>
     distinct (List.map pm_b (promises (db s)))"

lemma wf_rows_append:
  assumes "wf_rows E rows" and "\<forall>p\<in>set ps. wf_proof E p \<and> p_Y p \<notin> pr_y ` set rows" and "distinct (List.map p_Y ps)"
  shows "wf_rows E (rows @ List.map (\<lambda>p. proof_to_row p qid) ps)"
proof -
  have "p_Y p \<noteq> pr_y r" if "p \<in> set ps" "r \<in> set rows" for p r
    using assms(2) that by (metis imageI)
  with assms show ?thesis by (fastforce simp: wf_rows_def wf_proof_def comp_def)
qed

lemma wf_rows_filter: "wf_rows E rows \<Longrightarrow> wf_rows E (filter P rows)"
  by (auto simp: wf_rows_def distinct_map_filter)

text \<open>Taking proofs out of the pending table again that were not there before.\<close>

lemma drop_fresh:
  assumes rows: "wf_rows E rows" and ps: "\<forall>p\<in>set ps. wf_proof E p \<and> p_Y p \<notin> pr_y ` set rows"
  shows "drop_secrets (p_secret ` set ps) (rows @ pending_rows ps qid) = rows"
proof -
  have "pr_secret r \<noteq> p_secret p" if r: "r \<in> set rows" and p: "p \<in> set ps" for r p
  proof
    assume eq: "pr_secret r = p_secret p"
    have "pr_y r = p_Y p" using r p eq rows ps by (auto simp: wf_rows_def wf_proof_def)
    then show False using r p ps by (metis imageI)
  qed
  then have "drop_secrets (p_secret ` set ps) rows = rows"
    by (auto simp: drop_secrets_def intro!: filter_True)
  moreover have "drop_secrets (p_secret ` set ps) (pending_rows ps qid) = []"
    by (auto simp: drop_secrets_def pending_rows_def filter_empty_conv)
  ultimately show ?thesis by (simp add: drop_secrets_def)
qed

text \<open>The fee of the inputs of a transaction.\<close>

definition tx_fee :: "ledger \<Rightarrow> token_proof list \<Rightarrow> int" where
  "tx_fee s ps = fee_of_ppk (sum_list (List.map (\<lambda>p. case keyset_of s (p_id p) of None \<Rightarrow> 0 | Some k \<Rightarrow> k_input_fee_ppk k) ps))"

lemma proof_ppks_Inr:
  assumes "proof_ppks s ps = Inr ns"
  shows "ns = List.map (\<lambda>p. case keyset_of s (p_id p) of None \<Rightarrow> 0 | Some k \<Rightarrow> k_input_fee_ppk k) ps"
  using assms by (induction ps arbitrary: ns) (auto simp: proof_ppks_def bindR_Inr)

lemma fees_tx_fee: "get_fees_for_proofs s ps = Inr f \<Longrightarrow> f = tx_fee s ps"
  by (auto simp: get_fees_for_proofs_def bindR_Inr tx_fee_def dest: proof_ppks_Inr)

lemma mapR_all_True:
  assumes "mapR f xs = Inr bs" and "list_all (\<lambda>b. b) bs"
  shows "\<forall>x\<in>set xs. f x = Inr True"
  using assms by (induction xs arbitrary: bs) (auto simp: bindR_Inr)

lemma verify_inputsD:
  assumes "verify_inputs E s ps = Inr ()"
  shows "ps \<noteq> []" "distinct (List.map p_secret ps)" "\<forall>p\<in>set ps. 0 < p_amount p \<and> p_amount p < 2 ^ max_order E"
    "\<forall>p\<in>set ps. p_secret p \<noteq> [] \<and> length (p_secret p) \<le> mint_max_secret_length E"
    "\<forall>p\<in>set ps. verify_proof_bdhke E s p = Inr True"
    "\<forall>p\<in>set ps. verify_input_spending_conditions E p = Inr True"
proof -
  from assms obtain as ss bs cs where *: "ps \<noteq> []" "distinct (List.map p_secret ps)"
      "mapR (\<lambda>p. verify_amount E (p_amount p)) ps = Inr as"
      "mapR (verify_secret_criteria E) ps = Inr ss"
      "mapR (verify_proof_bdhke E s) ps = Inr bs" "list_all (\<lambda>b. b) bs"
      "mapR (verify_input_spending_conditions E) ps = Inr cs" "list_all (\<lambda>b. b) cs"
    unfolding verify_inputs_def bindR_Inr checkR_Inr no_duplicate_proofs_iff by blast
  show "ps \<noteq> []" "distinct (List.map p_secret ps)" by fact+
  show "\<forall>p\<in>set ps. 0 < p_amount p \<and> p_amount p < 2 ^ max_order E"
    using *(3) unfolding verify_amounts_Inr by blast
  show "\<forall>p\<in>set ps. p_secret p \<noteq> [] \<and> length (p_secret p) \<le> mint_max_secret_length E"
  proof
    fix p assume "p \<in> set ps"
    from mapR_InrD[OF *(4) this] show "p_secret p \<noteq> [] \<and> length (p_secret p) \<le> mint_max_secret_length E"
      by (auto simp: verify_secret_criteria_def bindR_Inr)
  qed
  show "\<forall>p\<in>set ps. verify_proof_bdhke E s p = Inr True"
    using *(5,6) by (rule mapR_all_True)
  show "\<forall>p\<in>set ps. verify_input_spending_conditions E p = Inr True"
    using *(7,8) by (rule mapR_all_True)
qed

lemma verify_outputsD:
  assumes "verify_outputs E s outs skip = Inr ()"
  shows "outs \<noteq> []" "distinct (List.map bm_B outs)" "list_all (\<lambda>x. bm_id x = bm_id (hd outs)) outs"
    "\<exists>k. keyset_of s (bm_id (hd outs)) = Some k \<and> k_active k"
    "\<forall>x\<in>set outs. bm_B x \<notin> pm_b ` set (promises (db s))"
proof -
  let ?st = "check_outputs_pending_or_issued_before s outs"
  note a = assms[unfolded verify_outputs_def bindR_Inr checkR_Inr Let_def no_duplicate_outputs_iff]
  have *: "outs \<noteq> []" using a by (elim exE conjE)
  have **: "list_all (\<lambda>x. bm_id x = bm_id (hd outs)) outs" using a by (elim exE conjE)
  have ***: "distinct (List.map bm_B outs)" using a by (elim exE conjE)
  have k: "\<exists>k. the_keyset s (bm_id (hd outs)) = Inr k \<and> k_active k"
    using a by (elim exE conjE) (intro exI conjI)
  have n: "(if ?st = [] then Inr () else if list_ex (\<lambda>x. truthy_str (bm_C x)) (filter (\<lambda>x. bm_C x \<noteq> None) ?st)
        then Inl OutputsAlreadySignedError else Inl OutputsArePendingError) = Inr ()"
    using a by (elim exE conjE)
  from n have n: "?st = []" by (simp split: if_splits)
  show "outs \<noteq> []" "distinct (List.map bm_B outs)" "list_all (\<lambda>x. bm_id x = bm_id (hd outs)) outs" by fact+
  show "\<exists>k. keyset_of s (bm_id (hd outs)) = Some k \<and> k_active k" using k by simp
  show "\<forall>x\<in>set outs. bm_B x \<notin> pm_b ` set (promises (db s))"
    using n by (auto simp: check_outputs_pending_or_issued_before_def get_outputs_def filter_empty_conv)
      (metis imageI)
qed

lemma balanced_equation:
  assumes "verify_equation_balanced E s ps outs = Inr ()"
  shows "sum_proofs ps = sum_list (List.map bm_amount outs) + tx_fee s ps"
    "\<forall>x\<in>set outs. 0 < bm_amount x \<and> bm_amount x < 2 ^ max_order E"
proof -
  from assms obtain as fees bs where *: "mapR (\<lambda>p. verify_amount E (p_amount p)) ps = Inr as"
      "get_fees_for_proofs s ps = Inr fees" "mapR (\<lambda>x. verify_amount E (bm_amount x)) outs = Inr bs"
      "sum_list bs + fees - sum_list as = 0"
    unfolding verify_equation_balanced_def bindR_Inr checkR_Inr by blast
  then show "sum_proofs ps = sum_list (List.map bm_amount outs) + tx_fee s ps"
    "\<forall>x\<in>set outs. 0 < bm_amount x \<and> bm_amount x < 2 ^ max_order E"
    by (auto simp only: verify_amounts_Inr sum_proofs_def dest: fees_tx_fee)
qed

lemma verify_swapD:
  assumes "verify_inputs_and_outputs E s ps (Some outs) = Inr ()"
  shows "verify_inputs E s ps = Inr ()" "verify_equation_balanced E s ps outs = Inr ()"
    "verify_outputs E s outs False = Inr ()"
  using assms by (auto simp: verify_inputs_and_outputs_def bindR_Inr)

section \<open>The run of a swap\<close>

lemma swap_body_keysets: "swap_body E ps outs s = (r, t) \<Longrightarrow> keysets t = keysets s"
  by (rule keysets_kept[of s "swap_body E ps outs"]) (auto simp: swap_body_def intro!: keeps_intros)

lemma swapE:
  assumes "swap E ps outs s = (r, t)" and "wf_keysets s"
  obtains (refused) e where "r = Inl e" "db t = db s"
  | (run) s1 r1 s2 where "verify_inputs_and_outputs E s ps (Some outs) = Inr ()"
      "verify_spent_proofs_and_set_pending E ps None s = (Inr (), s1)"
      "swap_body E ps outs s1 = (r1, s2)" "r = r1"
      "t = s2\<lparr>db := (db s2)\<lparr>proofs_pending := drop_secrets (p_secret ` set ps) (proofs_pending (db s2)),
         keyset_rows := bump_all (proof_bumps ps) (keyset_rows (db s2))\<rparr>\<rparr>"
proof (cases "verify_inputs_and_outputs E s ps (Some outs)")
  case (Inl e)
  with assms(1) have "r = Inl e" "t = s" by (auto simp: swap_def thenS_def bindS_def)
  then show ?thesis using refused by simp
next
  case (Inr u)
  obtain r1 s1 where p: "verify_spent_proofs_and_set_pending E ps None s = (r1, s1)" by force
  show ?thesis
  proof (cases r1)
    case (Inl e)
    then have "r = Inl e" "t = s1" using assms(1) Inr p by (auto simp: swap_def thenS_def bindS_def)
    moreover have "db s1 = db s" using p Inl by (auto dest: verify_spent_and_set_pending_Err)
    ultimately show ?thesis using refused by simp
  next
    case (Inr u1)
    note set = verify_spent_and_set_pending_Ok[OF p[unfolded Inr] assms(2)]
    obtain r2 s2 where b: "swap_body E ps outs s1 = (r2, s2)" by force
    have "keysets s2 = keysets s" using swap_body_keysets[OF b] set(1) by simp
    then have "wf_keysets s2" "\<forall>p\<in>set ps. keyset_of s2 (p_id p) \<noteq> None"
      using assms(2) set(2) by (simp_all add: wf_keysets_cong[of s2 s] keyset_of_cong[of s2 s])
    note un = unset_proofs_pending_spent[OF this, of False]
    have "r = r2 \<and> t = s2\<lparr>db := (db s2)\<lparr>proofs_pending := drop_secrets (p_secret ` set ps) (proofs_pending (db s2)),
         keyset_rows := bump_all (proof_bumps ps) (keyset_rows (db s2))\<rparr>\<rparr>"
      using assms(1) \<open>verify_inputs_and_outputs E s ps (Some outs) = Inr u\<close> p Inr b un
      by (simp add: swap_def thenS_def bindS_def finallyS_def)
    then show ?thesis
      using run[of s1 r2 s2] \<open>verify_inputs_and_outputs E s ps (Some outs) = Inr u\<close> p Inr b by simp
  qed
qed

lemma swap_body_Ok:
  assumes "swap_body E ps outs s = (Inr sigs, t)" and "wf_keysets s"
    and "\<forall>x\<in>set outs. canonical E x"
  obtains prs where "list_all2 (prepared_for E) outs prs" "mapR (prepare_signature E s) outs = Inr prs"
    "sigs = List.map (signature_of E) prs"
    "db t = (db s)\<lparr>promises := promises (db s) @ map2 (\<lambda>x pr. sign_with E pr (new_row None None x)) outs prs,
       proofs_used := proofs_used (db s) @ used_rows ps None,
       keyset_rows := bump_all (output_bumps outs) (fee_all (spend_fees s ps)
         (bump_all (neg_all (proof_bumps ps)) (keyset_rows (db s))))\<rparr>"
    "\<forall>p\<in>set ps. p_Y p \<notin> pr_y ` set (proofs_used (db s))"
    "\<forall>x\<in>set outs. bm_B x \<notin> pm_b ` set (promises (db s))" "distinct (List.map bm_B outs)"
proof -
  from assms(1) obtain s1 s2 where 1: "store_blinded_messages outs None None True s = (Inr (), s1)"
    and 2: "invalidate_proofs ps None True s1 = (Inr (), s2)"
    and 3: "sign_blinded_messages E outs True s2 = (Inr sigs, t)"
    by (auto simp: swap_body_def transaction_Ok elim!: thenS_OkE)
  note st = store_blinded_messages_Ok[OF 1]
  have w1: "wf_keysets s1" using st(1) assms(2) by simp
  note inv = invalidate_proofs_Ok[OF 2 w1]
  have w2: "wf_keysets s2" using inv(1) w1 by simp
  obtain prs where prs: "mapR (prepare_signature E s2) outs = Inr prs" "list_all2 (prepared_for E) outs prs"
      "sigs = List.map (signature_of E) prs"
    and t: "t = s2\<lparr>db := (db s2)\<lparr>promises := sign_all E prs (promises (db s2)),
      keyset_rows := bump_all (output_bumps outs) (keyset_rows (db s2))\<rparr>\<rparr>"
    by (rule sign_blinded_messages_Ok[OF 3 w2])
  have "sign_all E prs (promises (db s2)) =
      promises (db s) @ map2 (\<lambda>x pr. sign_with E pr (new_row None None x)) outs prs"
    using inv(1) st(1) sign_all_stored[OF prs(2) st(3) assms(3) st(2)] by simp
  moreover have "prepare_signature E s2 = prepare_signature E s"
    using inv(1) st(1) by (simp add: prepare_signature_def[abs_def])
  ultimately show thesis
    using that[of prs] prs t st inv by simp
qed

section \<open>Spent and pending proofs\<close>

lemma update_nonempty: "AList.update k v d \<noteq> []"
  by (cases d) auto

lemma dict_of_empty: "length (dict_of kvs) = 0 \<longleftrightarrow> kvs = []"
proof -
  have "foldl (\<lambda>d (k, v). AList.update k v d) d kvs = [] \<longleftrightarrow> d = [] \<and> kvs = []" for d
    by (induction kvs arbitrary: d) (auto simp: update_nonempty split: prod.splits)
  then show ?thesis by (simp add: dict_of_def)
qed

lemma mapR_Nil_iff: "mapR f xs = Inr [] \<longleftrightarrow> xs = []"
  by (cases xs) (auto simp: bindR_Inr)

lemma spendable_unspent:
  assumes "verify_proofs_spendable E ps d = Inr ()" and "p \<in> set ps"
  shows "p_Y p \<notin> pr_y ` set (proofs_used d)"
proof -
  from assms(1) have "mapR (row_to_proof E) (filter (\<lambda>r. pr_y r \<in> set (List.map p_Y ps)) (proofs_used d)) = Inr []"
    by (auto simp: verify_proofs_spendable_def get_proofs_spent_dict_def get_proofs_used_def bindR_Inr dict_of_empty
        simp del: length_0_conv)
  then show ?thesis using assms(2) by (auto simp: mapR_Nil_iff filter_empty_conv) (metis imageI)
qed

lemma set_pending_unspent:
  assumes "verify_spent_proofs_and_set_pending E ps qid s = (Inr u, t)" and "wf_keysets s" and "p \<in> set ps"
  shows "p_Y p \<notin> pr_y ` set (proofs_used (db s))" "p_Y p \<notin> pr_y ` set (proofs_pending (db s))"
  using verify_spent_and_set_pending_Ok[OF assms(1,2)] assms(3) spendable_unspent by auto

section \<open>The effect of a swap\<close>

lemma swap_effect_aux:
  assumes run: "swap E ps outs s = (Inr sigs, t)" and wf: "wf_ledger E s"
    and ps: "\<forall>p\<in>set ps. wf_proof E p" and outs: "\<forall>x\<in>set outs. canonical E x"
  obtains prs where "list_all2 (prepared_for E) outs prs" "sigs = List.map (signature_of E) prs"
    "db t = (db s)\<lparr>promises := promises (db s) @ map2 (\<lambda>x pr. sign_with E pr (new_row None None x)) outs prs,
       proofs_used := proofs_used (db s) @ used_rows ps None,
       keyset_rows := fee_all (spend_fees s ps) (bump_all (output_bumps outs @ neg_all (proof_bumps ps)) (keyset_rows (db s)))\<rparr>"
    "verify_inputs_and_outputs E s ps (Some outs) = Inr ()"
    "\<forall>p\<in>set ps. p_Y p \<notin> pr_y ` set (proofs_used (db s)) \<and> p_Y p \<notin> pr_y ` set (proofs_pending (db s))"
proof -
  have wk: "wf_keysets s" using wf by (simp add: wf_ledger_def)
  obtain s1 s2 where v: "verify_inputs_and_outputs E s ps (Some outs) = Inr ()"
    and p: "verify_spent_proofs_and_set_pending E ps None s = (Inr (), s1)"
    and b: "swap_body E ps outs s1 = (Inr sigs, s2)"
    and t: "t = s2\<lparr>db := (db s2)\<lparr>proofs_pending := drop_secrets (p_secret ` set ps) (proofs_pending (db s2)),
         keyset_rows := bump_all (proof_bumps ps) (keyset_rows (db s2))\<rparr>\<rparr>"
    using run wk by (rule swapE) auto
  note s1 = verify_spent_and_set_pending_Ok(1)[OF p wk]
  have w1: "wf_keysets s1" using s1 wk by simp
  have fresh: "\<forall>p\<in>set ps. p_Y p \<notin> pr_y ` set (proofs_used (db s)) \<and> p_Y p \<notin> pr_y ` set (proofs_pending (db s))"
    using set_pending_unspent[OF p wk] by simp
  obtain prs where prs: "list_all2 (prepared_for E) outs prs" "sigs = List.map (signature_of E) prs"
    and d: "db s2 = (db s1)\<lparr>promises := promises (db s1) @ map2 (\<lambda>x pr. sign_with E pr (new_row None None x)) outs prs,
       proofs_used := proofs_used (db s1) @ used_rows ps None,
       keyset_rows := bump_all (output_bumps outs) (fee_all (spend_fees s1 ps)
         (bump_all (neg_all (proof_bumps ps)) (keyset_rows (db s1))))\<rparr>"
    by (rule swap_body_Ok[OF b w1 outs])
  have drop: "drop_secrets (p_secret ` set ps) (proofs_pending (db s) @ pending_rows ps None) = proofs_pending (db s)"
    by (rule drop_fresh) (use wf ps fresh in \<open>auto simp: wf_ledger_def\<close>)
  have "db t = (db s)\<lparr>promises := promises (db s) @ map2 (\<lambda>x pr. sign_with E pr (new_row None None x)) outs prs,
       proofs_used := proofs_used (db s) @ used_rows ps None,
       keyset_rows := fee_all (spend_fees s ps) (bump_all (output_bumps outs @ neg_all (proof_bumps ps)) (keyset_rows (db s)))\<rparr>"
    using t d s1 drop by (simp add: bump_fee_commute) (simp add: bump_all_def add.commute)
  with that[OF prs] v fresh show thesis by simp
qed

section \<open>A swap on the sample mint\<close>

definition swap_in :: "token_proof list" where
  "swap_in = [sample_proof 8 ''a'']"

definition swap_out :: "blinded_message list" where
  "swap_out = [sample_output 4 1, sample_output 2 2, sample_output 1 3]"

lemma sample_wf: "wf_ledger sample_env sample_ledger" "\<forall>p\<in>set swap_in. wf_proof sample_env p"
  "\<forall>x\<in>set swap_out. canonical sample_env x" "\<forall>k\<in>snd ` set (keysets sample_ledger). 0 \<le> k_input_fee_ppk k"
  by code_simp+

lemma sample_swap_ok: "isOk (fst (swap sample_env swap_in swap_out sample_ledger))"
  by code_simp

lemmas sample_swap_run = isOk_run[OF sample_swap_ok]

lemma sample_swap_fails: "swap sample_env swap_in (tl swap_out) sample_ledger = (Inl (balance_error 8 1 3), sample_ledger)"
  by code_simp

section \<open>Properties\<close>

text \<open>C1. A swap that succeeds returns one signature per output, with the output's keyset and amount,
  and changes the database in exactly this way: the outputs are stored as signed promises, the
  inputs as spent proofs, no proof stays pending that was not pending before, the keyset balances
  move by the amounts of outputs and inputs, and the fees of the inputs are booked. Quotes are not
  touched.\<close>

theorem swap_effect:
  assumes "swap E ps outs s = (Inr sigs, t)" and "wf_ledger E s"
    and "\<forall>p\<in>set ps. wf_proof E p" and "\<forall>x\<in>set outs. canonical E x"
  shows "\<exists>prs. list_all2 (prepared_for E) outs prs \<and> sigs = List.map (signature_of E) prs \<and>
    db t = (db s)\<lparr>promises := promises (db s) @ map2 (\<lambda>x pr. sign_with E pr (new_row None None x)) outs prs,
       proofs_used := proofs_used (db s) @ used_rows ps None,
       keyset_rows := fee_all (spend_fees s ps) (bump_all (output_bumps outs @ neg_all (proof_bumps ps)) (keyset_rows (db s)))\<rparr>"
  by (rule swap_effect_aux[OF assms]) blast

theorem swap_effect_witness:
  "\<exists>prs. list_all2 (prepared_for sample_env) swap_out prs \<and>
     proofs_used (db (snd (swap sample_env swap_in swap_out sample_ledger))) = used_rows swap_in None"
  using swap_effect[OF sample_swap_run sample_wf(1-3)] by (auto simp: sample_ledger_def empty_db_def)

text \<open>C2. A swap that raises, at whatever step, leaves the database as it found it.\<close>

theorem swap_atomic:
  assumes "swap E ps outs s = (Inl e, t)" and "wf_ledger E s" and "\<forall>p\<in>set ps. wf_proof E p"
  shows "db t = db s"
proof -
  have wk: "wf_keysets s" using assms(2) by (simp add: wf_ledger_def)
  show ?thesis
  using assms(1) wk
  proof (cases rule: swapE)
    case (run s1 r1 s2)
    note s1 = verify_spent_and_set_pending_Ok(1)[OF run(2) wk]
    have "db s2 = db s1" using run(3,4) by (auto simp: swap_body_def dest: transaction_db)
    moreover have "drop_secrets (p_secret ` set ps) (proofs_pending (db s) @ pending_rows ps None) = proofs_pending (db s)"
      by (rule drop_fresh) (use assms(2,3) set_pending_unspent[OF run(2) wk] in \<open>auto simp: wf_ledger_def\<close>)
    ultimately show ?thesis using run(5) s1 by simp
  qed simp
qed

theorem swap_atomic_witness:
  "\<exists>e t. swap sample_env swap_in (tl swap_out) sample_ledger = (Inl e, t) \<and> db t = db sample_ledger"
  using swap_atomic[OF sample_swap_fails sample_wf(1,2)] sample_swap_fails by blast

text \<open>C3. A swap creates no value: the inputs are worth the signatures handed out and the fee, which
  is not negative; the signatures have the amounts the client asked for.\<close>

theorem swap_conserves_value:
  assumes "swap E ps outs s = (Inr sigs, t)" and "wf_ledger E s"
    and "\<forall>p\<in>set ps. wf_proof E p" and "\<forall>x\<in>set outs. canonical E x"
    and "\<forall>k\<in>snd ` set (keysets s). 0 \<le> k_input_fee_ppk k"
  shows "sum_proofs ps = sum_promises sigs + tx_fee s ps \<and> 0 \<le> tx_fee s ps \<and>
    List.map bs_amount sigs = List.map bm_amount outs \<and> List.map bs_id sigs = List.map bm_id outs"
proof -
  obtain prs where prs: "list_all2 (prepared_for E) outs prs" "sigs = List.map (signature_of E) prs"
    and v: "verify_inputs_and_outputs E s ps (Some outs) = Inr ()"
    by (rule swap_effect_aux[OF assms(1-4)])
  have a: "List.map bs_amount sigs = List.map bm_amount outs \<and> List.map bs_id sigs = List.map bm_id outs"
    using prs by (induction arbitrary: sigs rule: list_all2_induct) (auto simp: prepared_for_def signature_of_def)
  have "0 \<le> (case keyset_of s (p_id p) of None \<Rightarrow> 0 | Some k \<Rightarrow> k_input_fee_ppk k)" for p
    using assms(5) by (auto simp: keyset_of_def split: option.splits dest!: map_of_SomeD)
  then have "0 \<le> sum_list (List.map (\<lambda>p. case keyset_of s (p_id p) of None \<Rightarrow> 0 | Some k \<Rightarrow> k_input_fee_ppk k) ps)"
    by (intro sum_list_nonneg) auto
  then have "0 \<le> tx_fee s ps" by (simp add: tx_fee_def fee_of_ppk_def)
  with a balanced_equation(1)[OF verify_swapD(2)[OF v]] show ?thesis by (simp add: sum_promises_def)
qed

theorem swap_conserves_value_witness:
  "sum_proofs swap_in = sum_promises (projr (fst (swap sample_env swap_in swap_out sample_ledger))) + tx_fee sample_ledger swap_in"
  using swap_conserves_value[OF sample_swap_run sample_wf] by blast

text \<open>C4. What a swap accepts: every input carries a valid signature of the mint's key for its amount,
  meets its spending conditions, was neither spent nor pending, and is spent afterwards; no two
  inputs share a secret. Every output is new to the mint and asks for a key of one active keyset.\<close>

theorem swap_verified:
  assumes "swap E ps outs s = (Inr sigs, t)" and "wf_ledger E s"
    and "\<forall>p\<in>set ps. wf_proof E p" and "\<forall>x\<in>set outs. canonical E x"
  shows "distinct (List.map p_secret ps) \<and>
    (\<forall>p\<in>set ps. verify_proof_bdhke E s p = Inr True \<and> verify_input_spending_conditions E p = Inr True \<and>
      p_Y p \<notin> pr_y ` set (proofs_used (db s)) \<and> p_Y p \<notin> pr_y ` set (proofs_pending (db s)) \<and>
      p_Y p \<in> pr_y ` set (proofs_used (db t))) \<and>
    (\<exists>kid k. keyset_of s kid = Some k \<and> k_active k \<and> (\<forall>x\<in>set outs. bm_id x = kid \<and>
      bm_B x \<notin> pm_b ` set (promises (db s)) \<and> 0 < bm_amount x))"
proof -

  obtain prs where d: "db t = (db s)\<lparr>promises := promises (db s) @ map2 (\<lambda>x pr. sign_with E pr (new_row None None x)) outs prs,
       proofs_used := proofs_used (db s) @ used_rows ps None,
       keyset_rows := fee_all (spend_fees s ps) (bump_all (output_bumps outs @ neg_all (proof_bumps ps)) (keyset_rows (db s)))\<rparr>"
    and v: "verify_inputs_and_outputs E s ps (Some outs) = Inr ()"
    and f: "\<forall>p\<in>set ps. p_Y p \<notin> pr_y ` set (proofs_used (db s)) \<and> p_Y p \<notin> pr_y ` set (proofs_pending (db s))"
    by (rule swap_effect_aux[OF assms])
  note vi = verify_inputsD[OF verify_swapD(1)[OF v]] and vo = verify_outputsD[OF verify_swapD(3)[OF v]]
  have 1: "distinct (List.map p_secret ps)" by (rule vi)
  have 2: "\<forall>p\<in>set ps. verify_proof_bdhke E s p = Inr True \<and> verify_input_spending_conditions E p = Inr True \<and>
      p_Y p \<notin> pr_y ` set (proofs_used (db s)) \<and> p_Y p \<notin> pr_y ` set (proofs_pending (db s)) \<and>
      p_Y p \<in> pr_y ` set (proofs_used (db t))"
    using vi f d by (auto simp: used_rows_def image_Un image_image)
  obtain k where "keyset_of s (bm_id (hd outs)) = Some k" "k_active k" using vo(4) by blast
  then have "\<exists>kid k. keyset_of s kid = Some k \<and> k_active k \<and> (\<forall>x\<in>set outs. bm_id x = kid \<and>
      bm_B x \<notin> pm_b ` set (promises (db s)) \<and> 0 < bm_amount x)"
    using vo(3,5) balanced_equation(2)[OF verify_swapD(2)[OF v]] unfolding list_all_iff by blast
  with 1 2 show ?thesis by blast
qed

theorem swap_verified_witness:
  "list_all (\<lambda>p. p_Y p \<in> pr_y ` set (proofs_used (db (snd (swap sample_env swap_in swap_out sample_ledger))))) swap_in"
  using swap_verified[OF sample_swap_run sample_wf(1-3)] unfolding list_all_iff by blast


lemma swap_refused:
  assumes "wf_ledger E s" and "\<forall>p\<in>set ps. wf_proof E p" and "p \<in> set ps"
    and "p_Y p \<in> pr_y ` set (proofs_used (db s) @ proofs_pending (db s))"
  shows "\<exists>e t. swap E ps outs s = (Inl e, t) \<and> db t = db s"
proof -
  have wk: "wf_keysets s" using assms(1) by (simp add: wf_ledger_def)
  obtain r t where r: "swap E ps outs s = (r, t)" by force
  from this wk show ?thesis
  proof (cases rule: swapE)
    case (run s1 r1 s2)
    from set_pending_unspent[OF run(2) wk assms(3)] assms(4) show ?thesis by auto
  qed (use r in auto)
qed

text \<open>A proof that is spent or pending is never accepted again: a swap with it among the inputs
  raises and writes nothing. With C4, a proof goes through at most one successful swap.\<close>

theorem swap_no_double_spend:
  assumes "wf_ledger E s" and "\<forall>p\<in>set ps. wf_proof E p" and "p \<in> set ps"
    and "p_Y p \<in> pr_y ` set (proofs_used (db s) @ proofs_pending (db s))"
  shows "\<exists>e t. swap E ps outs s = (Inl e, t) \<and> db t = db s"
by (rule swap_refused[OF assms])

theorem swap_no_double_spend_witness:
  "\<exists>e t. swap sample_env swap_in swap_out (snd (swap sample_env swap_in swap_out sample_ledger)) = (Inl e, t)"
proof -
  have "wf_ledger sample_env (snd (swap sample_env swap_in swap_out sample_ledger))"
    "hd swap_in \<in> set swap_in"
    "p_Y (hd swap_in) \<in> pr_y ` set (proofs_used (db (snd (swap sample_env swap_in swap_out sample_ledger))) @
       proofs_pending (db (snd (swap sample_env swap_in swap_out sample_ledger))))"
    by code_simp+
  from swap_no_double_spend[OF this(1) sample_wf(2) this(2,3)] show ?thesis by blast
qed

end
