(* ===== verification/Minting.thy ===== *)
theory Minting
  imports Swapping
begin

text \<open>
  Minting against a paid quote: how a mint quote moves through its states, that a quote is issued at
  most once, and what a mint that fails leaves behind.
\<close>

section \<open>Rows of mint quotes\<close>

definition set_quote :: "string \<Rightarrow> mint_quote_state \<Rightarrow> mint_quote list \<Rightarrow> mint_quote list" where
  "set_quote qid v rows = List.map (\<lambda>r. if mq_quote r = qid then r\<lparr>mq_state := v\<rparr> else r) rows"

text \<open>Rows as \<open>mint_quote_row\<close> writes them: distinct ids, a time of zero is no time.\<close>

definition wf_mint_quotes :: "mint_quote list \<Rightarrow> bool" where
  "wf_mint_quotes rows \<longleftrightarrow> distinct (List.map mq_quote rows) \<and>
     (\<forall>r\<in>set rows. norm_time (mq_paid_time r) = mq_paid_time r)"

definition find_quote :: "string \<Rightarrow> mint_quote list \<Rightarrow> mint_quote option" where
  "find_quote qid rows = List.find (\<lambda>q. mq_quote q = qid) rows"

lemma find_quote_set: "find_quote qid rows = Some q \<Longrightarrow> q \<in> set rows \<and> mq_quote q = qid"
  by (auto simp: find_quote_def find_Some_iff)

lemma get_mint_quote_id:
  "qid \<noteq> [] \<Longrightarrow> get_mint_quote (Some qid) None None d = Inr (find_quote qid (mint_quotes d))"
  by (auto simp: get_mint_quote_def truthy_str_def criterion_def find_quote_def intro!: arg_cong2[where f = List.find])

lemma get_mint_quote_empty: "get_mint_quote (Some []) None None d = Inl (ValueError ''No search criteria'')"
  by (simp add: get_mint_quote_def truthy_str_def)

lemma get_mint_quote_some:
  "get_mint_quote (Some qid) None None d = Inr (Some q) \<longleftrightarrow> qid \<noteq> [] \<and> find_quote qid (mint_quotes d) = Some q"
  by (cases "qid = []") (auto simp: get_mint_quote_id get_mint_quote_empty)

lemma row_of_id:
  assumes "wf_mint_quotes rows" and "find_quote qid rows = Some q" and "r \<in> set rows" and "mq_quote r = qid"
  shows "r = q"
  using assms find_quote_set[OF assms(2)] by (auto simp: wf_mint_quotes_def distinct_map dest: inj_onD)

lemma update_mint_quote_state_only:
  assumes "wf_mint_quotes (mint_quotes (db s))" and "find_quote qid (mint_quotes (db s)) = Some q"
  shows "update_mint_quote (q\<lparr>mq_state := v\<rparr>) s =
    (Inr (), s\<lparr>db := (db s)\<lparr>mint_quotes := set_quote qid v (mint_quotes (db s))\<rparr>\<rparr>)"
proof -
  have q: "q \<in> set (mint_quotes (db s))" "mq_quote q = qid" using find_quote_set[OF assms(2)] by auto
  have "List.map (\<lambda>r. if mq_quote r = qid then r\<lparr>mq_state := v, mq_paid_time := norm_time (mq_paid_time q)\<rparr> else r) (mint_quotes (db s)) =
      set_quote qid v (mint_quotes (db s))"
    unfolding set_quote_def
  proof (rule map_cong[OF refl])
    fix r assume r: "r \<in> set (mint_quotes (db s))"
    show "(if mq_quote r = qid then r\<lparr>mq_state := v, mq_paid_time := norm_time (mq_paid_time q)\<rparr> else r) =
        (if mq_quote r = qid then r\<lparr>mq_state := v\<rparr> else r)"
    proof (cases "mq_quote r = qid")
      case True
      have "r = q" by (rule row_of_id[OF assms r True])
      with assms(1) q show ?thesis by (auto simp: wf_mint_quotes_def)
    qed simp
  qed
  with q show ?thesis by (simp add: update_mint_quote_def cong: if_cong)
qed

lemma set_quote_facts [simp]:
  "List.map mq_quote (set_quote qid v rows) = List.map mq_quote rows"
  "set_quote qid v (set_quote qid w rows) = set_quote qid v rows"
  "wf_mint_quotes (set_quote qid v rows) = wf_mint_quotes rows"
  "find_quote qid (set_quote qid v rows) = map_option (\<lambda>q. q\<lparr>mq_state := v\<rparr>) (find_quote qid rows)"
proof -
  show m: "List.map mq_quote (set_quote qid v rows) = List.map mq_quote rows"
    by (simp add: set_quote_def)
  have p: "List.map mq_paid_time (set_quote qid v rows) = List.map mq_paid_time rows"
    by (simp add: set_quote_def)
  show "set_quote qid v (set_quote qid w rows) = set_quote qid v rows"
    by (simp add: set_quote_def)
  show "wf_mint_quotes (set_quote qid v rows) = wf_mint_quotes rows"
    using m arg_cong[OF p, of "\<lambda>l. \<forall>x\<in>set l. norm_time x = x"] by (simp add: wf_mint_quotes_def)
  show "find_quote qid (set_quote qid v rows) = map_option (\<lambda>q. q\<lparr>mq_state := v\<rparr>) (find_quote qid rows)"
    by (induction rows) (auto simp: find_quote_def set_quote_def)
qed

lemma set_quote_same: "\<forall>r\<in>set rows. mq_quote r = qid \<longrightarrow> mq_state r = v \<Longrightarrow> set_quote qid v rows = rows"
  by (auto simp: set_quote_def intro!: map_idI)

section \<open>The steps of a mint on its quote\<close>

lemma mint_quote_or_fail_Ok:
  "mint_quote_or_fail qid s = (Inr q, t) \<longleftrightarrow> qid \<noteq> [] \<and> find_quote qid (mint_quotes (db s)) = Some q \<and> t = s"
  by (cases "qid = []") (auto simp: mint_quote_or_fail_def bindS_def get_mint_quote_id get_mint_quote_empty)

lemma set_pending_Ok:
  assumes "wf_mint_quotes (mint_quotes (db s))"
  shows "set_mint_quote_pending qid s = (Inr q', t) \<longleftrightarrow> (\<exists>q. qid \<noteq> [] \<and> find_quote qid (mint_quotes (db s)) = Some q \<and>
     mq_state q = MQ_paid \<and> q' = q\<lparr>mq_state := MQ_pending\<rparr> \<and>
     t = s\<lparr>db := (db s)\<lparr>mint_quotes := set_quote qid MQ_pending (mint_quotes (db s))\<rparr>\<rparr>)"
  (is "?l \<longleftrightarrow> ?r")
proof
  assume ?l
  then obtain q where q: "qid \<noteq> []" "find_quote qid (mint_quotes (db s)) = Some q" "mq_state q = MQ_paid"
      "q' = q\<lparr>mq_state := MQ_pending\<rparr>" "update_mint_quote (q\<lparr>mq_state := MQ_pending\<rparr>) s = (Inr (), t)"
    by (auto simp: set_mint_quote_pending_def transaction_Ok mint_quote_or_fail_Ok mint_set_state_Inr
        elim!: bindS_OkE thenS_OkE)
  then show ?r
    using update_mint_quote_state_only[OF assms q(2), of MQ_pending] by auto
next
  assume ?r
  then obtain q where q: "qid \<noteq> []" "find_quote qid (mint_quotes (db s)) = Some q" "mq_state q = MQ_paid"
    "q' = q\<lparr>mq_state := MQ_pending\<rparr>" "t = s\<lparr>db := (db s)\<lparr>mint_quotes := set_quote qid MQ_pending (mint_quotes (db s))\<rparr>\<rparr>" by auto
  have 1: "mint_quote_or_fail qid s = (Inr q, s)" using q by (simp add: mint_quote_or_fail_Ok)
  have 2: "mint_set_state q MQ_pending = Inr (q\<lparr>mq_state := MQ_pending\<rparr>)" using q by (simp add: mint_set_state_Inr)
  show ?l using 1 2 q update_mint_quote_state_only[OF assms q(2), of MQ_pending]
    by (simp add: set_mint_quote_pending_def transaction_Ok bindS_def thenS_def)
qed

lemma set_pending_Err: "set_mint_quote_pending qid s = (Inl e, t) \<Longrightarrow> db t = db s"
  by (auto simp: set_mint_quote_pending_def dest: transaction_db)

lemma unset_pending_Ok:
  assumes "wf_mint_quotes (mint_quotes (db s))" and "qid \<noteq> []" and "find_quote qid (mint_quotes (db s)) = Some q"
    and "mq_state q = MQ_pending" and "v = MQ_paid \<or> v = MQ_issued"
  shows "unset_mint_quote_pending qid v s = (Inr (q\<lparr>mq_state := v\<rparr>),
    s\<lparr>db := (db s)\<lparr>mint_quotes := set_quote qid v (mint_quotes (db s))\<rparr>,
      events := events s @ [EvMint (q\<lparr>mq_state := v\<rparr>)]\<rparr>)"
proof -
  have 1: "mint_quote_or_fail qid s = (Inr q, s)" using assms by (simp add: mint_quote_or_fail_Ok)
  have 2: "mint_set_state q v = Inr (q\<lparr>mq_state := v\<rparr>)" using assms by (auto simp: mint_set_state_Inr)
  show ?thesis
    using 1 2 assms(4) update_mint_quote_state_only[OF assms(1,3), of v]
    by (simp add: unset_mint_quote_pending_def transaction_def bindS_def thenS_def)
qed

text \<open>\<open>get_mint_quote\<close> of the ledger returns the row, or makes it paid first.\<close>

definition pay_row :: "env \<Rightarrow> string \<Rightarrow> mint_quote list \<Rightarrow> mint_quote list" where
  "pay_row E qid rows = List.map (\<lambda>r. if mq_quote r = qid
     then r\<lparr>mq_state := MQ_paid, mq_paid_time := norm_time (Some (now_s E))\<rparr> else r) rows"

lemma norm_time_idem [simp]: "norm_time (norm_time x) = norm_time x"
  by (auto simp: norm_time_def)

lemma pay_row_facts [simp]:
  "List.map mq_quote (pay_row E qid rows) = List.map mq_quote rows"
  "wf_mint_quotes rows \<Longrightarrow> wf_mint_quotes (pay_row E qid rows)"
  "find_quote qid (pay_row E qid rows) =
     map_option (\<lambda>q. q\<lparr>mq_state := MQ_paid, mq_paid_time := norm_time (Some (now_s E))\<rparr>) (find_quote qid rows)"
proof -
  show m: "List.map mq_quote (pay_row E qid rows) = List.map mq_quote rows" by (simp add: pay_row_def)
  show "wf_mint_quotes (pay_row E qid rows)" if "wf_mint_quotes rows"
    using that m by (auto simp: wf_mint_quotes_def) (auto simp: pay_row_def split: if_splits)
  show "find_quote qid (pay_row E qid rows) =
     map_option (\<lambda>q. q\<lparr>mq_state := MQ_paid, mq_paid_time := norm_time (Some (now_s E))\<rparr>) (find_quote qid rows)"
    by (induction rows) (auto simp: find_quote_def pay_row_def)
qed

lemma mark_paid_cases:
  assumes "mark_mint_quote_paid E qid s = (r, t)"
  shows "(\<exists>e. r = Inl e \<and> db t = db s) \<or>
    (\<exists>q. r = Inr q \<and> t = s \<and> qid \<noteq> [] \<and> find_quote qid (mint_quotes (db s)) = Some q \<and> mq_state q \<noteq> MQ_unpaid) \<or>
    (\<exists>q. r = Inr (q\<lparr>mq_state := MQ_paid, mq_paid_time := Some (now_s E)\<rparr>) \<and> qid \<noteq> [] \<and>
       find_quote qid (mint_quotes (db s)) = Some q \<and> mq_state q = MQ_unpaid \<and>
       db t = (db s)\<lparr>mint_quotes := pay_row E qid (mint_quotes (db s))\<rparr> \<and> keysets t = keysets s)"
proof (cases r)
  case (Inl e)
  with assms show ?thesis by (auto simp: mark_mint_quote_paid_def dest: transaction_db)
next
  case (Inr q')
  with assms obtain q where q: "qid \<noteq> []" "find_quote qid (mint_quotes (db s)) = Some q"
    and b: "(if mq_state q = MQ_unpaid then bindS (liftS (\<lambda>_. mint_set_state q MQ_paid)) (\<lambda>q'.
        let q'' = q'\<lparr>mq_paid_time := Some (now_s E)\<rparr>
        in thenS (update_mint_quote q'') (thenS (submit_event (EvMint q'')) (returnS q''))) else returnS q) s = (Inr q', t)"
    by (auto simp: mark_mint_quote_paid_def transaction_Ok get_mint_quote_some elim!: bindS_OkE)
  show ?thesis
  proof (cases "mq_state q = MQ_unpaid")
    case True
    with b q find_quote_set[OF q(2)] Inr show ?thesis
      by (auto simp: bindS_def thenS_def mint_set_state_def update_mint_quote_def pay_row_def Let_def cong: if_cong)
  next
    case False
    with b q Inr show ?thesis by auto
  qed
qed

lemma get_quote_cases:
  assumes "ledger_get_mint_quote E qid s = (r, t)"
  shows "(\<exists>e. r = Inl e \<and> db t = db s) \<or>
    (\<exists>q. r = Inr q \<and> t = s \<and> qid \<noteq> [] \<and> find_quote qid (mint_quotes (db s)) = Some q) \<or>
    (\<exists>q. r = Inr (q\<lparr>mq_state := MQ_paid, mq_paid_time := Some (now_s E)\<rparr>) \<and> qid \<noteq> [] \<and>
       find_quote qid (mint_quotes (db s)) = Some q \<and> mq_state q = MQ_unpaid \<and>
       db t = (db s)\<lparr>mint_quotes := pay_row E qid (mint_quotes (db s))\<rparr> \<and> keysets t = keysets s)"
proof (cases "get_mint_quote (Some qid) None None (db s)")
  case (Inl e)
  with assms show ?thesis by (auto simp: ledger_get_mint_quote_def bindS_def)
next
  case (Inr found)
  show ?thesis
  proof (cases found)
    case None
    with assms Inr show ?thesis by (auto simp: ledger_get_mint_quote_def bindS_def)
  next
    case (Some q)
    with Inr have q: "qid \<noteq> []" "find_quote qid (mint_quotes (db s)) = Some q" by (simp_all add: get_mint_quote_some)
    from assms Inr Some have "(\<exists>e. r = Inl e \<and> t = s) \<or> (r = Inr q \<and> t = s) \<or> mark_mint_quote_paid E qid s = (r, t)"
      by (auto simp: ledger_get_mint_quote_def bindS_def thenS_def guardS_def split: sum.splits if_splits prod.splits)
    with q mark_paid_cases[of E qid s r t] show ?thesis by auto
  qed
qed

text \<open>The backend answers that the invoice of the quote is settled.\<close>

definition reported_paid :: "env \<Rightarrow> ledger \<Rightarrow> mint_quote \<Rightarrow> bool" where
  "reported_paid E s q \<longleftrightarrow> (\<exists>u m b st. verify_and_get_unit_method E s (mq_unit q) (mq_method q) = Inr (u, m) \<and>
     get_backend E m u = Inr b \<and> get_invoice_status b (mq_checking_id q) = Inr st \<and> st_result st = PR_settled)"

lemma get_quote_reported:
  assumes "ledger_get_mint_quote E qid s = (Inr q', t)" and "mq_state q' = MQ_paid"
    and "find_quote qid (mint_quotes (db s)) = Some q" and "mq_state q = MQ_unpaid"
  shows "reported_paid E s q"
proof -
  from assms(1) obtain q0 u m where "get_mint_quote (Some qid) None None (db s) = Inr (Some q0)"
    and um: "verify_and_get_unit_method E s (mq_unit q0) (mq_method q0) = Inr (u, m)"
    and rest: "(if mq_state q0 = MQ_unpaid then thenS (guardS (mq_checking_id q0 \<noteq> []) (CashuError ''quote has no checking id'' 0))
      (bindS (liftS (\<lambda>_. bindR (get_backend E m u) (\<lambda>b. get_invoice_status b (mq_checking_id q0)))) (\<lambda>status.
       if st_result status = PR_settled then mark_mint_quote_paid E qid else returnS q0)) else returnS q0) s = (Inr q', t)"
    by (auto simp: ledger_get_mint_quote_def elim!: bindS_OkE)
  then have q0: "q0 = q" using assms(3) by (simp add: get_mint_quote_some)
  from rest assms(2,4) show ?thesis
    using um unfolding q0 reported_paid_def
    by (auto simp: bindR_Inr elim!: thenS_OkE bindS_OkE split: if_splits)
qed

section \<open>The run of a mint\<close>

lemma sign_Err: "sign_blinded_messages E outs False s = (Inl e, t) \<Longrightarrow> db t = db s"
  by (auto simp: sign_blinded_messages_def with_conn_def elim!: bindS_ErrE thenS_ErrE dest: transaction_db)

lemma store_Err: "store_blinded_messages outs a b False s = (Inl e, t) \<Longrightarrow> db t = db s"
  by (auto simp: store_blinded_messages_def with_conn_def dest: transaction_db)

text \<open>Storing outputs and signing them right away.\<close>

lemma store_sign_Ok:
  assumes "thenS (store_blinded_messages outs mint_id melt_id False) (sign_blinded_messages E outs False) s = (Inr sigs, t)"
    and "wf_keysets s" and "\<forall>x\<in>set outs. canonical E x"
  obtains prs where "list_all2 (prepared_for E) outs prs" "sigs = List.map (signature_of E) prs"
    "db t = (db s)\<lparr>promises := promises (db s) @ map2 (\<lambda>x pr. sign_with E pr (new_row mint_id melt_id x)) outs prs,
       keyset_rows := bump_all (output_bumps outs) (keyset_rows (db s))\<rparr>"
proof -
  from assms(1) obtain s1 where 1: "store_blinded_messages outs mint_id melt_id False s = (Inr (), s1)"
    and 2: "sign_blinded_messages E outs False s1 = (Inr sigs, t)" by (auto elim!: thenS_OkE)
  note st = store_blinded_messages_Ok[OF 1]
  have "wf_keysets s1" using st(1) assms(2) by simp
  from sign_blinded_messages_Ok[OF 2 this] obtain prs where prs: "list_all2 (prepared_for E) outs prs"
      "sigs = List.map (signature_of E) prs"
    and t: "t = s1\<lparr>db := (db s1)\<lparr>promises := sign_all E prs (promises (db s1)),
      keyset_rows := bump_all (output_bumps outs) (keyset_rows (db s1))\<rparr>\<rparr>" by blast
  have "sign_all E prs (promises (db s1)) =
      promises (db s) @ map2 (\<lambda>x pr. sign_with E pr (new_row mint_id melt_id x)) outs prs"
    using st(1) sign_all_stored[OF prs(1) st(3) assms(3) st(2)] by simp
  with that[OF prs] t st(1) show thesis by simp
qed

lemma mint_body_cases:
  assumes "mint_body E outs qid sig q u s = (r, t)" and "wf_keysets s" and "\<forall>x\<in>set outs. canonical E x"
  shows "(\<exists>e. r = Inl e \<and> (db t = db s \<or> db t = (db s)\<lparr>promises := promises (db s) @ List.map (new_row (Some qid) None) outs\<rparr>)) \<or>
    (\<exists>prs. list_all2 (prepared_for E) outs prs \<and> r = Inr (List.map (signature_of E) prs) \<and>
       mq_unit q = unit_name u \<and> mq_amount q = sum_list (List.map bm_amount outs) \<and>
       verify_mint_quote_witness E q outs sig = Inr True \<and>
       db t = (db s)\<lparr>promises := promises (db s) @ map2 (\<lambda>x pr. sign_with E pr (new_row (Some qid) None x)) outs prs,
         keyset_rows := bump_all (output_bumps outs) (keyset_rows (db s))\<rparr>)"
proof -
  let ?m = "thenS (store_blinded_messages outs (Some qid) None False) (sign_blinded_messages E outs False)"
  from assms(1) have "(\<exists>e. r = Inl e \<and> t = s) \<or>
     (mq_unit q = unit_name u \<and> mq_amount q = sum_list (List.map bm_amount outs) \<and>
      verify_mint_quote_witness E q outs sig = Inr True \<and> ?m s = (r, t))"
    by (auto simp: mint_body_def thenS_def bindS_def guardS_def split: sum.splits if_splits)
  then show ?thesis
  proof (elim disjE conjE)
    assume m: "?m s = (r, t)" and g: "mq_unit q = unit_name u" "mq_amount q = sum_list (List.map bm_amount outs)"
      "verify_mint_quote_witness E q outs sig = Inr True"
    show ?thesis
    proof (cases r)
      case (Inl e)
      from m[unfolded Inl] have "db t = db s \<or> db t = (db s)\<lparr>promises := promises (db s) @ List.map (new_row (Some qid) None) outs\<rparr>"
      proof (rule thenS_ErrE)
        fix u s1 assume 1: "store_blinded_messages outs (Some qid) None False s = (Inr u, s1)"
          and 2: "sign_blinded_messages E outs False s1 = (Inl e, t)"
        from sign_Err[OF 2] store_blinded_messages_Ok(1)[OF 1] show ?thesis by simp
      qed (simp add: store_Err)
      with Inl show ?thesis by simp
    next
      case (Inr sigs)
      from store_sign_Ok[OF m[unfolded Inr] assms(2,3)] g Inr show ?thesis by metis
    qed
  qed auto
qed

lemma mint_body_keysets: "mint_body E outs qid sig q u s = (r, t) \<Longrightarrow> keysets t = keysets s"
  by (rule keysets_kept[of s "mint_body E outs qid sig q u"]) (auto simp: mint_body_def intro!: keeps_intros)

lemma get_quote_keysets: "ledger_get_mint_quote E qid s = (r, t) \<Longrightarrow> keysets t = keysets s"
  by (rule keysets_kept[of s "ledger_get_mint_quote E qid"])
     (auto simp: ledger_get_mint_quote_def mark_mint_quote_paid_def update_mint_quote_def Let_def intro!: keeps_intros)

lemma set_pending_keysets: "set_mint_quote_pending qid s = (r, t) \<Longrightarrow> keysets t = keysets s"
  by (rule keysets_kept[of s "set_mint_quote_pending qid"])
     (auto simp: set_mint_quote_pending_def mint_quote_or_fail_def update_mint_quote_def intro!: keeps_intros)

text \<open>The rows of quotes once \<open>get_mint_quote\<close> has asked the backend.\<close>

definition checked_rows :: "env \<Rightarrow> string \<Rightarrow> mint_quote list \<Rightarrow> mint_quote list \<Rightarrow> bool" where
  "checked_rows E qid rows rows' \<longleftrightarrow> rows' = rows \<or>
     (rows' = pay_row E qid rows \<and> (\<exists>q. find_quote qid rows = Some q \<and> mq_state q = MQ_unpaid))"

lemma mint_cases:
  assumes run: "mint E outs qid sig s = (r, t)" and wf: "wf_keysets s" "wf_mint_quotes (mint_quotes (db s))"
    and can: "\<forall>x\<in>set outs. canonical E x"
  obtains (refused) e rows where "r = Inl e" "checked_rows E qid (mint_quotes (db s)) rows"
      "db t = (db s)\<lparr>mint_quotes := rows\<rparr>"
  | (failed) e rows q where "r = Inl e" "checked_rows E qid (mint_quotes (db s)) rows" "find_quote qid rows = Some q"
      "mq_state q = MQ_paid" "db t = (db s)\<lparr>mint_quotes := rows\<rparr> \<or>
        db t = (db s)\<lparr>mint_quotes := rows, promises := promises (db s) @ List.map (new_row (Some qid) None) outs\<rparr>"
  | (issued) rows q k prs where "verify_outputs E s outs False = Inr ()" "checked_rows E qid (mint_quotes (db s)) rows"
      "find_quote qid rows = Some q" "mq_state q = MQ_paid" "keyset_of s (bm_id (hd outs)) = Some k"
      "list_all2 (prepared_for E) outs prs" "r = Inr (List.map (signature_of E) prs)"
      "mq_unit q = unit_name (k_unit k)" "mq_amount q = sum_list (List.map bm_amount outs)"
      "db t = (db s)\<lparr>mint_quotes := set_quote qid MQ_issued rows,
         promises := promises (db s) @ map2 (\<lambda>x pr. sign_with E pr (new_row (Some qid) None x)) outs prs,
         keyset_rows := bump_all (output_bumps outs) (keyset_rows (db s))\<rparr>"
proof -
  show thesis
  proof (cases "\<exists>k. verify_outputs E s outs False = Inr () \<and> keyset_of s (bm_id (hd outs)) = Some k")
    case False
    then have "\<exists>e. r = Inl e \<and> t = s" using run
      by (auto simp: mint_def thenS_def bindS_def the_keyset_def ofOption_def split: sum.splits option.splits prod.splits)
    then show thesis using refused[of _ "mint_quotes (db s)"] by (auto simp: checked_rows_def)
  next
    case True
    then obtain k where k: "verify_outputs E s outs False = Inr ()" "keyset_of s (bm_id (hd outs)) = Some k" by auto
    obtain r1 s1 where g: "ledger_get_mint_quote E qid s = (r1, s1)" by force
    have ks1: "keysets s1 = keysets s" by (rule get_quote_keysets[OF g])
    show thesis
    proof (cases r1)
      case (Inl e)
      then have "r = Inl e" "t = s1" using run k g by (simp_all add: mint_def thenS_def bindS_def the_keyset_def)
      moreover have "db s1 = db s" using get_quote_cases[OF g] Inl by auto
      ultimately show thesis using refused[of e "mint_quotes (db s)"] by (simp add: checked_rows_def)
    next
      case (Inr q')
      obtain rows where rows: "mint_quotes (db s1) = rows" by blast
      have wf1: "wf_mint_quotes rows" and ch: "checked_rows E qid (mint_quotes (db s)) rows"
        and d1: "db s1 = (db s)\<lparr>mint_quotes := rows\<rparr>" and qid: "qid \<noteq> []"
        and "\<exists>q. find_quote qid rows = Some q \<and> mq_state q = mq_state q' \<and> mq_unit q = mq_unit q' \<and> mq_amount q = mq_amount q'"
        using get_quote_cases[OF g] Inr wf(2) rows by (auto simp: checked_rows_def)
      then obtain q where q: "find_quote qid rows = Some q" "mq_state q = mq_state q'" "mq_unit q = mq_unit q'"
        "mq_amount q = mq_amount q'" by blast
      have ref: thesis if "r = Inl e" "db t = db s1" for e
        using refused[of e rows] that ch d1 by simp
      let ?rest = "thenS (set_mint_quote_pending qid)
        (bindS (catchS (mint_body E outs qid sig q' (k_unit k)) (\<lambda>e. thenS (unset_mint_quote_pending qid (mq_state q')) (raiseS e)))
           (\<lambda>promises. thenS (unset_mint_quote_pending qid MQ_issued) (returnS promises)))"
      have "(\<exists>e. r = Inl e \<and> t = s1) \<or> (mq_state q' = MQ_paid \<and> ?rest s1 = (r, t))"
        using run k g Inr
        by (cases "mq_state q'") (auto simp add: mint_def thenS_def[of "liftS f" for f] thenS_def[of "guardS b e" for b e] bindS_def[of "liftS f" for f]
            bindS_def[of "guardS b e" for b e] bindS_def[of "ledger_get_mint_quote E qid"] the_keyset_def guardS_def sm_units)
      then show thesis
      proof (elim disjE exE conjE)
        fix e assume "r = Inl e" "t = s1"
        then show thesis using ref by simp
      next
        assume paid: "mq_state q' = MQ_paid" and rest: "?rest s1 = (r, t)"
        obtain r2 s2 where p: "set_mint_quote_pending qid s1 = (r2, s2)" by force
        show thesis
        proof (cases r2)
          case (Inl e)
          then show thesis using rest p ref[of e] set_pending_Err by (auto simp: thenS_def bindS_def)
        next
          case (Inr q2)
          with p set_pending_Ok[of s1 qid q2 s2] q(1) wf1 rows
          have s2: "s2 = s1\<lparr>db := (db s1)\<lparr>mint_quotes := set_quote qid MQ_pending rows\<rparr>\<rparr>" by auto
          obtain r3 s3 where b: "mint_body E outs qid sig q' (k_unit k) s2 = (r3, s3)" by force
          have "wf_keysets s2" using s2 ks1 wf(1) wf_keysets_cong[of s1 s] by simp
          note bc = mint_body_cases[OF b this can]
          have m3: "mint_quotes (db s3) = set_quote qid MQ_pending rows" using bc s2 rows by auto
          have unset: "unset_mint_quote_pending qid v s3 = (Inr (q\<lparr>mq_state := v\<rparr>),
            s3\<lparr>db := (db s3)\<lparr>mint_quotes := set_quote qid v rows\<rparr>, events := events s3 @ [EvMint (q\<lparr>mq_state := v\<rparr>)]\<rparr>)"
            if "v = MQ_paid \<or> v = MQ_issued" for v
            using unset_pending_Ok[of s3 qid "q\<lparr>mq_state := MQ_pending\<rparr>" v] m3 wf1 q qid that by simp
          have "\<forall>r\<in>set rows. mq_quote r = qid \<longrightarrow> mq_state r = MQ_paid"
            using row_of_id[OF wf1 q(1)] paid q(2) by auto
          then have restored: "set_quote qid MQ_paid rows = rows" by (rule set_quote_same)
          show thesis
          proof (cases r3)
            case (Inl e)
            have "r = Inl e \<and> db t = (db s3)\<lparr>mint_quotes := rows\<rparr>"
              using rest p Inr b Inl paid unset[of MQ_paid] restored
              by (auto simp add: thenS_def bindS_def catchS_def)
            then show thesis
              using failed[of e rows q] ch q paid bc Inl s2 d1 by auto
          next
            case (Inr sigs)
            have "r = Inr sigs \<and> db t = (db s3)\<lparr>mint_quotes := set_quote qid MQ_issued rows\<rparr>"
              using rest p \<open>r2 = Inr q2\<close> b Inr unset[of MQ_issued]
              by (auto simp add: thenS_def bindS_def catchS_def)
            moreover obtain prs where "list_all2 (prepared_for E) outs prs" "sigs = List.map (signature_of E) prs"
              "mq_unit q' = unit_name (k_unit k)" "mq_amount q' = sum_list (List.map bm_amount outs)"
              "db s3 = (db s2)\<lparr>promises := promises (db s2) @ map2 (\<lambda>x pr. sign_with E pr (new_row (Some qid) None x)) outs prs,
                 keyset_rows := bump_all (output_bumps outs) (keyset_rows (db s2))\<rparr>"
              using bc Inr by auto
            ultimately show thesis
              using issued[of rows q k prs] k ch q paid s2 d1 by simp
          qed
        qed
      qed
    qed
  qed
qed

lemma mint_asked:
  assumes "mint E outs qid sig s = (Inr sigs, t)"
  obtains q s1 where "ledger_get_mint_quote E qid s = (Inr q, s1)" "mq_state q = MQ_paid"
proof -
  from assms obtain q s1 where "ledger_get_mint_quote E qid s = (Inr q, s1)" "mq_state q = MQ_paid"
    unfolding mint_def by (elim thenS_OkE bindS_OkE) auto
  with that show thesis .
qed

section \<open>A mint on the sample mint\<close>

definition sample_quote :: "mint_quote_state \<Rightarrow> mint_quote" where
  "sample_quote st = \<lparr>mq_quote = ''q1'', mq_method = ''bolt11'', mq_request = ''lnbc'', mq_checking_id = ''chk'',
     mq_unit = ''sat'', mq_amount = 7, mq_state = st, mq_created_time = Some 1, mq_paid_time = None,
     mq_expiry = None, mq_pubkey = Some []\<rparr>"

definition mint_start :: "mint_quote_state \<Rightarrow> ledger" where
  "mint_start st = sample_ledger\<lparr>db := empty_db\<lparr>mint_quotes := [sample_quote st]\<rparr>\<rparr>"

lemma mint_start_wf: "wf_keysets (mint_start st)" "wf_mint_quotes (mint_quotes (db (mint_start st)))"
  "\<forall>x\<in>set swap_out. canonical sample_env x"
  by (simp_all add: mint_start_def sample_ledger_def wf_keysets_def sample_keyset_def wf_mint_quotes_def
      sample_quote_def norm_time_def truthy_int_def sample_wf)

lemma sample_mint_ok: "isOk (fst (mint sample_env swap_out ''q1'' None (mint_start MQ_unpaid)))"
  by code_simp

lemmas sample_mint_run = isOk_run[OF sample_mint_ok]

section \<open>Properties\<close>

text \<open>C5. Minting is backed: a mint that returns hands out signatures worth exactly the amount of the
  quote, in the quote's unit. The quote was paid before, or it was unpaid and the backend, asked with
  the quote's checking id, answered that the invoice is settled; it is issued afterwards. The signed
  outputs are stored, the keyset's balance grows by their amounts, and no table of proofs changes.\<close>

theorem mint_effect:
  assumes "mint E outs qid sig s = (Inr sigs, t)" and "wf_keysets s" and "wf_mint_quotes (mint_quotes (db s))"
    and "\<forall>x\<in>set outs. canonical E x"
  shows "\<exists>q k prs. find_quote qid (mint_quotes (db s)) = Some q \<and>
    (mq_state q = MQ_paid \<or> mq_state q = MQ_unpaid \<and> reported_paid E s q) \<and>
    keyset_of s (bm_id (hd outs)) = Some k \<and> mq_unit q = unit_name (k_unit k) \<and>
    sum_promises sigs = mq_amount q \<and> list_all2 (prepared_for E) outs prs \<and> sigs = List.map (signature_of E) prs \<and>
    map_option mq_state (find_quote qid (mint_quotes (db t))) = Some MQ_issued \<and>
    promises (db t) = promises (db s) @ map2 (\<lambda>x pr. sign_with E pr (new_row (Some qid) None x)) outs prs \<and>
    keyset_rows (db t) = bump_all (output_bumps outs) (keyset_rows (db s)) \<and>
    proofs_used (db t) = proofs_used (db s) \<and> proofs_pending (db t) = proofs_pending (db s)"
  using assms
proof (cases rule: mint_cases)
  case (issued rows q k prs)
  have a: "sum_promises (List.map (signature_of E) prs) = sum_list (List.map bm_amount outs)"
    using issued(6) by (induction rule: list_all2_induct) (auto simp: sum_promises_def signature_of_def prepared_for_def)
  obtain q0 where q0: "find_quote qid (mint_quotes (db s)) = Some q0" "mq_unit q0 = mq_unit q" "mq_amount q0 = mq_amount q"
    "mq_state q0 = MQ_unpaid \<or> mq_state q0 = MQ_paid"
    using issued(2,3,4) by (auto simp: checked_rows_def)
  obtain q' s1 where "ledger_get_mint_quote E qid s = (Inr q', s1)" "mq_state q' = MQ_paid"
    by (rule mint_asked[OF assms(1)])
  from get_quote_reported[OF this q0(1)] q0(4) have "mq_state q0 = MQ_paid \<or> mq_state q0 = MQ_unpaid \<and> reported_paid E s q0"
    by blast
  with issued a q0 show ?thesis by (intro exI[of _ q0] exI[of _ k] exI[of _ prs]) simp
qed auto

theorem mint_effect_witness:
  "sum_promises (projr (fst (mint sample_env swap_out ''q1'' None (mint_start MQ_unpaid)))) = 7 \<and>
   reported_paid sample_env (mint_start MQ_unpaid) (sample_quote MQ_unpaid)"
  using mint_effect[OF sample_mint_run mint_start_wf]
  by (auto simp: mint_start_def sample_ledger_def empty_db_def find_quote_def sample_quote_def)

lemma mint_refused:
  assumes "find_quote qid (mint_quotes (db s)) = Some q" and "mq_state q = MQ_issued"
  shows "\<exists>e t. mint E outs qid sig s = (Inl e, t) \<and> db t = db s"
proof (cases "qid = []")
  case True
  then show ?thesis
    by (auto simp: mint_def ledger_get_mint_quote_def thenS_def bindS_def get_mint_quote_empty split: sum.splits prod.splits)
next
  case False
  then show ?thesis using assms
    by (auto simp: mint_def ledger_get_mint_quote_def thenS_def bindS_def get_mint_quote_id split: sum.splits prod.splits)
qed

text \<open>A quote is issued at most once: whoever asks to mint against an issued quote gets an
  exception, and nothing is written.\<close>

theorem mint_issued_once:
  assumes "find_quote qid (mint_quotes (db s)) = Some q" and "mq_state q = MQ_issued"
  shows "\<exists>e t. mint E outs qid sig s = (Inl e, t) \<and> db t = db s"
  by (rule mint_refused[OF assms])

theorem mint_issued_once_witness:
  "\<exists>e t. mint sample_env swap_out ''q1'' None (mint_start MQ_issued) = (Inl e, t)"
proof -
  have "find_quote ''q1'' (mint_quotes (db (mint_start MQ_issued))) = Some (sample_quote MQ_issued)"
    "mq_state (sample_quote MQ_issued) = MQ_issued"
    by (simp_all add: mint_start_def find_quote_def sample_quote_def)
  from mint_issued_once[OF this] show ?thesis by blast
qed

text \<open>C6. A mint that raises issues nothing: no signature is stored, no balance moves, no table of
  proofs changes. The quote's state is what it was, or paid if the backend reported the invoice
  settled: it is never left pending. The outputs may stay behind, unsigned.\<close>

theorem mint_failure_restores:
  assumes "mint E outs qid sig s = (Inl e, t)" and "wf_keysets s" and "wf_mint_quotes (mint_quotes (db s))"
    and "\<forall>x\<in>set outs. canonical E x"
  shows "checked_rows E qid (mint_quotes (db s)) (mint_quotes (db t)) \<and>
    filter (\<lambda>r. pm_c r \<noteq> None) (promises (db t)) = filter (\<lambda>r. pm_c r \<noteq> None) (promises (db s)) \<and>
    keyset_rows (db t) = keyset_rows (db s) \<and> proofs_used (db t) = proofs_used (db s) \<and>
    proofs_pending (db t) = proofs_pending (db s)"
  using assms by (cases rule: mint_cases) (auto simp: filter_map comp_def new_row_def)

theorem mint_failure_restores_witness:
  "mint_quotes (db (snd (mint sample_env (tl swap_out) ''q1'' None (mint_start MQ_paid)))) = [sample_quote MQ_paid]"
proof -
  have run: "fst (mint sample_env (tl swap_out) ''q1'' None (mint_start MQ_paid)) =
      Inl (tx_error ''amount to mint does not match quote amount'')" by code_simp
  have "\<forall>x\<in>set (tl swap_out). canonical sample_env x" using mint_start_wf(3) by (simp add: swap_out_def)
  from mint_failure_restores[OF prod_eqI[of _ "(Inl _, _)", simplified, OF run refl] mint_start_wf(1,2) this]
  show ?thesis by (auto simp: checked_rows_def mint_start_def find_quote_def sample_quote_def)
qed

end
