(* ===== verification/Change.thy ===== *)
theory Change
  imports Swapping
begin

text \<open>
  The change of a melt (\<^verbatim>\<open>_generate_change_promises\<close>): how much of the overpaid fee comes back, for any
  number of blank outputs.
\<close>

section \<open>Sums of distinct powers of two\<close>

lemma sum_powers_less:
  assumes "distinct xs" and "\<forall>x\<in>set xs. \<exists>i<k. x = (2::int) ^ i"
  shows "sum_list xs < 2 ^ k"
proof -
  have sub: "set xs \<subseteq> (\<lambda>i. 2 ^ i) ` {..<k}" using assms(2) by auto
  have "sum_list xs = \<Sum> (set xs)" using assms(1) by (rule distinct_sum_list_conv_Sum)
  also have "\<dots> \<le> \<Sum> ((\<lambda>i. (2::int) ^ i) ` {..<k})"
    by (rule sum_mono2) (use sub in auto)
  also have "\<dots> = (\<Sum>i<k. (2::int) ^ i)"
    by (subst sum.reindex) (auto simp: inj_on_def)
  also have "\<dots> < 2 ^ k" by (induction k) auto
  finally show ?thesis .
qed

lemma sum_list_take_drop: "sum_list (take n xs) + sum_list (drop n xs) = (sum_list xs :: int)"
  by (metis append_take_drop_id sum_list_append)

section \<open>The amounts of the change\<close>

definition return_amounts :: "int \<Rightarrow> int list" where
  "return_amounts x = rev (sort (amount_split x))"

lemma return_amounts_rev: "return_amounts x = rev (amount_split x)"
proof -
  have "sorted (amount_split x)" using amount_split_sorted[of x] by (simp add: strict_sorted_iff)
  then show ?thesis by (simp add: return_amounts_def sorted_sort_id)
qed

lemma length_return_amounts [simp]: "length (return_amounts x) = length (amount_split x)"
  by (simp add: return_amounts_rev)

lemma map_imprint: "length outs = length amounts \<Longrightarrow> List.map bm_amount (imprint outs amounts) = amounts"
  by (induction outs amounts rule: list_induct2) (auto simp: imprint_def)

lemma map_imprint_B: "length outs = length amounts \<Longrightarrow> List.map bm_B (imprint outs amounts) = List.map bm_B outs"
  by (induction outs amounts rule: list_induct2) (auto simp: imprint_def)

lemma change_amounts:
  "List.map bm_amount (change_outputs x outs) = take (length outs) (return_amounts x)"
  by (cases "length outs \<le> length (amount_split x)")
     (simp_all add: change_outputs_def Let_def map_imprint return_amounts_def[symmetric] min_absorb1 min_absorb2)

lemma change_B: "List.map bm_B (change_outputs x outs) = take (length (amount_split x)) (List.map bm_B outs)"
  by (simp add: change_outputs_def Let_def map_imprint_B take_map min_def)

lemma return_amounts_pos: "y \<in> set (return_amounts x) \<Longrightarrow> 0 < y"
  by (auto simp: return_amounts_rev dest: amount_split_pos)

lemma sum_return_amounts: "sum_list (return_amounts x) = max 0 x"
  by (simp add: return_amounts_rev sum_amount_split sum_list_rev)

lemma change_le: "sum_list (take n (return_amounts x)) \<le> max 0 x"
proof -
  have "0 \<le> sum_list (drop n (return_amounts x))"
    by (intro sum_list_nonneg) (auto dest!: in_set_dropD return_amounts_pos)
  then show ?thesis using sum_list_take_drop[of n "return_amounts x"] by (simp add: sum_return_amounts)
qed

text \<open>What is not returned is less than the smallest amount that is.\<close>

lemma change_rest:
  assumes "0 < n" and "0 < x" and "y \<in> set (take n (return_amounts x))"
  shows "x - sum_list (take n (return_amounts x)) < y"
proof -
  let ?r = "return_amounts x"
  have desc: "sorted_wrt (>) ?r" using amount_split_sorted[of x] by (simp add: return_amounts_rev sorted_wrt_rev)
  obtain k where y: "y = 2 ^ k" "y \<in> set ?r"
    using in_set_takeD[OF assms(3)] amount_split_pos[of y x] by (auto simp: return_amounts_rev)
  have small: "z < y" if "z \<in> set (drop n ?r)" for z
    using sorted_wrt_append[of "(>)" "take n ?r" "drop n ?r"] desc assms(3) that by auto
  have "\<exists>i<k. z = 2 ^ i" if z: "z \<in> set (drop n ?r)" for z
  proof -
    obtain i where i: "z = 2 ^ i"
      using in_set_dropD[OF z] amount_split_pos[of z x] by (auto simp: return_amounts_rev)
    moreover have "i < k" using small[OF z] i y(1) by simp
    ultimately show ?thesis by blast
  qed
  moreover have "distinct (drop n ?r)" by (simp add: return_amounts_rev amount_split_distinct)
  ultimately have "sum_list (drop n ?r) < y" using sum_powers_less[of "drop n ?r" k] y(1) by simp
  moreover have "sum_list (take n ?r) + sum_list (drop n ?r) = x"
    using sum_list_take_drop[of n ?r] assms(2) by (simp add: sum_return_amounts)
  ultimately show ?thesis by linarith
qed

section \<open>The run\<close>

lemma generate_change_Ok:
  assumes "generate_change_promises E provided paid (Some outs) melt_id s = (Inr sigs, t)" and "wf_keysets s"
  shows "List.map bs_amount sigs = (if provided - paid \<le> 0 then [] else take (length outs) (return_amounts (provided - paid)))"
proof (cases "provided - paid \<le> 0")
  case True
  with assms show ?thesis by (simp add: generate_change_promises_def Let_def)
next
  case False
  let ?o = "change_outputs (provided - paid) outs"
  from False assms(1) obtain s1 where "sign_blinded_messages E ?o False s = (Inr sigs, s1)"
    by (auto simp: generate_change_promises_def Let_def elim!: thenS_OkE bindS_OkE)
  from sign_blinded_messages_Ok[OF this assms(2)] obtain prs where
    prs: "list_all2 (prepared_for E) ?o prs" "sigs = List.map (signature_of E) prs" by metis
  have "List.map bs_amount sigs = List.map bm_amount ?o"
    using prs by (induction arbitrary: sigs rule: list_all2_induct) (auto simp: prepared_for_def signature_of_def)
  with False show ?thesis by (simp add: change_amounts)
qed

text \<open>C10. The change never exceeds the overpaid fee; with as many blank outputs as the fee has binary
  digits set it is the overpaid fee exactly; with fewer outputs (but one at least) more than half of
  it comes back, and what is kept is less than the smallest amount returned.\<close>

theorem change_bounds:
  assumes "generate_change_promises E provided paid (Some outs) melt_id s = (Inr sigs, t)" and "wf_keysets s"
  shows "sum_promises sigs \<le> max 0 (provided - paid) \<and>
    (length (amount_split (provided - paid)) \<le> length outs \<longrightarrow> sum_promises sigs = max 0 (provided - paid)) \<and>
    (outs \<noteq> [] \<and> paid < provided \<longrightarrow> 2 * sum_promises sigs > provided - paid \<and>
       (\<forall>x\<in>set sigs. provided - paid - sum_promises sigs < bs_amount x))"
proof -
  let ?x = "provided - paid" and ?n = "length outs"
  have s: "sum_promises sigs = (if ?x \<le> 0 then 0 else sum_list (take ?n (return_amounts ?x)))"
    using generate_change_Ok[OF assms] by (simp add: sum_promises_def)
  have all: "sum_promises sigs = max 0 ?x" if "length (amount_split ?x) \<le> ?n"
    using that sum_return_amounts[of ?x] s by (simp add: return_amounts_rev)
  have half: "2 * sum_promises sigs > ?x" and rest: "\<forall>x\<in>set sigs. ?x - sum_promises sigs < bs_amount x"
    if n: "outs \<noteq> []" and x: "paid < provided"
  proof -
    have amounts: "List.map bs_amount sigs = take ?n (return_amounts ?x)"
      using generate_change_Ok[OF assms] x by simp
    show rest: "\<forall>z\<in>set sigs. ?x - sum_promises sigs < bs_amount z"
    proof
      fix z assume "z \<in> set sigs"
      then have "bs_amount z \<in> set (take ?n (return_amounts ?x))" using amounts by (metis image_eqI set_map)
      from change_rest[OF _ _ this] n x s show "?x - sum_promises sigs < bs_amount z" by simp
    qed
    have "return_amounts ?x \<noteq> []" using sum_return_amounts[of ?x] x by auto
    then have "sigs \<noteq> []" using amounts n by auto
    then obtain z zs where z: "sigs = z # zs" by (cases sigs) auto
    have "0 \<le> sum_list (List.map bs_amount zs)"
    proof (rule sum_list_nonneg)
      fix y assume "y \<in> set (List.map bs_amount zs)"
      then have "y \<in> set (take ?n (return_amounts ?x))" using amounts z by (metis list.set_intros(2) list.simps(9))
      then show "0 \<le> y" by (auto dest: in_set_takeD return_amounts_pos less_imp_le)
    qed
    then have "bs_amount z \<le> sum_promises sigs" by (simp add: z sum_promises_def)
    with rest z show "2 * sum_promises sigs > ?x" by auto
  qed
  have "sum_promises sigs \<le> max 0 ?x"
    using s change_le[of ?n ?x] by (cases "?x \<le> 0") simp_all
  with all half rest show ?thesis by blast
qed

definition change_start :: ledger where
  "change_start = sample_ledger\<lparr>db := empty_db\<lparr>promises := List.map (new_row None (Some ''m1'')) (List.map (sample_output 0) [1, 2])\<rparr>\<rparr>"

lemma sample_change_ok:
  "isOk (fst (generate_change_promises sample_env 9 2 (Some (List.map (sample_output 0) [1, 2])) None change_start))"
  "wf_keysets change_start"
  by code_simp+

theorem change_bounds_witness:
  "7 < 2 * sum_promises (projr (fst (generate_change_promises sample_env 9 2 (Some (List.map (sample_output 0) [1, 2])) None change_start)))"
  using change_bounds[OF isOk_run[OF sample_change_ok(1)] sample_change_ok(2)] by simp

end
