(* ===== verification/Melting.thy ===== *)
theory Melting
  imports Minting Change
begin

text \<open>
  Melting: what is verified before anything is written, the three ways a payment can end (settled,
  failed, left pending), and what each leaves in the tables.
\<close>

section \<open>Rows of melt quotes\<close>

definition put_melt :: "melt_quote \<Rightarrow> melt_quote \<Rightarrow> melt_quote" where
  "put_melt q r = (if lq_quote r = lq_quote q
     then r\<lparr>lq_state := lq_state q, lq_fee_paid := lq_fee_paid q, lq_paid_time := norm_time (lq_paid_time q),
            lq_payment_preimage := lq_payment_preimage q, lq_checking_id := lq_checking_id q\<rparr>
     else r)"

definition upd_melt :: "melt_quote \<Rightarrow> melt_quote list \<Rightarrow> melt_quote list" where
  "upd_melt q rows = List.map (put_melt q) rows"

lemma update_melt_quote_apply [simp]:
  "update_melt_quote q s = (Inr (), s\<lparr>db := (db s)\<lparr>melt_quotes := upd_melt q (melt_quotes (db s))\<rparr>\<rparr>)"
  by (simp add: update_melt_quote_def upd_melt_def put_melt_def[abs_def])

lemma upd_melt_upd_melt [simp]: "lq_quote p = lq_quote q \<Longrightarrow> upd_melt p (upd_melt q rows) = upd_melt p rows"
  by (auto simp: upd_melt_def put_melt_def)

lemma upd_melt_ids [simp]: "List.map lq_quote (upd_melt q rows) = List.map lq_quote rows"
  by (simp add: upd_melt_def comp_def put_melt_def cong: if_cong)

definition find_melt :: "string \<Rightarrow> melt_quote list \<Rightarrow> melt_quote option" where
  "find_melt qid rows = List.find (\<lambda>q. lq_quote q = qid) rows"

lemma find_melt_set: "find_melt qid rows = Some q \<Longrightarrow> q \<in> set rows \<and> lq_quote q = qid"
  by (auto simp: find_melt_def find_Some_iff)

lemma find_melt_upd:
  "find_melt qid (upd_melt q rows) = map_option (put_melt q) (find_melt qid rows)"
  by (induction rows) (auto simp: find_melt_def upd_melt_def put_melt_def)

lemma upd_melt_state:
  "lq_quote q = qid \<Longrightarrow> find_melt qid rows = Some r \<Longrightarrow>
   map_option lq_state (find_melt qid (upd_melt q rows)) = Some (lq_state q)"
  by (auto simp: find_melt_upd put_melt_def dest: find_melt_set)

lemma get_melt_row:
  assumes "get_melt_quote_row (Some qid) None None d = Inr (Some q)"
  shows "qid \<noteq> [] \<and> (\<exists>r. find_melt qid (melt_quotes d) = Some r \<and> q = r\<lparr>lq_change := lq_change q\<rparr>)"
proof (cases "qid = []")
  case True
  with assms show ?thesis by (simp add: get_melt_quote_row_def truthy_str_def)
next
  case False
  have "List.find (\<lambda>q. criterion (Some qid) (lq_quote q) \<and> criterion None (lq_checking_id q) \<and> criterion None (lq_request q)) (melt_quotes d)
      = find_melt qid (melt_quotes d)"
    using False by (auto simp: find_melt_def criterion_def truthy_str_def intro!: arg_cong2[where f = List.find])
  with assms False show ?thesis
    by (auto simp: get_melt_quote_row_def truthy_str_def bindR_Inr split: option.splits)
qed

section \<open>The first half of a melt\<close>

text \<open>A quote that is unpaid is returned as it is; the backend is not asked.\<close>

lemma get_melt_unpaid:
  assumes "ledger_get_melt_quote E qid rb s = (Inr q, t)"
    and "find_melt qid (melt_quotes (db s)) = Some r" and "lq_state r = LQ_unpaid"
  shows "t = s \<and> q = r\<lparr>lq_change := lq_change q\<rparr>"
proof -
  from assms(1) obtain q0 where g: "get_melt_quote_row (Some qid) None None (db s) = Inr (Some q0)"
    by (auto simp: ledger_get_melt_quote_def elim!: bindS_OkE)
  from get_melt_row[OF this] assms(2) have q0: "q0 = r\<lparr>lq_change := lq_change q0\<rparr>" by simp
  then have "lq_state q0 = LQ_unpaid" using assms(3) by (metis melt_quote.select_convs(8) melt_quote.surjective melt_quote.update_convs(15))
  then show ?thesis using assms(1) g q0
    by (auto simp: ledger_get_melt_quote_def elim!: bindS_OkE)
qed

lemma melt_checksD:
  assumes "melt_checks E ps quote outs q s = Inr (u, m, provided)"
  shows "verify_inputs E s ps = Inr ()" "provided = sum_proofs ps - lq_amount q - tx_fee s ps"
    "lq_fee_reserve q \<le> provided" "outs = [] \<or> verify_outputs E s outs True = Inr ()"
    "\<exists>b. verify_sigall_spending_conditions E ps outs (Some (melt_message ps outs quote)) = Inr b"
    "verify_and_get_unit_method E s (lq_unit q) (lq_method q) = Inr (u, m)"
proof -
  obtain um b f where v: "verify_and_get_unit_method E s (lq_unit q) (lq_method q) = Inr um"
    "check_melt_outputs E s q outs = Inr ()" 
    "verify_sigall_spending_conditions E ps outs (Some (melt_message ps outs quote)) = Inr b"
    "check_melt_amounts s q ps = Inr f" "verify_inputs_and_outputs E s ps None = Inr ()" "Inr (fst um, snd um, f) = (Inr (u, m, provided) :: error + unit_t \<times> method_t \<times> int)"
    using assms unfolding melt_checks_def bindR_Inr by (auto simp: bindR_Inr split: prod.splits)
  then show "verify_and_get_unit_method E s (lq_unit q) (lq_method q) = Inr (u, m)" by auto
  show "\<exists>b. verify_sigall_spending_conditions E ps outs (Some (melt_message ps outs quote)) = Inr b" using v by blast
  show "verify_inputs E s ps = Inr ()" using v(5) by (auto simp: verify_inputs_and_outputs_def bindR_Inr)
  have "check_melt_amounts s q ps = Inr provided" using v(4,6) by simp
  then show "provided = sum_proofs ps - lq_amount q - tx_fee s ps" "lq_fee_reserve q \<le> provided"
    by (auto simp: check_melt_amounts_def bindR_Inr Let_def dest: fees_tx_fee)
  show "outs = [] \<or> verify_outputs E s outs True = Inr ()"
    using v(2) by (auto simp: check_melt_outputs_def bindR_Inr split: if_splits)
qed

text \<open>Making the quote pending.\<close>

lemma set_melt_pending_Ok:
  assumes "set_melt_quote_pending q s = (Inr q', t)"
  shows "q' = q\<lparr>lq_state := LQ_pending\<rparr>"
    "t = s\<lparr>db := (db s)\<lparr>melt_quotes := upd_melt q' (melt_quotes (db s))\<rparr>, events := events s @ [EvMelt q']\<rparr>"
    "\<forall>r\<in>set (melt_quotes (db s)). lq_checking_id r = lq_checking_id q \<longrightarrow> lq_state r = LQ_unpaid"
proof -
  from assms obtain q1 s1 where c: "\<not> list_ex paid_or_pending (get_melt_quotes_by_checking_id (lq_checking_id q) (db s))"
    and m: "melt_set_state q LQ_pending = Inr q1"
    and s1: "s1 = s\<lparr>db := (db s)\<lparr>melt_quotes := upd_melt q1 (melt_quotes (db s))\<rparr>\<rparr>" "q' = q1"
    and t: "t = s1\<lparr>events := events s1 @ [EvMelt q']\<rparr>"
    unfolding set_melt_quote_pending_def
    by (auto simp: transaction_Ok thenS_step elim!: thenS_OkE bindS_OkE)
  from m have q1: "q1 = q\<lparr>lq_state := LQ_pending\<rparr>" by (simp add: melt_set_state_Inr)
  with s1 t show "q' = q\<lparr>lq_state := LQ_pending\<rparr>"
    "t = s\<lparr>db := (db s)\<lparr>melt_quotes := upd_melt q' (melt_quotes (db s))\<rparr>, events := events s @ [EvMelt q']\<rparr>" by simp_all
  show "\<forall>r\<in>set (melt_quotes (db s)). lq_checking_id r = lq_checking_id q \<longrightarrow> lq_state r = LQ_unpaid"
  proof (intro ballI impI)
    fix r assume "r \<in> set (melt_quotes (db s))" "lq_checking_id r = lq_checking_id q"
    with c have "\<not> paid_or_pending r" by (auto simp: get_melt_quotes_by_checking_id_def list_ex_iff)
    then show "lq_state r = LQ_unpaid" by (cases "lq_state r") (auto simp: paid_or_pending_def)
  qed
qed

text \<open>Settling with a mint quote of this mint, or not.\<close>

lemma settle_internally_Ok:
  assumes "melt_mint_settle_internally E q s = (Inr q', t)" and "lq_state q = LQ_pending"
  shows "lq_quote q' = lq_quote q \<and> lq_amount q' = lq_amount q \<and> lq_fee_reserve q' = lq_fee_reserve q \<and>
    ((q' = q \<and> t = s) \<or>
     (lq_state q' = LQ_paid \<and> lq_fee_paid q' = 0 \<and> (\<exists>mqs evs. t = s\<lparr>db := (db s)\<lparr>melt_quotes := upd_melt q' (melt_quotes (db s)),
        mint_quotes := mqs\<rparr>, events := evs\<rparr>)))"
proof -
  have settle: "lq_quote q' = lq_quote q \<and> lq_amount q' = lq_amount q \<and> lq_fee_reserve q' = lq_fee_reserve q \<and>
      lq_state q' = LQ_paid \<and> lq_fee_paid q' = 0 \<and>
      (\<exists>mqs evs. t = s\<lparr>db := (db s)\<lparr>melt_quotes := upd_melt q' (melt_quotes (db s)), mint_quotes := mqs\<rparr>, events := evs\<rparr>)"
    if run: "settle_with_mint_quote E q mq s = (Inr q', t)" for mq
  proof -
    from run obtain q1 mq1 where m: "melt_set_state (q\<lparr>lq_fee_paid := 0\<rparr>) LQ_paid = Inr q1"
      and rest: "(let q2 = q1\<lparr>lq_paid_time := Some (now_s E)\<rparr>; mq2 = mq1\<lparr>mq_paid_time := Some (now_s E)\<rparr>
        in thenS (transaction (thenS (update_melt_quote q2) (update_mint_quote mq2)))
          (thenS (submit_event (EvMelt q2)) (thenS (submit_event (EvMint mq2)) (returnS q2)))) s = (Inr q', t)"
      unfolding settle_with_mint_quote_def by (auto elim!: thenS_OkE bindS_OkE)
    from rest m assms(2) show ?thesis
      by (auto simp: Let_def thenS_def bindS_def transaction_def update_mint_quote_def melt_set_state_Inr)
  qed
  from assms(1) show ?thesis
    by (auto simp: melt_mint_settle_internally_def split: option.splits if_splits elim!: bindS_OkE dest!: settle)
qed

text \<open>A mint quote of this mint that settles the melt: unpaid, of the same unit, amount, request and method.\<close>

definition settled_by :: "mint_quote list \<Rightarrow> melt_quote \<Rightarrow> bool" where
  "settled_by mqs r \<longleftrightarrow> (\<exists>mq\<in>set mqs. mq_state mq = MQ_unpaid \<and> mq_unit mq = lq_unit r \<and> mq_amount mq = lq_amount r \<and>
     mq_request mq = lq_request r \<and> mq_method mq = lq_method r)"

lemma settle_internally_by:
  assumes "melt_mint_settle_internally E q s = (Inr q', t)" and "lq_state q = LQ_pending" and "lq_state q' = LQ_paid"
  shows "settled_by (mint_quotes (db s)) q"
proof -
  obtain mq where mq: "get_mint_quote None None (Some (lq_request q)) (db s) = Inr (Some mq)"
    and run: "(if mq_unit mq \<noteq> lq_unit q then returnS q else settle_with_mint_quote E q mq) s = (Inr q', t)"
    using assms by (auto simp: melt_mint_settle_internally_def elim!: bindS_OkE split: option.splits)
  have "mq \<in> set (mint_quotes (db s))"
    using mq by (auto simp: get_mint_quote_def find_Some_iff split: if_splits)
  with run assms(2,3) show ?thesis
    by (auto simp: settled_by_def settle_with_mint_quote_def split: if_splits elim!: thenS_OkE bindS_OkE)
qed

section \<open>Paying\<close>

definition same_quote :: "melt_quote \<Rightarrow> melt_quote \<Rightarrow> bool" where
  "same_quote p q \<longleftrightarrow> lq_quote p = lq_quote q \<and> lq_amount p = lq_amount q \<and> lq_fee_reserve p = lq_fee_reserve q"

lemma melt_pay_result:
  assumes "melt_pay E q u m s = (r, t)"
  obtains payment q1 e where "r = Inr (payment, q1)" "same_quote q1 q" "lq_state q1 = lq_state q"
    "t = s \<and> q1 = q \<or> t = s\<lparr>db := (db s)\<lparr>melt_quotes := upd_melt q1 (melt_quotes (db s))\<rparr>\<rparr>"
    "payment = unknown_payment e \<or> bindR (get_backend E m u) (\<lambda>b. pay_invoice b q (lq_fee_reserve q * 1000)) = Inr payment"
proof (cases "bindR (get_backend E m u) (\<lambda>b. pay_invoice b q (lq_fee_reserve q * 1000))")
  case (Inl e)
  with assms that show thesis
    by (auto simp: melt_pay_def catchS_def bindS_def same_quote_def)
next
  case (Inr payment)
  with assms that show thesis
    by (auto simp: melt_pay_def catchS_def bindS_def thenS_def same_quote_def Let_def split: if_splits)
qed

lemma melt_pay_fee: "melt_pay E q u m s = (Inr (payment, q1), t) \<Longrightarrow> lq_fee_paid q1 = lq_fee_paid q"
  by (auto simp: melt_pay_def catchS_def bindS_def thenS_def Let_def split: if_splits sum.splits)

lemma keep_fee_same: "keep_fee fee u r q = Inr q' \<Longrightarrow> same_quote q' q \<and> lq_state q' = lq_state q"
  by (auto simp: keep_fee_def bindR_Inr same_quote_def split: option.splits)

lemma keep_preimage_same [simp]:
  "lq_quote (keep_preimage p q) = lq_quote q" "lq_amount (keep_preimage p q) = lq_amount q"
  "lq_fee_reserve (keep_preimage p q) = lq_fee_reserve q" "lq_state (keep_preimage p q) = lq_state q"
  by (simp_all add: keep_preimage_def)

lemma melt_outcome_Ok:
  assumes "melt_outcome E ps prev u m payment q s = (Inr step, t)" and "lq_state q = LQ_pending"
  shows "(\<exists>q'. step = Melt_continue q' \<and> same_quote q' q \<and> lq_state q' = LQ_paid \<and> t = s \<and> py_result payment = PR_settled) \<or>
    (step = Melt_return (from_melt_quote q) \<and> db t = db s)"
proof (cases "py_result payment = PR_settled")
  case True
  with assms show ?thesis
    by (auto simp: melt_outcome_def melt_set_state_Inr same_quote_def elim!: bindS_OkE dest!: keep_fee_same)
next
  case False
  with assms(1) show ?thesis
    by (auto simp: melt_outcome_def melt_stuck_def melt_failed_def Let_def sm_units thenS_def bindS_def
        split: sum.splits if_splits prod.splits)
qed

text \<open>The fee that a settled payment reports, in the unit of the quote, rounded up; the quote keeps its old
  entry if the backend reports none.\<close>

definition fee_reported :: "payment_response \<Rightarrow> unit_t \<Rightarrow> int \<Rightarrow> int \<Rightarrow> bool" where
  "fee_reported payment u old fee \<longleftrightarrow> (case py_fee payment of None \<Rightarrow> fee = old
     | Some a \<Rightarrow> \<exists>b. amount_to a u round_up = Inr b \<and> fee = a_amount b)"

lemma melt_outcome_fee:
  assumes "melt_outcome E ps prev u m payment q s = (Inr (Melt_continue q'), t)"
  shows "py_result payment = PR_settled \<and> fee_reported payment u (lq_fee_paid q) (lq_fee_paid q')"
proof (cases "py_result payment = PR_settled")
  case True
  with assms obtain q1 where "keep_fee (py_fee payment) u round_up q = Inr q1" "lq_fee_paid q' = lq_fee_paid q1"
    by (auto simp: melt_outcome_def melt_set_state_Inr keep_preimage_def elim!: bindS_OkE)
  with True show ?thesis
    by (auto simp: keep_fee_def fee_reported_def bindR_Inr split: option.splits)
next
  case False
  with assms show ?thesis
    by (auto simp: melt_outcome_def melt_stuck_def melt_failed_def Let_def sm_units thenS_def bindS_def
        split: sum.splits if_splits prod.splits)
qed

text \<open>
  Why a melt is taken to be paid, and with what fee: a mint quote of this mint settled it, for nothing,
  or the backend, called with the pending quote and its fee reserve, answered that the payment is
  settled and reported the fee.
\<close>

definition payment_made :: "env \<Rightarrow> mint_quote list \<Rightarrow> unit_t \<Rightarrow> method_t \<Rightarrow> melt_quote \<Rightarrow> int \<Rightarrow> bool" where
  "payment_made E mqs u m q fee \<longleftrightarrow> (settled_by mqs q \<and> fee = 0) \<or>
     (\<exists>b payment. get_backend E m u = Inr b \<and> pay_invoice b q (lq_fee_reserve q * 1000) = Inr payment \<and>
        py_result payment = PR_settled \<and> fee_reported payment u (lq_fee_paid q) fee)"

section \<open>Finishing\<close>

lemma generate_change_db:
  assumes "generate_change_promises E provided paid outs melt_id s = (Inr sigs, t)"
  shows "proofs_used (db t) = proofs_used (db s) \<and> proofs_pending (db t) = proofs_pending (db s) \<and>
    melt_quotes (db t) = melt_quotes (db s) \<and> mint_quotes (db t) = mint_quotes (db s)"
proof -
  have store: "store_signature E pr s = (Inr x, t) \<Longrightarrow> proofs_used (db t) = proofs_used (db s) \<and>
      proofs_pending (db t) = proofs_pending (db s) \<and> melt_quotes (db t) = melt_quotes (db s) \<and> mint_quotes (db t) = mint_quotes (db s)"
    for pr s x t
    by (auto simp: store_signature_def update_blinded_message_signature_def execute_Ok bump_for_def
        elim!: thenS_OkE bindS_OkE split: if_splits)
  have loop: "mapS (store_signature E) prs s = (Inr x, t) \<Longrightarrow> proofs_used (db t) = proofs_used (db s) \<and>
      proofs_pending (db t) = proofs_pending (db s) \<and> melt_quotes (db t) = melt_quotes (db s) \<and> mint_quotes (db t) = mint_quotes (db s)"
    for prs s x t
    by (induction prs arbitrary: s x) (auto elim!: bindS_OkE dest!: store)
  show ?thesis using assms
    by (auto simp: generate_change_promises_def Let_def sign_blinded_messages_def with_conn_def transaction_Ok
        delete_blinded_messages_melt_id_def whenS_def
        split: if_splits option.splits elim!: thenS_OkE bindS_OkE dest!: loop)
qed

lemma melt_finish_Ok:
  assumes "melt_finish E ps outs provided q s = (Inr resp, t)" and "wf_keysets s"
  shows "proofs_used (db t) = proofs_used (db s) @ used_rows ps (Some (lq_quote q)) \<and>
    proofs_pending (db t) = drop_secrets (p_secret ` set ps) (proofs_pending (db s)) \<and>
    (\<exists>q'. same_quote q' q \<and> lq_state q' = lq_state q \<and> lq_fee_paid q' = lq_fee_paid q \<and>
       melt_quotes (db t) = upd_melt q' (melt_quotes (db s)) \<and> resp = from_melt_quote q') \<and>
    (\<exists>sigs. mr_change resp = Some sigs \<and> sum_promises sigs \<le> max 0 (provided - lq_fee_paid q))"
proof -
  from assms(1) obtain s1 s2 s3 sigs where 1: "invalidate_proofs ps (Some (lq_quote q)) False s = (Inr (), s1)"
    and 2: "unset_proofs_pending ps True False s1 = (Inr (), s2)"
    and 3: "(if outs = [] then returnS [] else thenS (liftS (\<lambda>s. the_keyset s (bm_id (hd outs))))
        (generate_change_promises E provided (lq_fee_paid q) (Some outs) (Some (lq_quote q)))) s2 = (Inr sigs, s3)"
    and 4: "(let q1 = q\<lparr>lq_change := Some sigs\<rparr> in thenS (update_melt_quote q1) (thenS (submit_event (EvMelt q1))
        (returnS (from_melt_quote q1)))) s3 = (Inr resp, t)"
    unfolding melt_finish_def by (auto elim!: thenS_OkE bindS_OkE)
  note i = invalidate_proofs_Ok[OF 1 assms(2)]
  have w1: "wf_keysets s1" "\<forall>p\<in>set ps. keyset_of s1 (p_id p) \<noteq> None" using i assms(2) by auto
  have s2: "s2 = s1\<lparr>db := (db s1)\<lparr>proofs_pending := drop_secrets (p_secret ` set ps) (proofs_pending (db s1)),
       keyset_rows := bump_all (proof_bumps ps) (keyset_rows (db s1))\<rparr>\<rparr>"
    using 2 unset_proofs_pending_spent[OF w1, of False] by simp
  have w2: "wf_keysets s2" using w1 s2 by simp
  have 5: "proofs_used (db s3) = proofs_used (db s2) \<and> proofs_pending (db s3) = proofs_pending (db s2) \<and>
    melt_quotes (db s3) = melt_quotes (db s2)"
    using 3 by (auto split: if_splits elim!: thenS_OkE dest!: generate_change_db)
  have 6: "sum_promises sigs \<le> max 0 (provided - lq_fee_paid q)"
  proof (cases "outs = []")
    case True
    with 3 show ?thesis by (auto simp: sum_promises_def)
  next
    case False
    with 3 obtain s4 where g: "generate_change_promises E provided (lq_fee_paid q) (Some outs) (Some (lq_quote q)) s2 = (Inr sigs, s3)"
      by (auto elim!: thenS_OkE)
    show ?thesis
      using generate_change_Ok[OF g w2] change_le[of "length outs" "provided - lq_fee_paid q"]
      by (auto simp: sum_promises_def)
  qed
  from 4 have 7: "resp = from_melt_quote (q\<lparr>lq_change := Some sigs\<rparr>)"
    "db t = (db s3)\<lparr>melt_quotes := upd_melt (q\<lparr>lq_change := Some sigs\<rparr>) (melt_quotes (db s3))\<rparr>"
    by (auto simp: thenS_def bindS_def Let_def)
  have "mr_change resp = Some sigs" using 7 by (simp add: from_melt_quote_def)
  moreover have "same_quote (q\<lparr>lq_change := Some sigs\<rparr>) q" by (simp add: same_quote_def)
  ultimately show ?thesis using 5 6 7 s2 i(1)
    by (intro conjI exI[of _ "q\<lparr>lq_change := Some sigs\<rparr>"] exI[of _ sigs]) simp_all
qed

section \<open>The run of a melt that returns\<close>

lemma store_melts:
  assumes "whenS b (store_blinded_messages outs x y False) s = (Inr u, t)"
  shows "keysets t = keysets s \<and> proofs_used (db t) = proofs_used (db s) \<and> proofs_pending (db t) = proofs_pending (db s) \<and>
    melt_quotes (db t) = melt_quotes (db s) \<and> mint_quotes (db t) = mint_quotes (db s)"
  using assms by (auto simp: whenS_def split: if_splits dest!: store_blinded_messages_Ok(1))

lemma melt_started:
  assumes "melt E ps qid outputs s = (Inr resp, t)" and "find_melt qid (melt_quotes (db s)) = Some r" and "lq_state r = LQ_unpaid"
  obtains q u m provided where "q = r\<lparr>lq_change := lq_change q\<rparr>" "lq_quote q = qid" "lq_state q = LQ_unpaid"
    "melt_checks E ps qid (given_outputs outputs) q s = Inr (u, m, provided)"
    "melt_run E ps (given_outputs outputs) q (u, m, provided) s = (Inr resp, t)"
proof -
  from assms(1) obtain q s0 um where g: "ledger_get_melt_quote E qid False s = (Inr q, s0)"
    and c: "melt_checks E ps qid (given_outputs outputs) q s0 = Inr um"
    and rest: "melt_run E ps (given_outputs outputs) q um s0 = (Inr resp, t)"
    unfolding melt_def Let_def by (auto elim!: thenS_OkE bindS_OkE)
  have s0: "s0 = s" "q = r\<lparr>lq_change := lq_change q\<rparr>" using get_melt_unpaid[OF g assms(2,3)] by auto
  have "lq_quote q = qid" "lq_state q = LQ_unpaid"
    using s0(2) find_melt_set[OF assms(2)] assms(3) by (cases r; cases q; simp)+
  with that[of q "fst um" "fst (snd um)" "snd (snd um)"] s0 c rest show thesis by simp
qed

lemma melt_run_OkE:
  assumes run: "melt_run E ps outs q (u, m, provided) s = (Inr resp, t)" and wf: "wf_keysets s"
  obtains (settled) q2 s4 where "lq_quote q2 = lq_quote q" "lq_state q2 = LQ_paid" "wf_keysets s4"
      "melt_finish E ps outs provided q2 s4 = (Inr resp, t)"
      "\<forall>p\<in>set ps. p_Y p \<notin> pr_y ` set (proofs_used (db s)) \<and> p_Y p \<notin> pr_y ` set (proofs_pending (db s))"
      "proofs_used (db s4) = proofs_used (db s)"
      "proofs_pending (db s4) = proofs_pending (db s) @ pending_rows ps (Some (lq_quote q))"
      "\<exists>q'. lq_quote q' = lq_quote q \<and> melt_quotes (db s4) = upd_melt q' (melt_quotes (db s))"
      "payment_made E (mint_quotes (db s)) u m (q\<lparr>lq_state := LQ_pending\<rparr>) (lq_fee_paid q2)"
  | (pending) q2 where "resp = from_melt_quote q2" "lq_state q2 = LQ_pending" "lq_quote q2 = lq_quote q"
      "proofs_used (db t) = proofs_used (db s)"
      "proofs_pending (db t) = proofs_pending (db s) @ pending_rows ps (Some (lq_quote q))"
      "melt_quotes (db t) = upd_melt q2 (melt_quotes (db s))"
proof -
  from run obtain s1 q1 s2 s3 q2 s4 step s5 where
    p: "verify_spent_proofs_and_set_pending E ps (Some (lq_quote q)) s = (Inr (), s1)"
    and sp: "set_melt_quote_pending q s1 = (Inr q1, s2)"
    and st: "whenS (outs \<noteq> []) (store_blinded_messages outs None (Some (lq_quote q1)) False) s2 = (Inr (), s3)"
    and si: "melt_mint_settle_internally E q1 s3 = (Inr q2, s4)"
    and pay: "(if lq_state q2 = LQ_paid then returnS (Melt_continue q2)
            else bindS (melt_pay E q2 u m) (\<lambda>(payment, q3). melt_outcome E ps (lq_state q) u m payment q3)) s4 = (Inr step, s5)"
    and fin: "(case step of Melt_return r \<Rightarrow> returnS r | Melt_continue q4 \<Rightarrow> melt_finish E ps outs provided q4) s5 = (Inr resp, t)"
    unfolding melt_run_def prod.case by (elim thenS_OkE bindS_OkE) auto
  note p1 = verify_spent_and_set_pending_Ok[OF p wf] and fresh = set_pending_unspent[OF p wf]
  note sp1 = set_melt_pending_Ok[OF sp] and st1 = store_melts[OF st]
  have q1: "lq_state q1 = LQ_pending" "lq_quote q1 = lq_quote q" using sp1(1) by simp_all
  note si1 = settle_internally_Ok[OF si q1(1)]
  have q2: "lq_quote q2 = lq_quote q" using si1 q1 by simp
  have d4: "proofs_used (db s4) = proofs_used (db s)"
    "proofs_pending (db s4) = proofs_pending (db s) @ pending_rows ps (Some (lq_quote q))"
    using si1 st1 sp1(2) p1(1) by auto
  have m4: "melt_quotes (db s4) = upd_melt q2 (melt_quotes (db s))"
    using si1 st1 sp1(2) p1(1) q1 q2 by auto
  have k4: "wf_keysets s4" using si1 st1 sp1(2) p1(1) wf wf_keysets_cong[of s4 s] by auto
  show thesis
  proof (cases "lq_state q2 = LQ_paid")
    case True
    with pay fin have fin2: "melt_finish E ps outs provided q2 s4 = (Inr resp, t)" by auto
    have "mint_quotes (db s3) = mint_quotes (db s)" using st1 sp1(2) p1(1) by simp
    then have "payment_made E (mint_quotes (db s)) u m q1 (lq_fee_paid q2)"
      using settle_internally_by[OF si q1(1) True] si1 True q1(1) by (auto simp: payment_made_def)
    then show thesis
      using settled[of q2 s4] fin2 True q2 d4 m4 k4 fresh sp1(1) by blast
  next
    case False
    then have same: "q2 = q1" using si1 by auto
    from pay False obtain payment q3 s6 where mp: "melt_pay E q2 u m s4 = (Inr (payment, q3), s6)"
      and mo: "melt_outcome E ps (lq_state q) u m payment q3 s6 = (Inr step, s5)"
      by (auto elim!: bindS_OkE)
    have paid: "payment_made E (mint_quotes (db s)) u m q1 (lq_fee_paid q')" if "step = Melt_continue q'" for q'
    proof -
      have f: "py_result payment = PR_settled" "fee_reported payment u (lq_fee_paid q1) (lq_fee_paid q')"
        using melt_outcome_fee[OF mo[unfolded that]] melt_pay_fee[OF mp] same by simp_all
      then have "bindR (get_backend E m u) (\<lambda>b. pay_invoice b q1 (lq_fee_reserve q1 * 1000)) = Inr payment"
        using melt_pay_result[OF mp] same by (fastforce simp: unknown_payment_def)
      with f show ?thesis unfolding payment_made_def by (auto simp: bindR_Inr)
    qed
    have q3: "same_quote q3 q2" "lq_state q3 = lq_state q2" "s6 = s4 \<and> q3 = q2 \<or> s6 = s4\<lparr>db := (db s4)\<lparr>melt_quotes := upd_melt q3 (melt_quotes (db s4))\<rparr>\<rparr>"
      using melt_pay_result[OF mp] by (fastforce simp: same_quote_def)+
    have q3s: "lq_state q3 = LQ_pending" "lq_quote q3 = lq_quote q"
      using q3 same q1 by (simp_all add: same_quote_def)
    have d6: "proofs_used (db s6) = proofs_used (db s)"
      "proofs_pending (db s6) = proofs_pending (db s) @ pending_rows ps (Some (lq_quote q))"
      "melt_quotes (db s6) = upd_melt q3 (melt_quotes (db s))"
      using q3(3) d4 m4 q3s q2 by auto
    from melt_outcome_Ok[OF mo q3s(1)] show thesis
    proof (elim disjE exE conjE)
      fix q' assume q': "step = Melt_continue q'" "same_quote q' q3" "lq_state q' = LQ_paid" "s5 = s6"
      have "wf_keysets s6" using k4 q3(3) by auto
      with q' fin d6 q3s fresh settled[of q' s6] paid[OF q'(1)] sp1(1) show thesis by (auto simp: same_quote_def)
    next
      assume "step = Melt_return (from_melt_quote q3)" "db s5 = db s6"
      with fin d6 q3s show thesis using pending[of q3] by simp
    qed
  qed
qed

section \<open>The sample mint, with a melt quote\<close>

definition sample_melt_quote :: "melt_quote_state \<Rightarrow> melt_quote" where
  "sample_melt_quote st = \<lparr>lq_quote = ''m1'', lq_method = ''bolt11'', lq_request = ''lnbc4'', lq_checking_id = ''out'',
     lq_unit = ''sat'', lq_amount = 4, lq_fee_reserve = 2, lq_state = st, lq_created_time = Some 1, lq_paid_time = None,
     lq_fee_paid = 0, lq_payment_preimage = None, lq_expiry = None, lq_outputs = None, lq_change = None\<rparr>"

definition melt_start :: "melt_quote_state \<Rightarrow> ledger" where
  "melt_start st = sample_ledger\<lparr>db := empty_db\<lparr>melt_quotes := [sample_melt_quote st]\<rparr>\<rparr>"

definition pending_env :: env where
  "pending_env = sample_env\<lparr>backends := [(bolt11, [(sat, sample_backend\<lparr>pay_invoice := (\<lambda>q limit.
     Inr \<lparr>py_result = PR_pending, py_checking_id = None, py_fee = None, py_preimage = None, py_error_message = None\<rparr>)\<rparr>)])]\<rparr>"

definition failing_env :: env where
  "failing_env = sample_env\<lparr>backends := [(bolt11, [(sat, failing_backend)])]\<rparr>"

definition blanks :: "blinded_message list" where
  "blanks = [sample_output 0 1, sample_output 0 2]"

lemma melt_start_wf: "wf_ledger sample_env (melt_start LQ_unpaid)"
  "find_melt ''m1'' (melt_quotes (db (melt_start LQ_unpaid))) = Some (sample_melt_quote LQ_unpaid)"
  "lq_state (sample_melt_quote LQ_unpaid) = LQ_unpaid"
  by (simp_all add: melt_start_def sample_ledger_def wf_ledger_def wf_keysets_def sample_keyset_def wf_rows_def
      empty_db_def find_melt_def sample_melt_quote_def)

lemma sample_melt_ok: "isOk (fst (melt sample_env swap_in ''m1'' (Some blanks) (melt_start LQ_unpaid)))"
  "mr_paid (projr (fst (melt sample_env swap_in ''m1'' (Some blanks) (melt_start LQ_unpaid)))) = Some True"
  "isOk (fst (melt pending_env swap_in ''m1'' None (melt_start LQ_unpaid)))"
  "mr_paid (projr (fst (melt pending_env swap_in ''m1'' None (melt_start LQ_unpaid)))) = Some False"
  by code_simp+

section \<open>Properties\<close>

text \<open>C7. A melt that is answered as paid has been paid and has spent the inputs. A mint quote of this
  mint settled it, or the backend, called with the quote and its fee reserve, answered that the payment
  is settled; the fee kept with the quote is what it reported, rounded up to the quote's unit (nothing
  for an internal settlement). The inputs are recorded as spent for this quote, none stays pending, the
  quote is paid. The inputs were verified, they cover the amount, the fee reserve and the input fee,
  and the change is at most what the inputs provide beyond amount, input fee and that reported fee.\<close>

theorem melt_paid:
  assumes "melt E ps qid outputs s = (Inr resp, t)" and "mr_paid resp = Some True" and "wf_ledger E s"
    and "\<forall>p\<in>set ps. wf_proof E p" and "find_melt qid (melt_quotes (db s)) = Some r" and "lq_state r = LQ_unpaid"
  shows "proofs_used (db t) = proofs_used (db s) @ used_rows ps (Some qid) \<and> proofs_pending (db t) = proofs_pending (db s) \<and>
    verify_inputs E s ps = Inr () \<and> lq_amount r + lq_fee_reserve r + tx_fee s ps \<le> sum_proofs ps \<and>
    (\<exists>u m c r' sigs. verify_and_get_unit_method E s (lq_unit r) (lq_method r) = Inr (u, m) \<and>
       find_melt qid (melt_quotes (db t)) = Some r' \<and> lq_state r' = LQ_paid \<and>
       payment_made E (mint_quotes (db s)) u m (r\<lparr>lq_change := c, lq_state := LQ_pending\<rparr>) (lq_fee_paid r') \<and>
       mr_change resp = Some sigs \<and>
       sum_promises sigs \<le> max 0 (sum_proofs ps - lq_amount r - tx_fee s ps - lq_fee_paid r'))"
proof -
  have wk: "wf_keysets s" using assms(3) by (simp add: wf_ledger_def)
  obtain q u m provided where q: "q = r\<lparr>lq_change := lq_change q\<rparr>" "lq_quote q = qid"
    and ck: "melt_checks E ps qid (given_outputs outputs) q s = Inr (u, m, provided)"
    and run: "melt_run E ps (given_outputs outputs) q (u, m, provided) s = (Inr resp, t)"
    by (rule melt_started[OF assms(1,5,6)])
  have qa: "lq_amount q = lq_amount r" "lq_fee_reserve q = lq_fee_reserve r" "lq_unit q = lq_unit r" "lq_method q = lq_method r"
    using q(1) by (cases r; cases q; simp)+
  note c = melt_checksD[OF ck]
  from run wk show ?thesis
  proof (cases rule: melt_run_OkE)
    case (settled q2 s4)
    note f = melt_finish_Ok[OF settled(4,3)]
    have drop: "drop_secrets (p_secret ` set ps) (proofs_pending (db s) @ pending_rows ps (Some qid)) = proofs_pending (db s)"
      by (rule drop_fresh) (use assms(3,4) settled(5) in \<open>auto simp: wf_ledger_def\<close>)
    obtain q' where q': "lq_quote q' = qid" "melt_quotes (db s4) = upd_melt q' (melt_quotes (db s))"
      using settled(8) q(2) by auto
    obtain q5 where q5: "same_quote q5 q2" "lq_state q5 = lq_state q2" "lq_fee_paid q5 = lq_fee_paid q2"
      "melt_quotes (db t) = upd_melt q5 (melt_quotes (db s4))"
      using f by blast
    let ?r = "put_melt q5 r"
    have "find_melt qid (melt_quotes (db t)) = Some ?r"
      using q5 q' settled(1) q(2) assms(5) by (simp add: same_quote_def find_melt_upd)
    moreover have row: "lq_state ?r = LQ_paid" "lq_fee_paid ?r = lq_fee_paid q2"
      using q5 settled(1,2) q(2) find_melt_set[OF assms(5)] by (simp_all add: put_melt_def same_quote_def)
    moreover have "payment_made E (mint_quotes (db s)) u m (r\<lparr>lq_change := lq_change q, lq_state := LQ_pending\<rparr>) (lq_fee_paid ?r)"
      using settled(9) row(2) arg_cong[OF q(1), of "\<lambda>x. x\<lparr>lq_state := LQ_pending\<rparr>"] by simp
    moreover obtain sigs where "mr_change resp = Some sigs" "sum_promises sigs \<le> max 0 (provided - lq_fee_paid q2)"
      using f by blast
    ultimately have "verify_and_get_unit_method E s (lq_unit r) (lq_method r) = Inr (u, m) \<and>
       find_melt qid (melt_quotes (db t)) = Some ?r \<and> lq_state ?r = LQ_paid \<and>
       payment_made E (mint_quotes (db s)) u m (r\<lparr>lq_change := lq_change q, lq_state := LQ_pending\<rparr>) (lq_fee_paid ?r) \<and>
       mr_change resp = Some sigs \<and>
       sum_promises sigs \<le> max 0 (sum_proofs ps - lq_amount r - tx_fee s ps - lq_fee_paid ?r)"
      using c(2,6) qa by simp
    then show ?thesis
      using f settled(1,6,7) q(2) drop c(1,2,3) qa by auto
  next
    case (pending q2)
    with assms(2) show ?thesis by (simp add: from_melt_quote_def)
  qed
qed

theorem melt_paid_witness:
  "\<exists>r'. find_melt ''m1'' (melt_quotes (db (snd (melt sample_env swap_in ''m1'' (Some blanks) (melt_start LQ_unpaid))))) = Some r' \<and>
     lq_state r' = LQ_paid \<and> (\<exists>u m c. payment_made sample_env (mint_quotes (db (melt_start LQ_unpaid))) u m
       ((sample_melt_quote LQ_unpaid)\<lparr>lq_change := c, lq_state := LQ_pending\<rparr>) (lq_fee_paid r'))"
  using melt_paid[OF isOk_run[OF sample_melt_ok(1)] sample_melt_ok(2) melt_start_wf(1) sample_wf(2) melt_start_wf(2,3)]
  by blast

text \<open>C8. A melt that is answered as not paid keeps everything locked: nothing is spent, the inputs are
  pending for this quote and the quote is pending.\<close>

theorem melt_pending:
  assumes "melt E ps qid outputs s = (Inr resp, t)" and "mr_paid resp = Some False" and "wf_ledger E s"
    and "find_melt qid (melt_quotes (db s)) = Some r" and "lq_state r = LQ_unpaid"
  shows "proofs_used (db t) = proofs_used (db s) \<and>
    proofs_pending (db t) = proofs_pending (db s) @ pending_rows ps (Some qid) \<and>
    map_option lq_state (find_melt qid (melt_quotes (db t))) = Some LQ_pending \<and> mr_state resp = Some ''PENDING''"
proof -
  have wk: "wf_keysets s" using assms(3) by (simp add: wf_ledger_def)
  obtain q u m provided where q: "lq_quote q = qid"
    and run: "melt_run E ps (given_outputs outputs) q (u, m, provided) s = (Inr resp, t)"
    by (rule melt_started[OF assms(1,4,5)])
  from run wk show ?thesis
  proof (cases rule: melt_run_OkE)
    case (settled q2 s4)
    then have "mr_paid resp = Some True" using melt_finish_Ok[OF settled(4,3)] by (auto simp: from_melt_quote_def)
    with assms(2) show ?thesis by simp
  next
    case (pending q2)
    then show ?thesis
      using q assms(4) upd_melt_state[of q2 qid "melt_quotes (db s)" r] by (simp add: from_melt_quote_def)
  qed
qed

theorem melt_pending_witness:
  "proofs_pending (db (snd (melt pending_env swap_in ''m1'' None (melt_start LQ_unpaid)))) = pending_rows swap_in (Some ''m1'')"
proof -
  have "wf_ledger pending_env (melt_start LQ_unpaid)"
    by (simp add: wf_ledger_def wf_rows_def melt_start_def sample_ledger_def wf_keysets_def sample_keyset_def empty_db_def)
  from melt_pending[OF isOk_run[OF sample_melt_ok(3)] sample_melt_ok(4) this melt_start_wf(2,3)]
  show ?thesis by (simp add: melt_start_def empty_db_def)
qed

text \<open>A proof that is spent or pending is never melted.\<close>

theorem melt_no_double_spend:
  assumes "wf_ledger E s" and "find_melt qid (melt_quotes (db s)) = Some r" and "lq_state r = LQ_unpaid"
    and "p \<in> set ps" and "p_Y p \<in> pr_y ` set (proofs_used (db s) @ proofs_pending (db s))"
  shows "\<nexists>resp t. melt E ps qid outputs s = (Inr resp, t)"
proof
  assume "\<exists>resp t. melt E ps qid outputs s = (Inr resp, t)"
  then obtain resp t where run: "melt E ps qid outputs s = (Inr resp, t)" by blast
  have wk: "wf_keysets s" using assms(1) by (simp add: wf_ledger_def)
  obtain q u m provided where "melt_run E ps (given_outputs outputs) q (u, m, provided) s = (Inr resp, t)"
    by (rule melt_started[OF run assms(2,3)])
  then obtain s1 where p: "verify_spent_proofs_and_set_pending E ps (Some (lq_quote q)) s = (Inr (), s1)"
    unfolding melt_run_def prod.case by (elim thenS_OkE) auto
  from set_pending_unspent[OF p wk assms(4)] assms(5) show False by auto
qed

theorem melt_no_double_spend_witness:
  "\<nexists>resp t. melt sample_env swap_in ''m1'' None
     ((melt_start LQ_unpaid)\<lparr>db := (db (melt_start LQ_unpaid))\<lparr>proofs_used := used_rows swap_in None\<rparr>\<rparr>) = (Inr resp, t)"
  by (rule melt_no_double_spend[where r = "sample_melt_quote LQ_unpaid" and p = "hd swap_in"]) code_simp+

end
