(* ===== verification/MeltFailure.thy ===== *)
theory MeltFailure
  imports Melting
begin

text \<open>
  A melt whose payment fails: the branch of \<^verbatim>\<open>melt\<close> that rolls back, run from the start. The way there
  is shown to be free of exceptions (no step between the verification and the payment can raise when
  the checking id of the quote is not in use), so the rollback is always reached.
\<close>

section \<open>Storing verified outputs succeeds\<close>

lemma store_loop_runs:
  assumes "\<forall>x\<in>set outs. bm_id x = kid \<and> bm_B x \<notin> pm_b ` set (promises (db s))" and "distinct (List.map bm_B outs)"
    and "keyset_of s kid = Some k" and "k_active k" and "k_id k = kid" and "keyset = None \<or> keyset = Some k"
    and "refers mq_quote (mint_quotes (db s)) mint_id" and "refers lq_quote (melt_quotes (db s)) melt_id"
  shows "store_loop mint_id melt_id None keyset outs s =
    (Inr (), s\<lparr>db := (db s)\<lparr>promises := promises (db s) @ List.map (new_row mint_id melt_id) outs\<rparr>\<rparr>)"
  using assms
proof (induction outs arbitrary: s keyset)
  case (Cons x xs)
  let ?s1 = "s\<lparr>db := (db s)\<lparr>promises := promises (db s) @ [new_row mint_id melt_id x]\<rparr>\<rparr>"
  have id: "bm_id x = kid" and B: "bm_B x \<notin> pm_b ` set (promises (db s))" using Cons.prems(1) by simp_all
  have ins: "insert_promise (new_row mint_id melt_id x) (promises (db s)) = Inr (promises (db s) @ [new_row mint_id melt_id x])"
    using B by (simp add: promise_tbl.ins_iff) (simp add: new_row_def)
  have st: "store_blinded_message (bm_amount x) (bm_B x) kid mint_id melt_id None s = (Inr (), ?s1)"
    using ins Cons.prems(7,8) id by (simp add: store_blinded_message_def execute_Ok check_fk_def new_row_def)
  have other: "bm_B y \<noteq> bm_B x" if "y \<in> set xs" for y
    using Cons.prems(2) that by (metis distinct.simps(2) image_eqI list.set_map list.simps(9))
  have "store_loop mint_id melt_id None (Some k) xs ?s1 =
    (Inr (), ?s1\<lparr>db := (db ?s1)\<lparr>promises := promises (db ?s1) @ List.map (new_row mint_id melt_id) xs\<rparr>\<rparr>)"
    using Cons.prems other by (intro Cons.IH) (auto simp: new_row_def)
  then show ?case
    using Cons.prems(3-6) id st
    by (cases keyset) (auto simp: bindS_def thenS_def the_keyset_def guardS_def)
qed simp

lemma store_runs:
  assumes "verify_outputs E s0 outs skip = Inr ()" and "keysets s = keysets s0" and "promises (db s) = promises (db s0)"
    and "wf_keysets s0" and "refers mq_quote (mint_quotes (db s)) mint_id" and "refers lq_quote (melt_quotes (db s)) melt_id"
  shows "store_blinded_messages outs mint_id melt_id conn s =
    (Inr (), s\<lparr>db := (db s)\<lparr>promises := promises (db s) @ List.map (new_row mint_id melt_id) outs\<rparr>\<rparr>)"
proof -
  note v = verify_outputsD[OF assms(1)]
  obtain k where k: "keyset_of s0 (bm_id (hd outs)) = Some k" "k_active k" using v(4) by blast
  have "store_loop mint_id melt_id None None outs s =
    (Inr (), s\<lparr>db := (db s)\<lparr>promises := promises (db s) @ List.map (new_row mint_id melt_id) outs\<rparr>\<rparr>)"
  proof (rule store_loop_runs)
    show "\<forall>x\<in>set outs. bm_id x = bm_id (hd outs) \<and> bm_B x \<notin> pm_b ` set (promises (db s))"
      using v(3,5) unfolding list_all_iff assms(3) by blast
    show "keyset_of s (bm_id (hd outs)) = Some k" using k assms(2) by (simp add: keyset_of_cong[of s s0])
    show "k_id k = bm_id (hd outs)" using k assms(4) by (simp add: wf_keysetsD)
  qed (use v k assms in auto)
  then show ?thesis by (simp add: store_blinded_messages_def with_conn_def transaction_def)
qed

section \<open>Making the quote pending succeeds\<close>

lemma set_melt_pending_runs:
  assumes "lq_checking_id q \<noteq> []" and "q0 \<in> set (melt_quotes (db s))" "lq_checking_id q0 = lq_checking_id q"
    and "\<forall>r\<in>set (melt_quotes (db s)). lq_checking_id r = lq_checking_id q \<longrightarrow> lq_state r = LQ_unpaid"
    and "lq_state q = LQ_unpaid"
  shows "set_melt_quote_pending q s = (Inr (q\<lparr>lq_state := LQ_pending\<rparr>),
    s\<lparr>db := (db s)\<lparr>melt_quotes := upd_melt (q\<lparr>lq_state := LQ_pending\<rparr>) (melt_quotes (db s))\<rparr>,
      events := events s @ [EvMelt (q\<lparr>lq_state := LQ_pending\<rparr>)]\<rparr>)"
proof -
  have "get_melt_quotes_by_checking_id (lq_checking_id q) (db s) \<noteq> []"
    using assms(2,3) by (auto simp: get_melt_quotes_by_checking_id_def filter_empty_conv)
  moreover have "\<not> list_ex paid_or_pending (get_melt_quotes_by_checking_id (lq_checking_id q) (db s))"
    using assms(4) by (auto simp: get_melt_quotes_by_checking_id_def list_ex_iff paid_or_pending_def)
  moreover have "melt_set_state q LQ_pending = Inr (q\<lparr>lq_state := LQ_pending\<rparr>)"
    using assms(5) by (simp add: melt_set_state_Inr)
  ultimately show ?thesis
    using assms(1) by (simp add: set_melt_quote_pending_def transaction_def bindS_def thenS_def guardS_def)
qed

section \<open>The rollback\<close>

definition unsigned_of :: "string \<Rightarrow> promise_row \<Rightarrow> bool" where
  "unsigned_of qid r \<longleftrightarrow> pm_melt_quote r = Some qid \<and> pm_c r = None"

lemma delete_unsigned [simp]:
  "delete_blinded_messages_melt_id qid s =
    (Inr (), s\<lparr>db := (db s)\<lparr>promises := filter (\<lambda>r. \<not> unsigned_of qid r) (promises (db s))\<rparr>\<rparr>)"
  by (simp add: delete_blinded_messages_melt_id_def unsigned_of_def)

lemma signatures_new_rows:
  "promises d' = promises d @ List.map (new_row a b) outs \<Longrightarrow>
   get_blind_signatures_melt_id x d' = get_blind_signatures_melt_id x d"
proof -
  assume p: "promises d' = promises d @ List.map (new_row a b) outs"
  have "filter (\<lambda>r. pm_melt_quote r = Some x \<and> pm_c r \<noteq> None) (promises d') =
        filter (\<lambda>r. pm_melt_quote r = Some x \<and> pm_c r \<noteq> None) (promises d)"
    unfolding p by (auto simp: filter_empty_conv new_row_def)
  then show ?thesis by (simp only: get_blind_signatures_melt_id_def)
qed

lemma unsigned_new_rows [simp]:
  "filter (\<lambda>r. \<not> unsigned_of qid r) (List.map (new_row None (Some qid)) outs) = []"
  by (auto simp: filter_empty_conv new_row_def unsigned_of_def)

lemma get_melt_row_find:
  "qid \<noteq> [] \<Longrightarrow> get_melt_quote_row (Some qid) None None d = (case find_melt qid (melt_quotes d) of None \<Rightarrow> Inr None
     | Some q \<Rightarrow> bindR (get_blind_signatures_melt_id (lq_quote q) d) (\<lambda>change. Inr (Some (q\<lparr>lq_change := Some change\<rparr>))))"
proof -
  assume "qid \<noteq> []"
  then have "List.find (\<lambda>q. criterion (Some qid) (lq_quote q) \<and> criterion None (lq_checking_id q) \<and> criterion None (lq_request q)) (melt_quotes d)
      = find_melt qid (melt_quotes d)"
    by (auto simp: find_melt_def criterion_def truthy_str_def intro!: arg_cong2[where f = List.find])
  with \<open>qid \<noteq> []\<close> show ?thesis by (simp add: get_melt_quote_row_def truthy_str_def)
qed

lemma unset_melt_pending_runs:
  assumes "lq_quote q \<noteq> []" and "find_melt (lq_quote q) (melt_quotes (db s)) = Some r" and "lq_state r = LQ_pending"
    and "isOk (get_blind_signatures_melt_id (lq_quote q) (db s))" and "lq_state q = LQ_pending"
  shows "\<exists>evs. unset_melt_quote_pending q LQ_unpaid s = (Inr (q\<lparr>lq_state := LQ_unpaid, lq_outputs := None\<rparr>),
    s\<lparr>db := (db s)\<lparr>melt_quotes := upd_melt (q\<lparr>lq_state := LQ_unpaid, lq_outputs := None\<rparr>) (melt_quotes (db s))\<rparr>, events := evs\<rparr>)"
proof -
  obtain ch where ch: "get_blind_signatures_melt_id (lq_quote q) (db s) = Inr ch" using assms(4) by (auto simp: isOk_iff)
  have "lq_quote r = lq_quote q" using find_melt_set[OF assms(2)] by simp
  then have "melt_quote_or_fail (lq_quote q) s = (Inr (r\<lparr>lq_change := Some ch\<rparr>), s)"
    using assms(1,2) ch by (simp add: melt_quote_or_fail_def bindS_def get_melt_row_find)
  moreover have "melt_set_state q LQ_unpaid = Inr (q\<lparr>lq_state := LQ_unpaid\<rparr>)"
    using assms(5) by (simp add: melt_set_state_Inr)
  ultimately show ?thesis
    using assms(3) by (intro exI, simp add: unset_melt_quote_pending_def transaction_def bindS_def thenS_def Let_def)
qed

text \<open>A backend whose payments and status checks fail, by answer or by exception of the payment.\<close>

definition payment_fails :: "env \<Rightarrow> unit_t \<Rightarrow> method_t \<Rightarrow> bool" where
  "payment_fails E u m \<longleftrightarrow> (\<exists>b. get_backend E m u = Inr b \<and>
     (\<forall>q l pr. pay_invoice b q l = Inr pr \<longrightarrow> py_result pr = PR_failed \<or> py_result pr = PR_unknown) \<and>
     (\<forall>c. \<exists>st. get_payment_status b c = Inr st \<and> (st_result st = PR_failed \<or> st_result st = PR_unknown)))"

definition rolled_back :: "string \<Rightarrow> mint_db \<Rightarrow> mint_db \<Rightarrow> bool" where
  "rolled_back qid d d' \<longleftrightarrow> proofs_used d' = proofs_used d \<and> proofs_pending d' = proofs_pending d \<and>
     keyset_rows d' = keyset_rows d \<and> mint_quotes d' = mint_quotes d \<and>
     promises d' = filter (\<lambda>r. \<not> unsigned_of qid r) (promises d) \<and>
     (\<exists>q. lq_quote q = qid \<and> lq_state q = LQ_unpaid \<and> melt_quotes d' = upd_melt q (melt_quotes d))"

lemma get_mint_quote_cong:
  "mint_quotes d = mint_quotes d' \<Longrightarrow> get_mint_quote a b c d = get_mint_quote a b c d'"
  by (simp add: get_mint_quote_def)

lemma melt_run_fails:
  assumes run: "melt_run E ps outs q (u, m, provided) s = (r, t)" and wf: "wf_ledger E s"
    and ps: "\<forall>p\<in>set ps. wf_proof E p" and outs: "outs = [] \<or> verify_outputs E s outs True = Inr ()"
    and fails: "payment_fails E u m"
    and q: "q = r0\<lparr>lq_change := lq_change q\<rparr>" "find_melt (lq_quote q) (melt_quotes (db s)) = Some r0" "lq_state q = LQ_unpaid"
      "lq_quote q \<noteq> []" "isOk (get_blind_signatures_melt_id (lq_quote q) (db s))"
    and ext: "get_mint_quote None None (Some (lq_request q)) (db s) = Inr None"
    and chk: "lq_checking_id q \<noteq> []"
      "\<forall>r\<in>set (melt_quotes (db s)). lq_checking_id r = lq_checking_id q \<longrightarrow> lq_state r = LQ_unpaid"
  shows "\<exists>e. r = Inl e \<and> (db t = db s \<or> rolled_back (lq_quote q) (db s) (db t))"
proof -
  have wk: "wf_keysets s" using wf by (simp add: wf_ledger_def)
  have r0: "r0 \<in> set (melt_quotes (db s))" "lq_quote r0 = lq_quote q" "lq_checking_id r0 = lq_checking_id q"
    using find_melt_set[OF q(2)] q(1) by (auto, metis melt_quote.select_convs(4) melt_quote.surjective melt_quote.update_convs(15))
  obtain r1 s1 where p: "verify_spent_proofs_and_set_pending E ps (Some (lq_quote q)) s = (r1, s1)" by force
  show ?thesis
  proof (cases r1)
    case (Inl e)
    with run p have "r = Inl e" "t = s1" by (simp_all add: melt_run_def thenS_def bindS_def)
    moreover have "db s1 = db s" using p Inl by (auto dest: verify_spent_and_set_pending_Err)
    ultimately show ?thesis by simp
  next
    case (Inr v)
    note p1 = verify_spent_and_set_pending_Ok[OF p[unfolded Inr] wk] and fresh = set_pending_unspent[OF p[unfolded Inr] wk]
    let ?q1 = "q\<lparr>lq_state := LQ_pending\<rparr>"
    obtain evs where sp: "set_melt_quote_pending q s1 = (Inr ?q1, s1\<lparr>db := (db s1)\<lparr>melt_quotes := upd_melt ?q1 (melt_quotes (db s))\<rparr>, events := evs\<rparr>)"
      using set_melt_pending_runs[of q r0 s1] chk r0 q(3) p1(1) by auto
    let ?s2 = "s1\<lparr>db := (db s1)\<lparr>melt_quotes := upd_melt ?q1 (melt_quotes (db s))\<rparr>, events := evs\<rparr>"
    have fk: "refers lq_quote (melt_quotes (db ?s2)) (Some (lq_quote q))"
      using imageI[OF r0(1), of lq_quote] r0(2) by (simp add: refers_def)
    let ?s3 = "?s2\<lparr>db := (db ?s2)\<lparr>promises := promises (db s) @ List.map (new_row None (Some (lq_quote q))) outs\<rparr>\<rparr>"
    have st: "whenS (outs \<noteq> []) (store_blinded_messages outs None (Some (lq_quote q)) False) ?s2 = (Inr (), ?s3)"
    proof (cases "outs = []")
      case True
      then show ?thesis using p1(1) by (simp add: whenS_def ledger_db_id)
    next
      case False
      then show ?thesis using store_runs[of E s outs True ?s2 None "Some (lq_quote q)" False] outs fk p1(1) wk
        by (simp add: whenS_def refers_def)
    qed
    have si: "melt_mint_settle_internally E ?q1 ?s3 = (Inr ?q1, ?s3)"
    proof -
      have "get_mint_quote None None (Some (lq_request q)) (db ?s3) = Inr None"
        using ext p1(1) get_mint_quote_cong[of "db ?s3" "db s"] by simp
      then show ?thesis by (simp add: melt_mint_settle_internally_def bindS_def)
    qed
    have rest: "(bindS (bindS (melt_pay E ?q1 u m) (\<lambda>(payment, q3). melt_outcome E ps (lq_state q) u m payment q3)) (\<lambda>step.
       case step of Melt_return r \<Rightarrow> returnS r | Melt_continue q4 \<Rightarrow> melt_finish E ps outs provided q4)) ?s3 = (r, t)"
      using run p Inr sp st si by (simp add: melt_run_def thenS_def bindS_def)
    obtain rp s4 where mp: "melt_pay E ?q1 u m ?s3 = (rp, s4)" by force
    then obtain payment q3 e where rp: "rp = Inr (payment, q3)" "same_quote q3 ?q1" "lq_state q3 = LQ_pending"
      and s4: "s4 = ?s3 \<and> q3 = ?q1 \<or> s4 = ?s3\<lparr>db := (db ?s3)\<lparr>melt_quotes := upd_melt q3 (melt_quotes (db ?s3))\<rparr>\<rparr>"
      and pay: "payment = unknown_payment e \<or> bindR (get_backend E m u) (\<lambda>b. pay_invoice b ?q1 (lq_fee_reserve ?q1 * 1000)) = Inr payment"
      by (rule melt_pay_result) (use q(3) in auto)
    obtain b where b: "get_backend E m u = Inr b"
      "\<And>q l pr. pay_invoice b q l = Inr pr \<Longrightarrow> py_result pr = PR_failed \<or> py_result pr = PR_unknown"
      "\<And>c. \<exists>st. get_payment_status b c = Inr st \<and> (st_result st = PR_failed \<or> st_result st = PR_unknown)"
      using fails unfolding payment_fails_def by blast
    have failed: "py_result payment = PR_failed \<or> py_result payment = PR_unknown"
      using pay b(1,2) by (auto simp: unknown_payment_def)
    have outcome: "melt_outcome E ps LQ_unpaid u m payment q3 s4 = melt_failed ps q3 LQ_unpaid (py_error_message payment) s4"
    proof -
      obtain stt where "get_payment_status b (if truthy_str (py_checking_id payment) then the (py_checking_id payment) else lq_checking_id q3) = Inr stt"
        "st_result stt = PR_failed \<or> st_result stt = PR_unknown" using b(3) by blast
      with failed b(1) show ?thesis by (simp add: melt_outcome_def Let_def)
    qed
    have q3: "lq_quote q3 = lq_quote q" using rp(2) by (simp add: same_quote_def)
    have m4: "melt_quotes (db s4) = upd_melt q3 (melt_quotes (db s))" using s4 q3 by auto
    have d4: "keysets s4 = keysets s" "proofs_used (db s4) = proofs_used (db s)" "mint_quotes (db s4) = mint_quotes (db s)"
      "proofs_pending (db s4) = proofs_pending (db s) @ pending_rows ps (Some (lq_quote q))"
      "keyset_rows (db s4) = bump_all (neg_all (proof_bumps ps)) (keyset_rows (db s))"
      "promises (db s4) = promises (db s) @ List.map (new_row None (Some (lq_quote q))) outs"
      using s4 p1(1) by auto
    have w4: "wf_keysets s4" "\<forall>p\<in>set ps. keyset_of s4 (p_id p) \<noteq> None"
      using d4(1) wk p1(2) by (simp_all add: wf_keysets_cong[of s4 s] keyset_of_cong[of s4 s])
    note un = unset_proofs_pending_spent[OF w4, of False]
    let ?s5 = "s4\<lparr>db := (db s4)\<lparr>proofs_pending := drop_secrets (p_secret ` set ps) (proofs_pending (db s4)),
       keyset_rows := bump_all (proof_bumps ps) (keyset_rows (db s4))\<rparr>\<rparr>"
    have "isOk (get_blind_signatures_melt_id (lq_quote q3) (db ?s5))"
      using q(5) d4(6) q3 signatures_new_rows[of "db ?s5" "db s"] by simp
    moreover have "find_melt (lq_quote q3) (melt_quotes (db ?s5)) = Some (put_melt q3 r0)"
      using m4 q3 q(2) by (simp add: find_melt_upd)
    moreover have "lq_state (put_melt q3 r0) = LQ_pending" using r0 q3 rp(3) by (simp add: put_melt_def)
    ultimately obtain evs' where um: "unset_melt_quote_pending q3 LQ_unpaid ?s5 = (Inr (q3\<lparr>lq_state := LQ_unpaid, lq_outputs := None\<rparr>),
      ?s5\<lparr>db := (db ?s5)\<lparr>melt_quotes := upd_melt (q3\<lparr>lq_state := LQ_unpaid, lq_outputs := None\<rparr>) (melt_quotes (db ?s5))\<rparr>, events := evs'\<rparr>)"
      using unset_melt_pending_runs[of q3 ?s5 "put_melt q3 r0"] q(4) q3 rp(3) by auto
    have drop: "drop_secrets (p_secret ` set ps) (proofs_pending (db s4)) = proofs_pending (db s)"
      unfolding d4(4) by (rule drop_fresh) (use wf ps fresh in \<open>auto simp: wf_ledger_def\<close>)
    have "r = Inl (LightningPaymentFailedError (Some (failed_detail (py_error_message payment)))) \<and>
      db t = (db s4)\<lparr>proofs_pending := proofs_pending (db s), keyset_rows := keyset_rows (db s),
        melt_quotes := upd_melt (q3\<lparr>lq_state := LQ_unpaid, lq_outputs := None\<rparr>) (melt_quotes (db s)),
        promises := filter (\<lambda>r. \<not> unsigned_of (lq_quote q) r) (promises (db s))\<rparr>"
      using rest mp rp(1) outcome q(3) un um drop d4 m4 q3
      by (auto simp: bindS_def melt_failed_def thenS_def)
    then show ?thesis
      using d4 q3 by (auto simp: rolled_back_def intro!: exI[of _ "q3\<lparr>lq_state := LQ_unpaid, lq_outputs := None\<rparr>"])
  qed
qed

lemma get_melt_unpaid_state:
  assumes "find_melt qid (melt_quotes (db s)) = Some r" and "lq_state r = LQ_unpaid"
  shows "snd (ledger_get_melt_quote E qid rb s) = s"
proof (cases "fst (ledger_get_melt_quote E qid rb s)")
  case (Inr q)
  then have "ledger_get_melt_quote E qid rb s = (Inr q, snd (ledger_get_melt_quote E qid rb s))" by (simp add: prod_eq_iff)
  from get_melt_unpaid[OF this assms] show ?thesis by blast
next
  case (Inl e)
  have "lq_state q \<noteq> LQ_pending" if "get_melt_quote_row (Some qid) None None (db s) = Inr (Some q)" for q
  proof -
    have "q = r\<lparr>lq_change := lq_change q\<rparr>" using get_melt_row[OF that] assms(1) by simp
    then have "lq_state q = lq_state r" by (cases q; cases r) simp
    with assms(2) show ?thesis by simp
  qed
  then show ?thesis
    by (auto simp: ledger_get_melt_quote_def bindS_def split: sum.splits prod.splits option.splits)
qed

lemma melt_started_cases:
  assumes "melt E ps qid outputs s = (r, t)" and "find_melt qid (melt_quotes (db s)) = Some r0" and "lq_state r0 = LQ_unpaid"
  obtains (early) e where "r = Inl e" "t = s"
  | (run) q u m provided where "q = r0\<lparr>lq_change := lq_change q\<rparr>" "lq_quote q = qid" "lq_state q = LQ_unpaid"
    "melt_checks E ps qid (given_outputs outputs) q s = Inr (u, m, provided)"
    "melt_run E ps (given_outputs outputs) q (u, m, provided) s = (r, t)"
proof (cases "fst (ledger_get_melt_quote E qid False s)")
  case (Inl e)
  have s: "snd (ledger_get_melt_quote E qid False s) = s"
    by (rule get_melt_unpaid_state[OF assms(2,3)])
  with Inl have "ledger_get_melt_quote E qid False s = (Inl e, s)" by (simp add: prod_eq_iff)
  with assms(1) show thesis by (auto simp: melt_def Let_def bindS_def thenS_def guardS_def split: if_splits intro: early)
next
  case (Inr q)
  then have "ledger_get_melt_quote E qid False s = (Inr q, s)"
    using get_melt_unpaid_state[OF assms(2,3)] by (simp add: prod_eq_iff)
  note g = this and q = conjunct2[OF get_melt_unpaid[OF this assms(2,3)]]
  have qs: "lq_quote q = qid" "lq_state q = LQ_unpaid"
    using q find_melt_set[OF assms(2)] assms(3) by (cases r0; cases q; simp)+
  show thesis
  proof (cases "melt_checks E ps qid (given_outputs outputs) q s")
    case (Inl e)
    with assms(1) g show thesis by (auto simp: melt_def Let_def bindS_def thenS_def guardS_def split: if_splits intro: early)
  next
    case (Inr v)
    obtain u m provided where v: "v = (u, m, provided)" by (cases v)
    with assms(1) g Inr have "(\<exists>e. r = Inl e \<and> t = s) \<or> melt_run E ps (given_outputs outputs) q (u, m, provided) s = (r, t)"
      using qs(2) by (auto simp: melt_def Let_def bindS_def thenS_def guardS_def split: if_splits)
    with early run[OF q qs] Inr v show thesis by blast
  qed
qed



end
