(* ===== verification/History.thy ===== *)
theory History
  imports Melting
begin

text \<open>
  The mint over time. \<open>ledger_step\<close> is one request of the API or one round of a background task, run to
  its end, whether it returns or raises; the clock, the drawn identifiers and the answers of the
  Lightning backend may differ from step to step, the curve is fixed. The locale \<open>ledger_invariant\<close>
  collects what the statements and transactions of the database have to keep for a predicate to be
  kept by every request; \<open>table_invariant\<close> is the special case that does not look into quotes. The
  instances: the history of spent proofs is append-only, keys stay unique and rows well-formed, an
  issued quote stays issued.
\<close>

section \<open>Steps\<close>

inductive ledger_step :: "curve \<Rightarrow> ledger \<Rightarrow> ledger \<Rightarrow> bool" for C where
  request_mint_quote: "crv E = C \<Longrightarrow> request_mint_quote E req s = (r, t) \<Longrightarrow> ledger_step C s t"
| get_mint_quote: "crv E = C \<Longrightarrow> ledger_get_mint_quote E qid s = (r, t) \<Longrightarrow> ledger_step C s t"
| invoice_paid: "crv E = C \<Longrightarrow> invoice_callback_dispatcher E chk s = (r, t) \<Longrightarrow> ledger_step C s t"
| mint: "crv E = C \<Longrightarrow> mint E outs qid sig s = (r, t) \<Longrightarrow> ledger_step C s t"
| request_melt_quote: "crv E = C \<Longrightarrow> request_melt_quote E mreq s = (r, t) \<Longrightarrow> ledger_step C s t"
| get_melt_quote: "crv E = C \<Longrightarrow> ledger_get_melt_quote E qid rb s = (r, t) \<Longrightarrow> ledger_step C s t"
| melt: "crv E = C \<Longrightarrow> \<forall>p\<in>set ps. wf_proof E p \<Longrightarrow> melt E ps qid outputs s = (r, t) \<Longrightarrow> ledger_step C s t"
| swap: "crv E = C \<Longrightarrow> \<forall>p\<in>set ps. wf_proof E p \<Longrightarrow> swap E ps outs s = (r, t) \<Longrightarrow> ledger_step C s t"
| restore: "restore outs s = (r, t) \<Longrightarrow> ledger_step C s t"
| check_pending: "crv E = C \<Longrightarrow> check_pending_proofs_and_melt_quotes E s = (r, t) \<Longrightarrow> ledger_step C s t"
| watchdog: "backend_checker_round E u status s = (r, t) \<Longrightarrow> ledger_step C s t"

abbreviation ledger_steps :: "curve \<Rightarrow> ledger \<Rightarrow> ledger \<Rightarrow> bool" where
  "ledger_steps C \<equiv> (ledger_step C)\<^sup>*\<^sup>*"

definition ok_proof :: "curve \<Rightarrow> token_proof \<Rightarrow> bool" where
  "ok_proof C p \<longleftrightarrow> bindR (hash_to_curve C (encode_utf8 (p_secret p))) (\<lambda>y. Inr (pk_hex C y)) = Inr (p_Y p)"

lemma wf_proof_ok: "wf_proof E p \<longleftrightarrow> ok_proof (crv E) p"
  by (simp add: wf_proof_def ok_proof_def Y_of_def)

lemma keeps_lift_bind: "(\<And>s x. I s \<Longrightarrow> g s = Inr x \<Longrightarrow> keeps I (f x)) \<Longrightarrow> keeps I (bindS (liftS g) f)"
  by (auto simp: keeps_def bindS_def split: sum.splits)

lemma row_to_proof_ok: "row_to_proof E r = Inr p \<Longrightarrow> ok_proof (crv E) p"
  using init_proof_wf wf_proof_ok unfolding row_to_proof_def by blast

lemma rows_to_proofs_ok: "mapR (row_to_proof E) rows = Inr ps \<Longrightarrow> p \<in> set ps \<Longrightarrow> ok_proof (crv E) p"
  by (auto simp: mapR_Inr list_all2_conv_all_nth in_set_conv_nth intro: row_to_proof_ok)

section \<open>What every request keeps\<close>

text \<open>What the statements on promises, proofs and balances keep.\<close>

locale storage_invariant =
  fixes C :: curve and I :: "ledger \<Rightarrow> bool"
  assumes rollback: "I s \<Longrightarrow> I t \<Longrightarrow> I (t\<lparr>db := db s\<rparr>)"
    and new_events: "I s \<Longrightarrow> I (s\<lparr>events := ev\<rparr>)"
    and flag: "I s \<Longrightarrow> I (s\<lparr>disable_melt := b\<rparr>)"
    and store_message: "keeps I (store_blinded_message a B k m l w)"
    and delete_messages: "keeps I (delete_blinded_messages_melt_id q)"
    and sign_message: "keeps I (update_blinded_message_signature a B c e sc)"
    and use: "ok_proof C p \<Longrightarrow> keeps I (invalidate_proof p mq)"
    and make_pending: "ok_proof C p \<Longrightarrow> keeps I (set_proof_pending p mq)"
    and release: "keeps I (unset_proof_pending p)"
    and balance: "keeps I (bump_keyset_balance k a)"
    and fees: "keeps I (bump_keyset_fees_paid k a)"
    and log: "keeps I (store_balance_log E am1 am2 am3)"
begin

lemma tx: "keeps I m \<Longrightarrow> keeps I (transaction m)"
  by (fastforce simp: keeps_def transaction_def intro: rollback split: prod.splits sum.splits)

lemma event: "keeps I (submit_event ev)"
  by (auto simp: keeps_def intro: new_events)

lemma stop: "keeps I (modifyS (\<lambda>s. s\<lparr>disable_melt := b\<rparr>))"
  by (auto simp: keeps_def intro: flag)

lemma conn: "keeps I m \<Longrightarrow> keeps I (with_conn c m)"
  by (auto simp: with_conn_def intro: tx)

lemmas rules = store_message delete_messages sign_message use make_pending release balance fees log tx event stop conn
  keeps_returnS keeps_raiseS keeps_getS keeps_liftS keeps_guardS keeps_get_db keeps_lift_bind keeps_bindS
  keeps_thenS keeps_whenS keeps_catchS keeps_finallyS keeps_forS keeps_mapS keeps_if keeps_option keeps_prod
  keeps_sum keeps_melt_step

lemma bump_for: "keeps I (bump_for k a)"
  unfolding bump_for_def by (intro rules)

lemma bump_fees_for: "keeps I (bump_fees_for k a)"
  unfolding bump_fees_for_def by (intro rules)

lemma proof_state: "keeps I (submit_proof_state Y st w)"
  unfolding submit_proof_state_def by (intro rules)

lemma invalidate:
  assumes "\<And>p. p \<in> set ps \<Longrightarrow> ok_proof C p"
  shows "keeps I (invalidate_proofs ps qid c)"
  unfolding invalidate_proofs_def invalidate_one_def book_group_fees_def
  by (intro rules bump_for bump_fees_for proof_state assms)

lemma set_pending:
  assumes "\<And>p. p \<in> set ps \<Longrightarrow> ok_proof C p"
  shows "keeps I (verify_spent_proofs_and_set_pending E ps qid)"
  unfolding verify_spent_proofs_and_set_pending_def by (intro rules bump_for proof_state assms)

lemma unset_pending: "keeps I (unset_proofs_pending ps sp c)"
  unfolding unset_proofs_pending_def by (intro rules bump_for proof_state)

lemma store_loop: "keeps I (store_loop a b c k outs)"
  by (induction outs arbitrary: k) (auto intro!: rules)

lemma store: "keeps I (store_blinded_messages outs a b c)"
  unfolding store_blinded_messages_def by (intro rules store_loop)

lemma sign: "keeps I (sign_blinded_messages E outs c)"
  unfolding sign_blinded_messages_def store_signature_def by (intro rules bump_for)

lemma change: "keeps I (generate_change_promises E a b outs l)"
  unfolding generate_change_promises_def Let_def by (intro rules sign)

lemmas parts = bump_for bump_fees_for proof_state invalidate set_pending unset_pending store sign change

end

text \<open>What the transactions on mint quotes and the storing of quotes keep.\<close>

locale quote_invariant = storage_invariant +
  assumes new_mint_quote: "keeps I (store_mint_quote nq)"
    and mark_paid: "keeps I (mark_mint_quote_paid E q)"
    and callback: "keeps I (invoice_callback_dispatcher E c)"
    and mint_pending: "keeps I (set_mint_quote_pending q)"
    and mint_unset: "keeps I (unset_mint_quote_pending q st)"
    and new_melt_quote: "keeps I (store_melt_quote lq)"
begin

lemmas quote_steps = rules new_mint_quote mark_paid callback mint_pending mint_unset new_melt_quote

lemma mint_quote: "keeps I (request_mint_quote E r)"
  unfolding request_mint_quote_def Let_def by (intro quote_steps)

lemma get_mint: "keeps I (ledger_get_mint_quote E q)"
  unfolding ledger_get_mint_quote_def by (intro quote_steps)

lemma minting: "keeps I (mint E outs q sig)"
  unfolding mint_def mint_body_def by (intro quote_steps parts get_mint)

lemma melt_quote: "keeps I (request_melt_quote E r)"
  unfolding request_melt_quote_def store_melt_quote_checked_def Let_def by (intro quote_steps)

lemma swapping:
  assumes "\<And>p. p \<in> set ps \<Longrightarrow> ok_proof C p"
  shows "keeps I (swap E ps outs)"
  unfolding swap_def swap_body_def by (intro quote_steps parts assms)

lemma restoring: "keeps I (restore outs)"
  unfolding restore_def by (intro quote_steps)

lemma watching: "keeps I (backend_checker_round E u status)"
  unfolding backend_checker_round_def by (intro quote_steps)

end

text \<open>What every request keeps: with the two requests on melt quotes.\<close>

locale request_invariant = quote_invariant +
  assumes get_melt: "crv E = C \<Longrightarrow> keeps I (ledger_get_melt_quote E q rb)"
    and melting: "crv E = C \<Longrightarrow> (\<And>p. p \<in> set ps \<Longrightarrow> ok_proof C p) \<Longrightarrow> keeps I (melt E ps q outs)"
begin

lemma check_pending_kept: "crv E = C \<Longrightarrow> keeps I (check_pending_proofs_and_melt_quotes E)"
  unfolding check_pending_proofs_and_melt_quotes_def by (intro quote_steps get_melt)

theorem step:
  assumes "ledger_step C s t" and I: "I s"
  shows "I t"
  using assms(1)
proof cases
  case (request_mint_quote E req r)
  show ?thesis by (rule keepsD2[OF mint_quote I request_mint_quote(2)])
next
  case (get_mint_quote E qid r)
  show ?thesis by (rule keepsD2[OF get_mint I get_mint_quote(2)])
next
  case (invoice_paid E chk r)
  show ?thesis by (rule keepsD2[OF callback I invoice_paid(2)])
next
  case (mint E outs qid sig r)
  show ?thesis by (rule keepsD2[OF minting I mint(2)])
next
  case (request_melt_quote E mreq r)
  show ?thesis by (rule keepsD2[OF melt_quote I request_melt_quote(2)])
next
  case (get_melt_quote E qid rb r)
  show ?thesis by (rule keepsD2[OF get_melt[OF get_melt_quote(1)] I get_melt_quote(2)])
next
  case (melt E ps qid outputs r)
  have "ok_proof C p" if "p \<in> set ps" for p using melt(1,2) that wf_proof_ok by metis
  from keepsD2[OF melting[OF melt(1) this] I melt(3)] show ?thesis .
next
  case (swap E ps outs r)
  have "ok_proof C p" if "p \<in> set ps" for p using swap(1,2) that wf_proof_ok by metis
  from keepsD2[OF swapping[OF this] I swap(3)] show ?thesis .
next
  case (restore outs r)
  show ?thesis by (rule keepsD2[OF restoring I restore(1)])
next
  case (check_pending E r)
  show ?thesis by (rule keepsD2[OF check_pending_kept[OF check_pending(1)] I check_pending(2)])
next
  case (watchdog E u status r)
  show ?thesis by (rule keepsD2[OF watching I watchdog(1)])
qed

theorem steps: "ledger_steps C s t \<Longrightarrow> I s \<Longrightarrow> I t"
  by (induction rule: rtranclp_induct) (auto intro: step)

end

text \<open>When the statements on melt quotes keep the predicate whatever they write, the two requests do.\<close>

locale ledger_invariant = quote_invariant +
  assumes settle: "keeps I (melt_mint_settle_internally E lq)"
    and melt_update: "keeps I (update_melt_quote lq)"
begin

lemmas melt_steps = quote_steps settle melt_update

lemma settle_pending:
  assumes "crv E = C"
  shows "keeps I (settle_pending_melt E q u st)"
  unfolding settle_pending_melt_def Let_def get_pending_proofs_for_quote_def
  by (intro melt_steps parts) (use assms rows_to_proofs_ok[of E] in auto)

lemma roll_back: "keeps I (rollback_pending_melt E q)"
  unfolding rollback_pending_melt_def Let_def by (intro melt_steps parts)

lemma get_melt_kept: "crv E = C \<Longrightarrow> keeps I (ledger_get_melt_quote E q rb)"
  unfolding ledger_get_melt_quote_def by (intro melt_steps settle_pending roll_back)

lemma melt_kept:
  assumes "crv E = C" and "\<And>p. p \<in> set ps \<Longrightarrow> ok_proof C p"
  shows "keeps I (melt E ps q outs)"
  unfolding melt_def melt_run_def set_melt_quote_pending_def melt_pay_def melt_outcome_def melt_failed_def
    unset_melt_quote_pending_def melt_quote_or_fail_def melt_stuck_def melt_finish_def Let_def split_def
  by (intro melt_steps parts get_melt_kept assms)

end

sublocale ledger_invariant \<subseteq> request_invariant
  by unfold_locales (rule get_melt_kept melt_kept; blast)+

section \<open>Invariants of the tables\<close>

lemma upd: "(\<And>d. J d \<Longrightarrow> J (f d)) \<Longrightarrow> keeps (\<lambda>s. J (db s)) (update_db f)"
  by (auto simp: keeps_def)

lemma exe: "(\<And>d d'. J d \<Longrightarrow> f d = Inr d' \<Longrightarrow> J d') \<Longrightarrow> keeps (\<lambda>s. J (db s)) (execute f)"
  by (auto simp: keeps_def execute_def split: sum.splits)

lemma trans_db: "keeps (\<lambda>s. J (db s)) m \<Longrightarrow> keeps (\<lambda>s. J (db s)) (transaction m)"
  by (fastforce simp: keeps_def transaction_def split: prod.splits sum.splits)

lemma submit_db: "keeps (\<lambda>s. J (db s)) (submit_event ev)"
  by (auto simp: keeps_def)

text \<open>A predicate on the database that every statement keeps, whatever the quotes say.\<close>

locale table_invariant =
  fixes C :: curve and J :: "mint_db \<Rightarrow> bool"
  assumes promise_in: "J d \<Longrightarrow> insert_promise pm (promises d) = Inr prs \<Longrightarrow> J (d\<lparr>promises := prs\<rparr>)"
    and promise_out: "J d \<Longrightarrow> J (d\<lparr>promises := filter P (promises d)\<rparr>)"
    and promise_signed: "J d \<Longrightarrow> J (d\<lparr>promises := List.map (sign_row a B c e sc) (promises d)\<rparr>)"
    and used_in: "J d \<Longrightarrow> ok_proof C p \<Longrightarrow> insert_used (proof_to_row p qid) (proofs_used d) = Inr us \<Longrightarrow> J (d\<lparr>proofs_used := us\<rparr>)"
    and pending_in: "J d \<Longrightarrow> ok_proof C p \<Longrightarrow> insert_pending (proof_to_row p qid) (proofs_pending d) = Inr us \<Longrightarrow>
      J (d\<lparr>proofs_pending := us\<rparr>)"
    and pending_out: "J d \<Longrightarrow> J (d\<lparr>proofs_pending := filter R (proofs_pending d)\<rparr>)"
    and keyset_upd: "J d \<Longrightarrow> List.map k_id krs = List.map k_id (keyset_rows d) \<Longrightarrow> J (d\<lparr>keyset_rows := krs\<rparr>)"
    and log_upd: "J d \<Longrightarrow> J (d\<lparr>balance_log := bl\<rparr>)"
    and mint_quote_in: "J d \<Longrightarrow> insert_mint_quote mq (mint_quotes d) = Inr mqs \<Longrightarrow> J (d\<lparr>mint_quotes := mqs\<rparr>)"
    and mint_quote_upd: "J d \<Longrightarrow> List.map mq_quote mqs = List.map mq_quote (mint_quotes d) \<Longrightarrow> J (d\<lparr>mint_quotes := mqs\<rparr>)"
    and melt_quote_in: "J d \<Longrightarrow> insert_melt_quote lq (melt_quotes d) = Inr lqs \<Longrightarrow> J (d\<lparr>melt_quotes := lqs\<rparr>)"
    and melt_quote_upd: "J d \<Longrightarrow> List.map lq_quote lqs = List.map lq_quote (melt_quotes d) \<Longrightarrow> J (d\<lparr>melt_quotes := lqs\<rparr>)"
begin

abbreviation on_db :: "ledger \<Rightarrow> bool" where "on_db s \<equiv> J (db s)"

lemma mint_update: "keeps on_db (update_mint_quote q)"
  unfolding update_mint_quote_def by (rule upd, rule mint_quote_upd) auto

lemma melt_updated: "keeps on_db (update_melt_quote q)"
  unfolding update_melt_quote_def by (rule upd, rule melt_quote_upd) auto

lemmas quote_rules = mint_update melt_updated trans_db submit_db keeps_returnS keeps_raiseS keeps_liftS keeps_guardS
  keeps_bindS keeps_thenS keeps_if keeps_option

end

sublocale table_invariant \<subseteq> ledger_invariant C "\<lambda>s. J (db s)"
proof unfold_locales
  show "keeps on_db (store_blinded_message a B k m l w)" for a B k m l w
    unfolding store_blinded_message_def by (rule exe) (auto simp: bindR_Inr check_fk_def intro: promise_in)
  show "keeps on_db (delete_blinded_messages_melt_id q)" for q
    unfolding delete_blinded_messages_melt_id_def by (rule upd, rule promise_out)
  show "keeps on_db (update_blinded_message_signature a B c e sc)" for a B c e sc
    unfolding update_blinded_message_signature_def by (rule exe) (auto intro: promise_signed split: if_splits)
  show "keeps on_db (invalidate_proof p mq)" if "ok_proof C p" for p mq
    unfolding invalidate_proof_def by (rule exe) (auto simp: bindR_Inr check_fk_def intro: used_in that)
  show "keeps on_db (set_proof_pending p mq)" if "ok_proof C p" for p mq
    unfolding set_proof_pending_def by (rule exe) (auto simp: bindR_Inr check_fk_def intro: pending_in that)
  show "keeps on_db (unset_proof_pending p)" for p
    unfolding unset_proof_pending_def by (rule upd, rule pending_out)
  show "keeps on_db (bump_keyset_balance k a)" for k a
    unfolding bump_keyset_balance_def by (rule upd, rule keyset_upd) auto
  show "keeps on_db (bump_keyset_fees_paid k a)" for k a
    unfolding bump_keyset_fees_paid_def by (rule upd, rule keyset_upd) auto
  show "keeps on_db (store_balance_log E x y z)" for E x y z
    unfolding store_balance_log_def by (intro quote_rules upd log_upd)
  show "keeps on_db (store_mint_quote q)" for q
    unfolding store_mint_quote_def by (rule exe) (auto simp: bindR_Inr intro: mint_quote_in)
  show "keeps on_db (store_melt_quote q)" for q
    unfolding store_melt_quote_def by (rule exe) (auto simp: bindR_Inr intro: melt_quote_in)
  show "keeps on_db (mark_mint_quote_paid E q)" for E q
    unfolding mark_mint_quote_paid_def Let_def by (intro quote_rules)
  show "keeps on_db (invoice_callback_dispatcher E q)" for E q
    unfolding invoice_callback_dispatcher_def Let_def by (intro quote_rules)
  show "keeps on_db (set_mint_quote_pending q)" for q
    unfolding set_mint_quote_pending_def mint_quote_or_fail_def by (intro quote_rules)
  show "keeps on_db (unset_mint_quote_pending q st)" for q st
    unfolding unset_mint_quote_pending_def mint_quote_or_fail_def by (intro quote_rules)
  show "keeps on_db (melt_mint_settle_internally E q)" for E q
    unfolding melt_mint_settle_internally_def settle_with_mint_quote_def Let_def by (intro quote_rules)
  show "keeps on_db (update_melt_quote q)" for q
    by (rule melt_updated)
qed auto

text \<open>What is spent stays spent: the table of spent proofs only grows.\<close>

definition spent_since :: "proof_row list \<Rightarrow> mint_db \<Rightarrow> bool" where
  "spent_since rows d \<longleftrightarrow> (\<exists>new. proofs_used d = rows @ new)"

interpretation spent: table_invariant C "spent_since rows" for C rows
  by unfold_locales (auto simp: spent_since_def used_tbl.ins_iff)

text \<open>Keys are unique, and the point of a row is that of its secret.\<close>

definition row_ok :: "curve \<Rightarrow> proof_row \<Rightarrow> bool" where
  "row_ok C r \<longleftrightarrow> bindR (hash_to_curve C (encode_utf8 (pr_secret r))) (\<lambda>y. Inr (pk_hex C y)) = Inr (pr_y r)"

definition wf_tables :: "curve \<Rightarrow> mint_db \<Rightarrow> bool" where
  "wf_tables C d \<longleftrightarrow> distinct (List.map pr_y (proofs_used d)) \<and> list_all (row_ok C) (proofs_used d) \<and>
     distinct (List.map pr_y (proofs_pending d)) \<and> list_all (row_ok C) (proofs_pending d) \<and>
     distinct (List.map pm_b (promises d)) \<and> distinct (List.map mq_quote (mint_quotes d)) \<and>
     distinct (List.map lq_quote (melt_quotes d)) \<and> distinct (List.map k_id (keyset_rows d))"

lemma proof_to_row_ok: "ok_proof C p \<Longrightarrow> row_ok C (proof_to_row p q)"
  by (simp add: ok_proof_def row_ok_def proof_to_row_def)

lemma sign_row_b [simp]: "pm_b (sign_row a B c e sc r) = pm_b r"
  by (simp add: sign_row_def)

interpretation tables: table_invariant C "wf_tables C" for C
  by unfold_locales (auto simp: wf_tables_def promise_tbl.ins_iff used_tbl.ins_iff pending_tbl.ins_iff mint_quote_tbl.ins_iff
      melt_quote_tbl.ins_iff distinct_map_filter list_all_iff comp_def intro: proof_to_row_ok)

interpretation same_keysets: ledger_invariant C "has_keysets K" for C K
  by unfold_locales
    (auto simp: store_blinded_message_def delete_blinded_messages_melt_id_def update_blinded_message_signature_def
      invalidate_proof_def set_proof_pending_def unset_proof_pending_def bump_keyset_balance_def bump_keyset_fees_paid_def
      store_balance_log_def store_mint_quote_def mark_mint_quote_paid_def update_mint_quote_def invoice_callback_dispatcher_def
      set_mint_quote_pending_def mint_quote_or_fail_def unset_mint_quote_pending_def melt_mint_settle_internally_def
      settle_with_mint_quote_def update_melt_quote_def store_melt_quote_def Let_def intro!: keeps_intros)

lemma tables_wf_ledger: "wf_tables (crv E) (db s) \<Longrightarrow> wf_keysets s \<Longrightarrow> wf_ledger E s"
  by (auto simp: wf_tables_def wf_ledger_def wf_rows_def Y_of_def row_ok_def list_all_iff)

text \<open>A quote that is issued stays issued.\<close>

definition issued_quote :: "string \<Rightarrow> mint_db \<Rightarrow> bool" where
  "issued_quote qid d \<longleftrightarrow> qid \<in> mq_quote ` set (mint_quotes d) \<and>
     (\<forall>q\<in>set (mint_quotes d). mq_quote q = qid \<longrightarrow> mq_state q = MQ_issued)"

lemma updated_ids:
  "mq_quote ` set (List.map (\<lambda>r. if mq_quote r = k then r\<lparr>mq_state := st, mq_paid_time := pt\<rparr> else r) rows) = mq_quote ` set rows"
  unfolding set_map image_image by (rule image_cong) simp_all

lemma found_mint_quote: "get_mint_quote a b c d = Inr (Some q) \<Longrightarrow> q \<in> set (mint_quotes d)"
  by (auto simp: get_mint_quote_def find_Some_iff split: if_splits)

lemma mint_set_state_same: "mint_set_state q st = Inr q' \<Longrightarrow> mq_quote q' = mq_quote q"
  by (auto simp: mint_set_state_def bindR_Inr split: if_splits)

lemma issued_other: "mq_quote q \<noteq> qid \<Longrightarrow> keeps (\<lambda>s. issued_quote qid (db s)) (update_mint_quote q)"
proof -
  assume other: "mq_quote q \<noteq> qid"
  show ?thesis
    unfolding update_mint_quote_def
  proof (rule upd)
    fix d assume I: "issued_quote qid d"
    let ?f = "\<lambda>r. if mq_quote r = mq_quote q then r\<lparr>mq_state := mq_state q, mq_paid_time := norm_time (mq_paid_time q)\<rparr> else r"
    have "mq_quote ` set (List.map ?f (mint_quotes d)) = mq_quote ` set (mint_quotes d)" by (rule updated_ids)
    moreover have "mq_state r = MQ_issued" if "r \<in> set (List.map ?f (mint_quotes d))" "mq_quote r = qid" for r
      using that I other by (auto simp: issued_quote_def split: if_splits)
    ultimately show "issued_quote qid (d\<lparr>mint_quotes := List.map ?f (mint_quotes d)\<rparr>)"
      using I by (simp add: issued_quote_def del: set_map)
  qed
qed

lemma issued_update:
  assumes "issued_quote qid (db s)" and "q \<in> set (mint_quotes (db s))" "mq_state q \<noteq> MQ_issued" "mq_quote q' = mq_quote q"
    and "update_mint_quote q' s = (r, t)"
  shows "issued_quote qid (db t)"
proof -
  have "mq_quote q' \<noteq> qid" using assms(1-4) by (auto simp: issued_quote_def)
  from keepsD2[OF issued_other[OF this] assms(1,5)] show ?thesis .
qed

lemma issued_write:
  assumes "update_mint_quote q'' s = (r, t)" and "mint_set_state q st = Inr q'" and "get_mint_quote a b c (db s) = Inr (Some q)"
    and "mq_state q \<noteq> MQ_issued" and "mq_quote q'' = mq_quote q'" and "issued_quote qid (db s)"
  shows "issued_quote qid (db t)"
  using issued_update[OF assms(6) found_mint_quote[OF assms(3)] assms(4) _ assms(1)] assms(5) mint_set_state_same[OF assms(2)] by simp

lemma keeps_guard_then: "(b \<Longrightarrow> keeps I k) \<Longrightarrow> keeps I (thenS (guardS b e) k)"
  by (auto simp: keeps_def thenS_def bindS_def guardS_def)

lemma settle_issued:
  assumes "mq_quote mq = qid \<Longrightarrow> mq_state mq = MQ_issued"
  shows "keeps (\<lambda>s. issued_quote qid (db s)) (settle_with_mint_quote E q mq)"
proof -
  have m: "keeps (\<lambda>s. issued_quote qid (db s)) (update_melt_quote q')" for q'
    unfolding update_melt_quote_def by (rule upd) (simp add: issued_quote_def)
  show ?thesis
    unfolding settle_with_mint_quote_def Let_def
    by (intro keeps_guard_then keeps_lift_bind trans_db submit_db keeps_thenS keeps_returnS m issued_other)
      (use assms mint_set_state_same in auto)
qed

interpretation issued: ledger_invariant C "\<lambda>s. issued_quote qid (db s)" for C qid
proof unfold_locales
  show "keeps (\<lambda>s. issued_quote qid (db s)) (mark_mint_quote_paid E q)" for E q
    unfolding mark_mint_quote_paid_def Let_def
    by (rule trans_db) (auto simp: keeps_def bindS_def thenS_def submit_event_def split: sum.splits prod.splits;
        erule (2) issued_write; simp)
  show "keeps (\<lambda>s. issued_quote qid (db s)) (invoice_callback_dispatcher E q)" for E q
    unfolding invoice_callback_dispatcher_def Let_def
    by (rule keeps_bindS, rule trans_db)
      (auto simp: keeps_def bindS_def thenS_def submit_event_def split: sum.splits prod.splits option.splits;
        erule (2) issued_write; simp)+
  show "keeps (\<lambda>s. issued_quote qid (db s)) (set_mint_quote_pending q)" for q
    unfolding set_mint_quote_pending_def mint_quote_or_fail_def
    by (rule trans_db) (auto simp: keeps_def bindS_def thenS_def guardS_def split: sum.splits prod.splits;
        erule (2) issued_write; simp)
  show "keeps (\<lambda>s. issued_quote qid (db s)) (unset_mint_quote_pending q st)" for q st
    unfolding unset_mint_quote_pending_def mint_quote_or_fail_def
    by (rule keeps_bindS, rule trans_db)
      (auto simp: keeps_def bindS_def thenS_def guardS_def submit_event_def split: sum.splits prod.splits option.splits;
        erule (2) issued_write; simp)+
  show "keeps (\<lambda>s. issued_quote qid (db s)) (melt_mint_settle_internally E q)" for E q
  proof (rule keepsI)
    fix s :: ledger assume I: "issued_quote qid (db s)"
    have "keeps (\<lambda>s. issued_quote qid (db s)) (settle_with_mint_quote E q mq)"
      if "get_mint_quote None None (Some (lq_request q)) (db s) = Inr (Some mq)" for mq
      using settle_issued[of mq qid] found_mint_quote[OF that] I by (auto simp: issued_quote_def)
    then show "issued_quote qid (db (snd (melt_mint_settle_internally E q s)))"
      using I by (auto simp: melt_mint_settle_internally_def bindS_def dest: keepsD split: sum.splits option.splits)
  qed
qed (unfold store_blinded_message_def delete_blinded_messages_melt_id_def update_blinded_message_signature_def
      invalidate_proof_def set_proof_pending_def unset_proof_pending_def bump_keyset_balance_def bump_keyset_fees_paid_def
      store_balance_log_def store_mint_quote_def update_melt_quote_def store_melt_quote_def,
    auto intro!: upd exe keeps_thenS keeps_guardS simp: bindR_Inr issued_quote_def check_fk_def mint_quote_tbl.ins_iff split: if_splits)

end
