(* ===== verification/Timeline.thy ===== *)
theory Timeline
  imports History
begin

text \<open>
  Melt quotes over time (a paid quote stays paid) and the properties that hold along every run of the
  mint: what was spent can never be spent again, what was issued can never be issued again, what was
  paid can never be paid again.
\<close>

section \<open>Paid melt quotes\<close>

text \<open>
  A melt quote that is paid stays paid. The statement that writes a melt quote does not check what the
  row was; the requests do, before they come to it.
\<close>

definition paid_melt :: "string \<Rightarrow> mint_db \<Rightarrow> bool" where
  "paid_melt qid d \<longleftrightarrow> qid \<in> lq_quote ` set (melt_quotes d) \<and>
     (\<forall>q\<in>set (melt_quotes d). lq_quote q = qid \<longrightarrow> lq_state q = LQ_paid)"

lemma keeps_bind_val:
  assumes "keeps I m" and "\<And>s x t. I s \<Longrightarrow> m s = (Inr x, t) \<Longrightarrow> keeps I (f x)"
  shows "keeps I (bindS m f)"
proof (rule keepsI)
  fix s assume I: "I s"
  obtain r t where m: "m s = (r, t)" by force
  have "I t" by (rule keepsD2[OF assms(1) I m])
  then show "I (snd (bindS m f s))"
    using m assms(2)[OF I] by (cases r) (auto simp: bindS_def dest: keepsD)
qed

lemma paid_other:
  assumes "lq_quote q \<noteq> qid"
  shows "keeps (\<lambda>s. paid_melt qid (db s)) (update_melt_quote q)"
proof (rule keepsI)
  fix s :: ledger assume I: "paid_melt qid (db s)"
  have ids: "lq_quote ` set (upd_melt q rows) = lq_quote ` set rows" for rows
    using upd_melt_ids[of q rows] by (metis list.set_map)
  have "lq_state r = LQ_paid" if "r \<in> set (upd_melt q (melt_quotes (db s)))" "lq_quote r = qid" for r
    using that I assms by (auto simp: paid_melt_def upd_melt_def put_melt_def split: if_splits)
  with I ids show "paid_melt qid (db (snd (update_melt_quote q s)))" by (simp add: paid_melt_def)
qed

interpretation paid: quote_invariant C "\<lambda>s. paid_melt qid (db s)" for C qid
proof unfold_locales
  fix lq
  have "keeps (\<lambda>s. paid_melt qid (db s)) (execute (\<lambda>d. bindR (insert_melt_quote (melt_quote_row lq) (melt_quotes d))
      (\<lambda>t. Inr (d\<lparr>melt_quotes := t\<rparr>))))"
    by (rule exe) (auto simp: bindR_Inr melt_quote_tbl.ins_iff paid_melt_def)
  then show "keeps (\<lambda>s. paid_melt qid (db s)) (store_melt_quote lq)" by (simp add: store_melt_quote_def)
qed (unfold store_blinded_message_def delete_blinded_messages_melt_id_def update_blinded_message_signature_def
      invalidate_proof_def set_proof_pending_def unset_proof_pending_def bump_keyset_balance_def bump_keyset_fees_paid_def
      store_balance_log_def store_mint_quote_def mark_mint_quote_paid_def update_mint_quote_def invoice_callback_dispatcher_def
      set_mint_quote_pending_def mint_quote_or_fail_def unset_mint_quote_pending_def Let_def,
    auto intro!: upd exe trans_db submit_db keeps_intros simp: bindR_Inr paid_melt_def check_fk_def split: if_splits)

lemma settle_pending_quote: "settle_pending_melt E q u st s = (Inr q', t) \<Longrightarrow> lq_quote q' = lq_quote q"
  by (auto simp: settle_pending_melt_def Let_def melt_set_state_Inr sm_units
      elim!: bindS_OkE thenS_OkE dest!: keep_fee_same simp: same_quote_def split: if_splits)

lemmas paid_rules = keeps_lift_bind keeps_bind_val keeps_returnS keeps_raiseS keeps_getS keeps_liftS keeps_guardS keeps_get_db
  keeps_thenS keeps_whenS keeps_catchS keeps_finallyS keeps_if keeps_option keeps_prod keeps_melt_step
  paid.delete_messages paid.tx paid.event paid.stop paid.unset_pending paid.store paid.change paid_other

lemma settle_pending_paid:
  assumes "crv E = C" and "lq_quote q \<noteq> qid"
  shows "keeps (\<lambda>s. paid_melt qid (db s)) (settle_pending_melt E q u st)"
  unfolding settle_pending_melt_def Let_def get_pending_proofs_for_quote_def
  apply (intro paid_rules paid.invalidate[where C = C])
  subgoal using assms(1) rows_to_proofs_ok[of E] by blast
  subgoal using assms(2)
    by (auto simp: melt_set_state_Inr same_quote_def dest!: keep_fee_same split: if_splits elim!: bindS_OkE thenS_OkE)
  done

lemma rollback_paid:
  assumes "lq_quote q \<noteq> qid"
  shows "keeps (\<lambda>s. paid_melt qid (db s)) (rollback_pending_melt E q)"
  unfolding rollback_pending_melt_def
  by (intro paid_rules) (use assms in \<open>auto simp: melt_set_state_Inr\<close>)

lemma paid_row:
  assumes "paid_melt qid d" and "get_melt_quote_row (Some k) None None d = Inr (Some q)" and "lq_quote q = qid"
  shows "lq_state q = LQ_paid"
proof -
  obtain r where r: "find_melt k (melt_quotes d) = Some r" "q = r\<lparr>lq_change := lq_change q\<rparr>" using get_melt_row[OF assms(2)] by blast
  have "lq_quote q = lq_quote r" "lq_state q = lq_state r" using r(2) by (cases q; cases r; simp)+
  with assms r(1) show ?thesis by (auto simp: paid_melt_def dest!: find_melt_set)
qed

lemma get_melt_paid:
  assumes "crv E = C"
  shows "keeps (\<lambda>s. paid_melt qid (db s)) (ledger_get_melt_quote E k rb)"
  unfolding ledger_get_melt_quote_def
  apply (intro paid_rules settle_pending_paid[OF assms] rollback_paid)
  subgoal using paid_row by fastforce
  subgoal using paid_row by (fastforce split: if_splits dest: settle_pending_quote)
  done

lemma get_melt_origin:
  assumes "ledger_get_melt_quote E k rb s = (Inr q, t)"
  obtains q0 where "get_melt_quote_row (Some k) None None (db s) = Inr (Some q0)"
    "q = q0 \<or> lq_state q0 = LQ_pending" "lq_quote q = lq_quote q0" "lq_quote q = k"
proof -
  have rb: "rollback_pending_melt E a s = (Inr b, t) \<Longrightarrow> lq_quote b = lq_quote a" for a b s t
    by (auto simp: rollback_pending_melt_def melt_set_state_Inr sm_units elim!: bindS_OkE thenS_OkE)
  from assms obtain q0 where g: "get_melt_quote_row (Some k) None None (db s) = Inr (Some q0)"
    and c: "q = q0 \<or> lq_state q0 = LQ_pending \<and> lq_quote q = lq_quote q0"
    by (auto simp: ledger_get_melt_quote_def elim!: bindS_OkE split: if_splits dest!: rb settle_pending_quote)
  obtain r where r: "find_melt k (melt_quotes (db s)) = Some r" "q0 = r\<lparr>lq_change := lq_change q0\<rparr>" using get_melt_row[OF g] by blast
  then have "lq_quote q0 = k" by (cases q0; cases r) (auto dest!: find_melt_set)
  with that[OF g] c show thesis by auto
qed

lemma get_melt_paid_val:
  assumes "paid_melt qid (db s)" and "ledger_get_melt_quote E k rb s = (Inr q, t)" and "lq_quote q = qid"
  shows "lq_state q = LQ_paid"
  using get_melt_origin[OF assms(2)] paid_row[OF assms(1)] assms(3) by (metis melt_quote_state.distinct(5))

lemma settle_internally_paid:
  assumes "lq_quote q \<noteq> qid"
  shows "keeps (\<lambda>s. paid_melt qid (db s)) (melt_mint_settle_internally E q)"
proof -
  have u: "keeps (\<lambda>s. paid_melt qid (db s)) (update_mint_quote q')" for q'
    unfolding update_mint_quote_def by (rule upd) (simp add: paid_melt_def)
  show ?thesis
    unfolding melt_mint_settle_internally_def settle_with_mint_quote_def Let_def
    by (intro paid_rules u) (use assms in \<open>auto simp: melt_set_state_Inr\<close>)
qed

lemma melt_step_paid:
  assumes "lq_quote q \<noteq> qid"
  shows "keeps (\<lambda>s. paid_melt qid (db s)) (set_melt_quote_pending q)"
    and "keeps (\<lambda>s. paid_melt qid (db s)) (melt_pay E q u m)"
    and "keeps (\<lambda>s. paid_melt qid (db s)) (melt_outcome E ps st u m payment q)"
    and "(\<And>p. p \<in> set ps \<Longrightarrow> ok_proof C p) \<Longrightarrow> keeps (\<lambda>s. paid_melt qid (db s)) (melt_finish E ps outs provided q)"
  subgoal unfolding set_melt_quote_pending_def
    by (intro paid_rules) (use assms in \<open>auto simp: melt_set_state_Inr\<close>)
  subgoal unfolding melt_pay_def Let_def
    by (intro paid_rules) (use assms in auto)
  subgoal unfolding melt_outcome_def melt_failed_def melt_stuck_def unset_melt_quote_pending_def melt_quote_or_fail_def Let_def
    by (intro paid_rules keeps_sum) (use assms in \<open>auto simp: melt_set_state_Inr\<close>)
  subgoal unfolding melt_finish_def Let_def
    by (intro paid_rules paid.invalidate[where C = C]) (use assms in auto)
  done

lemma melt_pay_quote: "melt_pay E q u m s = (Inr (payment, q'), t) \<Longrightarrow> lq_quote q' = lq_quote q \<and> lq_state q' = lq_state q"
  by (erule melt_pay_result) (auto simp: same_quote_def)

lemma pay_step_quote:
  assumes "(if lq_state q = LQ_paid then returnS (Melt_continue q)
      else bindS (melt_pay E q u m) (\<lambda>(payment, q3). melt_outcome E ps (lq_state q0) u m payment q3)) s = (Inr (Melt_continue q'), t)"
    and "lq_state q = LQ_paid \<or> lq_state q = LQ_pending"
  shows "lq_quote q' = lq_quote q"
proof (cases "lq_state q = LQ_paid")
  case False
  with assms obtain payment q3 s1 where "melt_pay E q u m s = (Inr (payment, q3), s1)"
    "melt_outcome E ps (lq_state q0) u m payment q3 s1 = (Inr (Melt_continue q'), t)"
    by (auto elim!: bindS_OkE)
  with False assms(2) show ?thesis by (auto dest!: melt_pay_quote melt_outcome_Ok simp: same_quote_def)
qed (use assms in auto)

lemma melt_run_paid:
  assumes "\<And>p. p \<in> set ps \<Longrightarrow> ok_proof C p" and "lq_quote q \<noteq> qid"
  shows "keeps (\<lambda>s. paid_melt qid (db s)) (melt_run E ps outs q umf)"
proof -
  obtain u m provided where umf: "umf = (u, m, provided)" by (cases umf)
  have finish: "keeps (\<lambda>s. paid_melt qid (db s)) (case st of Melt_return r \<Rightarrow> returnS r | Melt_continue q4 \<Rightarrow> melt_finish E ps outs provided q4)"
    if "\<And>q4. st = Melt_continue q4 \<Longrightarrow> lq_quote q4 \<noteq> qid" for st
    using that by (cases st) (auto intro: melt_step_paid(4)[where C = C] assms(1) keeps_returnS)
  let ?pay = "\<lambda>q2. if lq_state q2 = LQ_paid then returnS (Melt_continue q2)
      else bindS (melt_pay E q2 u m) (\<lambda>(payment, q3). melt_outcome E ps (lq_state q) u m payment q3)"
  have pay: "keeps (\<lambda>s. paid_melt qid (db s)) (bindS (?pay q2) (\<lambda>st.
      case st of Melt_return r \<Rightarrow> returnS r | Melt_continue q4 \<Rightarrow> melt_finish E ps outs provided q4))"
    if q2: "lq_quote q2 \<noteq> qid" "lq_state q2 = LQ_paid \<or> lq_state q2 = LQ_pending" for q2
  proof (rule keeps_bind_val)
    show "keeps (\<lambda>s. paid_melt qid (db s)) (?pay q2)"
      by (intro keeps_if keeps_returnS keeps_bind_val keeps_prod melt_step_paid) (use q2 melt_pay_quote in auto)
    show "keeps (\<lambda>s. paid_melt qid (db s)) (case st of Melt_return r \<Rightarrow> returnS r | Melt_continue q4 \<Rightarrow> melt_finish E ps outs provided q4)"
      if "?pay q2 s = (Inr st, t)" for s st t
    proof (rule finish)
      fix q4 assume "st = Melt_continue q4"
      with that have "lq_quote q4 = lq_quote q2" using pay_step_quote[of q2 E u m ps q s q4 t] q2(2) by simp
      with q2(1) show "lq_quote q4 \<noteq> qid" by simp
    qed
  qed
  show ?thesis
    unfolding melt_run_def umf prod.case
    by (intro keeps_thenS keeps_bind_val paid.set_pending[where C = C] paid_rules melt_step_paid(1) settle_internally_paid pay assms)
      (use assms(2) in \<open>auto dest!: set_melt_pending_Ok(1) settle_internally_Ok\<close>)
qed

lemma melt_paid_kept:
  assumes "crv E = C" and "\<And>p. p \<in> set ps \<Longrightarrow> ok_proof C p"
  shows "keeps (\<lambda>s. paid_melt qid (db s)) (melt E ps k outputs)"
  unfolding melt_def Let_def
  by (intro keeps_bind_val keeps_guard_then keeps_getS keeps_thenS keeps_guardS keeps_liftS get_melt_paid[where C = C]
      melt_run_paid[where C = C] assms)
    ((assumption | intro notI, drule (2) get_melt_paid_val[rotated], simp)+)

interpretation paid_requests: request_invariant C "\<lambda>s. paid_melt qid (db s)" for C qid
  by unfold_locales (rule get_melt_paid melt_paid_kept; blast)+

section \<open>Properties\<close>

text \<open>The states of the witnesses: the sample mint after a swap.\<close>

definition after_swap :: ledger where
  "after_swap = snd (swap sample_env swap_in swap_out sample_ledger)"

lemma swap_is_step: "ledger_steps z5_curve s (snd (swap sample_env swap_in swap_out s))"
proof -
  have "ledger_step z5_curve s (snd (swap sample_env swap_in swap_out s))"
    by (rule ledger_step.swap[where E = sample_env]) (use sample_wf(2) in \<open>simp_all add: sample_env_def prod_eq_iff\<close>)
  then show ?thesis by simp
qed

lemma sample_tables: "wf_tables z5_curve (db sample_ledger)" "wf_keysets sample_ledger"
  by (simp_all add: wf_tables_def sample_ledger_def empty_db_def wf_keysets_def sample_keyset_def)

lemma steps_wf:
  assumes "ledger_steps C s t" and "wf_tables C (db s)" and "wf_keysets s"
  shows "wf_tables C (db t) \<and> wf_keysets t"
proof
  show "wf_tables C (db t)" using tables.steps[OF assms(1,2)] .
  have "keysets t = keysets s" by (rule same_keysets.steps[OF assms(1)]) simp
  with assms(3) show "wf_keysets t" by (simp add: wf_keysets_cong[of t s])
qed

lemma steps_wf_ledger:
  "ledger_steps (crv E) s t \<Longrightarrow> wf_tables (crv E) (db s) \<Longrightarrow> wf_keysets s \<Longrightarrow> wf_ledger E t"
  using steps_wf tables_wf_ledger by blast

lemma melt_refused_spent:
  assumes "wf_tables (crv E) (db s)" and "wf_keysets s" and "p \<in> set ps" and "p_Y p \<in> pr_y ` set (proofs_used (db s))"
  shows "melt E ps qid outputs s \<noteq> (Inr resp, t)"
proof
  assume "melt E ps qid outputs s = (Inr resp, t)"
  then obtain q s0 umf where g: "ledger_get_melt_quote E qid False s = (Inr q, s0)"
    and run: "melt_run E ps (given_outputs outputs) q umf s0 = (Inr resp, t)"
    unfolding melt_def Let_def by (auto elim!: thenS_OkE bindS_OkE)
  have "ledger_step (crv E) s s0" by (rule ledger_step.get_melt_quote[OF refl g])
  then have st: "ledger_steps (crv E) s s0" by simp
  from run obtain s1 where p: "verify_spent_proofs_and_set_pending E ps (Some (lq_quote q)) s0 = (Inr (), s1)"
    unfolding melt_run_def by (cases umf) (auto elim!: thenS_OkE)
  have "spent_since (proofs_used (db s)) (db s0)" by (rule spent.steps[OF st]) (simp add: spent_since_def)
  with assms(4) have "p_Y p \<in> pr_y ` set (proofs_used (db s0))" by (auto simp: spent_since_def)
  with set_pending_unspent[OF p _ assms(3)] steps_wf[OF st assms(1,2)] show False by auto
qed

text \<open>C11. What is spent is spent for ever: rows of the table of spent proofs are never changed or
  removed, and in every later state every request that offers such a proof again, to swap it or to
  melt it, fails.\<close>

theorem spent_for_ever:
  assumes "ledger_steps (crv E) s t" and "wf_tables (crv E) (db s)" and "wf_keysets s"
    and "\<forall>p\<in>set ps. wf_proof E p" and "p \<in> set ps" and "p_Y p \<in> pr_y ` set (proofs_used (db s))"
  shows "(\<exists>new. proofs_used (db t) = proofs_used (db s) @ new) \<and>
    (\<nexists>sigs u. swap E ps outs t = (Inr sigs, u)) \<and>
    (\<nexists>resp u. melt E ps qid outputs t = (Inr resp, u))"
proof -
  have wf: "wf_ledger E t" by (rule steps_wf_ledger[OF assms(1-3)])
  have "spent_since (proofs_used (db s)) (db t)"
    by (rule spent.steps[OF assms(1)]) (simp add: spent_since_def)
  then have new: "\<exists>new. proofs_used (db t) = proofs_used (db s) @ new" by (simp add: spent_since_def)
  with assms(6) have y: "p_Y p \<in> pr_y ` set (proofs_used (db t))" by auto
  then have "p_Y p \<in> pr_y ` set (proofs_used (db t) @ proofs_pending (db t))" by auto
  from swap_refused[OF wf assms(4,5) this, where outs = outs] have "\<nexists>sigs u. swap E ps outs t = (Inr sigs, u)" by auto
  with new melt_refused_spent[OF _ _ assms(5) y] steps_wf[OF assms(1-3)] show ?thesis by blast
qed

theorem spent_for_ever_witness:
  "\<nexists>sigs u. swap sample_env swap_in swap_out (snd (swap sample_env swap_in swap_out after_swap)) = (Inr sigs, u)"
proof -
  have c: "crv sample_env = z5_curve" by (simp add: sample_env_def)
  have wf: "wf_tables z5_curve (db after_swap)" "wf_keysets after_swap"
    using steps_wf[OF swap_is_step sample_tables] by (simp_all add: after_swap_def)
  have p: "hd swap_in \<in> set swap_in" "p_Y (hd swap_in) \<in> pr_y ` set (proofs_used (db after_swap))"
    by code_simp+
  from spent_for_ever[of sample_env after_swap _ swap_in "hd swap_in" swap_out, unfolded c, OF swap_is_step wf sample_wf(2) p]
  show ?thesis by blast
qed

text \<open>C12. What is issued is issued for ever: once a mint quote is issued it is so in every later state,
  and every request to mint against it fails and writes nothing.\<close>

theorem issued_for_ever:
  assumes "ledger_steps C s t" and "issued_quote qid (db s)"
  shows "issued_quote qid (db t) \<and> (\<exists>e u. mint E outs qid sig t = (Inl e, u) \<and> db u = db t)"
proof -
  have i: "issued_quote qid (db t)" by (rule issued.steps[OF assms])
  then obtain q where "find_quote qid (mint_quotes (db t)) = Some q"
    by (cases "find_quote qid (mint_quotes (db t))") (auto simp: issued_quote_def find_quote_def find_None_iff image_iff)
  moreover from this i have "mq_state q = MQ_issued" by (auto simp: issued_quote_def dest: find_quote_set)
  ultimately show ?thesis using i mint_refused by blast
qed

theorem issued_for_ever_witness:
  "\<exists>e u. mint sample_env swap_out ''q1'' None (snd (swap sample_env swap_in swap_out (mint_start MQ_issued))) = (Inl e, u)"
proof -
  have "issued_quote ''q1'' (db (mint_start MQ_issued))"
    by (simp add: issued_quote_def mint_start_def sample_quote_def)
  from issued_for_ever[OF swap_is_step this] show ?thesis by blast
qed

text \<open>C13. What is paid is paid for ever: once a melt quote is paid it is so in every later state, and no
  request melts it a second time.\<close>

theorem paid_for_ever:
  assumes "ledger_steps C s t" and "paid_melt qid (db s)"
  shows "paid_melt qid (db t) \<and> (\<nexists>resp u. melt E ps qid outputs t = (Inr resp, u))"
proof -
  have p: "paid_melt qid (db t)" by (rule paid_requests.steps[OF assms])
  have False if "melt E ps qid outputs t = (Inr resp, u)" for resp u
  proof -
    from that obtain q s0 where g: "ledger_get_melt_quote E qid False t = (Inr q, s0)" and "lq_state q = LQ_unpaid"
      unfolding melt_def Let_def by (auto elim!: thenS_OkE bindS_OkE)
    moreover have "lq_quote q = qid" using get_melt_origin[OF g] by blast
    ultimately show False using get_melt_paid_val[OF p g] by simp
  qed
  with p show ?thesis by blast
qed

theorem paid_for_ever_witness:
  "\<nexists>resp u. melt sample_env swap_in ''m1'' None (snd (swap sample_env swap_in swap_out (melt_start LQ_paid))) = (Inr resp, u)"
proof -
  have "paid_melt ''m1'' (db (melt_start LQ_paid))"
    by (simp add: paid_melt_def melt_start_def sample_melt_quote_def)
  from paid_for_ever[OF swap_is_step this] show ?thesis by blast
qed

end
