(* ===== verification/ProofStates.thy ===== *)
theory ProofStates
  imports Timeline
begin

text \<open>
  The two tables of proofs over time: at the end of every request no point is recorded both as spent and
  as pending. It is not a constraint of the database (each table has a unique key of its own, none spans
  the two); it rests on the order in which the requests verify, lock, spend and release proofs.
\<close>

definition apart :: "mint_db \<Rightarrow> bool" where
  "apart d \<longleftrightarrow> pr_y ` set (proofs_used d) \<inter> pr_y ` set (proofs_pending d) = {}"

section \<open>Steps that spend nothing and lock nothing\<close>

text \<open>The spent proofs are \<open>U\<close>, the pending ones among \<open>W\<close>.\<close>

definition within :: "proof_row list \<Rightarrow> proof_row set \<Rightarrow> mint_db \<Rightarrow> bool" where
  "within U W d \<longleftrightarrow> proofs_used d = U \<and> set (proofs_pending d) \<subseteq> W"

lemma within_apart: "within (proofs_used d) (set (proofs_pending d)) d' \<Longrightarrow> apart d \<Longrightarrow> apart d'"
  by (auto simp: within_def apart_def)

lemma within_self [simp]: "within (proofs_used d) (set (proofs_pending d)) d"
  by (simp add: within_def)

lemma within_upd: "(\<And>d. proofs_used (f d) = proofs_used d \<and> set (proofs_pending (f d)) \<subseteq> set (proofs_pending d)) \<Longrightarrow>
  keeps (\<lambda>s. within U W (db s)) (update_db f)"
  by (rule upd) (fastforce simp: within_def)

lemma within_exe: "(\<And>d d'. f d = Inr d' \<Longrightarrow> proofs_used d' = proofs_used d \<and> proofs_pending d' = proofs_pending d) \<Longrightarrow>
  keeps (\<lambda>s. within U W (db s)) (execute f)"
  by (rule exe) (fastforce simp: within_def)

lemma within_statements:
  "keeps (\<lambda>s. within U W (db s)) (store_blinded_message a B k m l w)"
  "keeps (\<lambda>s. within U W (db s)) (delete_blinded_messages_melt_id q)"
  "keeps (\<lambda>s. within U W (db s)) (update_blinded_message_signature a B c e sc)"
  "keeps (\<lambda>s. within U W (db s)) (unset_proof_pending p)"
  "keeps (\<lambda>s. within U W (db s)) (bump_keyset_balance k a)"
  "keeps (\<lambda>s. within U W (db s)) (bump_keyset_fees_paid k a)"
  "keeps (\<lambda>s. within U W (db s)) (store_balance_log E x y z)"
  "keeps (\<lambda>s. within U W (db s)) (store_mint_quote mq)"
  "keeps (\<lambda>s. within U W (db s)) (update_mint_quote mq)"
  "keeps (\<lambda>s. within U W (db s)) (store_melt_quote lq)"
  "keeps (\<lambda>s. within U W (db s)) (update_melt_quote lq)"
  unfolding store_blinded_message_def delete_blinded_messages_melt_id_def update_blinded_message_signature_def
    unset_proof_pending_def bump_keyset_balance_def bump_keyset_fees_paid_def store_balance_log_def store_mint_quote_def
    update_mint_quote_def store_melt_quote_def update_melt_quote_def
  by (auto intro!: within_upd within_exe keeps_thenS keeps_guardS keeps_bindS keeps_liftS
      simp: bindR_Inr check_fk_def split: if_splits)

lemma within_disable: "keeps (\<lambda>s. within U W (db s)) (modifyS (\<lambda>s. s\<lparr>disable_melt := b\<rparr>))"
  by (auto simp: keeps_def)

lemma within_conn: "keeps (\<lambda>s. within U W (db s)) m \<Longrightarrow> keeps (\<lambda>s. within U W (db s)) (with_conn c m)"
  by (auto simp: with_conn_def intro: trans_db)

lemmas within_rules = within_statements within_disable within_conn trans_db submit_db keeps_returnS keeps_raiseS keeps_getS
  keeps_liftS keeps_guardS keeps_get_db keeps_bindS keeps_thenS keeps_whenS keeps_catchS keeps_finallyS keeps_forS
  keeps_mapS keeps_if keeps_option keeps_prod keeps_sum keeps_melt_step

lemma within_parts:
  "keeps (\<lambda>s. within U W (db s)) (bump_for k a)"
  "keeps (\<lambda>s. within U W (db s)) (submit_proof_state Y st w)"
  unfolding bump_for_def submit_proof_state_def by (intro within_rules)+

lemma within_store: "keeps (\<lambda>s. within U W (db s)) (store_blinded_messages outs a b c)"
proof -
  have "keeps (\<lambda>s. within U W (db s)) (store_loop a b sw k outs)" for sw k
    by (induction outs arbitrary: k) (auto intro!: within_rules)
  then show ?thesis unfolding store_blinded_messages_def by (intro within_rules)
qed

lemma within_sign: "keeps (\<lambda>s. within U W (db s)) (sign_blinded_messages E outs c)"
  unfolding sign_blinded_messages_def store_signature_def by (intro within_rules within_parts)

lemma within_release: "keeps (\<lambda>s. within U W (db s)) (unset_proofs_pending ps sp c)"
  unfolding unset_proofs_pending_def by (intro within_rules within_parts)

lemma within_change: "keeps (\<lambda>s. within U W (db s)) (generate_change_promises E a b outs l)"
  unfolding generate_change_promises_def Let_def by (intro within_rules within_sign)

lemmas within_more = within_rules within_parts within_store within_sign within_release within_change

lemma within_mint_quotes:
  "keeps (\<lambda>s. within U W (db s)) (mark_mint_quote_paid E qid)"
  "keeps (\<lambda>s. within U W (db s)) (set_mint_quote_pending qid)"
  "keeps (\<lambda>s. within U W (db s)) (unset_mint_quote_pending qid mst)"
  "keeps (\<lambda>s. within U W (db s)) (invoice_callback_dispatcher E chk)"
  unfolding mark_mint_quote_paid_def set_mint_quote_pending_def unset_mint_quote_pending_def mint_quote_or_fail_def
    invoice_callback_dispatcher_def Let_def
  by (intro within_rules)+

text \<open>The requests that do not take proofs.\<close>

lemma within_get_mint: "keeps (\<lambda>s. within U W (db s)) (ledger_get_mint_quote E qid)"
  unfolding ledger_get_mint_quote_def by (intro within_rules within_mint_quotes)

lemma within_requests:
  "keeps (\<lambda>s. within U W (db s)) (request_mint_quote E req)"
  "keeps (\<lambda>s. within U W (db s)) (mint E outs qid sig)"
  "keeps (\<lambda>s. within U W (db s)) (request_melt_quote E mreq)"
  "keeps (\<lambda>s. within U W (db s)) (restore outs)"
  "keeps (\<lambda>s. within U W (db s)) (backend_checker_round E u status)"
  "keeps (\<lambda>s. within U W (db s)) (rollback_pending_melt E q)"
  unfolding request_mint_quote_def mint_def mint_body_def request_melt_quote_def store_melt_quote_checked_def restore_def
    backend_checker_round_def rollback_pending_melt_def Let_def
  by (intro within_more within_mint_quotes within_get_mint)+

text \<open>The steps of a melt between the locking and the spending of the inputs.\<close>

lemma within_melt_steps:
  "keeps (\<lambda>s. within U W (db s)) (set_melt_quote_pending q)"
  "keeps (\<lambda>s. within U W (db s)) (melt_mint_settle_internally E q)"
  "keeps (\<lambda>s. within U W (db s)) (melt_pay E q u m)"
  "keeps (\<lambda>s. within U W (db s)) (melt_outcome E ps st u m payment q)"
  unfolding set_melt_quote_pending_def melt_mint_settle_internally_def settle_with_mint_quote_def melt_pay_def
    melt_outcome_def melt_failed_def melt_stuck_def unset_melt_quote_pending_def melt_quote_or_fail_def Let_def
  by (intro within_more)+

section \<open>Spending what is locked\<close>

text \<open>Releasing spent proofs leaves no row of theirs among the pending ones.\<close>

lemma released_apart:
  assumes "apart d" and "proofs_used d' = proofs_used d @ used_rows ps qid"
    and "proofs_pending d' = drop_secrets (p_secret ` set ps) (proofs_pending d)"
    and rows: "\<And>r p. r \<in> set (proofs_pending d) \<Longrightarrow> p \<in> set ps \<Longrightarrow> pr_y r = p_Y p \<Longrightarrow> pr_secret r \<in> p_secret ` set ps"
  shows "apart d'"
proof -
  have "pr_y r \<notin> pr_y ` set (proofs_used d')" if "r \<in> set (proofs_pending d')" for r
  proof
    assume u: "pr_y r \<in> pr_y ` set (proofs_used d')"
    from that have r: "r \<in> set (proofs_pending d)" "pr_secret r \<notin> p_secret ` set ps"
      using assms(3) by (auto simp: drop_secrets_def)
    then have "pr_y r \<notin> pr_y ` set (proofs_used d)" using assms(1) unfolding apart_def by blast
    with u assms(2) obtain p where "p \<in> set ps" "pr_y r = p_Y p"
      by (auto simp: used_rows_def proof_to_row_def)
    from rows[OF r(1) this] r(2) show False by simp
  qed
  then show ?thesis unfolding apart_def disjoint_iff by (metis imageE)
qed

text \<open>Rows that were filed for the proofs themselves.\<close>

lemma own_rows:
  assumes "\<forall>p\<in>set ps. p_Y p \<notin> pr_y ` set P" and "r \<in> set (P @ pending_rows ps qid)" and "p \<in> set ps" and "pr_y r = p_Y p"
  shows "pr_secret r \<in> p_secret ` set ps"
proof -
  have "r \<notin> set P" using assms(1,3,4) by (metis imageI)
  then show ?thesis using assms(2) by (auto simp: pending_rows_def proof_to_row_def)
qed

text \<open>The state after locking fresh proofs.\<close>

lemma locked_apart:
  assumes "verify_spent_proofs_and_set_pending E ps qid s = (Inr u, s1)" and "wf_keysets s" and "apart (db s)"
  shows "apart (db s1)" "keysets s1 = keysets s" "proofs_used (db s1) = proofs_used (db s)"
    "proofs_pending (db s1) = proofs_pending (db s) @ pending_rows ps qid"
    "\<forall>p\<in>set ps. p_Y p \<notin> pr_y ` set (proofs_pending (db s))" "\<forall>p\<in>set ps. keyset_of s (p_id p) \<noteq> None"
proof -
  note l = verify_spent_and_set_pending_Ok[OF assms(1,2)] and fresh = set_pending_unspent[OF assms(1,2)]
  show k: "keysets s1 = keysets s" "proofs_used (db s1) = proofs_used (db s)"
    "proofs_pending (db s1) = proofs_pending (db s) @ pending_rows ps qid"
    using l(1) by simp_all
  show "\<forall>p\<in>set ps. p_Y p \<notin> pr_y ` set (proofs_pending (db s))" "\<forall>p\<in>set ps. keyset_of s (p_id p) \<noteq> None"
    using l(2,3) by simp_all
  have "pr_y ` set (pending_rows ps qid) = p_Y ` set ps"
    by (auto simp: pending_rows_def proof_to_row_def image_image)
  moreover have "pr_y ` set (proofs_used (db s)) \<inter> p_Y ` set ps = {}"
    using fresh(1) unfolding disjoint_iff by (metis imageE)
  ultimately show "apart (db s1)"
    using assms(3) by (simp add: apart_def k image_Un Int_Un_distrib)
qed

lemma swap_apart:
  assumes run: "swap E ps outs s = (r, t)" and wf: "wf_keysets s" and a: "apart (db s)"
  shows "apart (db t)"
  using run wf
proof (cases rule: swapE)
  case (refused e)
  with a show ?thesis by simp
next
  case (run s1 r1 s2)
  note l = locked_apart[OF run(2) wf a]
  have t: "proofs_used (db t) = proofs_used (db s2)"
    "proofs_pending (db t) = drop_secrets (p_secret ` set ps) (proofs_pending (db s2))" using run(5) by simp_all
  show ?thesis
  proof (cases r1)
    case (Inl e)
    then have "db s2 = db s1" using run(3) by (auto simp: swap_body_def dest: transaction_db)
    then have "within (proofs_used (db s1)) (set (proofs_pending (db s1))) (db t)"
      using t by (auto simp: within_def drop_secrets_def)
    from within_apart[OF this l(1)] show ?thesis .
  next
    case (Inr sigs)
    with run(3) obtain s3 s4 where 1: "store_blinded_messages outs None None True s1 = (Inr (), s3)"
      and 2: "invalidate_proofs ps None True s3 = (Inr (), s4)" and 3: "sign_blinded_messages E outs True s4 = (Inr sigs, s2)"
      by (auto simp: swap_body_def transaction_Ok elim!: thenS_OkE)
    note st = store_blinded_messages_Ok(1)[OF 1]
    have "wf_keysets s3" using st l(2) wf wf_keysets_cong[of s1 s] by simp
    note i = invalidate_proofs_Ok(1)[OF 2 this]
    obtain prs where "s2 = s4\<lparr>db := (db s4)\<lparr>promises := sign_all E prs (promises (db s4)),
      keyset_rows := bump_all (output_bumps outs) (keyset_rows (db s4))\<rparr>\<rparr>"
      by (rule sign_blinded_messages_Ok[OF 3]) (use i \<open>wf_keysets s3\<close> in auto)
    then have "proofs_used (db s2) = proofs_used (db s1) @ used_rows ps None" "proofs_pending (db s2) = proofs_pending (db s1)"
      using i st by simp_all
    with released_apart[OF l(1), of "db t" ps None] t own_rows[OF l(5)] l(4) show ?thesis by auto
  qed
qed

text \<open>The end of a melt: spend, release, then give change.\<close>

lemma melt_finish_apart:
  assumes run: "melt_finish E ps outs provided q s = (r, t)" and wf: "wf_keysets s" and a: "apart (db s)"
    and rows: "\<And>r p. r \<in> set (proofs_pending (db s)) \<Longrightarrow> p \<in> set ps \<Longrightarrow> pr_y r = p_Y p \<Longrightarrow> pr_secret r \<in> p_secret ` set ps"
  shows "apart (db t)"
proof -
  obtain r1 s1 where 1: "invalidate_proofs ps (Some (lq_quote q)) False s = (r1, s1)" by force
  show ?thesis
  proof (cases r1)
    case (Inl e)
    then have "db s1 = db s" using 1 by (auto simp: invalidate_proofs_def with_conn_def dest: transaction_db)
    moreover have "t = s1" using run 1 Inl by (simp add: melt_finish_def thenS_def bindS_def)
    ultimately show ?thesis using a by simp
  next
    case (Inr u)
    note i = invalidate_proofs_Ok[OF 1[unfolded Inr] wf]
    let ?s2 = "s1\<lparr>db := (db s1)\<lparr>proofs_pending := drop_secrets (p_secret ` set ps) (proofs_pending (db s1)),
       keyset_rows := bump_all (proof_bumps ps) (keyset_rows (db s1))\<rparr>\<rparr>"
    have 2: "unset_proofs_pending ps True False s1 = (Inr (), ?s2)"
      using i wf by (intro unset_proofs_pending_spent) auto
    have a2: "apart (db ?s2)"
      by (rule released_apart[OF a _ _ rows]) (use i(1) in auto)
    let ?rest = "bindS (if outs = [] then returnS []
            else thenS (liftS (\<lambda>s. the_keyset s (bm_id (hd outs))))
                 (generate_change_promises E provided (lq_fee_paid q) (Some outs) (Some (lq_quote q)))) (\<lambda>promises.
     let q1 = q\<lparr>lq_change := Some promises\<rparr>
     in thenS (update_melt_quote q1) (thenS (submit_event (EvMelt q1)) (returnS (from_melt_quote q1))))"
    have keep: "keeps (\<lambda>s. within (proofs_used (db ?s2)) (set (proofs_pending (db ?s2))) (db s)) ?rest"
      unfolding Let_def by (intro within_more)
    have rest: "?rest ?s2 = (r, t)"
      using run 1 Inr 2 by (simp add: melt_finish_def thenS_def bindS_def)
    have "within (proofs_used (db ?s2)) (set (proofs_pending (db ?s2))) (db t)"
      by (rule keepsD2[OF keep within_self rest])
    from within_apart[OF this a2] show ?thesis .
  qed
qed

text \<open>A predicate that holds wherever the first step may stop holds wherever the rest may stop.\<close>

lemma stops_bind:
  assumes "keeps I m" and "\<And>x t. I t \<Longrightarrow> Q (snd (f x t))" and "\<And>t. I t \<Longrightarrow> Q t" and "I s"
  shows "Q (snd (bindS m f s))"
proof -
  obtain r t where m: "m s = (r, t)" by force
  have "I t" by (rule keepsD2[OF assms(1,4) m])
  then show ?thesis using m assms(2,3) by (cases r) (auto simp: bindS_def)
qed

lemma stops_then:
  assumes "keeps I m" and "\<And>t. I t \<Longrightarrow> Q (snd (k t))" and "\<And>t. I t \<Longrightarrow> Q t" and "I s"
  shows "Q (snd (thenS m k s))"
  unfolding thenS_def using assms by (rule stops_bind)

lemma stops_lift: "(\<And>x. g s = Inr x \<Longrightarrow> Q (snd (f x s))) \<Longrightarrow> Q s \<Longrightarrow> Q (snd (bindS (liftS g) f s))"
  by (auto simp: bindS_def split: sum.splits)

lemma stops_next: "Q (snd (m s)) \<Longrightarrow> (\<And>t. Q t \<Longrightarrow> Q (snd (k t))) \<Longrightarrow> Q (snd (thenS m k s))"
  by (cases "m s") (auto simp: thenS_def bindS_def split: sum.splits)

lemma keeps_both: "keeps I m \<Longrightarrow> keeps J m \<Longrightarrow> keeps (\<lambda>s. I s \<and> J s) m"
  by (simp add: keeps_def)

lemma keysets_melt_steps:
  "keeps (has_keysets K) (set_melt_quote_pending q)"
  "keeps (has_keysets K) (melt_mint_settle_internally E q)"
  "keeps (has_keysets K) (melt_pay E q u m)"
  "keeps (has_keysets K) (melt_outcome E ps st u m payment q)"
  unfolding set_melt_quote_pending_def melt_mint_settle_internally_def settle_with_mint_quote_def melt_pay_def
    melt_outcome_def melt_failed_def melt_stuck_def unset_melt_quote_pending_def melt_quote_or_fail_def Let_def
    update_melt_quote_def update_mint_quote_def delete_blinded_messages_melt_id_def
  by (intro keeps_intros)+

lemma melt_run_apart:
  assumes run: "melt_run E ps outs q umf s = (r, t)" and wf: "wf_keysets s" and a: "apart (db s)"
  shows "apart (db t)"
proof -
  obtain u m provided where umf: "umf = (u, m, provided)" by (cases umf)
  obtain r1 s1 where 1: "verify_spent_proofs_and_set_pending E ps (Some (lq_quote q)) s = (r1, s1)" by force
  show ?thesis
  proof (cases r1)
    case (Inl e)
    then have "db s1 = db s" using 1 by (auto dest: verify_spent_and_set_pending_Err)
    moreover have "t = s1" using run 1 Inl by (simp add: melt_run_def umf thenS_def bindS_def)
    ultimately show ?thesis using a by simp
  next
    case (Inr v)
    note l = locked_apart[OF 1[unfolded Inr] wf a]
    let ?I = "\<lambda>s. within (proofs_used (db s1)) (set (proofs_pending (db s1))) (db s) \<and> has_keysets (keysets s1) s"
    have I: "apart (db s')" if "?I s'" for s' using within_apart l(1) that by blast
    have end_of: "apart (db (snd ((case step of Melt_return r \<Rightarrow> returnS r | Melt_continue q4 \<Rightarrow> melt_finish E ps outs provided q4) s')))"
      if "?I s'" for step s'
    proof (cases step)
      case (Melt_continue q4)
      obtain r' t' where f: "melt_finish E ps outs provided q4 s' = (r', t')" by force
      have "wf_keysets s'" using that l(2) wf by (simp add: wf_keysets_cong[of s' s])
      moreover have "r \<in> set (proofs_pending (db s)) \<union> set (pending_rows ps (Some (lq_quote q)))"
        if "r \<in> set (proofs_pending (db s'))" for r
        using that \<open>?I s'\<close> l(4) by (auto simp: within_def)
      ultimately have "apart (db t')"
        using own_rows[OF l(5), where qid = "Some (lq_quote q)"] by (intro melt_finish_apart[OF f _ I[OF that]]) auto
      with f Melt_continue show ?thesis by simp
    qed (use I that in simp)
    let ?rest = "bindS (set_melt_quote_pending q) (\<lambda>q1.
     thenS (whenS (outs \<noteq> []) (store_blinded_messages outs None (Some (lq_quote q1)) False))
    (bindS (melt_mint_settle_internally E q1) (\<lambda>q2.
     bindS (if lq_state q2 = LQ_paid then returnS (Melt_continue q2)
            else bindS (melt_pay E q2 u m) (\<lambda>(payment, q3). melt_outcome E ps (lq_state q) u m payment q3)) (\<lambda>step.
     case step of Melt_return r \<Rightarrow> returnS r | Melt_continue q4 \<Rightarrow> melt_finish E ps outs provided q4))))"
    have "apart (db (snd (?rest s1)))"
      by (intro stops_bind[where I = ?I and Q = "\<lambda>s. apart (db s)"] stops_then[where I = ?I and Q = "\<lambda>s. apart (db s)"]
          keeps_both within_melt_steps keysets_melt_steps within_store keeps_store keeps_whenS keeps_if keeps_returnS
          keeps_bindS keeps_prod end_of I) (assumption | simp)+
    moreover have "?rest s1 = (r, t)" using run 1 Inr by (simp add: melt_run_def umf thenS_def bindS_def)
    ultimately show ?thesis by simp
  qed
qed

section \<open>Settling and rolling back pending melts\<close>

lemma mapR_origin: "mapR f xs = Inr ys \<Longrightarrow> y \<in> set ys \<Longrightarrow> \<exists>x\<in>set xs. f x = Inr y"
  by (induction xs arbitrary: ys) (auto simp: bindR_Inr)

text \<open>The mint's own rows: the point of a pending row is that of its secret.\<close>

lemma restored_rows:
  assumes "mapR (row_to_proof E) (filter P (proofs_pending d)) = Inr ps" and "wf_tables (crv E) d"
    and "r \<in> set (proofs_pending d)" and "p \<in> set ps" and "pr_y r = p_Y p"
  shows "pr_secret r \<in> p_secret ` set ps"
proof -
  obtain r0 where r0: "r0 \<in> set (proofs_pending d)" "row_to_proof E r0 = Inr p"
    using mapR_origin[OF assms(1,4)] by auto
  then have s: "p_secret p = pr_secret r0" by (auto simp: row_to_proof_def init_proof_def bindR_Inr)
  have "row_ok (crv E) r0" using r0(1) assms(2) by (simp add: wf_tables_def list_all_iff)
  then have "pr_y r0 = p_Y p"
    using row_to_proof_ok[OF r0(2)] s by (simp add: row_ok_def ok_proof_def)
  moreover have "inj_on pr_y (set (proofs_pending d))" using assms(2) by (simp add: wf_tables_def distinct_map)
  ultimately have "r = r0" using assms(3,5) r0(1) by (metis inj_onD)
  then show ?thesis using s assms(4) by (metis imageI)
qed

lemma settle_pending_apart:
  assumes run: "settle_pending_melt E q u st s = (r, t)" and wf: "wf_keysets s" "wf_tables (crv E) (db s)" and a: "apart (db s)"
  shows "apart (db t)"
proof -
  let ?tail = "\<lambda>pending q3. bindS (get_db (get_blinded_messages_melt_id (lq_quote q))) (\<lambda>outs.
        bindS (if outs = [] then returnS q3
               else bindS (liftS (\<lambda>s. get_fees_for_proofs s pending)) (\<lambda>input_fees.
                 thenS (liftS (\<lambda>s. the_keyset s (bm_id (hd outs))))
                (bindS (generate_change_promises E (sum_proofs pending - lq_amount q - input_fees) (lq_fee_paid q3)
                    (Some outs) (Some (lq_quote q))) (\<lambda>promises.
                 returnS (q3\<lparr>lq_change := Some promises\<rparr>))))) (\<lambda>q4.
        thenS (update_melt_quote q4) (thenS (submit_event (EvMelt q4)) (returnS q4))))"
  have tail: "apart (db (snd (?tail pending q3 s')))" if "apart (db s')" for pending q3 s'
  proof -
    have "keeps (\<lambda>x. within (proofs_used (db s')) (set (proofs_pending (db s'))) (db x)) (?tail pending q3)"
      by (intro within_more)
    from keepsD[OF this within_self] that show ?thesis by (rule within_apart)
  qed
  have spend: "apart (db (snd (transaction (thenS (invalidate_proofs ps qid True) (unset_proofs_pending ps True True)) s)))"
    (is "apart (db (snd ?tx))") if "get_pending_proofs_for_quote E k (db s) = Inr ps" for ps qid k
  proof (cases ?tx)
    case (Pair r' t')
    show ?thesis
    proof (cases r')
      case (Inl e)
      with Pair a show ?thesis by (auto dest: transaction_db)
    next
      case (Inr x)
      with Pair obtain s1 where 1: "invalidate_proofs ps qid True s = (Inr (), s1)" and 2: "unset_proofs_pending ps True True s1 = (Inr x, t')"
        by (auto simp: transaction_Ok elim!: thenS_OkE)
      note i = invalidate_proofs_Ok[OF 1 wf(1)]
      have t': "t' = s1\<lparr>db := (db s1)\<lparr>proofs_pending := drop_secrets (p_secret ` set ps) (proofs_pending (db s1)),
         keyset_rows := bump_all (proof_bumps ps) (keyset_rows (db s1))\<rparr>\<rparr>"
        using 2 i wf(1) unset_proofs_pending_spent[of s1 ps True] by auto
      have "apart (db t')"
        by (rule released_apart[OF a _ _ restored_rows[OF that[unfolded get_pending_proofs_for_quote_def] wf(2)]])
          (use t' i(1) in auto)
      with Pair show ?thesis by simp
    qed
  qed
  have "apart (db (snd (settle_pending_melt E q u st s)))"
    unfolding settle_pending_melt_def Let_def
    by (intro stops_lift[where Q = "\<lambda>s. apart (db s)"] stops_next[where Q = "\<lambda>s. apart (db s)"] a)
      (erule spend, erule tail)
  then show ?thesis using run by simp
qed

text \<open>Both together: what every request keeps.\<close>

definition proofs_ok :: "curve \<Rightarrow> ledger \<Rightarrow> bool" where
  "proofs_ok C s \<longleftrightarrow> wf_keysets s \<and> wf_tables C (db s) \<and> apart (db s)"

lemma keeps_proofs_ok:
  assumes "\<And>K. keeps (has_keysets K) m" and "keeps (\<lambda>s. wf_tables C (db s)) m"
    and "\<And>s. proofs_ok C s \<Longrightarrow> apart (db (snd (m s)))"
  shows "keeps (proofs_ok C) m"
proof (rule keepsI)
  fix s assume I: "proofs_ok C s"
  have "keysets (snd (m s)) = keysets s" using keepsD[OF assms(1)[of "keysets s"], of s] by simp
  then have "wf_keysets (snd (m s))" using I by (simp add: proofs_ok_def wf_keysets_cong[of "snd (m s)" s])
  then show "proofs_ok C (snd (m s))"
    using assms(3)[OF I] keepsD[OF assms(2), of s] I by (simp add: proofs_ok_def)
qed

lemma within_stops: "(\<And>U W. keeps (\<lambda>s. within U W (db s)) m) \<Longrightarrow> proofs_ok C s \<Longrightarrow> apart (db (snd (m s)))"
  using within_apart[of "db s" "db (snd (m s))"] keepsD[of "\<lambda>x. within (proofs_used (db s)) (set (proofs_pending (db s))) (db x)" m s]
  by (simp add: proofs_ok_def)

lemma get_melt_proofs_ok:
  assumes "crv E = C"
  shows "keeps (proofs_ok C) (ledger_get_melt_quote E qid rb)"
proof -
  have settle: "keeps (proofs_ok C) (settle_pending_melt E q u st)" for q u st
  proof (rule keeps_proofs_ok[OF same_keysets.settle_pending[OF assms] tables.settle_pending[OF assms]])
    fix s assume "proofs_ok C s"
    with settle_pending_apart[of E q u st s] assms show "apart (db (snd (settle_pending_melt E q u st s)))"
      by (cases "settle_pending_melt E q u st s") (simp add: proofs_ok_def)
  qed
  have undo: "keeps (proofs_ok C) (rollback_pending_melt E q)" for q
    by (rule keeps_proofs_ok[OF same_keysets.roll_back tables.roll_back within_stops[OF within_requests(6)]])
  show ?thesis
    unfolding ledger_get_melt_quote_def
    by (intro keeps_intros settle undo)
qed

lemma melt_proofs_ok:
  assumes "crv E = C" and "\<And>p. p \<in> set ps \<Longrightarrow> ok_proof C p"
  shows "keeps (proofs_ok C) (melt E ps qid outputs)"
proof (rule keeps_proofs_ok)
  show "keeps (has_keysets K) (melt E ps qid outputs)" for K by (rule same_keysets.melt_kept[OF assms])
  show "keeps (\<lambda>s. wf_tables C (db s)) (melt E ps qid outputs)" by (rule tables.melt_kept[OF assms])
  fix s assume I: "proofs_ok C s"
  have run: "apart (db (snd (melt_run E ps outs q umf t)))" if "proofs_ok C t" for outs q umf t
    using melt_run_apart[of E ps outs q umf t] that by (cases "melt_run E ps outs q umf t") (auto simp: proofs_ok_def)
  show "apart (db (snd (melt E ps qid outputs s)))"
    unfolding melt_def Let_def
    by (rule stops_bind[where I = "proofs_ok C" and Q = "\<lambda>s. apart (db s)"] stops_then[where I = "proofs_ok C" and Q = "\<lambda>s. apart (db s)"]
        keeps_getS keeps_guardS keeps_liftS get_melt_proofs_ok[OF assms(1)] run I | assumption | simp add: proofs_ok_def)+
qed

section \<open>Along every run\<close>

lemma step_proofs_ok:
  assumes "ledger_step C s t" and I: "proofs_ok C s"
  shows "proofs_ok C t"
proof -
  have "apart (db t)"
    using assms(1)
  proof cases
    case (request_mint_quote E req r)
    with within_stops[OF within_requests(1) I, of E req] show ?thesis by simp
  next
    case (get_mint_quote E qid r)
    with within_stops[OF within_get_mint I, of E qid] show ?thesis by simp
  next
    case (invoice_paid E chk r)
    with within_stops[OF within_mint_quotes(4) I, of E chk] show ?thesis by simp
  next
    case (mint E outs qid sig r)
    with within_stops[OF within_requests(2) I, of E outs qid sig] show ?thesis by simp
  next
    case (request_melt_quote E mreq r)
    with within_stops[OF within_requests(3) I, of E mreq] show ?thesis by simp
  next
    case (get_melt_quote E qid rb r)
    with keepsD2[OF get_melt_proofs_ok I, of E qid rb r t] show ?thesis by (simp add: proofs_ok_def)
  next
    case (melt E ps qid outputs r)
    then have "ok_proof C p" if "p \<in> set ps" for p using that wf_proof_ok by metis
    from keepsD2[OF melt_proofs_ok[OF melt(1) this] I melt(3)] show ?thesis by (simp add: proofs_ok_def)
  next
    case (swap E ps outs r)
    with swap_apart[OF swap(3)] I show ?thesis by (simp add: proofs_ok_def)
  next
    case (restore outs r)
    with within_stops[OF within_requests(4) I, of outs] show ?thesis by simp
  next
    case (check_pending E r)
    have "keeps (proofs_ok C) (check_pending_proofs_and_melt_quotes E)"
      unfolding check_pending_proofs_and_melt_quotes_def
      by (intro keeps_intros get_melt_proofs_ok[OF check_pending(1)])
    from keepsD2[OF this I check_pending(2)] show ?thesis by (simp add: proofs_ok_def)
  next
    case (watchdog E u status r)
    with within_stops[OF within_requests(5) I, of E u status] show ?thesis by simp
  qed
  then show ?thesis using steps_wf[of C s t] assms by (auto simp: proofs_ok_def)
qed

lemma steps_proofs_ok: "ledger_steps C s t \<Longrightarrow> proofs_ok C s \<Longrightarrow> proofs_ok C t"
  by (induction rule: rtranclp_induct) (auto intro: step_proofs_ok)

text \<open>C14. A proof is never spent and pending at once. Along every run of the mint, whatever the requests,
  the backends and the clock do, at the end of each request, whether it returned or raised, the points of
  the spent proofs and the points of the pending ones are disjoint, and the tables are well formed. No
  constraint of the database spans the two tables: it holds because fresh proofs are verified before
  they are locked and spent ones are released.\<close>

theorem never_spent_and_pending:
  assumes "ledger_steps C s t" and "wf_keysets s" and "wf_tables C (db s)"
    and "pr_y ` set (proofs_used (db s)) \<inter> pr_y ` set (proofs_pending (db s)) = {}"
  shows "pr_y ` set (proofs_used (db t)) \<inter> pr_y ` set (proofs_pending (db t)) = {} \<and> wf_tables C (db t)"
  using steps_proofs_ok[OF assms(1)] assms(2-4) by (simp add: proofs_ok_def apart_def)

text \<open>The sample mint after a swap.\<close>

theorem never_spent_and_pending_witness:
  "proofs_used (db after_swap) \<noteq> [] \<and>
   pr_y ` set (proofs_used (db after_swap)) \<inter> pr_y ` set (proofs_pending (db after_swap)) = {}"
proof -
  have "pr_y ` set (proofs_used (db sample_ledger)) \<inter> pr_y ` set (proofs_pending (db sample_ledger)) = {}"
    by (simp add: sample_ledger_def empty_db_def)
  from never_spent_and_pending[OF swap_is_step sample_tables(2,1) this]
  have "pr_y ` set (proofs_used (db after_swap)) \<inter> pr_y ` set (proofs_pending (db after_swap)) = {}"
    by (simp add: after_swap_def)
  moreover have "proofs_used (db after_swap) \<noteq> []" by code_simp
  ultimately show ?thesis by blast
qed

end
