(* ===== verification/Amounts.thy ===== *)
theory Amounts
  imports Swapping
begin

text \<open>
  Properties of the arithmetic: the split of an amount into powers of two, the conversion between
  units, and the rounding of the fees.
\<close>

section \<open>Powers of two\<close>

definition pow2 :: "nat set \<Rightarrow> int" where
  "pow2 A = (\<Sum>i\<in>A. 2 ^ i)"

lemma pow2_lt: "A \<subseteq> {..<n} \<Longrightarrow> pow2 A < 2 ^ n"
proof -
  assume A: "A \<subseteq> {..<n}"
  have "pow2 A \<le> pow2 {..<n}" unfolding pow2_def by (rule sum_mono2) (use A in auto)
  also have "pow2 {..<n} = 2 ^ n - 1" by (induction n) (auto simp: pow2_def)
  finally show ?thesis by simp
qed

lemma pow2_nonneg: "0 \<le> pow2 A"
  by (simp add: pow2_def sum_nonneg)

lemma pow2_inj: "A \<subseteq> {..<n} \<Longrightarrow> B \<subseteq> {..<n} \<Longrightarrow> pow2 A = pow2 B \<Longrightarrow> A = B"
proof (induction n arbitrary: A B)
  case (Suc n)
  have split: "pow2 X = pow2 (X - {n}) + (if n \<in> X then 2 ^ n else 0)" "X - {n} \<subseteq> {..<n}" if "X \<subseteq> {..<Suc n}" for X
  proof -
    have "finite X" using that finite_subset by blast
    then show "pow2 X = pow2 (X - {n}) + (if n \<in> X then 2 ^ n else 0)"
      by (auto simp: pow2_def sum.remove[of X n])
    show "X - {n} \<subseteq> {..<n}" using that by auto
  qed
  have mem: "n \<in> Y" if X: "n \<in> X" "X \<subseteq> {..<Suc n}" and Y: "Y \<subseteq> {..<Suc n}" and eq: "pow2 X = pow2 Y" for X Y
  proof (rule ccontr)
    assume "n \<notin> Y"
    then have "pow2 Y < 2 ^ n" using split[OF Y] pow2_lt[of "Y - {n}" n] by simp
    moreover have "2 ^ n \<le> pow2 X" using split(1)[OF X(2)] X(1) pow2_nonneg[of "X - {n}"] by simp
    ultimately show False using eq by simp
  qed
  have n: "n \<in> A \<longleftrightarrow> n \<in> B" using mem[of A B] mem[of B A] Suc.prems by auto
  define c where "c = (if n \<in> A then 2 ^ n else (0 :: int))"
  have "pow2 A = pow2 (A - {n}) + c" using split(1)[OF Suc.prems(1)] by (simp only: c_def)
  moreover have "pow2 B = pow2 (B - {n}) + c" using split(1)[OF Suc.prems(2)] n by (simp only: c_def)
  ultimately have "pow2 (A - {n}) = pow2 (B - {n})" using Suc.prems(3) by linarith
  then have d: "A - {n} = B - {n}"
    by (rule Suc.IH[OF split(2)[OF Suc.prems(1)] split(2)[OF Suc.prems(2)]])
  show ?case
  proof (rule set_eqI)
    fix x show "x \<in> A \<longleftrightarrow> x \<in> B" using d n by (cases "x = n") blast+
  qed
qed simp

text \<open>A strictly increasing list of powers of two is determined by its sum.\<close>

definition powers :: "int list \<Rightarrow> bool" where
  "powers xs \<longleftrightarrow> sorted_wrt (<) xs \<and> (\<forall>x\<in>set xs. \<exists>i::nat. x = 2 ^ i)"

lemma powers_sum: "powers xs \<Longrightarrow> sum_list xs = pow2 {i. 2 ^ i \<in> set xs}"
proof -
  assume p: "powers xs"
  have "distinct xs" using p by (simp add: powers_def strict_sorted_iff)
  then have "sum_list xs = \<Sum>(set xs)" by (metis distinct_sum_list_conv_Sum)
  moreover have "set xs = (\<lambda>i::nat. 2 ^ i) ` {i. 2 ^ i \<in> set xs}" using p by (auto simp: powers_def)
  then have "\<Sum>(set xs) = (\<Sum>i\<in>{i. 2 ^ i \<in> set xs}. 2 ^ i)"
    by (metis (no_types, lifting) sum.reindex_cong[of "\<lambda>i. 2 ^ i"] inj_onI one_less_numeral_iff power_inject_exp semiring_norm(76))
  ultimately show ?thesis by (simp add: pow2_def)
qed

lemma powers_unique:
  assumes "powers xs" and "powers ys" and "sum_list xs = sum_list ys"
  shows "xs = ys"
proof -
  let ?A = "\<lambda>zs :: int list. {i::nat. 2 ^ i \<in> set zs}"
  have fin: "finite (?A zs)" for zs
    by (rule finite_subset[OF _ finite_vimageI[of "set zs" "\<lambda>i::nat. 2 ^ i :: int"]]) (auto simp: inj_on_def)
  have "finite (?A xs \<union> ?A ys)" using fin by simp
  then obtain n where n: "?A xs \<union> ?A ys \<subseteq> {..<n}" by (auto simp: finite_nat_set_iff_bounded)
  have "?A xs = ?A ys" by (rule pow2_inj[of _ n]) (use n assms powers_sum in auto)
  then have "set xs = set ys" using assms(1,2) by (fastforce simp: powers_def)
  with assms(1,2) show ?thesis by (simp add: powers_def strict_sorted_equal)
qed

lemma amount_split_powers: "powers (amount_split a)"
  using amount_split_sorted amount_split_pos by (fastforce simp: powers_def)

text \<open>C19. The amounts of a token: \<open>amount_split\<close> gives the one strictly increasing list of powers of two that
  adds up to the amount, and the empty list when the amount is not positive.\<close>

theorem amount_split_binary: "xs = amount_split a \<longleftrightarrow> powers xs \<and> sum_list xs = max 0 a"
  using sum_amount_split amount_split_powers powers_unique by metis

section \<open>Converting units\<close>

lemma ceil_div_mult [simp]: "0 < b \<Longrightarrow> ceil_div (a * b) b = a"
  using nonzero_mult_div_cancel_right[of b "- a"] by (simp add: ceil_div_def)

text \<open>Satoshis go to millisatoshis and back unchanged, however one rounds; millisatoshis go to the
  next satoshi above or below, and back and forth loses or adds less than one satoshi. Every other
  conversion of these two units is refused.\<close>

theorem amount_conversion:
  "bindR (amount_to (Amount sat n) msat r) (\<lambda>a. amount_to a sat r') = Inr (Amount sat n) \<and>
   (\<exists>k. amount_to (Amount msat n) sat round_up = Inr (Amount sat k) \<and> n \<le> 1000 * k \<and> 1000 * k < n + 1000) \<and>
   (\<exists>k. amount_to (Amount msat n) sat round_down = Inr (Amount sat k) \<and> n - 1000 < 1000 * k \<and> 1000 * k \<le> n) \<and>
   amount_to (Amount msat n) sat round_none = amount_to (Amount msat n) sat round_down \<and>
   list_all (\<lambda>u. \<not> isOk (amount_to (Amount sat n) u r) \<and> \<not> isOk (amount_to (Amount msat n) u r)) [usd, eur, btc, auth]"
proof -
  have "1000 * (n div 1000) = n - n mod 1000" by (rule minus_mod_eq_mult_div[symmetric])
  moreover have "0 \<le> n mod 1000" "n mod 1000 < 1000" by simp_all
  ultimately have "n - 1000 < 1000 * (n div 1000) \<and> 1000 * (n div 1000) \<le> n" by linarith
  with ceil_div_bounds[of 1000 n] show ?thesis
    by (cases r'; simp add: amount_to_def mult.commute split: rounding.splits)
qed

section \<open>The fees booked per keyset\<close>

lemma fee_of_ppk_ceil: "fee_of_ppk n = ceil_div n 1000"
proof -
  have "(n + 999) div 1000 * 1000 = n + 999 - (n + 999) mod 1000" by (rule minus_mod_eq_div_mult[symmetric])
  moreover have "0 \<le> (n + 999) mod 1000" "(n + 999) mod 1000 < 1000" by simp_all
  ultimately show ?thesis using ceil_div_bounds[of 1000 n] unfolding fee_of_ppk_def by linarith
qed

lemma fee_of_ppk_add:
  "fee_of_ppk (a + b) \<le> fee_of_ppk a + fee_of_ppk b" "fee_of_ppk a + fee_of_ppk b \<le> fee_of_ppk (a + b) + 1"
  using ceil_div_bounds[of 1000 a] ceil_div_bounds[of 1000 b] ceil_div_bounds[of 1000 "a + b"]
  unfolding fee_of_ppk_ceil by linarith+

text \<open>What the inputs of a keyset weigh.\<close>

definition ppk_of :: "ledger \<Rightarrow> token_proof \<Rightarrow> int" where
  "ppk_of s p = (case keyset_of s (p_id p) of None \<Rightarrow> 0 | Some k \<Rightarrow> k_input_fee_ppk k)"

definition group_ppk :: "ledger \<Rightarrow> string \<times> token_proof list \<Rightarrow> int" where
  "group_ppk s g = sum_list (List.map (ppk_of s) (snd g))"

lemma sum_update_group:
  "sum_list (List.map (group_ppk s) (add_to_group p g)) = sum_list (List.map (group_ppk s) g) + ppk_of s p"
  unfolding add_to_group_def
  by (induction g) (auto simp: group_ppk_def)

lemma sum_group_by_keyset:
  "sum_list (List.map (group_ppk s) (group_by_keyset ps)) = sum_list (List.map (ppk_of s) ps)"
proof -
  have "sum_list (List.map (group_ppk s) (foldl (\<lambda>g p. add_to_group p g) g ps)) =
    sum_list (List.map (group_ppk s) g) + sum_list (List.map (ppk_of s) ps)" for g
    by (induction ps arbitrary: g) (auto simp: sum_update_group)
  from this[of "[]"] show ?thesis by (simp add: group_by_keyset_def)
qed

lemma fees_of_groups:
  "gs \<noteq> [] \<Longrightarrow> fee_of_ppk (sum_list (List.map f gs)) \<le> sum_list (List.map (\<lambda>g. fee_of_ppk (f g)) gs) \<and>
   sum_list (List.map (\<lambda>g. fee_of_ppk (f g)) gs) \<le> fee_of_ppk (sum_list (List.map f gs)) + int (length gs) - 1"
proof (induction gs rule: list_nonempty_induct)
  case (cons x xs)
  then show ?case using fee_of_ppk_add[of "f x" "sum_list (List.map f xs)"] by simp
qed simp

text \<open>Every group holds inputs of the transaction, at least one; every keyset id is the key of one group.\<close>

lemma add_to_group_facts:
  assumes "\<forall>g\<in>set gs. snd g \<noteq> [] \<and> set (snd g) \<subseteq> X"
  shows "\<forall>g\<in>set (add_to_group p gs). snd g \<noteq> [] \<and> set (snd g) \<subseteq> insert p X"
  using assms unfolding add_to_group_def by (induction gs) (auto split: if_splits)

lemma group_facts: "g \<in> set (group_by_keyset ps) \<Longrightarrow> snd g \<noteq> [] \<and> set (snd g) \<subseteq> set ps"
proof -
  have "\<forall>g\<in>set (foldl (\<lambda>g p. add_to_group p g) gs ps). snd g \<noteq> [] \<and> set (snd g) \<subseteq> X \<union> set ps"
    if "\<forall>g\<in>set gs. snd g \<noteq> [] \<and> set (snd g) \<subseteq> X" for gs X
    using that
  proof (induction ps arbitrary: gs X)
    case (Cons p ps)
    from Cons.IH[OF add_to_group_facts[OF Cons.prems]] show ?case by simp
  qed simp
  from this[of "[]" "{}"] show "g \<in> set (group_by_keyset ps) \<Longrightarrow> snd g \<noteq> [] \<and> set (snd g) \<subseteq> set ps"
    by (auto simp: group_by_keyset_def)
qed

lemma add_to_group_nonempty: "add_to_group p g \<noteq> []"
  by (cases g) (auto simp: add_to_group_def)

lemma group_nonempty:
  assumes "ps \<noteq> []"
  shows "group_by_keyset ps \<noteq> []"
proof -
  have ne: "foldl (\<lambda>g p. add_to_group p g) g ps \<noteq> []" if "g \<noteq> []" for g ps
    using that
  proof (induction ps arbitrary: g)
    case (Cons p ps)
    show ?case using Cons.IH[OF add_to_group_nonempty] by simp
  qed simp
  obtain p qs where "ps = p # qs" using assms by (cases ps) auto
  then show ?thesis using ne[OF add_to_group_nonempty, of p "[]" qs] by (simp add: group_by_keyset_def)
qed

lemma one_unit_iff: "one_unit us \<longleftrightarrow> us \<noteq> [] \<and> (\<forall>u\<in>set us. u = hd us)"
proof (cases us)
  case (Cons x xs)
  have "length (remdups us) = 1 \<longleftrightarrow> card (set us) = 1" by (simp add: length_remdups_card_conv)
  also have "\<dots> \<longleftrightarrow> set us = {x}" using Cons by (auto simp: card_1_singleton_iff)
  finally show ?thesis using Cons by (auto simp: one_unit_def)
qed (simp add: one_unit_def)

lemma fees_subset:
  assumes "get_fees_for_proofs s ps = Inr f" and "qs \<noteq> []" and "set qs \<subseteq> set ps"
  shows "get_fees_for_proofs s qs = Inr (fee_of_ppk (sum_list (List.map (ppk_of s) qs)))"
proof -
  have known: "\<forall>p\<in>set ps. keyset_of s (p_id p) \<noteq> None"
  proof
    fix p assume p: "p \<in> set ps"
    from assms(1) obtain us where "proof_units s ps = Inr us" by (auto simp: get_fees_for_proofs_def bindR_Inr)
    from mapR_InrD[OF this[unfolded proof_units_def] p] show "keyset_of s (p_id p) \<noteq> None"
      by (auto simp: the_keyset_def bindR_Inr)
  qed
  define un where "un = (\<lambda>p :: token_proof. k_unit (the (keyset_of s (p_id p))))"
  have units: "proof_units s rs = Inr (List.map un rs)" if "set rs \<subseteq> set ps" for rs
    using that known by (induction rs) (auto simp: proof_units_def the_keyset_def un_def bindR_Inr)
  have ppks: "proof_ppks s rs = Inr (List.map (ppk_of s) rs)" if "set rs \<subseteq> set ps" for rs
    using that known by (induction rs) (auto simp: proof_ppks_def the_keyset_def ppk_of_def)
  have "one_unit (List.map un ps)" using assms(1) units[of ps] by (auto simp: get_fees_for_proofs_def bindR_Inr)
  then obtain u where u: "\<forall>v\<in>set (List.map un ps). v = u" unfolding one_unit_iff by blast
  then have "\<forall>p\<in>set qs. un p = u" using assms(3) by auto
  then have "List.map un qs \<noteq> [] \<and> (\<forall>v\<in>set (List.map un qs). v = u) \<and> hd (List.map un qs) = u"
    using assms(2) by (cases qs) auto
  then have "one_unit (List.map un qs)" unfolding one_unit_iff by metis
  with units[OF assms(3)] ppks[OF assms(3)] show ?thesis by (simp add: get_fees_for_proofs_def)
qed

lemma spend_fees_bounds:
  assumes "get_fees_for_proofs s ps = Inr f" and "\<forall>k\<in>snd ` set (keysets s). 0 \<le> k_input_fee_ppk k"
  shows "f \<le> sum_list (List.map snd (spend_fees s ps)) \<and>
    sum_list (List.map snd (spend_fees s ps)) < f + int (length (group_by_keyset ps))"
proof -
  have ps: "ps \<noteq> []" using assms(1) by (auto simp: get_fees_for_proofs_def proof_units_def one_unit_def)
  have nonneg: "0 \<le> ppk_of s p" for p
    using assms(2) by (auto simp: ppk_of_def keyset_of_def split: option.splits dest!: map_of_SomeD)
  have "group_fee s g = fee_of_ppk (group_ppk s g)" if "g \<in> set (group_by_keyset ps)" for g
  proof -
    have "0 \<le> group_ppk s g" using nonneg by (auto simp: group_ppk_def intro!: sum_list_nonneg)
    then show ?thesis
      using fees_subset[OF assms(1)] group_facts[OF that] by (simp add: group_fee_def group_ppk_def fee_of_ppk_def)
  qed
  then have "sum_list (List.map snd (spend_fees s ps)) = sum_list (List.map (\<lambda>g. fee_of_ppk (group_ppk s g)) (group_by_keyset ps))"
    by (simp add: spend_fees_def fee_bumps_def comp_def cong: map_cong)
  moreover have "f = fee_of_ppk (sum_list (List.map (group_ppk s) (group_by_keyset ps)))"
    using fees_subset[OF assms(1) ps] assms(1) by (simp add: sum_group_by_keyset)
  ultimately show ?thesis using fees_of_groups[OF group_nonempty[OF ps], of "group_ppk s"] by simp
qed

text \<open>The group of a keyset holds its inputs, in their order.\<close>

lemma map_of_groups:
  "map_of (group_by_keyset ps) kid = (let qs = filter (\<lambda>p. p_id p = kid) ps in if qs = [] then None else Some qs)"
proof -
  have "map_of (foldl (\<lambda>g p. add_to_group p g) g ps) kid =
      (let qs = (case map_of g kid of None \<Rightarrow> [] | Some l \<Rightarrow> l) @ filter (\<lambda>p. p_id p = kid) ps
       in if map_of g kid = None \<and> qs = [] then None else Some qs)" for g
  proof (induction ps arbitrary: g)
    case (Cons p ps)
    show ?case
      by (cases "p_id p = kid"; cases "map_of g kid") (simp_all add: Cons.IH, simp_all add: add_to_group_def update_conv' Let_def)
  qed (auto split: option.splits)
  from this[of "[]"] show ?thesis by (simp add: group_by_keyset_def)
qed

lemma distinct_groups: "distinct (List.map fst (group_by_keyset ps))"
proof -
  have "distinct (List.map fst (foldl (\<lambda>g p. add_to_group p g) g ps))" if "distinct (List.map fst g)" for g
    using that by (induction ps arbitrary: g) (auto simp: add_to_group_def distinct_update)
  from this[of "[]"] show ?thesis by (simp add: group_by_keyset_def)
qed

lemma group_keys: "fst ` set (group_by_keyset ps) = p_id ` set ps"
  using map_of_groups[of ps] by (auto simp: dom_map_of_conv_image_fst[symmetric] Let_def filter_empty_conv split: if_splits)

lemma length_groups: "length (group_by_keyset ps) = card (p_id ` set ps)"
  using distinct_card[OF distinct_groups[of ps]] by (simp add: group_keys)

lemma total_distinct:
  "distinct (List.map fst bs) \<Longrightarrow> total kid bs = (case map_of bs kid of None \<Rightarrow> 0 | Some n \<Rightarrow> n)"
proof (induction bs)
  case (Cons b bs)
  have "total kid bs = 0" if "kid \<notin> fst ` set bs" using that by (induction bs) auto
  with Cons show ?case by auto
qed simp

text \<open>What is booked for a keyset is the fee of its own inputs.\<close>

definition inputs_of :: "string \<Rightarrow> token_proof list \<Rightarrow> token_proof list" where
  "inputs_of kid ps = filter (\<lambda>p. p_id p = kid) ps"

lemma total_spend_fees:
  assumes "get_fees_for_proofs s ps = Inr f" and "\<forall>k\<in>snd ` set (keysets s). 0 \<le> k_input_fee_ppk k"
  shows "total kid (spend_fees s ps) = fee_of_ppk (sum_list (List.map (ppk_of s) (inputs_of kid ps)))"
proof -
  have nonneg: "0 \<le> ppk_of s p" for p
    using assms(2) by (auto simp: ppk_of_def keyset_of_def split: option.splits dest!: map_of_SomeD)
  have m: "map_of (fee_bumps s gs) kid = map_option (\<lambda>qs. group_fee s (kid, qs)) (map_of gs kid)" for gs
    by (induction gs) (auto simp: fee_bumps_def)
  have "distinct (List.map fst (spend_fees s ps))"
    using distinct_groups[of ps] by (simp add: spend_fees_def fee_bumps_def comp_def)
  then have t: "total kid (spend_fees s ps) = (case map_of (group_by_keyset ps) kid of None \<Rightarrow> 0 | Some qs \<Rightarrow> group_fee s (kid, qs))"
    by (simp add: total_distinct) (simp add: spend_fees_def m split: option.splits)
  show ?thesis
  proof (cases "inputs_of kid ps = []")
    case True
    with t show ?thesis by (simp add: map_of_groups Let_def inputs_of_def fee_of_ppk_def)
  next
    case False
    have "get_fees_for_proofs s (inputs_of kid ps) = Inr (fee_of_ppk (sum_list (List.map (ppk_of s) (inputs_of kid ps))))"
      by (rule fees_subset[OF assms(1) False]) (auto simp: inputs_of_def)
    moreover have "0 \<le> sum_list (List.map (ppk_of s) (inputs_of kid ps))"
      using nonneg by (auto intro!: sum_list_nonneg)
    ultimately show ?thesis using t False by (simp add: map_of_groups Let_def inputs_of_def group_fee_def fee_of_ppk_def)
  qed
qed

lemma total_proof_bumps: "total kid (proof_bumps ps) = sum_proofs (inputs_of kid ps)"
  by (induction ps) (auto simp: proof_bumps_def inputs_of_def sum_proofs_def)

text \<open>Rows with distinct ids that hold every id of the list share out its sum.\<close>

lemma sum_if_one: "distinct kids \<Longrightarrow> sum_list (List.map (\<lambda>k. if a = k then n else 0) kids) = (if a \<in> set kids then n else (0 :: int))"
  by (induction kids) auto

lemma sum_of_totals:
  assumes "distinct kids" and "fst ` set bs \<subseteq> set kids"
  shows "sum_list (List.map (\<lambda>kid. total kid bs) kids) = sum_list (List.map snd bs)"
  using assms(2)
proof (induction bs)
  case (Cons b bs)
  have "sum_list (List.map (\<lambda>kid. if fst b = kid then snd b else 0) kids) = snd b"
    using sum_if_one[OF assms(1), of "fst b" "snd b"] Cons.prems by simp
  with Cons show ?case by (simp add: sum_list_addf)
qed simp

definition fees_booked :: "ledger \<Rightarrow> int" where
  "fees_booked s = sum_list (List.map k_fees_paid (keyset_rows (db s)))"

lemma fees_booked_all:
  assumes "distinct (List.map k_id ks)" and "fst ` set bs \<subseteq> k_id ` set ks"
  shows "sum_list (List.map k_fees_paid (fee_all bs (bump_all cs ks))) = sum_list (List.map k_fees_paid ks) + sum_list (List.map snd bs)"
proof -
  have "sum_list (List.map k_fees_paid (fee_all bs (bump_all cs ks))) =
      sum_list (List.map k_fees_paid ks) + sum_list (List.map (\<lambda>kid. total kid bs) (List.map k_id ks))"
    by (simp add: fee_all_def bump_all_def comp_def sum_list_addf)
  then show ?thesis using sum_of_totals[OF assms(1), of bs] assms(2) by simp
qed

text \<open>C20. Spending books the right fees. When the mint invalidates inputs, the row of each keyset loses the
  amounts of its own inputs and books their fee, rounded up for this keyset; over all keysets, what is
  booked is at least the fee that the transaction was charged, rounded up once, and exceeds it by less
  than one for each keyset among the inputs.\<close>

theorem booked_fees_bounds:
  assumes "invalidate_proofs ps qid conn s = (Inr u, t)" and "wf_keysets s"
    and "get_fees_for_proofs s ps = Inr f" and "\<forall>k\<in>snd ` set (keysets s). 0 \<le> k_input_fee_ppk k"
    and "distinct (List.map k_id (keyset_rows (db s)))" and "p_id ` set ps \<subseteq> k_id ` set (keyset_rows (db s))"
  shows "keyset_rows (db t) = List.map (\<lambda>k. k\<lparr>
        k_balance := k_balance k - sum_proofs (inputs_of (k_id k) ps),
        k_fees_paid := k_fees_paid k + fee_of_ppk (sum_list (List.map (ppk_of s) (inputs_of (k_id k) ps)))\<rparr>) (keyset_rows (db s)) \<and>
    f \<le> fees_booked t - fees_booked s \<and> fees_booked t - fees_booked s < f + int (card (p_id ` set ps))"
proof -
  have rows: "keyset_rows (db t) = fee_all (spend_fees s ps) (bump_all (neg_all (proof_bumps ps)) (keyset_rows (db s)))"
    using invalidate_proofs_Ok(1)[OF assms(1,2)] by simp
  have "fst ` set (spend_fees s ps) \<subseteq> k_id ` set (keyset_rows (db s))"
    using assms(6) by (simp add: spend_fees_def fee_bumps_def image_image group_keys)
  from fees_booked_all[OF assms(5) this] have "fees_booked t = fees_booked s + sum_list (List.map snd (spend_fees s ps))"
    by (simp add: fees_booked_def rows)
  then show ?thesis
    using spend_fees_bounds[OF assms(3,4)] length_groups[of ps]
    by (simp add: rows fee_all_def bump_all_def total_spend_fees[OF assms(3,4)] total_proof_bumps)
qed

text \<open>Two inputs of two keysets with a fee of 500 ppk: one unit is charged, two are booked.\<close>

definition two_keysets :: ledger where
  "two_keysets = (let k0 = sample_keyset\<lparr>k_input_fee_ppk := 500\<rparr>; k1 = k0\<lparr>k_id := ''01ks''\<rparr>
     in sample_ledger\<lparr>keysets := [(''00ks'', k0), (''01ks'', k1)], db := empty_db\<lparr>keyset_rows := [k0, k1]\<rparr>\<rparr>)"

definition two_proofs :: "token_proof list" where
  "two_proofs = [sample_proof 4 ''S0'', (sample_proof 4 ''S1'')\<lparr>p_id := ''01ks''\<rparr>]"

theorem booked_fees_bounds_witness:
  "get_fees_for_proofs two_keysets two_proofs = Inr 1 \<and>
   fees_booked (snd (invalidate_proofs two_proofs None False two_keysets)) - fees_booked two_keysets = 2"
proof -
  have f: "get_fees_for_proofs two_keysets two_proofs = Inr 1"
    and r: "isOk (fst (invalidate_proofs two_proofs None False two_keysets))"
      "fees_booked (snd (invalidate_proofs two_proofs None False two_keysets)) - fees_booked two_keysets \<noteq> 1"
    and k: "\<forall>k\<in>snd ` set (keysets two_keysets). 0 \<le> k_input_fee_ppk k"
      "distinct (List.map k_id (keyset_rows (db two_keysets)))"
      "p_id ` set two_proofs \<subseteq> k_id ` set (keyset_rows (db two_keysets))" "card (p_id ` set two_proofs) = 2"
    by code_simp+
  have "wf_keysets two_keysets"
    by (auto simp: two_keysets_def sample_ledger_def wf_keysets_def sample_keyset_def Let_def keyset_of_def split: if_splits)
  from booked_fees_bounds[OF isOk_run[OF r(1)] this f k(1-3)] k(4) r(2) f show ?thesis by auto
qed

end
