(* ===== verification/Blinding.thy ===== *)
theory Blinding
  imports Samples
begin

text \<open>
  Properties of the blind Diffie-Hellman key exchange (theory \<open>Curve\<close>): the exchange between Alice, Bob
  and Carol ends with a signature that verifies, and the search of \<open>hash_to_curve\<close> is a bounded one.
\<close>

section \<open>Hashing to the curve\<close>

text \<open>The candidate for a counter, and the first counter that gives a point.\<close>

definition h2c_candidate :: "curve \<Rightarrow> string \<Rightarrow> nat \<Rightarrow> point option" where
  "h2c_candidate C h n = pt_parse C (char_of (2::nat) # sha256 C (h @ to_bytes_4_little n))"

lemma h2c_loop_find:
  "n \<le> 2 ^ 16 \<Longrightarrow> h2c_loop C h n =
     (case List.find (\<lambda>m. h2c_candidate C h m \<noteq> None) [n..<2 ^ 16] of
        None \<Rightarrow> Inl (ValueError ''No valid point found'')
      | Some m \<Rightarrow> Inr (the (h2c_candidate C h m)))"
proof (induction C h n rule: h2c_loop.induct)
  case (1 C h n)
  show ?case
  proof (cases "n < 2 ^ 16")
    case True
    then have "[n..<2 ^ 16] = n # [Suc n..<2 ^ 16]" by (rule upt_conv_Cons)
    with 1 True show ?thesis
      by (cases "h2c_candidate C h n") (simp_all add: h2c_loop.simps[of C h n] h2c_candidate_def)
  next
    case False
    with "1.prems" have "n = 2 ^ 16" by simp
    then show ?thesis by (subst h2c_loop.simps) simp
  qed
qed

text \<open>\<open>hash_to_curve\<close> ends for every message: it tries the counters below 65536 in order and gives the
  point of the first candidate that is one, and raises exactly when none of them is.\<close>

theorem hash_to_curve_first:
  "hash_to_curve C m =
     (case List.find (\<lambda>n. h2c_candidate C (sha256 C (domain_separator @ m)) n \<noteq> None) [0..<65536] of
        None \<Rightarrow> Inl (ValueError ''No valid point found'')
      | Some n \<Rightarrow> Inr (the (h2c_candidate C (sha256 C (domain_separator @ m)) n)))"
  using h2c_loop_find[of 0 C "sha256 C (domain_separator @ m)"] by (simp add: hash_to_curve_def)

text \<open>The loop of the time before 0.15.0 has no bound: it ends when some hash is a point.\<close>

definition old_candidate :: "curve \<Rightarrow> string \<Rightarrow> nat \<Rightarrow> point option" where
  "old_candidate C m n = pt_parse C (char_of (2::nat) # (sha256 C ^^ Suc n) m)"

lemma old_candidate_Suc: "old_candidate C m (Suc n) = old_candidate C (sha256 C m) n"
  by (simp add: old_candidate_def funpow_swap1)

lemma old_loop_Some:
  "old_candidate C m n \<noteq> None \<Longrightarrow> (\<And>k. k < n \<Longrightarrow> old_candidate C m k = None) \<Longrightarrow>
   hash_to_curve_deprecated C m = old_candidate C m n"
proof (induction n arbitrary: m)
  case 0
  then show ?case by (auto simp: old_candidate_def hash_to_curve_deprecated.simps[of C m] split: option.splits)
next
  case (Suc n)
  have "old_candidate C m 0 = None" using Suc.prems(2) by simp
  then have "hash_to_curve_deprecated C m = hash_to_curve_deprecated C (sha256 C m)"
    by (simp add: old_candidate_def hash_to_curve_deprecated.simps[of C m])
  moreover have "hash_to_curve_deprecated C (sha256 C m) = old_candidate C (sha256 C m) n"
    by (rule Suc.IH) (use Suc.prems in \<open>simp_all add: old_candidate_Suc[symmetric]\<close>)
  ultimately show ?case by (simp add: old_candidate_Suc)
qed

lemma old_loop_None:
  assumes "hash_to_curve_deprecated C m = Some p"
  shows "\<exists>n. old_candidate C m n \<noteq> None"
proof (rule hash_to_curve_deprecated.raw_induct[of "\<lambda>C m p. \<exists>n. old_candidate C m n \<noteq> None", OF _ assms])
  fix f :: "curve \<Rightarrow> string \<Rightarrow> point option" and C m p
  assume IH: "\<And>C m p. f C m = Some p \<Longrightarrow> \<exists>n. old_candidate C m n \<noteq> None"
    and run: "(case pt_parse C (char_of (2::nat) # sha256 C m) of Some p \<Rightarrow> Some p | None \<Rightarrow> f C (sha256 C m)) = Some p"
  show "\<exists>n. old_candidate C m n \<noteq> None"
  proof (cases "old_candidate C m 0")
    case None
    with run have "f C (sha256 C m) = Some p" by (simp add: old_candidate_def)
    from IH[OF this] show ?thesis by (metis old_candidate_Suc)
  qed auto
qed

text \<open>The deprecated loop gives the first of the repeated hashes of the message that is a point, and
  does not end when none is: then the check of an old proof hangs.\<close>

theorem deprecated_hash_first:
  "hash_to_curve_deprecated C m =
     (if \<exists>n. old_candidate C m n \<noteq> None then old_candidate C m (LEAST n. old_candidate C m n \<noteq> None) else None)"
proof (cases "\<exists>n. old_candidate C m n \<noteq> None")
  case True
  define n where "n = (LEAST n. old_candidate C m n \<noteq> None)"
  have "old_candidate C m n \<noteq> None" unfolding n_def using True by (rule LeastI_ex)
  moreover have "old_candidate C m k = None" if "k < n" for k using not_less_Least that unfolding n_def by blast
  ultimately have "hash_to_curve_deprecated C m = old_candidate C m n" by (rule old_loop_Some)
  with True show ?thesis by (simp add: n_def)
next
  case False
  with old_loop_None show ?thesis by (cases "hash_to_curve_deprecated C m") auto
qed

section \<open>The exchange\<close>

text \<open>C18. The exchange: what Alice gets for a secret when she blinds it, Bob signs it and she takes the
  blinding off is accepted by Bob as his signature of the secret, and the proof of equal discrete
  logarithms that Bob attaches is accepted by Alice before, and by Carol after the unblinding.\<close>

theorem exchange_verifies:
  assumes "curve_laws C V K" and "a \<in> K" and "r \<in> K" and "p \<in> K"
    and "step1_alice C m r = Inr (B, r')" and "step2_bob C B a p = Inr (C', e, s)"
  shows "alice_verify_dleq C B C' e s (pt_public C a) = Inr True \<and>
    (\<exists>Cu. step3_alice C C' r' (pt_public C a) = Inr Cu \<and> verify C a Cu m = Inr True \<and>
       carol_verify_dleq C m r' Cu e s (pt_public C a) = Inr True)"
proof -
  obtain Y where Y: "hash_to_curve C (encode_utf8 m) = Inr Y" and r: "r' = r"
    and comb: "pt_combine C Y (pt_public C r) = Some B"
    using assms(5) by (rule step1_aliceE)
  have d: "step2_bob_dleq C B a p = Inr (e, s)" and C': "C' = pk_mul C B a"
    using assms(6) by (auto simp: step2_bob_def bindR_Inr)
  have YV: "Y \<in> V" using assms(1) Y by (rule hash_to_curve_in)
  have "B \<in> V" using combine_in[OF assms(1)] YV public_in[OF assms(1)] assms(3) comb by blast
  with dleq_complete[OF assms(1,2,4) _ d] have "alice_verify_dleq C B C' e s (pt_public C a) = Inr True" by (simp add: C')
  moreover have "step3_alice C C' r' (pt_public C a) = Inr (pk_mul C Y a)"
    using unblind(2)[OF assms(1,2,3,5) Y] by (simp add: C' r)
  moreover have "verify C a (pk_mul C Y a) m = Inr True" by (simp add: verify_def Y)
  moreover have "carol_verify_dleq C m r' (pk_mul C Y a) e s (pt_public C a) = Inr True"
    using carol_complete[OF assms(1,2,3,4,5) d Y] by (simp add: r)
  ultimately show ?thesis by blast
qed

theorem exchange_verifies_witness:
  "alice_verify_dleq z5_curve 3 4 1 4 (pt_public z5_curve 3) = Inr True \<and>
   (\<exists>Cu. step3_alice z5_curve 4 2 (pt_public z5_curve 3) = Inr Cu \<and> verify z5_curve 3 Cu ''S0'' = Inr True)"
proof -
  have r: "step1_alice z5_curve ''S0'' 2 = Inr (3, 2)" "step2_bob z5_curve 3 3 1 = Inr (4, 1, 4)"
    by code_simp+
  from exchange_verifies[OF z5_curve_laws _ _ _ r] show ?thesis by auto
qed

end
