(* ===== verification/Locks.thy ===== *)
theory Locks
  imports Melting
begin

text \<open>
  What the checks of spending conditions guarantee (theory \<open>Conditions\<close>): a lock opens only for enough
  signatures of different keys, and what \<^verbatim>\<open>SIG_ALL\<close> guarantees in a swap and does not in a melt.
\<close>

section \<open>Counting signatures\<close>

text \<open>\<open>n\<close> of the keys signed, each with a signature of its own.\<close>

definition signed_by :: "env \<Rightarrow> string \<Rightarrow> string list \<Rightarrow> string list \<Rightarrow> int \<Rightarrow> bool" where
  "signed_by E msg keys sigs n \<longleftrightarrow> (\<exists>pairs. n \<le> int (length pairs) \<and> distinct (List.map fst pairs) \<and> distinct (List.map snd pairs) \<and>
     (\<forall>(k, g)\<in>set pairs. k \<in> set keys \<and> g \<in> set sigs \<and> verify_schnorr_signature E msg k g = Inr True))"

lemma take_valid_Some:
  "take_valid valid ss = Inr (Some rest) \<Longrightarrow> \<exists>g. valid g = Inr True \<and> mset ss = add_mset g (mset rest)"
proof (induction ss arbitrary: rest)
  case (Cons s ss)
  from Cons.prems obtain b where b: "valid s = Inr b" by (auto simp: bindR_Inr)
  show ?case
  proof (cases b)
    case True
    with Cons.prems b show ?thesis by auto
  next
    case False
    with Cons.prems b obtain rest' where r: "take_valid valid ss = Inr (Some rest')" "rest = s # rest'"
      by (auto simp: bindR_Inr map_option_case split: option.splits)
    with Cons.IH[OF r(1)] show ?thesis by auto
  qed
qed simp

lemma count_valid_pairs:
  assumes "count_valid valid keys sigs = Inr n" and "distinct keys" and "distinct sigs"
  shows "\<exists>pairs. length pairs = n \<and> distinct (List.map fst pairs) \<and> distinct (List.map snd pairs) \<and>
    (\<forall>(k, g)\<in>set pairs. k \<in> set keys \<and> g \<in> set sigs \<and> valid k g = Inr True)"
  using assms
proof (induction keys arbitrary: sigs n)
  case (Cons k ks)
  from Cons.prems(1) obtain r where r: "take_valid (valid k) sigs = Inr r" by (auto simp: bindR_Inr)
  show ?case
  proof (cases r)
    case None
    with Cons.prems r obtain pairs where p: "length pairs = n" "distinct (List.map fst pairs)" "distinct (List.map snd pairs)"
      "\<forall>(k, g)\<in>set pairs. k \<in> set ks \<and> g \<in> set sigs \<and> valid k g = Inr True"
      using Cons.IH[of sigs n] by auto
    then show ?thesis by (intro exI[of _ pairs]) auto
  next
    case (Some rest)
    with Cons.prems(1) r obtain m where m: "count_valid valid ks rest = Inr m" "n = Suc m" by (auto simp: bindR_Inr)
    obtain g where g: "valid k g = Inr True" "mset sigs = add_mset g (mset rest)"
      using take_valid_Some r Some by blast
    have s: "set sigs = insert g (set rest)" using g(2) by (metis set_mset_add_mset_insert set_mset_mset)
    have d: "distinct rest" "g \<notin> set rest"
      using Cons.prems(3) g(2) by (metis distinct.simps(2) mset.simps(2) mset_eq_imp_distinct_iff)+
    obtain pairs where p: "length pairs = m" "distinct (List.map fst pairs)" "distinct (List.map snd pairs)"
      "\<forall>(k, g)\<in>set pairs. k \<in> set ks \<and> g \<in> set rest \<and> valid k g = Inr True"
      using Cons.IH[OF m(1) _ d(1)] Cons.prems(2) by auto
    have "k \<notin> fst ` set pairs" "g \<notin> snd ` set pairs" using p(4) Cons.prems(2) d(2) by auto
    then show ?thesis using p g(1) m(2) s by (intro exI[of _ "(k, g) # pairs"]) auto
  qed
qed simp

text \<open>The iteration order of a Python set: some order of its elements.\<close>

definition set_order_ok :: "env \<Rightarrow> bool" where
  "set_order_ok E \<longleftrightarrow> (\<forall>xs. distinct xs \<longrightarrow> mset (set_order E xs) = mset xs)"

lemma count_signed:
  assumes "count_valid (verify_schnorr_signature E msg) (set_order E keys) sigs = Inr m" and "set_order_ok E"
    and "distinct keys" and "distinct sigs" and "n \<le> int m"
  shows "signed_by E msg keys sigs n"
proof -
  have o: "set (set_order E keys) = set keys" "distinct (set_order E keys)"
    using assms(2,3) unfolding set_order_ok_def by (metis mset_eq_setD, metis mset_eq_imp_distinct_iff)
  show ?thesis
    using count_valid_pairs[OF assms(1) o(2) assms(4)] assms(5) unfolding signed_by_def o(1) by auto
qed

lemma p2pk_signatures_sound:
  assumes "verify_p2pk_signatures E msg keys sigs n = Inr b" and "set_order_ok E"
  shows "b \<and> signed_by E msg (List.map lower keys) (List.map lower sigs) (if n = 0 then 1 else n)"
  using assms(1) count_signed[OF _ assms(2)]
  by (auto simp: verify_p2pk_signatures_def Let_def bindR_Inr split: if_splits)

section \<open>One input\<close>

text \<open>The witness of the input holds \<open>n\<close> signatures of the message by different keys of the list.\<close>

definition opened :: "env \<Rightarrow> token_proof \<Rightarrow> string \<Rightarrow> string list \<Rightarrow> int \<Rightarrow> bool" where
  "opened E p msg keys n \<longleftrightarrow> (\<exists>sigs. p2pksigs p = Inr sigs \<and>
     signed_by E msg (List.map lower keys) (List.map lower sigs) (if n = 0 then 1 else n))"

lemma try_path_sound:
  "try_path E msg keys p n = Inr b \<Longrightarrow> set_order_ok E \<Longrightarrow> b \<and> opened E p msg keys n"
  by (auto simp: try_path_def bindR_Inr opened_def dest!: p2pk_signatures_sound)

text \<open>What opens a lock on one input: the keys of the lock, or after the lock time the refund keys, if any.\<close>

definition lock_opened :: "env \<Rightarrow> token_proof \<Rightarrow> secret \<Rightarrow> string list \<Rightarrow> bool" where
  "lock_opened E p sec own \<longleftrightarrow>
     (\<exists>more n. get_tag_all (s_tags sec) ''pubkeys'' = Inr more \<and> n_sigs sec = Inr n \<and>
        (opened E p (p_secret p) (own @ more) n \<or> own @ more = [] \<or>
         (\<exists>lt refund nr. locktime sec = Inr (Some lt) \<and> before_now E lt \<and> get_tag_all (s_tags sec) ''refund'' = Inr refund \<and>
            n_sigs_refund sec = Inr nr \<and> (refund = [] \<or> opened E p (p_secret p) refund (or_one nr)))))"

lemma verify_p2pk_sig_inputs_sound:
  assumes run: "verify_p2pk_sig_inputs E p sec None = Inr b" and o: "set_order_ok E"
    and flag: "get_tag (s_tags sec) ''sigflag'' = Inr fl" "\<not> truthy_str fl \<or> fl = Some ''SIG_INPUTS''"
    and kind: "secret_kind_of (s_kind sec) = Inr kind"
  shows "b \<and> lock_opened E p sec (if kind = Kind_P2PK then [s_data sec] else [])"
proof -
  let ?own = "if kind = Kind_P2PK then [s_data sec] else []"
  from run flag kind obtain more n where mn: "get_tag_all (s_tags sec) ''pubkeys'' = Inr more" "n_sigs sec = Inr n"
    by (auto simp: verify_p2pk_sig_inputs_def bindR_Inr Let_def truthy_str_def split: if_splits)
  let ?main = "try_path E (p_secret p) (?own @ more) p (if n = 0 then 1 else n)"
  have op: "opened E p m ks (if n = 0 then 1 else n) \<Longrightarrow> opened E p m ks n" for m ks by (auto simp: opened_def split: if_splits)
  show ?thesis
  proof (cases "?own @ more = [] \<or> ?main = Inr True")
    case True
    then have l: "lock_opened E p sec ?own"
      using mn op try_path_sound[OF _ o] unfolding lock_opened_def by blast
    have "b"
      using run flag kind mn True try_path_sound[OF _ o]
      by (auto simp: verify_p2pk_sig_inputs_def bindR_Inr Let_def truthy_str_def split: if_splits sum.splits bool.splits option.splits)
    with l show ?thesis by simp
  next
    case False
    obtain e where e: "?main = Inl e"
    proof (cases ?main)
      case (Inr c)
      from try_path_sound[OF Inr o] Inr False show thesis by simp
    qed
    from run flag kind mn False e obtain lt where lt: "locktime sec = Inr lt" "truthy_int lt" "before_now E (the lt)"
      by (auto simp: verify_p2pk_sig_inputs_def bindR_Inr Let_def truthy_str_def split: if_splits)
    from run flag kind mn False e lt obtain refund nr where r: "get_tag_all (s_tags sec) ''refund'' = Inr refund" "n_sigs_refund sec = Inr nr"
      "refund = [] \<and> b \<or> (case try_path E (p_secret p) refund p (or_one nr) of Inr True \<Rightarrow> Inr True
        | Inr False \<Rightarrow> (case Some e of Some x \<Rightarrow> Inl x | None \<Rightarrow> Inr True) | Inl e \<Rightarrow> Inl e) = Inr b"
      by (auto simp: verify_p2pk_sig_inputs_def bindR_Inr Let_def truthy_str_def split: if_splits)
    then have "b \<and> (refund = [] \<or> opened E p (p_secret p) refund (or_one nr))"
      using try_path_sound[OF _ o, of "p_secret p" refund p "or_one nr"]
      by (cases "try_path E (p_secret p) refund p (or_one nr)") (auto split: bool.splits)
    with lt r mn show ?thesis unfolding lock_opened_def by (cases lt) (auto simp: truthy_int_def)
  qed
qed

text \<open>The hash lock: the preimage, as 64 hexadecimal digits, hashes to the data of the secret.\<close>

definition preimage_given :: "env \<Rightarrow> token_proof \<Rightarrow> secret \<Rightarrow> bool" where
  "preimage_given E p sec \<longleftrightarrow> (\<exists>pre pb db. htlcpreimage p = Inr (Some pre) \<and> length pre = 64 \<and>
     from_hex pre = Some pb \<and> from_hex (s_data sec) = Some db \<and> sha256 (crv E) pb = db)"

lemma verify_htlc_sound:
  assumes "verify_htlc_spending_conditions E p = Inr b" and "deserialize (p_secret p) = Inr sec"
  shows "b \<and> s_kind sec = ''HTLC'' \<and>
    (preimage_given E p sec \<or> (\<exists>lt. locktime sec = Inr (Some lt) \<and> not_after_now E lt))"
proof -
  from assms obtain h pre lt where h: "s_kind sec = ''HTLC''" "htlc_from_secret sec = Inr h" "htlcpreimage p = Inr pre" "locktime h = Inr lt"
    by (auto simp: verify_htlc_spending_conditions_def bindR_Inr)
  have hs: "h = sec" using h(2) by (auto simp: htlc_from_secret_def bindR_Inr)
  show ?thesis
  proof (cases "truthy_str pre")
    case True
    then obtain x where x: "pre = Some x" by (auto simp: truthy_str_def split: option.splits)
    from assms h hs True x have "b" "preimage_matches E x (s_data sec) = Inr ()"
      by (auto simp: verify_htlc_spending_conditions_def bindR_Inr Let_def)
    moreover from this(2) have "preimage_given E p sec"
      using h(3) x by (auto simp: preimage_matches_def bindR_Inr preimage_given_def split: option.splits)
    ultimately show ?thesis using h(1) by simp
  next
    case False
    with assms h hs show ?thesis
      by (auto simp: verify_htlc_spending_conditions_def bindR_Inr Let_def split: option.splits if_splits)
  qed
qed


definition lock_secret :: "string \<Rightarrow> tags \<Rightarrow> string" where
  "lock_secret n ts = serialize \<lparr>s_kind = ''P2PK'', s_data = ''0201'', s_tags = ts, s_nonce = Some n\<rparr> []"

text \<open>On the small curve the signature of a key is the key's byte and the hash of the message.\<close>

definition locked_proof :: token_proof where
  "locked_proof = (sample_proof 8 (lock_secret ''n'' []))
     \<lparr>p_witness := Some (json_dumps (JObj [(''signatures'', JList [JStr ''0101''])]))\<rparr>"


section \<open>All inputs together\<close>

lemma sigall_has_tag: "requires_sigall p \<Longrightarrow> has_sig_all_tag p"
  by (auto simp: requires_sigall_def has_sig_all_tag_def sigflag_def p2pk_from_secret_def htlc_from_secret_def sig_flag_of_def
      bindR_Inr truthy_str_def split: sum.splits if_splits option.splits)

lemma equal_secrets:
  assumes "verify_all_secrets_equal_and_return ps = Inr sec"
  shows "ps \<noteq> [] \<and> deserialize (p_secret (hd ps)) = Inr sec \<and>
    (\<forall>p\<in>set ps. \<exists>s. deserialize (p_secret p) = Inr s \<and> secret_eq sec s)"
proof -
  from assms obtain all where "mapR (\<lambda>p. deserialize (p_secret p)) ps = Inr all"
    "(case all of [] \<Rightarrow> Inl (tx_error ''not all secrets are equal.'')
      | s # ss \<Rightarrow> bindR (checkR (list_all (secret_eq s) ss) (tx_error ''not all secrets are equal.'')) (\<lambda>_. Inr s)) = Inr sec"
    by (auto simp: verify_all_secrets_equal_and_return_def bindR_Inr)
  then obtain ss where m: "mapR (\<lambda>p. deserialize (p_secret p)) ps = Inr (sec # ss)" and e: "list_all (secret_eq sec) ss"
    by (cases all) (auto simp: bindR_Inr)
  from m obtain p qs where ps: "ps = p # qs" "deserialize (p_secret p) = Inr sec" "mapR (\<lambda>p. deserialize (p_secret p)) qs = Inr ss"
    by (cases ps) (auto simp: bindR_Inr)
  have "\<exists>s. deserialize (p_secret q) = Inr s \<and> secret_eq sec s" if "q \<in> set qs" for q
    using that ps(3) e by (auto simp: mapR_Inr list_all2_conv_all_nth in_set_conv_nth list_all_length)
  with ps show ?thesis by auto
qed

lemma sigall_signatures_sound:
  assumes "check_sigall_signatures E msg keys n ps = Inr b" and "set_order_ok E"
  shows "b \<and> 0 < n \<and> (\<exists>sigs. p2pk_witness_signatures (the (p_witness (hd ps))) = Inr sigs \<and>
    signed_by E msg (List.map lower keys) (List.map lower sigs) n)"
  using assms(1) count_signed[OF _ assms(2)]
  by (auto simp: check_sigall_signatures_def Let_def bindR_Inr split: list.splits)

lemma sigall_conditions_sound:
  assumes "verify_input_output_spending_conditions E ps outs None = Inr b" and "inputs_require_sigall ps" and "set_order_ok E"
  shows "\<exists>sec kind keys n. deserialize (p_secret (hd ps)) = Inr sec \<and>
    (\<forall>p\<in>set ps. \<exists>s. deserialize (p_secret p) = Inr s \<and> secret_eq sec s) \<and>
    secret_kind_of (s_kind sec) = Inr kind \<and> sigall_lock E sec kind = Inr (keys, n) \<and>
    (keys = [] \<or> 0 < n \<and> (\<exists>sigs. p2pk_witness_signatures (the (p_witness (hd ps))) = Inr sigs \<and>
       signed_by E (sigall_message ps outs) (List.map lower keys) (List.map lower sigs) n))"
proof -
  from assms(1,2) obtain sec where sec: "verify_all_secrets_equal_and_return ps = Inr sec"
    and run: "verify_sigall_spending_conditions E ps outs None = Inr b"
    by (auto simp: verify_input_output_spending_conditions_def bindR_Inr)
  have "check_at_least_one_sig_all ps"
    using assms(2) sigall_has_tag by (auto simp: inputs_require_sigall_def check_at_least_one_sig_all_def list_ex_iff)
  with run sec obtain kind s keys n where k: "secret_kind_of (s_kind sec) = Inr kind"
    "(if kind = Kind_P2PK then p2pk_from_secret sec else htlc_from_secret sec) = Inr s" "sigall_lock E s kind = Inr (keys, n)"
    and r: "keys = [] \<and> b \<or> keys \<noteq> [] \<and> check_sigall_signatures E (sigall_message ps outs) keys n ps = Inr b"
    by (auto simp: verify_sigall_spending_conditions_def bindR_Inr truthy_str_def split: if_splits)
  have "s = sec" using k(2) by (auto simp: p2pk_from_secret_def htlc_from_secret_def bindR_Inr split: if_splits)
  with k(1,3) r equal_secrets[OF sec] sigall_signatures_sound[OF _ assms(3)] show ?thesis by blast
qed

text \<open>A swap that is accepted has passed the check of inputs and outputs together.\<close>

lemma swap_conditions:
  assumes "swap E ps outs s = (Inr sigs, t)"
  obtains b where "verify_input_output_spending_conditions E ps outs None = Inr b"
proof -
  have "verify_inputs_and_outputs E s ps (Some outs) = Inr ()"
    using assms unfolding swap_def by (auto elim!: thenS_OkE)
  with that show thesis by (auto simp: verify_inputs_and_outputs_def bindR_Inr)
qed


definition sig_all_tag :: tags where
  "sig_all_tag = [[''sigflag'', ''SIG_ALL'']]"

definition all_signed :: "token_proof list" where
  "all_signed = [(sample_proof 8 (lock_secret ''n'' sig_all_tag))
     \<lparr>p_witness := Some (json_dumps (JObj [(''signatures'', JList [JStr ''0101''])]))\<rparr>]"


section \<open>The gap in melts\<close>

text \<open>
  \<^verbatim>\<open>melt\<close> calls the check of \<^verbatim>\<open>SIG_ALL\<close> and drops the answer. The check answers \<open>False\<close>, and raises
  nothing, when the secrets are not all equal; the check of a single input leaves \<^verbatim>\<open>SIG_ALL\<close> inputs to it.
  So a locked proof next to any other one is melted without a signature.
\<close>

lemma mapR_each: "(\<exists>ys. mapR f xs = Inr ys) \<longleftrightarrow> (\<forall>x\<in>set xs. \<exists>y. f x = Inr y)"
  by (induction xs) (auto simp: bindR_Inr)

lemma mapR_each_true: "(\<exists>bs. mapR f xs = Inr bs \<and> list_all (\<lambda>b. b) bs) \<longleftrightarrow> (\<forall>x\<in>set xs. f x = Inr True)"
proof -
  have "(\<forall>x\<in>set xs. f x = Inr True) \<Longrightarrow> mapR f xs = Inr (List.map (\<lambda>_. True) xs)" by (induction xs) auto
  then show ?thesis by (auto simp: list_all_iff dest: mapR_all_True[unfolded list_all_iff])
qed

lemma verify_inputs_iff:
  "verify_inputs E s ps = Inr () \<longleftrightarrow> ps \<noteq> [] \<and> distinct (List.map p_secret ps) \<and>
     (\<forall>p\<in>set ps. (\<exists>a. verify_amount E (p_amount p) = Inr a) \<and> (\<exists>b. verify_secret_criteria E p = Inr b) \<and>
       (\<exists>b. verify_input_witness_criteria E p = Inr b) \<and> verify_proof_bdhke E s p = Inr True \<and>
       verify_input_spending_conditions E p = Inr True)"
  unfolding ball_conj_distrib mapR_each[symmetric] mapR_each_true[symmetric]
  by (auto simp: verify_inputs_def bindR_Inr)

text \<open>A proof that is locked to a key with \<^verbatim>\<open>SIG_ALL\<close>, as somebody without that key can make it.\<close>

definition without_signature :: "token_proof \<Rightarrow> token_proof" where
  "without_signature p = (case deserialize (p_secret p) of Inl _ \<Rightarrow> p
     | Inr sec \<Rightarrow> if s_kind sec = ''P2PK'' \<and> get_tag (s_tags sec) ''sigflag'' = Inr (Some ''SIG_ALL'') then p\<lparr>p_witness := None\<rparr> else p)"

lemma without_signature_same [simp]:
  "p_secret (without_signature p) = p_secret p" "p_amount (without_signature p) = p_amount p"
  "p_id (without_signature p) = p_id p" "p_C (without_signature p) = p_C p"
  by (auto simp: without_signature_def split: sum.splits)

lemma without_signature_lists [simp]:
  "List.map (p_secret \<circ> without_signature) ps = List.map p_secret ps" "sum_proofs (List.map without_signature ps) = sum_proofs ps"
  "get_fees_for_proofs s (List.map without_signature ps) = get_fees_for_proofs s ps"
  "verify_all_secrets_equal_and_return (List.map without_signature ps) = verify_all_secrets_equal_and_return ps"
  "check_at_least_one_sig_all (List.map without_signature ps) = check_at_least_one_sig_all ps"
  "melt_message (List.map without_signature ps) outs qid = melt_message ps outs qid"
proof -
  have m: "mapR f (List.map without_signature ps) = mapR f ps" if "\<And>p. f (without_signature p) = f p" for f :: "token_proof \<Rightarrow> error + 'a"
    using that by (induction ps) auto
  show "List.map (p_secret \<circ> without_signature) ps = List.map p_secret ps" "sum_proofs (List.map without_signature ps) = sum_proofs ps"
    "melt_message (List.map without_signature ps) outs qid = melt_message ps outs qid"
    by (simp_all add: sum_proofs_def comp_def melt_message_def)
  show "get_fees_for_proofs s (List.map without_signature ps) = get_fees_for_proofs s ps"
    by (simp add: get_fees_for_proofs_def proof_units_def proof_ppks_def m)
  show "verify_all_secrets_equal_and_return (List.map without_signature ps) = verify_all_secrets_equal_and_return ps"
    by (simp add: verify_all_secrets_equal_and_return_def m)
  show "check_at_least_one_sig_all (List.map without_signature ps) = check_at_least_one_sig_all ps"
    by (auto simp: check_at_least_one_sig_all_def has_sig_all_tag_def list_ex_iff)
qed

lemma conditions_without_signature:
  "verify_input_spending_conditions E p = Inr True \<Longrightarrow> verify_input_spending_conditions E (without_signature p) = Inr True"
  by (auto simp: verify_input_spending_conditions_def without_signature_def bindR_Inr verify_p2pk_sig_inputs_def
      p2pk_from_secret_def secret_kind_of_def truthy_str_def split: sum.splits if_splits)

lemma verify_inputs_unsigned: "verify_inputs E s ps = Inr () \<Longrightarrow> verify_inputs E s (List.map without_signature ps) = Inr ()"
proof -
  have w: "\<exists>b. verify_input_witness_criteria E (without_signature p) = Inr b" if "verify_input_witness_criteria E p = Inr b" for p b
    using that by (auto simp: without_signature_def verify_input_witness_criteria_def split: sum.splits)
  have "verify_proof_bdhke E s (without_signature p) = verify_proof_bdhke E s p"
    "verify_secret_criteria E (without_signature p) = verify_secret_criteria E p" for p
    by (simp_all add: verify_proof_bdhke_def verify_secret_criteria_def)
  then show "verify_inputs E s ps = Inr () \<Longrightarrow> verify_inputs E s (List.map without_signature ps) = Inr ()"
    unfolding verify_inputs_iff using w conditions_without_signature by auto
qed

lemma sigall_check_false:
  assumes "verify_all_secrets_equal_and_return ps = Inl e" and "inputs_require_sigall ps"
  shows "verify_sigall_spending_conditions E ps outs m = Inr False"
proof -
  have "check_at_least_one_sig_all ps"
    using assms(2) sigall_has_tag by (auto simp: inputs_require_sigall_def check_at_least_one_sig_all_def list_ex_iff)
  with assms(1) show ?thesis by (simp add: verify_sigall_spending_conditions_def)
qed

lemma swap_refused_unequal:
  assumes "verify_all_secrets_equal_and_return ps = Inl e" and "inputs_require_sigall ps"
  shows "swap E ps outs s \<noteq> (Inr sigs, t)"
  using assms swap_conditions[of E ps outs s sigs t] by (auto simp: verify_input_output_spending_conditions_def bindR_Inr)

text \<open>C17. A lock with \<^verbatim>\<open>SIG_ALL\<close> is void in a melt that mixes it with any other secret. When the secrets are
  not all equal and one asks for \<^verbatim>\<open>SIG_ALL\<close>, every swap is refused, but the check that the melt makes
  answers \<open>False\<close> and raises nothing, and whatever the checks of a melt accept they accept, with the
  same result, after the witnesses of all proofs locked to a key with \<^verbatim>\<open>SIG_ALL\<close> are taken away.\<close>

theorem sigall_melt_unsigned:
  assumes "verify_all_secrets_equal_and_return ps = Inl e" and "inputs_require_sigall ps"
    and "melt_checks E ps qid outs q s = Inr v"
  shows "swap E ps new s' \<noteq> (Inr sigs, t) \<and>
    verify_sigall_spending_conditions E ps outs (Some (melt_message ps outs qid)) = Inr False \<and>
    melt_checks E (List.map without_signature ps) qid outs q s = Inr v"
proof -
  have f: "verify_sigall_spending_conditions E ps outs (Some (melt_message ps outs qid)) = Inr False"
    by (rule sigall_check_false[OF assms(1,2)])
  have g: "verify_sigall_spending_conditions E (List.map without_signature ps) outs (Some (melt_message ps outs qid)) = Inr False"
    using f assms(1) by (simp add: verify_sigall_spending_conditions_def split: if_splits)
  have "melt_checks E (List.map without_signature ps) qid outs q s = Inr v"
    using assms(3) f g verify_inputs_unsigned[of E s ps]
    by (auto simp: melt_checks_def bindR_Inr check_melt_amounts_def verify_inputs_and_outputs_def Let_def)
  with f swap_refused_unequal[OF assms(1,2)] show ?thesis by blast
qed

text \<open>Two proofs, one of them locked to a key with \<^verbatim>\<open>SIG_ALL\<close>, and the same without the signature: they pay an
  invoice and are recorded as spent.\<close>

definition mixed :: "token_proof list" where
  "mixed = [(sample_proof 4 (lock_secret ''n'' sig_all_tag))
     \<lparr>p_witness := Some (json_dumps (JObj [(''signatures'', JList [JStr ''0101''])]))\<rparr>, sample_proof 4 ''spare'']"

definition stolen :: "token_proof list" where
  "stolen = [sample_proof 4 (lock_secret ''n'' sig_all_tag), sample_proof 4 ''spare'']"

lemma stolen_melted:
  "list_all (\<lambda>p. p_witness p = None) stolen"
  "case melt sample_env stolen ''m1'' None (melt_start LQ_unpaid) of
      (Inr resp, t) \<Rightarrow> mr_paid resp = Some True \<and> length (proofs_used (db t)) = 2
    | (Inl e, t) \<Rightarrow> False"
  by code_simp+

theorem sigall_melt_unsigned_witness:
  "(\<nexists>sigs t. swap sample_env mixed swap_out sample_ledger = (Inr sigs, t)) \<and>
   isOk (melt_checks sample_env stolen ''m1'' [] (sample_melt_quote LQ_unpaid) (melt_start LQ_unpaid))"
proof -
  have u: "verify_all_secrets_equal_and_return mixed = Inl (ValueError ''Expecting value'')" "inputs_require_sigall mixed"
    and v: "isOk (melt_checks sample_env mixed ''m1'' [] (sample_melt_quote LQ_unpaid) (melt_start LQ_unpaid))"
    and m: "List.map without_signature mixed = stolen"
    by code_simp+
  from v obtain v where "melt_checks sample_env mixed ''m1'' [] (sample_melt_quote LQ_unpaid) (melt_start LQ_unpaid) = Inr v"
    by (auto simp: isOk_iff)
  from sigall_melt_unsigned[OF u this, unfolded m] show ?thesis by (blast intro: isOk_iff[THEN iffD2])
qed

end
