(* ===== verification/Base64.thy ===== *)
theory Base64
  imports Curve
begin

text \<open>
  What the code uses of Python's module \<^verbatim>\<open>base64\<close>: \<^verbatim>\<open>b64encode\<close>, \<^verbatim>\<open>urlsafe_b64encode\<close>, \<^verbatim>\<open>b64decode\<close> (with
  and without \<^verbatim>\<open>validate=True\<close>) and \<^verbatim>\<open>urlsafe_b64decode\<close>, as in Python 3.10, the version the
  project is run with. A byte string is a list of characters. At the end: decoding UTF-8, for texts
  with code points below 256.

  The decoder \<open>a2b\<close> is the state machine of \<^verbatim>\<open>binascii.a2b_base64\<close>: the number of characters read of
  a group of four, the bits left over, and the padding characters seen. A character outside the
  alphabet is skipped.
\<close>

section \<open>The alphabet\<close>

definition b64_digit :: "bool \<Rightarrow> nat \<Rightarrow> char" where
  "b64_digit urlsafe n =
     (if n < 26 then char_of (65 + n) else if n < 52 then char_of (71 + n)
      else if n < 62 then char_of (n - 4)
      else if n = 62 then (if urlsafe then CHR ''-'' else CHR ''+'')
      else (if urlsafe then CHR ''_'' else CHR ''/''))"

definition b64_val :: "char \<Rightarrow> nat option" where
  "b64_val c = (let n = (of_char c :: nat) in
     if 65 \<le> n \<and> n \<le> 90 then Some (n - 65)
     else if 97 \<le> n \<and> n \<le> 122 then Some (n - 71)
     else if 48 \<le> n \<and> n \<le> 57 then Some (n + 4)
     else if n = 43 then Some 62 else if n = 47 then Some 63 else None)"

section \<open>Encoding\<close>

fun b64_encode :: "bool \<Rightarrow> string \<Rightarrow> string" where
  "b64_encode u [] = []"
| "b64_encode u [a] = (let x = (of_char a :: nat)
     in [b64_digit u (x div 4), b64_digit u (x mod 4 * 16), CHR ''='', CHR ''=''])"
| "b64_encode u [a, b] = (let x = (of_char a :: nat); y = (of_char b :: nat)
     in [b64_digit u (x div 4), b64_digit u (x mod 4 * 16 + y div 16), b64_digit u (y mod 16 * 4), CHR ''=''])"
| "b64_encode u (a # b # c # rest) =
     (let x = (of_char a :: nat); y = (of_char b :: nat); z = (of_char c :: nat)
      in [b64_digit u (x div 4), b64_digit u (x mod 4 * 16 + y div 16),
          b64_digit u (y mod 16 * 4 + z div 64), b64_digit u (z mod 64)] @ b64_encode u rest)"

section \<open>Decoding\<close>

fun a2b :: "nat \<Rightarrow> nat \<Rightarrow> nat \<Rightarrow> string \<Rightarrow> string option" where
  "a2b quad left pads [] = (if quad = 0 then Some [] else None)"
| "a2b quad left pads (c # cs) =
     (if c = CHR ''='' then
        (if 2 \<le> quad then
           (if 4 \<le> quad + Suc pads then Some [] else a2b quad left (Suc pads) cs)
         else a2b quad left pads cs)
      else case b64_val c of
        None \<Rightarrow> a2b quad left pads cs
      | Some v \<Rightarrow>
          if quad = 0 then a2b 1 v 0 cs
          else if quad = 1 then map_option (\<lambda>r. char_of (left * 4 + v div 16) # r) (a2b 2 (v mod 16) 0 cs)
          else if quad = 2 then map_option (\<lambda>r. char_of (left * 16 + v div 4) # r) (a2b 3 (v mod 4) 0 cs)
          else map_option (\<lambda>r. char_of (left * 64 + v) # r) (a2b 0 0 0 cs))"

text \<open>The argument of the decoders is a text; it must be ASCII. \<open>None\<close> is \<^verbatim>\<open>ValueError\<close>.\<close>

definition is_ascii :: "string \<Rightarrow> bool" where
  "is_ascii s = list_all (\<lambda>c. (of_char c :: nat) < 128) s"

definition b64_decode :: "string \<Rightarrow> string option" where
  "b64_decode s = (if is_ascii s then a2b 0 0 0 s else None)"

definition plus_slash :: "char \<Rightarrow> char" where
  "plus_slash c = (if c = CHR ''-'' then CHR ''+'' else if c = CHR ''_'' then CHR ''/'' else c)"

definition urlsafe_b64_decode :: "string \<Rightarrow> string option" where
  "urlsafe_b64_decode s = b64_decode (List.map plus_slash s)"

text \<open>\<^verbatim>\<open>validate=True\<close>: the whole text matches \<^verbatim>\<open>[A-Za-z0-9+/]*={0,2}\<close>.\<close>

definition b64_valid :: "string \<Rightarrow> bool" where
  "b64_valid s = (dropWhile (\<lambda>c. b64_val c \<noteq> None) s \<in> {[], ''='', ''==''})"

definition b64_decode_validate :: "string \<Rightarrow> string option" where
  "b64_decode_validate s = (if b64_valid s then b64_decode s else None)"

text \<open>\<^verbatim>\<open>s.rstrip("=")\<close>.\<close>

definition rstrip_eq :: "string \<Rightarrow> string" where
  "rstrip_eq s = rev (dropWhile (\<lambda>c. c = CHR ''='') (rev s))"

section \<open>Decoding undoes encoding\<close>

lemma of_b64_digit:
  "n < 64 \<Longrightarrow> of_char (b64_digit u n) =
     (if n < 26 then 65 + n else if n < 52 then 71 + n else if n < 62 then n - 4
      else if n = 62 then (if u then 45 else 43) else (if u then 95 else (47 :: nat)))"
  by (auto simp: b64_digit_def of_char_of)

lemma plus_slash_digit: "n < 64 \<Longrightarrow> plus_slash (b64_digit u n) = b64_digit False n"
proof -
  assume n: "n < 64"
  have inj: "c = d \<longleftrightarrow> of_char c = (of_char d :: nat)" for c d :: char
    by (metis char_of_char)
  have c: "c = CHR ''-'' \<longleftrightarrow> of_char c = (45 :: nat)" "c = CHR ''_'' \<longleftrightarrow> of_char c = (95 :: nat)" for c
    by (subst inj, simp)+
  show ?thesis unfolding plus_slash_def c using of_b64_digit[OF n, of u] n by (auto simp: b64_digit_def)
qed

lemma b64_digit_val:
  assumes "n < 64"
  shows "b64_val (plus_slash (b64_digit u n)) = Some n" and "plus_slash (b64_digit u n) \<noteq> CHR ''=''"
    and "CHR ''='' \<noteq> b64_digit u n" and "(of_char (plus_slash (b64_digit u n)) :: nat) < 128"
proof -
  note o = of_b64_digit[OF assms]
  show "b64_val (plus_slash (b64_digit u n)) = Some n" "(of_char (plus_slash (b64_digit u n)) :: nat) < 128"
    using o[of False] assms by (auto simp: plus_slash_digit[OF assms] b64_val_def Let_def)
  have eq: "c \<noteq> CHR ''=''" if "of_char c \<noteq> (61 :: nat)" for c using that by auto
  show "plus_slash (b64_digit u n) \<noteq> CHR ''=''"
    unfolding plus_slash_digit[OF assms] by (rule eq) (use o[of False] assms in auto)
  have "b64_digit u n \<noteq> CHR ''=''" by (rule eq) (use o[of u] assms in auto)
  then show "CHR ''='' \<noteq> b64_digit u n" by (rule not_sym)
qed

text \<open>An encoding without its padding.\<close>

fun b64_nopad :: "bool \<Rightarrow> string \<Rightarrow> string" where
  "b64_nopad u [] = []"
| "b64_nopad u [a] = take 2 (b64_encode u [a])"
| "b64_nopad u [a, b] = take 3 (b64_encode u [a, b])"
| "b64_nopad u (a # b # c # rest) = take 4 (b64_encode u (a # b # c # rest)) @ b64_nopad u rest"

lemma digit_bounds:
  fixes a b c :: char
  defines "x \<equiv> (of_char a :: nat)" and "y \<equiv> (of_char b :: nat)" and "z \<equiv> (of_char c :: nat)"
  shows "x div 4 < 64" "x mod 4 * 16 < 64" "x mod 4 * 16 + y div 16 < 64" "y mod 16 * 4 < 64"
    "y mod 16 * 4 + z div 64 < 64" "z mod 64 < 64" "y div 16 < 16" "z div 64 < 4"
proof -
  have "x < 256" "y < 256" "z < 256" by (simp_all add: x_def y_def z_def)
  then show "x div 4 < 64" "x mod 4 * 16 < 64" "x mod 4 * 16 + y div 16 < 64" "y mod 16 * 4 < 64"
    "y mod 16 * 4 + z div 64 < 64" "z mod 64 < 64" "y div 16 < 16" "z div 64 < 4"
    by linarith+
qed

lemma encode_nopad: "\<exists>k. b64_encode u s = b64_nopad u s @ replicate k CHR ''='' \<and> CHR ''='' \<notin> set (b64_nopad u s)"
proof (induction u s rule: b64_nopad.induct)
  case (2 u a)
  show ?case using b64_digit_val(3)[OF digit_bounds(1)[of a]] b64_digit_val(3)[OF digit_bounds(2)[of a]]
    by (intro exI[of _ 2]) (auto simp: Let_def numeral_2_eq_2)
next
  case (3 u a b)
  show ?case using b64_digit_val(3)[OF digit_bounds(1)[of a]] b64_digit_val(3)[OF digit_bounds(3)[of a b]]
      b64_digit_val(3)[OF digit_bounds(4)[of b]]
    by (intro exI[of _ 1]) (auto simp: Let_def)
next
  case (4 u a b c rest)
  then obtain k where "b64_encode u rest = b64_nopad u rest @ replicate k CHR ''=''" "CHR ''='' \<notin> set (b64_nopad u rest)"
    by blast
  then show ?case using b64_digit_val(3)[OF digit_bounds(1)[of a]] b64_digit_val(3)[OF digit_bounds(3)[of a b]]
      b64_digit_val(3)[OF digit_bounds(5)[of b c]] b64_digit_val(3)[OF digit_bounds(6)[of c]]
    by (intro exI[of _ k]) (auto simp: Let_def)
qed auto

lemma rstrip_eq_replicate: "CHR ''='' \<notin> set s \<Longrightarrow> rstrip_eq (s @ replicate k CHR ''='') = s"
proof -
  assume "CHR ''='' \<notin> set s"
  then have "dropWhile (\<lambda>c. c = CHR ''='') (rev s) = rev s" by (cases "rev s") (auto dest: arg_cong[where f = set])
  moreover have "dropWhile (\<lambda>c. c = CHR ''='') (replicate k CHR ''='' @ rev s) = dropWhile (\<lambda>c. c = CHR ''='') (rev s)"
    by (induction k) auto
  ultimately show ?thesis by (simp add: rstrip_eq_def)
qed

lemma rstrip_encode: "rstrip_eq (b64_encode u s) = b64_nopad u s"
  using encode_nopad[of u s] rstrip_eq_replicate by auto

lemma a2b_only_eq: "a2b 0 l p (replicate n CHR ''='') = Some []"
  by (induction n) auto

lemma a2b_nopad:
  "(length (b64_nopad u s) + n) mod 4 = 0 \<Longrightarrow>
   a2b 0 l p (List.map plus_slash (b64_nopad u s) @ replicate n CHR ''='') = Some s"
proof (induction u s arbitrary: l p rule: b64_nopad.induct)
  case (1 u)
  then show ?case by (simp add: a2b_only_eq)
next
  case (2 u a)
  then have "\<exists>m. n = Suc (Suc m)" by (auto simp: Let_def) presburger
  then obtain m where n: "n = Suc (Suc m)" ..
  note v = b64_digit_val[OF digit_bounds(1)[of a], of u] b64_digit_val[OF digit_bounds(2)[of a], of u]
  have "of_char a div 4 * 4 + of_char a mod 4 * 16 div 16 = (of_char a :: nat)" by simp
  then show ?case using v by (simp add: Let_def n numeral_2_eq_2)
next
  case (3 u a b)
  then have "\<exists>m. n = Suc m" by (auto simp: Let_def) presburger
  then obtain m where n: "n = Suc m" ..
  note v = b64_digit_val[OF digit_bounds(1)[of a], of u] b64_digit_val[OF digit_bounds(3)[of a b], of u]
    b64_digit_val[OF digit_bounds(4)[of b], of u]
  have "of_char a div 4 * 4 + (of_char a mod 4 * 16 + of_char b div 16) div 16 = (of_char a :: nat)"
    and "(of_char a mod 4 * 16 + of_char b div 16) mod 16 * 16 + of_char b mod 16 * 4 div 4 = (of_char b :: nat)"
    using digit_bounds(7)[of b] by simp_all
  then show ?case using v by (simp add: Let_def n)
next
  case (4 u a b c rest)
  let ?x = "of_char a :: nat" and ?y = "of_char b :: nat" and ?z = "of_char c :: nat"
  note v = b64_digit_val[OF digit_bounds(1)[of a], of u] b64_digit_val[OF digit_bounds(3)[of a b], of u]
    b64_digit_val[OF digit_bounds(5)[of b c], of u] b64_digit_val[OF digit_bounds(6)[of c], of u]
  have "?x div 4 * 4 + (?x mod 4 * 16 + ?y div 16) div 16 = ?x"
    and "(?x mod 4 * 16 + ?y div 16) mod 16 * 16 + (?y mod 16 * 4 + ?z div 64) div 4 = ?y"
    and "(?y mod 16 * 4 + ?z div 64) mod 4 * 64 + ?z mod 64 = ?z"
    using digit_bounds(7)[of b] digit_bounds(8)[of c] by simp_all
  moreover have "a2b 0 0 0 (List.map plus_slash (b64_nopad u rest) @ replicate n CHR ''='') = Some rest"
    by (rule 4(1)) (use 4(2) in \<open>simp add: Let_def\<close>)
  ultimately show ?case using v by (simp add: Let_def)
qed

lemma ascii_nopad: "is_ascii (List.map plus_slash (b64_nopad u s))"
proof (induction u s rule: b64_nopad.induct)
  case (2 u a)
  show ?case using b64_digit_val(4)[OF digit_bounds(1)[of a], of u] b64_digit_val(4)[OF digit_bounds(2)[of a], of u]
    by (simp add: Let_def is_ascii_def)
next
  case (3 u a b)
  show ?case using b64_digit_val(4)[OF digit_bounds(1)[of a], of u] b64_digit_val(4)[OF digit_bounds(3)[of a b], of u]
      b64_digit_val(4)[OF digit_bounds(4)[of b], of u]
    by (simp add: Let_def is_ascii_def)
next
  case (4 u a b c rest)
  then show ?case using b64_digit_val(4)[OF digit_bounds(1)[of a], of u] b64_digit_val(4)[OF digit_bounds(3)[of a b], of u]
      b64_digit_val(4)[OF digit_bounds(5)[of b c], of u] b64_digit_val(4)[OF digit_bounds(6)[of c], of u]
    by (simp add: Let_def is_ascii_def)
qed (simp add: is_ascii_def)

text \<open>An encoding is decoded again, with its padding replaced by any that fills the last group.\<close>

lemma urlsafe_decode_padded:
  assumes "(length (rstrip_eq (b64_encode u s)) + n) mod 4 = 0"
  shows "urlsafe_b64_decode (rstrip_eq (b64_encode u s) @ replicate n CHR ''='') = Some s"
proof -
  have "List.map plus_slash (replicate n CHR ''='') = replicate n CHR ''=''" by (simp add: plus_slash_def)
  moreover have "is_ascii (replicate n CHR ''='')" by (induction n) (simp_all add: is_ascii_def)
  ultimately show ?thesis
    using a2b_nopad[of u s n 0 0] ascii_nopad[of u s] assms
    by (simp add: rstrip_encode urlsafe_b64_decode_def b64_decode_def is_ascii_def del: map_replicate)
qed

lemma encode_length: "length (b64_encode u s) mod 4 = 0"
  by (induction u s rule: b64_encode.induct) (simp_all add: Let_def)

lemma urlsafe_decode_encode: "urlsafe_b64_decode (b64_encode u s) = Some s"
proof -
  obtain k where k: "b64_encode u s = b64_nopad u s @ replicate k CHR ''=''" using encode_nopad by blast
  then show ?thesis using urlsafe_decode_padded[of u s k, unfolded rstrip_encode] encode_length[of u s] by simp
qed

section \<open>UTF-8\<close>

text \<open>\<^verbatim>\<open>b.decode()\<close>: \<open>None\<close> is \<^verbatim>\<open>UnicodeDecodeError\<close>, and a text with a code point from 256 on, which is
  outside the model.\<close>

fun decode_utf8 :: "string \<Rightarrow> string option" where
  "decode_utf8 [] = Some []"
| "decode_utf8 (b # bs) =
     (let n = (of_char b :: nat) in
      if n < 128 then map_option ((#) b) (decode_utf8 bs)
      else if n = 194 \<or> n = 195 then
        (case bs of
           [] \<Rightarrow> None
         | c # cs \<Rightarrow>
             (let m = (of_char c :: nat) in
              if 128 \<le> m \<and> m < 192 then map_option ((#) (char_of ((n - 192) * 64 + (m - 128)))) (decode_utf8 cs)
              else None))
      else None)"

lemma decode_encode_utf8 [simp]: "decode_utf8 (encode_utf8 s) = Some s"
proof (induction s)
  case (Cons c s)
  have n: "(of_char c :: nat) < 256" by simp
  show ?case
  proof (cases "(of_char c :: nat) < 128")
    case True
    with Cons show ?thesis by (simp add: encode_utf8_def utf8_char_def Let_def)
  next
    case False
    define n where "n = (of_char c :: nat)"
    have c: "c = char_of n" by (simp add: n_def)
    have d: "n div 64 = 2 \<or> n div 64 = 3" unfolding n_def using False n by linarith
    have m: "n mod 64 < 64" by simp
    have e: "utf8_char c = [char_of (192 + n div 64), char_of (128 + n mod 64)]"
      using False by (simp add: utf8_char_def n_def Let_def)
    have o: "of_char (char_of (192 + n div 64)) = 192 + n div 64" "of_char (char_of (128 + n mod 64)) = 128 + n mod 64"
      using d m by (auto simp: of_char_of)
    have v: "char_of ((192 + n div 64 - 192) * 64 + (128 + n mod 64 - 128)) = c" by (simp add: c)
    have "decode_utf8 (utf8_char c @ t) = map_option ((#) c) (decode_utf8 t)" for t
      unfolding e using o v d m by (auto simp: Let_def)
    with Cons show ?thesis by (simp add: encode_utf8_def)
  qed
qed (simp add: encode_utf8_def)

end
