(* ===== verification/Cipher.thy ===== *)
theory Cipher
  imports Base64
begin

text \<open>
  \<^verbatim>\<open>AESCipher\<close> of \<^verbatim>\<open>cashu/core/crypto/aes.py\<close>, with which the mint's seed is encrypted at rest. The
  block cipher itself is the package \<^verbatim>\<open>Cryptodome\<close> and is a parameter: \<open>cbc_encrypt key iv data\<close> and
  \<open>cbc_decrypt key iv data\<close> are one call of a new \<^verbatim>\<open>AES.MODE_CBC\<close> object (\<open>None\<close>: it raises).

  The loop of \<^verbatim>\<open>bytes_to_key\<close> gets one unit of fuel per byte that is asked for; a hash that is not
  empty never uses more.
\<close>

record aes =
  cbc_encrypt :: "string \<Rightarrow> string \<Rightarrow> string \<Rightarrow> string option"
  cbc_decrypt :: "string \<Rightarrow> string \<Rightarrow> string \<Rightarrow> string option"

definition aes_pad :: "string \<Rightarrow> string" where
  "aes_pad data = (let n = 16 - length data mod 16 in data @ replicate n (char_of n))"

text \<open>\<^verbatim>\<open>data[: -data[-1]]\<close>; the slice is empty when the last byte is zero.\<close>

definition aes_unpad :: "string \<Rightarrow> error + string" where
  "aes_unpad data =
     (if data = [] then Inl IndexError
      else let n = (of_char (last data) :: nat)
           in Inr (if n = 0 then [] else take (length data - n) data))"

primrec key_stream :: "curve \<Rightarrow> string \<Rightarrow> nat \<Rightarrow> nat \<Rightarrow> string \<Rightarrow> string \<Rightarrow> error + string" where
  "key_stream C data output 0 key final_key = (if length final_key < output then Inl Diverges else Inr final_key)"
| "key_stream C data output (Suc fuel) key final_key =
     (if length final_key < output then
        (let key' = sha256 C (key @ data) in key_stream C data output fuel key' (final_key @ key'))
      else Inr final_key)"

definition bytes_to_key :: "curve \<Rightarrow> string \<Rightarrow> string \<Rightarrow> nat \<Rightarrow> error + string" where
  "bytes_to_key C data0 salt output =
     bindR (checkR (length salt = 8) (AssertionError (str_int (int (length salt))))) (\<lambda>_.
     let data = data0 @ salt; key = sha256 C data
     in bindR (key_stream C data output output key key) (\<lambda>final_key. Inr (take output final_key)))"

definition salted :: string where
  "salted = ''Salted__''"

definition aes_decrypt :: "curve \<Rightarrow> aes \<Rightarrow> string \<Rightarrow> string \<Rightarrow> error + string" where
  "aes_decrypt C A key encrypted0 =
     bindR (ofOption (ValueError ''Incorrect padding'') (urlsafe_b64_decode encrypted0)) (\<lambda>encrypted.
     bindR (checkR (take 8 encrypted = salted) (AssertionError [])) (\<lambda>_.
     let salt = take 8 (drop 8 encrypted)
     in bindR (bytes_to_key C (encode_utf8 key) salt (32 + 16)) (\<lambda>key_iv.
        bindR (ofOption (ValueError ''Data must be padded to 16 byte boundary in CBC mode'')
          (cbc_decrypt A (take 32 key_iv) (drop 32 key_iv) (drop 16 encrypted))) (\<lambda>data.
        bindR (aes_unpad data) (\<lambda>bs. ofOption (ValueError ''Wrong passphrase'') (decode_utf8 bs))))))"

text \<open>The salt is drawn by the caller of the model.\<close>

definition aes_encrypt :: "curve \<Rightarrow> aes \<Rightarrow> string \<Rightarrow> string \<Rightarrow> string \<Rightarrow> error + string" where
  "aes_encrypt C A key salt message =
     bindR (bytes_to_key C (encode_utf8 key) salt (32 + 16)) (\<lambda>key_iv.
     bindR (ofOption (ValueError ''Data must be padded to 16 byte boundary in CBC mode'')
       (cbc_encrypt A (take 32 key_iv) (drop 32 key_iv) (aes_pad message))) (\<lambda>data.
     Inr (b64_encode True (salted @ salt @ data))))"

section \<open>Decrypting undoes encrypting\<close>

lemma length_pad: "length (aes_pad d) mod 16 = 0"
  by (simp add: aes_pad_def Let_def) presburger

lemma unpad_pad: "aes_unpad (aes_pad d) = Inr d"
proof -
  define n where "n = 16 - length d mod 16"
  have n: "0 < n" "n \<le> 16" by (simp_all add: n_def)
  have pad: "aes_pad d = d @ replicate n (char_of n)" by (simp add: aes_pad_def Let_def n_def)
  have "of_char (char_of n) = n" using n by (simp add: of_char_of)
  then show ?thesis using n by (simp add: pad aes_unpad_def)
qed

text \<open>A hash that is not empty fills the key.\<close>

lemma key_stream_ends:
  assumes "\<forall>x. sha256 C x \<noteq> []" and "len \<le> length final_key + fuel"
  shows "\<exists>k. key_stream C data len fuel key final_key = Inr k \<and> len \<le> length k"
  using assms(2)
proof (induction fuel arbitrary: key final_key)
  case (Suc fuel)
  let ?key = "sha256 C (key @ data)"
  have "1 \<le> length ?key" using assms(1) by (simp add: Suc_le_eq)
  then have "len \<le> length (final_key @ ?key) + fuel" using Suc(2) unfolding length_append by linarith
  from Suc(1)[OF this, of ?key] show ?case by (cases "length final_key < len") (simp_all add: Let_def)
qed simp

lemma bytes_to_key_ends:
  assumes "\<forall>x. sha256 C x \<noteq> []" and "length salt = 8"
  shows "\<exists>k. bytes_to_key C data salt len = Inr k \<and> length k = len"
proof -
  let ?d = "data @ salt"
  obtain k where "key_stream C ?d len len (sha256 C ?d) (sha256 C ?d) = Inr k" "len \<le> length k"
    using key_stream_ends[OF assms(1), where len = len and final_key = "sha256 C ?d" and fuel = len and data = ?d] by auto
  then show ?thesis using assms(2) by (simp add: bytes_to_key_def Let_def)
qed

text \<open>
  What \<^verbatim>\<open>Cryptodome\<close> documents of CBC mode: for a key of 16, 24 or 32 bytes, an initialisation vector of 16
  bytes and data of whole blocks of 16 bytes, encryption returns and decryption with the same key and
  vector gives the data back. Of other lengths nothing is said (the calls raise).
\<close>

definition cbc_documented :: "aes \<Rightarrow> bool" where
  "cbc_documented A \<longleftrightarrow> (\<forall>k iv d. length k \<in> {16, 24, 32} \<and> length iv = 16 \<and> length d mod 16 = 0 \<longrightarrow>
     (\<exists>c. cbc_encrypt A k iv d = Some c \<and> cbc_decrypt A k iv c = Some d))"

text \<open>C22. The seed of the mint survives encryption: what \<open>aes_encrypt\<close> makes of a text, \<open>aes_decrypt\<close> with the
  same passphrase turns back into that text, for every salt of eight bytes. The cipher is only relied on
  for keys, vectors and data of the documented lengths.\<close>

theorem decrypt_encrypt:
  assumes "cbc_documented A" and "\<forall>x. sha256 C x \<noteq> []" and "length salt = 8"
  shows "\<exists>c. aes_encrypt C A key salt (encode_utf8 m) = Inr c \<and> aes_decrypt C A key c = Inr m"
proof -
  obtain k where k: "bytes_to_key C (encode_utf8 key) salt 48 = Inr k" and len: "length k = 48"
    using bytes_to_key_ends[OF assms(2,3)] by blast
  have "length (take 32 k) \<in> {16, 24, 32}" "length (drop 32 k) = 16" using len by simp_all
  with assms(1) length_pad obtain c where c: "cbc_encrypt A (take 32 k) (drop 32 k) (aes_pad (encode_utf8 m)) = Some c"
      "cbc_decrypt A (take 32 k) (drop 32 k) c = Some (aes_pad (encode_utf8 m))"
    unfolding cbc_documented_def by blast
  have l: "length salted = 8" by (simp add: salted_def)
  show ?thesis
    using k c l assms(3) by (simp add: aes_encrypt_def aes_decrypt_def urlsafe_decode_encode unpad_pad)
qed

text \<open>A cipher that refuses keys, vectors and data of any other length.\<close>

definition strict_aes :: aes where
  "strict_aes = (let block = (\<lambda>k iv d. if length k \<in> {16, 24, 32} \<and> length iv = 16 \<and> length d mod 16 = 0
       then Some (rev d) else None)
     in \<lparr>cbc_encrypt = block, cbc_decrypt = block\<rparr>)"

theorem decrypt_encrypt_witness:
  "\<exists>c. aes_encrypt (z5_curve\<lparr>sha256 := \<lambda>s. ''k'' @ s\<rparr>) strict_aes ''pass'' ''saltsalt'' (encode_utf8 ''seed'') = Inr c \<and>
    aes_decrypt (z5_curve\<lparr>sha256 := \<lambda>s. ''k'' @ s\<rparr>) strict_aes ''pass'' c = Inr ''seed''"
  by (rule decrypt_encrypt) (simp_all add: cbc_documented_def strict_aes_def Let_def)

end
