(* ===== verification/Keys.thy ===== *)
theory Keys
  imports Secrets Cipher Samples
begin

text \<open>
  The keys of the mint: derivation and identifiers (\<^verbatim>\<open>cashu/core/crypto/keys.py\<close>, \<^verbatim>\<open>cashu/core/legacy.py\<close>)
  and the class \<^verbatim>\<open>MintKeyset\<close> of \<^verbatim>\<open>cashu/core/base.py\<close>, which generates its keys again from the seed
  whenever it is made. The package \<^verbatim>\<open>bip32\<close> is a parameter.

  A dictionary is an association list in insertion order; \<^verbatim>\<open>sorted(d.items())\<close> sorts it by amount, as
  no amount occurs twice.
\<close>

section \<open>Paths\<close>

text \<open>\<^verbatim>\<open>s.split(c)\<close>.\<close>

fun split_on :: "char \<Rightarrow> string \<Rightarrow> string list" where
  "split_on c [] = [[]]"
| "split_on c (x # xs) =
     (if x = c then [] # split_on c xs
      else case split_on c xs of [] \<Rightarrow> [[x]] | y # ys \<Rightarrow> (x # y) # ys)"

definition unprime :: "string \<Rightarrow> string" where
  "unprime s = filter (\<lambda>c. c \<noteq> CHR 0x27) s"

text \<open>\<^verbatim>\<open>int(derivation[-1].replace("'", ""))\<close>.\<close>

definition path_counter :: "string list \<Rightarrow> error + int" where
  "path_counter parts = py_int_err (unprime (last parts))"

section \<open>Deriving keys\<close>

record key_env =
  ke_crv :: curve
  ke_bip32 :: "string \<Rightarrow> string \<Rightarrow> error + string"
  ke_aes :: aes
  ke_max_order :: nat
  ke_version :: string
  ke_seed_decryption_key :: "string option"
  ke_input_fee_ppk :: int
  ke_inactivate_base64_keysets :: bool

definition private_key :: "curve \<Rightarrow> string \<Rightarrow> error + int" where
  "private_key C bs = ofOption (ValueError ''Secret scalar must be greater than 0 and less than the group order'') (sc_parse C bs)"

definition dict_from :: "('k \<times> 'v) list \<Rightarrow> ('k \<times> 'v) list" where
  "dict_from kvs = foldl (\<lambda>d (k, v). AList.update k v d) [] kvs"

definition derive_keys :: "key_env \<Rightarrow> string \<Rightarrow> string \<Rightarrow> int list \<Rightarrow> error + (int \<times> int) list" where
  "derive_keys K mnemonic derivation_path amounts =
     bindR (mapR (\<lambda>(i, a).
         bindR (ke_bip32 K (encode_utf8 mnemonic) (derivation_path @ ''/'' @ str_int (int i) @ [CHR 0x27])) (\<lambda>bs.
         bindR (private_key (ke_crv K) bs) (\<lambda>k. Inr (a, k))))
       (enumerate 0 amounts)) (\<lambda>kvs. Inr (dict_from kvs))"

definition derive_keys_deprecated_pre_0_15 :: "key_env \<Rightarrow> string \<Rightarrow> int list \<Rightarrow> string \<Rightarrow> error + (int \<times> int) list" where
  "derive_keys_deprecated_pre_0_15 K seed amounts derivation_path =
     bindR (mapR (\<lambda>(i, a).
         bindR (private_key (ke_crv K)
           (take 32 (sha256 (ke_crv K) (encode_utf8 (seed @ derivation_path @ str_int (int i)))))) (\<lambda>k. Inr (a, k)))
       (enumerate 0 amounts)) (\<lambda>kvs. Inr (dict_from kvs))"

text \<open>The first 32 characters of the hexadecimal digest are the secret.\<close>

definition derive_keys_backwards_compatible_insecure_pre_0_12 :: "key_env \<Rightarrow> string \<Rightarrow> string \<Rightarrow> error + (int \<times> int) list" where
  "derive_keys_backwards_compatible_insecure_pre_0_12 K seed derivation_path =
     bindR (mapR (\<lambda>i.
         bindR (private_key (ke_crv K)
           (take 32 (to_hex (sha256 (ke_crv K) (encode_utf8 (seed @ derivation_path @ str_int (int i))))))) (\<lambda>k. Inr (2 ^ i, k)))
       [0..<ke_max_order K]) (\<lambda>kvs. Inr (dict_from kvs))"

definition derive_pubkey :: "curve \<Rightarrow> string \<Rightarrow> error + point" where
  "derive_pubkey C seed = bindR (private_key C (take 32 (sha256 C (encode_utf8 seed)))) (\<lambda>k. Inr (pt_public C k))"

definition derive_pubkeys :: "curve \<Rightarrow> (int \<times> int) list \<Rightarrow> int list \<Rightarrow> error + (int \<times> point) list" where
  "derive_pubkeys C keys amounts =
     bindR (mapR (\<lambda>a. bindR (ofOption (KeyError (str_int a)) (map_of keys a)) (\<lambda>k. Inr (a, pt_public C k))) amounts)
       (\<lambda>kvs. Inr (dict_from kvs))"

section \<open>Identifiers\<close>

definition sorted_keys :: "(int \<times> point) list \<Rightarrow> (int \<times> point) list" where
  "sorted_keys keys = sort_key fst keys"

definition derive_keyset_id :: "curve \<Rightarrow> (int \<times> point) list \<Rightarrow> string" where
  "derive_keyset_id C keys =
     ''00'' @ take 14 (to_hex (sha256 C (concat (List.map (\<lambda>(_, p). pt_format C p) (sorted_keys keys)))))"

definition v2_preimage :: "curve \<Rightarrow> (int \<times> point) list \<Rightarrow> string \<Rightarrow> int option \<Rightarrow> int \<Rightarrow> string" where
  "v2_preimage C keys unit final_expiry input_fee_ppk =
     encode_utf8 (sep_by '','' (List.map (\<lambda>(a, p). str_int a @ '':'' @ pk_hex C p) (sorted_keys keys)) @ ''|unit:'' @ unit @
       (if input_fee_ppk > 0 then ''|input_fee_ppk:'' @ str_int input_fee_ppk else []) @
       (case final_expiry of None \<Rightarrow> [] | Some e \<Rightarrow> ''|final_expiry:'' @ str_int e))"

definition derive_keyset_id_v2 :: "curve \<Rightarrow> (int \<times> point) list \<Rightarrow> string \<Rightarrow> int option \<Rightarrow> int \<Rightarrow> string" where
  "derive_keyset_id_v2 C keys unit final_expiry input_fee_ppk =
     ''01'' @ to_hex (sha256 C (v2_preimage C keys unit final_expiry input_fee_ppk))"

definition derive_keyset_id_deprecated :: "curve \<Rightarrow> (int \<times> point) list \<Rightarrow> string" where
  "derive_keyset_id_deprecated C keys =
     take 12 (b64_encode False (sha256 C (encode_utf8 (concat (List.map (\<lambda>(_, p). pk_hex C p) (sorted_keys keys))))))"

definition is_base64_keyset_id :: "string \<Rightarrow> bool" where
  "is_base64_keyset_id keyset_id =
     (if starts ''00'' keyset_id \<or> starts ''01'' keyset_id then False
      else b64_decode_validate keyset_id \<noteq> None)"

definition derive_keyset_short_id :: "string \<Rightarrow> error + string" where
  "derive_keyset_short_id keyset_id =
     (if is_base64_keyset_id keyset_id \<or> starts ''00'' keyset_id then Inr keyset_id
      else if starts ''01'' keyset_id then Inr (take 16 keyset_id)
      else Inl (ValueError (''Unsupported keyset version in ID: '' @ keyset_id)))"

definition get_keyset_id_version :: "string \<Rightarrow> error + string" where
  "get_keyset_id_version keyset_id =
     (if length keyset_id < 2 then Inl (ValueError ''Invalid keyset ID: too short'')
      else if is_base64_keyset_id keyset_id then Inr ''base64''
      else Inr (take 2 keyset_id))"

definition is_keyset_id_v2 :: "string \<Rightarrow> error + bool" where
  "is_keyset_id_v2 keyset_id = bindR (get_keyset_id_version keyset_id) (\<lambda>v. Inr (v = ''01''))"

section \<open>Keysets\<close>

text \<open>The arguments of \<^verbatim>\<open>MintKeyset(...)\<close>.\<close>

record keyset_args =
  ka_derivation_path :: string
  ka_seed :: "string option"
  ka_encrypted_seed :: "string option"
  ka_amounts :: "int list option"
  ka_active :: "bool option"
  ka_unit :: "string option"
  ka_version :: "string option"
  ka_input_fee_ppk :: "int option"
  ka_id :: string
  ka_balance :: int
  ka_fees_paid :: int
  ka_final_expiry :: "int option"

text \<open>The comparison of tuples of numbers.\<close>

fun tuple_less :: "int list \<Rightarrow> int list \<Rightarrow> bool" where
  "tuple_less xs [] = False"
| "tuple_less [] (y # ys) = True"
| "tuple_less (x # xs) (y # ys) = (if x = y then tuple_less xs ys else x < y)"

definition version_tuple :: "string \<Rightarrow> error + int list" where
  "version_tuple v = (if v = [] then Inr [] else mapR py_int_err (split_on (CHR ''.'') v))"

text \<open>The unit that the third part of the path stands for; \<^verbatim>\<open>sat\<close> when there is none.\<close>

definition unit_of_path :: "string \<Rightarrow> unit_t" where
  "unit_of_path path =
     (let parts = split_on (CHR ''/'') path
      in case (if 2 < length parts then bindR (py_int_err (unprime (parts ! 2))) unit_of_value else Inl IndexError) of
           Inr u \<Rightarrow> u | Inl _ \<Rightarrow> sat)"

definition keyset_seed :: "key_env \<Rightarrow> string option \<Rightarrow> string option \<Rightarrow> error + string" where
  "keyset_seed K seed encrypted_seed =
     bindR (checkR (seed \<noteq> Some ''supersecretprivatekey'')
       (PyException ''Seed is set to default value 'supersecretprivatekey'. Please change it.'')) (\<lambda>_.
     bindR (checkR (\<not> (truthy_str encrypted_seed \<and> \<not> truthy_str (ke_seed_decryption_key K)))
       (PyException ''MINT_SEED_DECRYPTION_KEY not set, but seed is encrypted.'')) (\<lambda>_.
     bindR (if truthy_str (ke_seed_decryption_key K) \<and> truthy_str encrypted_seed
            then aes_decrypt (ke_crv K) (ke_aes K) (the (ke_seed_decryption_key K)) (the encrypted_seed)
            else Inr (case seed of None \<Rightarrow> [] | Some s \<Rightarrow> s)) (\<lambda>s.
     bindR (checkR (s \<noteq> []) (AssertionError ''seed not set'')) (\<lambda>_. Inr s))))"

text \<open>\<^verbatim>\<open>generate_keys\<close>: private keys, public keys and the identifier, which is kept when there is one.\<close>

definition id_or :: "string \<Rightarrow> string \<Rightarrow> string" where
  "id_or id_in_db derived = (if id_in_db \<noteq> [] then id_in_db else derived)"

definition generate_keys :: "key_env \<Rightarrow> mint_keyset \<Rightarrow> int list \<Rightarrow> error + mint_keyset" where
  "generate_keys K k vt =
     (let C = ke_crv K; seed = k_seed k; path = k_derivation_path k; amounts = k_amounts k;
          finish = (\<lambda>keys derive. bindR (derive_pubkeys C keys amounts) (\<lambda>pubs.
            Inr (k\<lparr>k_private_keys := keys, k_public_keys := pubs, k_id := id_or (k_id k) (derive pubs)\<rparr>)))
      in bindR (checkR (seed \<noteq> []) (AssertionError ''seed not set'')) (\<lambda>_.
         bindR (checkR (path \<noteq> []) (AssertionError ''derivation path not set'')) (\<lambda>_.
         if tuple_less vt [0, 12] then
           bindR (derive_keys_backwards_compatible_insecure_pre_0_12 K seed path) (\<lambda>keys.
           finish keys (derive_keyset_id_deprecated C))
         else if tuple_less vt [0, 15] then
           bindR (derive_keys_deprecated_pre_0_15 K seed amounts path) (\<lambda>keys.
           finish keys (derive_keyset_id_deprecated C))
         else if tuple_less vt [0, 20] then
           bindR (derive_keys K seed path amounts) (\<lambda>keys.
           finish keys (derive_keyset_id C))
         else
           bindR (derive_keys K seed path amounts) (\<lambda>keys.
           finish keys (\<lambda>pubs. derive_keyset_id_v2 C pubs (unit_name (k_unit k)) (k_final_expiry k) (k_input_fee_ppk k))))))"

definition or_zero :: "int option \<Rightarrow> int" where
  "or_zero x = (case x of None \<Rightarrow> 0 | Some n \<Rightarrow> n)"

definition init_mint_keyset :: "key_env \<Rightarrow> keyset_args \<Rightarrow> error + mint_keyset" where
  "init_mint_keyset K a =
     bindR (keyset_seed K (ka_seed a) (ka_encrypted_seed a)) (\<lambda>seed.
     let amounts = (case ka_amounts a of Some (x # xs) \<Rightarrow> x # xs | _ \<Rightarrow> List.map (\<lambda>i. 2 ^ i) [0..<ke_max_order K]);
         version = (if truthy_str (ka_version a) then the (ka_version a) else ke_version K);
         fee = or_zero (ka_input_fee_ppk a)
     in bindR (checkR (0 \<le> fee) (PyException ''Input fee must be non-negative.'')) (\<lambda>_.
        bindR (version_tuple version) (\<lambda>vt.
        bindR (if truthy_str (ka_unit a) then unit_of_name (the (ka_unit a)) else Inr (unit_of_path (ka_derivation_path a))) (\<lambda>u.
        generate_keys K
          \<lparr>k_id = ka_id a, k_private_keys = [], k_public_keys = [], k_active = (ka_active a = Some True), k_unit = u,
           k_derivation_path = ka_derivation_path a, k_input_fee_ppk = fee, k_seed = seed, k_version = version,
           k_amounts = amounts, k_balance = ka_balance a, k_fees_paid = ka_fees_paid a,
           k_final_expiry = ka_final_expiry a\<rparr> vt))))"

definition public_keys_hex :: "curve \<Rightarrow> mint_keyset \<Rightarrow> error + (int \<times> string) list" where
  "public_keys_hex C k =
     bindR (checkR (k_public_keys k \<noteq> []) (AssertionError ''public keys not set'')) (\<lambda>_.
     Inr (dict_from (List.map (\<lambda>(a, p). (a, pk_hex C p)) (k_public_keys k))))"

section \<open>Dictionaries\<close>

lemma map_of_dict_from: "map_of (dict_from kvs) = map_of (rev kvs)"
proof -
  have "map_of (foldl (\<lambda>d (k, v). AList.update k v d) d kvs) = map_of d ++ map_of (rev kvs)" for d :: "('a \<times> 'b) list"
  proof (induction kvs arbitrary: d)
    case (Cons kv kvs)
    obtain k v where kv: "kv = (k, v)" by (cases kv)
    show ?case by (simp add: kv Cons update_conv' map_add_def fun_eq_iff split: option.splits)
  qed simp
  from this[of "[]"] show ?thesis by (simp add: dict_from_def)
qed

lemma dict_from_distinct: "distinct (List.map fst (dict_from kvs))"
proof -
  have "distinct (List.map fst d) \<Longrightarrow> distinct (List.map fst (foldl (\<lambda>d (k, v). AList.update k v d) d kvs))" for d :: "('a \<times> 'b) list"
    by (induction kvs arbitrary: d) (auto simp: distinct_update)
  from this[of "[]"] show ?thesis by (simp add: dict_from_def)
qed

lemma map_of_graph: "map_of (List.map (\<lambda>a. (a, f a)) xs) a = (if a \<in> set xs then Some (f a) else None)"
  by (simp add: map_of_map_restrict restrict_map_def)

section \<open>What a keyset consists of\<close>

lemma derive_pubkeys_ok:
  assumes "derive_pubkeys C keys amounts = Inr pubs"
  shows "(\<forall>a. map_of pubs a = (if a \<in> set amounts then map_option (pt_public C) (map_of keys a) else None)) \<and>
    (\<forall>a\<in>set amounts. map_of keys a \<noteq> None) \<and> distinct (List.map fst pubs)"
proof -
  obtain kvs where kvs: "mapR (\<lambda>a. bindR (ofOption (KeyError (str_int a)) (map_of keys a)) (\<lambda>k. Inr (a, pt_public C k))) amounts = Inr kvs"
    and pubs: "pubs = dict_from kvs"
    using assms by (auto simp: derive_pubkeys_def bindR_Inr)
  have "(\<forall>a\<in>set amounts. map_of keys a \<noteq> None) \<and> kvs = List.map (\<lambda>a. (a, pt_public C (the (map_of keys a)))) amounts"
    using kvs by (induction amounts arbitrary: kvs) (auto simp: bindR_Inr ofOption_Inr)
  then show ?thesis
    by (auto simp: pubs map_of_dict_from dict_from_distinct map_of_graph rev_map)
qed

lemma generate_keys_ok:
  assumes "generate_keys K k vt = Inr k'"
  shows "\<exists>keys pubs derived. k' = k\<lparr>k_private_keys := keys, k_public_keys := pubs, k_id := id_or (k_id k) derived\<rparr> \<and>
    derive_pubkeys (ke_crv K) keys (k_amounts k) = Inr pubs"
  using assms by (auto simp: generate_keys_def Let_def bindR_Inr split: if_splits)

lemma init_mint_keyset_ok:
  assumes "init_mint_keyset K a = Inr k"
  shows "derive_pubkeys (ke_crv K) (k_private_keys k) (k_amounts k) = Inr (k_public_keys k) \<and>
    (ka_id a \<noteq> [] \<longrightarrow> k_id k = ka_id a) \<and> 0 \<le> k_input_fee_ppk k \<and> k_derivation_path k = ka_derivation_path a \<and>
    k_active k = (ka_active a = Some True) \<and> k_seed k \<noteq> []"
  using assms
  by (auto simp: init_mint_keyset_def keyset_seed_def Let_def bindR_Inr checkR_Inr id_or_def dest!: generate_keys_ok)

text \<open>A keyset holds a key pair for exactly the amounts it names: each of its private keys has its public
  key under the same amount, no fee is negative, and the identifier that was given is kept.\<close>

theorem keyset_key_pairs:
  assumes "init_mint_keyset K a = Inr k"
  shows "(\<forall>x. x \<in> set (k_amounts k) \<longleftrightarrow> map_of (k_public_keys k) x \<noteq> None) \<and> distinct (List.map fst (k_public_keys k)) \<and>
    (\<forall>x\<in>set (k_amounts k). \<exists>sk. map_of (k_private_keys k) x = Some sk \<and> map_of (k_public_keys k) x = Some (pt_public (ke_crv K) sk)) \<and>
    0 \<le> k_input_fee_ppk k \<and> (ka_id a \<noteq> [] \<longrightarrow> k_id k = ka_id a)"
  using init_mint_keyset_ok[OF assms] derive_pubkeys_ok[of "ke_crv K" "k_private_keys k" "k_amounts k" "k_public_keys k"]
  by auto

section \<open>Identifiers and the order of keys\<close>

lemma sorted_keys_mset:
  assumes "mset keys = mset keys'" and "distinct (List.map fst keys)"
  shows "sorted_keys keys = sorted_keys keys'"
  unfolding sorted_keys_def
proof (rule sort_key_inj_key_eq)
  show "mset keys = mset (sort_key fst keys')" using assms(1) by simp
  show "inj_on fst (set keys)" using assms(2) by (simp add: distinct_map)
qed simp

text \<open>The identifier of a keyset depends on its keys only and not on the order in which they are listed, in
  all three versions.\<close>

theorem keyset_id_order:
  assumes "mset keys = mset keys'" and "distinct (List.map fst keys)"
  shows "derive_keyset_id C keys = derive_keyset_id C keys' \<and>
    derive_keyset_id_v2 C keys unit expiry fee = derive_keyset_id_v2 C keys' unit expiry fee \<and>
    derive_keyset_id_deprecated C keys = derive_keyset_id_deprecated C keys'"
  using sorted_keys_mset[OF assms]
  by (simp add: derive_keyset_id_def derive_keyset_id_v2_def v2_preimage_def derive_keyset_id_deprecated_def)

theorem keyset_id_order_witness:
  "derive_keyset_id z5_curve [(1, 1), (2, 3)] = derive_keyset_id z5_curve [(2, 3), (1, 1)]"
proof -
  have "mset [(1 :: int, 1 :: int), (2, 3)] = mset [(2, 3), (1, 1)]" by simp
  from keyset_id_order[OF this] show ?thesis by simp
qed

text \<open>A sample: every path gives the same private key, and texts are hashed to themselves.\<close>

definition sample_key_env :: key_env where
  "sample_key_env = \<lparr>ke_crv = z5_curve\<lparr>sha256 := \<lambda>s. s\<rparr>, ke_bip32 = \<lambda>s p. Inr [CHR 0x02],
     ke_aes = \<lparr>cbc_encrypt = \<lambda>k iv d. Some d, cbc_decrypt = \<lambda>k iv d. Some d\<rparr>, ke_max_order = 3,
     ke_version = ''0.20.0'', ke_seed_decryption_key = None, ke_input_fee_ppk = 100, ke_inactivate_base64_keysets = False\<rparr>"

definition sample_keyset_args :: keyset_args where
  "sample_keyset_args = \<lparr>ka_derivation_path = ''m/0'/0'/0'' @ [CHR 0x27], ka_seed = Some ''seed'', ka_encrypted_seed = None,
     ka_amounts = Some [1, 2], ka_active = Some True, ka_unit = None, ka_version = None, ka_input_fee_ppk = Some 100,
     ka_id = [], ka_balance = 0, ka_fees_paid = 0, ka_final_expiry = None\<rparr>"

theorem keyset_key_pairs_witness:
  "\<exists>k. init_mint_keyset sample_key_env sample_keyset_args = Inr k \<and>
     (\<exists>sk. map_of (k_private_keys k) 2 = Some sk \<and> map_of (k_public_keys k) 2 = Some (pt_public (ke_crv sample_key_env) sk))"
proof -
  have "isOk (init_mint_keyset sample_key_env sample_keyset_args)" by code_simp
  then obtain k where k: "init_mint_keyset sample_key_env sample_keyset_args = Inr k" by (auto simp: isOk_iff)
  have "k_amounts k = [1, 2]" using k
    by (auto simp: init_mint_keyset_def sample_keyset_args_def Let_def bindR_Inr dest!: generate_keys_ok)
  with keyset_key_pairs[OF k] k show ?thesis by auto
qed

end
