(* ===== verification/JsonFacts.thy ===== *)
theory JsonFacts
  imports Secrets
begin

text \<open>
  The parser of theory \<open>Json\<close> never runs out of fuel, and reading what was written gives it back: for
  JSON values, and for the secrets of spending conditions.
\<close>

section \<open>Enough fuel\<close>

lemma skip_ws_le: "length (skip_ws s) \<le> length s"
  by (simp add: skip_ws_def length_dropWhile_le)

lemma cons_fst_Some: "cons_fst c x = Some (t, r) \<longleftrightarrow> (\<exists>t'. x = Some (t', r) \<and> t = c # t')"
  by (cases x) (auto simp: cons_fst_def)

lemma parse_str_shorter: "parse_str s = Some (t, r) \<Longrightarrow> length r < length s"
proof (induction s arbitrary: t r rule: length_induct)
  case (1 s)
  have sub: "length r < length s" if "parse_str x = Some (t', r)" "length x < length s" for x t'
    using 1(1)[rule_format, OF that(2,1)] that(2) by simp
  from 1(2) show ?case
    apply (cases s rule: parse_str.cases; auto simp: cons_fst_Some split: if_splits list.splits option.splits)
    apply (drule sub, simp, simp)+
    done
qed

lemma parse_num_shorter: "parse_num s = Some (v, r) \<Longrightarrow> length r < length s"
  by (cases s) (auto simp: parse_num_def int_part_def Let_def split: if_splits)

lemma starts_nonempty: "starts (c # p) s \<Longrightarrow> 0 < length s"
  by (cases s) (simp_all add: starts_def)

lemma parse_atom_shorter: "parse_atom s = PDone v r \<Longrightarrow> length r < length s"
  unfolding parse_atom_def
  by (auto split: if_splits option.splits dest: parse_num_shorter dest!: starts_nonempty)

text \<open>Not out of fuel, and what is left is shorter.\<close>

definition fine :: "json pres \<Rightarrow> nat \<Rightarrow> bool" where
  "fine res n \<longleftrightarrow> (case res of PDone v r \<Rightarrow> length r < n | PFail \<Rightarrow> True | PFuel \<Rightarrow> False)"

lemma fine_simps [simp]: "fine (PDone v r) n \<longleftrightarrow> length r < n" "fine PFail n" "\<not> fine PFuel n"
  by (simp_all add: fine_def)

lemma fine_mono: "fine res n \<Longrightarrow> n \<le> m \<Longrightarrow> fine res m"
  by (auto simp: fine_def split: pres.splits)

lemma atom_fine: "fine (parse_atom s) (length s)"
proof -
  have "parse_atom s \<noteq> PFuel" by (auto simp: parse_atom_def split: option.splits)
  then show ?thesis using parse_atom_shorter[of s] by (cases "parse_atom s") (auto simp: fine_def)
qed

lemma parse_fine:
  "2 * length s + 2 \<le> n \<Longrightarrow> fine (parse_value n s) (length s)"
  "2 * length s + 3 \<le> n \<Longrightarrow> fine (parse_elems n acc s) (length s)"
  "2 * length s + 3 \<le> n \<Longrightarrow> fine (parse_pairs n kvs s) (length s)"
proof (induction n arbitrary: s acc kvs)
  case (Suc n)
  note V = Suc.IH(1) and L = Suc.IH(2) and P = Suc.IH(3)
  {
    case 1
    show ?case
    proof (cases s)
      case (Cons c cs)
      have inner: "fine (parse_elems n [] (d # ds)) (length s)" "fine (parse_pairs n [] (d # ds)) (length s)"
        if "skip_ws cs = d # ds" for d ds
      proof -
        have "length (d # ds) \<le> length cs" using skip_ws_le[of cs] that by simp
        then show "fine (parse_elems n [] (d # ds)) (length s)" "fine (parse_pairs n [] (d # ds)) (length s)"
          using 1 Cons by (auto intro!: fine_mono[OF L] fine_mono[OF P])
      qed
      have close: "length ds < length s" if "skip_ws cs = d # ds" for d ds
        using skip_ws_le[of cs] that Cons by simp
      show ?thesis
        using inner close atom_fine[of s] by (auto simp: Cons split: list.splits option.splits dest: parse_str_shorter)
    qed simp
  next
    case 2
    show ?case
    proof (cases "parse_value n s")
      case (PDone v r)
      have r: "length r < length s" using V[of s] 2 PDone by simp
      have "fine (parse_elems n (acc @ [v]) (skip_ws ds)) (length s)" "length ds < length s" if "skip_ws r = d # ds" for d ds
      proof -
        have le: "Suc (length ds) \<le> length r" "length (skip_ws ds) \<le> length ds"
          using skip_ws_le[of r] skip_ws_le[of ds] that by simp_all
        then show "length ds < length s" using r by simp
        show "fine (parse_elems n (acc @ [v]) (skip_ws ds)) (length s)"
          by (rule fine_mono[OF L]) (use le r 2 in auto)
      qed
      then show ?thesis using PDone by (auto split: list.splits)
    qed (use V[of s] 2 in \<open>auto simp: fine_def\<close>)
  next
    case 3
    show ?case
    proof (cases s)
      case (Cons q cs)
      show ?thesis
      proof (cases "parse_str cs")
        case (Some kr)
        obtain k r where kr: "kr = (k, r)" by (cases kr)
        have r: "length r < length cs" using Some kr parse_str_shorter by blast
        show ?thesis
        proof (cases "skip_ws r")
          case (Cons d ds)
          have ds: "length (skip_ws ds) < length cs" "length (skip_ws ds) + 2 < length s"
            using skip_ws_le[of r] skip_ws_le[of ds] r Cons \<open>s = q # cs\<close> by simp_all
          have v: "fine (parse_value n (skip_ws ds)) (length (skip_ws ds))" by (rule V) (use ds 3 in simp)
          have "fine (parse_pairs n kvs' (skip_ws es)) (length s)" "length es < length s"
            if "parse_value n (skip_ws ds) = PDone w r'" "skip_ws r' = e # es" for w r' e es kvs'
          proof -
            have le: "length r' < length (skip_ws ds)" "Suc (length es) \<le> length r'" "length (skip_ws es) \<le> length es"
              using v that skip_ws_le[of r'] skip_ws_le[of es] by auto
            then show "length es < length s" using ds by simp
            show "fine (parse_pairs n kvs' (skip_ws es)) (length s)"
              by (rule fine_mono[OF P]) (use le ds 3 in auto)
          qed
          then show ?thesis
            using Some kr Cons \<open>s = q # cs\<close> v by (auto split: pres.splits list.splits)
        qed (use Some kr \<open>s = q # cs\<close> in simp)
      qed (use Cons in simp)
    qed simp
  }
qed simp_all

text \<open>Reading a text ends: the parser of the model never runs out of its fuel, so \<open>json_loads\<close> answers with
  a value or with the exception that Python raises, for every text.\<close>

lemma json_loads_total: "json_loads s \<noteq> Inl Diverges"
proof -
  have "fine (parse_value (2 * length s + 2) (skip_ws s)) (length (skip_ws s))"
    by (rule parse_fine(1)) (use skip_ws_le[of s] in simp)
  then show ?thesis by (auto simp: json_loads_def split: pres.splits)
qed

text \<open>More fuel does not change a result.\<close>

declare parse_value.simps [simp del] parse_elems.simps [simp del] parse_pairs.simps [simp del]

lemma parse_mono_Suc:
  "parse_value n s \<noteq> PFuel \<Longrightarrow> parse_value (Suc n) s = parse_value n s"
  "parse_elems n acc s \<noteq> PFuel \<Longrightarrow> parse_elems (Suc n) acc s = parse_elems n acc s"
  "parse_pairs n kvs s \<noteq> PFuel \<Longrightarrow> parse_pairs (Suc n) kvs s = parse_pairs n kvs s"
proof (induction n arbitrary: s acc kvs)
  case (Suc n)
  note V = Suc.IH(1) and L = Suc.IH(2) and P = Suc.IH(3)
  {
    case 1
    then show ?case unfolding parse_value.simps(2)[of n s] parse_value.simps(2)[of "Suc n" s]
      by (auto split: list.splits if_splits option.splits dest: L P)
  next
    case 2
    then have "parse_value n s \<noteq> PFuel" by (auto simp: parse_elems.simps split: pres.splits)
    with 2 V[OF this] show ?case unfolding parse_elems.simps(2)[of n acc s] parse_elems.simps(2)[of "Suc n" acc s]
      by (auto split: pres.splits list.splits if_splits dest: L)
  next
    case 3
    show ?case
    proof (cases "\<exists>k r d ds. s \<noteq> [] \<and> parse_str (tl s) = Some (k, r) \<and> skip_ws r = d # ds \<and> d = CHR '':'' \<and> of_char (hd s) = (34::nat)")
      case True
      then obtain k r d ds where s: "s \<noteq> []" "parse_str (tl s) = Some (k, r)" "skip_ws r = d # ds" "d = CHR '':''" "of_char (hd s) = (34::nat)"
        by blast
      with 3 have "parse_value n (skip_ws ds) \<noteq> PFuel" by (auto simp: parse_pairs.simps split: pres.splits list.splits)
      with 3 V[OF this] s show ?thesis unfolding parse_pairs.simps(2)[of n kvs s] parse_pairs.simps(2)[of "Suc n" kvs s]
        by (auto split: pres.splits list.splits if_splits dest: P)
    next
      case False
      then show ?thesis unfolding parse_pairs.simps(2)[of n kvs s] parse_pairs.simps(2)[of "Suc n" kvs s]
        by (cases s) (auto split: list.splits if_splits option.splits)
    qed
  }
qed (simp_all add: parse_value.simps(1) parse_elems.simps(1) parse_pairs.simps(1))

lemma parse_mono:
  "n \<le> m \<Longrightarrow> parse_value n s \<noteq> PFuel \<Longrightarrow> parse_value m s = parse_value n s"
  "n \<le> m \<Longrightarrow> parse_elems n acc s \<noteq> PFuel \<Longrightarrow> parse_elems m acc s = parse_elems n acc s"
  "n \<le> m \<Longrightarrow> parse_pairs n kvs s \<noteq> PFuel \<Longrightarrow> parse_pairs m kvs s = parse_pairs n kvs s"
  by (induction m rule: nat_induct_at_least; simp add: parse_mono_Suc)+

lemma parse_mono_done:
  "parse_value n s = PDone v r \<Longrightarrow> n \<le> m \<Longrightarrow> parse_value m s = PDone v r"
  "parse_elems n acc s = PDone v r \<Longrightarrow> n \<le> m \<Longrightarrow> parse_elems m acc s = PDone v r"
  "parse_pairs n kvs s = PDone v r \<Longrightarrow> n \<le> m \<Longrightarrow> parse_pairs m kvs s = PDone v r"
  by (simp_all add: parse_mono)

text \<open>Any fuel that gives a value gives the value that \<open>json_loads\<close> sees.\<close>

lemma json_loads_value:
  assumes "parse_value n (skip_ws s) = PDone v []"
  shows "json_loads s = Inr v"
proof -
  let ?N = "2 * length s + 2"
  have "fine (parse_value ?N (skip_ws s)) (length (skip_ws s))" by (rule parse_fine(1)) (use skip_ws_le[of s] in simp)
  then have "parse_value ?N (skip_ws s) \<noteq> PFuel" by auto
  then have "parse_value ?N (skip_ws s) = PDone v []"
    using assms parse_mono(1)[of ?N n] parse_mono(1)[of n ?N] by (cases "?N \<le> n") auto
  then show ?thesis by (simp add: json_loads_def skip_ws_def)
qed

section \<open>Strings\<close>

lemma hex_val_digit: "d < 16 \<Longrightarrow> hex_val (hex_digit d) = Some d"
  by (auto simp: hex_val_def hex_digit_def Let_def)

lemma char_nat: "(of_char c :: nat) = n \<Longrightarrow> c = char_of n"
  by auto

lemma parse_dump_char: "parse_str (dump_char c @ x) = cons_fst c (parse_str x)"
proof -
  define n where "n = (of_char c :: nat)"
  have c: "c = char_of n" and n: "n < 256" by (simp_all add: n_def)
  consider "n \<in> {34, 92, 10, 13, 9, 12, 8}" | "n \<notin> {34, 92}" "32 \<le> n" "n \<le> 126"
    | "n \<notin> {34, 92, 10, 13, 9, 12, 8}" "\<not> (32 \<le> n \<and> n \<le> 126)" by auto
  then show ?thesis
  proof cases
    case 1
    then show ?thesis by (auto simp: c dump_char_def ch_def unescape_def Let_def)
  next
    case 2
    then show ?thesis by (auto simp: c dump_char_def Let_def)
  next
    case 3
    have "hex4 (CHR ''0'') (CHR ''0'') (hex_digit (n div 16)) (hex_digit (n mod 16)) = Some n"
      using hex_val_digit[of "n div 16"] hex_val_digit[of "n mod 16"] n by (simp add: hex4_def hex_val_def)
    with 3 n show ?thesis by (auto simp: c dump_char_def ch_def Let_def)
  qed
qed

lemma parse_dump_str: "parse_str (concat (List.map dump_char s) @ ch 34 # rest) = Some (s, rest)"
  by (induction s) (simp_all add: parse_dump_char cons_fst_def ch_def)

section \<open>Numbers\<close>

text \<open>What may follow a value inside a JSON text.\<close>

definition stops :: "string \<Rightarrow> bool" where
  "stops rest \<longleftrightarrow> rest = [] \<or> hd rest = CHR '','' \<or> hd rest = CHR '']'' \<or> hd rest = CHR ''}''"

lemma stops_not_digit: "stops rest \<Longrightarrow> rest = [] \<or> \<not> is_digit (hd rest)"
  by (auto simp: stops_def is_digit_def)

lemma str_nat_zero: "hd (str_nat n) = CHR ''0'' \<Longrightarrow> n = 0"
proof (induction n rule: str_nat.induct)
  case (1 n)
  show ?case
  proof (cases "n < 10")
    case True
    then have "str_nat n = [digit_char n]" by (simp add: str_nat.simps)
    with 1(2) have "(of_char (digit_char n) :: nat) = of_char (CHR ''0'')" by simp
    with True show ?thesis by (simp add: digit_char_def of_char_of)
  next
    case False
    then have "hd (str_nat n) = hd (str_nat (n div 10))"
      using str_nat_digits[of "n div 10"] by (subst str_nat.simps) (simp add: hd_append)
    with 1 False show ?thesis by simp
  qed
qed

lemma int_part_str_nat:
  assumes "stops rest"
  shows "int_part (str_nat n @ rest) = str_nat n"
proof -
  obtain c cs where s: "str_nat n = c # cs" using str_nat_digits[of n] by (cases "str_nat n") auto
  have d: "list_all is_digit (str_nat n)" using str_nat_digits by blast
  have t: "takeWhile is_digit rest = []" using stops_not_digit[OF assms] by (cases rest) auto
  show ?thesis
  proof (cases "c = CHR ''0''")
    case True
    then have "n = 0" using str_nat_zero[of n] s by simp
    then have "str_nat n = ''0''" by (simp add: str_nat.simps digit_char_def char_of_def bit_0)
    then show ?thesis by (simp add: int_part_def)
  next
    case False
    have "is_digit c" using d s by simp
    moreover have "takeWhile is_digit (str_nat n @ rest) = str_nat n"
      using d t by (subst takeWhile_append2) (auto simp: list_all_iff)
    ultimately show ?thesis using False s by (simp add: int_part_def)
  qed
qed

lemma no_fraction: "stops rest \<Longrightarrow> frac_part rest = [] \<and> exp_part rest = []"
  by (cases rest) (auto simp: stops_def frac_part_def exp_part_def)

lemma parse_num_str_int:
  assumes "stops rest"
  shows "parse_num (str_int i @ rest) = Some (JInt i, rest)"
proof -
  have v: "digits_val (str_nat n) = n" for n using str_nat_val by (simp add: digits_val_def)
  have ne: "str_nat n \<noteq> []" "hd (str_nat n) \<noteq> CHR ''-''" for n
    using str_nat_digits[of n] by (auto simp: list_all_iff is_digit_def dest!: hd_in_set)
  show ?thesis
  proof (cases "i < 0")
    case True
    then show ?thesis using int_part_str_nat[OF assms, of "nat (- i)"] no_fraction[OF assms] v[of "nat (- i)"] ne
      by (simp add: parse_num_def str_int_def Let_def)
  next
    case False
    then show ?thesis using int_part_str_nat[OF assms, of "nat i"] no_fraction[OF assms] v[of "nat i"] ne
      by (simp add: parse_num_def str_int_def Let_def hd_append)
  qed
qed

section \<open>Reading back what was written\<close>

text \<open>A value whose text is read back as it was: no number is kept as text, and no key is repeated.\<close>

fun plain :: "json \<Rightarrow> bool" where
  "plain (JFloat s) = False"
| "plain (JList vs) = (\<forall>v \<in> set vs. plain v)"
| "plain (JObj kvs) = (distinct (List.map fst kvs) \<and> (\<forall>kv \<in> set kvs. plain (snd kv)))"
| "plain JNull = True"
| "plain (JBool b) = True"
| "plain (JInt i) = True"
| "plain (JStr s) = True"

definition reads :: "string \<Rightarrow> string \<Rightarrow> json \<Rightarrow> bool" where
  "reads item key v \<longleftrightarrow> (\<forall>rest. stops rest \<longrightarrow> (\<exists>n. parse_value n (dumps_sep item key v @ rest) = PDone v rest))"

lemma readsD: "reads item key v \<Longrightarrow> stops rest \<Longrightarrow> \<exists>n. parse_value n (dumps_sep item key v @ rest) = PDone v rest"
  by (simp add: reads_def)

lemma stops_simps [simp]:
  "stops []" "stops (CHR '','' # s)" "stops (CHR '']'' # s)" "stops (CHR ''}'' # s)"
  by (simp_all add: stops_def)

text \<open>How a written value begins.\<close>

lemma ch_quote: "ch 34 = CHR 0x22"
  by (simp add: ch_def char_of_def bit_0 bit_Suc)

lemma str_int_start: "\<exists>c cs. str_int i = c # cs \<and> (c = CHR ''-'' \<or> is_digit c)"
proof -
  have "\<exists>c cs. str_nat n = c # cs \<and> is_digit c" for n
    using str_nat_digits[of n] by (cases "str_nat n") auto
  from this[of "nat i"] show ?thesis by (auto simp: str_int_def)
qed

lemma dumps_start: "plain v \<Longrightarrow> \<exists>c cs. dumps_sep item key v = c # cs \<and> \<not> json_ws c \<and> c \<noteq> CHR '']''"
proof (cases v)
  case (JInt i)
  then show ?thesis using str_int_start[of i] by (auto simp: is_digit_def json_ws_def Let_def)
qed (auto simp: json_ws_def dump_str_def ch_quote)

lemma skip_ws_dumps: "plain v \<Longrightarrow> skip_ws (dumps_sep item key v @ rest) = dumps_sep item key v @ rest"
  using dumps_start[where v = v and item = item and key = key] by (auto simp: skip_ws_def)

lemma update_new: "k \<notin> fst ` set acc \<Longrightarrow> AList.update k v acc = acc @ [(k, v)]"
  by (induction acc) auto

lemma int_read:
  assumes "stops rest"
  shows "parse_value 1 (str_int i @ rest) = PDone (JInt i) rest"
proof -
  obtain c cs where c: "str_int i = c # cs" "c = CHR ''-'' \<or> is_digit c" using str_int_start by blast
  have d: "of_char d \<noteq> (34 :: nat) \<and> d \<noteq> CHR ''{'' \<and> d \<noteq> CHR ''['' \<and> d \<noteq> CHR ''n'' \<and> d \<noteq> CHR ''t'' \<and> d \<noteq> CHR ''f''"
    if "d = CHR ''-'' \<or> is_digit d" for d
    using that by (auto simp: is_digit_def)
  have "parse_num (c # cs @ rest) = Some (JInt i, rest)" using parse_num_str_int[OF assms, of i] c by simp
  then show ?thesis using d[OF c(2)] c(1) by (simp add: parse_value.simps parse_atom_def starts_def)
qed

abbreviation dump_pair :: "string \<Rightarrow> string \<Rightarrow> string \<times> json \<Rightarrow> string" where
  "dump_pair item key \<equiv> \<lambda>(k, v). dump_str k @ key @ dumps_sep item key v"

text \<open>
  The separators: a comma and a colon, each followed by white space only. \<^verbatim>\<open>json.dumps\<close> writes a space or
  nothing there.
\<close>

locale json_separators =
  fixes item key :: string
  assumes item_form: "\<exists>w. item = CHR '','' # w \<and> list_all json_ws w"
    and key_form: "\<exists>w. key = CHR '':'' # w \<and> list_all json_ws w"
begin

lemma skip_white: "list_all json_ws w \<Longrightarrow> skip_ws (w @ x) = skip_ws x"
  by (induction w) (simp_all add: skip_ws_def)

lemma item_skip: "\<exists>w. item = CHR '','' # w \<and> skip_ws (w @ x) = skip_ws x"
  using item_form skip_white by blast

lemma key_skip: "\<exists>w. key = CHR '':'' # w \<and> skip_ws (w @ x) = skip_ws x"
  using key_form skip_white by blast

lemma elems_read:
  assumes "vs \<noteq> []" "\<forall>v \<in> set vs. plain v \<and> reads item key v"
  shows "\<exists>n. parse_elems n acc (sep_by item (List.map (dumps_sep item key) vs) @ CHR '']'' # rest) = PDone (JList (acc @ vs)) rest"
  using assms
proof (induction vs arbitrary: acc rule: list_nonempty_induct)
  case (single v)
  obtain n where n: "parse_value n (dumps_sep item key v @ CHR '']'' # rest) = PDone v (CHR '']'' # rest)"
    using single readsD[of item key v "CHR '']'' # rest"] by auto
  then show ?case by (intro exI[of _ "Suc n"]) (simp add: parse_elems.simps skip_ws_def json_ws_def)
next
  case (cons v vs)
  let ?more = "sep_by item (List.map (dumps_sep item key) vs) @ CHR '']'' # rest"
  obtain w ws where vs: "vs = w # ws" using cons(1) by (cases vs) auto
  obtain wi where wi: "item = CHR '','' # wi" "skip_ws (wi @ ?more) = skip_ws ?more" using item_skip[of ?more] by blast
  obtain n where n: "parse_value n (dumps_sep item key v @ item @ ?more) = PDone v (item @ ?more)"
    using cons(3) readsD[of item key v "item @ ?more"] wi(1) by auto
  obtain m where m: "parse_elems m (acc @ [v]) ?more = PDone (JList ((acc @ [v]) @ vs)) rest" using cons by fastforce
  have ws: "skip_ws ?more = ?more"
    using skip_ws_dumps[where v = w and item = item and key = key] cons(3) vs by (cases ws) auto
  have "parse_elems (Suc (max n m)) acc (dumps_sep item key v @ item @ ?more) = PDone (JList (acc @ v # vs)) rest"
    using parse_mono_done(1)[OF n, of "max n m"] parse_mono_done(2)[OF m, of "max n m"] ws wi
    by (simp add: parse_elems.simps(2) skip_ws_def[of "CHR '','' # _"] json_ws_def)
  then show ?case by (intro exI[of _ "Suc (max n m)"]) (simp add: vs)
qed

lemma pair_start:
  assumes "plain v"
  shows "parse_pairs (Suc n) acc (dump_pair item key (k, v) @ rest) =
    (case parse_value n (dumps_sep item key v @ rest) of
       PDone v r' \<Rightarrow>
         (case skip_ws r' of
            [] \<Rightarrow> PFail
          | e # es \<Rightarrow>
              if e = CHR ''}'' then PDone (JObj (AList.update k v acc)) es
              else if e = CHR '','' then parse_pairs n (AList.update k v acc) (skip_ws es)
              else PFail)
     | PFail \<Rightarrow> PFail
     | PFuel \<Rightarrow> PFuel)"
proof -
  let ?rest = "key @ dumps_sep item key v @ rest"
  have s: "dump_pair item key (k, v) @ rest = ch 34 # concat (List.map dump_char k) @ ch 34 # ?rest" by (simp add: dump_str_def)
  have k: "parse_str (concat (List.map dump_char k) @ ch 34 # ?rest) = Some (k, ?rest)" by (rule parse_dump_str)
  obtain wk where wk: "key = CHR '':'' # wk" "skip_ws (wk @ dumps_sep item key v @ rest) = skip_ws (dumps_sep item key v @ rest)"
    using key_skip[of "dumps_sep item key v @ rest"] by blast
  have w: "skip_ws ?rest = CHR '':'' # wk @ dumps_sep item key v @ rest"
    unfolding wk(1) by (simp add: skip_ws_def json_ws_def)
  have v: "skip_ws (wk @ dumps_sep item key v @ rest) = dumps_sep item key v @ rest"
    using skip_ws_dumps[OF assms] wk(2) by simp
  show ?thesis unfolding s parse_pairs.simps(2) using k w v by (simp add: ch_def)
qed

lemma pairs_read:
  assumes "kvs \<noteq> []" "\<forall>kv \<in> set kvs. plain (snd kv) \<and> reads item key (snd kv)" "distinct (List.map fst (acc @ kvs))"
  shows "\<exists>n. parse_pairs n acc (sep_by item (List.map (dump_pair item key) kvs) @ CHR ''}'' # rest) = PDone (JObj (acc @ kvs)) rest"
  using assms
proof (induction kvs arbitrary: acc rule: list_nonempty_induct)
  case (single kv)
  obtain k v where kv: "kv = (k, v)" by (cases kv)
  obtain n where n: "parse_value n (dumps_sep item key v @ CHR ''}'' # rest) = PDone v (CHR ''}'' # rest)"
    using single readsD[of item key v "CHR ''}'' # rest"] kv by auto
  have "parse_pairs (Suc n) acc (dump_pair item key (k, v) @ CHR ''}'' # rest) = PDone (JObj (acc @ [(k, v)])) rest"
    using n single pair_start[where v = v and k = k and rest = "CHR ''}'' # rest" and n = n and acc = acc] by (simp add: kv update_new skip_ws_def json_ws_def)
  then show ?case by (intro exI[of _ "Suc n"]) (simp add: kv)
next
  case (cons kv kvs)
  obtain k v where kv: "kv = (k, v)" by (cases kv)
  let ?more = "sep_by item (List.map (dump_pair item key) kvs) @ CHR ''}'' # rest"
  obtain w ws where kvs: "kvs = w # ws" using cons(1) by (cases kvs) auto
  obtain wi where wi: "item = CHR '','' # wi" "skip_ws (wi @ ?more) = skip_ws ?more" using item_skip[of ?more] by blast
  obtain n where n: "parse_value n (dumps_sep item key v @ item @ ?more) = PDone v (item @ ?more)"
    using cons(3) readsD[of item key v "item @ ?more"] kv wi(1) by auto
  obtain m where m: "parse_pairs m (acc @ [(k, v)]) ?more = PDone (JObj ((acc @ [(k, v)]) @ kvs)) rest"
    using cons(2)[of "acc @ [(k, v)]"] cons(3,4) kv by auto
  have ws: "skip_ws ?more = ?more"
    by (cases w; cases ws) (simp_all add: kvs dump_str_def skip_ws_def json_ws_def ch_def)
  have "parse_pairs (Suc (max n m)) acc (dump_pair item key (k, v) @ item @ ?more) = PDone (JObj (acc @ (k, v) # kvs)) rest"
    using parse_mono_done(1)[OF n, of "max n m"] parse_mono_done(3)[OF m, of "max n m"] ws wi cons(3,4)
      pair_start[where v = v and k = k and rest = "item @ ?more" and n = "max n m" and acc = acc]
    by (simp add: kv update_new skip_ws_def[of "CHR '','' # _"] json_ws_def)
  then show ?case by (intro exI[of _ "Suc (max n m)"]) (simp add: kvs kv)
qed

lemma plain_reads: "plain v \<Longrightarrow> reads item key v"
proof (induction v rule: plain.induct)
  case (2 vs)
  show ?case
  proof (cases "vs = []")
    case False
    then obtain c cs where first: "vs = c # cs" by (cases vs) auto
    obtain d ds where start: "dumps_sep item key c = d # ds" "\<not> json_ws d" "d \<noteq> CHR '']''" using dumps_start[where v = c and item = item and key = key] 2 first by auto
    show ?thesis unfolding reads_def
    proof (intro allI impI)
      fix rest assume "stops rest"
      let ?more = "sep_by item (List.map (dumps_sep item key) vs) @ CHR '']'' # rest"
      obtain n where n: "parse_elems n [] ?more = PDone (JList vs) rest"
        using elems_read[OF False, of "[]" rest] 2 by auto
      obtain es where es: "?more = d # es" using start first by (cases cs) auto
      then have "skip_ws ?more = d # es" using start by (simp add: skip_ws_def)
      then have "parse_value (Suc n) (CHR ''['' # ?more) = PDone (JList vs) rest"
        using n es start by (simp add: parse_value.simps(2))
      then show "\<exists>n. parse_value n (dumps_sep item key (JList vs) @ rest) = PDone (JList vs) rest"
        by (intro exI[of _ "Suc n"]) simp
    qed
  qed (auto simp: reads_def parse_value.simps skip_ws_def json_ws_def intro!: exI[of _ 1])
next
  case (3 kvs)
  show ?case
  proof (cases "kvs = []")
    case False
    then obtain k v cs where first: "kvs = (k, v) # cs" by (cases kvs) auto
    show ?thesis unfolding reads_def
    proof (intro allI impI)
      fix rest assume "stops rest"
      let ?more = "sep_by item (List.map (dump_pair item key) kvs) @ CHR ''}'' # rest"
      obtain n where n: "parse_pairs n [] ?more = PDone (JObj kvs) rest"
        using pairs_read[OF False, of "[]" rest] 3 by auto
      obtain es where es: "?more = ch 34 # es" using first by (cases cs) (auto simp: dump_str_def)
      then have "skip_ws ?more = ch 34 # es" by (simp add: skip_ws_def json_ws_def ch_def)
      then have "parse_value (Suc n) (CHR ''{'' # ?more) = PDone (JObj kvs) rest"
        using n es by (simp add: parse_value.simps(2) ch_quote)
      then show "\<exists>n. parse_value n (dumps_sep item key (JObj kvs) @ rest) = PDone (JObj kvs) rest"
        by (intro exI[of _ "Suc n"]) simp
    qed
  qed (auto simp: reads_def parse_value.simps skip_ws_def json_ws_def intro!: exI[of _ 1])
next
  case (5 b)
  then show ?case by (auto simp: reads_def parse_value.simps parse_atom_def starts_def intro!: exI[of _ 1])
next
  case (6 i)
  then show ?case using int_read by (auto simp: reads_def)
next
  case (7 s)
  have "parse_value 1 (dump_str s @ rest) = PDone (JStr s) rest" for rest
    using parse_dump_str[of s rest] by (simp add: parse_value.simps dump_str_def ch_def)
  then show ?case by (auto simp: reads_def)
qed (auto simp: reads_def parse_value.simps parse_atom_def starts_def intro!: exI[of _ 1])

lemma loads_dumps_sep:
  assumes "plain v"
  shows "json_loads (dumps_sep item key v) = Inr v"
proof -
  obtain n where "parse_value n (dumps_sep item key v) = PDone v []"
    using plain_reads[OF assms] readsD[of item key v "[]"] by auto
  then show ?thesis using skip_ws_dumps[OF assms, where rest = "[]"] by (intro json_loads_value[of n]) simp
qed

end

interpretation default_separators: json_separators "'', ''" "'': ''"
  by unfold_locales (auto simp: json_ws_def)

interpretation compact_separators: json_separators "'',''" "'':''"
  by unfold_locales auto

lemma loads_dumps: "plain v \<Longrightarrow> json_loads (json_dumps v) = Inr v"
  unfolding json_dumps_def by (rule default_separators.loads_dumps_sep)

section \<open>Secrets of spending conditions\<close>

lemma mapR_json_str: "mapR json_str (List.map JStr ts) = Inr ts"
  by (induction ts) (simp_all add: json_str_def)

lemma mk_tags_written:
  "ts \<noteq> [] \<Longrightarrow> mk_tags (Some (JList (List.map (\<lambda>t. JList (List.map JStr t)) ts))) = Inr ts"
proof -
  have "mapR (\<lambda>t. bindR (json_list t) (mapR json_str)) (List.map (\<lambda>t. JList (List.map JStr t)) ts) = Inr ts" for ts
    by (induction ts) (simp_all add: json_list_def mapR_json_str)
  then show "ts \<noteq> [] \<Longrightarrow> ?thesis" by (simp add: mk_tags_def json_falsy_def json_list_def)
qed

lemma deserialize_serialize:
  "deserialize (serialize s drawn) =
   Inr (s\<lparr>s_nonce := Some (case s_nonce s of None \<Rightarrow> drawn | Some n \<Rightarrow> if n = [] then drawn else n)\<rparr>)"
proof -
  let ?n = "case s_nonce s of None \<Rightarrow> drawn | Some n \<Rightarrow> if n = [] then drawn else n"
  let ?tags = "if s_tags s = [] then [] else [(''tags'', JList (List.map (\<lambda>t. JList (List.map JStr t)) (s_tags s)))]"
  let ?j = "JList [JStr (s_kind s), JObj ([(''data'', JStr (s_data s)), (''nonce'', JStr ?n)] @ ?tags)]"
  have "json_loads (serialize s drawn) = Inr ?j" unfolding serialize_def by (rule loads_dumps) simp
  moreover have "mk_tags (map_of ([(''data'', JStr (s_data s)), (''nonce'', JStr ?n)] @ ?tags) ''tags'') = Inr (s_tags s)"
    by (simp add: mk_tags_written) (simp add: mk_tags_def json_falsy_def)
  ultimately show ?thesis by (simp add: deserialize_def json_str_def)
qed

text \<open>C21. A secret of a spending condition is read back from its text as it was written, with the drawn
  nonce in the place of a missing or an empty one.\<close>

theorem secret_roundtrip:
  "deserialize (serialize s drawn) =
   Inr (s\<lparr>s_nonce := Some (case s_nonce s of None \<Rightarrow> drawn | Some n \<Rightarrow> if n = [] then drawn else n)\<rparr>)"
  by (rule deserialize_serialize)

end
