(* ===== verification/Keysets.thy ===== *)
theory Keysets
  imports Keys JsonFacts
begin

text \<open>
  \<^verbatim>\<open>LedgerKeysets\<close> of \<^verbatim>\<open>cashu/mint/keysets.py\<close>: the keysets of the mint in memory and in the table
  \<^verbatim>\<open>keysets\<close> (\<^verbatim>\<open>cashu/mint/crud.py\<close>), their activation and rotation, and the start of the mint that
  uses them (\<^verbatim>\<open>Ledger.__init__\<close> and \<^verbatim>\<open>_startup_keysets\<close> of \<^verbatim>\<open>cashu/mint/ledger.py\<close>).

  A row holds what the code stores; the keys are generated when the row is read. The theories of the
  ledger (\<open>Store\<close>) work on rows that have been read. \<^verbatim>\<open>self.keyset\<close> is the same object as an entry of
  the dictionary \<^verbatim>\<open>self.keysets\<close>; \<open>km_keyset\<close> is the key of that entry.
\<close>

section \<open>The table\<close>

record keyset_row =
  kr_id :: string
  kr_derivation_path :: string
  kr_seed :: "string option"
  kr_encrypted_seed :: "string option"
  kr_active :: bool
  kr_version :: "string option"
  kr_unit :: "string option"
  kr_input_fee_ppk :: "int option"
  kr_amounts :: string
  kr_balance :: int
  kr_fees_paid :: int
  kr_final_expiry :: "int option"

record keys_state =
  km_keysets :: "(string \<times> mint_keyset) list"
  km_keyset :: "string option"
  km_path :: string
  km_seed :: string
  km_amounts :: "int list"
  km_rows :: "keyset_row list"

type_synonym 'a kop = "(keys_state, error, 'a) sm"

definition json_int :: "json \<Rightarrow> error + int" where
  "json_int j = (case j of JInt i \<Rightarrow> Inr i | _ \<Rightarrow> Inl (ValueError ''not an integer''))"

definition amounts_json :: "int list \<Rightarrow> string" where
  "amounts_json amounts = json_dumps (JList (List.map JInt amounts))"

text \<open>\<^verbatim>\<open>MintKeyset.from_row\<close>.\<close>

definition keyset_from_row :: "key_env \<Rightarrow> keyset_row \<Rightarrow> error + mint_keyset" where
  "keyset_from_row K r =
     bindR (json_loads (kr_amounts r)) (\<lambda>j.
     bindR (bindR (json_list j) (mapR json_int)) (\<lambda>amounts.
     init_mint_keyset K
       \<lparr>ka_derivation_path = kr_derivation_path r, ka_seed = kr_seed r, ka_encrypted_seed = kr_encrypted_seed r,
        ka_amounts = Some amounts, ka_active = Some (kr_active r), ka_unit = kr_unit r, ka_version = kr_version r,
        ka_input_fee_ppk = kr_input_fee_ppk r, ka_id = kr_id r, ka_balance = kr_balance r,
        ka_fees_paid = kr_fees_paid r, ka_final_expiry = kr_final_expiry r\<rparr>))"

text \<open>A new row is always active, and \<^verbatim>\<open>fees_paid\<close> takes its default. A keyset object never carries an
  encrypted seed: the constructor does not keep it.\<close>

definition new_keyset_row :: "mint_keyset \<Rightarrow> keyset_row" where
  "new_keyset_row k =
     \<lparr>kr_id = k_id k, kr_derivation_path = k_derivation_path k, kr_seed = Some (k_seed k), kr_encrypted_seed = None,
      kr_active = True, kr_version = Some (k_version k), kr_unit = Some (unit_name (k_unit k)),
      kr_input_fee_ppk = Some (k_input_fee_ppk k), kr_amounts = amounts_json (k_amounts k), kr_balance = k_balance k,
      kr_fees_paid = 0, kr_final_expiry = k_final_expiry k\<rparr>"

definition store_keyset :: "mint_keyset \<Rightarrow> unit kop" where
  "store_keyset k =
     thenS (liftS (\<lambda>s. checkR (k_id k \<notin> kr_id ` set (km_rows s)) (IntegrityError ''UNIQUE constraint failed: keysets.id'')))
     (modifyS (\<lambda>s. s\<lparr>km_rows := km_rows s @ [new_keyset_row k]\<rparr>))"

text \<open>The amounts, the balance and the fees of a row are left as they are.\<close>

definition update_row :: "mint_keyset \<Rightarrow> keyset_row \<Rightarrow> keyset_row" where
  "update_row k r =
     r\<lparr>kr_seed := Some (k_seed k), kr_encrypted_seed := None, kr_derivation_path := k_derivation_path k,
       kr_active := k_active k, kr_version := Some (k_version k), kr_unit := Some (unit_name (k_unit k)),
       kr_input_fee_ppk := Some (k_input_fee_ppk k), kr_final_expiry := k_final_expiry k\<rparr>"

definition update_keyset :: "mint_keyset \<Rightarrow> unit kop" where
  "update_keyset k = modifyS (\<lambda>s. s\<lparr>km_rows :=
     List.map (\<lambda>r. if kr_id r = k_id k then update_row k r else r) (km_rows s)\<rparr>)"

definition is_or_any :: "'a option \<Rightarrow> 'a option \<Rightarrow> bool" where
  "is_or_any wanted col = (case wanted of None \<Rightarrow> True | Some w \<Rightarrow> col = Some w)"

definition get_keyset :: "key_env \<Rightarrow> string option \<Rightarrow> string option \<Rightarrow> string option \<Rightarrow> string option \<Rightarrow> bool option \<Rightarrow> mint_keyset list kop" where
  "get_keyset K kid derivation_path seed unit active =
     liftS (\<lambda>s. mapR (keyset_from_row K) (filter (\<lambda>r.
       is_or_any active (Some (kr_active r)) \<and> is_or_any kid (Some (kr_id r)) \<and>
       is_or_any derivation_path (Some (kr_derivation_path r)) \<and> is_or_any seed (kr_seed r) \<and>
       is_or_any unit (kr_unit r)) (km_rows s)))"

section \<open>Paths of the keysets\<close>

definition path_parts :: "string \<Rightarrow> string list" where
  "path_parts path = split_on (CHR ''/'') path"

text \<open>The loop of \<^verbatim>\<open>maybe_update_derivation_path\<close>. The counter is that of the given path throughout.\<close>

primrec supersede_loop :: "string list \<Rightarrow> int \<Rightarrow> mint_keyset list \<Rightarrow> string \<Rightarrow> error + string" where
  "supersede_loop derivation counter [] path = Inr path"
| "supersede_loop derivation counter (k # ks) path =
     (if k_active k then
        (let parts = path_parts (k_derivation_path k)
         in bindR (path_counter parts) (\<lambda>n.
            supersede_loop derivation counter ks
              (if butlast parts = butlast derivation \<and> n > counter then k_derivation_path k else path)))
      else supersede_loop derivation counter ks path)"

definition maybe_update_derivation_path :: "string \<Rightarrow> string kop" where
  "maybe_update_derivation_path path = liftS (\<lambda>s.
     bindR (path_counter (path_parts path)) (\<lambda>counter.
     supersede_loop (path_parts path) counter (List.map snd (km_keysets s)) path))"

section \<open>Rotation\<close>

text \<open>The loop that selects the keyset to rotate; \<open>selected_keyset_counter\<close> keeps its first value.\<close>

primrec select_loop :: "unit_t \<Rightarrow> int \<Rightarrow> mint_keyset list \<Rightarrow> mint_keyset option \<Rightarrow> error + mint_keyset option" where
  "select_loop u selected_keyset_counter [] selected = Inr selected"
| "select_loop u selected_keyset_counter (k # ks) selected =
     (if k_active k \<and> k_unit k = u then
        bindR (path_counter (path_parts (k_derivation_path k))) (\<lambda>n.
        select_loop u selected_keyset_counter ks (if n > selected_keyset_counter then Some k else selected))
      else select_loop u selected_keyset_counter ks selected)"

definition next_path :: "string \<Rightarrow> error + string" where
  "next_path path =
     (let parts = path_parts path
      in bindR (path_counter parts) (\<lambda>n. Inr (sep_by ''/'' (butlast parts @ [str_int (n + 1) @ [CHR 0x27]]))))"

definition put_keyset :: "mint_keyset \<Rightarrow> unit kop" where
  "put_keyset k = modifyS (\<lambda>s. s\<lparr>km_keysets := AList.update (k_id k) k (km_keysets s)\<rparr>)"

definition fresh_keyset :: "string \<Rightarrow> string \<Rightarrow> int list \<Rightarrow> keyset_args" where
  "fresh_keyset path seed amounts =
     \<lparr>ka_derivation_path = path, ka_seed = Some seed, ka_encrypted_seed = None, ka_amounts = Some amounts,
      ka_active = None, ka_unit = None, ka_version = None, ka_input_fee_ppk = None, ka_id = [], ka_balance = 0,
      ka_fees_paid = 0, ka_final_expiry = None\<rparr>"

definition rotate_next_keyset :: "key_env \<Rightarrow> unit_t \<Rightarrow> int option \<Rightarrow> int option \<Rightarrow> int option \<Rightarrow> mint_keyset kop" where
  "rotate_next_keyset K u order input_fee_ppk final_expiry =
     bindS (liftS (\<lambda>s. select_loop u (- 1) (List.map snd (km_keysets s)) None)) (\<lambda>found.
     bindS (liftS (\<lambda>_. ofOption (PyException (''Couldn't find suitable keyset for rotation with unit '' @ unit_name u)) found)) (\<lambda>selected.
     bindS (liftS (\<lambda>_. next_path (k_derivation_path selected))) (\<lambda>path.
     bindS (getS (\<lambda>s. if truthy_int order then List.map (\<lambda>i. 2 ^ i) [0..<nat (the order)] else km_amounts s)) (\<lambda>amounts.
     bindS (liftS (\<lambda>s. init_mint_keyset K ((fresh_keyset path (km_seed s) amounts)
        \<lparr>ka_input_fee_ppk := input_fee_ppk, ka_active := Some True, ka_final_expiry := final_expiry\<rparr>))) (\<lambda>new_keyset.
     thenS (store_keyset new_keyset)
    (thenS (put_keyset new_keyset)
    (let old = selected\<lparr>k_active := False\<rparr>
     in thenS (update_keyset old)
       (thenS (put_keyset old)
              (returnS new_keyset)))))))))"

section \<open>Activation\<close>

definition activate_keyset :: "key_env \<Rightarrow> string \<Rightarrow> string option \<Rightarrow> string option \<Rightarrow> bool \<Rightarrow> mint_keyset kop" where
  "activate_keyset K path seed0 version0 autosave =
     thenS (guardS (path \<noteq> []) (ValueError ''Derivation path must be provided.''))
    (bindS (get_keyset K None (Some path) None None None) (\<lambda>existing.
     bindS (case existing of
              k # _ \<Rightarrow> returnS k
            | [] \<Rightarrow>
                bindS (liftS (\<lambda>s. init_mint_keyset K
                  ((fresh_keyset path (if truthy_str seed0 then the seed0 else km_seed s) (km_amounts s))
                   \<lparr>ka_version := Some (if truthy_str version0 then the version0 else ke_version K),
                     ka_input_fee_ppk := Some (ke_input_fee_ppk K)\<rparr>))) (\<lambda>k.
                thenS (whenS autosave (store_keyset k)) (returnS k))) (\<lambda>k.
     let k' = k\<lparr>k_active := True\<rparr>
     in thenS (put_keyset k') (returnS k'))))"

section \<open>Keysets with a base64 identifier\<close>

text \<open>\<^verbatim>\<open>int(s, 16)\<close> does not raise.\<close>

fun hex_tail :: "string \<Rightarrow> bool" where
  "hex_tail [] = True"
| "hex_tail (c # cs) =
     (if hex_val c \<noteq> None then hex_tail cs
      else if c = CHR ''_'' then (case cs of [] \<Rightarrow> False | d # ds \<Rightarrow> hex_val d \<noteq> None \<and> hex_tail ds)
      else False)"

definition is_int16 :: "string \<Rightarrow> bool" where
  "is_int16 s =
     (let t = strip s;
          u = (if starts ''-'' t \<or> starts ''+'' t then tl t else t);
          v = (if starts ''0x'' u \<or> starts ''0X'' u then (if starts ''_'' (drop 2 u) then drop 3 u else drop 2 u) else u)
      in case v of [] \<Rightarrow> False | c # cs \<Rightarrow> hex_val c \<noteq> None \<and> hex_tail cs)"

definition inactivate_one :: "key_env \<Rightarrow> mint_keyset \<Rightarrow> unit kop" where
  "inactivate_one K k =
     bindS (getS (\<lambda>s. List.map (\<lambda>x. k_id (snd x)) (km_keysets s))) (\<lambda>ids.
     if \<not> k_active k \<or> k_public_keys k = [] then returnS ()
     else if is_int16 (k_id k) then returnS ()
     else if b64_decode (k_id k) = None then returnS ()
     else if derive_keyset_id (ke_crv K) (k_public_keys k) \<notin> set ids then returnS ()
     else (let k' = k\<lparr>k_active := False\<rparr> in thenS (put_keyset k') (update_keyset k')))"

definition inactivate_base64_keysets :: "key_env \<Rightarrow> unit kop" where
  "inactivate_base64_keysets K =
     bindS (getS (\<lambda>s. List.map snd (km_keysets s))) (\<lambda>ks. forS ks (inactivate_one K))"

section \<open>Starting\<close>

definition init_keysets :: "key_env \<Rightarrow> bool \<Rightarrow> unit kop" where
  "init_keysets K autosave =
     bindS (get_keyset K None None None None None) (\<lambda>tmp_keysets.
     thenS (forS tmp_keysets put_keyset)
    (bindS (getS km_path) (\<lambda>path0.
     bindS (maybe_update_derivation_path path0) (\<lambda>path.
     thenS (modifyS (\<lambda>s. s\<lparr>km_path := path\<rparr>))
    (thenS (whenS (path \<noteq> []) (bindS (activate_keyset K path None None autosave) (\<lambda>k.
       modifyS (\<lambda>s. s\<lparr>km_keyset := Some (k_id k)\<rparr>))))
    (thenS (liftS (\<lambda>s. checkR (list_ex (\<lambda>x. k_active (snd x)) (km_keysets s)) (KeysetError (Some ''No active keyset found.''))))
    (whenS (ke_inactivate_base64_keysets K) (inactivate_base64_keysets K))))))))"

definition startup_keysets :: "key_env \<Rightarrow> string list \<Rightarrow> unit kop" where
  "startup_keysets K path_list =
     thenS (init_keysets K True)
     (forS path_list (\<lambda>path0. bindS (maybe_update_derivation_path path0) (\<lambda>path.
        thenS (activate_keyset K path None None True) (returnS ()))))"

text \<open>\<^verbatim>\<open>Ledger.__init__\<close>: the state before the start, over the table it finds, and the public key of the mint.\<close>

definition init_ledger :: "key_env \<Rightarrow> string \<Rightarrow> string \<Rightarrow> int list option \<Rightarrow> string option \<Rightarrow> keyset_row list \<Rightarrow> error + keys_state \<times> point" where
  "init_ledger K seed derivation_path amounts seed_decryption_key rows =
     bindR (checkR (seed \<noteq> []) (PyException ''seed not set'')) (\<lambda>_.
     bindR (case (if truthy_str seed_decryption_key then aes_decrypt (ke_crv K) (ke_aes K) (the seed_decryption_key) seed else Inr seed) of
              Inr s \<Rightarrow> Inr s
            | Inl e \<Rightarrow> Inl (PyException (''Could not decrypt seed. Make sure that the seed is correct and the decryption key is set. '' @ error_detail e))) (\<lambda>s.
     bindR (derive_pubkey (ke_crv K) s) (\<lambda>pubkey.
     Inr (\<lparr>km_keysets = [], km_keyset = None, km_path = derivation_path, km_seed = s,
           km_amounts = (case amounts of Some (x # xs) \<Rightarrow> x # xs | _ \<Rightarrow> List.map (\<lambda>n. 2 ^ n) [0..<ke_max_order K]),
           km_rows = rows\<rparr>, pubkey))))"

text \<open>\<^verbatim>\<open>get_keyset\<close>: the public keys of a keyset.\<close>

definition ledger_get_keyset :: "key_env \<Rightarrow> string option \<Rightarrow> (int \<times> string) list kop" where
  "ledger_get_keyset K keyset_id = liftS (\<lambda>s.
     bindR (checkR (\<not> (truthy_str keyset_id \<and> map_of (km_keysets s) (the keyset_id) = None)) (KeysetNotFoundError None)) (\<lambda>_.
     bindR (if truthy_str keyset_id then ofOption (KeyError (the keyset_id)) (map_of (km_keysets s) (the keyset_id))
            else bindR (ofOption (PyException ''keyset'') (km_keyset s)) (\<lambda>i. ofOption (KeyError i) (map_of (km_keysets s) i))) (\<lambda>k.
     bindR (checkR (k_public_keys k \<noteq> []) (KeysetError (Some ''no public keys for this keyset''))) (\<lambda>_.
     Inr (dict_from (List.map (\<lambda>(a, p). (a, pk_hex (ke_crv K) p)) (k_public_keys k)))))))"

section \<open>Splitting and joining paths\<close>

lemma split_on_nonempty: "split_on c s \<noteq> []"
  by (induction s) (auto split: list.splits)

lemma split_on_free: "p \<in> set (split_on c s) \<Longrightarrow> c \<notin> set p"
proof (induction s arbitrary: p)
  case (Cons x xs)
  show ?case
  proof (cases "split_on c xs")
    case (Cons y ys)
    then show ?thesis using Cons.prems Cons.IH[of y] Cons.IH[of p] by (auto split: if_splits)
  qed (use split_on_nonempty in blast)
qed simp

lemma split_on_append:
  assumes "c \<notin> set p"
  shows "split_on c (p @ c # s) = p # split_on c s"
  using assms by (induction p) auto

lemma split_on_word: "c \<notin> set p \<Longrightarrow> split_on c p = [p]"
  by (induction p) auto

lemma split_sep_by: "ps \<noteq> [] \<Longrightarrow> \<forall>p\<in>set ps. c \<notin> set p \<Longrightarrow> split_on c (sep_by [c] ps) = ps"
  by (induction "[c]" ps rule: sep_by.induct) (simp_all add: split_on_append split_on_word)

lemma str_int_chars: "c \<in> set (str_int n) \<Longrightarrow> is_digit c \<or> c = CHR ''-''"
  using str_nat_digits by (auto simp: str_int_def list_all_iff split: if_splits)

lemma counter_part: "path_counter (ps @ [str_int n @ [CHR 0x27]]) = Inr n"
proof -
  have "CHR 0x27 \<notin> set (str_int n)" using str_int_chars[of "CHR 0x27" n] by (auto simp: is_digit_def)
  then have "filter (\<lambda>c. c \<noteq> CHR 0x27) (str_int n) = str_int n" by (auto simp: filter_id_conv)
  then show ?thesis by (simp add: path_counter_def unprime_def py_int_err_def)
qed

lemma next_path_parts:
  assumes "next_path path = Inr path'"
  shows "\<exists>n. path_counter (path_parts path) = Inr n \<and> path_counter (path_parts path') = Inr (n + 1) \<and>
    butlast (path_parts path') = butlast (path_parts path)"
proof -
  obtain n where n: "path_counter (path_parts path) = Inr n"
    and p: "path' = sep_by ''/'' (butlast (path_parts path) @ [str_int (n + 1) @ [CHR 0x27]])"
    using assms by (auto simp: next_path_def Let_def bindR_Inr)
  have "\<forall>p\<in>set (butlast (path_parts path) @ [str_int (n + 1) @ [CHR 0x27]]). CHR ''/'' \<notin> set p"
    using str_int_chars[of "CHR ''/''" "n + 1"]
    by (auto simp: path_parts_def is_digit_def dest!: in_set_butlastD dest: split_on_free)
  then have "path_parts path' = butlast (path_parts path) @ [str_int (n + 1) @ [CHR 0x27]]"
    unfolding p path_parts_def by (intro split_sep_by) auto
  then show ?thesis using n counter_part by simp
qed

section \<open>Rotation\<close>

lemma select_loop_spec:
  assumes "select_loop u c ks sel = Inr r"
    and "\<forall>k\<in>set ks. k_active k \<and> k_unit k = u \<longrightarrow> (\<forall>n. path_counter (path_parts (k_derivation_path k)) = Inr n \<longrightarrow> c < n)"
  shows "r = (if filter (\<lambda>k. k_active k \<and> k_unit k = u) ks = [] then sel
    else Some (last (filter (\<lambda>k. k_active k \<and> k_unit k = u) ks)))"
  using assms by (induction ks arbitrary: sel) (auto simp: bindR_Inr split: if_splits)

lemma select_loop_member:
  "select_loop u c ks sel = Inr (Some k) \<Longrightarrow> sel = Some k \<or> k \<in> set ks \<and> k_active k \<and> k_unit k = u"
  by (induction ks arbitrary: sel) (fastforce simp: bindR_Inr split: if_splits)+

lemma store_keyset_ok:
  "store_keyset k s = (Inr x, t) \<longleftrightarrow> k_id k \<notin> kr_id ` set (km_rows s) \<and> t = s\<lparr>km_rows := km_rows s @ [new_keyset_row k]\<rparr>"
  by (auto simp: store_keyset_def bindS_def thenS_def checkR_def split: if_splits)

text \<open>C23. A rotation that returns replaces an active keyset of the unit by a new active one whose path is the old path
  with its counter increased by one. The old keyset stays in memory and in the table, but is no longer active, and
  the new one is stored under an identifier that the table did not hold.\<close>

theorem rotation_effect:
  assumes "rotate_next_keyset K u order fee expiry s = (Inr new, t)"
  shows "\<exists>old n. old \<in> snd ` set (km_keysets s) \<and> k_active old \<and> k_unit old = u \<and> k_active new \<and>
    path_counter (path_parts (k_derivation_path old)) = Inr n \<and>
    path_counter (path_parts (k_derivation_path new)) = Inr (n + 1) \<and>
    butlast (path_parts (k_derivation_path new)) = butlast (path_parts (k_derivation_path old)) \<and>
    k_id new \<notin> kr_id ` set (km_rows s) \<and>
    km_keysets t = AList.update (k_id old) (old\<lparr>k_active := False\<rparr>) (AList.update (k_id new) new (km_keysets s)) \<and>
    km_rows t = List.map (\<lambda>r. if kr_id r = k_id old then update_row (old\<lparr>k_active := False\<rparr>) r else r)
      (km_rows s @ [new_keyset_row new])"
proof -
  from assms obtain sel old path args where
    sel: "select_loop u (- 1) (List.map snd (km_keysets s)) None = Inr sel" "sel = Some old"
    and path: "next_path (k_derivation_path old) = Inr path"
    and new: "init_mint_keyset K args = Inr new" "ka_derivation_path args = path" "ka_active args = Some True"
    and fresh: "k_id new \<notin> kr_id ` set (km_rows s)"
    and t: "km_keysets t = AList.update (k_id old) (old\<lparr>k_active := False\<rparr>) (AList.update (k_id new) new (km_keysets s))"
      "km_rows t = List.map (\<lambda>r. if kr_id r = k_id old then update_row (old\<lparr>k_active := False\<rparr>) r else r)
        (km_rows s @ [new_keyset_row new])"
    unfolding rotate_next_keyset_def Let_def
    by (elim bindS_OkE thenS_OkE) (fastforce simp: store_keyset_ok put_keyset_def update_keyset_def fresh_keyset_def ofOption_Inr)
  have old: "old \<in> snd ` set (km_keysets s)" "k_active old" "k_unit old = u"
    using select_loop_member[OF sel(1)[unfolded sel(2)]] by auto
  have "k_active new" "k_derivation_path new = path" using init_mint_keyset_ok[OF new(1)] new(2,3) by auto
  with old fresh t next_path_parts[OF path] show ?thesis by blast
qed

text \<open>Of several active keysets of a unit, the rotation takes the last one of the dictionary, whatever their
  counters are.\<close>

theorem rotation_selects_last:
  assumes "select_loop u (- 1) ks None = Inr sel"
    and "\<forall>k\<in>set ks. k_active k \<and> k_unit k = u \<longrightarrow> (\<forall>n. path_counter (path_parts (k_derivation_path k)) = Inr n \<longrightarrow> 0 \<le> n)"
  shows "sel = (let active = filter (\<lambda>k. k_active k \<and> k_unit k = u) ks in if active = [] then None else Some (last active))"
  using select_loop_spec[OF assms(1)] assms(2) by (fastforce simp: Let_def)

section \<open>Storing and loading\<close>

lemma amounts_json_read: "json_loads (amounts_json amounts) = Inr (JList (List.map JInt amounts))"
  unfolding amounts_json_def by (rule loads_dumps) simp

lemma mapR_json_int: "mapR json_int (List.map JInt xs) = Inr xs"
  by (induction xs) (simp_all add: json_int_def)

lemma generate_keys_again:
  assumes "generate_keys K k0 vt = Inr k" and "k_id k \<noteq> []"
  shows "generate_keys K (k0\<lparr>k_id := k_id k, k_active := b, k_balance := m, k_fees_paid := f\<rparr>) vt =
    Inr (k\<lparr>k_active := b, k_balance := m, k_fees_paid := f\<rparr>)"
  using assms by (auto simp: generate_keys_def Let_def bindR_Inr id_or_def derive_pubkeys_def split: if_splits)

lemma generate_keys_any_keys:
  "generate_keys K (k0\<lparr>k_private_keys := x, k_public_keys := y\<rparr>) vt = generate_keys K k0 vt"
  by (simp add: generate_keys_def Let_def)

text \<open>C24. A keyset that is stored and loaded again has the same keys, identifier, unit and fee; the row makes it
  active, with no fees paid yet.\<close>

theorem keyset_store_load:
  assumes "init_mint_keyset K a = Inr k"
    and "k_id k \<noteq> []" and "k_amounts k \<noteq> []" and "k_version k \<noteq> []" and "k_seed k \<noteq> ''supersecretprivatekey''"
  shows "keyset_from_row K (new_keyset_row k) = Inr (k\<lparr>k_active := True, k_fees_paid := 0\<rparr>)"
proof -
  obtain k0 vt where k0: "generate_keys K k0 vt = Inr k" and vt: "version_tuple (k_version k0) = Inr vt"
    and fee: "0 \<le> k_input_fee_ppk k0" and seed: "k_seed k0 \<noteq> []"
    using assms(1) by (auto simp: init_mint_keyset_def keyset_seed_def Let_def bindR_Inr)
  have same: "k_version k = k_version k0" "k_input_fee_ppk k = k_input_fee_ppk k0" "k_seed k = k_seed k0"
    "k_derivation_path k = k_derivation_path k0" "k_unit k = k_unit k0" "k_amounts k = k_amounts k0"
    "k_final_expiry k = k_final_expiry k0" "k_balance k = k_balance k0"
    using generate_keys_ok[OF k0] by auto
  obtain x xs where am: "k_amounts k0 = x # xs" using assms(3) same by (cases "k_amounts k0") auto
  let ?row = "\<lparr>k_id = k_id k, k_private_keys = [], k_public_keys = [], k_active = True, k_unit = k_unit k0,
    k_derivation_path = k_derivation_path k0, k_input_fee_ppk = k_input_fee_ppk k0, k_seed = k_seed k0,
    k_version = k_version k0, k_amounts = k_amounts k0, k_balance = k_balance k0, k_fees_paid = 0,
    k_final_expiry = k_final_expiry k0\<rparr>"
  have row: "?row = (k0\<lparr>k_id := k_id k, k_active := True, k_balance := k_balance k0, k_fees_paid := 0\<rparr>)
      \<lparr>k_private_keys := [], k_public_keys := []\<rparr>"
    by (cases k0) simp
  have "generate_keys K ?row vt = Inr (k\<lparr>k_active := True, k_fees_paid := 0\<rparr>)"
    using generate_keys_again[OF k0 assms(2), where b = True and m = "k_balance k0" and f = 0] same(8)
    unfolding row generate_keys_any_keys by simp
  moreover have "unit_name (k_unit k0) \<noteq> []" by (cases "k_unit k0") simp_all
  ultimately show ?thesis
    using vt fee seed assms(4,5) am
    by (simp add: json_int_def keyset_from_row_def new_keyset_row_def amounts_json_read json_list_def mapR_json_int init_mint_keyset_def
        keyset_seed_def truthy_str_def same or_zero_def Let_def)
qed

text \<open>The seed of a keyset whose row holds it encrypted only is written into the table in clear as soon as the
  keyset is updated, as when it is rotated; the encrypted seed is dropped.\<close>

theorem update_reveals_seed:
  assumes "keyset_from_row K r = Inr k" and "kr_encrypted_seed r = Some c" and "c \<noteq> []" and "kr_id r \<noteq> []"
    and "aes_decrypt (ke_crv K) (ke_aes K) (the (ke_seed_decryption_key K)) c = Inr seed"
    and "r \<in> set (km_rows s)"
  shows "\<exists>r'\<in>set (km_rows (snd (update_keyset (k\<lparr>k_active := b\<rparr>) s))).
    kr_id r' = kr_id r \<and> kr_seed r' = Some seed \<and> kr_encrypted_seed r' = None"
proof -
  obtain args where k: "init_mint_keyset K args = Inr k" and args: "ka_id args = kr_id r" "ka_encrypted_seed args = Some c"
    using assms(1,2) by (auto simp: keyset_from_row_def bindR_Inr)
  have kid: "k_id k = kr_id r" using init_mint_keyset_ok[OF k] args assms(4) by simp
  have "k_seed k = seed"
    using k args assms(3,5) by (auto simp: init_mint_keyset_def keyset_seed_def truthy_str_def Let_def bindR_Inr checkR_Inr
      dest!: generate_keys_ok split: if_splits option.splits)
  with kid assms(6) show ?thesis
    by (intro bexI[of _ "update_row (k\<lparr>k_active := b\<rparr>) r"]) (auto simp: update_keyset_def update_row_def)
qed

section \<open>Samples\<close>

definition sample_minted_keyset :: mint_keyset where
  "sample_minted_keyset = (case init_mint_keyset sample_key_env sample_keyset_args of Inr k \<Rightarrow> k | Inl e \<Rightarrow> undefined)"

definition sample_keys_state :: keys_state where
  "sample_keys_state = \<lparr>km_keysets = [(''old'', sample_minted_keyset)], km_keyset = Some ''old'', km_path = [],
     km_seed = ''seed'', km_amounts = [1, 2], km_rows = []\<rparr>"

lemma sample_minted: "init_mint_keyset sample_key_env sample_keyset_args = Inr sample_minted_keyset"
proof -
  have "isOk (init_mint_keyset sample_key_env sample_keyset_args)" by code_simp
  then show ?thesis by (auto simp: sample_minted_keyset_def isOk_iff)
qed

lemma sample_minted_facts:
  "k_id sample_minted_keyset \<noteq> [] \<and> k_amounts sample_minted_keyset = [1, 2] \<and> k_version sample_minted_keyset = ''0.20.0'' \<and>
   k_seed sample_minted_keyset = ''seed'' \<and> k_active sample_minted_keyset \<and> k_unit sample_minted_keyset = sat \<and>
   path_counter (path_parts (k_derivation_path sample_minted_keyset)) = Inr 0"
  by code_simp

theorem rotation_effect_witness:
  "\<exists>new t. rotate_next_keyset sample_key_env sat None (Some 5) None sample_keys_state = (Inr new, t) \<and>
     path_counter (path_parts (k_derivation_path new)) = Inr 1 \<and> k_active new"
proof -
  have "isOk (fst (rotate_next_keyset sample_key_env sat None (Some 5) None sample_keys_state))" by code_simp
  then obtain new t where r: "rotate_next_keyset sample_key_env sat None (Some 5) None sample_keys_state = (Inr new, t)"
    by (cases "rotate_next_keyset sample_key_env sat None (Some 5) None sample_keys_state") (auto simp: isOk_iff)
  from rotation_effect[OF r] have "path_counter (path_parts (k_derivation_path new)) = Inr 1 \<and> k_active new"
    using sample_minted_facts by (auto simp: sample_keys_state_def)
  with r show ?thesis by blast
qed

text \<open>Counter 2 comes first, counter 0 is taken.\<close>

theorem rotation_selects_last_witness:
  "select_loop sat (- 1) [sample_minted_keyset\<lparr>k_derivation_path := ''m/0'/0'/2''\<rparr>, sample_minted_keyset] None = Inr (Some sample_minted_keyset)"
proof -
  let ?ks = "[sample_minted_keyset\<lparr>k_derivation_path := ''m/0'/0'/2''\<rparr>, sample_minted_keyset]"
  have c: "path_counter (path_parts ''m/0'/0'/2'') = Inr 2" by code_simp
  then obtain sel where r: "select_loop sat (- 1) ?ks None = Inr sel" using sample_minted_facts by simp
  from rotation_selects_last[OF r] have "sel = Some sample_minted_keyset" using sample_minted_facts c by simp
  with r show ?thesis by simp
qed

theorem keyset_store_load_witness:
  "keyset_from_row sample_key_env (new_keyset_row sample_minted_keyset) =
     Inr (sample_minted_keyset\<lparr>k_active := True, k_fees_paid := 0\<rparr>)"
  using keyset_store_load[OF sample_minted] sample_minted_facts by simp

text \<open>A row whose seed is held encrypted: the cipher of the sample leaves the padded text as it is.\<close>

definition locked_key_env :: key_env where
  "locked_key_env = sample_key_env\<lparr>ke_seed_decryption_key := Some ''pass'', ke_crv := z5_curve\<lparr>sha256 := \<lambda>s. ''k'' @ s\<rparr>\<rparr>"

definition locked_seed :: string where
  "locked_seed = b64_encode True (salted @ ''saltsalt'' @ aes_pad ''secret seed'')"

definition locked_row :: keyset_row where
  "locked_row = (new_keyset_row sample_minted_keyset)\<lparr>kr_id := ''k1'', kr_seed := None, kr_encrypted_seed := Some locked_seed\<rparr>"

theorem update_reveals_seed_witness:
  "\<exists>k. keyset_from_row locked_key_env locked_row = Inr k \<and>
     (\<exists>r'\<in>set (km_rows (snd (update_keyset (k\<lparr>k_active := False\<rparr>) (sample_keys_state\<lparr>km_rows := [locked_row]\<rparr>)))).
        kr_id r' = ''k1'' \<and> kr_seed r' = Some ''secret seed'' \<and> kr_encrypted_seed r' = None)"
proof -
  have "isOk (keyset_from_row locked_key_env locked_row)" by code_simp
  then obtain k where k: "keyset_from_row locked_key_env locked_row = Inr k" by (auto simp: isOk_iff)
  have d: "aes_decrypt (ke_crv locked_key_env) (ke_aes locked_key_env) (the (ke_seed_decryption_key locked_key_env)) locked_seed = Inr ''secret seed''"
    by code_simp
  have "kr_encrypted_seed locked_row = Some locked_seed" "locked_seed \<noteq> []" "kr_id locked_row \<noteq> []"
    "locked_row \<in> set (km_rows (sample_keys_state\<lparr>km_rows := [locked_row]\<rparr>))"
    by (simp_all add: locked_row_def locked_seed_def salted_def)
  from update_reveals_seed[OF k this(1,2,3) d this(4), of False] k show ?thesis by (auto simp: locked_row_def)
qed

end
