(* ===== verification/Tokens.thy ===== *)
theory Tokens
  imports Ledger JsonFacts Base64
begin

text \<open>
  Tokens, the form in which proofs travel between wallets: \<^verbatim>\<open>Proof.to_dict\<close> and \<^verbatim>\<open>from_dict\<close>, \<^verbatim>\<open>TokenV3\<close>
  (JSON), \<^verbatim>\<open>TokenV4\<close> (CBOR) and \<^verbatim>\<open>AuthProof\<close> of \<^verbatim>\<open>cashu/core/base.py\<close>.

  The package \<^verbatim>\<open>cbor2\<close> is a parameter: \<open>cbor_dumps\<close> and \<open>cbor_loads\<close> on the values that tokens use. Of a
  proof, the fields that only the wallet keeps (\<^verbatim>\<open>reserved\<close>, \<^verbatim>\<open>send_id\<close> and the like) are left out, so a
  token that carries such a field with a value of a wrong type is not refused here. Where \<^verbatim>\<open>pydantic\<close>
  converts a value, the conversions of integers, texts and byte strings to each other are
  modelled; an integer written as a fraction is refused. A decoded JSON text is read as UTF-8.
\<close>

section \<open>Fields\<close>

definition field_str :: "string \<Rightarrow> (string \<times> json) list \<Rightarrow> string \<Rightarrow> error + string" where
  "field_str default_value kvs k = (case map_of kvs k of None \<Rightarrow> Inr default_value | Some j \<Rightarrow> json_str j)"

definition need_str :: "(string \<times> json) list \<Rightarrow> string \<Rightarrow> error + string" where
  "need_str kvs k = bindR (ofOption (ValueError ''Field required'') (map_of kvs k)) json_str"

text \<open>An integer field: booleans and decimal texts are converted.\<close>

definition lax_int :: "json \<Rightarrow> error + int" where
  "lax_int j = (case j of
     JInt i \<Rightarrow> Inr i
   | JBool b \<Rightarrow> Inr (if b then 1 else 0)
   | JStr s \<Rightarrow> ofOption (ValueError ''Input should be a valid integer'') (py_int s)
   | _ \<Rightarrow> Inl (ValueError ''Input should be a valid integer''))"

section \<open>Proofs\<close>

definition dleq_wallet_dict :: "dleq_wallet \<Rightarrow> json" where
  "dleq_wallet_dict d = JObj [(''e'', JStr (dw_e d)), (''s'', JStr (dw_s d)), (''r'', JStr (dw_r d))]"

definition dleq_wallet_from :: "(string \<times> json) list \<Rightarrow> error + dleq_wallet" where
  "dleq_wallet_from kvs =
     bindR (need_str kvs ''e'') (\<lambda>e. bindR (need_str kvs ''s'') (\<lambda>s. bindR (need_str kvs ''r'') (\<lambda>r.
     Inr \<lparr>dw_e = e, dw_s = s, dw_r = r\<rparr>)))"

definition proof_to_dict :: "bool \<Rightarrow> token_proof \<Rightarrow> error + json" where
  "proof_to_dict include_dleq p =
     bindR (if include_dleq then
              (case p_dleq p of None \<Rightarrow> Inl (AssertionError ''DLEQ proof is missing'')
               | Some d \<Rightarrow> Inr [(''dleq'', dleq_wallet_dict d)])
            else Inr []) (\<lambda>dleq_field.
     Inr (JObj ([(''id'', JStr (p_id p)), (''amount'', JInt (p_amount p)), (''secret'', JStr (p_secret p)), (''C'', JStr (p_C p))] @
       dleq_field @ (if truthy_str (p_witness p) then [(''witness'', JStr (the (p_witness p)))] else []))))"

definition proof_dleq_field :: "json option \<Rightarrow> error + dleq_wallet option" where
  "proof_dleq_field x =
     (if json_falsy x then Inr None
      else case x of
        Some (JObj kvs) \<Rightarrow> bindR (dleq_wallet_from kvs) (\<lambda>d. Inr (Some d))
      | Some (JStr s) \<Rightarrow> bindR (bindR (json_loads s) json_obj) (\<lambda>kvs. bindR (dleq_wallet_from kvs) (\<lambda>d. Inr (Some d)))
      | _ \<Rightarrow> Inr None)"

definition proof_from_dict :: "env \<Rightarrow> json \<Rightarrow> error + token_proof" where
  "proof_from_dict E j =
     bindR (json_obj j) (\<lambda>kvs.
     bindR (proof_dleq_field (map_of kvs ''dleq'')) (\<lambda>d.
     bindR (field_str [] kvs ''id'') (\<lambda>kid.
     bindR (case map_of kvs ''amount'' of None \<Rightarrow> Inr 0 | Some a \<Rightarrow> lax_int a) (\<lambda>amount.
     bindR (field_str [] kvs ''secret'') (\<lambda>sec.
     bindR (field_str [] kvs ''C'') (\<lambda>c.
     bindR (opt_field json_str (map_of kvs ''witness'')) (\<lambda>w.
     init_proof E \<lparr>p_id = kid, p_amount = amount, p_secret = sec, p_Y = [], p_C = c, p_dleq = d, p_witness = w\<rparr>)))))))"

section \<open>TokenV3\<close>

record token_v3_token =
  t3_mint :: "string option"
  t3_proofs :: "token_proof list"

record token_v3 =
  v3_token :: "token_v3_token list"
  v3_memo :: "string option"
  v3_unit :: string

definition v3_all_proofs :: "token_v3 \<Rightarrow> token_proof list" where
  "v3_all_proofs t = concat (List.map t3_proofs (v3_token t))"

definition v3_amount :: "token_v3 \<Rightarrow> int" where
  "v3_amount t = sum_list (List.map p_amount (v3_all_proofs t))"

text \<open>\<^verbatim>\<open>list({...})\<close>: the elements of a set, in the order of Python.\<close>

definition list_of_set :: "env \<Rightarrow> string list \<Rightarrow> string list" where
  "list_of_set E xs = set_order E (remdups xs)"

definition v3_keysets :: "env \<Rightarrow> token_v3 \<Rightarrow> string list" where
  "v3_keysets E t = list_of_set E (List.map p_id (v3_all_proofs t))"

definition v3_mints :: "env \<Rightarrow> token_v3 \<Rightarrow> string list" where
  "v3_mints E t = list_of_set E (List.map (\<lambda>x. the (t3_mint x)) (filter (\<lambda>x. truthy_str (t3_mint x)) (v3_token t)))"

definition v3_mint :: "env \<Rightarrow> token_v3 \<Rightarrow> error + string" where
  "v3_mint E t = (case v3_mints E t of [] \<Rightarrow> Inl IndexError | m # _ \<Rightarrow> Inr m)"

definition v3_get_memo :: "token_v3 \<Rightarrow> string option" where
  "v3_get_memo t = or_none (v3_memo t)"

definition v3_token_to_dict :: "bool \<Rightarrow> token_v3_token \<Rightarrow> error + json" where
  "v3_token_to_dict include_dleq t =
     bindR (mapR (proof_to_dict include_dleq) (t3_proofs t)) (\<lambda>ps.
     Inr (JObj ([(''proofs'', JList ps)] @ (if truthy_str (t3_mint t) then [(''mint'', JStr (the (t3_mint t)))] else []))))"

definition v3_serialize_to_dict :: "bool \<Rightarrow> token_v3 \<Rightarrow> error + json" where
  "v3_serialize_to_dict include_dleq t =
     bindR (mapR (v3_token_to_dict include_dleq) (v3_token t)) (\<lambda>ts.
     Inr (JObj ([(''token'', JList ts)] @
       (case v3_get_memo t of None \<Rightarrow> [] | Some m \<Rightarrow> [(''memo'', JStr m)]) @ [(''unit'', JStr (v3_unit t))])))"

definition v3_serialize :: "bool \<Rightarrow> token_v3 \<Rightarrow> error + string" where
  "v3_serialize include_dleq t =
     bindR (v3_serialize_to_dict include_dleq t) (\<lambda>j.
     Inr (rstrip_eq (''cashuA'' @ b64_encode True (encode_utf8 (dumps_sep '','' '':'' j)))))"

definition v3_token_from :: "env \<Rightarrow> json \<Rightarrow> error + token_v3_token" where
  "v3_token_from E j =
     bindR (json_obj j) (\<lambda>kvs.
     bindR (if json_falsy (map_of kvs ''proofs'') then Inr [] else json_list (the (map_of kvs ''proofs''))) (\<lambda>ps.
     bindR (mapR (proof_from_dict E) ps) (\<lambda>proofs.
     bindR (opt_field json_str (map_of kvs ''mint'')) (\<lambda>m.
     Inr \<lparr>t3_mint = m, t3_proofs = proofs\<rparr>))))"

text \<open>
  \<^verbatim>\<open>memo\<close>, \<^verbatim>\<open>mint\<close> and \<^verbatim>\<open>unit\<close> are texts in every token that \<^verbatim>\<open>serialize\<close> makes. The dataclass does not validate
  them, it would also hold a number or a list; the model's fields are texts and it raises there.
\<close>

definition v3_parse_obj :: "env \<Rightarrow> json \<Rightarrow> error + token_v3" where
  "v3_parse_obj E j =
     bindR (json_obj j) (\<lambda>kvs.
     bindR (checkR (\<not> json_falsy (map_of kvs ''token'')) (PyException ''Token must contain proofs.'')) (\<lambda>_.
     bindR (json_list (the (map_of kvs ''token''))) (\<lambda>ts.
     bindR (mapR (v3_token_from E) ts) (\<lambda>tokens.
     bindR (opt_field json_str (map_of kvs ''memo'')) (\<lambda>memo.
     bindR (if json_falsy (map_of kvs ''unit'') then Inr ''sat'' else json_str (the (map_of kvs ''unit''))) (\<lambda>u.
     Inr \<lparr>v3_token = tokens, v3_memo = memo, v3_unit = u\<rparr>))))))"

text \<open>The text after the prefix, padded and decoded; a full last group gets four more padding characters.\<close>

definition token_bytes :: "string \<Rightarrow> error + string" where
  "token_bytes token_base64 =
     ofOption (ValueError ''Incorrect padding'')
       (urlsafe_b64_decode (token_base64 @ replicate (4 - length token_base64 mod 4) CHR ''=''))"

definition v3_deserialize :: "env \<Rightarrow> string \<Rightarrow> error + token_v3" where
  "v3_deserialize E s =
     bindR (checkR (starts ''cashuA'' s) (AssertionError ''Token prefix not valid. Expected cashuA.'')) (\<lambda>_.
     bindR (token_bytes (drop 6 s)) (\<lambda>bs.
     bindR (ofOption (ValueError ''utf-8'') (decode_utf8 bs)) (\<lambda>text.
     bindR (json_loads text) (v3_parse_obj E))))"

section \<open>TokenV4\<close>

datatype cbor = CNull | CInt int | CStr string | CBytes string | CList "cbor list" | CDict "(string \<times> cbor) list"

record cbor2 =
  cbor_dumps :: "cbor \<Rightarrow> string"
  cbor_loads :: "string \<Rightarrow> error + cbor"

record token_v4_dleq =
  d4_e :: string
  d4_s :: string
  d4_r :: string

record token_v4_proof =
  p4_a :: int
  p4_s :: string
  p4_c :: string
  p4_d :: "token_v4_dleq option"
  p4_w :: "string option"

record token_v4_token =
  t4_i :: string
  t4_p :: "token_v4_proof list"

record token_v4 =
  v4_m :: string
  v4_u :: string
  v4_t :: "token_v4_token list"
  v4_d :: "string option"

definition fromhex :: "string \<Rightarrow> error + string" where
  "fromhex h = ofOption (ValueError ''non-hexadecimal number found in fromhex() arg'') (from_hex h)"

definition v4_dleq :: "dleq_wallet \<Rightarrow> error + token_v4_dleq" where
  "v4_dleq d =
     bindR (fromhex (dw_e d)) (\<lambda>e. bindR (fromhex (dw_s d)) (\<lambda>s. bindR (fromhex (dw_r d)) (\<lambda>r.
     Inr \<lparr>d4_e = e, d4_s = s, d4_r = r\<rparr>)))"

text \<open>\<^verbatim>\<open>TokenV4Proof.from_proof\<close>; it does not look at \<^verbatim>\<open>include_dleq\<close>.\<close>

definition v4_from_proof :: "token_proof \<Rightarrow> error + token_v4_proof" where
  "v4_from_proof p =
     bindR (fromhex (p_C p)) (\<lambda>c.
     bindR (case p_dleq p of None \<Rightarrow> Inr None | Some d \<Rightarrow> bindR (v4_dleq d) (\<lambda>x. Inr (Some x))) (\<lambda>d.
     Inr \<lparr>p4_a = p_amount p, p4_s = p_secret p, p4_c = c, p4_d = d, p4_w = p_witness p\<rparr>))"

definition v4_to_proof :: "env \<Rightarrow> string \<Rightarrow> token_v4_proof \<Rightarrow> error + token_proof" where
  "v4_to_proof E kid p = init_proof E
     \<lparr>p_id = kid, p_amount = p4_a p, p_secret = p4_s p, p_Y = [], p_C = to_hex (p4_c p),
      p_dleq = map_option (\<lambda>d. \<lparr>dw_e = to_hex (d4_e d), dw_s = to_hex (d4_s d), dw_r = to_hex (d4_r d)\<rparr>) (p4_d p),
      p_witness = p4_w p\<rparr>"

definition v4_token_proofs :: "env \<Rightarrow> token_v4_token \<Rightarrow> error + token_proof list" where
  "v4_token_proofs E t = mapR (v4_to_proof E (to_hex (t4_i t))) (t4_p t)"

definition v4_proofs :: "env \<Rightarrow> token_v4 \<Rightarrow> error + token_proof list" where
  "v4_proofs E t = bindR (mapR (v4_token_proofs E) (v4_t t)) (\<lambda>pss. Inr (concat pss))"

definition v4_amounts :: "token_v4 \<Rightarrow> int list" where
  "v4_amounts t = concat (List.map (\<lambda>x. List.map p4_a (t4_p x)) (v4_t t))"

definition v4_amount :: "token_v4 \<Rightarrow> int" where
  "v4_amount t = sum_list (v4_amounts t)"

definition v4_keysets :: "env \<Rightarrow> token_v4 \<Rightarrow> string list" where
  "v4_keysets E t = list_of_set E (List.map (\<lambda>x. to_hex (t4_i x)) (v4_t t))"

definition v4_token_of_group :: "string \<times> token_proof list \<Rightarrow> error + token_v4_token" where
  "v4_token_of_group g =
     bindR (fromhex (fst g)) (\<lambda>i. bindR (mapR v4_from_proof (snd g)) (\<lambda>ps. Inr \<lparr>t4_i = i, t4_p = ps\<rparr>))"

definition v4_from_tokenv3 :: "env \<Rightarrow> token_v3 \<Rightarrow> error + token_v4" where
  "v4_from_tokenv3 E t =
     bindR (checkR (length (v3_mints E t) = 1) (PyException ''TokenV3 must contain proofs from only one mint.'')) (\<lambda>_.
     bindR (mapR v4_token_of_group (group_by_keyset (v3_all_proofs t))) (\<lambda>ts.
     bindR (v3_mint E t) (\<lambda>m.
     Inr \<lparr>v4_m = m, v4_u = (if v3_unit t = [] then ''sat'' else v3_unit t), v4_t = ts, v4_d = v3_get_memo t\<rparr>)))"

definition v4_to_tokenv3 :: "env \<Rightarrow> token_v4 \<Rightarrow> error + token_v3" where
  "v4_to_tokenv3 E t =
     bindR (mapR (\<lambda>x. bindR (v4_token_proofs E x) (\<lambda>ps. Inr \<lparr>t3_mint = Some (v4_m t), t3_proofs = ps\<rparr>)) (v4_t t)) (\<lambda>ts.
     Inr \<lparr>v3_token = ts, v3_memo = v4_d t, v3_unit = v4_u t\<rparr>)"

text \<open>\<^verbatim>\<open>serialize_to_dict\<close>: the entries in the order of the fields.\<close>

definition v4_dleq_dict :: "token_v4_dleq \<Rightarrow> cbor" where
  "v4_dleq_dict d = CDict [(''e'', CBytes (d4_e d)), (''s'', CBytes (d4_s d)), (''r'', CBytes (d4_r d))]"

definition v4_proof_dict :: "bool \<Rightarrow> token_v4_proof \<Rightarrow> cbor" where
  "v4_proof_dict include_dleq p =
     CDict ([(''a'', CInt (p4_a p)), (''s'', CStr (p4_s p)), (''c'', CBytes (p4_c p))] @
       (if include_dleq then [(''d'', case p4_d p of None \<Rightarrow> CNull | Some d \<Rightarrow> v4_dleq_dict d)] else []) @
       (if truthy_str (p4_w p) then [(''w'', CStr (the (p4_w p)))] else []))"

definition v4_serialize_to_dict :: "bool \<Rightarrow> token_v4 \<Rightarrow> cbor" where
  "v4_serialize_to_dict include_dleq t =
     CDict ([(''t'', CList (List.map (\<lambda>x. CDict [(''i'', CBytes (t4_i x)), (''p'', CList (List.map (v4_proof_dict include_dleq) (t4_p x)))]) (v4_t t)))] @
       (if truthy_str (v4_d t) then [(''d'', CStr (the (v4_d t)))] else []) @
       [(''m'', CStr (v4_m t)), (''u'', CStr (v4_u t))])"

definition v4_serialize :: "cbor2 \<Rightarrow> bool \<Rightarrow> token_v4 \<Rightarrow> string" where
  "v4_serialize B include_dleq t =
     rstrip_eq (''cashuB'' @ b64_encode True (cbor_dumps B (v4_serialize_to_dict include_dleq t)))"

definition cbor_dict :: "cbor \<Rightarrow> error + (string \<times> cbor) list" where
  "cbor_dict v = (case v of CDict kvs \<Rightarrow> Inr kvs | _ \<Rightarrow> Inl (ValueError ''Input should be a valid dictionary''))"

definition cbor_list :: "cbor \<Rightarrow> error + cbor list" where
  "cbor_list v = (case v of CList vs \<Rightarrow> Inr vs | _ \<Rightarrow> Inl (ValueError ''Input should be a valid list''))"

definition cbor_int :: "cbor \<Rightarrow> error + int" where
  "cbor_int v = (case v of
     CInt i \<Rightarrow> Inr i
   | CStr s \<Rightarrow> ofOption (ValueError ''Input should be a valid integer'') (py_int s)
   | _ \<Rightarrow> Inl (ValueError ''Input should be a valid integer''))"

definition cbor_bytes :: "cbor \<Rightarrow> error + string" where
  "cbor_bytes v = (case v of
     CBytes b \<Rightarrow> Inr b | CStr s \<Rightarrow> Inr (encode_utf8 s) | _ \<Rightarrow> Inl (ValueError ''Input should be a valid bytes''))"

definition cbor_str :: "cbor \<Rightarrow> error + string" where
  "cbor_str v = (case v of
     CStr s \<Rightarrow> Inr s
   | CBytes b \<Rightarrow> ofOption (ValueError ''Input should be a valid string'') (decode_utf8 b)
   | _ \<Rightarrow> Inl (ValueError ''Input should be a valid string''))"

definition cbor_opt :: "(cbor \<Rightarrow> error + 'a) \<Rightarrow> cbor option \<Rightarrow> error + 'a option" where
  "cbor_opt f x = (case x of None \<Rightarrow> Inr None | Some CNull \<Rightarrow> Inr None | Some v \<Rightarrow> bindR (f v) (\<lambda>y. Inr (Some y)))"

definition cbor_need :: "(cbor \<Rightarrow> error + 'a) \<Rightarrow> (string \<times> cbor) list \<Rightarrow> string \<Rightarrow> error + 'a" where
  "cbor_need f kvs k = bindR (ofOption (ValueError ''Field required'') (map_of kvs k)) f"

definition v4_dleq_parse :: "cbor \<Rightarrow> error + token_v4_dleq" where
  "v4_dleq_parse v =
     bindR (cbor_dict v) (\<lambda>kvs.
     bindR (cbor_need cbor_bytes kvs ''e'') (\<lambda>e. bindR (cbor_need cbor_bytes kvs ''s'') (\<lambda>s. bindR (cbor_need cbor_bytes kvs ''r'') (\<lambda>r.
     Inr \<lparr>d4_e = e, d4_s = s, d4_r = r\<rparr>))))"

definition v4_proof_parse :: "cbor \<Rightarrow> error + token_v4_proof" where
  "v4_proof_parse v =
     bindR (cbor_dict v) (\<lambda>kvs.
     bindR (cbor_need cbor_int kvs ''a'') (\<lambda>a.
     bindR (cbor_need cbor_str kvs ''s'') (\<lambda>s.
     bindR (cbor_need cbor_bytes kvs ''c'') (\<lambda>c.
     bindR (cbor_opt v4_dleq_parse (map_of kvs ''d'')) (\<lambda>d.
     bindR (cbor_opt cbor_str (map_of kvs ''w'')) (\<lambda>w.
     Inr \<lparr>p4_a = a, p4_s = s, p4_c = c, p4_d = d, p4_w = w\<rparr>))))))"

definition v4_token_parse :: "cbor \<Rightarrow> error + token_v4_token" where
  "v4_token_parse v =
     bindR (cbor_dict v) (\<lambda>kvs.
     bindR (cbor_need cbor_bytes kvs ''i'') (\<lambda>i.
     bindR (cbor_need (\<lambda>x. bindR (cbor_list x) (mapR v4_proof_parse)) kvs ''p'') (\<lambda>ps.
     Inr \<lparr>t4_i = i, t4_p = ps\<rparr>)))"

text \<open>\<^verbatim>\<open>parse_obj\<close>. The class is a plain data class and does not check its fields; a mint, a unit or a memo that
  is no text is outside the model.\<close>

definition v4_parse_obj :: "cbor \<Rightarrow> error + token_v4" where
  "v4_parse_obj v =
     bindR (cbor_dict v) (\<lambda>kvs.
     bindR (bindR (ofOption (KeyError ''m'') (map_of kvs ''m'')) cbor_str) (\<lambda>m.
     bindR (bindR (ofOption (KeyError ''u'') (map_of kvs ''u'')) cbor_str) (\<lambda>u.
     bindR (bindR (ofOption (KeyError ''t'') (map_of kvs ''t'')) cbor_list) (\<lambda>ts.
     bindR (mapR v4_token_parse ts) (\<lambda>t.
     bindR (cbor_opt cbor_str (map_of kvs ''d'')) (\<lambda>d.
     Inr \<lparr>v4_m = m, v4_u = u, v4_t = t, v4_d = d\<rparr>))))))"

definition v4_deserialize :: "cbor2 \<Rightarrow> string \<Rightarrow> error + token_v4" where
  "v4_deserialize B s =
     bindR (checkR (starts ''cashuB'' s) (AssertionError ''Token prefix not valid. Expected cashuB.'')) (\<lambda>_.
     bindR (token_bytes (drop 6 s)) (\<lambda>bs. bindR (cbor_loads B bs) v4_parse_obj))"

section \<open>AuthProof\<close>

record auth_proof =
  ap_id :: string
  ap_secret :: string
  ap_C :: string
  ap_amount :: int

definition auth_from_proof :: "token_proof \<Rightarrow> auth_proof" where
  "auth_from_proof p = \<lparr>ap_id = p_id p, ap_secret = p_secret p, ap_C = p_C p, ap_amount = 1\<rparr>"

definition auth_to_base64 :: "auth_proof \<Rightarrow> string" where
  "auth_to_base64 a = ''authA'' @ rstrip_eq (b64_encode True (encode_utf8 (json_dumps
     (JObj [(''id'', JStr (ap_id a)), (''secret'', JStr (ap_secret a)), (''C'', JStr (ap_C a))]))))"

definition auth_from_base64 :: "string \<Rightarrow> error + auth_proof" where
  "auth_from_base64 s =
     bindR (checkR (starts ''authA'' s) (AssertionError ''Token prefix not valid. Expected authA.'')) (\<lambda>_.
     let rest = drop 5 s; padded = rest @ replicate ((4 - length rest mod 4) mod 4) CHR ''=''
     in bindR (ofOption (ValueError ''Incorrect padding'') (urlsafe_b64_decode padded)) (\<lambda>bs.
        bindR (ofOption (ValueError ''utf-8'') (decode_utf8 bs)) (\<lambda>text.
        bindR (bindR (json_loads text) json_obj) (\<lambda>kvs.
        bindR (need_str kvs ''id'') (\<lambda>kid.
        bindR (need_str kvs ''secret'') (\<lambda>sec.
        bindR (need_str kvs ''C'') (\<lambda>c.
        bindR (case map_of kvs ''amount'' of None \<Rightarrow> Inr 1 | Some a \<Rightarrow> lax_int a) (\<lambda>amount.
        Inr \<lparr>ap_id = kid, ap_secret = sec, ap_C = c, ap_amount = amount\<rparr>))))))))"

definition auth_to_proof :: "env \<Rightarrow> auth_proof \<Rightarrow> error + token_proof" where
  "auth_to_proof E a = init_proof E
     \<lparr>p_id = ap_id a, p_amount = ap_amount a, p_secret = ap_secret a, p_Y = [], p_C = ap_C a, p_dleq = None, p_witness = None\<rparr>"

end
