(* ===== verification/TokenFacts.thy ===== *)
theory TokenFacts
  imports Tokens Amounts "HOL-Library.Countable"
begin

text \<open>
  Tokens are read back as they were written, and converting a token to the new format keeps its proofs.
\<close>

section \<open>Lists of results\<close>

lemma mapR_inverse:
  "mapR f xs = Inr ys \<Longrightarrow> (\<And>x y. x \<in> set xs \<Longrightarrow> f x = Inr y \<Longrightarrow> g y = Inr (h x)) \<Longrightarrow> mapR g ys = Inr (List.map h xs)"
  by (induction xs arbitrary: ys) (auto simp: bindR_Inr)

lemma mapR_all:
  assumes "mapR f xs = Inr ys" and "\<And>x y. x \<in> set xs \<Longrightarrow> f x = Inr y \<Longrightarrow> P y"
  shows "\<forall>y\<in>set ys. P y"
proof -
  have "\<forall>x\<in>set xs. \<forall>y. f x = Inr y \<longrightarrow> P y" using assms(2) by blast
  with assms(1) show ?thesis by (induction xs arbitrary: ys) (auto simp: bindR_Inr)
qed

section \<open>The text of a token\<close>

lemma rstrip_eq_prefix:
  assumes "p \<noteq> []" and "last p \<noteq> CHR ''=''"
  shows "rstrip_eq (p @ s) = p @ rstrip_eq s"
proof -
  have "dropWhile (\<lambda>c. c = CHR ''='') (rev s @ rev p) = dropWhile (\<lambda>c. c = CHR ''='') (rev s) @ rev p"
    using assms by (induction s rule: rev_induct) (auto simp: hd_rev dropWhile_hd)
  then show ?thesis by (simp add: rstrip_eq_def)
qed

lemma token_bytes_stripped: "token_bytes (rstrip_eq (b64_encode True bs)) = Inr bs"
proof -
  have "(n + (4 - n mod 4)) mod 4 = 0" for n :: nat by presburger
  then show ?thesis by (simp add: token_bytes_def urlsafe_decode_padded)
qed

section \<open>TokenV3\<close>

text \<open>Without \<^verbatim>\<open>include_dleq\<close> the proofs lose their DLEQ proofs.\<close>

definition keep_dleq :: "bool \<Rightarrow> token_proof \<Rightarrow> token_proof" where
  "keep_dleq include_dleq p = (if include_dleq then p else p\<lparr>p_dleq := None\<rparr>)"

definition some_text :: "string option \<Rightarrow> bool" where
  "some_text x \<longleftrightarrow> x \<noteq> Some []"

lemma some_text_truthy: "some_text x \<Longrightarrow> truthy_str x \<longleftrightarrow> x \<noteq> None"
  by (cases x) (auto simp: some_text_def truthy_str_def)

lemma dleq_wallet_eta [simp]: "\<lparr>dw_e = dw_e d, dw_s = dw_s d, dw_r = dw_r d\<rparr> = d"
  by (cases d) simp

lemma proof_dict:
  assumes "proof_to_dict d p = Inr j" and "wf_proof E p" and "some_text (p_witness p)"
  shows "plain j \<and> proof_from_dict E j = Inr (keep_dleq d p)"
proof -
  have init: "init_proof E (p\<lparr>p_Y := []\<rparr>) = Inr p" "init_proof E (p\<lparr>p_Y := [], p_dleq := None\<rparr>) = Inr (p\<lparr>p_dleq := None\<rparr>)"
    using assms(2) by (simp_all add: init_proof_def wf_proof_def)
  obtain kid a sec y c dl w where p: "p = \<lparr>p_id = kid, p_amount = a, p_secret = sec, p_Y = y, p_C = c, p_dleq = dl, p_witness = w\<rparr>"
    by (cases p)
  show ?thesis
    using assms(1) init some_text_truthy[OF assms(3)] unfolding p
    by (cases d; cases w; cases dl)
      (auto simp: proof_to_dict_def proof_from_dict_def json_obj_def proof_dleq_field_def json_falsy_def dleq_wallet_dict_def
        dleq_wallet_from_def need_str_def field_str_def json_str_def lax_int_def opt_field_def keep_dleq_def)
qed

definition strip_token :: "bool \<Rightarrow> token_v3_token \<Rightarrow> token_v3_token" where
  "strip_token d x = x\<lparr>t3_proofs := List.map (keep_dleq d) (t3_proofs x)\<rparr>"

definition good_token :: "env \<Rightarrow> token_v3_token \<Rightarrow> bool" where
  "good_token E x \<longleftrightarrow> some_text (t3_mint x) \<and> (\<forall>p\<in>set (t3_proofs x). wf_proof E p \<and> some_text (p_witness p))"

lemma token_dict:
  assumes "v3_token_to_dict d x = Inr j" and "good_token E x"
  shows "plain j \<and> v3_token_from E j = Inr (strip_token d x)"
proof -
  obtain ps where ps: "mapR (proof_to_dict d) (t3_proofs x) = Inr ps"
    and j: "j = JObj ([(''proofs'', JList ps)] @ (if truthy_str (t3_mint x) then [(''mint'', JStr (the (t3_mint x)))] else []))"
    using assms(1) by (auto simp: v3_token_to_dict_def bindR_Inr)
  have good: "wf_proof E p" "some_text (p_witness p)" if "p \<in> set (t3_proofs x)" for p using assms(2) that by (auto simp: good_token_def)
  have plain: "\<forall>v\<in>set ps. plain v" by (rule mapR_all[OF ps]) (use proof_dict good in blast)
  have reread: "mapR (proof_from_dict E) ps = Inr (List.map (keep_dleq d) (t3_proofs x))"
    by (rule mapR_inverse[OF ps]) (use proof_dict good in blast)
  have m: "truthy_str (t3_mint x) \<longleftrightarrow> t3_mint x \<noteq> None" using assms(2) some_text_truthy by (auto simp: good_token_def)
  show ?thesis
    using plain reread m
    by (cases x; cases "t3_mint x"; cases ps)
      (auto simp: j v3_token_from_def json_obj_def json_falsy_def json_list_def opt_field_def json_str_def strip_token_def)
qed

text \<open>C25. A token of version 3 is read back as it was written, without its DLEQ proofs when they were not asked
  for. The token must hold something, and no text in it may be empty where the code takes an empty text for
  nothing.\<close>

theorem token_v3_roundtrip:
  assumes "v3_serialize d t = Inr s" and "v3_token t \<noteq> []" and "\<forall>x\<in>set (v3_token t). good_token E x"
    and "some_text (v3_memo t)" and "v3_unit t \<noteq> []"
  shows "v3_deserialize E s = Inr (t\<lparr>v3_token := List.map (strip_token d) (v3_token t)\<rparr>)"
proof -
  obtain ts where ts: "mapR (v3_token_to_dict d) (v3_token t) = Inr ts"
    and s: "s = rstrip_eq (''cashuA'' @ b64_encode True (encode_utf8 (dumps_sep '','' '':''
       (JObj ([(''token'', JList ts)] @ (case v3_get_memo t of None \<Rightarrow> [] | Some m \<Rightarrow> [(''memo'', JStr m)]) @ [(''unit'', JStr (v3_unit t))])))))"
    using assms(1) by (auto simp: v3_serialize_def v3_serialize_to_dict_def bindR_Inr)
  let ?j = "JObj ([(''token'', JList ts)] @ (case v3_get_memo t of None \<Rightarrow> [] | Some m \<Rightarrow> [(''memo'', JStr m)]) @ [(''unit'', JStr (v3_unit t))])"
  have plains: "\<forall>v\<in>set ts. plain v" by (rule mapR_all[OF ts]) (use token_dict assms(3) in blast)
  have reread: "mapR (v3_token_from E) ts = Inr (List.map (strip_token d) (v3_token t))"
    by (rule mapR_inverse[OF ts]) (use token_dict assms(3) in blast)
  have ne: "ts \<noteq> []" using mapR_length[OF ts] assms(2) by auto
  have plain: "plain ?j" using plains by (auto split: option.splits)
  have memo: "v3_get_memo t = v3_memo t" using some_text_truthy[OF assms(4)] by (auto simp: v3_get_memo_def or_none_def)
  have "v3_parse_obj E ?j = Inr (t\<lparr>v3_token := List.map (strip_token d) (v3_token t)\<rparr>)"
    using reread ne assms(5) unfolding memo
    by (cases t; cases "v3_memo t"; cases ts)
      (auto simp: v3_parse_obj_def json_obj_def json_falsy_def json_list_def opt_field_def json_str_def)
  moreover have "s = ''cashuA'' @ rstrip_eq (b64_encode True (encode_utf8 (dumps_sep '','' '':'' ?j)))"
    unfolding s by (rule rstrip_eq_prefix) simp_all
  ultimately show ?thesis
    using compact_separators.loads_dumps_sep[OF plain] by (simp add: v3_deserialize_def starts_def token_bytes_stripped)
qed

text \<open>A sample: a proof with its DLEQ proof, and a token of two mints' worth of fields.\<close>

definition dleq_proof :: token_proof where
  "dleq_proof = (sample_proof 8 ''a'')\<lparr>p_id := ''00aa'', p_C := ''0201'', p_dleq := Some \<lparr>dw_e = ''01'', dw_s = ''02'', dw_r = ''03''\<rparr>,
     p_witness := Some ''w''\<rparr>"

definition sample_v3 :: token_v3 where
  "sample_v3 = \<lparr>v3_token = [\<lparr>t3_mint = Some ''https://mint'', t3_proofs = [dleq_proof]\<rparr>], v3_memo = Some ''hi'', v3_unit = ''sat''\<rparr>"

lemma wf_dleq_proof: "wf_proof sample_env dleq_proof"
  unfolding wf_proof_def by code_simp

theorem token_v3_roundtrip_witness:
  "\<exists>s. v3_serialize False sample_v3 = Inr s \<and>
     v3_deserialize sample_env s =
       Inr (sample_v3\<lparr>v3_token := [\<lparr>t3_mint = Some ''https://mint'', t3_proofs = [dleq_proof\<lparr>p_dleq := None\<rparr>]\<rparr>]\<rparr>)"
proof -
  have "isOk (v3_serialize False sample_v3)" by code_simp
  then obtain s where s: "v3_serialize False sample_v3 = Inr s" by (auto simp: isOk_iff)
  have "v3_token sample_v3 \<noteq> []" "\<forall>x\<in>set (v3_token sample_v3). good_token sample_env x"
      "some_text (v3_memo sample_v3)" "v3_unit sample_v3 \<noteq> []"
    using wf_dleq_proof by (simp_all add: sample_v3_def good_token_def some_text_def dleq_proof_def)
  from token_v3_roundtrip[OF s this] s show ?thesis by (simp add: sample_v3_def strip_token_def keep_dleq_def)
qed

section \<open>TokenV4\<close>

definition v4_keep_dleq :: "bool \<Rightarrow> token_v4_proof \<Rightarrow> token_v4_proof" where
  "v4_keep_dleq include_dleq p = (if include_dleq then p else p\<lparr>p4_d := None\<rparr>)"

definition v4_strip :: "bool \<Rightarrow> token_v4_token \<Rightarrow> token_v4_token" where
  "v4_strip d x = x\<lparr>t4_p := List.map (v4_keep_dleq d) (t4_p x)\<rparr>"

lemma v4_dleq_eta [simp]: "\<lparr>d4_e = d4_e d, d4_s = d4_s d, d4_r = d4_r d\<rparr> = d"
  by (cases d) simp

lemma v4_proof_back: "some_text (p4_w p) \<Longrightarrow> v4_proof_parse (v4_proof_dict d p) = Inr (v4_keep_dleq d p)"
  by (cases p; cases d; cases "p4_w p"; cases "p4_d p")
    (auto simp: v4_proof_parse_def v4_proof_dict_def cbor_dict_def cbor_need_def cbor_int_def cbor_str_def cbor_bytes_def
      cbor_opt_def v4_dleq_dict_def v4_dleq_parse_def v4_keep_dleq_def some_text_truthy)

lemma mapR_map_Inr: "(\<And>x. x \<in> set xs \<Longrightarrow> f (g x) = Inr (h x)) \<Longrightarrow> mapR f (List.map g xs) = Inr (List.map h xs)"
  by (induction xs) auto

lemma v4_tokens_back:
  assumes "\<forall>x\<in>set ts. \<forall>p\<in>set (t4_p x). some_text (p4_w p)"
  shows "mapR v4_token_parse (List.map (\<lambda>x. CDict [(''i'', CBytes (t4_i x)), (''p'', CList (List.map (v4_proof_dict d) (t4_p x)))]) ts) =
    Inr (List.map (v4_strip d) ts)"
proof (rule mapR_map_Inr)
  fix x assume "x \<in> set ts"
  then have "mapR v4_proof_parse (List.map (v4_proof_dict d) (t4_p x)) = Inr (List.map (v4_keep_dleq d) (t4_p x))"
    using assms v4_proof_back by (intro mapR_map_Inr) auto
  then show "v4_token_parse (CDict [(''i'', CBytes (t4_i x)), (''p'', CList (List.map (v4_proof_dict d) (t4_p x)))]) = Inr (v4_strip d x)"
    by (cases x) (simp add: v4_token_parse_def cbor_dict_def cbor_need_def cbor_bytes_def cbor_list_def v4_strip_def)
qed

text \<open>A token of version 4 is read back as it was written, when the CBOR library reads back what it writes.\<close>

theorem token_v4_roundtrip:
  assumes "\<And>v. cbor_loads B (cbor_dumps B v) = Inr v" and "some_text (v4_d t)"
    and "\<forall>x\<in>set (v4_t t). \<forall>p\<in>set (t4_p x). some_text (p4_w p)"
  shows "v4_deserialize B (v4_serialize B d t) = Inr (t\<lparr>v4_t := List.map (v4_strip d) (v4_t t)\<rparr>)"
proof -
  have "v4_parse_obj (v4_serialize_to_dict d t) = Inr (t\<lparr>v4_t := List.map (v4_strip d) (v4_t t)\<rparr>)"
    using v4_tokens_back[OF assms(3), of d] some_text_truthy[OF assms(2)]
    by (cases t; cases "v4_d t")
      (auto simp: v4_parse_obj_def v4_serialize_to_dict_def cbor_dict_def cbor_str_def cbor_list_def cbor_opt_def)
  moreover have "v4_serialize B d t = ''cashuB'' @ rstrip_eq (b64_encode True (cbor_dumps B (v4_serialize_to_dict d t)))"
    unfolding v4_serialize_def by (rule rstrip_eq_prefix) simp_all
  ultimately show ?thesis using assms(1) by (simp add: v4_deserialize_def starts_def token_bytes_stripped)
qed

text \<open>The witness takes any enumeration of the values for the library.\<close>

instance cbor :: countable
  by countable_datatype

definition counting_cbor :: cbor2 where
  "counting_cbor = \<lparr>cbor_dumps = \<lambda>v. replicate (to_nat v) CHR ''x'', cbor_loads = \<lambda>s. Inr (from_nat (length s))\<rparr>"

definition sample_v4 :: token_v4 where
  "sample_v4 = \<lparr>v4_m = ''https://mint'', v4_u = ''sat'', v4_t = [\<lparr>t4_i = [CHR 0x00, CHR 0xAA], t4_p =
     [\<lparr>p4_a = 1, p4_s = ''s'', p4_c = [CHR 0x02], p4_d = None, p4_w = Some ''w''\<rparr>]\<rparr>], v4_d = Some ''hi''\<rparr>"

theorem token_v4_roundtrip_witness:
  "v4_deserialize counting_cbor (v4_serialize counting_cbor False sample_v4) = Inr sample_v4"
proof -
  have l: "cbor_loads counting_cbor (cbor_dumps counting_cbor v) = Inr v" for v by (simp add: counting_cbor_def)
  have "some_text (v4_d sample_v4)" "\<forall>x\<in>set (v4_t sample_v4). \<forall>p\<in>set (t4_p x). some_text (p4_w p)"
    by (simp_all add: sample_v4_def some_text_def)
  from token_v4_roundtrip[OF l this, of False] show ?thesis by (simp add: sample_v4_def v4_strip_def v4_keep_dleq_def)
qed

section \<open>From version 3 to version 4\<close>

lemma from_to_hex [simp]: "from_hex (to_hex bs) = Some bs"
proof (induction bs)
  case (Cons c bs)
  let ?n = "of_char c :: nat"
  have n: "?n < 256" by simp
  have space: "\<not> is_ascii_space (hex_digit d)" if "d < 16" for d
    using that by (auto simp: is_ascii_space_def hex_digit_def Let_def of_char_of)
  have "?n div 16 < 16" using n by linarith
  moreover have "?n mod 16 < 16" "16 * (?n div 16) + ?n mod 16 = ?n" by simp_all
  ultimately show ?case using Cons by (simp add: to_hex_def space hex_val_digit)
qed (simp add: to_hex_def)

text \<open>Texts that \<^verbatim>\<open>bytes.hex()\<close> writes: lower case, two digits for each byte.\<close>

definition hex_text :: "string \<Rightarrow> bool" where
  "hex_text h \<longleftrightarrow> (\<exists>bs. h = to_hex bs)"

definition hex_dleq :: "dleq_wallet \<Rightarrow> bool" where
  "hex_dleq d \<longleftrightarrow> hex_text (dw_e d) \<and> hex_text (dw_s d) \<and> hex_text (dw_r d)"

definition hex_proof :: "token_proof \<Rightarrow> bool" where
  "hex_proof p \<longleftrightarrow> hex_text (p_id p) \<and> hex_text (p_C p) \<and> (case p_dleq p of None \<Rightarrow> True | Some d \<Rightarrow> hex_dleq d)"

lemma fromhex_text: "fromhex h = Inr b \<Longrightarrow> hex_text h \<Longrightarrow> to_hex b = h"
  by (auto simp: fromhex_def hex_text_def)

lemma v4_proof_conversion:
  assumes "v4_from_proof p = Inr q" and "wf_proof E p" and "hex_proof p" and "kid = p_id p"
  shows "v4_to_proof E kid q = Inr p"
proof -
  obtain c d where c: "fromhex (p_C p) = Inr c"
    and d: "(case p_dleq p of None \<Rightarrow> Inr None | Some d \<Rightarrow> bindR (v4_dleq d) (\<lambda>x. Inr (Some x))) = Inr d"
    and q: "q = \<lparr>p4_a = p_amount p, p4_s = p_secret p, p4_c = c, p4_d = d, p4_w = p_witness p\<rparr>"
    using assms(1) by (auto simp: v4_from_proof_def bindR_Inr)
  have "map_option (\<lambda>d. \<lparr>dw_e = to_hex (d4_e d), dw_s = to_hex (d4_s d), dw_r = to_hex (d4_r d)\<rparr>) d = p_dleq p"
    using d assms(3) by (auto simp: hex_proof_def hex_dleq_def v4_dleq_def bindR_Inr fromhex_text split: option.splits)
  moreover have "to_hex c = p_C p" using c assms(3) fromhex_text by (auto simp: hex_proof_def)
  moreover have "init_proof E (p\<lparr>p_Y := []\<rparr>) = Inr p" using assms(2) by (simp add: init_proof_def wf_proof_def)
  ultimately show ?thesis by (cases p) (simp add: v4_to_proof_def q assms(4))
qed

lemma add_to_group_mset: "mset (concat (List.map snd (add_to_group p g))) = add_mset p (mset (concat (List.map snd g)))"
proof (induction g)
  case (Cons a g)
  show ?case
  proof (cases "fst a = p_id p")
    case True
    then show ?thesis by (cases a) (simp add: add_to_group_def)
  next
    case False
    then show ?thesis using Cons by (cases a) (simp add: add_to_group_def)
  qed
qed (simp add: add_to_group_def)

lemma group_mset: "mset (concat (List.map snd (group_by_keyset ps))) = mset ps"
proof -
  have "mset (concat (List.map snd (foldl (\<lambda>g p. add_to_group p g) g ps))) = mset (concat (List.map snd g)) + mset ps" for g
    by (induction ps arbitrary: g) (simp_all add: add_to_group_mset)
  from this[of "[]"] show ?thesis by (simp add: group_by_keyset_def)
qed

definition keyed :: "string \<times> token_proof list \<Rightarrow> bool" where
  "keyed g \<longleftrightarrow> (\<forall>q\<in>set (snd g). p_id q = fst g)"

lemma keyed_snoc: "keyed (p_id p, ps) \<Longrightarrow> keyed (p_id p, ps @ [p])"
  by (auto simp: keyed_def)

lemma add_to_group_keyed: "\<forall>g\<in>set gs. keyed g \<Longrightarrow> \<forall>g\<in>set (add_to_group p gs). keyed g"
proof (induction gs)
  case (Cons a g)
  show ?case
  proof (cases "fst a = p_id p")
    case True
    then show ?thesis using Cons.prems by (cases a) (simp add: add_to_group_def keyed_snoc)
  next
    case False
    then show ?thesis using Cons by (cases a) (simp add: add_to_group_def)
  qed
qed (simp add: add_to_group_def keyed_def)

lemma group_ids:
  assumes "g \<in> set (group_by_keyset ps)" and "q \<in> set (snd g)"
  shows "p_id q = fst g"
proof -
  have "\<forall>g\<in>set gs. keyed g \<Longrightarrow> \<forall>g\<in>set (foldl (\<lambda>g p. add_to_group p g) gs ps). keyed g" for gs
  proof (induction ps arbitrary: gs)
    case (Cons p ps)
    from Cons.IH[OF add_to_group_keyed[OF Cons.prems]] show ?case by simp
  qed simp
  from this[of "[]"] have "keyed g" using assms(1) by (simp add: group_by_keyset_def)
  then show ?thesis using assms(2) by (simp add: keyed_def)
qed

lemma group_members: "g \<in> set (group_by_keyset ps) \<Longrightarrow> q \<in> set (snd g) \<Longrightarrow> q \<in> set ps"
  using arg_cong[OF group_mset[of ps], of set_mset] by auto

lemma group_conversion:
  assumes "v4_token_of_group g = Inr x" and "g \<in> set (group_by_keyset ps)" and "\<forall>p\<in>set ps. wf_proof E p \<and> hex_proof p"
    and "snd g \<noteq> []"
  shows "v4_token_proofs E x = Inr (snd g)"
proof -
  obtain i qs where i: "fromhex (fst g) = Inr i" and qs: "mapR v4_from_proof (snd g) = Inr qs" and x: "x = \<lparr>t4_i = i, t4_p = qs\<rparr>"
    using assms(1) by (auto simp: v4_token_of_group_def bindR_Inr)
  obtain p where p: "p \<in> set (snd g)" using assms(4) by (cases "snd g") auto
  then have "hex_text (fst g)" using group_ids[OF assms(2) p] group_members[OF assms(2) p] assms(3) by (auto simp: hex_proof_def)
  then have kid: "to_hex i = fst g" using i fromhex_text by blast
  have one: "v4_to_proof E (to_hex i) y = Inr x" if "x \<in> set (snd g)" and "v4_from_proof x = Inr y" for x y
    using v4_proof_conversion[OF that(2)] group_ids[OF assms(2) that(1)] group_members[OF assms(2) that(1)] assms(3) kid by simp
  have "mapR (v4_to_proof E (to_hex i)) qs = Inr (List.map (\<lambda>p. p) (snd g))"
    by (rule mapR_inverse[OF qs]) (rule one)
  then show ?thesis by (simp add: v4_token_proofs_def x)
qed

lemma v4_amount_group:
  "v4_token_of_group g = Inr x \<Longrightarrow> sum_list (List.map p4_a (t4_p x)) = sum_list (List.map p_amount (snd g))"
proof -
  have "mapR v4_from_proof ps = Inr qs \<Longrightarrow> List.map p4_a qs = List.map p_amount ps" for ps qs
    by (induction ps arbitrary: qs) (auto simp: bindR_Inr v4_from_proof_def)
  then show "v4_token_of_group g = Inr x \<Longrightarrow> ?thesis" by (auto simp: v4_token_of_group_def bindR_Inr)
qed

text \<open>C26. Version 4 refines version 3: the token that \<^verbatim>\<open>from_tokenv3\<close> makes stands for the same proofs, is worth the
  same and names the same mint and memo, and converting it back gives a token of version 3 with the same
  proofs again. The proofs must be well formed, with byte strings in the notation that the code writes.\<close>

theorem token_conversion:
  assumes "v4_from_tokenv3 E t = Inr u" and "\<forall>p\<in>set (v3_all_proofs t). wf_proof E p \<and> hex_proof p"
  shows "(\<exists>ps. v4_proofs E u = Inr ps \<and> mset ps = mset (v3_all_proofs t)) \<and> v4_amount u = v3_amount t \<and>
    v3_mint E t = Inr (v4_m u) \<and> v4_d u = v3_get_memo t \<and>
    (\<exists>t'. v4_to_tokenv3 E u = Inr t' \<and> mset (v3_all_proofs t') = mset (v3_all_proofs t))"
proof -
  let ?gs = "group_by_keyset (v3_all_proofs t)"
  obtain ts m where ts: "mapR v4_token_of_group ?gs = Inr ts" and m: "v3_mint E t = Inr m"
    and u: "u = \<lparr>v4_m = m, v4_u = (if v3_unit t = [] then ''sat'' else v3_unit t), v4_t = ts, v4_d = v3_get_memo t\<rparr>"
    using assms(1) by (auto simp: v4_from_tokenv3_def bindR_Inr)
  have conv: "v4_token_proofs E x = Inr (snd g)" if "g \<in> set ?gs" "v4_token_of_group g = Inr x" for g x
    using group_conversion that assms(2) group_facts by blast
  have pss: "mapR (v4_token_proofs E) ts = Inr (List.map snd ?gs)" by (rule mapR_inverse[OF ts]) (rule conv)
  have again: "mapR (\<lambda>x. bindR (v4_token_proofs E x) (\<lambda>ps. Inr \<lparr>t3_mint = Some m, t3_proofs = ps\<rparr>)) ts =
      Inr (List.map (\<lambda>g. \<lparr>t3_mint = Some m, t3_proofs = snd g\<rparr>) ?gs)"
    by (rule mapR_inverse[OF ts]) (simp add: conv)
  have "sum_list (concat (List.map (\<lambda>x. List.map p4_a (t4_p x)) ts)) = sum_list (List.map p_amount (concat (List.map snd gs)))"
    if "mapR v4_token_of_group gs = Inr ts" for gs ts
    using that
  proof (induction gs arbitrary: ts)
    case (Cons g gs)
    then obtain x xs where "v4_token_of_group g = Inr x" "mapR v4_token_of_group gs = Inr xs" "ts = x # xs"
      by (auto simp: bindR_Inr)
    then show ?case using Cons.IH v4_amount_group by simp
  qed simp
  from this[OF ts] have "v4_amount u = sum_mset (image_mset p_amount (mset (concat (List.map snd ?gs))))"
    by (simp add: v4_amount_def v4_amounts_def u sum_mset_sum_list flip: mset_map)
  also have "\<dots> = v3_amount t" by (simp add: group_mset v3_amount_def sum_mset_sum_list flip: mset_map)
  finally have "v4_amount u = v3_amount t" .
  moreover have "v4_proofs E u = Inr (concat (List.map snd ?gs))" using pss by (simp add: v4_proofs_def u)
  moreover have "\<exists>t'. v4_to_tokenv3 E u = Inr t' \<and> v3_all_proofs t' = concat (List.map snd ?gs)"
    using again by (simp add: v4_to_tokenv3_def u v3_all_proofs_def comp_def)
  moreover have "v3_mint E t = Inr (v4_m u)" "v4_d u = v3_get_memo t" using m by (simp_all add: u)
  ultimately show ?thesis using group_mset[of "v3_all_proofs t"] by metis
qed

lemma hex_textI: "from_hex h = Some b \<Longrightarrow> to_hex b = h \<Longrightarrow> hex_text h"
  by (auto simp: hex_text_def)

lemma hex_dleq_proof: "hex_proof dleq_proof"
  unfolding hex_proof_def hex_dleq_def hex_text_def
  by (rule conjI, rule exI[of _ "[CHR 0x00, CHR 0xAA]"], code_simp, rule conjI, rule exI[of _ "[CHR 0x02, CHR 0x01]"], code_simp)
     (simp add: dleq_proof_def hex_text_def, safe, (rule exI[of _ "[CHR 0x01]"] exI[of _ "[CHR 0x02]"] exI[of _ "[CHR 0x03]"], code_simp)+)

theorem token_conversion_witness:
  "\<exists>u. v4_from_tokenv3 sample_env sample_v3 = Inr u \<and> v4_amount u = 8 \<and> v4_d u = Some ''hi''"
proof -
  have "isOk (v4_from_tokenv3 sample_env sample_v3)" by code_simp
  then obtain u where u: "v4_from_tokenv3 sample_env sample_v3 = Inr u" by (auto simp: isOk_iff)
  have "v3_all_proofs sample_v3 = [dleq_proof]" by (simp add: v3_all_proofs_def sample_v3_def)
  then have "\<forall>p\<in>set (v3_all_proofs sample_v3). wf_proof sample_env p \<and> hex_proof p"
    using wf_dleq_proof hex_dleq_proof by simp
  moreover have "v3_amount sample_v3 = 8" "v3_get_memo sample_v3 = Some ''hi''" by code_simp+
  ultimately show ?thesis using token_conversion[OF u] u by metis
qed

section \<open>Blind authentication tokens\<close>

text \<open>A blind authentication token is read back as it was written; its amount is always one.\<close>

theorem auth_token_roundtrip: "auth_from_base64 (auth_to_base64 a) = Inr (a\<lparr>ap_amount := 1\<rparr>)"
proof -
  define kvs where "kvs = [(''id'', JStr (ap_id a)), (''secret'', JStr (ap_secret a)), (''C'', JStr (ap_C a))]"
  define body where "body = json_dumps (JObj kvs)"
  define e where "e = rstrip_eq (b64_encode True (encode_utf8 body))"
  define pad where "pad = replicate ((4 - length e mod 4) mod 4) CHR ''=''"
  have "(n + (4 - n mod 4)) mod 4 = 0" for n :: nat by presburger
  then have "(n + (4 - n mod 4) mod 4) mod 4 = 0" for n :: nat by (simp only: mod_add_right_eq)
  then have decoded: "urlsafe_b64_decode (e @ pad) = Some (encode_utf8 body)"
    unfolding e_def pad_def by (rule urlsafe_decode_padded)
  have loaded: "json_loads body = Inr (JObj kvs)" unfolding body_def by (rule loads_dumps) (simp add: kvs_def)
  have split: "starts ''authA'' (''authA'' @ e)" "drop 5 (''authA'' @ e) = e" by (simp_all add: starts_def)
  have "auth_from_base64 (''authA'' @ e) = Inr (a\<lparr>ap_amount := 1\<rparr>)"
    unfolding auth_from_base64_def Let_def split pad_def[symmetric] decoded
    using loaded by (cases a) (simp add: starts_def json_obj_def need_str_def json_str_def kvs_def)
  then show ?thesis by (simp only: auth_to_base64_def e_def body_def kvs_def)
qed

end
