(* ===== verification/WalletStore.thy ===== *)
theory WalletStore
  imports Tokens Keys
begin

text \<open>
  The state of the wallet and its database: the data classes of \<^verbatim>\<open>cashu/core/base.py\<close> from the wallet's side, the
  tables that \<^verbatim>\<open>cashu/wallet/migrations.py\<close> creates and the statements of \<^verbatim>\<open>cashu/wallet/crud.py\<close>.

  A table is the list of its rows, in the order of insertion. Columns that only hold times of insertion are
  left out (\<^verbatim>\<open>time_created\<close>, \<^verbatim>\<open>time_reserved\<close>, \<^verbatim>\<open>time_used\<close>, \<^verbatim>\<open>valid_from\<close>, \<^verbatim>\<open>valid_to\<close>, \<^verbatim>\<open>first_seen\<close>,
  \<^verbatim>\<open>updated\<close>), and so are the attributes of the same names. A statement is a function from the database; it
  fails where a constraint of the table fails.
\<close>

section \<open>Proofs, keysets and quotes of a wallet\<close>

text \<open>The further attributes of \<^verbatim>\<open>Proof\<close>, which only the wallet uses.\<close>

record wallet_proof = token_proof +
  wp_reserved :: "bool option"
  wp_send_id :: "string option"
  wp_derivation_path :: "string option"
  wp_mint_id :: "string option"
  wp_melt_id :: "string option"

definition sum_wallet :: "wallet_proof list \<Rightarrow> int" where
  "sum_wallet ps = sum_list (List.map p_amount ps)"

text \<open>\<^verbatim>\<open>not p.reserved\<close>.\<close>

definition is_reserved :: "wallet_proof \<Rightarrow> bool" where
  "is_reserved p = (wp_reserved p = Some True)"

record wallet_keyset =
  wk_id :: string
  wk_unit :: unit_t
  wk_public_keys :: "(int \<times> point) list"
  wk_mint_url :: "string option"
  wk_active :: bool
  wk_input_fee_ppk :: int

text \<open>\<^verbatim>\<open>WalletKeyset.__init__\<close>: without an identifier, it is derived from the keys.\<close>

definition init_wallet_keyset ::
  "curve \<Rightarrow> (int \<times> point) list \<Rightarrow> string \<Rightarrow> string option \<Rightarrow> string option \<Rightarrow> bool \<Rightarrow> int \<Rightarrow> error + wallet_keyset" where
  "init_wallet_keyset C keys unit kid mint_url active fee =
     bindR (unit_of_name unit) (\<lambda>u.
     Inr \<lparr>wk_id = (if truthy_str kid then the kid else derive_keyset_id C keys), wk_unit = u, wk_public_keys = keys,
       wk_mint_url = mint_url, wk_active = active, wk_input_fee_ppk = fee\<rparr>)"

definition keyset_serialize :: "curve \<Rightarrow> wallet_keyset \<Rightarrow> string" where
  "keyset_serialize C k = json_dumps (JObj (List.map (\<lambda>(a, p). (str_int a, JStr (pk_hex C p))) (wk_public_keys k)))"

record wallet_mint_quote = mint_quote +
  wq_mint :: "string option"
  wq_privkey :: "string option"

record wallet_melt_quote = melt_quote +
  wl_mint :: "string option"

record wallet_mint =
  wm_url :: string
  wm_info :: string
  wm_access_token :: "string option"
  wm_refresh_token :: "string option"
  wm_username :: "string option"
  wm_password :: "string option"

section \<open>Tables\<close>

record wproof_row =
  wr_id :: string
  wr_amount :: int
  wr_C :: string
  wr_secret :: string
  wr_derivation_path :: "string option"
  wr_dleq :: string
  wr_mint_id :: "string option"
  wr_melt_id :: "string option"
  wr_reserved :: "bool option"
  wr_send_id :: "string option"

record wused_row =
  wu_amount :: int
  wu_C :: string
  wu_secret :: string
  wu_id :: string
  wu_derivation_path :: "string option"
  wu_mint_id :: "string option"
  wu_melt_id :: "string option"

record wkeyset_row =
  wkr_id :: string
  wkr_mint_url :: "string option"
  wkr_active :: bool
  wkr_public_keys :: string
  wkr_unit :: string
  wkr_input_fee_ppk :: int
  wkr_counter :: int

record wallet_db =
  wd_proofs :: "wproof_row list"
  wd_proofs_used :: "wused_row list"
  wd_keysets :: "wkeyset_row list"
  wd_mint_quotes :: "wallet_mint_quote list"
  wd_melt_quotes :: "wallet_melt_quote list"
  wd_seed :: "(string \<times> string) list"
  wd_mints :: "wallet_mint list"

section \<open>Proofs\<close>

definition dleq_text :: "dleq_wallet option \<Rightarrow> string" where
  "dleq_text d = (case d of None \<Rightarrow> [] | Some x \<Rightarrow> json_dumps (dleq_wallet_dict x))"

definition proof_to_wrow :: "wallet_proof \<Rightarrow> wproof_row" where
  "proof_to_wrow p =
     \<lparr>wr_id = p_id p, wr_amount = p_amount p, wr_C = p_C p, wr_secret = p_secret p,
      wr_derivation_path = wp_derivation_path p, wr_dleq = dleq_text (p_dleq p), wr_mint_id = wp_mint_id p,
      wr_melt_id = wp_melt_id p, wr_reserved = None, wr_send_id = None\<rparr>"

definition wallet_store_proof :: "wallet_proof \<Rightarrow> wallet_db \<Rightarrow> error + wallet_db" where
  "wallet_store_proof p d =
     bindR (insert_unique wr_secret ''proofs.secret'' (proof_to_wrow p) (wd_proofs d)) (\<lambda>t.
     Inr (d\<lparr>wd_proofs := t\<rparr>))"

text \<open>\<^verbatim>\<open>Proof.from_dict(dict(row))\<close>.\<close>

definition proof_of_wrow :: "env \<Rightarrow> wproof_row \<Rightarrow> error + wallet_proof" where
  "proof_of_wrow E r =
     bindR (proof_dleq_field (Some (JStr (wr_dleq r)))) (\<lambda>dl.
     bindR (Y_of E (wr_secret r)) (\<lambda>y.
     Inr \<lparr>p_id = wr_id r, p_amount = wr_amount r, p_secret = wr_secret r, p_Y = y, p_C = wr_C r, p_dleq = dl, p_witness = None,
       wp_reserved = wr_reserved r, wp_send_id = wr_send_id r, wp_derivation_path = wr_derivation_path r,
       wp_mint_id = wr_mint_id r, wp_melt_id = wr_melt_id r\<rparr>))"

text \<open>A condition whose argument is empty is not asked for.\<close>

definition wanted :: "string option \<Rightarrow> string option \<Rightarrow> bool" where
  "wanted arg column = (truthy_str arg \<longrightarrow> column = arg)"

definition wallet_get_proofs :: "env \<Rightarrow> string option \<Rightarrow> string \<Rightarrow> string \<Rightarrow> wallet_db \<Rightarrow> error + wallet_proof list" where
  "wallet_get_proofs E kid melt_id mint_id d =
     mapR (proof_of_wrow E) (filter (\<lambda>r. wanted kid (Some (wr_id r)) \<and> wanted (Some melt_id) (wr_melt_id r) \<and>
       wanted (Some mint_id) (wr_mint_id r)) (wd_proofs d))"

definition get_reserved_proofs :: "env \<Rightarrow> wallet_db \<Rightarrow> error + wallet_proof list" where
  "get_reserved_proofs E d = mapR (proof_of_wrow E) (filter (\<lambda>r. wr_reserved r = Some True) (wd_proofs d))"

definition proof_to_used :: "wallet_proof \<Rightarrow> wused_row" where
  "proof_to_used p =
     \<lparr>wu_amount = p_amount p, wu_C = p_C p, wu_secret = p_secret p, wu_id = p_id p,
      wu_derivation_path = wp_derivation_path p, wu_mint_id = wp_mint_id p, wu_melt_id = wp_melt_id p\<rparr>"

text \<open>
  Two statements. Without a connection of the caller's each is a transaction of its own, so the first stays when the
  second fails: the database is part of the result in both cases.
\<close>

definition delete_proof :: "wallet_proof \<Rightarrow> wallet_db \<Rightarrow> wallet_db" where
  "delete_proof p d = d\<lparr>wd_proofs := filter (\<lambda>r. wr_secret r \<noteq> p_secret p) (wd_proofs d)\<rparr>"

definition wallet_invalidate_proof :: "wallet_proof \<Rightarrow> (wallet_db, error, unit) sm" where
  "wallet_invalidate_proof p =
     thenS (modifyS (delete_proof p))
     (bindS (liftS (\<lambda>d. insert_unique wu_secret ''proofs_used.secret'' (proof_to_used p) (wd_proofs_used d))) (\<lambda>t.
      modifyS (\<lambda>d. d\<lparr>wd_proofs_used := t\<rparr>)))"

text \<open>\<^verbatim>\<open>update_proof\<close>; \<open>None\<close> is the default \<^verbatim>\<open>_UNSET\<close>: the column is left as it is.\<close>

record proof_update =
  up_reserved :: "bool option"
  up_send_id :: "string option option"
  up_mint_id :: "string option option"
  up_melt_id :: "string option option"

definition no_update :: proof_update where
  "no_update = \<lparr>up_reserved = None, up_send_id = None, up_mint_id = None, up_melt_id = None\<rparr>"

definition or_old :: "'a option \<Rightarrow> 'a \<Rightarrow> 'a" where
  "or_old x y = (case x of None \<Rightarrow> y | Some v \<Rightarrow> v)"

definition update_wrow :: "proof_update \<Rightarrow> wproof_row \<Rightarrow> wproof_row" where
  "update_wrow u r =
     r\<lparr>wr_reserved := (case up_reserved u of None \<Rightarrow> wr_reserved r | Some b \<Rightarrow> Some b),
       wr_send_id := or_old (up_send_id u) (wr_send_id r), wr_mint_id := or_old (up_mint_id u) (wr_mint_id r),
       wr_melt_id := or_old (up_melt_id u) (wr_melt_id r)\<rparr>"

definition update_proof :: "wallet_proof \<Rightarrow> proof_update \<Rightarrow> wallet_db \<Rightarrow> wallet_db" where
  "update_proof p u d =
     d\<lparr>wd_proofs := List.map (\<lambda>r. if wr_secret r = p_secret p then update_wrow u r else r) (wd_proofs d)\<rparr>"

definition secret_used :: "string \<Rightarrow> wallet_db \<Rightarrow> bool" where
  "secret_used s d = (s \<in> set (List.map wr_secret (wd_proofs d)))"

section \<open>Keysets\<close>

text \<open>The unique columns are the identifier and the address of the mint; two nulls are different in SQL.\<close>

definition keyset_key_free :: "wkeyset_row \<Rightarrow> wkeyset_row list \<Rightarrow> bool" where
  "keyset_key_free r t \<longleftrightarrow>
     wkr_mint_url r = None \<or> (wkr_id r, wkr_mint_url r) \<notin> set (List.map (\<lambda>x. (wkr_id x, wkr_mint_url x)) t)"

definition wallet_store_keyset :: "curve \<Rightarrow> wallet_keyset \<Rightarrow> string \<Rightarrow> wallet_db \<Rightarrow> error + wallet_db" where
  "wallet_store_keyset C k mint_url d =
     (let r = \<lparr>wkr_id = wk_id k, wkr_mint_url = (if mint_url = [] then wk_mint_url k else Some mint_url), wkr_active = wk_active k,
            wkr_public_keys = keyset_serialize C k, wkr_unit = unit_name (wk_unit k),
            wkr_input_fee_ppk = wk_input_fee_ppk k, wkr_counter = 0\<rparr>
      in bindR (checkR (keyset_key_free r (wd_keysets d)) (IntegrityError ''UNIQUE constraint failed: keysets.id, keysets.mint_url''))
           (\<lambda>_. Inr (d\<lparr>wd_keysets := wd_keysets d @ [r]\<rparr>)))"

definition deserialize_keys :: "curve \<Rightarrow> string \<Rightarrow> error + (int \<times> point) list" where
  "deserialize_keys C s =
     bindR (json_loads s) (\<lambda>j. bindR (json_obj j) (\<lambda>kvs.
     bindR (mapR (\<lambda>(a, v). bindR (py_int_err a) (\<lambda>n. bindR (json_str v) (\<lambda>h. bindR (pk_from_hex C h) (\<lambda>p. Inr (n, p))))) kvs) (\<lambda>l.
     Inr (dict_from l))))"

definition keyset_of_wrow :: "curve \<Rightarrow> wkeyset_row \<Rightarrow> error + wallet_keyset" where
  "keyset_of_wrow C r =
     bindR (if wkr_public_keys r = [] then Inr [] else deserialize_keys C (wkr_public_keys r)) (\<lambda>keys.
     init_wallet_keyset C keys (wkr_unit r) (Some (wkr_id r)) (wkr_mint_url r) (wkr_active r) (wkr_input_fee_ppk r))"

definition wallet_get_keysets ::
  "curve \<Rightarrow> string \<Rightarrow> string option \<Rightarrow> string option \<Rightarrow> wallet_db \<Rightarrow> error + wallet_keyset list" where
  "wallet_get_keysets C kid mint_url unit d =
     mapR (keyset_of_wrow C) (filter (\<lambda>r. wanted (Some kid) (Some (wkr_id r)) \<and> wanted mint_url (wkr_mint_url r) \<and>
       wanted unit (Some (wkr_unit r))) (wd_keysets d))"

definition wallet_update_keyset :: "wallet_keyset \<Rightarrow> wallet_db \<Rightarrow> wallet_db" where
  "wallet_update_keyset k d =
     d\<lparr>wd_keysets := List.map (\<lambda>r. if wkr_id r = wk_id k
         then r\<lparr>wkr_active := wk_active k, wkr_input_fee_ppk := wk_input_fee_ppk k\<rparr> else r) (wd_keysets d)\<rparr>"

section \<open>The counters of the secrets\<close>

definition counter_of :: "string \<Rightarrow> wallet_db \<Rightarrow> int option" where
  "counter_of keyset_id d =
     (case filter (\<lambda>r. wkr_id r = keyset_id) (wd_keysets d) of [] \<Rightarrow> None | r # _ \<Rightarrow> Some (wkr_counter r))"

definition map_counter :: "string \<Rightarrow> (int \<Rightarrow> int) \<Rightarrow> wallet_db \<Rightarrow> wallet_db" where
  "map_counter keyset_id f d =
     d\<lparr>wd_keysets := List.map (\<lambda>r. if wkr_id r = keyset_id then r\<lparr>wkr_counter := f (wkr_counter r)\<rparr> else r) (wd_keysets d)\<rparr>"

definition set_secret_derivation :: "string \<Rightarrow> int \<Rightarrow> wallet_db \<Rightarrow> wallet_db" where
  "set_secret_derivation keyset_id counter d = map_counter keyset_id (\<lambda>_. counter) d"

definition bump_secret_derivation :: "string \<Rightarrow> int \<Rightarrow> bool \<Rightarrow> wallet_db \<Rightarrow> int \<times> wallet_db" where
  "bump_secret_derivation keyset_id n skip d0 =
     (let (counter, d) = (case counter_of keyset_id d0 of
            None \<Rightarrow> (0, map_counter keyset_id (\<lambda>_. 0) d0) | Some c \<Rightarrow> (c, d0))
      in (counter, if skip then d else map_counter keyset_id (\<lambda>c. c + n) d))"

section \<open>Quotes, seed and mints\<close>

definition store_bolt11_mint_quote :: "wallet_mint_quote \<Rightarrow> wallet_db \<Rightarrow> error + wallet_db" where
  "store_bolt11_mint_quote q d =
     bindR (checkR (wq_mint q \<noteq> None) (IntegrityError ''NOT NULL constraint failed: bolt11_mint_quotes.mint'')) (\<lambda>_.
     bindR (insert_unique mq_quote ''bolt11_mint_quotes.quote''
       (q\<lparr>wq_privkey := Some (case wq_privkey q of None \<Rightarrow> [] | Some k \<Rightarrow> k)\<rparr>) (wd_mint_quotes d)) (\<lambda>t.
     Inr (d\<lparr>wd_mint_quotes := t\<rparr>)))"

text \<open>\<^verbatim>\<open>MintQuote.from_row\<close>: the mint and the expiry are not read; a time of zero is none.\<close>

definition nonzero :: "int option \<Rightarrow> int option" where
  "nonzero x = (if truthy_int x then x else None)"

definition wallet_mint_quote_row :: "wallet_mint_quote \<Rightarrow> wallet_mint_quote" where
  "wallet_mint_quote_row q =
     q\<lparr>mq_created_time := nonzero (mq_created_time q), mq_paid_time := nonzero (mq_paid_time q), mq_expiry := None,
       mq_pubkey := None, wq_mint := None\<rparr>"

definition get_bolt11_mint_quote :: "string option \<Rightarrow> string option \<Rightarrow> wallet_db \<Rightarrow> error + wallet_mint_quote option" where
  "get_bolt11_mint_quote quote request d =
     (if \<not> truthy_str quote \<and> \<not> truthy_str request then Inl (ValueError ''quote or request must be provided'')
      else Inr (case filter (\<lambda>q. wanted quote (Some (mq_quote q)) \<and> wanted request (Some (mq_request q))) (wd_mint_quotes d) of
        [] \<Rightarrow> None | q # _ \<Rightarrow> Some (wallet_mint_quote_row q)))"

definition get_bolt11_mint_quotes :: "string option \<Rightarrow> mint_quote_state option \<Rightarrow> wallet_db \<Rightarrow> wallet_mint_quote list" where
  "get_bolt11_mint_quotes url state d =
     List.map wallet_mint_quote_row (filter (\<lambda>q. wanted url (wq_mint q) \<and>
       (case state of None \<Rightarrow> True | Some s \<Rightarrow> mq_state q = s)) (wd_mint_quotes d))"

definition update_bolt11_mint_quote :: "string \<Rightarrow> mint_quote_state \<Rightarrow> int \<Rightarrow> wallet_db \<Rightarrow> wallet_db" where
  "update_bolt11_mint_quote quote state paid_time d =
     d\<lparr>wd_mint_quotes := List.map (\<lambda>q. if mq_quote q = quote then q\<lparr>mq_state := state, mq_paid_time := Some paid_time\<rparr> else q)
         (wd_mint_quotes d)\<rparr>"

definition store_bolt11_melt_quote :: "wallet_melt_quote \<Rightarrow> wallet_db \<Rightarrow> error + wallet_db" where
  "store_bolt11_melt_quote q d =
     bindR (checkR (wl_mint q \<noteq> None) (IntegrityError ''NOT NULL constraint failed: bolt11_melt_quotes.mint'')) (\<lambda>_.
     bindR (insert_unique lq_quote ''bolt11_melt_quotes.quote'' q (wd_melt_quotes d)) (\<lambda>t.
     Inr (d\<lparr>wd_melt_quotes := t\<rparr>)))"

text \<open>\<^verbatim>\<open>MeltQuote.from_row\<close>: mint, outputs and change are not read; an empty preimage is none.\<close>

definition wallet_melt_quote_row :: "wallet_melt_quote \<Rightarrow> wallet_melt_quote" where
  "wallet_melt_quote_row q =
     q\<lparr>lq_created_time := nonzero (lq_created_time q), lq_paid_time := nonzero (lq_paid_time q), lq_expiry := nonzero (lq_expiry q),
       lq_payment_preimage := or_none (lq_payment_preimage q), lq_outputs := None, lq_change := None, wl_mint := None\<rparr>"

definition get_bolt11_melt_quote :: "string option \<Rightarrow> string option \<Rightarrow> wallet_db \<Rightarrow> error + wallet_melt_quote option" where
  "get_bolt11_melt_quote quote request d =
     (if \<not> truthy_str quote \<and> \<not> truthy_str request then Inl (ValueError ''quote or request must be provided'')
      else Inr (case filter (\<lambda>q. wanted quote (Some (lq_quote q)) \<and> wanted request (Some (lq_request q))) (wd_melt_quotes d) of
        [] \<Rightarrow> None | q # _ \<Rightarrow> Some (wallet_melt_quote_row q)))"

definition get_bolt11_melt_quotes :: "string option \<Rightarrow> melt_quote_state option \<Rightarrow> wallet_db \<Rightarrow> wallet_melt_quote list" where
  "get_bolt11_melt_quotes url state d =
     List.map wallet_melt_quote_row (filter (\<lambda>q. wanted url (wl_mint q) \<and>
       (case state of None \<Rightarrow> True | Some s \<Rightarrow> lq_state q = s)) (wd_melt_quotes d))"

definition update_bolt11_melt_quote :: "string \<Rightarrow> melt_quote_state \<Rightarrow> int \<Rightarrow> int \<Rightarrow> string \<Rightarrow> wallet_db \<Rightarrow> wallet_db" where
  "update_bolt11_melt_quote quote state paid_time fee_paid payment_preimage d =
     d\<lparr>wd_melt_quotes := List.map (\<lambda>q. if lq_quote q = quote
         then q\<lparr>lq_state := state, lq_paid_time := Some paid_time, lq_fee_paid := fee_paid,
                lq_payment_preimage := Some payment_preimage\<rparr> else q) (wd_melt_quotes d)\<rparr>"

definition get_seed_and_mnemonic :: "wallet_db \<Rightarrow> (string \<times> string) option" where
  "get_seed_and_mnemonic d = (case wd_seed d of [] \<Rightarrow> None | r # _ \<Rightarrow> Some r)"

definition store_seed_and_mnemonic :: "string \<Rightarrow> string \<Rightarrow> wallet_db \<Rightarrow> error + wallet_db" where
  "store_seed_and_mnemonic seed mnemonic d =
     bindR (insert_unique (\<lambda>r. r) ''seed.seed, seed.mnemonic'' (seed, mnemonic) (wd_seed d)) (\<lambda>t. Inr (d\<lparr>wd_seed := t\<rparr>))"

definition store_mint :: "wallet_mint \<Rightarrow> wallet_db \<Rightarrow> wallet_db" where
  "store_mint m d = d\<lparr>wd_mints := wd_mints d @
     [m\<lparr>wm_access_token := None, wm_refresh_token := None, wm_username := None, wm_password := None\<rparr>]\<rparr>"

definition update_mint :: "wallet_mint \<Rightarrow> wallet_db \<Rightarrow> wallet_db" where
  "update_mint m d = d\<lparr>wd_mints := List.map (\<lambda>r. if wm_url r = wm_url m then m else r) (wd_mints d)\<rparr>"

definition get_mint_by_url :: "string \<Rightarrow> wallet_db \<Rightarrow> wallet_mint option" where
  "get_mint_by_url url d = (case filter (\<lambda>m. wm_url m = url) (wd_mints d) of [] \<Rightarrow> None | m # _ \<Rightarrow> Some m)"

end
