(* ===== verification/Floats.thy ===== *)
theory Floats
  imports Complex_Main Split
begin

text \<open>
  The arithmetic of Python's \<^verbatim>\<open>float\<close>, as far as the wallet's coin selection uses it: IEEE 754 binary64
  with rounding to nearest, ties to even. A finite float is the rational number it stands for; \<open>f64\<close> rounds
  a rational number to 53 significant bits. The exponent has no bounds here: the amounts of a wallet
  are far from both ends of its range. Comparisons of integers and floats are exact in Python.
\<close>

definition round_even :: "rat \<Rightarrow> int" where
  "round_even x =
     (let f = \<lfloor>x\<rfloor>; r = x - of_int f
      in if r < 1 / 2 then f else if 1 / 2 < r then f + 1 else if even f then f else f + 1)"

definition pow2 :: "int \<Rightarrow> rat" where
  "pow2 e = (if 0 \<le> e then 2 ^ nat e else 1 / 2 ^ nat (- e))"

text \<open>The exponent of the leading bit of a positive rational.\<close>

definition exponent_of :: "rat \<Rightarrow> int" where
  "exponent_of x =
     (let (n, d) = quotient_of x; k = int (bit_length (nat n)) - int (bit_length (nat d))
      in if pow2 k \<le> x then k else k - 1)"

definition f64 :: "rat \<Rightarrow> rat" where
  "f64 x =
     (if x = 0 then 0
      else let e = exponent_of \<bar>x\<bar> in of_int (round_even (x * pow2 (52 - e))) * pow2 (e - 52))"

definition f_of_int :: "int \<Rightarrow> rat" where
  "f_of_int n = f64 (of_int n)"

definition f_sub :: "rat \<Rightarrow> rat \<Rightarrow> rat" where
  "f_sub x y = f64 (x - y)"

text \<open>\<^verbatim>\<open>m / n\<close> of two integers is correctly rounded.\<close>

definition f_div_int :: "int \<Rightarrow> int \<Rightarrow> rat" where
  "f_div_int m n = f64 (of_int m / of_int n)"

section \<open>Small integers are exact\<close>

lemma round_even_int [simp]: "round_even (of_int n) = n"
  by (simp add: round_even_def)

lemma f64_zero [simp]: "f64 0 = 0"
  by (simp add: f64_def)

lemma bit_length_bounds: "0 < n \<Longrightarrow> 0 < bit_length n \<and> 2 ^ (bit_length n - 1) \<le> n \<and> n < 2 ^ bit_length n"
  using bit_length_lower[of n] bit_length_bound[of n] by (simp add: bit_length.simps[of n])

lemma bit_length_one [simp]: "bit_length (Suc 0) = 1"
  by (simp add: bit_length.simps)

lemma exponent_of_int:
  assumes "0 < n" and "n < 2 ^ 53"
  shows "0 \<le> exponent_of (of_int n) \<and> exponent_of (of_int n) \<le> 52"
proof -
  define b where "b = bit_length (nat n)"
  have b: "0 < b" "2 ^ (b - 1) \<le> nat n" "nat n < 2 ^ b" using bit_length_bounds[of "nat n"] assms(1) by (auto simp: b_def)
  have "nat n < 2 ^ 53" using assms by (simp add: nat_less_iff)
  with b(2) have "(2::nat) ^ (b - 1) < 2 ^ 53" by (rule le_less_trans)
  then have "b - 1 < 53" by (rule power_less_imp_less_exp[of 2, rotated]) simp
  have "2 ^ (b - 1) \<le> n" using b(2) assms(1) by (simp add: nat_le_eq_zle le_nat_iff)
  then have "(of_int (2 ^ (b - 1)) :: rat) \<le> of_int n" by (simp only: of_int_le_iff)
  moreover have "nat (int b - 1) = b - 1" using b(1) by simp
  ultimately have "pow2 (int b - 1) \<le> of_int n" using b(1) by (simp add: pow2_def)
  moreover have "quotient_of (of_int n) = (n, 1)" by (simp add: quotient_of_Fract normalize_def flip: Fract_of_int_eq)
  ultimately have "exponent_of (of_int n) = int b - 1" by (simp add: exponent_of_def b_def)
  then show ?thesis using b(1) \<open>b - 1 < 53\<close> by simp
qed

lemma f64_int:
  assumes "\<bar>n\<bar> < 2 ^ 53"
  shows "f64 (of_int n) = of_int n"
proof (cases "n = 0")
  case False
  define e where "e = exponent_of \<bar>of_int n\<bar>"
  have "(of_int \<bar>n\<bar> :: rat) = \<bar>of_int n\<bar>" by simp
  then have e: "0 \<le> e" "e \<le> 52" using exponent_of_int[of "\<bar>n\<bar>"] assms False by (auto simp: e_def)
  then have p: "pow2 (52 - e) = of_int (2 ^ nat (52 - e))" by (simp add: pow2_def)
  have "round_even (of_int n * pow2 (52 - e)) = n * 2 ^ nat (52 - e)"
    unfolding p of_int_mult[symmetric] by (rule round_even_int)
  moreover have "pow2 (52 - e) * pow2 (e - 52) = 1" using e by (cases "e = 52") (auto simp: pow2_def)
  ultimately show ?thesis using False
    by (simp add: f64_def flip: e_def) (simp add: p mult.assoc)
qed simp

lemma f_of_int_exact: "\<bar>n\<bar> < 2 ^ 53 \<Longrightarrow> f_of_int n = of_int n"
  by (simp add: f_of_int_def f64_int)

lemma f_sub_exact: "\<bar>m - n\<bar> < 2 ^ 53 \<Longrightarrow> f_sub (of_int m) (of_int n) = of_int (m - n)"
  using f64_int[of "m - n"] by (simp add: f_sub_def)

end
