(* ===== verification/WalletAmounts.thy ===== *)
theory WalletAmounts
  imports WalletStore Floats
begin

text \<open>
  The transactions of the wallet (\<^verbatim>\<open>cashu/wallet/transactions.py\<close>): fees, the selection of the proofs to send, and
  the amounts of the outputs. The memory of a wallet is a record \<open>wallet\<close> with the attributes of the class \<^verbatim>\<open>Wallet\<close>.
\<close>

section \<open>The memory of a wallet\<close>

record wallet =
  w_url :: string
  w_unit :: unit_t
  w_keysets :: "(string \<times> wallet_keyset) list"
  w_keyset_id :: string
  w_proofs :: "wallet_proof list"
  w_seed :: "string option"
  w_bip32 :: "string option"
  w_private_key :: "int option"
  w_mint_info :: "string option"

section \<open>Fees\<close>

definition ceil_ppk :: "int \<Rightarrow> int" where
  "ceil_ppk n = max ((n + 999) div 1000) 0"

definition get_fees_for_keyset :: "int list \<Rightarrow> wallet_keyset \<Rightarrow> int" where
  "get_fees_for_keyset amounts k = ceil_ppk (sum_list (List.map (\<lambda>a. wk_input_fee_ppk k) amounts))"

definition id_fee_ppk :: "(string \<times> wallet_keyset) list \<Rightarrow> string \<Rightarrow> error + int" where
  "id_fee_ppk ks i =
     (case map_of ks i of
        None \<Rightarrow> Inl (PyException (''no keyset with ID: '' @ i)) | Some k \<Rightarrow> Inr (wk_input_fee_ppk k))"

definition wallet_fees_ppk :: "(string \<times> wallet_keyset) list \<Rightarrow> wallet_proof list \<Rightarrow> error + int" where
  "wallet_fees_ppk ks ps = bindR (mapR (\<lambda>p. id_fee_ppk ks (p_id p)) ps) (\<lambda>l. Inr (sum_list l))"

definition wallet_fees :: "(string \<times> wallet_keyset) list \<Rightarrow> wallet_proof list \<Rightarrow> error + int" where
  "wallet_fees ks ps = bindR (mapR (\<lambda>p. id_fee_ppk ks (p_id p)) ps) (\<lambda>l. Inr (ceil_ppk (sum_list l)))"

section \<open>Coin selection\<close>

text \<open>
  The amount is an integer in the first call and a float in the recursive ones; both are rational numbers here
  (theory \<open>Floats\<close>). The recursion runs on the smaller proofs but the first.
\<close>

definition sorted_by_amount :: "wallet_proof list \<Rightarrow> wallet_proof list" where
  "sorted_by_amount ps = sort_key p_amount ps"

definition find_bigger :: "wallet_proof list \<Rightarrow> rat \<Rightarrow> wallet_proof option" where
  "find_bigger ps amount = List.find (\<lambda>p. amount < of_int (p_amount p)) (sorted_by_amount ps)"

definition find_smaller :: "wallet_proof list \<Rightarrow> rat \<Rightarrow> wallet_proof list" where
  "find_smaller ps amount =
     sort_key (\<lambda>p. - p_amount p) (filter (\<lambda>p. of_int (p_amount p) \<le> amount) (sorted_by_amount ps))"

definition remainder_after :: "rat \<Rightarrow> int \<Rightarrow> int \<Rightarrow> rat" where
  "remainder_after amount n fee_ppk = f_sub (f64 amount) (f_sub (f_of_int n) (f_div_int fee_ppk 1000))"

lemma mset_find_smaller: "mset (find_smaller ps amount) = filter_mset (\<lambda>p. of_int (p_amount p) \<le> amount) (mset ps)"
  by (simp add: find_smaller_def sorted_by_amount_def mset_filter)

lemma find_smaller_shorter: "find_smaller ps amount = p # rest \<Longrightarrow> length rest < length ps"
proof -
  assume "find_smaller ps amount = p # rest"
  moreover have "length (find_smaller ps amount) \<le> length ps"
    by (simp add: find_smaller_def sorted_by_amount_def) (metis length_filter_le length_sort)
  ultimately show ?thesis by simp
qed

function coinselect ::
  "(string \<times> wallet_keyset) list \<Rightarrow> bool \<Rightarrow> wallet_proof list \<Rightarrow> rat \<Rightarrow> error + wallet_proof list"
where
  "coinselect ks include_fees ps amount =
     (if of_int (sum_wallet ps) < amount then Inr []
      else case find_smaller ps amount of
        [] \<Rightarrow> Inr (case find_bigger ps amount of None \<Rightarrow> [] | Some b \<Rightarrow> [b])
      | p # rest \<Rightarrow>
          bindR (if include_fees then wallet_fees_ppk ks [p] else Inr 0) (\<lambda>fee_ppk.
          let remainder = remainder_after amount (p_amount p) fee_ppk
          in bindR (if 0 < remainder then coinselect ks include_fees rest remainder else Inr []) (\<lambda>more.
             Inr (if of_int (sum_wallet (p # more)) < amount \<and> find_bigger ps amount \<noteq> None
                  then [the (find_bigger ps amount)] else p # more))))"
  by pat_completeness auto
termination
  by (relation "measure (\<lambda>(ks, include_fees, ps, amount). length ps)") (auto dest: find_smaller_shorter)

declare coinselect.simps [simp del]

definition coinselect_fee :: "(string \<times> wallet_keyset) list \<Rightarrow> wallet_proof list \<Rightarrow> int \<Rightarrow> error + int" where
  "coinselect_fee ks ps amount = bindR (coinselect ks True ps (of_int amount)) (wallet_fees ks)"

section \<open>The amounts of the outputs\<close>

definition get_allowed_amounts :: "wallet \<Rightarrow> error + int list" where
  "get_allowed_amounts W =
     (case map_of (w_keysets W) (w_keyset_id W) of
        None \<Rightarrow> Inl (PyException ''No active keyset'')
      | Some k \<Rightarrow> if w_keyset_id W = [] then Inl (PyException ''No active keyset'')
                  else Inr (sort (List.map fst (wk_public_keys k))))"

fun fill_amounts :: "int \<Rightarrow> int list \<Rightarrow> int list \<Rightarrow> int list" where
  "fill_amounts amount amounts [] = amounts"
| "fill_amounts amount amounts (x # amounts_we_want) =
     (if sum_list amounts < amount \<and> \<not> amount < sum_list amounts + x
      then fill_amounts amount (amounts @ [x]) amounts_we_want else amounts)"

text \<open>\<open>n_target\<close> is the setting \<^verbatim>\<open>wallet_target_amount_count\<close>.\<close>

definition amounts_wanted :: "int \<Rightarrow> int list \<Rightarrow> int list \<Rightarrow> int list" where
  "amounts_wanted n_target amounts_we_have all_possible_amounts =
     sort (concat (List.map (\<lambda>a. replicate (nat (n_target - int (count (mset amounts_we_have) a))) a) all_possible_amounts))"

definition split_wallet_state :: "int \<Rightarrow> wallet \<Rightarrow> int \<Rightarrow> error + int list" where
  "split_wallet_state n_target W amount =
     (let amounts_we_have = sort (List.map p_amount (filter (\<lambda>p. \<not> is_reserved p) (w_proofs W)))
      in bindR (get_allowed_amounts W) (\<lambda>all_possible_amounts.
         let amounts = fill_amounts amount [] (amounts_wanted n_target amounts_we_have all_possible_amounts);
             remaining_amount = amount - sum_list amounts;
             result = sort (amounts @ (if remaining_amount > 0 then amount_split remaining_amount else []))
         in bindR (checkR (sum_list result = amount) (PyException (''Amounts do not sum to '' @ str_int amount @ ''.''))) (\<lambda>_.
            Inr result)))"

text \<open>The proofs that the code makes up to ask for the fee carry nothing but the identifier of the keyset.\<close>

definition determine_output_amounts ::
  "int \<Rightarrow> wallet \<Rightarrow> wallet_proof list \<Rightarrow> int \<Rightarrow> bool \<Rightarrow> string option \<Rightarrow> error + int list \<times> int list" where
  "determine_output_amounts n_target W ps amount include_fees keyset_id_outputs =
     (let keyset_id = (if truthy_str keyset_id_outputs then the keyset_id_outputs else w_keyset_id W)
      in bindR (if include_fees then
                  bindR (mapR (\<lambda>_. id_fee_ppk (w_keysets W) keyset_id) (amount_split amount)) (\<lambda>l. Inr (ceil_ppk (sum_list l)))
                else Inr 0) (\<lambda>fee.
         let send_amounts = amount_split (amount + fee)
         in bindR (wallet_fees (w_keysets W) ps) (\<lambda>input_fees.
            bindR (split_wallet_state n_target W (sum_wallet ps - amount - fee - input_fees)) (\<lambda>keep_amounts.
            Inr (keep_amounts, send_amounts)))))"

end
