(* ===== verification/Selection.thy ===== *)
theory Selection
  imports WalletAmounts Samples
begin

text \<open>
  What the wallet selects and proposes: a selection is part of the proofs and, without fees, worth enough; the
  amounts of the outputs add up, so that the mint finds the transaction balanced.
\<close>

section \<open>Selections\<close>

lemma sum_wallet_mset: "sum_wallet ps = sum_mset (image_mset p_amount (mset ps))"
  by (simp add: sum_wallet_def sum_mset_sum_list flip: mset_map)

lemma sum_wallet_simps [simp]: "sum_wallet [] = 0" "sum_wallet (p # ps) = p_amount p + sum_wallet ps"
  by (simp_all add: sum_wallet_def)

lemma find_bigger_Some: "find_bigger ps a = Some b \<Longrightarrow> b \<in> set ps \<and> a < of_int (p_amount b)"
  using nth_mem[of _ "sort_key p_amount ps"] by (auto simp: find_bigger_def sorted_by_amount_def find_Some_iff)

lemma find_bigger_None: "find_bigger ps a = None \<longleftrightarrow> (\<forall>p\<in>set ps. of_int (p_amount p) \<le> a)"
  by (auto simp: find_bigger_def sorted_by_amount_def find_None_iff)

lemma find_smaller_set: "set (find_smaller ps a) = {p \<in> set ps. of_int (p_amount p) \<le> a}"
  by (auto simp: find_smaller_def sorted_by_amount_def)

lemma find_smaller_sub: "find_smaller ps a = p # rest \<Longrightarrow> add_mset p (mset rest) \<subseteq># mset ps"
  using mset_find_smaller[of ps a] by (metis mset.simps(2) multiset_filter_subset)

lemma coinselect_subset: "coinselect ks f ps a = Inr sel \<Longrightarrow> mset sel \<subseteq># mset ps"
proof (induction "length ps" arbitrary: ps a sel rule: less_induct)
  case less
  show ?case
  proof (cases "of_int (sum_wallet ps) < a")
    case False
    show ?thesis
    proof (cases "find_smaller ps a")
      case Nil
      then show ?thesis using less.prems False
        by (auto simp: coinselect.simps[of ks f ps a] dest!: find_bigger_Some split: option.splits)
    next
      case (Cons p rest)
      obtain fee more where more: "(if 0 < remainder_after a (p_amount p) fee then coinselect ks f rest (remainder_after a (p_amount p) fee)
            else Inr []) = Inr more"
          and sel: "sel = (if of_int (sum_wallet (p # more)) < a \<and> find_bigger ps a \<noteq> None then [the (find_bigger ps a)] else p # more)"
        using less.prems False Cons by (auto simp: coinselect.simps[of ks f ps a] bindR_Inr Let_def)
      have "mset more \<subseteq># mset rest"
        using more less.hyps[OF find_smaller_shorter[OF Cons]] by (auto split: if_splits)
      then have "mset (p # more) \<subseteq># mset ps" using find_smaller_sub[OF Cons]
        by (metis mset.simps(2) insert_subset_eq_iff mset_subset_eq_add_mset_cancel subset_mset.dual_order.trans)
      then show ?thesis using sel by (cases "find_bigger ps a") (auto dest!: find_bigger_Some)
    qed
  qed (use less.prems in \<open>simp add: coinselect.simps[of ks f ps a]\<close>)
qed

section \<open>Enough without fees\<close>

lemma remainder_exact:
  assumes "0 \<le> a" and "a \<le> n" and "n < 2 ^ 53"
  shows "remainder_after (of_int n) a 0 = of_int (n - a)"
proof -
  have "f64 (of_int n) = of_int n" "f_of_int a = of_int a" "f_sub (of_int a) (of_int 0) = of_int a"
      "f_sub (of_int n) (of_int a) = of_int (n - a)"
    using f64_int[of n] f_of_int_exact[of a] f_sub_exact[of a 0] f_sub_exact[of n a] assms by simp_all
  then show ?thesis by (simp add: remainder_after_def f_div_int_def)
qed

lemma coinselect_reaches:
  assumes "\<forall>p\<in>set ps. 0 \<le> p_amount p" and "n \<le> sum_wallet ps" and "0 \<le> n" and "n < 2 ^ 53"
  shows "\<exists>sel. coinselect ks False ps (of_int n) = Inr sel \<and> n \<le> sum_wallet sel"
  using assms
proof (induction "length ps" arbitrary: ps n rule: less_induct)
  case less
  have start: "\<not> of_int (sum_wallet ps) < (of_int n :: rat)" using less.prems(2) by simp
  show ?case
  proof (cases "find_smaller ps (of_int n)")
    case Nil
    then have big: "n < p_amount p" if "p \<in> set ps" for p using that find_smaller_set[of ps "of_int n"] by auto
    show ?thesis
    proof (cases "find_bigger ps (of_int n)")
      case None
      then have "ps = []" using big by (cases ps) (force simp: find_bigger_None)+
      then show ?thesis using Nil None start less.prems by (simp add: coinselect.simps[of ks False "[]"])
    next
      case (Some b)
      then show ?thesis using Nil start big find_bigger_Some[OF Some] by (auto simp: coinselect.simps[of ks False ps])
    qed
  next
    case (Cons p rest)
    then have p: "p \<in> set ps" "p_amount p \<le> n" using find_smaller_set[of ps "of_int n"] by auto
    let ?r = "n - p_amount p"
    have rem: "remainder_after (of_int n) (p_amount p) 0 = of_int ?r" using p less.prems by (intro remainder_exact) auto
    have rest: "\<forall>q\<in>set rest. 0 \<le> p_amount q" using find_smaller_set[of ps "of_int n"] Cons less.prems(1) by auto
    have run: "coinselect ks False ps (of_int n) = bindR (if 0 < ?r then coinselect ks False rest (of_int ?r) else Inr []) (\<lambda>more.
        Inr (if sum_wallet (p # more) < n \<and> find_bigger ps (of_int n) \<noteq> None then [the (find_bigger ps (of_int n))] else p # more))"
      using start Cons by (simp add: coinselect.simps[of ks False ps] rem del: sum_wallet_simps(2))
    show ?thesis
    proof (cases "0 < ?r \<and> sum_wallet rest < ?r")
      case True
      have "find_bigger ps (of_int n) \<noteq> None"
      proof
        assume "find_bigger ps (of_int n) = None"
        then have "filter_mset (\<lambda>q. of_int (p_amount q) \<le> (of_int n :: rat)) (mset ps) = mset ps"
          by (simp add: find_bigger_None filter_mset_eq_conv)
        then have "mset (p # rest) = mset ps" using mset_find_smaller[of ps "of_int n"] Cons by simp
        then have "sum_wallet (p # rest) = sum_wallet ps" by (simp only: sum_wallet_mset)
        then show False using True less.prems(2) by simp
      qed
      then obtain b where b: "find_bigger ps (of_int n) = Some b" by blast
      have "coinselect ks False rest (of_int ?r) = Inr []"
        using True by (simp add: coinselect.simps[of ks False rest] flip: of_int_diff)
      then show ?thesis using True b find_bigger_Some[OF b] by (simp add: run)
    next
      case False
      have "\<exists>more. (if 0 < ?r then coinselect ks False rest (of_int ?r) else Inr []) = Inr more \<and> ?r \<le> sum_wallet more"
      proof (cases "0 < ?r")
        case True
        then show ?thesis using less.hyps[OF find_smaller_shorter[OF Cons] rest, of ?r] False less.prems(1,4) p by auto
      qed (use p in auto)
      then obtain more where "(if 0 < ?r then coinselect ks False rest (of_int ?r) else Inr []) = Inr more" "?r \<le> sum_wallet more"
        by blast
      then show ?thesis using p(2) by (simp add: run)
    qed
  qed
qed

text \<open>C27. The selection without fees: when the proofs are worth the amount, the wallet selects some of them, each at most
  once, that are worth it; when they are not, it selects none. The amounts are below the integers that a
  float holds exactly.\<close>

theorem coinselect_enough:
  assumes "\<forall>p\<in>set ps. 0 \<le> p_amount p" and "0 \<le> n" and "n < 2 ^ 53"
  shows "\<exists>sel. coinselect ks False ps (of_int n) = Inr sel \<and> mset sel \<subseteq># mset ps \<and>
    (if n \<le> sum_wallet ps then n \<le> sum_wallet sel else sel = [])"
proof (cases "n \<le> sum_wallet ps")
  case True
  then show ?thesis using coinselect_reaches[OF assms(1) True assms(2,3)] coinselect_subset by fastforce
qed (simp add: coinselect.simps[of ks False ps])

text \<open>The witness: three coins, of which two are selected for an amount of five.\<close>

definition sample_coin :: "int \<Rightarrow> wallet_proof" where
  "sample_coin a =
     \<lparr>p_id = ''00ks'', p_amount = a, p_secret = str_int a, p_Y = [], p_C = [], p_dleq = None, p_witness = None,
      wp_reserved = None, wp_send_id = None, wp_derivation_path = None, wp_mint_id = None, wp_melt_id = None\<rparr>"

theorem coinselect_enough_witness:
  "\<exists>sel. coinselect [] False [sample_coin 1, sample_coin 8, sample_coin 4] 5 = Inr sel \<and> 5 \<le> sum_wallet sel"
proof -
  let ?ps = "[sample_coin 1, sample_coin 8, sample_coin 4]"
  have "\<forall>p\<in>set ?ps. 0 \<le> p_amount p" "sum_wallet ?ps = 13" by (simp_all add: sample_coin_def)
  then show ?thesis using coinselect_enough[of ?ps 5 "[]"] by auto
qed

section \<open>Fees are not covered\<close>

text \<open>
  With fees the selection may be too small although the proofs would do: the check at the end of the selection does
  not count the fees. For eight, with a fee of 100 ppk, a coin of eight is selected, worth seven after the fee, and
  not the coin of sixteen.
\<close>

definition sample_wallet_keyset :: wallet_keyset where
  "sample_wallet_keyset =
     \<lparr>wk_id = ''00ks'', wk_unit = sat, wk_public_keys = [(1, 1), (2, 3), (4, 1), (8, 3)], wk_mint_url = Some ''https://mint'',
      wk_active = True, wk_input_fee_ppk = 100\<rparr>"

lemma coinselect_fee_shortfall:
  "coinselect [(''00ks'', sample_wallet_keyset)] True [sample_coin 8, sample_coin 16] 8 = Inr [sample_coin 8] \<and>
   coinselect_fee [(''00ks'', sample_wallet_keyset)] [sample_coin 8, sample_coin 16] 8 = Inr 1"
proof -
  let ?ks = "[(''00ks'', sample_wallet_keyset)]" and ?ps = "[sample_coin 8, sample_coin 16]"
  have found: "find_smaller ?ps 8 = [sample_coin 8]"
    by (simp add: find_smaller_def sorted_by_amount_def sample_coin_def)
  have fee: "wallet_fees_ppk ?ks [sample_coin 8] = Inr 100" "wallet_fees ?ks [sample_coin 8] = Inr 1"
    by (simp_all add: wallet_fees_ppk_def wallet_fees_def id_fee_ppk_def sample_coin_def sample_wallet_keyset_def ceil_ppk_def)
  have "coinselect ?ks True [] r = Inr []" if "0 < r" for r using that by (simp add: coinselect.simps[of ?ks True "[]"])
  then have "coinselect ?ks True ?ps 8 = Inr [sample_coin 8]"
    by (subst coinselect.simps) (simp add: found fee Let_def, simp add: sample_coin_def)
  with fee show ?thesis by (simp add: coinselect_fee_def)
qed

section \<open>The amounts of the outputs\<close>

lemma sum_list_sort [simp]: "sum_list (sort xs) = sum_list (xs :: int list)"
  by (metis mset_sort sum_mset_sum_list)

lemma fill_amounts_le: "sum_list amounts \<le> a \<Longrightarrow> sum_list (fill_amounts a amounts want) \<le> a"
  by (induction a amounts want rule: fill_amounts.induct) auto

lemma split_wallet_state_ok: "split_wallet_state nt W a = Inr l \<Longrightarrow> sum_list l = a \<and> sorted l"
  by (auto simp: split_wallet_state_def Let_def bindR_Inr)

lemma split_wallet_state_total:
  assumes "0 \<le> a" and "get_allowed_amounts W = Inr al"
  shows "\<exists>l. split_wallet_state nt W a = Inr l"
proof -
  let ?f = "fill_amounts a [] (amounts_wanted nt (sort (List.map p_amount (filter (\<lambda>p. \<not> is_reserved p) (w_proofs W)))) al)"
  have "sum_list ?f \<le> a" using fill_amounts_le[of "[]" a] assms(1) by simp
  then show ?thesis using assms(2) by (simp add: split_wallet_state_def Let_def sum_amount_split)
qed

lemma ceil_ppk_fee: "0 \<le> n \<Longrightarrow> ceil_ppk n = fee_of_ppk n"
  by (simp add: ceil_ppk_def fee_of_ppk_def)

lemma determine_output_amounts_ok:
  assumes "determine_output_amounts nt W ps amount inc kid = Inr (keep, send)" and "0 \<le> amount"
  shows "\<exists>fees. wallet_fees (w_keysets W) ps = Inr fees \<and> sum_list keep + sum_list send + fees = sum_wallet ps \<and>
    amount \<le> sum_list send"
proof -
  obtain fee inputs where fee: "(if inc then bindR (mapR (\<lambda>_. id_fee_ppk (w_keysets W) (if truthy_str kid then the kid else w_keyset_id W))
        (amount_split amount)) (\<lambda>l. Inr (ceil_ppk (sum_list l))) else Inr 0) = Inr fee"
    and inputs: "wallet_fees (w_keysets W) ps = Inr inputs"
    and keep: "split_wallet_state nt W (sum_wallet ps - amount - fee - inputs) = Inr keep" and send: "send = amount_split (amount + fee)"
    using assms(1) by (auto simp: determine_output_amounts_def Let_def bindR_Inr)
  have "0 \<le> fee" using fee by (auto simp: bindR_Inr ceil_ppk_def split: if_splits)
  then show ?thesis using split_wallet_state_ok[OF keep] inputs assms(2) by (simp add: send sum_amount_split)
qed

text \<open>The fee that the wallet computes is the fee of the mint, when the two agree on the keysets.\<close>

definition same_fees :: "wallet \<Rightarrow> ledger \<Rightarrow> bool" where
  "same_fees W s \<longleftrightarrow> (\<forall>i k. map_of (w_keysets W) i = Some k \<longrightarrow>
     (\<exists>m. keyset_of s i = Some m \<and> k_input_fee_ppk m = wk_input_fee_ppk k \<and> 0 \<le> k_input_fee_ppk m))"

lemma wallet_ppks:
  assumes "same_fees W s" and "mapR (\<lambda>p. id_fee_ppk (w_keysets W) (p_id p)) ps = Inr l"
  shows "proof_ppks s (List.map token_proof.truncate ps) = Inr l \<and> 0 \<le> sum_list l"
  using assms(2)
proof (induction ps arbitrary: l)
  case (Cons p ps)
  then obtain n m where n: "id_fee_ppk (w_keysets W) (p_id p) = Inr n" and m: "mapR (\<lambda>p. id_fee_ppk (w_keysets W) (p_id p)) ps = Inr m"
    and l: "l = n # m" by (auto simp: bindR_Inr)
  obtain k where "map_of (w_keysets W) (p_id p) = Some k" "n = wk_input_fee_ppk k"
    using n by (auto simp: id_fee_ppk_def split: option.splits)
  then obtain x where "keyset_of s (p_id p) = Some x" "k_input_fee_ppk x = n" "0 \<le> n"
    using assms(1) unfolding same_fees_def by metis
  then show ?case using Cons.IH[OF m] l by (simp add: proof_ppks_def the_keyset_def token_proof.truncate_def)
qed (simp add: proof_ppks_def)

text \<open>C28. The outputs that a wallet proposes are balanced: a mint with the same fees, which finds the units and
  the amounts in order, accepts the equation of inputs, outputs and fees; and what is sent is worth the amount
  asked for.\<close>

theorem output_amounts_balanced:
  assumes "determine_output_amounts nt W ps amount inc kid = Inr (keep, send)" and "0 \<le> amount" and "same_fees W s"
    and "List.map bm_amount outs = keep @ send" and "ps \<noteq> []" and "outs \<noteq> []"
    and "verify_units_match s (List.map token_proof.truncate ps) outs = Inr u"
    and "mapR (\<lambda>p. verify_amount E (p_amount p)) (List.map token_proof.truncate ps) = Inr ins"
    and "mapR (\<lambda>x. verify_amount E (bm_amount x)) outs = Inr os"
    and "get_fees_for_proofs s (List.map token_proof.truncate ps) = Inr f"
  shows "verify_equation_balanced E s (List.map token_proof.truncate ps) outs = Inr () \<and> amount \<le> sum_list send"
proof -
  obtain fees where fees: "wallet_fees (w_keysets W) ps = Inr fees" "sum_list keep + sum_list send + fees = sum_wallet ps"
      "amount \<le> sum_list send"
    using determine_output_amounts_ok[OF assms(1,2)] by blast
  obtain l where "mapR (\<lambda>p. id_fee_ppk (w_keysets W) (p_id p)) ps = Inr l" "fees = ceil_ppk (sum_list l)"
    using fees(1) by (auto simp: wallet_fees_def bindR_Inr)
  moreover from calculation have "proof_ppks s (List.map token_proof.truncate ps) = Inr l" "0 \<le> sum_list l"
    using wallet_ppks[OF assms(3)] by blast+
  ultimately have "f = fees" using assms(10) by (auto simp: get_fees_for_proofs_def bindR_Inr ceil_ppk_fee)
  have same: "mapR g xs = Inr ys \<Longrightarrow> (\<And>x y. g x = Inr y \<Longrightarrow> y = h x) \<Longrightarrow> ys = List.map h xs" for g h xs and ys :: "int list"
    by (induction xs arbitrary: ys) (auto simp: bindR_Inr)
  have amt: "verify_amount E a = Inr b \<Longrightarrow> b = a" for a b by (auto simp: verify_amount_def bindR_Inr)
  have "ins = List.map p_amount (List.map token_proof.truncate ps)" using same[OF assms(8)] amt by blast
  moreover have "os = List.map bm_amount outs" using same[OF assms(9)] amt by blast
  ultimately have "sum_list ins = sum_wallet ps" "sum_list os = sum_list keep + sum_list send"
    by (simp_all add: assms(4) sum_wallet_def comp_def token_proof.truncate_def)
  then show ?thesis using assms(5-10) fees \<open>f = fees\<close> by (simp add: verify_equation_balanced_def)
qed

definition sample_wallet :: wallet where
  "sample_wallet =
     \<lparr>w_url = ''https://mint'', w_unit = sat, w_keysets = [(''00ks'', sample_wallet_keyset)], w_keyset_id = ''00ks'',
      w_proofs = [sample_coin 8, sample_coin 4], w_seed = Some ''seed'', w_bip32 = None, w_private_key = None, w_mint_info = None\<rparr>"

definition sample_outs :: "int list \<Rightarrow> blinded_message list" where
  "sample_outs as = List.map (\<lambda>a. \<lparr>bm_amount = a, bm_id = ''00ks'', bm_B = [], bm_C = None\<rparr>) as"

lemma same_fees_sample: "same_fees sample_wallet sample_ledger"
  by (auto simp: same_fees_def sample_wallet_def sample_wallet_keyset_def sample_ledger_def sample_keyset_def keyset_of_def split: if_splits)

theorem output_amounts_balanced_witness:
  "verify_equation_balanced sample_env sample_ledger (List.map token_proof.truncate [sample_coin 8, sample_coin 4])
     (sample_outs [1, 1, 1, 1, 2, 1, 4]) = Inr () \<and> (5::int) \<le> sum_list [1, 4]"
proof -
  let ?ps = "[sample_coin 8, sample_coin 4]" and ?outs = "sample_outs [1, 1, 1, 1, 2, 1, 4]"
  have a: "determine_output_amounts 3 sample_wallet ?ps 5 False None = Inr ([1, 1, 1, 1, 2], [1, 4])" by code_simp
  have b: "List.map bm_amount ?outs = [1, 1, 1, 1, 2] @ [1, 4]" "?ps \<noteq> []" "?outs \<noteq> []" by (simp_all add: sample_outs_def)
  have c: "verify_units_match sample_ledger (List.map token_proof.truncate ?ps) ?outs = Inr sat" by code_simp
  have d: "mapR (\<lambda>p. verify_amount sample_env (p_amount p)) (List.map token_proof.truncate ?ps) = Inr [8, 4]" by code_simp
  have e: "mapR (\<lambda>x. verify_amount sample_env (bm_amount x)) ?outs = Inr [1, 1, 1, 1, 2, 1, 4]" by code_simp
  have f: "get_fees_for_proofs sample_ledger (List.map token_proof.truncate ?ps) = Inr 1" by code_simp
  show ?thesis using output_amounts_balanced[OF a _ same_fees_sample b c d e f] by simp
qed

end
