(* ===== verification/WalletTokens.thy ===== *)
theory WalletTokens
  imports WalletAmounts
begin

text \<open>
  The wallet's proofs as tokens: \<^verbatim>\<open>cashu/wallet/keyset_manager.py\<close> (short identifiers of keysets) and
  \<^verbatim>\<open>cashu/wallet/proofs.py\<close> (grouping, tokens of version 3 and 4). A Python dictionary is an association list in
  the order of insertion; \<open>list_of_set\<close> is the order of iteration over a set.
\<close>

section \<open>Short identifiers of keysets\<close>

record keyset_manager =
  short_to_full :: "(string \<times> string) list"
  full_to_short :: "(string \<times> string) list"

definition new_manager :: keyset_manager where
  "new_manager = \<lparr>short_to_full = [], full_to_short = []\<rparr>"

definition get_short_keyset_id :: "keyset_manager \<Rightarrow> string \<Rightarrow> error + string \<times> keyset_manager" where
  "get_short_keyset_id m full_id =
     (case map_of (full_to_short m) full_id of
        Some s \<Rightarrow> Inr (s, m)
      | None \<Rightarrow>
          bindR (derive_keyset_short_id full_id) (\<lambda>short_id.
          Inr (short_id, m\<lparr>full_to_short := AList.update full_id short_id (full_to_short m),
                           short_to_full := AList.update short_id full_id (short_to_full m)\<rparr>)))"

definition get_full_keyset_id ::
  "keyset_manager \<Rightarrow> string \<Rightarrow> (string \<times> wallet_keyset) list option \<Rightarrow> error + string \<times> keyset_manager" where
  "get_full_keyset_id m short_id ks =
     (case map_of (short_to_full m) short_id of
        Some full \<Rightarrow> Inr (full, m)
      | None \<Rightarrow>
          (case ks of
             None \<Rightarrow> Inl (KeyError ''Unknown short keyset id; cannot resolve to full id'')
           | Some l \<Rightarrow>
               (case filter (starts short_id) (List.map (\<lambda>(_, k). wk_id k) l) of
                  [] \<Rightarrow> Inl (KeyError ''Unknown short keyset id; cannot resolve to full id'')
                | [full] \<Rightarrow>
                    bindR (get_short_keyset_id (m\<lparr>short_to_full := AList.update short_id full (short_to_full m)\<rparr>) full)
                      (\<lambda>(s, m'). Inr (full, m'\<lparr>full_to_short := AList.update full s (full_to_short m')\<rparr>))
                | _ \<Rightarrow> Inl (ValueError ''Ambiguous short keyset id; use full id instead''))))"

text \<open>\<^verbatim>\<open>_expand_short_keyset_ids\<close>: the proofs with their new identifiers.\<close>

definition is_short_id :: "string \<Rightarrow> bool" where
  "is_short_id i \<longleftrightarrow> starts ''01'' i \<and> length i = 16"

primrec expand_loop ::
  "(string \<times> wallet_keyset) list \<Rightarrow> keyset_manager \<Rightarrow> token_proof list \<Rightarrow> error + token_proof list" where
  "expand_loop ks m [] = Inr []"
| "expand_loop ks m (p # ps) =
     (if is_short_id (p_id p) then
        bindR (get_full_keyset_id m (p_id p) (Some ks)) (\<lambda>(full, m').
        bindR (expand_loop ks m' ps) (\<lambda>qs. Inr (p\<lparr>p_id := full\<rparr> # qs)))
      else bindR (expand_loop ks m ps) (\<lambda>qs. Inr (p # qs)))"

definition expand_short_keyset_ids :: "wallet \<Rightarrow> token_proof list \<Rightarrow> error + token_proof list" where
  "expand_short_keyset_ids W ps =
     expand_loop (dict_from (List.map (\<lambda>(_, k). (wk_id k, k)) (w_keysets W))) new_manager ps"

section \<open>Grouping proofs\<close>

text \<open>\<^verbatim>\<open>itertools.groupby\<close>: runs of equal identifiers. The dictionary keeps the last run of each.\<close>

fun id_runs :: "wallet_proof list \<Rightarrow> (string \<times> wallet_proof list) list" where
  "id_runs [] = []"
| "id_runs (p # ps) =
     (case id_runs ps of
        [] \<Rightarrow> [(p_id p, [p])]
      | (i, run) # rest \<Rightarrow> if i = p_id p then (i, p # run) # rest else (p_id p, [p]) # (i, run) # rest)"

definition get_proofs_per_keyset :: "wallet_proof list \<Rightarrow> (string \<times> wallet_proof list) list" where
  "get_proofs_per_keyset ps = dict_from (filter (\<lambda>(i, _). i \<noteq> []) (id_runs ps))"

primrec per_minturl_loop ::
  "env \<Rightarrow> wallet_db \<Rightarrow> unit_t option \<Rightarrow> wallet_proof list \<Rightarrow> string list \<Rightarrow> (string \<times> wallet_proof list) list \<Rightarrow>
   error + (string \<times> wallet_proof list) list" where
  "per_minturl_loop E d u ps [] ret = Inr ret"
| "per_minturl_loop E d u ps (i # is) ret =
     bindR (wallet_get_keysets (crv E) i None None d) (\<lambda>l.
     case l of
       [] \<Rightarrow> Inl (AssertionError (''keyset '' @ i @ '' not found''))
     | k # _ \<Rightarrow>
         if u \<noteq> None \<and> Some (wk_unit k) \<noteq> u then per_minturl_loop E d u ps is ret
         else bindR (checkR (truthy_str (wk_mint_url k)) (AssertionError [])) (\<lambda>_.
              let url = the (wk_mint_url k); mine = filter (\<lambda>p. p_id p = i) ps
              in per_minturl_loop E d u ps is
                   (AList.update url (case map_of ret url of None \<Rightarrow> mine | Some old \<Rightarrow> old @ mine) ret)))"

definition get_proofs_per_minturl ::
  "env \<Rightarrow> wallet_db \<Rightarrow> wallet_proof list \<Rightarrow> unit_t option \<Rightarrow> error + (string \<times> wallet_proof list) list" where
  "get_proofs_per_minturl E d ps u = per_minturl_loop E d u ps (list_of_set E (List.map p_id ps)) []"

definition get_proofs_per_unit :: "wallet \<Rightarrow> wallet_proof list \<Rightarrow> (unit_t \<times> wallet_proof list) list" where
  "get_proofs_per_unit W ps = foldl (\<lambda>ret p.
     case map_of (w_keysets W) (p_id p) of
       None \<Rightarrow> ret
     | Some k \<Rightarrow> AList.update (wk_unit k) (case map_of ret (wk_unit k) of None \<Rightarrow> [p] | Some l \<Rightarrow> l @ [p]) ret) [] ps"

definition get_proofs_keyset_ids :: "wallet_proof list \<Rightarrow> string list" where
  "get_proofs_keyset_ids ps = List.map p_id ps"

primrec keyset_urls_loop ::
  "env \<Rightarrow> wallet_db \<Rightarrow> string list \<Rightarrow> (string \<times> string list) list \<Rightarrow> error + (string \<times> string list) list" where
  "keyset_urls_loop E d [] urls = Inr urls"
| "keyset_urls_loop E d (i # is) urls =
     bindR (wallet_get_keysets (crv E) i None None d) (\<lambda>l.
     case l of
       [] \<Rightarrow> keyset_urls_loop E d is urls
     | k # _ \<Rightarrow>
         if truthy_str (wk_mint_url k)
         then let url = the (wk_mint_url k)
              in keyset_urls_loop E d is (AList.update url
                   (case map_of urls url of None \<Rightarrow> [i] | Some old \<Rightarrow> if old = [] then [i] else old @ [i]) urls)
         else keyset_urls_loop E d is urls)"

definition get_keyset_urls :: "env \<Rightarrow> wallet_db \<Rightarrow> string list \<Rightarrow> error + (string \<times> string list) list" where
  "get_keyset_urls E d kids = keyset_urls_loop E d (list_of_set E kids) []"

primrec proofs_keysets_loop ::
  "env \<Rightarrow> wallet_db \<Rightarrow> string list \<Rightarrow> (string \<times> wallet_keyset) list \<Rightarrow> error + (string \<times> wallet_keyset) list" where
  "proofs_keysets_loop E d [] ks = Inr ks"
| "proofs_keysets_loop E d (i # is) ks =
     bindR (wallet_get_keysets (crv E) i None None d) (\<lambda>l.
     proofs_keysets_loop E d is (case l of [k] \<Rightarrow> AList.update i k ks | _ \<Rightarrow> ks))"

definition get_proofs_keysets :: "env \<Rightarrow> wallet_db \<Rightarrow> wallet_proof list \<Rightarrow> error + (string \<times> wallet_keyset) list" where
  "get_proofs_keysets E d ps = proofs_keysets_loop E d (get_proofs_keyset_ids ps) []"

definition get_proofs_mint_unit :: "env \<Rightarrow> wallet_db \<Rightarrow> wallet_proof list \<Rightarrow> error + string \<times> unit_t" where
  "get_proofs_mint_unit E d ps =
     bindR (get_proofs_keysets E d ps) (\<lambda>ks.
     case List.map (\<lambda>(_, k). wk_mint_url k) ks of
       [] \<Rightarrow> Inl (PyException ''Proofs from unknown mint or keyset.'')
     | url # urls \<Rightarrow>
         bindR (checkR (\<forall>x\<in>set urls. x = url) (PyException ''Proofs from multiple mints.'')) (\<lambda>_.
         bindR (checkR (truthy_str url) (PyException ''No mint URL found for keyset'')) (\<lambda>_.
         let us = List.map (\<lambda>(_, k). wk_unit k) ks
         in bindR (checkR (length (remdups us) = 1) (PyException ''Proofs from multiple units.'')) (\<lambda>_.
            Inr (the url, hd us)))))"

section \<open>Making tokens\<close>

definition make_tokenv3 :: "env \<Rightarrow> wallet \<Rightarrow> wallet_db \<Rightarrow> wallet_proof list \<Rightarrow> string option \<Rightarrow> error + token_v3" where
  "make_tokenv3 E W d ps memo =
     (let kids = get_proofs_keyset_ids ps;
          ks = dict_from (List.map (\<lambda>(_, k). (wk_id k, k)) (filter (\<lambda>(_, k). wk_id k \<in> set kids) (w_keysets W)))
      in bindR (checkR (ks \<noteq> []) (ValueError ''No keysets found for proofs'')) (\<lambda>_.
         bindR (checkR (length (remdups (List.map (\<lambda>(_, k). wk_unit k) ks)) = 1)
           (AssertionError ''All keysets must have the same unit'')) (\<lambda>_.
         bindR (get_keyset_urls E d (List.map fst ks)) (\<lambda>urls.
         Inr \<lparr>v3_token = List.map (\<lambda>(url, ids). \<lparr>t3_mint = Some url,
                t3_proofs = List.map token_proof.truncate (filter (\<lambda>p. p_id p \<in> set ids) ps)\<rparr>) urls,
              v3_memo = memo, v3_unit = unit_name (wk_unit (snd (hd ks)))\<rparr>))))"

primrec tokenv4_loop :: "keyset_manager \<Rightarrow> wallet_proof list \<Rightarrow> string list \<Rightarrow> error + token_v4_token list" where
  "tokenv4_loop m ps [] = Inr []"
| "tokenv4_loop m ps (i # is) =
     bindR (mapR (\<lambda>p. v4_from_proof (token_proof.truncate p)) (filter (\<lambda>p. p_id p = i) ps)) (\<lambda>qs.
     bindR (get_short_keyset_id m i) (\<lambda>(short_id, m').
     bindR (fromhex short_id) (\<lambda>b.
     bindR (tokenv4_loop m' ps is) (\<lambda>ts. Inr (\<lparr>t4_i = b, t4_p = qs\<rparr> # ts)))))"

definition make_tokenv4 :: "env \<Rightarrow> wallet \<Rightarrow> wallet_proof list \<Rightarrow> string option \<Rightarrow> error + token_v4" where
  "make_tokenv4 E W ps memo =
     (let kids = list_of_set E (get_proofs_keyset_ids ps)
      in bindR (mapR (\<lambda>i. ofOption (ValueError ''Keysets of proofs are not loaded in wallet'') (map_of (w_keysets W) i)) kids) (\<lambda>ks.
         bindR (checkR (length (remdups (List.map wk_mint_url ks)) \<le> 1)
           (ValueError ''TokenV4 can only contain proofs from a single mint URL'')) (\<lambda>_.
         bindR (ofOption IndexError (case ks of [] \<Rightarrow> None | k # _ \<Rightarrow> Some k)) (\<lambda>k.
         bindR (checkR (truthy_str (wk_mint_url k)) (ValueError ''No mint URL found for keyset'')) (\<lambda>_.
         bindR (checkR (length (remdups (List.map wk_unit ks)) \<le> 1)
           (ValueError ''TokenV4 can only contain proofs from keysets with the same unit'')) (\<lambda>_.
         bindR (tokenv4_loop new_manager ps kids) (\<lambda>ts.
         Inr \<lparr>v4_m = the (wk_mint_url k), v4_u = unit_name (wk_unit k), v4_t = ts, v4_d = memo\<rparr>)))))))"

text \<open>A proof of a keyset with a base64 identifier is written in the legacy format.\<close>

definition serialize_proofs ::
  "env \<Rightarrow> cbor2 \<Rightarrow> wallet \<Rightarrow> wallet_db \<Rightarrow> wallet_proof list \<Rightarrow> bool \<Rightarrow> bool \<Rightarrow> string option \<Rightarrow> error + string" where
  "serialize_proofs E L W d ps include_dleq legacy memo =
     (if legacy \<or> (\<exists>p\<in>set ps. from_hex (p_id p) = None)
      then bindR (make_tokenv3 E W d ps memo) (v3_serialize include_dleq)
      else bindR (make_tokenv4 E W ps memo) (\<lambda>t. Inr (v4_serialize L include_dleq t)))"

end
