(* ===== verification/World.thy ===== *)
theory World
  imports WalletTokens
begin

text \<open>
  What the operations of a wallet run in: the wallet's memory, its database, the drawn random numbers, and the mint
  at the other end, whose state has a type of its own (\<open>'m\<close>), as the wallet knows the mint by its answers only.

  \<open>wallet_env\<close> holds the settings of the wallet and the packages it calls (\<^verbatim>\<open>mnemonic\<close>, \<^verbatim>\<open>bip32\<close>, \<^verbatim>\<open>hmac\<close>,
  the signatures of \<^verbatim>\<open>coincurve\<close>); the curve, the clock and the order of sets are those of the environment \<open>wenv\<close>.
\<close>

record wallet_env =
  wenv :: env
  target_amount_count :: int
  use_deprecated_h2c :: bool
  proofs_batch_size :: nat
  wallet_inactivate_base64 :: bool
  mnemo_generate :: "nat \<Rightarrow> string"
  mnemo_check :: "string \<Rightarrow> bool"
  mnemo_to_seed :: "string \<Rightarrow> string"
  bip32_from_seed :: "string \<Rightarrow> error + string"
  bip32_privkey :: "string \<Rightarrow> string \<Rightarrow> error + string"
  hmac_sha256 :: "string \<Rightarrow> string \<Rightarrow> string"
  sign_schnorr :: "int \<Rightarrow> string \<Rightarrow> string"
  draw_bytes :: "nat \<Rightarrow> string"
  draw_key :: "nat \<Rightarrow> int"

record 'm world =
  ww :: wallet
  wdb :: wallet_db
  wdraws :: nat
  wmint :: 'm

type_synonym ('m, 'a) wop = "('m world, error, 'a) sm"

definition get_w :: "(wallet \<Rightarrow> 'a) \<Rightarrow> ('m, 'a) wop" where
  "get_w f = getS (\<lambda>s. f (ww s))"

definition mod_w :: "(wallet \<Rightarrow> wallet) \<Rightarrow> ('m, unit) wop" where
  "mod_w f = modifyS (\<lambda>s. s\<lparr>ww := f (ww s)\<rparr>)"

definition read_db :: "(wallet_db \<Rightarrow> error + 'a) \<Rightarrow> ('m, 'a) wop" where
  "read_db f = liftS (\<lambda>s. f (wdb s))"

definition write_db :: "(wallet_db \<Rightarrow> wallet_db) \<Rightarrow> ('m, unit) wop" where
  "write_db f = modifyS (\<lambda>s. s\<lparr>wdb := f (wdb s)\<rparr>)"

definition exec_db :: "(wallet_db \<Rightarrow> error + wallet_db) \<Rightarrow> ('m, unit) wop" where
  "exec_db f = (\<lambda>s. case f (wdb s) of Inl e \<Rightarrow> (Inl e, s) | Inr d \<Rightarrow> (Inr (), s\<lparr>wdb := d\<rparr>))"

text \<open>\<^verbatim>\<open>async with self.db.connect()\<close> and \<^verbatim>\<open>get_connection()\<close>: an exception rolls the database back.\<close>

definition wtransaction :: "('m, 'a) wop \<Rightarrow> ('m, 'a) wop" where
  "wtransaction m = (\<lambda>s. case m s of (Inl e, t) \<Rightarrow> (Inl e, t\<lparr>wdb := wdb s\<rparr>) | (Inr x, t) \<Rightarrow> (Inr x, t))"

text \<open>The next random number.\<close>

definition draw :: "(nat \<Rightarrow> 'a) \<Rightarrow> ('m, 'a) wop" where
  "draw f = (\<lambda>s. (Inr (f (wdraws s)), s\<lparr>wdraws := Suc (wdraws s)\<rparr>))"

text \<open>A result as an operation.\<close>

definition lift_res :: "error + 'a \<Rightarrow> ('m, 'a) wop" where
  "lift_res r = liftS (\<lambda>_. r)"

lemma world_ops [simp]:
  "get_w f s = (Inr (f (ww s)), s)" "mod_w g s = (Inr (), s\<lparr>ww := g (ww s)\<rparr>)"
  "write_db h s = (Inr (), s\<lparr>wdb := h (wdb s)\<rparr>)" "read_db k s = (k (wdb s), s)"
  "draw d s = (Inr (d (wdraws s)), s\<lparr>wdraws := Suc (wdraws s)\<rparr>)" "lift_res r s = (r, s)"
  by (simp_all add: get_w_def mod_w_def write_db_def read_db_def draw_def lift_res_def)

end
