(* ===== verification/WalletSecrets.thy ===== *)
theory WalletSecrets
  imports World
begin

text \<open>
  The secrets of a wallet (\<^verbatim>\<open>cashu/wallet/secrets.py\<close>): the seed, and the secrets and blinding factors derived
  from it by a counter for each keyset.
\<close>

section \<open>The seed\<close>

text \<open>\<^verbatim>\<open>BIP32.from_seed\<close> and the private key of the wallet.\<close>

definition init_bip32 :: "wallet_env \<Rightarrow> string \<Rightarrow> ('m, unit) wop" where
  "init_bip32 V seed =
     bindS (lift_res (bip32_from_seed V seed)) (\<lambda>b.
     thenS (mod_w (\<lambda>W. W\<lparr>w_bip32 := Some b\<rparr>))
    (bindS (lift_res (bip32_privkey V b (''m/129372'/0'/0'/0'' @ [CHR 0x27]))) (\<lambda>bytes.
     bindS (lift_res (ofOption (ValueError ''Secret scalar is not valid.'') (sc_parse (crv (wenv V)) bytes))) (\<lambda>k.
     mod_w (\<lambda>W. W\<lparr>w_private_key := Some k\<rparr>)))))"

definition init_private_key :: "wallet_env \<Rightarrow> string option \<Rightarrow> ('m, unit) wop" where
  "init_private_key V from_mnemonic =
     bindS (getS (\<lambda>s. get_seed_and_mnemonic (wdb s))) (\<lambda>ret_db.
     bindS (if ret_db = None \<and> from_mnemonic = None then bindS (draw (mnemo_generate V)) (\<lambda>m. returnS (Some m))
            else if truthy_str from_mnemonic then returnS (Some (strip (lower (the from_mnemonic))))
            else returnS (map_option snd ret_db)) (\<lambda>found.
     case found of
       None \<Rightarrow> returnS ()
     | Some mnemonic_str \<Rightarrow>
         thenS (guardS (mnemo_check V mnemonic_str) (ValueError ''Invalid mnemonic''))
        (let seed = mnemo_to_seed V mnemonic_str
         in thenS (mod_w (\<lambda>W. W\<lparr>w_seed := Some seed\<rparr>))
           (thenS (whenS (ret_db = None) (exec_db (store_seed_and_mnemonic (to_hex seed) mnemonic_str)))
                  (catchS (init_bip32 V seed) (\<lambda>e.
                     case e of ValueError _ \<Rightarrow> raiseS (ValueError ''Invalid seed'') | _ \<Rightarrow> returnS ()))))))"

section \<open>Deterministic secrets\<close>

definition int_of_bytes :: "string \<Rightarrow> nat" where
  "int_of_bytes bs = foldl (\<lambda>a c. a * 256 + of_char c) 0 bs"

text \<open>\<^verbatim>\<open>counter.to_bytes(8, byteorder="big", signed=False)\<close>.\<close>

definition to_bytes_8_big :: "int \<Rightarrow> error + string" where
  "to_bytes_8_big n =
     (if 0 \<le> n \<and> n < 2 ^ 64 then Inr (List.map (\<lambda>i. char_of ((nat n div 256 ^ i) mod 256)) (rev [0..<8]))
      else Inl (PyException ''OverflowError''))"

definition keyset_id_int :: "string \<Rightarrow> error + int" where
  "keyset_id_int keyset_id =
     (case from_hex keyset_id of
        Some bs \<Rightarrow> Inr (int (int_of_bytes bs) mod (2 ^ 31 - 1))
      | None \<Rightarrow> bindR (ofOption (ValueError ''Incorrect padding'') (b64_decode keyset_id)) (\<lambda>bs.
          Inr (int (int_of_bytes bs) mod (2 ^ 31 - 1))))"

definition derive_secret_bip32 :: "wallet_env \<Rightarrow> wallet \<Rightarrow> int \<Rightarrow> string \<Rightarrow> error + string \<times> string \<times> string" where
  "derive_secret_bip32 V W counter keyset_id =
     bindR (ofOption (PyException ''AttributeError: bip32'') (w_bip32 W)) (\<lambda>b.
     bindR (keyset_id_int keyset_id) (\<lambda>k.
     let path = ''m/129372'/0'/'' @ str_int k @ [CHR 0x27] @ ''/'' @ str_int counter @ [CHR 0x27]
     in bindR (bip32_privkey V b (path @ ''/0'')) (\<lambda>secret.
        bindR (bip32_privkey V b (path @ ''/1'')) (\<lambda>r. Inr (secret, r, path)))))"

definition derive_secret_hmac_sha256 :: "wallet_env \<Rightarrow> wallet \<Rightarrow> int \<Rightarrow> string \<Rightarrow> error + string \<times> string \<times> string" where
  "derive_secret_hmac_sha256 V W counter keyset_id =
     bindR (ofOption (PyException ''AttributeError: seed'') (w_seed W)) (\<lambda>seed.
     bindR (checkR (seed \<noteq> []) (AssertionError ''Seed not initialized yet.'')) (\<lambda>_.
     bindR (fromhex keyset_id) (\<lambda>keyset_id_bytes.
     bindR (to_bytes_8_big counter) (\<lambda>counter_bytes.
     let base = ''Cashu_KDF_HMAC_SHA256'' @ keyset_id_bytes @ counter_bytes
     in Inr (hmac_sha256 V seed (base @ [CHR 0x00]), hmac_sha256 V seed (base @ [CHR 0x01]),
             ''HMAC-SHA256:'' @ keyset_id @ '':'' @ str_int counter)))))"

definition generate_determinstic_secret ::
  "wallet_env \<Rightarrow> wallet \<Rightarrow> int \<Rightarrow> string option \<Rightarrow> error + string \<times> string \<times> string" where
  "generate_determinstic_secret V W counter kid =
     (let keyset_id = (if truthy_str kid then the kid else w_keyset_id W)
      in bindR (get_keyset_id_version keyset_id) (\<lambda>version.
         if version = ''base64'' \<or> version = ''00'' then derive_secret_bip32 V W counter keyset_id
         else if version = ''01'' then derive_secret_hmac_sha256 V W counter keyset_id
         else Inl (ValueError (''Unsupported keyset version: '' @ version))))"

text \<open>Secrets, blinding factors and derivation paths for a list of counters.\<close>

definition derive_all ::
  "wallet_env \<Rightarrow> wallet \<Rightarrow> string option \<Rightarrow> int list \<Rightarrow> error + string list \<times> int list \<times> string list" where
  "derive_all V W kid counters =
     bindR (mapR (\<lambda>c. generate_determinstic_secret V W c kid) counters) (\<lambda>l.
     bindR (mapR (\<lambda>(_, r, _). ofOption (ValueError ''Secret scalar is not valid.'') (sc_parse (crv (wenv V)) r)) l) (\<lambda>rs.
     Inr (List.map (\<lambda>(s, _, _). to_hex s) l, rs, List.map (\<lambda>(_, _, path). path) l)))"

definition generate_n_secrets :: "wallet_env \<Rightarrow> int \<Rightarrow> bool \<Rightarrow> ('m, string list \<times> int list \<times> string list) wop" where
  "generate_n_secrets V n skip_bump =
     (if n < 1 then returnS ([], [], [])
      else wtransaction (
        bindS (get_w w_keyset_id) (\<lambda>kid.
        bindS (getS (\<lambda>s. fst (bump_secret_derivation kid n skip_bump (wdb s)))) (\<lambda>secret_counters_start.
        thenS (write_db (\<lambda>d. snd (bump_secret_derivation kid n skip_bump d)))
        (liftS (\<lambda>s. derive_all V (ww s) None (List.map (\<lambda>i. secret_counters_start + int i) [0..<nat n])))))))"

definition generate_secrets_from_to ::
  "wallet_env \<Rightarrow> wallet \<Rightarrow> int \<Rightarrow> int \<Rightarrow> string option \<Rightarrow> error + string list \<times> int list \<times> string list" where
  "generate_secrets_from_to V W from_counter to_counter kid =
     bindR (checkR (from_counter \<le> to_counter) (AssertionError ''from_counter must be smaller than to_counter'')) (\<lambda>_.
     derive_all V W kid (List.map (\<lambda>i. from_counter + int i) [0..<nat (to_counter + 1 - from_counter)]))"

section \<open>Other secrets\<close>

definition generate_random_secret :: "wallet_env \<Rightarrow> ('m, string) wop" where
  "generate_random_secret V = bindS (draw (draw_bytes V)) (\<lambda>b. returnS (to_hex (sha256 (crv (wenv V)) b)))"

text \<open>\<^verbatim>\<open>secret_lock.serialize()\<close>: a nonce is drawn when the secret has none.\<close>

definition serialize_lock :: "wallet_env \<Rightarrow> secret \<Rightarrow> ('m, string) wop" where
  "serialize_lock V lock =
     (if truthy_str (s_nonce lock) then returnS (serialize lock [])
      else bindS (draw (draw_key V)) (\<lambda>k. returnS (serialize lock (take 32 (to_hex (sc_bytes (crv (wenv V)) k))))))"

definition generate_locked_secrets ::
  "wallet_env \<Rightarrow> int list \<Rightarrow> int list \<Rightarrow> secret \<Rightarrow> ('m, string list \<times> int list \<times> string list) wop" where
  "generate_locked_secrets V send_outputs keep_outputs secret_lock =
     bindS (mapS (\<lambda>_. serialize_lock V secret_lock) send_outputs) (\<lambda>secret_locks.
     bindS (mapS (\<lambda>_. generate_random_secret V) keep_outputs) (\<lambda>kept.
     let secrets = kept @ secret_locks in returnS (secrets, [], replicate (length secrets) ''custom'')))"

end
