(* ===== verification/WalletLocks.thy ===== *)
theory WalletLocks
  imports WalletSecrets
begin

text \<open>
  The spending conditions that a wallet makes and meets: \<^verbatim>\<open>cashu/wallet/p2pk.py\<close> and \<^verbatim>\<open>cashu/wallet/htlc.py\<close>.

  The code sets the witnesses of the proofs in place and returns them; the functions here return the proofs with
  their witnesses. The texts of witnesses are written by \<^verbatim>\<open>pydantic\<close> without spaces. \<open>now\<close> is
  \<^verbatim>\<open>int((datetime.now() + timedelta(seconds=...)).timestamp())\<close> in seconds.
\<close>

section \<open>Making locks\<close>

definition create_p2pk_pubkey :: "wallet_env \<Rightarrow> wallet \<Rightarrow> error + string" where
  "create_p2pk_pubkey V W =
     bindR (ofOption (PyException ''AttributeError: private_key'') (w_private_key W)) (\<lambda>k.
     Inr (pk_hex (crv (wenv V)) (pt_public (crv (wenv V)) k)))"

definition create_p2pk_lock :: "wallet_env \<Rightarrow> string \<Rightarrow> int option \<Rightarrow> tags option \<Rightarrow> bool \<Rightarrow> int \<Rightarrow> secret" where
  "create_p2pk_lock V data locktime_seconds tags sig_all n =
     (let t0 = (case tags of None \<Rightarrow> [] | Some t \<Rightarrow> t);
          t1 = (if truthy_int locktime_seconds then set_tag t0 ''locktime'' (str_int (now_s (wenv V) + the locktime_seconds)) else t0);
          t2 = set_tag t1 ''sigflag'' (if sig_all then ''SIG_ALL'' else ''SIG_INPUTS'');
          t3 = (if n > 1 then set_tag t2 ''n_sigs'' (str_int n) else t2)
      in \<lparr>s_kind = ''P2PK'', s_data = data, s_tags = t3, s_nonce = None\<rparr>)"

text \<open>An optional list that Python takes for true.\<close>

definition truthy_list :: "'a list option \<Rightarrow> bool" where
  "truthy_list x = (case x of None \<Rightarrow> False | Some l \<Rightarrow> l \<noteq> [])"

definition create_htlc_lock ::
  "wallet_env \<Rightarrow> string option \<Rightarrow> string option \<Rightarrow> string list option \<Rightarrow> int option \<Rightarrow> int option \<Rightarrow> string list option \<Rightarrow>
   int option \<Rightarrow> error + secret" where
  "create_htlc_lock V preimage preimage_hash hashlock_pubkeys hashlock_n_sigs locktime_seconds locktime_pubkeys locktime_n_sigs =
     (let t1 = (if truthy_int locktime_seconds then set_tag [] ''locktime'' (str_int (now_s (wenv V) + the locktime_seconds)) else []);
          t2 = (if truthy_list locktime_pubkeys then set_tag_list t1 ''refund'' (the locktime_pubkeys) else t1);
          t3 = (if truthy_int locktime_n_sigs then set_tag t2 ''n_sigs_refund'' (str_int (the locktime_n_sigs)) else t2)
      in bindR (if \<not> truthy_str preimage_hash \<and> truthy_str preimage
                then bindR (fromhex (the preimage)) (\<lambda>b. Inr (Some (to_hex (sha256 (crv (wenv V)) b))))
                else Inr preimage_hash) (\<lambda>hash.
         bindR (checkR (truthy_str hash) (AssertionError ''preimage_hash or preimage must be provided'')) (\<lambda>_.
         let t4 = (if truthy_list hashlock_pubkeys then set_tag_list t3 ''pubkeys'' (the hashlock_pubkeys) else t3);
             t5 = (if truthy_int hashlock_n_sigs then set_tag t4 ''n_sigs'' (str_int (the hashlock_n_sigs)) else t4)
         in Inr \<lparr>s_kind = ''HTLC'', s_data = the hash, s_tags = t5, s_nonce = None\<rparr>)))"

section \<open>Witnesses\<close>

definition opt_json :: "('a \<Rightarrow> json) \<Rightarrow> 'a option \<Rightarrow> json" where
  "opt_json f x = (case x of None \<Rightarrow> JNull | Some v \<Rightarrow> f v)"

definition strs_json :: "string list \<Rightarrow> json" where
  "strs_json l = JList (List.map JStr l)"

definition p2pk_witness_json :: "string list \<Rightarrow> string" where
  "p2pk_witness_json sigs = dumps_sep '','' '':'' (JObj [(''signatures'', strs_json sigs)])"

definition htlc_witness_json :: "string option \<Rightarrow> string list option \<Rightarrow> string" where
  "htlc_witness_json preimage sigs =
     dumps_sep '','' '':'' (JObj [(''preimage'', opt_json JStr preimage), (''signatures'', opt_json strs_json sigs)])"

definition add_htlc_preimage_to_proofs :: "'a token_proof_scheme list \<Rightarrow> string \<Rightarrow> 'a token_proof_scheme list" where
  "add_htlc_preimage_to_proofs ps preimage = List.map (\<lambda>p. p\<lparr>p_witness := Some (htlc_witness_json (Some preimage) None)\<rparr>) ps"

section \<open>Signing\<close>

definition need_key :: "wallet \<Rightarrow> error + int" where
  "need_key W = ofOption (PyException ''AttributeError: private_key'') (w_private_key W)"

definition schnorr_sign :: "wallet_env \<Rightarrow> int \<Rightarrow> string \<Rightarrow> string" where
  "schnorr_sign V k message = sign_schnorr V k (sha256 (crv (wenv V)) message)"

definition schnorr_sign_message :: "wallet_env \<Rightarrow> wallet \<Rightarrow> string \<Rightarrow> error + string" where
  "schnorr_sign_message V W message = bindR (need_key W) (\<lambda>k. Inr (to_hex (schnorr_sign V k (encode_utf8 message))))"

definition signatures_proofs_sig_inputs :: "wallet_env \<Rightarrow> wallet \<Rightarrow> 'a token_proof_scheme list \<Rightarrow> error + string list" where
  "signatures_proofs_sig_inputs V W ps =
     bindR (need_key W) (\<lambda>k. Inr (List.map (\<lambda>p. to_hex (schnorr_sign V k (encode_utf8 (p_secret p)))) ps))"

text \<open>One step of \<^verbatim>\<open>add_signatures_to_proofs\<close>: the new witness of a proof, if it changes.\<close>

definition add_p2pk_signature :: "string option \<Rightarrow> string \<Rightarrow> error + string option" where
  "add_p2pk_signature w sig =
     bindR (if truthy_str w then p2pk_witness_signatures (the w) else Inr []) (\<lambda>sigs.
     Inr (if sigs = [] then Some (p2pk_witness_json [sig])
          else if lower sig \<in> set (List.map lower sigs) then w
          else Some (p2pk_witness_json (sigs @ [sig]))))"

definition add_htlc_signature :: "string option \<Rightarrow> string \<Rightarrow> error + string option" where
  "add_htlc_signature w sig =
     (if truthy_str w then
        bindR (htlc_witness (the w)) (\<lambda>(preimage, sigs).
        Inr (if \<not> truthy_list sigs then Some (htlc_witness_json preimage (Some [sig]))
             else if lower sig \<in> set (List.map lower (the sigs)) then w
             else Some (htlc_witness_json preimage (Some (the sigs @ [sig])))))
      else Inr (Some (htlc_witness_json None (Some [sig]))))"

definition add_signature :: "'a token_proof_scheme \<Rightarrow> string \<Rightarrow> error + 'a token_proof_scheme" where
  "add_signature p sig =
     bindR (deserialize (p_secret p)) (\<lambda>s.
     bindR (if s_kind s = ''P2PK'' then add_p2pk_signature (p_witness p) sig
            else if s_kind s = ''HTLC'' then add_htlc_signature (p_witness p) sig
            else Inl (PyException ''Secret kind not supported'')) (\<lambda>w.
     Inr (p\<lparr>p_witness := w\<rparr>)))"

definition add_signatures_to_proofs :: "'a token_proof_scheme list \<Rightarrow> string list \<Rightarrow> error + 'a token_proof_scheme list" where
  "add_signatures_to_proofs ps sigs =
     bindR (checkR (length ps = length sigs) (AssertionError ''wrong number of signatures'')) (\<lambda>_.
     mapR (\<lambda>(p, s). add_signature p s) (zip ps sigs))"

definition lock_pubkeys :: "secret \<Rightarrow> error + string list" where
  "lock_pubkeys s =
     bindR (get_tag_all (s_tags s) ''pubkeys'') (\<lambda>pubkeys.
     bindR (get_tag_all (s_tags s) ''refund'') (\<lambda>refund. Inr (s_data s # pubkeys @ refund)))"

text \<open>A filter whose condition may raise.\<close>

primrec filterR :: "('a \<Rightarrow> error + bool) \<Rightarrow> 'a list \<Rightarrow> error + 'a list" where
  "filterR f [] = Inr []"
| "filterR f (x # xs) = bindR (f x) (\<lambda>b. bindR (filterR f xs) (\<lambda>ys. Inr (if b then x # ys else ys)))"

definition filter_proofs_locked_to_our_pubkey ::
  "wallet_env \<Rightarrow> wallet \<Rightarrow> 'a token_proof_scheme list \<Rightarrow> error + 'a token_proof_scheme list" where
  "filter_proofs_locked_to_our_pubkey V W ps =
     bindR (need_key W) (\<lambda>k.
     let our_pubkey = lower (pk_hex (crv (wenv V)) (pt_public (crv (wenv V)) k))
     in filterR (\<lambda>p. bindR (deserialize (p_secret p)) (\<lambda>s. bindR (lock_pubkeys s) (\<lambda>pks.
          Inr (our_pubkey \<in> set (List.map lower pks))))) ps)"

text \<open>The proofs that need a signature; a secret that is no spending condition is passed over.\<close>

definition needs_signature :: "string \<Rightarrow> bool" where
  "needs_signature sec =
     (case deserialize sec of
        Inl _ \<Rightarrow> False
      | Inr s \<Rightarrow>
          if s_kind s = ''P2PK'' then True
          else s_kind s = ''HTLC'' \<and>
            (case get_tag (s_tags s) ''pubkeys'' of
               Inl _ \<Rightarrow> False
             | Inr t \<Rightarrow> truthy_str t \<or>
                 (case get_tag (s_tags s) ''refund'' of Inl _ \<Rightarrow> False | Inr u \<Rightarrow> truthy_str u)))"

definition sign_p2pk_sig_inputs ::
  "wallet_env \<Rightarrow> wallet \<Rightarrow> 'a token_proof_scheme list \<Rightarrow> error + 'a token_proof_scheme list" where
  "sign_p2pk_sig_inputs V W ps =
     (let p2pk_proofs = filter (\<lambda>p. needs_signature (p_secret p)) ps
      in if p2pk_proofs = [] then Inr []
         else bindR (filterR (\<lambda>p. bindR (deserialize (p_secret p)) (\<lambda>s. bindR (sigflag s) (\<lambda>f. Inr (f = SIG_INPUTS)))) p2pk_proofs)
           (\<lambda>sig_inputs_proofs.
            if sig_inputs_proofs = [] then Inr []
            else bindR (filter_proofs_locked_to_our_pubkey V W sig_inputs_proofs) (\<lambda>ours.
                 bindR (signatures_proofs_sig_inputs V W ours) (\<lambda>sigs.
                 add_signatures_to_proofs ours sigs))))"

definition add_witnesses_sig_inputs ::
  "wallet_env \<Rightarrow> wallet \<Rightarrow> 'a token_proof_scheme list \<Rightarrow> error + 'a token_proof_scheme list" where
  "add_witnesses_sig_inputs V W ps =
     bindR (sign_p2pk_sig_inputs V W ps) (\<lambda>signed.
     Inr (List.map (\<lambda>p. case List.find (\<lambda>q. p_secret q = p_secret p) signed of None \<Rightarrow> p | Some q \<Rightarrow> q) ps))"

section \<open>Signatures over inputs and outputs\<close>

definition wallet_requires_sigall :: "string \<Rightarrow> bool" where
  "wallet_requires_sigall sec =
     (case deserialize sec of
        Inl _ \<Rightarrow> False
      | Inr s \<Rightarrow> bindR (p2pk_from_secret s) sigflag = Inr SIG_ALL \<or> bindR (htlc_from_secret s) sigflag = Inr SIG_ALL)"

definition wallet_inputs_require_sigall :: "'a token_proof_scheme list \<Rightarrow> bool" where
  "wallet_inputs_require_sigall ps = (\<exists>p\<in>set ps. wallet_requires_sigall (p_secret p))"

definition sigall_text :: "'a token_proof_scheme list \<Rightarrow> blinded_message list \<Rightarrow> string" where
  "sigall_text ps outs = concat (List.map p_secret ps @ List.map bm_B outs)"

text \<open>The witness of the first proof; whatever fails on the way, the proofs are returned as they were.\<close>

definition sign_first ::
  "wallet_env \<Rightarrow> wallet \<Rightarrow> 'a token_proof_scheme list \<Rightarrow> string \<Rightarrow> error + 'a token_proof_scheme list" where
  "sign_first V W ps message =
     bindR (filter_proofs_locked_to_our_pubkey V W ps) (\<lambda>ours.
     bindR (checkR (length ours = length ps) (PyException ''Proofs not locked to our pubkey'')) (\<lambda>_.
     bindR (mapR (\<lambda>p. deserialize (p_secret p)) ps) (\<lambda>secs.
     bindR (checkR (secs \<noteq> [] \<and> (\<forall>s\<in>set secs. secret_eq s (hd secs))) (PyException ''Secrets not identical'')) (\<lambda>_.
     bindR (schnorr_sign_message V W message) (\<lambda>sig.
     bindR (add_signature (hd ps) sig) (\<lambda>q. Inr (q # tl ps)))))))"

definition add_witness_swap_sig_all ::
  "wallet_env \<Rightarrow> wallet \<Rightarrow> 'a token_proof_scheme list \<Rightarrow> blinded_message list \<Rightarrow> string option \<Rightarrow> 'a token_proof_scheme list" where
  "add_witness_swap_sig_all V W ps outs message =
     (if wallet_inputs_require_sigall ps
      then (case sign_first V W ps (if truthy_str message then the message else sigall_text ps outs) of
              Inl _ \<Rightarrow> ps | Inr qs \<Rightarrow> qs)
      else ps)"

definition sign_proofs_inplace_swap ::
  "wallet_env \<Rightarrow> wallet \<Rightarrow> 'a token_proof_scheme list \<Rightarrow> blinded_message list \<Rightarrow> error + 'a token_proof_scheme list" where
  "sign_proofs_inplace_swap V W ps outs =
     bindR (add_witnesses_sig_inputs V W ps) (\<lambda>qs. Inr (add_witness_swap_sig_all V W qs outs None))"

definition sign_proofs_inplace_melt ::
  "wallet_env \<Rightarrow> wallet \<Rightarrow> 'a token_proof_scheme list \<Rightarrow> blinded_message list \<Rightarrow> string \<Rightarrow> error + 'a token_proof_scheme list" where
  "sign_proofs_inplace_melt V W ps outs quote_id =
     bindR (add_witnesses_sig_inputs V W ps) (\<lambda>qs.
     Inr (add_witness_swap_sig_all V W qs outs (Some (sigall_text qs outs @ quote_id))))"

end
