(* ===== verification/WalletApi.thy ===== *)
theory WalletApi
  imports WalletLocks Keysets
begin

text \<open>
  The requests of a wallet to the mint (\<^verbatim>\<open>LedgerAPI\<close> in \<^verbatim>\<open>cashu/wallet/v1_api.py\<close>), the keysets that a wallet
  loads from it, and the helpers of \<^verbatim>\<open>cashu/wallet/wallet.py\<close> that all operations share.

  The mint behind the network is a record \<open>mint_api\<close>: for each endpoint, what it answers and the state it is then in.
  An answer is the decoded response; a response that is an error, is not JSON, or does not have the expected form is
  an exception. The HTTP client, Tor and the tokens for authentication are not modelled. The information on the mint is
  kept as its text.
\<close>

section \<open>The mint\<close>

record keysets_entry =
  ke_id :: string
  ke_unit_name :: string
  ke_active :: bool
  ke_input_fee :: "int option"

record mint_quote_response =
  qr_quote :: string
  qr_request :: string
  qr_amount :: "int option"
  qr_unit :: "string option"
  qr_state :: "string option"
  qr_expiry :: "int option"
  qr_pubkey :: "string option"

type_synonym ('m, 'a) api = "('m, error, 'a) sm"

record 'm mint_api =
  http_keys :: "('m, (string \<times> string \<times> (int \<times> string) list) list) api"
  http_keyset :: "string \<Rightarrow> ('m, (string \<times> string \<times> (int \<times> string) list) list) api"
  http_keysets :: "('m, keysets_entry list) api"
  http_info :: "('m, string) api"
  http_mint_quote :: "mint_quote_request \<Rightarrow> ('m, mint_quote_response) api"
  http_get_mint_quote :: "string \<Rightarrow> ('m, mint_quote_response) api"
  http_mint :: "blinded_message list \<Rightarrow> string \<Rightarrow> string option \<Rightarrow> ('m, blinded_signature list) api"
  http_melt_quote :: "melt_quote_request \<Rightarrow> ('m, melt_response) api"
  http_get_melt_quote :: "string \<Rightarrow> ('m, melt_response) api"
  http_melt :: "string \<Rightarrow> token_proof list \<Rightarrow> blinded_message list option \<Rightarrow> ('m, melt_response) api"
  http_swap :: "token_proof list \<Rightarrow> blinded_message list \<Rightarrow> ('m, blinded_signature list) api"
  http_checkstate :: "string list \<Rightarrow> ('m, proof_state list) api"
  http_restore :: "blinded_message list \<Rightarrow> ('m, blinded_message list \<times> blinded_signature list) api"

definition call_mint :: "('m, 'a) api \<Rightarrow> ('m, 'a) wop" where
  "call_mint f = (\<lambda>s. case f (wmint s) of (r, m) \<Rightarrow> (r, s\<lparr>wmint := m\<rparr>))"

lemma call_mint_apply: "call_mint f s = (fst (f (wmint s)), s\<lparr>wmint := snd (f (wmint s))\<rparr>)"
  by (simp add: call_mint_def split: prod.splits)

section \<open>Keysets\<close>

text \<open>The keys of one keyset in the answer: \<^verbatim>\<open>PublicKey(bytes.fromhex(val))\<close> for each.\<close>

definition parse_keys :: "curve \<Rightarrow> (int \<times> string) list \<Rightarrow> error + (int \<times> point) list" where
  "parse_keys C kvs = bindR (mapR (\<lambda>(a, h). bindR (pk_from_hex C h) (\<lambda>p. Inr (a, p))) kvs) (\<lambda>l. Inr (dict_from l))"

definition api_get_keys :: "wallet_env \<Rightarrow> 'm mint_api \<Rightarrow> ('m, wallet_keyset list) wop" where
  "api_get_keys V A =
     bindS (get_w w_url) (\<lambda>url.
     bindS (call_mint (http_keys A)) (\<lambda>l.
     lift_res (mapR (\<lambda>(i, u, kvs). bindR (parse_keys (crv (wenv V)) kvs) (\<lambda>keys.
       init_wallet_keyset (crv (wenv V)) keys u (Some i) (Some url) True 0)) l)))"

definition urlsafe_id :: "string \<Rightarrow> string" where
  "urlsafe_id i = List.map (\<lambda>c. if c = CHR ''+'' then CHR ''-'' else if c = CHR ''/'' then CHR ''_'' else c) i"

definition api_get_keyset :: "wallet_env \<Rightarrow> 'm mint_api \<Rightarrow> string \<Rightarrow> ('m, wallet_keyset) wop" where
  "api_get_keyset V A keyset_id =
     bindS (get_w w_url) (\<lambda>url.
     bindS (call_mint (http_keyset A (urlsafe_id keyset_id))) (\<lambda>l.
     case l of
       [] \<Rightarrow> raiseS IndexError
     | (i, u, kvs) # _ \<Rightarrow> lift_res (bindR (parse_keys (crv (wenv V)) kvs) (\<lambda>keys.
         init_wallet_keyset (crv (wenv V)) keys u (Some keyset_id) (Some url) True 0))))"

definition api_get_keysets :: "'m mint_api \<Rightarrow> ('m, keysets_entry list) wop" where
  "api_get_keysets A =
     bindS (call_mint (http_keysets A)) (\<lambda>l. thenS (guardS (l \<noteq> []) (PyException ''did not receive any keysets'')) (returnS l))"

text \<open>\<^verbatim>\<open>load_keysets_from_db\<close>; an empty text stands for the wallet's own address or unit.\<close>

definition load_keysets_from_db :: "wallet_env \<Rightarrow> string option \<Rightarrow> string option \<Rightarrow> ('m, unit) wop" where
  "load_keysets_from_db V url unit =
     bindS (get_w (\<lambda>W. (if url = Some [] then Some (w_url W) else url, if unit = Some [] then Some (unit_name (w_unit W)) else unit)))
       (\<lambda>(url', unit').
     bindS (read_db (wallet_get_keysets (crv (wenv V)) [] url' unit')) (\<lambda>l.
     mod_w (\<lambda>W. W\<lparr>w_keysets := foldl (\<lambda>ks k. AList.update (wk_id k) k ks) (w_keysets W) l\<rparr>)))"

text \<open>\<^verbatim>\<open>WalletCompat.inactivate_base64_keysets\<close>: one keyset of the list read from the database.\<close>

definition wallet_inactivate_one :: "wallet_env \<Rightarrow> string list \<Rightarrow> wallet_keyset \<Rightarrow> ('m, unit) wop" where
  "wallet_inactivate_one V ids k =
     (if \<not> wk_active k then returnS ()
      else if is_int16 (wk_id k) then returnS ()
      else if b64_decode (wk_id k) = None then returnS ()
      else if derive_keyset_id (crv (wenv V)) (wk_public_keys k) \<notin> set ids then returnS ()
      else write_db (wallet_update_keyset (k\<lparr>wk_active := False\<rparr>)))"

definition wallet_inactivate_base64_keysets :: "wallet_env \<Rightarrow> bool \<Rightarrow> ('m, unit) wop" where
  "wallet_inactivate_base64_keysets V force_old_keysets =
     (if wallet_inactivate_base64 V \<and> \<not> force_old_keysets
      then bindS (get_w w_url) (\<lambda>url.
           bindS (read_db (wallet_get_keysets (crv (wenv V)) [] (Some url) None)) (\<lambda>l.
           forS l (wallet_inactivate_one V (List.map wk_id l))))
      else returnS ())"

definition store_first_keyset :: "wallet_env \<Rightarrow> (string \<times> keysets_entry) list \<Rightarrow> wallet_keyset \<Rightarrow> ('m, unit) wop" where
  "store_first_keyset V entries k =
     bindS (lift_res (ofOption (KeyError (wk_id k)) (map_of entries (wk_id k)))) (\<lambda>e.
     exec_db (wallet_store_keyset (crv (wenv V)) (k\<lparr>wk_active := ke_active e, wk_input_fee_ppk := or_zero (ke_input_fee e)\<rparr>) []))"

definition store_new_keyset :: "wallet_env \<Rightarrow> 'm mint_api \<Rightarrow> string list \<Rightarrow> keysets_entry \<Rightarrow> ('m, unit) wop" where
  "store_new_keyset V A known e =
     (if ke_id e \<in> set known then returnS ()
      else bindS (api_get_keyset V A (ke_id e)) (\<lambda>k.
           exec_db (wallet_store_keyset (crv (wenv V)) (k\<lparr>wk_active := ke_active e, wk_input_fee_ppk := or_zero (ke_input_fee e)\<rparr>) [])))"

text \<open>An active flag that was taken away, or a fee that changed, is written to the database.\<close>

definition refresh_keyset :: "(string \<times> wallet_keyset) list \<Rightarrow> keysets_entry \<Rightarrow> ('m, unit) wop" where
  "refresh_keyset known e =
     (case map_of known (ke_id e) of
        None \<Rightarrow> returnS ()
      | Some k \<Rightarrow>
          let k1 = (if \<not> ke_active e \<and> wk_active k then k\<lparr>wk_active := False\<rparr> else k);
              k2 = (if truthy_int (ke_input_fee e) \<and> ke_input_fee e \<noteq> Some (wk_input_fee_ppk k1)
                    then k1\<lparr>wk_input_fee_ppk := the (ke_input_fee e)\<rparr> else k1)
          in whenS (k2 \<noteq> k) (write_db (wallet_update_keyset k2)))"

definition load_mint_keysets :: "wallet_env \<Rightarrow> 'm mint_api \<Rightarrow> bool \<Rightarrow> ('m, unit) wop" where
  "load_mint_keysets V A force_old_keysets =
     bindS (api_get_keysets A) (\<lambda>resp.
     let entries = dict_from (List.map (\<lambda>e. (ke_id e, e)) resp)
     in bindS (get_w w_url) (\<lambda>url.
        bindS (read_db (wallet_get_keysets (crv (wenv V)) [] (Some url) None)) (\<lambda>keysets_in_db.
        thenS (whenS (keysets_in_db = []) (bindS (api_get_keys V A) (\<lambda>l. forS l (store_first_keyset V entries))))
       (bindS (read_db (wallet_get_keysets (crv (wenv V)) [] (Some url) None)) (\<lambda>now_in_db.
        let known = dict_from (List.map (\<lambda>k. (wk_id k, k)) now_in_db)
        in thenS (forS (List.map snd entries) (store_new_keyset V A (List.map fst known)))
          (thenS (forS (List.map snd entries) (refresh_keyset known))
          (thenS (wallet_inactivate_base64_keysets V force_old_keysets)
                 (load_keysets_from_db V (Some []) (Some [])))))))))"

definition wallet_activate_keyset :: "wallet_env \<Rightarrow> 'm mint_api \<Rightarrow> string option \<Rightarrow> ('m, unit) wop" where
  "wallet_activate_keyset V A kid =
     (if truthy_str kid then
        let keyset_id = the kid in
        bindS (get_w (\<lambda>W. map_of (w_keysets W) keyset_id)) (\<lambda>here.
        thenS (whenS (here = None) (load_mint_keysets V A False))
       (bindS (get_w (\<lambda>W. map_of (w_keysets W) keyset_id)) (\<lambda>found.
        bindS (lift_res (ofOption (KeysetNotFoundError (Some keyset_id)) found)) (\<lambda>k.
        bindS (get_w w_unit) (\<lambda>u.
        thenS (guardS (wk_unit k = u) (PyException (''Keyset '' @ keyset_id @ '' has unit '' @ unit_name (wk_unit k) @
                 '', but wallet has unit '' @ unit_name u @ ''.'')))
       (thenS (guardS (wk_active k) (PyException (''Keyset '' @ keyset_id @ '' is not active.'')))
              (mod_w (\<lambda>W. W\<lparr>w_keyset_id := keyset_id\<rparr>))))))))
      else
        bindS (get_w (\<lambda>W. (w_unit W, List.find (\<lambda>(_, k). wk_unit k = w_unit W \<and> wk_active k) (w_keysets W)))) (\<lambda>(u, chosen).
        bindS (lift_res (ofOption (PyException (''No active keyset found for unit '' @ unit_name u @ ''.'')) chosen)) (\<lambda>(_, k).
        mod_w (\<lambda>W. W\<lparr>w_keyset_id := wk_id k\<rparr>))))"

text \<open>\<^verbatim>\<open>load_mint_info\<close>.\<close>

definition store_info :: "string \<Rightarrow> string \<Rightarrow> wallet_db \<Rightarrow> wallet_db" where
  "store_info url info = store_mint \<lparr>wm_url = url, wm_info = info, wm_access_token = None, wm_refresh_token = None,
     wm_username = None, wm_password = None\<rparr>"

definition set_info :: "'m mint_api \<Rightarrow> ('m, unit) wop" where
  "set_info A = bindS (call_mint (http_info A)) (\<lambda>i. mod_w (\<lambda>W. W\<lparr>w_mint_info := Some i\<rparr>))"

definition load_mint_info :: "'m mint_api \<Rightarrow> bool \<Rightarrow> bool \<Rightarrow> ('m, unit) wop" where
  "load_mint_info A reload offline =
     thenS (whenS reload (thenS (guardS (\<not> offline) (PyException ''Cannot reload mint info offline.'')) (set_info A)))
    (bindS (get_w w_url) (\<lambda>url.
     bindS (getS (\<lambda>s. get_mint_by_url url (wdb s))) (\<lambda>stored.
     bindS (get_w w_mint_info) (\<lambda>info.
     case stored of
       None \<Rightarrow>
         if info = None \<and> offline then returnS ()
         else thenS (case info of None \<Rightarrow> returnS () | Some i \<Rightarrow> write_db (store_info url i))
             (thenS (set_info A)
             (bindS (get_w w_mint_info) (\<lambda>new. write_db (store_info url (the new)))))
     | Some m \<Rightarrow>
         (case info of
            Some i \<Rightarrow>
              if i \<noteq> wm_info m
              then write_db (update_mint \<lparr>wm_url = url, wm_info = i, wm_access_token = None, wm_refresh_token = None,
                     wm_username = None, wm_password = None\<rparr>)
              else mod_w (\<lambda>W. W\<lparr>w_mint_info := Some (wm_info m)\<rparr>)
          | None \<Rightarrow> mod_w (\<lambda>W. W\<lparr>w_mint_info := Some (wm_info m)\<rparr>))))))"

text \<open>\<^verbatim>\<open>load_mint\<close>; whatever fails is logged and forgotten.\<close>

definition load_mint :: "wallet_env \<Rightarrow> 'm mint_api \<Rightarrow> string \<Rightarrow> bool \<Rightarrow> ('m, unit) wop" where
  "load_mint V A keyset_id force_old_keysets =
     catchS (thenS (load_mint_keysets V A force_old_keysets)
            (thenS (wallet_activate_keyset V A (Some keyset_id)) (load_mint_info A True False)))
       (\<lambda>e. returnS ())"

section \<open>Requests\<close>

text \<open>\<^verbatim>\<open>async_ensure_mint_loaded\<close>.\<close>

definition ensure_mint_loaded :: "wallet_env \<Rightarrow> 'm mint_api \<Rightarrow> ('m, 'a) wop \<Rightarrow> ('m, 'a) wop" where
  "ensure_mint_loaded V A m =
     bindS (get_w w_keysets) (\<lambda>ks. thenS (whenS (ks = []) (load_mint V A [] False)) m)"

definition api_mint_quote :: "wallet_env \<Rightarrow> 'm mint_api \<Rightarrow> int \<Rightarrow> unit_t \<Rightarrow> string option \<Rightarrow> string option \<Rightarrow> ('m, mint_quote_response) wop" where
  "api_mint_quote V A amount u memo pubkey = ensure_mint_loaded V A (call_mint (http_mint_quote A
     \<lparr>mreq_unit = unit_name u, mreq_amount = amount, mreq_description = memo, mreq_pubkey = pubkey\<rparr>))"

definition api_get_mint_quote :: "wallet_env \<Rightarrow> 'm mint_api \<Rightarrow> string \<Rightarrow> ('m, mint_quote_response) wop" where
  "api_get_mint_quote V A quote = ensure_mint_loaded V A (call_mint (http_get_mint_quote A quote))"

text \<open>Only the fields \<^verbatim>\<open>id\<close>, \<^verbatim>\<open>amount\<close> and \<^verbatim>\<open>B_\<close> of an output are sent.\<close>

definition sent_output :: "blinded_message \<Rightarrow> blinded_message" where
  "sent_output x = x\<lparr>bm_C := None\<rparr>"

definition api_mint :: "wallet_env \<Rightarrow> 'm mint_api \<Rightarrow> blinded_message list \<Rightarrow> string \<Rightarrow> string option \<Rightarrow> ('m, blinded_signature list) wop" where
  "api_mint V A outs quote signature = ensure_mint_loaded V A (call_mint
     (http_mint A (List.map sent_output outs) quote (or_none signature)))"

definition api_melt_quote :: "wallet_env \<Rightarrow> 'm mint_api \<Rightarrow> string \<Rightarrow> unit_t \<Rightarrow> int option \<Rightarrow> ('m, melt_response) wop" where
  "api_melt_quote V A payment_request u amount_msat = ensure_mint_loaded V A (
     bindS (lift_res (bolt11_decode (wenv V) payment_request)) (\<lambda>invoice.
     thenS (guardS (truthy_int (bi_amount_msat invoice)) (AssertionError ''invoice must have amount''))
           (call_mint (http_melt_quote A
             \<lparr>lr_unit = unit_name u, lr_request = payment_request,
              lr_mpp = (if truthy_int amount_msat then amount_msat else None)\<rparr>))))"

definition api_get_melt_quote :: "wallet_env \<Rightarrow> 'm mint_api \<Rightarrow> string \<Rightarrow> ('m, melt_response) wop" where
  "api_get_melt_quote V A quote = ensure_mint_loaded V A (call_mint (http_get_melt_quote A quote))"

text \<open>Of a proof, \<^verbatim>\<open>id\<close>, \<^verbatim>\<open>amount\<close>, \<^verbatim>\<open>secret\<close>, \<^verbatim>\<open>C\<close> and \<^verbatim>\<open>witness\<close> are sent; the mint computes \<^verbatim>\<open>Y\<close> itself.\<close>

definition sent_proof :: "wallet_proof \<Rightarrow> token_proof" where
  "sent_proof p = (token_proof.truncate p)\<lparr>p_dleq := None\<rparr>"

definition api_melt :: "wallet_env \<Rightarrow> 'm mint_api \<Rightarrow> string \<Rightarrow> wallet_proof list \<Rightarrow> blinded_message list \<Rightarrow> ('m, melt_response) wop" where
  "api_melt V A quote ps outs = ensure_mint_loaded V A (call_mint
     (http_melt A quote (List.map sent_proof ps) (Some (List.map sent_output outs))))"

definition api_split :: "wallet_env \<Rightarrow> 'm mint_api \<Rightarrow> wallet_proof list \<Rightarrow> blinded_message list \<Rightarrow> ('m, blinded_signature list) wop" where
  "api_split V A ps outs = ensure_mint_loaded V A (
     bindS (call_mint (http_swap A (List.map sent_proof ps) outs)) (\<lambda>promises.
     thenS (guardS (promises \<noteq> []) (PyException ''received no splits.'')) (returnS promises)))"

definition api_check_proof_state :: "wallet_env \<Rightarrow> 'm mint_api \<Rightarrow> wallet_proof list \<Rightarrow> ('m, proof_state list) wop" where
  "api_check_proof_state V A ps = ensure_mint_loaded V A (call_mint (http_checkstate A (List.map p_Y ps)))"

definition api_restore_promises ::
  "wallet_env \<Rightarrow> 'm mint_api \<Rightarrow> blinded_message list \<Rightarrow> ('m, blinded_message list \<times> blinded_signature list) wop" where
  "api_restore_promises V A outs = ensure_mint_loaded V A (call_mint (http_restore A outs))"

end
