(* ===== verification/Wallet.thy ===== *)
theory Wallet
  imports WalletApi "HOL-Library.List_Lexorder"
begin

text \<open>
  The operations of the class \<^verbatim>\<open>Wallet\<close> (\<^verbatim>\<open>cashu/wallet/wallet.py\<close>): minting, swapping, melting, receiving change,
  selecting and reserving proofs, restoring from a seed.

  Proofs are objects that the wallet's list \<^verbatim>\<open>self.proofs\<close> and the caller's lists share: where the code sets an
  attribute of a proof, \<open>mark_shared\<close> sets it in the wallet's list too, on the proofs with the same secret. Operations
  are run to their end; two operations of one wallet that interleave at a request are not modelled.
\<close>

section \<open>Proofs in memory\<close>

definition mark_shared :: "wallet_proof list \<Rightarrow> (wallet_proof \<Rightarrow> wallet_proof) \<Rightarrow> ('m, unit) wop" where
  "mark_shared ps f = mod_w (\<lambda>W. W\<lparr>w_proofs :=
     List.map (\<lambda>p. if p_secret p \<in> set (List.map p_secret ps) then f p else p) (w_proofs W)\<rparr>)"

definition share_witnesses :: "wallet_proof list \<Rightarrow> ('m, unit) wop" where
  "share_witnesses ps = mark_shared ps (\<lambda>p. case List.find (\<lambda>q. p_secret q = p_secret p) ps of
     None \<Rightarrow> p | Some q \<Rightarrow> p\<lparr>p_witness := p_witness q\<rparr>)"

definition is_active_proof :: "wallet \<Rightarrow> wallet_proof \<Rightarrow> bool" where
  "is_active_proof W p =
     ((case map_of (w_keysets W) (p_id p) of None \<Rightarrow> False | Some k \<Rightarrow> wk_unit k = w_unit W) \<and> \<not> is_reserved p)"

definition active_proofs :: "wallet \<Rightarrow> wallet_proof list \<Rightarrow> wallet_proof list" where
  "active_proofs W ps = filter (is_active_proof W) ps"

definition balance :: "wallet \<Rightarrow> amount" where
  "balance W = Amount (w_unit W) (sum_wallet (w_proofs W))"

definition available_balance :: "wallet \<Rightarrow> amount" where
  "available_balance W = Amount (w_unit W) (sum_wallet (filter (\<lambda>p. \<not> is_reserved p) (w_proofs W)))"

definition proof_amounts :: "wallet \<Rightarrow> int list" where
  "proof_amounts W = List.map p_amount (sorted_by_amount (w_proofs W))"

record balance_entry =
  be_balance :: int
  be_available :: int
  be_unit :: "unit_t option"

definition balance_of :: "wallet_proof list \<Rightarrow> unit_t option \<Rightarrow> balance_entry" where
  "balance_of ps u = \<lparr>be_balance = sum_wallet ps, be_available = sum_wallet (filter (\<lambda>p. \<not> is_reserved p) ps), be_unit = u\<rparr>"

definition balance_per_keyset :: "wallet \<Rightarrow> (string \<times> balance_entry) list" where
  "balance_per_keyset W = List.map (\<lambda>(i, ps). (i, balance_of ps (map_option wk_unit (map_of (w_keysets W) i))))
     (get_proofs_per_keyset (w_proofs W))"

definition balance_per_unit :: "wallet \<Rightarrow> (unit_t \<times> balance_entry) list" where
  "balance_per_unit W = List.map (\<lambda>(u, ps). (u, balance_of ps None)) (get_proofs_per_unit W (w_proofs W))"

text \<open>\<^verbatim>\<open>balance_per_minturl\<close>; the dictionary is sorted by its keys.\<close>

definition balance_per_minturl :: "env \<Rightarrow> wallet_db \<Rightarrow> wallet \<Rightarrow> unit_t option \<Rightarrow> error + (string \<times> balance_entry) list" where
  "balance_per_minturl E d W u =
     bindR (get_proofs_per_minturl E d (w_proofs W) u) (\<lambda>balances.
     Inr (sort_key (\<lambda>x. List.map (of_char :: char \<Rightarrow> nat) (fst x)) (List.map (\<lambda>(url, ps). (url, balance_of ps u)) balances)))"

definition load_proofs :: "wallet_env \<Rightarrow> bool \<Rightarrow> bool \<Rightarrow> ('m, unit) wop" where
  "load_proofs V reload all_keysets =
     bindS (get_w w_proofs) (\<lambda>old.
     if old \<noteq> [] \<and> \<not> reload then returnS ()
     else thenS (mod_w (\<lambda>W. W\<lparr>w_proofs := []\<rparr>))
         (thenS (load_keysets_from_db V (Some []) (Some []))
         (bindS (get_w (\<lambda>W. if all_keysets then [None] else List.map (\<lambda>(i, _). Some i) (w_keysets W))) (\<lambda>ids.
          wtransaction (forS ids (\<lambda>i.
            bindS (read_db (wallet_get_proofs (wenv V) i [] [])) (\<lambda>ps.
            mod_w (\<lambda>W. W\<lparr>w_proofs := w_proofs W @ ps\<rparr>))))))))"

definition check_used_secrets :: "string list \<Rightarrow> ('m, unit) wop" where
  "check_used_secrets secrets = forS secrets (\<lambda>s.
     bindS (getS (\<lambda>w. secret_used s (wdb w))) (\<lambda>used.
     guardS (\<not> used) (PyException (''secret already used: '' @ s))))"

section \<open>Outputs and proofs\<close>

definition step1_alice_deprecated :: "curve \<Rightarrow> string \<Rightarrow> int \<Rightarrow> error + point \<times> int" where
  "step1_alice_deprecated C secret_msg r =
     bindR (ofOption Diverges (hash_to_curve_deprecated C (encode_utf8 secret_msg))) (\<lambda>Y.
     bindR (pk_add C Y (pt_public C r)) (\<lambda>B. Inr (B, r)))"

definition blind :: "wallet_env \<Rightarrow> string \<Rightarrow> int \<Rightarrow> error + point \<times> int" where
  "blind V secret r =
     (if use_deprecated_h2c V then step1_alice_deprecated (crv (wenv V)) secret r else step1_alice (crv (wenv V)) secret r)"

definition construct_output :: "wallet_env \<Rightarrow> string \<Rightarrow> string \<times> int \<times> int option \<Rightarrow> ('m, blinded_message \<times> int) wop" where
  "construct_output V keyset_id x =
     (case x of (secret, amount, r0) \<Rightarrow>
        bindS (case r0 of Some r \<Rightarrow> returnS r | None \<Rightarrow> draw (draw_key V)) (\<lambda>r1.
        bindS (lift_res (blind V secret r1)) (\<lambda>(B, r).
        returnS (\<lparr>bm_amount = amount, bm_id = keyset_id, bm_B = pk_hex (crv (wenv V)) B, bm_C = None\<rparr>, r))))"

definition construct_outputs ::
  "wallet_env \<Rightarrow> int list \<Rightarrow> string list \<Rightarrow> int list \<Rightarrow> string option \<Rightarrow> ('m, blinded_message list \<times> int list) wop" where
  "construct_outputs V amounts secrets rs kid =
     thenS (guardS (length amounts = length secrets)
       (AssertionError (''len(amounts)='' @ str_int (int (length amounts)) @ '' not equal to len(secrets)='' @
          str_int (int (length secrets)))))
    (bindS (get_w (\<lambda>W. if truthy_str kid then the kid else w_keyset_id W)) (\<lambda>keyset_id.
     let rs' = (if rs = [] then replicate (length amounts) None else List.map Some rs)
     in bindS (mapS (construct_output V keyset_id) (zip secrets (zip amounts rs'))) (\<lambda>l.
        returnS (List.map fst l, List.map snd l))))"

definition sk_from_hex :: "curve \<Rightarrow> string \<Rightarrow> error + int" where
  "sk_from_hex C h = bindR (fromhex h) (\<lambda>b. ofOption (ValueError ''Secret scalar is not valid.'') (sc_parse C b))"

text \<open>\<^verbatim>\<open>verify_proofs_dleq\<close>. It returns at the first proof that carries no DLEQ proof.\<close>

primrec verify_proofs_dleq :: "curve \<Rightarrow> (string \<times> wallet_keyset) list \<Rightarrow> wallet_proof list \<Rightarrow> error + unit" where
  "verify_proofs_dleq C ks [] = Inr ()"
| "verify_proofs_dleq C ks (p # ps) =
     (case p_dleq p of
        None \<Rightarrow> Inr ()
      | Some d \<Rightarrow>
          bindR (checkR (p_id p \<noteq> []) (AssertionError [])) (\<lambda>_.
          bindR (ofOption (AssertionError (''Keyset '' @ p_id p @ '' not known, can not verify DLEQ.'')) (map_of ks (p_id p))) (\<lambda>k.
          bindR (pk_from_hex C (p_C p)) (\<lambda>c.
          bindR (sk_from_hex C (dw_r d)) (\<lambda>r.
          bindR (sk_from_hex C (dw_e d)) (\<lambda>e.
          bindR (sk_from_hex C (dw_s d)) (\<lambda>s.
          bindR (ofOption (KeyError (str_int (p_amount p))) (map_of (wk_public_keys k) (p_amount p))) (\<lambda>A.
          bindR (carol_verify_dleq C (p_secret p) r c e s A) (\<lambda>valid.
          bindR (checkR valid (PyException ''DLEQ proof invalid.'')) (\<lambda>_.
          verify_proofs_dleq C ks ps))))))))))"

definition construct_proof ::
  "wallet_env \<Rightarrow> 'm mint_api \<Rightarrow> blinded_signature \<times> string \<times> int \<times> string \<Rightarrow> ('m, wallet_proof) wop" where
  "construct_proof V A x =
     (case x of (promise, secret, r0, path) \<Rightarrow>
        bindS (get_w (\<lambda>W. map_of (w_keysets W) (bs_id promise))) (\<lambda>here.
        thenS (whenS (here = None) (load_mint_keysets V A False))
       (bindS (get_w (\<lambda>W. map_of (w_keysets W) (bs_id promise))) (\<lambda>found.
        bindS (lift_res (ofOption (AssertionError ''Could not load keyset.'') found)) (\<lambda>k.
        lift_res (
          bindR (pk_from_hex (crv (wenv V)) (bs_C promise)) (\<lambda>c'.
          bindR (ofOption (KeyError (str_int (bs_amount promise))) (map_of (wk_public_keys k) (bs_amount promise))) (\<lambda>a.
          bindR (step3_alice (crv (wenv V)) c' r0 a) (\<lambda>c.
          bindR (blind V secret r0) (\<lambda>(B, r).
          bindR (Y_of (wenv V) secret) (\<lambda>y.
          Inr \<lparr>p_id = bs_id promise, p_amount = bs_amount promise, p_secret = secret, p_Y = y, p_C = pk_hex (crv (wenv V)) c,
            p_dleq = map_option (\<lambda>d. \<lparr>dw_e = d_e d, dw_s = d_s d, dw_r = to_hex (sc_bytes (crv (wenv V)) r)\<rparr>) (bs_dleq promise),
            p_witness = None, wp_reserved = Some False, wp_send_id = Some [], wp_derivation_path = Some path,
            wp_mint_id = None, wp_melt_id = None\<rparr>)))))))))))"

definition store_proofs :: "wallet_proof list \<Rightarrow> ('m, unit) wop" where
  "store_proofs ps = wtransaction (forS ps (\<lambda>p. exec_db (wallet_store_proof p)))"

definition construct_proofs ::
  "wallet_env \<Rightarrow> 'm mint_api \<Rightarrow> blinded_signature list \<Rightarrow> string list \<Rightarrow> int list \<Rightarrow> string list \<Rightarrow> ('m, wallet_proof list) wop" where
  "construct_proofs V A sigs secrets rs paths =
     bindS (mapS (construct_proof V A) (zip sigs (zip secrets (zip rs paths)))) (\<lambda>ps.
     bindS (get_w w_keysets) (\<lambda>ks.
     thenS (lift_res (verify_proofs_dleq (crv (wenv V)) ks ps))
    (thenS (mod_w (\<lambda>W. W\<lparr>w_proofs := w_proofs W @ ps\<rparr>))
    (thenS (store_proofs ps) (returnS ps)))))"

section \<open>Spent proofs\<close>

text \<open>A failure of the database is logged; the two statements are transactions of their own.\<close>

definition invalidate_in_db :: "wallet_proof \<Rightarrow> ('m, unit) wop" where
  "invalidate_in_db p = (\<lambda>s. (Inr (), s\<lparr>wdb := snd (wallet_invalidate_proof p (wdb s))\<rparr>))"

text \<open>The states of one batch, matched with its proofs by position.\<close>

primrec spent_of :: "wallet_proof list \<Rightarrow> proof_state list \<Rightarrow> error + wallet_proof list" where
  "spent_of batch [] = Inr []"
| "spent_of batch (st # sts) =
     (case batch of
        [] \<Rightarrow> if list_ex (\<lambda>x. ps_state x = PS_spent) (st # sts) then Inl IndexError else Inr []
      | p # ps \<Rightarrow> bindR (spent_of ps sts) (\<lambda>l. Inr (if ps_state st = PS_spent then p # l else l)))"

function batches :: "nat \<Rightarrow> 'a list \<Rightarrow> 'a list list" where
  "batches n xs = (if xs = [] \<or> n = 0 then [] else take n xs # batches n (drop n xs))"
  by pat_completeness auto
termination by (relation "measure (\<lambda>(n, xs). length xs)") auto

declare batches.simps [simp del]

definition get_spent_proofs_check_states_batched :: "wallet_env \<Rightarrow> 'm mint_api \<Rightarrow> wallet_proof list \<Rightarrow> ('m, wallet_proof list) wop" where
  "get_spent_proofs_check_states_batched V A ps =
     thenS (guardS (proofs_batch_size V \<noteq> 0) (ValueError ''range() arg 3 must not be zero''))
    (bindS (mapS (\<lambda>batch. bindS (api_check_proof_state V A batch) (\<lambda>sts. lift_res (spent_of batch sts)))
       (batches (proofs_batch_size V) ps)) (\<lambda>ll. returnS (concat ll)))"

definition invalidate :: "wallet_env \<Rightarrow> 'm mint_api \<Rightarrow> wallet_proof list \<Rightarrow> bool \<Rightarrow> ('m, wallet_proof list) wop" where
  "invalidate V A ps check_spendable =
     bindS (if check_spendable then get_spent_proofs_check_states_batched V A ps else returnS ps) (\<lambda>invalidated_proofs.
     thenS (forS invalidated_proofs invalidate_in_db)
    (thenS (mod_w (\<lambda>W. W\<lparr>w_proofs :=
       filter (\<lambda>p. p_secret p \<notin> set (List.map p_secret invalidated_proofs)) (w_proofs W)\<rparr>))
    (returnS (filter (\<lambda>p. p \<notin> set invalidated_proofs) ps))))"

section \<open>Reserved proofs\<close>

definition set_reserved_for_melt :: "wallet_proof list \<Rightarrow> bool \<Rightarrow> string option \<Rightarrow> ('m, unit) wop" where
  "set_reserved_for_melt ps reserved quote_id =
     thenS (mark_shared ps (\<lambda>p. p\<lparr>wp_melt_id := quote_id, wp_reserved := Some reserved\<rparr>))
    (forS ps (\<lambda>p. write_db (update_proof p (no_update\<lparr>up_reserved := Some reserved, up_melt_id := Some quote_id\<rparr>))))"

definition reserve :: "wallet_proof \<Rightarrow> wallet_proof" where
  "reserve p = p\<lparr>wp_reserved := Some True\<rparr>"

text \<open>\<^verbatim>\<open>uuid\<close> is the drawn identifier of the attempt. In memory the proofs are reserved in both cases.\<close>

definition set_reserved_for_send :: "wallet_env \<Rightarrow> wallet_proof list \<Rightarrow> bool \<Rightarrow> ('m, unit) wop" where
  "set_reserved_for_send V ps reserved =
     bindS (draw (draw_bytes V)) (\<lambda>uuid.
     thenS (mark_shared ps reserve)
    (forS ps (\<lambda>p. write_db (update_proof p (no_update\<lparr>up_reserved := Some reserved, up_send_id := Some (Some uuid)\<rparr>)))))"

section \<open>Swapping\<close>

text \<open>Outputs are sent in the order of their amounts and the promises put back in the order of the outputs.\<close>

definition sort_outputs :: "blinded_message list \<Rightarrow> (nat \<times> blinded_message) list" where
  "sort_outputs outs = sort_key (\<lambda>(i, x). bm_amount x) (zip [0..<length outs] outs)"

definition unsort :: "nat list \<Rightarrow> 'a list \<Rightarrow> 'a list" where
  "unsort original_indices xs = List.map snd (sort_key fst (zip original_indices xs))"

definition wallet_split ::
  "wallet_env \<Rightarrow> 'm mint_api \<Rightarrow> wallet_proof list \<Rightarrow> int \<Rightarrow> secret option \<Rightarrow> bool \<Rightarrow> ('m, wallet_proof list \<times> wallet_proof list) wop" where
  "wallet_split V A ps amount secret_lock include_fees =
     thenS (guardS (ps \<noteq> []) (AssertionError ''no proofs provided.''))
    (thenS (guardS (sum_wallet ps \<ge> amount) (AssertionError ''amount too large.''))
    (thenS (guardS (amount \<ge> 0) (AssertionError ''amount can't be negative.''))
    (bindS (liftS (\<lambda>s. wallet_fees (w_keysets (ww s)) ps)) (\<lambda>input_fees.
     bindS (liftS (\<lambda>s. determine_output_amounts (target_amount_count V) (ww s) ps amount include_fees (Some (w_keyset_id (ww s)))))
       (\<lambda>(keep_outputs, send_outputs).
     let amounts = keep_outputs @ send_outputs
     in bindS (case secret_lock of
                 None \<Rightarrow> generate_n_secrets V (int (length amounts)) False
               | Some lock \<Rightarrow> generate_locked_secrets V send_outputs keep_outputs lock) (\<lambda>(secrets, rs0, paths).
        thenS (guardS (length secrets = length amounts) (AssertionError ''number of secrets does not match number of outputs''))
       (thenS (check_used_secrets secrets)
       (bindS (get_w (\<lambda>W. Some (w_keyset_id W))) (\<lambda>kid.
        bindS (construct_outputs V amounts secrets rs0 kid) (\<lambda>(outs, rs).
        bindS (liftS (\<lambda>s. sign_proofs_inplace_swap V (ww s) ps outs)) (\<lambda>signed.
        thenS (share_witnesses signed)
       (thenS (guardS (outs \<noteq> []) (ValueError ''not enough values to unpack (expected 2, got 0)''))
       (bindS (api_split V A signed (List.map snd (sort_outputs outs))) (\<lambda>sorted_promises.
        bindS (construct_proofs V A (unsort (List.map fst (sort_outputs outs)) sorted_promises) secrets rs paths) (\<lambda>new_proofs.
        thenS (invalidate V A signed False)
              (returnS (take (length keep_outputs) new_proofs, drop (length keep_outputs) new_proofs)))))))))))))))))"

definition redeem :: "wallet_env \<Rightarrow> 'm mint_api \<Rightarrow> wallet_proof list \<Rightarrow> ('m, wallet_proof list \<times> wallet_proof list) wop" where
  "redeem V A ps =
     bindS (get_w w_keysets) (\<lambda>ks.
     thenS (lift_res (verify_proofs_dleq (crv (wenv V)) ks ps)) (wallet_split V A ps 0 None False))"

definition too_low :: error where
  "too_low = PyException ''Balance too low''"

text \<open>\<^verbatim>\<open>swap_to_send\<close>; proofs of inactive keysets are swapped along.\<close>

definition extra_inactive :: "wallet \<Rightarrow> wallet_proof list \<Rightarrow> wallet_proof list \<Rightarrow> wallet_proof list" where
  "extra_inactive W ps chosen = filter (\<lambda>p. (case map_of (w_keysets W) (p_id p) of None \<Rightarrow> False | Some k \<Rightarrow> \<not> wk_active k) \<and>
     \<not> is_reserved p \<and> p \<notin> set chosen) ps"

definition swap_to_send ::
  "wallet_env \<Rightarrow> 'm mint_api \<Rightarrow> wallet_proof list \<Rightarrow> int \<Rightarrow> secret option \<Rightarrow> bool \<Rightarrow> bool \<Rightarrow>
   ('m, wallet_proof list \<times> wallet_proof list) wop" where
  "swap_to_send V A ps0 amount secret_lock set_reserved include_fees =
     bindS (get_w (\<lambda>W. active_proofs W ps0)) (\<lambda>ps.
     thenS (guardS (\<not> sum_wallet ps < amount) too_low)
    (bindS (liftS (\<lambda>s. coinselect (w_keysets (ww s)) True ps (of_int amount))) (\<lambda>chosen.
     bindS (get_w (\<lambda>W. chosen @ extra_inactive W ps chosen)) (\<lambda>swap_proofs.
     bindS (liftS (\<lambda>s. wallet_fees (w_keysets (ww s)) swap_proofs)) (\<lambda>fees.
     bindS (wallet_split V A swap_proofs amount secret_lock include_fees) (\<lambda>(keep_proofs, send_proofs).
     thenS (whenS set_reserved (set_reserved_for_send V send_proofs True))
           (returnS (keep_proofs, if set_reserved then List.map reserve send_proofs else send_proofs))))))))"

definition select_to_send ::
  "wallet_env \<Rightarrow> 'm mint_api \<Rightarrow> wallet_proof list \<Rightarrow> int \<Rightarrow> bool \<Rightarrow> bool \<Rightarrow> bool \<Rightarrow> ('m, wallet_proof list \<times> int) wop" where
  "select_to_send V A ps0 amount set_reserved offline include_fees =
     bindS (get_w (\<lambda>W. active_proofs W ps0)) (\<lambda>ps.
     thenS (guardS (\<not> sum_wallet ps < amount) too_low)
    (bindS (liftS (\<lambda>s. coinselect (w_keysets (ww s)) include_fees ps (of_int amount))) (\<lambda>chosen.
     bindS (liftS (\<lambda>s. wallet_fees (w_keysets (ww s)) chosen)) (\<lambda>fees.
     bindS (if chosen = [] \<or> sum_wallet chosen > amount + fees
            then if offline
                 then raiseS (PyException ''Could not select proofs in offline mode.'')
                 else bindS (swap_to_send V A ps amount None False include_fees) (\<lambda>(_, sent). returnS sent)
            else returnS chosen) (\<lambda>send_proofs.
     thenS (whenS set_reserved (set_reserved_for_send V send_proofs True))
           (returnS (if set_reserved then List.map reserve send_proofs else send_proofs, fees)))))))"

end
