(* ===== verification/WalletQuotes.thy ===== *)
theory WalletQuotes
  imports Wallet
begin

text \<open>
  The quotes of a wallet (\<^verbatim>\<open>cashu/wallet/wallet.py\<close>): requesting and minting, requesting and melting, with
  \<^verbatim>\<open>MintQuote.from_resp_wallet\<close> and \<^verbatim>\<open>MeltQuote.from_resp_wallet\<close> of \<^verbatim>\<open>cashu/core/base.py\<close> and the signatures of
  \<^verbatim>\<open>cashu/core/nuts/nut20.py\<close>.
\<close>

section \<open>Answers of the mint\<close>

definition mint_state_of :: "string option \<Rightarrow> error + mint_quote_state" where
  "mint_state_of v = ofOption (ValueError ''not a valid MintQuoteState'')
     (List.find (\<lambda>s. Some (mint_state_value s) = v) [MQ_unpaid, MQ_paid, MQ_pending, MQ_issued])"

definition melt_state_of :: "string option \<Rightarrow> error + melt_quote_state" where
  "melt_state_of v = ofOption (ValueError ''not a valid MeltQuoteState'')
     (List.find (\<lambda>s. Some (melt_state_value s) = v) [LQ_unpaid, LQ_pending, LQ_paid])"

definition or_str :: "string option \<Rightarrow> string \<Rightarrow> string" where
  "or_str x y = (if truthy_str x then the x else y)"

definition or_int :: "int option \<Rightarrow> int \<Rightarrow> int" where
  "or_int x y = (if truthy_int x then the x else y)"

definition mint_from_resp_wallet :: "wallet_env \<Rightarrow> mint_quote_response \<Rightarrow> string \<Rightarrow> int \<Rightarrow> string \<Rightarrow> error + wallet_mint_quote" where
  "mint_from_resp_wallet V r url amount unit =
     bindR (mint_state_of (qr_state r)) (\<lambda>st.
     Inr \<lparr>mq_quote = qr_quote r, mq_method = ''bolt11'', mq_request = qr_request r, mq_checking_id = [],
       mq_unit = or_str (qr_unit r) unit, mq_amount = or_int (qr_amount r) amount, mq_state = st,
       mq_created_time = Some (now_s (wenv V)), mq_paid_time = None, mq_expiry = qr_expiry r, mq_pubkey = qr_pubkey r,
       wq_mint = Some url, wq_privkey = None\<rparr>)"

text \<open>A response without a state is read by its older field \<^verbatim>\<open>paid\<close>. The fee that was paid is not in the response.\<close>

definition resp_state :: "melt_response \<Rightarrow> string option" where
  "resp_state r =
     (case mr_state r of
        Some s \<Rightarrow> Some s
      | None \<Rightarrow> (case mr_paid r of None \<Rightarrow> None | Some b \<Rightarrow> Some (melt_state_value (if b then LQ_paid else LQ_unpaid))))"

definition melt_from_resp_wallet :: "melt_response \<Rightarrow> string \<Rightarrow> string \<Rightarrow> string \<Rightarrow> error + wallet_melt_quote" where
  "melt_from_resp_wallet r url unit request =
     bindR (melt_state_of (resp_state r)) (\<lambda>st.
     Inr \<lparr>lq_quote = mr_quote r, lq_method = ''bolt11'', lq_request = or_str (mr_request r) request, lq_checking_id = [],
       lq_unit = or_str (mr_unit r) unit, lq_amount = mr_amount r, lq_fee_reserve = mr_fee_reserve r, lq_state = st,
       lq_created_time = None, lq_paid_time = None, lq_fee_paid = 0, lq_payment_preimage = None, lq_expiry = None,
       lq_outputs = None, lq_change = mr_change r, wl_mint = Some url\<rparr>)"

section \<open>Minting\<close>

text \<open>\<^verbatim>\<open>nut20.generate_keypair\<close> and \<^verbatim>\<open>nut20.sign_mint_quote\<close>.\<close>

definition generate_keypair :: "wallet_env \<Rightarrow> ('m, string \<times> string) wop" where
  "generate_keypair V = bindS (draw (draw_key V)) (\<lambda>k.
     returnS (to_hex (sc_bytes (crv (wenv V)) k), pk_hex (crv (wenv V)) (pt_public (crv (wenv V)) k)))"

definition sign_mint_quote :: "wallet_env \<Rightarrow> string \<Rightarrow> blinded_message list \<Rightarrow> string \<Rightarrow> error + string" where
  "sign_mint_quote V quote_id outs sk =
     bindR (sk_from_hex (crv (wenv V)) sk) (\<lambda>k.
     Inr (to_hex (sign_schnorr V k (construct_message (wenv V) quote_id outs))))"

definition request_mint :: "wallet_env \<Rightarrow> 'm mint_api \<Rightarrow> int \<Rightarrow> string option \<Rightarrow> ('m, wallet_mint_quote) wop" where
  "request_mint V A amount memo =
     bindS (generate_keypair V) (\<lambda>(privkey_hex, pubkey_hex).
     bindS (get_w w_unit) (\<lambda>u.
     bindS (api_mint_quote V A amount u memo (Some pubkey_hex)) (\<lambda>r.
     bindS (get_w w_url) (\<lambda>url.
     bindS (lift_res (mint_from_resp_wallet V r url amount (unit_name u))) (\<lambda>q0.
     let q = q0\<lparr>wq_privkey := Some privkey_hex\<rparr>
     in thenS (exec_db (store_bolt11_mint_quote q)) (returnS q))))))"

text \<open>
  The conditional expressions of \<^verbatim>\<open>get_mint_quote\<close> bind weaker than \<^verbatim>\<open>or\<close>: without a local quote the
  amount of the response is not used here, and \<^verbatim>\<open>from_resp_wallet\<close> puts it in afterwards.
\<close>

definition wallet_get_mint_quote :: "wallet_env \<Rightarrow> 'm mint_api \<Rightarrow> string \<Rightarrow> ('m, wallet_mint_quote) wop" where
  "wallet_get_mint_quote V A quote_id =
     bindS (api_get_mint_quote V A quote_id) (\<lambda>r.
     bindS (read_db (get_bolt11_mint_quote (Some quote_id) None)) (\<lambda>local.
     bindS (get_w (\<lambda>W. (w_url W, unit_name (w_unit W)))) (\<lambda>(url, own_unit).
     bindS (lift_res (mint_from_resp_wallet V r url
       (case local of Some l \<Rightarrow> or_int (qr_amount r) (mq_amount l) | None \<Rightarrow> 0)
       (case local of Some l \<Rightarrow> or_str (qr_unit r) (mq_unit l) | None \<Rightarrow> own_unit))) (\<lambda>q0.
     let q = (case local of Some l \<Rightarrow> if truthy_str (wq_privkey l) then q0\<lparr>wq_privkey := wq_privkey l\<rparr> else q0 | None \<Rightarrow> q0)
     in thenS (whenS (local = None) (exec_db (store_bolt11_mint_quote q))) (returnS q)))))"

definition check_split :: "wallet \<Rightarrow> int list option \<Rightarrow> int \<Rightarrow> error + unit" where
  "check_split W split amount =
     (if truthy_list split then
        bindR (checkR (sum_list (the split) = amount) (AssertionError ''split must sum to amount'')) (\<lambda>_.
        bindR (get_allowed_amounts W) (\<lambda>allowed.
        checkR (set (the split) \<subseteq> set allowed) (PyException ''Can only mint amounts supported by the mint'')))
      else Inr ())"

definition wallet_mint :: "wallet_env \<Rightarrow> 'm mint_api \<Rightarrow> int \<Rightarrow> string \<Rightarrow> int list option \<Rightarrow> ('m, wallet_proof list) wop" where
  "wallet_mint V A amount quote_id split =
     thenS (liftS (\<lambda>s. check_split (ww s) split amount))
    (bindS (liftS (\<lambda>s. if truthy_list split then Inr (the split) else split_wallet_state (target_amount_count V) (ww s) amount)) (\<lambda>amounts.
     bindS (generate_n_secrets V (int (length amounts)) True) (\<lambda>(secrets, rs0, paths).
     thenS (check_used_secrets secrets)
    (bindS (construct_outputs V amounts secrets rs0 None) (\<lambda>(outs, rs).
     bindS (read_db (get_bolt11_mint_quote (Some quote_id) None)) (\<lambda>found.
     bindS (lift_res (ofOption (PyException ''Quote not found.'') found)) (\<lambda>quote.
     bindS (if truthy_str (wq_privkey quote)
            then bindS (lift_res (sign_mint_quote V quote_id outs (the (wq_privkey quote)))) (\<lambda>sig. returnS (Some sig))
            else returnS None) (\<lambda>signature.
     bindS (api_mint V A outs quote_id signature) (\<lambda>signed.
     bindS (lift_res (case signed of [] \<Rightarrow> Inl IndexError | x # _ \<Rightarrow> Inr (bs_id x))) (\<lambda>promises_keyset_id.
     thenS (write_db (\<lambda>d. snd (bump_secret_derivation promises_keyset_id (int (length amounts)) False d)))
    (bindS (construct_proofs V A signed secrets rs paths) (\<lambda>ps.
     thenS (write_db (update_bolt11_mint_quote quote_id MQ_issued (now_s (wenv V))))
    (thenS (mark_shared ps (\<lambda>p. p\<lparr>wp_mint_id := Some quote_id\<rparr>))
    (thenS (forS ps (\<lambda>p. write_db (update_proof p (no_update\<lparr>up_mint_id := Some (Some quote_id)\<rparr>))))
           (returnS (List.map (\<lambda>p. p\<lparr>wp_mint_id := Some quote_id\<rparr>) ps))))))))))))))))"

section \<open>Melting\<close>

text \<open>\<open>mpp_ok\<close> is what the information on the mint says about payments in parts.\<close>

definition wallet_melt_quote :: "wallet_env \<Rightarrow> 'm mint_api \<Rightarrow> bool \<Rightarrow> string \<Rightarrow> int option \<Rightarrow> ('m, wallet_melt_quote) wop" where
  "wallet_melt_quote V A mpp_ok invoice amount_msat =
     thenS (guardS (\<not> (truthy_int amount_msat \<and> \<not> mpp_ok)) (PyException ''Mint does not support MPP, cannot specify amount.''))
    (bindS (get_w (\<lambda>W. (w_url W, w_unit W))) (\<lambda>(url, u).
     bindS (api_melt_quote V A invoice u amount_msat) (\<lambda>r.
     bindS (lift_res (melt_from_resp_wallet r url (unit_name u) invoice)) (\<lambda>q.
     thenS (exec_db (store_bolt11_melt_quote q))
           (lift_res (melt_from_resp_wallet r url (or_str (mr_unit r) (unit_name u)) (or_str (mr_request r) invoice)))))))"

definition wallet_get_melt_quote :: "wallet_env \<Rightarrow> 'm mint_api \<Rightarrow> string \<Rightarrow> ('m, wallet_melt_quote) wop" where
  "wallet_get_melt_quote V A quote =
     bindS (api_get_melt_quote V A quote) (\<lambda>r.
     bindS (read_db (get_bolt11_melt_quote (Some quote) None)) (\<lambda>local.
     bindS (get_w (\<lambda>W. (w_url W, unit_name (w_unit W)))) (\<lambda>(url, own_unit).
     bindS (lift_res (melt_from_resp_wallet r url
       (case local of Some l \<Rightarrow> or_str (mr_unit r) (lq_unit l) | None \<Rightarrow> own_unit)
       (case local of Some l \<Rightarrow> if lq_request l \<noteq> [] then or_str (mr_request r) (lq_request l) else ''None'' | None \<Rightarrow> ''None''))) (\<lambda>q.
     thenS (case local of
              None \<Rightarrow> exec_db (store_bolt11_melt_quote q)
            | Some l \<Rightarrow>
                bindS (read_db (wallet_get_proofs (wenv V) None quote [])) (\<lambda>ps.
                thenS (whenS (lq_state q = LQ_paid \<and> lq_state l \<noteq> LQ_paid)
                   (thenS (write_db (update_bolt11_melt_quote quote (lq_state q) (now_s (wenv V)) (lq_fee_paid q)
                             (or_str (lq_payment_preimage q) [])))
                          (whenS (sum_wallet ps = lq_amount q + lq_fee_reserve q)
                             (thenS (invalidate V A ps False) (returnS ())))))
                  (whenS (lq_state q = LQ_unpaid) (set_reserved_for_melt ps False None))))
           (returnS q)))))"

text \<open>\<^verbatim>\<open>math.ceil(math.log2(n))\<close> of an integer, exact for the amounts below \<open>2 ^ 48\<close>.\<close>

definition calculate_number_of_blank_outputs :: "int \<Rightarrow> error + int" where
  "calculate_number_of_blank_outputs fee_reserve_sat =
     (if fee_reserve_sat < 0 then Inl (AssertionError ''Fee reserve can't be negative.'')
      else if fee_reserve_sat = 0 then Inr 0
      else Inr (max (int (bit_length (nat (fee_reserve_sat - 1)))) 1))"

text \<open>What the wallet writes down as the fee paid.\<close>

definition recorded_fee :: "wallet_melt_quote \<Rightarrow> int" where
  "recorded_fee q =
     lq_amount q + lq_fee_paid q - (case lq_change q of None \<Rightarrow> 0 | Some l \<Rightarrow> sum_promises l)"

definition wallet_melt :: "wallet_env \<Rightarrow> 'm mint_api \<Rightarrow> wallet_proof list \<Rightarrow> string \<Rightarrow> int \<Rightarrow> string \<Rightarrow> ('m, melt_response) wop" where
  "wallet_melt V A ps invoice fee_reserve_sat quote_id =
     bindS (lift_res (calculate_number_of_blank_outputs fee_reserve_sat)) (\<lambda>n.
     bindS (generate_n_secrets V n False) (\<lambda>(secrets, rs0, paths).
     bindS (construct_outputs V (replicate (nat n) 1) secrets rs0 None) (\<lambda>(outs, rs).
     let marked = List.map (\<lambda>p. p\<lparr>wp_melt_id := Some quote_id, wp_reserved := Some True\<rparr>) ps;
         unmark = set_reserved_for_melt ps False None
     in thenS (set_reserved_for_melt ps True (Some quote_id))
       (bindS (liftS (\<lambda>s. sign_proofs_inplace_melt V (ww s) marked outs quote_id)) (\<lambda>signed.
        thenS (share_witnesses signed)
       (bindS (catchS (api_melt V A quote_id signed outs)
           (\<lambda>e. thenS unmark (raiseS (PyException (''could not pay invoice: '' @ error_detail e))))) (\<lambda>r.
        bindS (get_w (\<lambda>W. (w_url W, unit_name (w_unit W)))) (\<lambda>(url, u).
        bindS (lift_res (melt_from_resp_wallet r url u invoice)) (\<lambda>q.
        if lq_state q = LQ_unpaid then thenS unmark (raiseS (PyException ''could not pay invoice.''))
        else if lq_state q = LQ_pending then returnS r
        else thenS (invalidate V A signed False)
            (thenS (write_db (update_bolt11_melt_quote quote_id LQ_paid (now_s (wenv V)) (recorded_fee q)
                      (or_str (lq_payment_preimage q) [])))
            (thenS (case lq_change q of
                      None \<Rightarrow> returnS ()
                    | Some l \<Rightarrow> whenS (l \<noteq> []) (thenS (construct_proofs V A l (take (length l) secrets) (take (length l) rs)
                        (take (length l) paths)) (returnS ())))
                   (returnS r))))))))))))"

end
