(* ===== verification/WalletRestore.thy ===== *)
theory WalletRestore
  imports WalletQuotes
begin

text \<open>
  Restoring a wallet from its seed (\<^verbatim>\<open>restore_promises\<close>, \<^verbatim>\<open>restore_promises_from_to\<close>,
  \<^verbatim>\<open>restore_tokens_for_keyset\<close> in \<^verbatim>\<open>cashu/wallet/wallet.py\<close>). The loop over the batches ends when the mint has
  answered several batches with nothing; a mint may never do so, and \<open>None\<close> is a loop that does not end.
\<close>

text \<open>The position after the output that was restored last, and the positions of all that were.\<close>

definition next_restored_index :: "blinded_message list \<Rightarrow> blinded_message list \<Rightarrow> nat" where
  "next_restored_index outs restored =
     (if restored = [] then 0
      else (case List.find (\<lambda>(i, x). bm_B x = bm_B (last restored)) (zip [0..<length outs] outs) of
              None \<Rightarrow> 0 | Some (i, _) \<Rightarrow> i) + 1)"

definition matching_indices :: "blinded_message list \<Rightarrow> blinded_message list \<Rightarrow> nat list" where
  "matching_indices outs restored = filter (\<lambda>i. bm_B (outs ! i) \<in> set (List.map bm_B restored)) [0..<length outs]"

definition restore_promises ::
  "wallet_env \<Rightarrow> 'm mint_api \<Rightarrow> blinded_message list \<Rightarrow> string list \<Rightarrow> int list \<Rightarrow> string list \<Rightarrow> ('m, nat \<times> wallet_proof list) wop" where
  "restore_promises V A outs secrets rs paths =
     bindS (api_restore_promises V A outs) (\<lambda>(restored, signed).
     let idx = matching_indices outs restored
     in thenS (guardS (\<forall>i\<in>set idx. i < length secrets \<and> i < length rs) IndexError)
       (bindS (construct_proofs V A signed (List.map (\<lambda>i. secrets ! i) idx) (List.map (\<lambda>i. rs ! i) idx) paths) (\<lambda>ps.
        returnS (next_restored_index outs restored, ps))))"

definition restore_promises_from_to ::
  "wallet_env \<Rightarrow> 'm mint_api \<Rightarrow> string \<Rightarrow> int \<Rightarrow> int \<Rightarrow> ('m, nat \<times> wallet_proof list) wop" where
  "restore_promises_from_to V A keyset_id from_counter to_counter =
     bindS (liftS (\<lambda>s. generate_secrets_from_to V (ww s) from_counter to_counter (Some keyset_id))) (\<lambda>(secrets, rs, paths).
     bindS (construct_outputs V (replicate (length secrets) 1) secrets rs (Some keyset_id)) (\<lambda>(outs, _).
     bindS (restore_promises V A outs secrets rs paths) (\<lambda>(n, ps).
     thenS (write_db (set_secret_derivation keyset_id (to_counter + 1)))
           (returnS (n, ps)))))"

partial_function (option) restore_loop ::
  "wallet_env \<Rightarrow> 'm mint_api \<Rightarrow> string \<Rightarrow> int \<Rightarrow> int \<Rightarrow> int \<Rightarrow> int \<Rightarrow> int \<Rightarrow> 'm world \<Rightarrow> ((error + int \<times> int) \<times> 'm world) option" where
  "restore_loop V A keyset_id to batch empty_batches i last_count s =
     (if empty_batches < to then
        (case restore_promises_from_to V A keyset_id i (i + batch - 1) s of
           (Inl e, t) \<Rightarrow> Some (Inl e, t)
         | (Inr (n, ps), t) \<Rightarrow>
             if ps = [] then restore_loop V A keyset_id to batch (empty_batches + 1) (i + batch) (last_count + int n) t
             else (case invalidate V A ps True t of
                     (Inl e, u) \<Rightarrow> Some (Inl e, u)
                   | (Inr _, u) \<Rightarrow> restore_loop V A keyset_id to batch empty_batches (i + batch) (last_count + int n) u))
      else Some (Inr (i, last_count), s))"

declare restore_loop.simps [code]

definition restore_tokens_for_keyset ::
  "wallet_env \<Rightarrow> 'm mint_api \<Rightarrow> string \<Rightarrow> int \<Rightarrow> int \<Rightarrow> 'm world \<Rightarrow> ((error + unit) \<times> 'm world) option" where
  "restore_tokens_for_keyset V A keyset_id to batch s =
     (case bump_secret_derivation keyset_id 0 False (wdb s) of
        (counter_before, d) \<Rightarrow>
          (case restore_loop V A keyset_id to batch 0 counter_before 0 (s\<lparr>wdb := d\<rparr>) of
             None \<Rightarrow> None
           | Some (Inl e, t) \<Rightarrow> Some (Inl e, t)
           | Some (Inr (i, last_restore_count), t) \<Rightarrow>
               Some (Inr (), t\<lparr>wdb := snd (bump_secret_derivation keyset_id (- (i - last_restore_count)) False (wdb t))\<rparr>)))"

primrec restore_keysets :: "wallet_env \<Rightarrow> 'm mint_api \<Rightarrow> string list \<Rightarrow> int \<Rightarrow> int \<Rightarrow> 'm world \<Rightarrow> ((error + unit) \<times> 'm world) option" where
  "restore_keysets V A [] to batch s = Some (Inr (), s)"
| "restore_keysets V A (i # is) to batch s =
     (case restore_tokens_for_keyset V A i to batch s of
        None \<Rightarrow> None
      | Some (Inl e, t) \<Rightarrow> Some (Inl e, t)
      | Some (Inr _, t) \<Rightarrow> restore_keysets V A is to batch t)"

definition restore_wallet_from_mnemonic ::
  "wallet_env \<Rightarrow> 'm mint_api \<Rightarrow> string option \<Rightarrow> int \<Rightarrow> int \<Rightarrow> 'm world \<Rightarrow> ((error + unit) \<times> 'm world) option" where
  "restore_wallet_from_mnemonic V A mnemonic to batch s =
     (case thenS (init_private_key V mnemonic) (load_mint V A [] False) s of
        (Inl e, t) \<Rightarrow> Some (Inl e, t)
      | (Inr _, t) \<Rightarrow> restore_keysets V A (List.map fst (w_keysets (ww t))) to batch t)"

end
