(* ===== verification/WalletSamples.thy ===== *)
theory WalletSamples
  imports Selection WalletRestore
begin

text \<open>
  A small wallet for the witnesses, with the keys of the sample mint of theory \<open>Samples\<close>: its random numbers are the
  private keys 1, 2, 3, its seed gives the same keys, and its signature of a message is the one that the sample curve
  takes for valid.
\<close>

definition sample_venv :: wallet_env where
  "sample_venv =
     \<lparr>wenv = sample_env, target_amount_count = 1, use_deprecated_h2c = False, proofs_batch_size = 2,
      wallet_inactivate_base64 = True, mnemo_generate = (\<lambda>n. ''word''), mnemo_check = (\<lambda>m. True), mnemo_to_seed = (\<lambda>m. ''seed''),
      bip32_from_seed = (\<lambda>s. Inr ''root''), bip32_privkey = (\<lambda>b path. if last path = CHR ''0'' then Inr path
        else Inr [char_of (if path ! (length path - 4) = CHR ''2'' then 3 else 1 :: nat)]),
      hmac_sha256 = (\<lambda>k m. [char_of (1 + length m mod 3)]), sign_schnorr = (\<lambda>k m. char_of (nat k) # m),
      draw_bytes = (\<lambda>n. str_nat n), draw_key = (\<lambda>n. 1 + int n mod 3)\<rparr>"

definition empty_wallet :: wallet where
  "empty_wallet =
     \<lparr>w_url = ''https://mint'', w_unit = sat, w_keysets = [(''00ks'', sample_wallet_keyset)], w_keyset_id = ''00ks'',
      w_proofs = [], w_seed = Some ''seed'', w_bip32 = Some ''root'', w_private_key = Some 2, w_mint_info = None\<rparr>"

definition sample_keyset_row :: wkeyset_row where
  "sample_keyset_row =
     \<lparr>wkr_id = ''00ks'', wkr_mint_url = Some ''https://mint'', wkr_active = True,
      wkr_public_keys = keyset_serialize z5_curve sample_wallet_keyset, wkr_unit = ''sat'', wkr_input_fee_ppk = 100, wkr_counter = 0\<rparr>"

definition sample_wallet_db :: wallet_db where
  "sample_wallet_db =
     \<lparr>wd_proofs = [], wd_proofs_used = [], wd_keysets = [sample_keyset_row], wd_mint_quotes = [], wd_melt_quotes = [],
      wd_seed = [], wd_mints = []\<rparr>"

definition sample_world :: "'m \<Rightarrow> 'm world" where
  "sample_world m = \<lparr>ww = empty_wallet, wdb = sample_wallet_db, wdraws = 0, wmint = m\<rparr>"

text \<open>A mint whose endpoints all fail, for requests that are not made.\<close>

definition no_mint :: "'m mint_api" where
  "no_mint = 
     \<lparr>http_keys = raiseS (PyException []), http_keyset = (\<lambda>_. raiseS (PyException [])), http_keysets = raiseS (PyException []), http_info = raiseS (PyException []),
      http_mint_quote = (\<lambda>_. raiseS (PyException [])), http_get_mint_quote = (\<lambda>_. raiseS (PyException [])),
      http_mint = (\<lambda>_ _ _. raiseS (PyException [])), http_melt_quote = (\<lambda>_. raiseS (PyException [])),
      http_get_melt_quote = (\<lambda>_. raiseS (PyException [])), http_melt = (\<lambda>_ _ _. raiseS (PyException [])),
      http_swap = (\<lambda>_ _. raiseS (PyException [])), http_checkstate = (\<lambda>_. raiseS (PyException [])),
      http_restore = (\<lambda>_. raiseS (PyException []))\<rparr>"

end
