(* ===== verification/Exchange.thy ===== *)
theory Exchange
  imports Swapping TokenFacts WalletSamples
begin

text \<open>
  A wallet and a mint that work together: what the wallet builds out of the mint's answers is money that the mint
  accepts.

  The mint is the one of theory \<open>Ledger\<close>, with an environment of its own; the wallet reaches it through a
  \<open>mint_api\<close> whose request for a swap is the mint's operation. Beside the laws of the curve the facts rest on the
  encodings: points and private keys are read back as they were written.
\<close>

section \<open>Putting promises back in order\<close>

lemma map_pairs: "zip (List.map fst xs) (List.map f xs) = List.map (\<lambda>x. (fst x, f x)) xs"
  by (induction xs) auto

lemma unsort_sorted: "unsort (List.map fst (sort_outputs outs)) (List.map (g \<circ> snd) (sort_outputs outs)) = List.map g outs"
proof -
  define l where "l = zip [0..<length outs] outs"
  define f where "f = (\<lambda>x::nat \<times> blinded_message. (fst x, (g \<circ> snd) x))"
  have l: "List.map fst l = [0..<length outs]" "List.map snd l = outs" by (simp_all add: l_def)
  have fst_f: "List.map fst (List.map f xs) = List.map fst xs" and snd_f: "List.map snd (List.map f xs) = List.map g (List.map snd xs)" for xs
    by (simp_all add: f_def comp_def)
  have m: "mset (List.map f (sort_outputs outs)) = mset (List.map f l)"
    by (simp add: sort_outputs_def l_def)
  have "distinct (List.map fst (List.map f l))" by (simp only: fst_f l distinct_upt)
  then have "inj_on fst (set (List.map f l))" by (simp only: distinct_map)
  moreover have "set (List.map f (sort_outputs outs)) = set (List.map f l)" using m by (rule mset_eq_setD)
  moreover have "sorted (List.map fst (List.map f l))" by (simp only: fst_f l sorted_upt)
  ultimately have "sort_key fst (List.map f (sort_outputs outs)) = List.map f l"
    using sort_key_inj_key_eq[OF m] by simp
  then show ?thesis unfolding unsort_def map_pairs f_def[symmetric] by (simp only: snd_f l)
qed

section \<open>One output\<close>

definition encodings :: "curve \<Rightarrow> point set \<Rightarrow> int set \<Rightarrow> bool" where
  "encodings C V K \<longleftrightarrow> (\<forall>p\<in>V. pt_parse C (pt_format C p) = Some p) \<and> (\<forall>k\<in>K. sc_parse C (sc_bytes C k) = Some k)"

text \<open>The mint's keys are private keys, and the wallet has the public keys of every keyset of the mint.\<close>

definition mint_keys :: "int set \<Rightarrow> ledger \<Rightarrow> bool" where
  "mint_keys K s \<longleftrightarrow> (\<forall>i k a key. keyset_of s i = Some k \<longrightarrow> map_of (k_private_keys k) a = Some key \<longrightarrow> key \<in> K)"

definition keys_known :: "curve \<Rightarrow> (string \<times> wallet_keyset) list \<Rightarrow> ledger \<Rightarrow> bool" where
  "keys_known C ks s \<longleftrightarrow> (\<forall>i k. keyset_of s i = Some k \<longrightarrow> (\<exists>wk. map_of ks i = Some wk \<and>
     (\<forall>a key. map_of (k_private_keys k) a = Some key \<longrightarrow> map_of (wk_public_keys wk) a = Some (pt_public C key))))"

lemma pk_hex_back: "encodings C V K \<Longrightarrow> p \<in> V \<Longrightarrow> pk_from_hex C (pk_hex C p) = Inr p"
  by (simp add: encodings_def pk_from_hex_def pk_hex_def)

lemma sk_hex_back: "encodings C V K \<Longrightarrow> k \<in> K \<Longrightarrow> sk_from_hex C (to_hex (sc_bytes C k)) = Inr k"
  by (simp add: encodings_def sk_from_hex_def fromhex_def)

lemma blind_step1: "\<not> use_deprecated_h2c V \<Longrightarrow> blind V m r = step1_alice (crv (wenv V)) m r"
  by (simp add: blind_def)

text \<open>The two sides share the curve; the wallet blinds as it does since version 0.15.0.\<close>

definition same_curve :: "wallet_env \<Rightarrow> env \<Rightarrow> point set \<Rightarrow> int set \<Rightarrow> bool" where
  "same_curve Vw E V K \<longleftrightarrow> crv (wenv Vw) = crv E \<and> \<not> use_deprecated_h2c Vw \<and> curve_laws (crv E) V K \<and>
     encodings (crv E) V K \<and> (\<forall>b. nonce E b \<in> K)"

text \<open>A proof that the mint accepts, and whose DLEQ proof convinces whoever has the mint's public keys.\<close>

definition good_money :: "env \<Rightarrow> ledger \<Rightarrow> (string \<times> wallet_keyset) list \<Rightarrow> wallet_proof \<Rightarrow> bool" where
  "good_money E s ks p \<longleftrightarrow> verify_proof_bdhke E s (token_proof.truncate p) = Inr True \<and>
     p_dleq p \<noteq> None \<and> verify_proofs_dleq (crv E) ks [p] = Inr ()"

text \<open>The two scalars of the proof are valid private keys.\<close>

lemma dleq_scalars:
  assumes laws: "curve_laws C V K" and K: "a \<in> K" "p \<in> K" and B: "B \<in> V"
    and sign: "step2_bob_dleq C B a p = Inr (e, s)"
  shows "e \<in> K \<and> s \<in> K"
proof -
  obtain h ae where "sc_parse C h = Some e" "sc_multiply C a e = Some ae" "sc_add C p ae = Some s"
    using sign by (auto simp: step2_bob_dleq_def bindR_Inr Let_def)
  with scalar_parse[OF laws] scalar_mult[OF laws, rule_format, OF K(1)] scalar_add[OF laws, rule_format, OF K(2)]
  show ?thesis by blast
qed

lemma issued_one:
  assumes same: "same_curve Vw E V K" and mk: "mint_keys K s" and kk: "keys_known (crv E) (w_keysets (ww w)) s"
    and r: "r \<in> K" and B: "step1_alice (crv E) secret r = Inr (B, r')"
    and x: "bm_B x = pk_hex (crv E) B" and sign: "prepare_signature E s x = Inr pr" and i: "bm_id x \<noteq> []"
  shows "\<exists>p. construct_proof Vw A (signature_of E pr, secret, r', path) w = (Inr p, w) \<and>
    p_id p = bm_id x \<and> p_amount p = bm_amount x \<and> p_secret p = secret \<and> good_money E s (w_keysets (ww w)) p"
proof -
  let ?C = "crv E"
  have C: "crv (wenv Vw) = ?C" and laws: "curve_laws ?C V K" and enc: "encodings ?C V K" and n: "nonce E (bm_B x) \<in> K"
    and nd: "\<not> use_deprecated_h2c Vw"
    using same by (auto simp: same_curve_def)
  obtain Y where Y: "hash_to_curve ?C (encode_utf8 secret) = Inr Y" and r': "r' = r"
    and comb: "pt_combine ?C Y (pt_public ?C r) = Some B" using B by (rule step1_aliceE)
  have YV: "Y \<in> V" by (rule hash_to_curve_in[OF laws Y])
  have BV: "B \<in> V" using combine_in[OF laws] YV public_in[OF laws] r comb by blast
  obtain B1 k a Cp e sc where k: "keyset_of s (bm_id x) = Some k" and a: "map_of (k_private_keys k) (bm_amount x) = Some a"
    and B1: "pk_from_hex ?C (bm_B x) = Inr B1" and bob: "step2_bob ?C B1 a (nonce E (bm_B x)) = Inr (Cp, e, sc)"
    and pr: "pr = \<lparr>pp_id = bm_id x, pp_B = B1, pp_amount = bm_amount x, pp_C = Cp, pp_e = e, pp_s = sc\<rparr>"
    using sign by (auto simp: prepare_signature_def bindR_Inr the_keyset_def)
  have B1B: "B1 = B" using B1 pk_hex_back[OF enc BV] by (simp add: x)
  have aK: "a \<in> K" using mk k a by (auto simp: mint_keys_def)
  obtain wk where wk: "map_of (w_keysets (ww w)) (bm_id x) = Some wk" "map_of (wk_public_keys wk) (bm_amount x) = Some (pt_public ?C a)"
    using kk k a unfolding keys_known_def by blast
  have d: "step2_bob_dleq ?C B a (nonce E (bm_B x)) = Inr (e, sc)" and Cp: "Cp = pk_mul ?C B a"
    using bob B1B by (auto simp: step2_bob_def bindR_Inr)
  have CpV: "Cp \<in> V" using multiply_in[OF laws] BV aK by (simp add: Cp pk_mul_def)
  have CuV: "pk_mul ?C Y a \<in> V" using multiply_in[OF laws] YV aK by (simp add: pk_mul_def)
  have eK: "e \<in> K" and sK: "sc \<in> K" using dleq_scalars[OF laws aK n BV d] by auto
  note s3 = unblind(2)[OF laws aK r B Y, folded Cp]
  note carol = carol_complete[OF laws aK r n B d Y]
  show ?thesis
    using wk i
    by (simp add: construct_proof_def bindS_def thenS_def whenS_def signature_of_def pr C pk_hex_back[OF enc CpV] s3
        blind_step1[OF nd] r' B[unfolded r'] Y_of_def Y good_money_def pk_hex_back[OF enc CuV] sk_hex_back[OF enc r]
        sk_hex_back[OF enc eK, folded scalar_hex_def] sk_hex_back[OF enc sK, folded scalar_hex_def] carol
        verify_proof_bdhke_def the_keyset_def k a verify_def token_proof.truncate_def)
qed

section \<open>All outputs of a swap\<close>

text \<open>An output and the secret, the amount and the blinding factor it was made of.\<close>

definition blinded :: "curve \<Rightarrow> int set \<Rightarrow> string \<Rightarrow> string \<times> int \<times> int \<Rightarrow> blinded_message \<Rightarrow> bool" where
  "blinded C K kid = (\<lambda>(secret, amount, r) x. r \<in> K \<and> (\<exists>B. step1_alice C secret r = Inr (B, r) \<and>
     x = \<lparr>bm_amount = amount, bm_id = kid, bm_B = pk_hex C B, bm_C = None\<rparr>))"

definition key_source :: "wallet_env \<Rightarrow> int set \<Rightarrow> bool" where
  "key_source Vw K \<longleftrightarrow> (\<forall>n. draw_key Vw n \<in> K)"

lemma construct_output_ok:
  assumes "construct_output Vw kid (secret, amount, r0) w = (Inr (x, r), w')" and "same_curve Vw E V K" and "key_source Vw K"
    and "\<forall>r1. r0 = Some r1 \<longrightarrow> r1 \<in> K"
  shows "blinded (crv E) K kid (secret, amount, r) x \<and> ww w' = ww w \<and> wdb w' = wdb w \<and> wmint w' = wmint w"
proof -
  have C: "crv (wenv Vw) = crv E" and nd: "\<not> use_deprecated_h2c Vw" using assms(2) by (simp_all add: same_curve_def)
  obtain r1 B where r1: "r1 \<in> K" and B: "step1_alice (crv E) secret r1 = Inr (B, r)"
    and x: "x = \<lparr>bm_amount = amount, bm_id = kid, bm_B = pk_hex (crv E) B, bm_C = None\<rparr>"
    and w': "ww w' = ww w \<and> wdb w' = wdb w \<and> wmint w' = wmint w"
    using assms(1,3,4) by (cases r0; (auto simp: construct_output_def blind_step1[OF nd] C key_source_def elim!: bindS_OkE split: prod.splits; blast))
  have "r = r1" using B by (auto simp: step1_alice_def bindR_Inr)
  then show ?thesis using r1 B x w' by (auto simp: blinded_def)
qed

lemma construct_output_loop:
  assumes "same_curve Vw E V K" and "key_source Vw K"
  shows "mapS (construct_output Vw kid) xs w = (Inr ys, w') \<Longrightarrow> \<forall>z\<in>set xs. \<forall>r1. snd (snd z) = Some r1 \<longrightarrow> r1 \<in> K \<Longrightarrow>
    list_all2 (\<lambda>z y. blinded (crv E) K kid (fst z, fst (snd z), snd y) (fst y)) xs ys \<and>
    ww w' = ww w \<and> wdb w' = wdb w \<and> wmint w' = wmint w"
proof (induction xs arbitrary: w ys)
  case (Cons z xs)
  obtain secret amount r0 where z: "z = (secret, amount, r0)" by (cases z) auto
  from Cons.prems(1) obtain x r w1 ys' where 1: "construct_output Vw kid (secret, amount, r0) w = (Inr (x, r), w1)"
    and 2: "mapS (construct_output Vw kid) xs w1 = (Inr ys', w')" and ys: "ys = (x, r) # ys'"
    by (auto simp: z elim!: bindS_OkE)
  have "\<forall>r1. r0 = Some r1 \<longrightarrow> r1 \<in> K" using Cons.prems(2) by (simp add: z)
  from construct_output_ok[OF 1 assms this] Cons.IH[OF 2] Cons.prems(2) show ?case by (simp add: z ys)
qed simp

lemma zip_loop:
  "length xs = n \<Longrightarrow> length amounts = n \<Longrightarrow> length rs = n \<Longrightarrow>
   list_all2 (\<lambda>z y. Q (fst z, fst (snd z), snd y) (fst y)) (zip xs (zip amounts rs)) ys \<Longrightarrow>
   list_all2 Q (zip xs (zip amounts (List.map snd ys))) (List.map fst ys) \<and> length ys = n"
  by (auto simp: list_all2_conv_all_nth)

lemma construct_outputs_ok:
  assumes "construct_outputs Vw amounts secrets rs0 kid w = (Inr (outs, rs), w')" and "same_curve Vw E V K" and "key_source Vw K"
    and "set rs0 \<subseteq> K" and "rs0 = [] \<or> length rs0 = length amounts"
  shows "length secrets = length amounts \<and> length rs = length amounts \<and>
    list_all2 (blinded (crv E) K (if truthy_str kid then the kid else w_keyset_id (ww w))) (zip secrets (zip amounts rs)) outs \<and>
    ww w' = ww w \<and> wdb w' = wdb w \<and> wmint w' = wmint w"
proof -
  let ?kid = "if truthy_str kid then the kid else w_keyset_id (ww w)"
    and ?rs = "if rs0 = [] then replicate (length amounts) None else List.map Some rs0"
  from assms(1) obtain l where len: "length amounts = length secrets"
    and l: "mapS (construct_output Vw ?kid) (zip secrets (zip amounts ?rs)) w = (Inr l, w')" and o: "outs = List.map fst l" "rs = List.map snd l"
    by (auto simp: construct_outputs_def Let_def elim!: bindS_OkE thenS_OkE)
  have "\<forall>z\<in>set (zip secrets (zip amounts ?rs)). \<forall>r1. snd (snd z) = Some r1 \<longrightarrow> r1 \<in> K"
    using assms(4) by (auto dest!: set_zip_rightD)
  note loop = construct_output_loop[OF assms(2,3) l this]
  have "length ?rs = length amounts" using assms(5) by auto
  from zip_loop[OF len[symmetric] refl this conjunct1[OF loop]] loop len show ?thesis by (simp add: o)
qed

lemma construct_proof_loop:
  assumes "same_curve Vw E V K" and "mint_keys K s" and "keys_known (crv E) (w_keysets (ww w)) s" and "kid \<noteq> []"
  shows "list_all2 (blinded (crv E) K kid) (zip secrets (zip amounts rs)) outs \<Longrightarrow> mapR (prepare_signature E s) outs = Inr prs \<Longrightarrow>
    length secrets = length outs \<Longrightarrow> length amounts = length outs \<Longrightarrow> length rs = length outs \<Longrightarrow> length paths = length outs \<Longrightarrow>
    \<exists>ps. mapS (construct_proof Vw A) (zip (List.map (signature_of E) prs) (zip secrets (zip rs paths))) w = (Inr ps, w) \<and>
      List.map p_amount ps = amounts \<and> List.map p_secret ps = secrets \<and> (\<forall>p\<in>set ps. p_id p = kid \<and> good_money E s (w_keysets (ww w)) p)"
proof (induction outs arbitrary: secrets amounts rs paths prs)
  case (Cons x outs)
  obtain secret secrets' amount amounts' r rs' path paths' where l: "secrets = secret # secrets'" "amounts = amount # amounts'"
    "rs = r # rs'" "paths = path # paths'"
    using Cons.prems(3-6) by (metis length_Suc_conv)
  obtain pr prs' where pr: "prepare_signature E s x = Inr pr" and prs: "mapR (prepare_signature E s) outs = Inr prs'" "prs = pr # prs'"
    using Cons.prems(2) by (auto simp: bindR_Inr)
  obtain B where rK: "r \<in> K" and B: "step1_alice (crv E) secret r = Inr (B, r)"
    and x: "x = \<lparr>bm_amount = amount, bm_id = kid, bm_B = pk_hex (crv E) B, bm_C = None\<rparr>"
    using Cons.prems(1) by (auto simp: l blinded_def)
  obtain p where p: "construct_proof Vw A (signature_of E pr, secret, r, path) w = (Inr p, w)" "p_id p = kid" "p_amount p = amount"
      "p_secret p = secret" "good_money E s (w_keysets (ww w)) p"
    using issued_one[OF assms(1-3) rK B _ pr, of A path] assms(4) by (auto simp: x)
  have "list_all2 (blinded (crv E) K kid) (zip secrets' (zip amounts' rs')) outs" using Cons.prems(1) by (simp add: l)
  from Cons.IH[OF this prs(1), of paths'] Cons.prems(3-6) obtain ps where
    "mapS (construct_proof Vw A) (zip (List.map (signature_of E) prs') (zip secrets' (zip rs' paths'))) w = (Inr ps, w)"
    "List.map p_amount ps = amounts'" "List.map p_secret ps = secrets'" "\<forall>p\<in>set ps. p_id p = kid \<and> good_money E s (w_keysets (ww w)) p"
    by (auto simp: l)
  with p show ?case by (simp add: l prs(2) bindS_def)
qed simp

lemma dleq_all: "\<forall>p\<in>set ps. p_dleq p \<noteq> None \<and> verify_proofs_dleq C ks [p] = Inr () \<Longrightarrow> verify_proofs_dleq C ks ps = Inr ()"
proof (induction ps)
  case (Cons p ps)
  from Cons.prems have p: "p_dleq p \<noteq> None" "verify_proofs_dleq C ks [p] = Inr ()" and "verify_proofs_dleq C ks ps = Inr ()"
    using Cons.IH by simp_all
  then show ?case by (auto simp: bindR_Inr)
qed simp

text \<open>New secrets, each once: then the proofs are stored.\<close>

lemma store_proofs_ok:
  "distinct (List.map p_secret ps) \<Longrightarrow> \<forall>p\<in>set ps. \<not> secret_used (p_secret p) (wdb w) \<Longrightarrow>
   forS ps (\<lambda>p. exec_db (wallet_store_proof p)) w = (Inr (), w\<lparr>wdb := (wdb w)\<lparr>wd_proofs := wd_proofs (wdb w) @ List.map proof_to_wrow ps\<rparr>\<rparr>)"
proof (induction ps arbitrary: w)
  case (Cons p ps)
  let ?w = "w\<lparr>wdb := (wdb w)\<lparr>wd_proofs := wd_proofs (wdb w) @ [proof_to_wrow p]\<rparr>\<rparr>"
  have "exec_db (wallet_store_proof p) w = (Inr (), ?w)"
    using Cons.prems by (simp add: exec_db_def wallet_store_proof_def insert_unique_def proof_to_wrow_def secret_used_def)
  moreover have "\<forall>q\<in>set ps. \<not> secret_used (p_secret q) (wdb ?w)"
    using Cons.prems by (auto simp: secret_used_def proof_to_wrow_def) (metis imageI)
  ultimately show ?case using Cons.IH[of ?w] Cons.prems by (simp add: thenS_def bindS_def)
qed simp

section \<open>A swap gives money\<close>

text \<open>What the mint signed in a swap, in terms of the state before it.\<close>

lemma swap_signatures:
  assumes "swap E ps outs s = (Inr sigs, t)" and "wf_keysets s" and "\<forall>x\<in>set outs. canonical E x"
  obtains prs where "mapR (prepare_signature E s) outs = Inr prs" "sigs = List.map (signature_of E) prs" "keysets t = keysets s"
proof -
  from assms(1,2) show ?thesis
  proof (cases rule: swapE)
    case (run s1 r1 s2)
    note s1 = verify_spent_and_set_pending_Ok(1)[OF run(2) assms(2)]
    have k1: "keysets s1 = keysets s" using s1 by simp
    then have w1: "wf_keysets s1" using assms(2) by (simp add: wf_keysets_def keyset_of_def)
    obtain prs where prs: "mapR (prepare_signature E s1) outs = Inr prs" "sigs = List.map (signature_of E) prs"
      using swap_body_Ok[OF run(3)[unfolded run(4)[symmetric]] w1 assms(3)] by blast
    have "prepare_signature E s1 = prepare_signature E s"
      by (rule ext) (simp add: prepare_signature_def keyset_of_def the_keyset_def k1)
    moreover have "keysets t = keysets s" using run(5) swap_body_keysets[OF run(3)] k1 by simp
    ultimately show ?thesis using that prs by simp
  qed simp
qed

lemma blinded_canonical:
  assumes "same_curve Vw E V K" and "list_all2 (blinded (crv E) K kid) zs outs"
  shows "\<forall>x\<in>set outs. canonical E x"
proof
  fix x assume "x \<in> set outs"
  then obtain z where "blinded (crv E) K kid z x" using assms(2) by (metis list_all2_conv_all_nth in_set_conv_nth)
  then obtain secret r B where r: "r \<in> K" and B: "step1_alice (crv E) secret r = Inr (B, r)" and x: "bm_B x = pk_hex (crv E) B"
    by (cases z) (auto simp: blinded_def)
  have laws: "curve_laws (crv E) V K" and enc: "encodings (crv E) V K" using assms(1) by (simp_all add: same_curve_def)
  have "B \<in> V" using B hash_to_curve_in[OF laws] combine_in[OF laws] public_in[OF laws] r by (elim step1_aliceE) blast
  then show "canonical E x" using pk_hex_back[OF enc] by (simp add: canonical_def x)
qed

lemma mapR_projr: "mapR f xs = Inr ys \<Longrightarrow> ys = List.map (projr \<circ> f) xs \<and> (\<forall>x\<in>set xs. f x = Inr (projr (f x)))"
  by (induction xs arbitrary: ys) (auto simp: bindR_Inr)

lemma mapR_of_projr: "\<forall>x\<in>set xs. f x = Inr (projr (f x)) \<Longrightarrow> mapR f xs = Inr (List.map (projr \<circ> f) xs)"
  by (induction xs) (auto, metis bindR_simps(2))

lemma set_sort_outputs: "snd ` set (sort_outputs outs) = set outs"
proof -
  have "set (sort_outputs outs) = set (zip [0..<length outs] outs)" by (simp add: sort_outputs_def)
  moreover have "snd ` set (zip [0..<length outs] outs) = set (List.map snd (zip [0..<length outs] outs))" by (simp only: set_map)
  ultimately show ?thesis by (simp del: set_map)
qed

lemma swap_unblinds:
  assumes "same_curve Vw E V K" and "mint_keys K s" and "keys_known (crv E) (w_keysets (ww w)) s" and "wf_keysets s" and "kid \<noteq> []"
    and b: "list_all2 (blinded (crv E) K kid) (zip secrets (zip amounts rs)) outs"
    and len: "length secrets = length amounts" "length rs = length amounts" "length paths = length amounts"
    and run: "swap E ins (List.map snd (sort_outputs outs)) s = (Inr sigs, t)"
  obtains ps where
    "mapS (construct_proof Vw A) (zip (unsort (List.map fst (sort_outputs outs)) sigs) (zip secrets (zip rs paths))) w = (Inr ps, w)"
    "List.map p_amount ps = amounts" "List.map p_secret ps = secrets" "\<forall>p\<in>set ps. good_money E t (w_keysets (ww w)) p"
proof -
  let ?so = "sort_outputs outs"
  have lo: "length outs = length amounts" using list_all2_lengthD[OF b] len by simp
  have set_so: "set (List.map snd ?so) = set outs" by (simp add: set_sort_outputs)
  then have "\<forall>x\<in>set (List.map snd ?so). canonical E x" using blinded_canonical[OF assms(1) b] by simp
  then obtain prs where prs: "mapR (prepare_signature E s) (List.map snd ?so) = Inr prs" "sigs = List.map (signature_of E) prs"
    and kt: "keysets t = keysets s" by (rule swap_signatures[OF run assms(4)])
  let ?sign = "projr \<circ> prepare_signature E s"
  have m: "prs = List.map ?sign (List.map snd ?so)" "\<forall>x\<in>set outs. prepare_signature E s x = Inr (projr (prepare_signature E s x))"
    using mapR_projr[OF prs(1)] unfolding set_so by blast+
  have prep: "mapR (prepare_signature E s) outs = Inr (List.map ?sign outs)" by (rule mapR_of_projr[OF m(2)])
  have u: "unsort (List.map fst ?so) sigs = List.map (signature_of E) (List.map ?sign outs)"
    using unsort_sorted[of outs "signature_of E \<circ> ?sign"] by (simp add: prs(2) m(1) comp_def)
  from prep construct_proof_loop[OF assms(1-3,5) b] len lo obtain ps where
    ps: "mapS (construct_proof Vw A) (zip (List.map (signature_of E) (List.map ?sign outs)) (zip secrets (zip rs paths))) w = (Inr ps, w)"
    "List.map p_amount ps = amounts" "List.map p_secret ps = secrets" "\<forall>p\<in>set ps. p_id p = kid \<and> good_money E s (w_keysets (ww w)) p"
    by metis
  have "good_money E t ks p = good_money E s ks p" for ks p
    by (simp add: good_money_def verify_proof_bdhke_def the_keyset_def keyset_of_def kt)
  with that ps u show thesis by simp
qed

lemma good_money_dleq: "\<forall>p\<in>set ps. good_money E t ks p \<Longrightarrow> verify_proofs_dleq (crv E) ks ps = Inr ()"
  by (rule dleq_all) (simp add: good_money_def)

text \<open>Once the mint has answered a swap, the wallet has the money: its outputs were sent sorted by amount, and of the
  signatures it makes, in the order of the outputs, one proof of each amount under each secret, which are stored and
  which the mint accepts from then on, with DLEQ proofs that others can check.\<close>

theorem swap_gives_money:
  assumes "same_curve Vw E V K" and "mint_keys K s" and "keys_known (crv E) (w_keysets (ww w)) s" and "wf_keysets s"
    and "key_source Vw K" and "set rs0 \<subseteq> K" and "rs0 = [] \<or> length rs0 = length amounts" and "kid \<noteq> []"
    and "construct_outputs Vw amounts secrets rs0 (Some kid) w0 = (Inr (outs, rs), w1)"
    and "swap E ins (List.map snd (sort_outputs outs)) s = (Inr sigs, t)"
    and "distinct secrets" and "\<forall>x\<in>set secrets. \<not> secret_used x (wdb w)" and "length paths = length amounts"
  shows "\<exists>ps. construct_proofs Vw A (unsort (List.map fst (sort_outputs outs)) sigs) secrets rs paths w =
      (Inr ps, w\<lparr>ww := (ww w)\<lparr>w_proofs := w_proofs (ww w) @ ps\<rparr>,
                 wdb := (wdb w)\<lparr>wd_proofs := wd_proofs (wdb w) @ List.map proof_to_wrow ps\<rparr>\<rparr>) \<and>
    List.map p_amount ps = amounts \<and> List.map p_secret ps = secrets \<and>
    (\<forall>p\<in>set ps. good_money E t (w_keysets (ww w)) p)"
proof -
  have o: "list_all2 (blinded (crv E) K kid) (zip secrets (zip amounts rs)) outs" "length secrets = length amounts" "length rs = length amounts"
    using construct_outputs_ok[OF assms(9,1,5,6,7)] assms(8) by (simp_all add: truthy_str_def)
  obtain ps where ps: "mapS (construct_proof Vw A) (zip (unsort (List.map fst (sort_outputs outs)) sigs) (zip secrets (zip rs paths))) w = (Inr ps, w)"
    "List.map p_amount ps = amounts" "List.map p_secret ps = secrets" "\<forall>p\<in>set ps. good_money E t (w_keysets (ww w)) p"
    by (rule swap_unblinds[OF assms(1-4,8) o assms(13,10)])
  have "crv (wenv Vw) = crv E" using assms(1) by (simp add: same_curve_def)
  moreover have "\<forall>p\<in>set ps. \<not> secret_used (p_secret p) (wdb w)" using ps(3) assms(12) by (metis in_set_conv_nth length_map nth_map)
  ultimately show ?thesis
    using store_proofs_ok[of ps "w\<lparr>ww := (ww w)\<lparr>w_proofs := w_proofs (ww w) @ ps\<rparr>\<rparr>"] assms(11) ps good_money_dleq[OF ps(4)]
    by (simp add: construct_proofs_def store_proofs_def wtransaction_def bindS_def thenS_def)
qed

text \<open>The witness: three outputs of 4, 2 and 1, swapped for a coin of 8 with the sample mint.\<close>

abbreviation sample_K :: "int set" where
  "sample_K \<equiv> {1, 2, 3, 4}"

lemma sample_same_curve: "same_curve sample_venv sample_env {1, 2, 3, 4} sample_K" "key_source sample_venv sample_K"
proof -
  have "encodings z5_curve {1, 2, 3, 4} sample_K" by (simp add: encodings_def z5_curve_def)
  then show "same_curve sample_venv sample_env {1, 2, 3, 4} sample_K"
    using z5_curve_laws by (simp add: same_curve_def sample_venv_def sample_env_def)
  have "1 + int n mod 3 \<in> sample_K" for n
  proof -
    have "0 \<le> int n mod 3 \<and> int n mod 3 < 3" by simp
    then show ?thesis by (simp only: insert_iff empty_iff) linarith
  qed
  then show "key_source sample_venv sample_K" by (simp add: key_source_def sample_venv_def)
qed

lemma sample_mint_keys: "mint_keys sample_K sample_ledger" "keys_known (crv sample_env) (w_keysets empty_wallet) sample_ledger"
  "wf_keysets sample_ledger"
proof -
  have k: "keyset_of sample_ledger i = Some k \<longleftrightarrow> i = ''00ks'' \<and> k = sample_keyset" for i k
    by (auto simp: keyset_of_def sample_ledger_def)
  show "mint_keys sample_K sample_ledger"
    by (auto simp: mint_keys_def k sample_keyset_def split: if_splits)
  show "keys_known (crv sample_env) (w_keysets empty_wallet) sample_ledger"
    by (auto simp: keys_known_def k sample_keyset_def empty_wallet_def sample_wallet_keyset_def sample_env_def z5_curve_def split: if_splits)
  show "wf_keysets sample_ledger" using sample_wf(1) by (simp add: wf_ledger_def)
qed

definition sample_secrets :: "string list" where
  "sample_secrets = [''u'', ''w'', ''y'']"

definition sample_made :: "blinded_message list \<times> int list" where
  "sample_made = projr (fst (construct_outputs sample_venv [4, 2, 1] sample_secrets [1, 2, 3] (Some ''00ks'') (sample_world sample_ledger)))"

lemma sample_made_runs:
  "isOk (fst (construct_outputs sample_venv [4, 2, 1] sample_secrets [1, 2, 3] (Some ''00ks'') (sample_world sample_ledger)))"
  "isOk (fst (swap sample_env swap_in (List.map snd (sort_outputs (fst sample_made))) sample_ledger))"
  by code_simp+

theorem swap_gives_money_witness:
  "\<exists>ps. fst (construct_proofs sample_venv no_mint (unsort (List.map fst (sort_outputs (fst sample_made)))
      (projr (fst (swap sample_env swap_in (List.map snd (sort_outputs (fst sample_made))) sample_ledger))))
      sample_secrets (snd sample_made) [[], [], []] (sample_world sample_ledger)) = Inr ps \<and> List.map p_amount ps = [4, 2, 1]"
proof -
  let ?w = "sample_world sample_ledger"
  obtain w1 where c: "construct_outputs sample_venv [4, 2, 1] sample_secrets [1, 2, 3] (Some ''00ks'') ?w =
      (Inr (fst sample_made, snd sample_made), w1)"
    using isOk_run[OF sample_made_runs(1)] by (simp add: sample_made_def)
  have ks: "w_keysets (ww ?w) = w_keysets empty_wallet" "wd_proofs (wdb ?w) = []" by (simp_all add: sample_world_def sample_wallet_db_def)
  show ?thesis
    using swap_gives_money[OF sample_same_curve(1) sample_mint_keys(1) _ sample_mint_keys(3) sample_same_curve(2) _ _ _ c
      isOk_run[OF sample_made_runs(2)], of ?w "[[], [], []]" no_mint]
    by (auto simp: ks sample_mint_keys(2) sample_secrets_def secret_used_def)
qed

end
