(* ===== verification/WalletHistory.thy ===== *)
theory WalletHistory
  imports Effects WalletSamples
begin

text \<open>
  A wallet over time. \<open>wallet_step\<close> is one operation of a wallet, run to its end, whether it returns or raises, with
  any mint at the other end, settings and random numbers that may differ from step to step. The locales
  \<open>keyset_invariant\<close> and \<open>wallet_invariant\<close> collect what the statements on the database have to keep for a
  predicate on it to be kept by every operation; the instances are the counters of the secrets, the secrets that the
  database holds, and their being different.
\<close>

lemma keeps_error_case: "(\<And>x. e = ValueError x \<Longrightarrow> keeps K (f x)) \<Longrightarrow> keeps K m \<Longrightarrow> keeps K (case e of ValueError x \<Rightarrow> f x | _ \<Rightarrow> m)"
  by (cases e) auto

section \<open>What every operation keeps\<close>

locale keyset_invariant =
  fixes J :: "wallet_db \<Rightarrow> bool"
  assumes store_keyset: "J d \<Longrightarrow> wallet_store_keyset C k u d = Inr d' \<Longrightarrow> J d'"
    and update_keyset: "J d \<Longrightarrow> J (wallet_update_keyset k d)"
    and store_mint: "J d \<Longrightarrow> J (store_mint m d)"
    and update_mint: "J d \<Longrightarrow> J (update_mint m d)"
begin

abbreviation I :: "'m world \<Rightarrow> bool" where
  "I w \<equiv> J (wdb w)"

lemma get: "keeps I (get_w f)" and set_w: "keeps I (mod_w g)" and rd: "keeps I (read_db h)" and rnd: "keeps I (draw d)"
  and res: "keeps I (lift_res r)"
  by (simp_all add: keeps_def)

lemma wr: "(\<And>d. J d \<Longrightarrow> J (f d)) \<Longrightarrow> keeps I (write_db f)"
  by (simp add: keeps_def)

lemma wexe: "(\<And>d d'. J d \<Longrightarrow> f d = Inr d' \<Longrightarrow> J d') \<Longrightarrow> keeps I (exec_db f)"
  by (auto simp: keeps_def exec_db_def split: sum.splits)

lemma ask: "keeps I (call_mint f)"
  by (simp add: keeps_def call_mint_apply)

lemma tx: "keeps I m \<Longrightarrow> keeps I (wtransaction m)"
  by (fastforce simp: keeps_def wtransaction_def split: prod.splits sum.splits)

lemmas rules = get set_w rd rnd res ask tx keeps_returnS keeps_raiseS keeps_getS keeps_liftS keeps_guardS keeps_bindS keeps_thenS
  keeps_whenS keeps_catchS keeps_forS keeps_mapS keeps_if keeps_option keeps_prod keeps_sum

lemma list_case: "keeps K m \<Longrightarrow> (\<And>x xs. keeps K (f x xs)) \<Longrightarrow> keeps K (case l of [] \<Rightarrow> m | x # xs \<Rightarrow> f x xs)"
  by (cases l) auto

lemma store: "keeps I (exec_db (wallet_store_keyset C k u))"
  by (rule wexe) (rule store_keyset)

lemma inactivate: "keeps I (wallet_inactivate_base64_keysets V b)"
  unfolding wallet_inactivate_base64_keysets_def wallet_inactivate_one_def
  by (intro rules wr) (rule update_keyset)

lemma load_keysets: "keeps I (load_keysets_from_db V a b)"
  unfolding load_keysets_from_db_def by (intro rules)

lemma get_keys: "keeps I (api_get_keys V A)" and get_keyset: "keeps I (api_get_keyset V A i)" and get_keysets: "keeps I (api_get_keysets A)"
  unfolding api_get_keys_def api_get_keyset_def api_get_keysets_def by (intro rules list_case)+

lemma mint_keysets: "keeps I (load_mint_keysets V A b)"
  unfolding load_mint_keysets_def Let_def store_first_keyset_def store_new_keyset_def refresh_keyset_def
  by (intro rules store inactivate load_keysets get_keys get_keyset get_keysets wr) (rule update_keyset)

lemma activate: "keeps I (wallet_activate_keyset V A i)"
  unfolding wallet_activate_keyset_def Let_def by (intro rules mint_keysets)

lemma info: "keeps I (load_mint_info A a b)"
  unfolding load_mint_info_def set_info_def store_info_def by (intro rules wr) (assumption | rule store_mint update_mint)+

lemma load: "keeps I (load_mint V A i b)"
  unfolding load_mint_def by (intro rules mint_keysets activate info)

lemma ensure: "keeps I m \<Longrightarrow> keeps I (ensure_mint_loaded V A m)"
  unfolding ensure_mint_loaded_def by (intro rules load)

lemma requests: "keeps I (api_mint_quote V A n u memo pk)" "keeps I (api_get_mint_quote V A q)" "keeps I (api_mint V A outs q sig)"
  "keeps I (api_melt_quote V A pr u am)" "keeps I (api_get_melt_quote V A q)" "keeps I (api_melt V A q ps outs)"
  "keeps I (api_split V A ps outs)" "keeps I (api_check_proof_state V A ps)" "keeps I (api_restore_promises V A outs)"
  unfolding api_mint_quote_def api_get_mint_quote_def api_mint_def api_melt_quote_def api_get_melt_quote_def api_melt_def
    api_split_def api_check_proof_state_def api_restore_promises_def
  by (intro ensure rules)+

end

locale wallet_invariant = keyset_invariant +
  assumes store_proof: "J d \<Longrightarrow> wallet_store_proof p d = Inr d' \<Longrightarrow> J d'"
    and invalidate_proof: "J d \<Longrightarrow> J (snd (wallet_invalidate_proof p d))"
    and update_proof: "J d \<Longrightarrow> J (WalletStore.update_proof p u d)"
    and bump: "0 \<le> n \<Longrightarrow> J d \<Longrightarrow> J (snd (bump_secret_derivation kid n b d))"
    and new_mint_quote: "J d \<Longrightarrow> store_bolt11_mint_quote mq d = Inr d' \<Longrightarrow> J d'"
    and new_melt_quote: "J d \<Longrightarrow> store_bolt11_melt_quote lq d = Inr d' \<Longrightarrow> J d'"
    and mint_quote_state: "J d \<Longrightarrow> J (update_bolt11_mint_quote q st n d)"
    and melt_quote_state: "J d \<Longrightarrow> J (update_bolt11_melt_quote q lst n k pre d)"
    and new_seed: "J d \<Longrightarrow> store_seed_and_mnemonic seed words d = Inr d' \<Longrightarrow> J d'"
begin

lemma private_key: "keeps I (init_private_key V m)"
  unfolding init_private_key_def Let_def init_bip32_def
  by (intro rules wexe) (assumption | rule new_seed | (rule keeps_error_case; intro rules))+

lemma secrets: "keeps I (generate_n_secrets V n b)"
  unfolding generate_n_secrets_def by (intro rules wr) (auto intro: bump)

lemma locked: "keeps I (generate_locked_secrets V a b lock)"
  unfolding generate_locked_secrets_def Let_def serialize_lock_def generate_random_secret_def by (intro rules)

lemma used_secrets: "keeps I (check_used_secrets secs)"
  unfolding check_used_secrets_def by (intro rules)

lemma outputs: "keeps I (construct_outputs V amounts secs rs kid)"
  unfolding construct_outputs_def construct_output_def Let_def by (intro rules)

lemma marking: "keeps I (mark_shared ps f)" and witnesses: "keeps I (share_witnesses ps)"
  unfolding share_witnesses_def mark_shared_def by (intro rules)+

lemma proofs: "keeps I (construct_proofs V A sigs secs rs paths)"
  unfolding construct_proofs_def construct_proof_def store_proofs_def
  by (intro rules mint_keysets wexe) (rule store_proof)

lemma in_db: "keeps I (invalidate_in_db p)"
  by (auto simp: keeps_def invalidate_in_db_def intro: invalidate_proof)

lemma states: "keeps I (get_spent_proofs_check_states_batched V A ps)"
  unfolding get_spent_proofs_check_states_batched_def by (intro rules requests)

lemma invalidated: "keeps I (invalidate V A ps b)"
  unfolding invalidate_def by (intro rules states in_db)

lemma reserved_melt: "keeps I (set_reserved_for_melt ps b q)" and reserved_send: "keeps I (set_reserved_for_send V ps b)"
  unfolding set_reserved_for_melt_def set_reserved_for_send_def by (intro rules marking wr; (assumption | rule update_proof)+)+

lemma proofs_loaded: "keeps I (load_proofs V a b)"
  unfolding load_proofs_def by (intro rules load_keysets)

lemma split_kept: "keeps I (wallet_split V A ps n lock b)"
  unfolding wallet_split_def Let_def
  by (intro rules secrets locked used_secrets outputs witnesses requests proofs invalidated)

lemma redeemed: "keeps I (redeem V A ps)"
  unfolding redeem_def by (intro rules split_kept)

lemma swapped: "keeps I (swap_to_send V A ps n lock a b)"
  unfolding swap_to_send_def by (intro rules split_kept reserved_send)

lemma selected: "keeps I (select_to_send V A ps n a b c)"
  unfolding select_to_send_def by (intro rules swapped reserved_send)

lemma mint_requested: "keeps I (request_mint V A n memo)"
  unfolding request_mint_def generate_keypair_def Let_def by (intro rules requests wexe) (rule new_mint_quote)

lemma mint_quote_got: "keeps I (wallet_get_mint_quote V A q)"
  unfolding wallet_get_mint_quote_def Let_def by (intro rules requests wexe) (rule new_mint_quote)

lemma minted: "keeps I (wallet_mint V A n q split)"
  unfolding wallet_mint_def
  by (intro rules secrets used_secrets outputs requests proofs marking wr) (assumption | rule bump mint_quote_state update_proof of_nat_0_le_iff)+

lemma melt_requested: "keeps I (wallet_melt_quote V A b invoice am)"
  unfolding wallet_melt_quote_def by (intro rules requests wexe) (rule new_melt_quote)

lemma melt_quote_got: "keeps I (wallet_get_melt_quote V A q)"
  unfolding wallet_get_melt_quote_def
  by (intro rules requests invalidated reserved_melt wr wexe) (assumption | rule new_melt_quote melt_quote_state)+

lemma melted: "keeps I (wallet_melt V A ps invoice fee q)"
  unfolding wallet_melt_def Let_def
  by (intro rules secrets outputs witnesses requests proofs invalidated reserved_melt wr) (rule melt_quote_state)

end

text \<open>Restoring from a seed also sets the counter of a keyset.\<close>

locale restore_invariant = wallet_invariant +
  assumes bump_back: "J d \<Longrightarrow> J (snd (bump_secret_derivation kid n b d))"
    and set_counter: "J d \<Longrightarrow> J (set_secret_derivation kid n d)"
begin

lemma restored_batch: "keeps I (restore_promises_from_to V A kid a b)"
  unfolding restore_promises_from_to_def restore_promises_def Let_def
  by (intro rules outputs requests proofs wr) (rule set_counter)

lemma restored_loop:
  assumes "restore_loop V A kid to batch eb i n s = Some (r, t)" and "J (wdb s)"
  shows "J (wdb t)"
proof -
  have "J (wdb s) \<longrightarrow> J (wdb (snd (r, t)))"
  proof (rule restore_loop.raw_induct[where P = "\<lambda>V A kid to batch eb i n s y. J (wdb s) \<longrightarrow> J (wdb (snd y))", OF _ assms(1)])
    fix f :: "wallet_env \<Rightarrow> 'a mint_api \<Rightarrow> string \<Rightarrow> int \<Rightarrow> int \<Rightarrow> int \<Rightarrow> int \<Rightarrow> int \<Rightarrow> 'a world \<Rightarrow> ((error + int \<times> int) \<times> 'a world) option"
      and V and A :: "'a mint_api" and kid to batch eb i n s y
    assume IH: "\<And>V A kid to batch eb i n s y. f V A kid to batch eb i n s = Some y \<Longrightarrow> J (wdb s) \<longrightarrow> J (wdb (snd y))"
      and run: "(if eb < to then (case restore_promises_from_to V A kid i (i + batch - 1) s of
           (Inl e, t) \<Rightarrow> Some (Inl e, t)
         | (Inr (m, ps), t) \<Rightarrow>
             if ps = [] then f V A kid to batch (eb + 1) (i + batch) (n + int m) t
             else (case invalidate V A ps True t of
                     (Inl e, u) \<Rightarrow> Some (Inl e, u)
                   | (Inr _, u) \<Rightarrow> f V A kid to batch eb (i + batch) (n + int m) u))
        else Some (Inr (i, n), s)) = Some y"
    obtain r1 t1 where r: "restore_promises_from_to V A kid i (i + batch - 1) s = (r1, t1)" by force
    have 1: "J (wdb s) \<Longrightarrow> J (wdb t1)" using keepsD2[OF restored_batch _ r] .
    have 2: "J (wdb t1) \<Longrightarrow> invalidate V A ps True t1 = (r2, u) \<Longrightarrow> J (wdb u)" for ps r2 u using keepsD2[OF invalidated] .
    show "J (wdb s) \<longrightarrow> J (wdb (snd y))"
    proof (intro impI)
      assume J: "J (wdb s)"
      note t1 = 1[OF J]
      show "J (wdb (snd y))"
      proof (cases "eb < to")
        case True
        note run' = run[unfolded r, simplified True if_True]
        show ?thesis
        proof (cases r1)
          case (Inl e)
          with run' t1 show ?thesis by auto
        next
          case (Inr x)
          obtain m ps where x: "x = (m, ps)" by force
          obtain r2 u where inv: "invalidate V A ps True t1 = (r2, u)" by force
          show ?thesis
          proof (cases "ps = []")
            case True
            with run' Inr x have "f V A kid to batch (eb + 1) (i + batch) (n + int m) t1 = Some y" by simp
            with IH t1 show ?thesis by blast
          next
            case False
            note u = 2[OF t1 inv]
            show ?thesis
            proof (cases r2)
              case (Inl e)
              with run' Inr x False inv u show ?thesis by auto
            next
              case (Inr v)
              with run' \<open>r1 = Inr x\<close> x False inv have "f V A kid to batch eb (i + batch) (n + int m) u = Some y" by simp
              with IH u show ?thesis by blast
            qed
          qed
        qed
      next
        case False
        with run J show ?thesis by auto
      qed
    qed
  qed
  then show ?thesis using assms(2) by simp
qed

lemma restored_keyset: "restore_tokens_for_keyset V A kid to batch s = Some (r, t) \<Longrightarrow> J (wdb s) \<Longrightarrow> J (wdb t)"
  using bump_back[of "wdb s" kid 0 False]
  by (auto simp: restore_tokens_for_keyset_def split: prod.splits option.splits sum.splits dest!: restored_loop intro!: bump_back)

lemma restored_keysets: "restore_keysets V A kids to batch s = Some (r, t) \<Longrightarrow> J (wdb s) \<Longrightarrow> J (wdb t)"
  by (induction kids arbitrary: s) (auto split: option.splits sum.splits dest!: restored_keyset)

lemma restored: "restore_wallet_from_mnemonic V A m to batch s = Some (r, t) \<Longrightarrow> J (wdb s) \<Longrightarrow> J (wdb t)"
  using keepsD[OF keeps_thenS[OF private_key load], of s V m V A "[]" False]
  by (auto simp: restore_wallet_from_mnemonic_def split: prod.splits sum.splits dest!: restored_keysets)

end

section \<open>Steps\<close>

inductive wallet_step :: "'m world \<Rightarrow> 'm world \<Rightarrow> bool" where
  load_mint: "load_mint V A kid b s = (r, t) \<Longrightarrow> wallet_step s t"
| activate: "wallet_activate_keyset V A k s = (r, t) \<Longrightarrow> wallet_step s t"
| load_proofs: "load_proofs V a b s = (r, t) \<Longrightarrow> wallet_step s t"
| private_key: "init_private_key V m s = (r, t) \<Longrightarrow> wallet_step s t"
| split: "wallet_split V A ps n lock b s = (r, t) \<Longrightarrow> wallet_step s t"
| redeem: "redeem V A ps s = (r, t) \<Longrightarrow> wallet_step s t"
| swap_to_send: "swap_to_send V A ps n lock a b s = (r, t) \<Longrightarrow> wallet_step s t"
| select_to_send: "select_to_send V A ps n a b c s = (r1, t) \<Longrightarrow> wallet_step s t"
| set_reserved: "set_reserved_for_send V ps b s = (r, t) \<Longrightarrow> wallet_step s t"
| invalidate: "invalidate V A ps b s = (r1, t) \<Longrightarrow> wallet_step s t"
| request_mint: "request_mint V A n memo s = (r2, t) \<Longrightarrow> wallet_step s t"
| get_mint_quote: "wallet_get_mint_quote V A q s = (r2, t) \<Longrightarrow> wallet_step s t"
| mint: "wallet_mint V A n q sp s = (r3, t) \<Longrightarrow> wallet_step s t"
| melt_quote: "wallet_melt_quote V A mpp invoice am s = (r4, t) \<Longrightarrow> wallet_step s t"
| get_melt_quote: "wallet_get_melt_quote V A q s = (r4, t) \<Longrightarrow> wallet_step s t"
| melt: "wallet_melt V A ps invoice fee q s = (r5, t) \<Longrightarrow> wallet_step s t"

inductive restore_step :: "'m world \<Rightarrow> 'm world \<Rightarrow> bool" where
  "restore_wallet_from_mnemonic V A m to batch s = Some (r, t) \<Longrightarrow> restore_step s t"

abbreviation wallet_steps :: "'m world \<Rightarrow> 'm world \<Rightarrow> bool" where
  "wallet_steps \<equiv> wallet_step\<^sup>*\<^sup>*"

abbreviation wallet_life :: "'m world \<Rightarrow> 'm world \<Rightarrow> bool" where
  "wallet_life \<equiv> (sup wallet_step restore_step)\<^sup>*\<^sup>*"

context wallet_invariant
begin

lemma step_kept: "wallet_step s t \<Longrightarrow> J (wdb s) \<Longrightarrow> J (wdb t)"
  by (induction rule: wallet_step.induct)
    (blast dest: keepsD2[rotated 2] intro: load activate proofs_loaded private_key split_kept redeemed swapped selected reserved_send
      invalidated mint_requested mint_quote_got minted melt_requested melt_quote_got melted)+

lemma steps_kept: "wallet_steps s t \<Longrightarrow> J (wdb s) \<Longrightarrow> J (wdb t)"
  by (induction rule: rtranclp_induct) (auto intro: step_kept)

end

context restore_invariant
begin

lemma life_kept: "wallet_life s t \<Longrightarrow> J (wdb s) \<Longrightarrow> J (wdb t)"
  by (induction rule: rtranclp_induct) (auto intro: step_kept restored elim!: restore_step.cases)

end

section \<open>Counters\<close>

definition counter_at_least :: "string \<Rightarrow> int \<Rightarrow> wallet_db \<Rightarrow> bool" where
  "counter_at_least kid c d \<longleftrightarrow> (\<exists>c'. counter_of kid d = Some c' \<and> c \<le> c')"

text \<open>Statements that leave the identifier of each keyset alone, and do not take from its counter.\<close>

lemma find_map:
  "(\<And>r. wkr_id (f r) = wkr_id r) \<Longrightarrow> filter (\<lambda>r. wkr_id r = kid) (List.map f rs) = List.map f (filter (\<lambda>r. wkr_id r = kid) rs)"
  by (induction rs) auto

lemma counter_map:
  assumes "\<And>r. wkr_id (f r) = wkr_id r" and "\<And>r. wkr_counter r \<le> wkr_counter (f r)" and "wd_keysets d' = List.map f (wd_keysets d)"
    and "counter_at_least kid c d"
  shows "counter_at_least kid c d'"
  using assms(4) by (auto simp: counter_at_least_def counter_of_def assms(3) find_map[OF assms(1)] split: list.splits
    intro: order_trans[OF _ assms(2)])

lemma counter_same: "counter_at_least kid c d \<Longrightarrow> wd_keysets d' = wd_keysets d \<Longrightarrow> counter_at_least kid c d'"
  by (simp add: counter_at_least_def counter_of_def)

lemma counter_append: "counter_at_least kid c d \<Longrightarrow> wd_keysets d' = wd_keysets d @ rs \<Longrightarrow> counter_at_least kid c d'"
  by (auto simp: counter_at_least_def counter_of_def split: list.splits)

lemma bump_keysets:
  "wd_keysets (snd (bump_secret_derivation kid n b d)) =
   (if counter_of kid d = None \<or> b then wd_keysets d
    else List.map (\<lambda>r. if wkr_id r = kid then r\<lparr>wkr_counter := wkr_counter r + n\<rparr> else r) (wd_keysets d))"
proof (cases "counter_of kid d")
  case None
  then have "filter (\<lambda>r. wkr_id r = kid) (wd_keysets d) = []" by (auto simp: counter_of_def split: list.splits)
  then have "\<forall>r\<in>set (wd_keysets d). wkr_id r \<noteq> kid" by (simp add: filter_empty_conv)
  then have "List.map (\<lambda>r. if wkr_id r = kid then f r else r) (wd_keysets d) = wd_keysets d" for f
    by (intro map_idI) auto
  with None show ?thesis by (simp add: bump_secret_derivation_def map_counter_def)
qed (simp add: bump_secret_derivation_def map_counter_def)

lemma keysets_untouched:
  "wallet_store_proof p d = Inr d' \<Longrightarrow> wd_keysets d' = wd_keysets d"
  "wd_keysets (snd (wallet_invalidate_proof p d)) = wd_keysets d" "wd_keysets (WalletStore.update_proof p u d) = wd_keysets d"
  "store_bolt11_mint_quote mq d = Inr d' \<Longrightarrow> wd_keysets d' = wd_keysets d"
  "store_bolt11_melt_quote lq d = Inr d' \<Longrightarrow> wd_keysets d' = wd_keysets d"
  "wd_keysets (update_bolt11_mint_quote q st n d) = wd_keysets d"
  "wd_keysets (update_bolt11_melt_quote q lst n k pre d) = wd_keysets d"
  "store_seed_and_mnemonic seed words d = Inr d' \<Longrightarrow> wd_keysets d' = wd_keysets d"
  "wd_keysets (store_mint m d) = wd_keysets d" "wd_keysets (update_mint m d) = wd_keysets d"
  by (auto simp: wallet_store_proof_def wallet_invalidate_proof_def delete_proof_def thenS_def bindS_def store_mint_def update_mint_def
      update_proof_def store_bolt11_mint_quote_def store_bolt11_melt_quote_def update_bolt11_mint_quote_def
      update_bolt11_melt_quote_def store_seed_and_mnemonic_def bindR_Inr split: sum.splits)

lemma counter_update: "counter_at_least kid c d \<Longrightarrow> counter_at_least kid c (wallet_update_keyset k d)"
  by (rule counter_map[where d = d and f = "\<lambda>r. if wkr_id r = wk_id k
      then r\<lparr>wkr_active := wk_active k, wkr_input_fee_ppk := wk_input_fee_ppk k\<rparr> else r"]) (simp_all add: wallet_update_keyset_def)

lemma counter_bump:
  assumes "0 \<le> n" and "counter_at_least kid c d"
  shows "counter_at_least kid c (snd (bump_secret_derivation kid' n b d))"
proof (cases "counter_of kid' d = None \<or> b")
  case False
  show ?thesis
    by (rule counter_map[where d = d and f = "\<lambda>r. if wkr_id r = kid' then r\<lparr>wkr_counter := wkr_counter r + n\<rparr> else r"])
      (use False assms in \<open>auto simp: bump_keysets\<close>)
qed (use assms in \<open>auto intro: counter_same simp: bump_keysets\<close>)

lemma counter_store: "counter_at_least kid c d \<Longrightarrow> wallet_store_keyset C k u d = Inr d' \<Longrightarrow> counter_at_least kid c d'"
  by (auto simp: wallet_store_keyset_def bindR_Inr Let_def intro: counter_append)

interpretation counters: wallet_invariant "counter_at_least kid c" for kid c
  by (unfold_locales; (erule (1) counter_store | erule counter_update | erule (1) counter_bump |
      (erule counter_same, (erule keysets_untouched | rule keysets_untouched))))

text \<open>C31. However a wallet mints, swaps, sends, receives and melts, and whatever fails on the way, the counter of a keyset,
  from which the next secrets are derived, never goes back.\<close>

theorem counter_never_decreases:
  assumes "wallet_steps s t" and "counter_of kid (wdb s) = Some c"
  shows "\<exists>c'. counter_of kid (wdb t) = Some c' \<and> c \<le> c'"
  using counters.steps_kept[OF assms(1), of kid c] assms(2) by (simp add: counter_at_least_def)

text \<open>The witness: a swap of the sample wallet, which fails as the mint is not reachable.\<close>

theorem counter_never_decreases_witness:
  "\<exists>c'. counter_of ''00ks'' (wdb (snd (wallet_split sample_venv no_mint [sample_coin 8] 5 None False (sample_world (0::nat))))) = Some c' \<and> 0 \<le> c'"
proof (rule counter_never_decreases)
  let ?w = "sample_world (0::nat)"
  show "wallet_steps ?w (snd (wallet_split sample_venv no_mint [sample_coin 8] 5 None False ?w))"
    by (rule r_into_rtranclp[of wallet_step, OF wallet_step.split[OF prod.collapse[symmetric]]])
  show "counter_of ''00ks'' (wdb ?w) = Some 0"
    by (simp add: counter_of_def sample_world_def sample_wallet_db_def sample_keyset_row_def)
qed

section \<open>Secrets\<close>

definition spent_secrets :: "wallet_db \<Rightarrow> string set" where
  "spent_secrets d = wu_secret ` set (wd_proofs_used d)"

definition known_secrets :: "wallet_db \<Rightarrow> string set" where
  "known_secrets d = wr_secret ` set (wd_proofs d) \<union> spent_secrets d"

definition distinct_secrets :: "wallet_db \<Rightarrow> bool" where
  "distinct_secrets d \<longleftrightarrow> distinct (List.map wr_secret (wd_proofs d)) \<and> distinct (List.map wu_secret (wd_proofs_used d))"

text \<open>Statements on other tables, and what the statements on proofs do to the secrets.\<close>

lemma proofs_untouched:
  "wallet_store_keyset C k u d = Inr d' \<Longrightarrow> wd_proofs d' = wd_proofs d \<and> wd_proofs_used d' = wd_proofs_used d"
  "store_bolt11_mint_quote mq d = Inr d' \<Longrightarrow> wd_proofs d' = wd_proofs d \<and> wd_proofs_used d' = wd_proofs_used d"
  "store_bolt11_melt_quote lq d = Inr d' \<Longrightarrow> wd_proofs d' = wd_proofs d \<and> wd_proofs_used d' = wd_proofs_used d"
  "store_seed_and_mnemonic seed words d = Inr d' \<Longrightarrow> wd_proofs d' = wd_proofs d \<and> wd_proofs_used d' = wd_proofs_used d"
  "wd_proofs (wallet_update_keyset k d) = wd_proofs d \<and> wd_proofs_used (wallet_update_keyset k d) = wd_proofs_used d"
  "wd_proofs (update_bolt11_mint_quote q st n d) = wd_proofs d \<and> wd_proofs_used (update_bolt11_mint_quote q st n d) = wd_proofs_used d"
  "wd_proofs (update_bolt11_melt_quote q lst n kk pre d) = wd_proofs d \<and>
   wd_proofs_used (update_bolt11_melt_quote q lst n kk pre d) = wd_proofs_used d"
  "wd_proofs (store_mint m d) = wd_proofs d \<and> wd_proofs_used (store_mint m d) = wd_proofs_used d"
  "wd_proofs (update_mint m d) = wd_proofs d \<and> wd_proofs_used (update_mint m d) = wd_proofs_used d"
  "wd_proofs (snd (bump_secret_derivation kid n b d)) = wd_proofs d \<and> wd_proofs_used (snd (bump_secret_derivation kid n b d)) = wd_proofs_used d"
  "wd_proofs (set_secret_derivation kid n d) = wd_proofs d \<and> wd_proofs_used (set_secret_derivation kid n d) = wd_proofs_used d"
  by (auto simp: wallet_store_keyset_def store_mint_def update_mint_def store_bolt11_mint_quote_def store_bolt11_melt_quote_def
      update_bolt11_mint_quote_def update_bolt11_melt_quote_def store_seed_and_mnemonic_def bindR_Inr Let_def wallet_update_keyset_def
      bump_secret_derivation_def set_secret_derivation_def map_counter_def split: option.splits)

lemma update_secrets: "List.map wr_secret (wd_proofs (WalletStore.update_proof p u d)) = List.map wr_secret (wd_proofs d)"
  "wd_proofs_used (WalletStore.update_proof p u d) = wd_proofs_used d"
  by (auto simp: update_proof_def update_wrow_def)

lemma store_secrets:
  assumes "wallet_store_proof p d = Inr d'"
  shows "wd_proofs d' = wd_proofs d @ [proof_to_wrow p] \<and> wd_proofs_used d' = wd_proofs_used d \<and> p_secret p \<notin> wr_secret ` set (wd_proofs d)"
  using assms by (auto simp: wallet_store_proof_def bindR_Inr insert_unique_iff proof_to_wrow_def)

lemma invalidate_secrets:
  "wd_proofs (snd (wallet_invalidate_proof p d)) = filter (\<lambda>r. wr_secret r \<noteq> p_secret p) (wd_proofs d)"
  "wd_proofs_used (snd (wallet_invalidate_proof p d)) =
     (if p_secret p \<in> spent_secrets d then wd_proofs_used d else wd_proofs_used d @ [proof_to_used p])"
  by (auto simp: wallet_invalidate_proof_def thenS_def bindS_def delete_proof_def insert_unique_def proof_to_used_def spent_secrets_def)

locale proof_tables =
  fixes P :: "wproof_row list \<Rightarrow> wused_row list \<Rightarrow> bool"
  assumes added: "P ps us \<Longrightarrow> p_secret p \<notin> wr_secret ` set ps \<Longrightarrow> P (ps @ [proof_to_wrow p]) us"
    and spent: "P ps us \<Longrightarrow> P (filter (\<lambda>r. wr_secret r \<noteq> p_secret p) ps)
      (if p_secret p \<in> wu_secret ` set us then us else us @ [proof_to_used p])"
    and only_secrets: "P ps us \<Longrightarrow> List.map wr_secret ps' = List.map wr_secret ps \<Longrightarrow> P ps' us"

sublocale proof_tables \<subseteq> restore_invariant "\<lambda>d. P (wd_proofs d) (wd_proofs_used d)"
  by (unfold_locales; ((drule proofs_untouched(1-4), simp; fail) | (drule store_secrets, simp add: added; fail) |
      (unfold invalidate_secrets spent_secrets_def, erule spent) | (unfold update_secrets(2), erule only_secrets[OF _ update_secrets(1)]) |
      (simp add: proofs_untouched(5-11); fail)))

interpretation held: proof_tables "\<lambda>ps us. x \<in> wr_secret ` set ps \<union> wu_secret ` set us" for x
proof
  fix ps ps' :: "wproof_row list" and us
  assume "x \<in> wr_secret ` set ps \<union> wu_secret ` set us" and "List.map wr_secret ps' = List.map wr_secret ps"
  then show "x \<in> wr_secret ` set ps' \<union> wu_secret ` set us" by (metis list.set_map)
qed (auto simp: proof_to_used_def)

interpretation used: proof_tables "\<lambda>ps us. x \<in> wu_secret ` set us" for x
  by unfold_locales auto

interpretation unique: proof_tables "\<lambda>ps us. distinct (List.map wr_secret ps) \<and> distinct (List.map wu_secret us)"
proof
  fix ps and us :: "wused_row list" and p
  assume "distinct (List.map wr_secret ps) \<and> distinct (List.map wu_secret us)"
  then show "distinct (List.map wr_secret (filter (\<lambda>r. wr_secret r \<noteq> p_secret p) ps)) \<and>
      distinct (List.map wu_secret (if p_secret p \<in> wu_secret ` set us then us else us @ [proof_to_used p]))"
    by (auto simp: distinct_map_filter proof_to_used_def)
qed (auto simp: proof_to_wrow_def)

text \<open>C30. Whatever a wallet does, restoring from its seed included, and whatever fails on the way, no secret leaves its
  database: a proof is among the proofs or among the spent ones. What is spent stays spent, and no table holds a
  secret twice.\<close>

theorem secrets_never_lost:
  assumes "wallet_life s t"
  shows "known_secrets (wdb s) \<subseteq> known_secrets (wdb t) \<and> spent_secrets (wdb s) \<subseteq> spent_secrets (wdb t) \<and>
    (distinct_secrets (wdb s) \<longrightarrow> distinct_secrets (wdb t))"
  using held.life_kept[OF assms] used.life_kept[OF assms] unique.life_kept[OF assms]
  by (auto simp: known_secrets_def spent_secrets_def distinct_secrets_def)

definition coin_db :: wallet_db where
  "coin_db = sample_wallet_db\<lparr>wd_proofs := [proof_to_wrow (sample_coin 8), proof_to_wrow (sample_coin 4)]\<rparr>"

theorem secrets_never_lost_witness:
  "{''4'', ''8''} \<subseteq> known_secrets (wdb (snd (invalidate sample_venv no_mint [sample_coin 8] False ((sample_world (0::nat))\<lparr>wdb := coin_db\<rparr>)))) \<and>
   ''8'' \<notin> wr_secret ` set (wd_proofs (wdb (snd (invalidate sample_venv no_mint [sample_coin 8] False ((sample_world (0::nat))\<lparr>wdb := coin_db\<rparr>)))))"
proof -
  let ?w = "(sample_world (0::nat))\<lparr>wdb := coin_db\<rparr>"
  let ?t = "snd (invalidate sample_venv no_mint [sample_coin 8] False ?w)"
  have "wallet_step ?w ?t" by (rule wallet_step.invalidate[OF prod.collapse[symmetric]])
  then have "wallet_life ?w ?t" by (intro r_into_rtranclp) (simp add: sup_fun_def)
  moreover have "{''4'', ''8''} \<subseteq> known_secrets (wdb ?w)" by code_simp
  moreover have "''8'' \<notin> wr_secret ` set (wd_proofs (wdb ?t))" by code_simp
  ultimately show ?thesis using secrets_never_lost[of ?w ?t] by blast
qed

end
