(* ===== verification/Router.thy ===== *)
theory Router
  imports WalletApi Ledger
begin

text \<open>
  The endpoints of the mint (\<^verbatim>\<open>cashu/mint/router.py\<close>) with the checks that the models of \<^verbatim>\<open>cashu/core/models.py\<close> make
  on a request before the handler runs, and the mint as a wallet sees it: \<open>ledger_api\<close> is the record of endpoints of
  theory \<open>WalletApi\<close>, answered by these handlers. The rate limiter, the cache and HTTP itself are not modelled here; the
  text of \<^verbatim>\<open>/v1/info\<close> is an argument (its content is the subject of theory \<open>MintInfo\<close>).
\<close>

section \<open>Requests, validated\<close>

text \<open>The setting \<^verbatim>\<open>mint_max_request_length\<close> bounds every text and every list of a request.\<close>

record router_env =
  renv :: env
  max_request_length :: nat

definition validation_error :: error where
  "validation_error = ValueError ''validation error''"

definition short :: "router_env \<Rightarrow> 'a list \<Rightarrow> bool" where
  "short R xs = (length xs \<le> max_request_length R)"

definition short_opt :: "router_env \<Rightarrow> 'a list option \<Rightarrow> bool" where
  "short_opt R x = (case x of None \<Rightarrow> True | Some xs \<Rightarrow> short R xs)"

text \<open>The proofs of a request: each is constructed, which computes its \<^verbatim>\<open>Y\<close>.\<close>

definition parse_inputs :: "router_env \<Rightarrow> token_proof list \<Rightarrow> error + token_proof list" where
  "parse_inputs R ps = (case mapR (init_proof (renv R)) ps of Inl e \<Rightarrow> Inl validation_error | Inr qs \<Rightarrow> Inr qs)"

definition valid_mint_quote_request :: "router_env \<Rightarrow> mint_quote_request \<Rightarrow> bool" where
  "valid_mint_quote_request R r \<longleftrightarrow> short R (mreq_unit r) \<and> 0 < mreq_amount r \<and> short_opt R (mreq_description r) \<and>
     short_opt R (mreq_pubkey r)"

definition valid_mint_request :: "router_env \<Rightarrow> blinded_message list \<Rightarrow> string \<Rightarrow> string option \<Rightarrow> bool" where
  "valid_mint_request R outs quote signature \<longleftrightarrow> short R quote \<and> short R outs \<and> short_opt R signature"

definition valid_melt_quote_request :: "router_env \<Rightarrow> melt_quote_request \<Rightarrow> bool" where
  "valid_melt_quote_request R r \<longleftrightarrow> short R (lr_unit r) \<and> short R (lr_request r) \<and>
     (case lr_mpp r of None \<Rightarrow> True | Some a \<Rightarrow> 0 < a)"

definition valid_melt_request :: "router_env \<Rightarrow> string \<Rightarrow> token_proof list \<Rightarrow> blinded_message list option \<Rightarrow> bool" where
  "valid_melt_request R quote ps outs \<longleftrightarrow> short R quote \<and> short R ps \<and> short_opt R outs"

definition valid_swap_request :: "router_env \<Rightarrow> token_proof list \<Rightarrow> blinded_message list \<Rightarrow> bool" where
  "valid_swap_request R ps outs \<longleftrightarrow> short R ps \<and> short R outs"

section \<open>Keys and keysets\<close>

record keys_response_keyset =
  kr_id :: string
  kr_unit :: string
  kr_active :: bool
  kr_input_fee_ppk :: "int option"
  kr_keys :: "(int \<times> string) list"
  kr_final_expiry :: "int option"

record keysets_response_keyset =
  kse_id :: string
  kse_unit :: string
  kse_active :: bool
  kse_input_fee_ppk :: "int option"
  kse_final_expiry :: "int option"

text \<open>\<^verbatim>\<open>MintKeyset.public_keys_hex\<close>.\<close>

definition public_keys_hex :: "curve \<Rightarrow> mint_keyset \<Rightarrow> error + (int \<times> string) list" where
  "public_keys_hex C k =
     bindR (checkR (k_public_keys k \<noteq> []) (AssertionError ''public keys not set'')) (\<lambda>_.
     Inr (List.map (\<lambda>(a, p). (a, pk_hex C p)) (k_public_keys k)))"

definition keys_response :: "curve \<Rightarrow> mint_keyset \<Rightarrow> error + keys_response_keyset" where
  "keys_response C k = bindR (public_keys_hex C k) (\<lambda>keys.
     Inr \<lparr>kr_id = k_id k, kr_unit = unit_name (k_unit k), kr_active = k_active k,
       kr_input_fee_ppk = Some (k_input_fee_ppk k), kr_keys = keys, kr_final_expiry = k_final_expiry k\<rparr>)"

definition route_keys :: "router_env \<Rightarrow> keys_response_keyset list op" where
  "route_keys R = liftS (\<lambda>s. mapR (keys_response (crv (renv R))) (filter k_active (List.map snd (keysets s))))"

text \<open>An identifier that is not hexadecimal is taken for the base64 of old keysets, in its form for addresses.\<close>

definition sanitize_id :: "string \<Rightarrow> string" where
  "sanitize_id i = (if is_int16 i then i
     else List.map (\<lambda>c. if c = CHR ''_'' then CHR ''/'' else c) (List.map (\<lambda>c. if c = CHR ''-'' then CHR ''+'' else c) i))"

definition route_keyset_keys :: "router_env \<Rightarrow> string \<Rightarrow> keys_response_keyset list op" where
  "route_keyset_keys R keyset_id = liftS (\<lambda>s.
     bindR (ofOption (KeysetNotFoundError (Some (sanitize_id keyset_id))) (keyset_of s (sanitize_id keyset_id))) (\<lambda>k.
     bindR (keys_response (crv (renv R)) k) (\<lambda>r. Inr [r])))"

definition route_keysets :: "keysets_response_keyset list op" where
  "route_keysets = getS (\<lambda>s. List.map (\<lambda>(_, k). \<lparr>kse_id = k_id k, kse_unit = unit_name (k_unit k), kse_active = k_active k,
     kse_input_fee_ppk = Some (k_input_fee_ppk k), kse_final_expiry = k_final_expiry k\<rparr>) (keysets s))"

section \<open>Quotes, mint, melt, swap\<close>

definition quote_response :: "mint_quote \<Rightarrow> mint_quote_response" where
  "quote_response q = \<lparr>qr_quote = mq_quote q, qr_request = mq_request q, qr_amount = Some (mq_amount q),
     qr_unit = Some (mq_unit q), qr_state = Some (mint_state_value (mq_state q)), qr_expiry = mq_expiry q,
     qr_pubkey = mq_pubkey q\<rparr>"

definition route_mint_quote :: "router_env \<Rightarrow> mint_quote_request \<Rightarrow> mint_quote_response op" where
  "route_mint_quote R r =
     thenS (guardS (valid_mint_quote_request R r) validation_error)
    (bindS (request_mint_quote (renv R) r) (\<lambda>q. returnS (quote_response q)))"

definition route_get_mint_quote :: "router_env \<Rightarrow> string \<Rightarrow> mint_quote_response op" where
  "route_get_mint_quote R quote = bindS (ledger_get_mint_quote (renv R) quote) (\<lambda>q. returnS (quote_response q))"

definition route_mint :: "router_env \<Rightarrow> blinded_message list \<Rightarrow> string \<Rightarrow> string option \<Rightarrow> blinded_signature list op" where
  "route_mint R outs quote signature =
     thenS (guardS (valid_mint_request R outs quote signature) validation_error) (mint (renv R) outs quote signature)"

definition route_melt_quote :: "router_env \<Rightarrow> melt_quote_request \<Rightarrow> melt_response op" where
  "route_melt_quote R r =
     thenS (guardS (valid_melt_quote_request R r) validation_error) (request_melt_quote (renv R) r)"

definition route_get_melt_quote :: "router_env \<Rightarrow> string \<Rightarrow> melt_response op" where
  "route_get_melt_quote R quote = bindS (ledger_get_melt_quote (renv R) quote False) (\<lambda>q.
     returnS \<lparr>mr_quote = lq_quote q, mr_amount = lq_amount q, mr_unit = Some (lq_unit q), mr_request = Some (lq_request q),
       mr_fee_reserve = lq_fee_reserve q, mr_paid = Some (lq_state q = LQ_paid), mr_state = Some (melt_state_value (lq_state q)),
       mr_expiry = lq_expiry q, mr_payment_preimage = lq_payment_preimage q, mr_change = lq_change q\<rparr>)"

definition route_melt :: "router_env \<Rightarrow> string \<Rightarrow> token_proof list \<Rightarrow> blinded_message list option \<Rightarrow> melt_response op" where
  "route_melt R quote ps outs =
     thenS (guardS (valid_melt_request R quote ps outs) validation_error)
    (bindS (liftS (\<lambda>_. parse_inputs R ps)) (\<lambda>inputs. melt (renv R) inputs quote outs))"

definition route_swap :: "router_env \<Rightarrow> token_proof list \<Rightarrow> blinded_message list \<Rightarrow> blinded_signature list op" where
  "route_swap R ps outs =
     thenS (guardS (valid_swap_request R ps outs) validation_error)
    (bindS (liftS (\<lambda>_. parse_inputs R ps)) (\<lambda>inputs.
     thenS (guardS (outs \<noteq> []) (AssertionError ''no outputs provided.''))
           (swap (renv R) inputs outs)))"

definition route_check_state :: "router_env \<Rightarrow> string list \<Rightarrow> proof_state list op" where
  "route_check_state R Ys =
     thenS (guardS (short R Ys) validation_error) (liftS (\<lambda>s. get_proofs_states (renv R) Ys (db s)))"

definition route_restore ::
  "router_env \<Rightarrow> blinded_message list \<Rightarrow> (blinded_message list \<times> blinded_signature list) op" where
  "route_restore R outs =
     thenS (guardS (short R outs) validation_error)
    (thenS (guardS (outs \<noteq> []) (AssertionError ''no outputs provided.'')) (restore outs))"

section \<open>The mint behind the requests of a wallet\<close>

text \<open>
  What the client reads of the answers (\<^verbatim>\<open>cashu/wallet/v1_api.py\<close>): of the keys, identifier, unit and keys; of the list
  of keysets, all but the expiry.
\<close>

definition read_keys :: "keys_response_keyset \<Rightarrow> string \<times> string \<times> (int \<times> string) list" where
  "read_keys r = (kr_id r, kr_unit r, kr_keys r)"

definition read_entry :: "keysets_response_keyset \<Rightarrow> keysets_entry" where
  "read_entry r = \<lparr>ke_id = kse_id r, ke_unit_name = kse_unit r, ke_active = kse_active r, ke_input_fee = kse_input_fee_ppk r\<rparr>"

definition ledger_api :: "router_env \<Rightarrow> string \<Rightarrow> ledger mint_api" where
  "ledger_api R info =
     \<lparr>http_keys = bindS (route_keys R) (\<lambda>l. returnS (List.map read_keys l)),
      http_keyset = (\<lambda>i. bindS (route_keyset_keys R i) (\<lambda>l. returnS (List.map read_keys l))),
      http_keysets = bindS route_keysets (\<lambda>l. returnS (List.map read_entry l)),
      http_info = returnS info,
      http_mint_quote = route_mint_quote R, http_get_mint_quote = route_get_mint_quote R, http_mint = route_mint R,
      http_melt_quote = route_melt_quote R, http_get_melt_quote = route_get_melt_quote R, http_melt = route_melt R,
      http_swap = route_swap R, http_checkstate = route_check_state R, http_restore = route_restore R\<rparr>"

section \<open>Handlers and operations\<close>

text \<open>A request that passes the checks is the operation of the ledger on the proofs that were sent.\<close>

lemma parse_inputs_wf: "\<forall>p\<in>set ps. wf_proof (renv R) p \<Longrightarrow> parse_inputs R ps = Inr ps"
proof -
  assume wf: "\<forall>p\<in>set ps. wf_proof (renv R) p"
  have "init_proof (renv R) p = Inr p" if "p \<in> set ps" for p
    using wf that by (simp add: init_proof_def wf_proof_def)
  then have "mapR (init_proof (renv R)) ps = Inr ps" by (induction ps) simp_all
  then show ?thesis by (simp add: parse_inputs_def)
qed

lemma route_swap_run:
  assumes "\<forall>p\<in>set ps. wf_proof (renv R) p"
  shows "route_swap R ps outs s = (if \<not> valid_swap_request R ps outs then (Inl validation_error, s)
    else if outs = [] then (Inl (AssertionError ''no outputs provided.''), s) else swap (renv R) ps outs s)"
  using parse_inputs_wf[OF assms] by (simp add: route_swap_def thenS_def bindS_def guardS_def)

lemma route_swap_Ok:
  assumes "route_swap R ps outs s = (Inr sigs, t)" and "\<forall>p\<in>set ps. wf_proof (renv R) p"
  shows "swap (renv R) ps outs s = (Inr sigs, t)"
  using assms(1) unfolding route_swap_run[OF assms(2)] by (simp split: if_splits)

end
