(* ===== verification/EndToEnd.thy ===== *)
theory EndToEnd
  imports Exchange WalletHistory Router
begin

text \<open>
  A swap from one end to the other: the whole operation \<^verbatim>\<open>split\<close> of a wallet, with the mint of theory \<open>Ledger\<close>
  behind its requests.
\<close>

section \<open>The steps of a swap\<close>

text \<open>The secrets of a swap: scalars of the curve, or none, which are then drawn with the outputs.\<close>

lemma derived_scalars:
  assumes "derive_all V W kid counters = Inr (secrets, rs, paths)" and "curve_laws (crv (wenv V)) P K"
  shows "set rs \<subseteq> K \<and> length secrets = length counters \<and> length rs = length counters \<and> length paths = length counters"
proof -
  obtain l where l: "mapR (\<lambda>c. generate_determinstic_secret V W c kid) counters = Inr l"
    and rs: "mapR (\<lambda>(_, r, _). ofOption (ValueError ''Secret scalar is not valid.'') (sc_parse (crv (wenv V)) r)) l = Inr rs"
    and s: "secrets = List.map (\<lambda>(s, _, _). to_hex s) l" "paths = List.map (\<lambda>(_, _, path). path) l"
    using assms(1) by (auto simp: derive_all_def bindR_Inr)
  have "r \<in> K" if "r \<in> set rs" for r
  proof -
    obtain i where "i < length l" "ofOption (ValueError ''Secret scalar is not valid.'') (sc_parse (crv (wenv V)) (fst (snd (l ! i)))) = Inr r"
      using rs \<open>r \<in> set rs\<close> by (auto simp: mapR_Inr list_all2_conv_all_nth in_set_conv_nth split_beta)
    then show ?thesis using scalar_parse[OF assms(2)] by auto
  qed
  then show ?thesis using mapR_length[OF l] mapR_length[OF rs] by (auto simp: s)
qed

lemma n_secrets_ok:
  assumes "generate_n_secrets V n b w = (Inr (secrets, rs, paths), w')" and "curve_laws (crv (wenv V)) P K"
  shows "set rs \<subseteq> K \<and> length secrets = nat n \<and> length rs = nat n \<and> length paths = nat n \<and>
    ww w' = ww w \<and> wmint w' = wmint w \<and> wd_proofs (wdb w') = wd_proofs (wdb w)"
proof (cases "n < 1")
  case False
  let ?d = "snd (bump_secret_derivation (w_keyset_id (ww w)) n b (wdb w))"
  obtain counters where r: "derive_all V (ww w) None counters = Inr (secrets, rs, paths)" and c: "length counters = nat n"
    and w': "w' = w\<lparr>wdb := ?d\<rparr>"
    using assms(1) False
    by (auto simp: generate_n_secrets_def wtransaction_def bindS_def thenS_def split: prod.splits sum.splits)
  have "wd_proofs ?d = wd_proofs (wdb w)" by (simp add: bump_secret_derivation_def map_counter_def split: option.split)
  then show ?thesis using derived_scalars[OF r assms(2)] by (simp add: c w')
qed (use assms(1) in \<open>auto simp: generate_n_secrets_def\<close>)

lemma check_used_same: "check_used_secrets secrets w = (Inr u, w') \<Longrightarrow> w' = w"
  by (induction secrets) (auto simp: check_used_secrets_def elim!: thenS_OkE bindS_OkE)

lemma share_witnesses_world:
  "share_witnesses ps w = (Inr u, w') \<Longrightarrow> w_keysets (ww w') = w_keysets (ww w) \<and> wdb w' = wdb w \<and> wmint w' = wmint w"
  by (auto simp: share_witnesses_def mark_shared_def)

text \<open>Signing changes nothing but witnesses.\<close>

definition same_but_witness :: "'a token_proof_scheme \<Rightarrow> 'a token_proof_scheme \<Rightarrow> bool" where
  "same_but_witness p q \<longleftrightarrow> (\<exists>w. q = p\<lparr>p_witness := w\<rparr>)"

lemma same_but_witness_facts:
  "same_but_witness p p" "same_but_witness p q \<Longrightarrow> p_secret q = p_secret p" "same_but_witness p q \<Longrightarrow> p_Y q = p_Y p"
  "same_but_witness p q \<Longrightarrow> same_but_witness q r \<Longrightarrow> same_but_witness p r"
proof -
  show "same_but_witness p p" unfolding same_but_witness_def by (rule exI[of _ "p_witness p"]) simp
qed (auto simp: same_but_witness_def)

lemma filterR_sub: "filterR f xs = Inr ys \<Longrightarrow> set ys \<subseteq> set xs"
  by (induction xs arbitrary: ys) (auto simp: bindR_Inr split: if_splits)

lemma same_but_witnessI: "same_but_witness p (p\<lparr>p_witness := w\<rparr>)"
  unfolding same_but_witness_def by (rule exI) (rule refl)

lemma same_each: "\<forall>q\<in>set qs. \<exists>p\<in>set qs. same_but_witness p q"
  by (meson same_but_witness_facts(1))

lemma add_signature_same:
  assumes "add_signature p sig = Inr q"
  shows "same_but_witness p q"
proof -
  obtain w where "q = p\<lparr>p_witness := w\<rparr>"
    using assms unfolding add_signature_def bindR_Inr sum.inject by (elim exE conjE) (drule sym, blast)
  then show ?thesis by (simp only: same_but_witnessI)
qed

lemma add_signatures_same:
  assumes "add_signatures_to_proofs ps sigs = Inr qs" and "q \<in> set qs"
  shows "\<exists>p\<in>set ps. same_but_witness p q"
proof -
  have "mapR (\<lambda>(p, s). add_signature p s) (zip ps sigs) = Inr qs"
    using assms(1) by (auto simp: add_signatures_to_proofs_def bindR_Inr)
  then have l: "list_all2 (\<lambda>x y. add_signature (fst x) (snd x) = Inr y) (zip ps sigs) qs" by (simp add: mapR_Inr split_beta)
  obtain i where i: "i < length qs" "qs ! i = q" using assms(2) by (auto simp: in_set_conv_nth)
  then have "i < length (zip ps sigs)" "add_signature (fst (zip ps sigs ! i)) (snd (zip ps sigs ! i)) = Inr q"
    using list_all2_lengthD[OF l] list_all2_nthD2[OF l] by simp_all
  then have "ps ! i \<in> set ps" "same_but_witness (ps ! i) q" by (auto intro: add_signature_same)
  then show ?thesis by blast
qed

lemma sig_inputs_same:
  assumes "sign_p2pk_sig_inputs V W ps = Inr qs" and "q \<in> set qs"
  shows "\<exists>p\<in>set ps. same_but_witness p q"
proof -
  obtain l ours sigs where "filterR (\<lambda>p. bindR (deserialize (p_secret p)) (\<lambda>s. bindR (sigflag s) (\<lambda>f. Inr (f = SIG_INPUTS))))
      (filter (\<lambda>p. needs_signature (p_secret p)) ps) = Inr l"
    and "filter_proofs_locked_to_our_pubkey V W l = Inr ours" and add: "add_signatures_to_proofs ours sigs = Inr qs"
    using assms by (auto simp: sign_p2pk_sig_inputs_def Let_def bindR_Inr split: if_splits)
  then have "set ours \<subseteq> set ps"
    by (auto simp: filter_proofs_locked_to_our_pubkey_def Let_def bindR_Inr dest!: filterR_sub)
  then show ?thesis using add_signatures_same[OF add assms(2)] by blast
qed

lemma witnesses_same:
  assumes "add_witnesses_sig_inputs V W ps = Inr qs"
  shows "List.map p_secret qs = List.map p_secret ps \<and> (\<forall>q\<in>set qs. \<exists>p\<in>set ps. same_but_witness p q)"
proof -
  obtain sg where sg: "sign_p2pk_sig_inputs V W ps = Inr sg"
    and qs: "qs = List.map (\<lambda>p. case List.find (\<lambda>q. p_secret q = p_secret p) sg of None \<Rightarrow> p | Some q \<Rightarrow> q) ps"
    using assms by (auto simp: add_witnesses_sig_inputs_def bindR_Inr)
  have f: "p_secret q = p_secret p \<and> q \<in> set sg" if "List.find (\<lambda>q. p_secret q = p_secret p) sg = Some q" for p q
    using that by (auto simp: find_Some_iff)
  let ?g = "\<lambda>p. case List.find (\<lambda>q. p_secret q = p_secret p) sg of None \<Rightarrow> p | Some q \<Rightarrow> q"
  have "p_secret (?g p) = p_secret p" for p by (cases "List.find (\<lambda>q. p_secret q = p_secret p) sg") (auto dest: f)
  moreover have "\<exists>p'\<in>set ps. same_but_witness p' (?g p)" if "p \<in> set ps" for p
  proof (cases "List.find (\<lambda>q. p_secret q = p_secret p) sg")
    case None
    then show ?thesis using that same_but_witness_facts(1) by auto
  next
    case (Some q)
    then show ?thesis using sig_inputs_same[OF sg, of q] f[OF Some] by simp
  qed
  ultimately show ?thesis unfolding qs by (simp add: comp_def)
qed

lemma sig_all_same:
  "List.map p_secret (add_witness_swap_sig_all V W ps outs m) = List.map p_secret ps \<and>
   (\<forall>q\<in>set (add_witness_swap_sig_all V W ps outs m). \<exists>p\<in>set ps. same_but_witness p q)"
proof (cases "sign_first V W ps (if truthy_str m then the m else sigall_text ps outs)")
  case (Inr qs)
  then obtain sig q where q: "ps \<noteq> []" "add_signature (hd ps) sig = Inr q" "qs = q # tl ps"
    by (cases ps) (auto simp: sign_first_def bindR_Inr)
  then obtain p rest where "ps = p # rest" "same_but_witness p q" using add_signature_same by (cases ps) auto
  then have "\<forall>r\<in>set qs. \<exists>p\<in>set ps. same_but_witness p r" "List.map p_secret qs = List.map p_secret ps"
    using q same_each[of rest] same_but_witness_facts(2)[of p q] by simp_all
  then show ?thesis using Inr same_each[of ps] by (simp add: add_witness_swap_sig_all_def)
qed (use same_each[of ps] in \<open>simp add: add_witness_swap_sig_all_def\<close>)

lemma signed_same:
  assumes "sign_proofs_inplace_swap V W ps outs = Inr qs"
  shows "List.map p_secret qs = List.map p_secret ps \<and> (\<forall>q\<in>set qs. \<exists>p\<in>set ps. same_but_witness p q)"
proof -
  obtain rs where r: "add_witnesses_sig_inputs V W ps = Inr rs" and qs: "qs = add_witness_swap_sig_all V W rs outs None"
    using assms by (auto simp: sign_proofs_inplace_swap_def bindR_Inr)
  show ?thesis
    using witnesses_same[OF r] sig_all_same[of V W rs outs None] unfolding qs by (metis same_but_witness_facts(4))
qed

lemma wallet_splitE:
  assumes "wallet_split V A ps amount None inc w = (Inr (keep, send), w')"
  obtains ko so secrets rs0 paths w1 outs rs w2 qs w3 sp w4 new w5 inv' where
    "0 \<le> amount" "determine_output_amounts (target_amount_count V) (ww w) ps amount inc (Some (w_keyset_id (ww w))) = Inr (ko, so)"
    "generate_n_secrets V (int (length ko) + int (length so)) False w = (Inr (secrets, rs0, paths), w1)"
    "construct_outputs V (ko @ so) secrets rs0 (Some (w_keyset_id (ww w1))) w1 = (Inr (outs, rs), w2)"
    "sign_proofs_inplace_swap V (ww w2) ps outs = Inr qs" "share_witnesses qs w2 = (Inr (), w3)"
    "api_split V A qs (List.map snd (sort_outputs outs)) w3 = (Inr sp, w4)"
    "construct_proofs V A (unsort (List.map fst (sort_outputs outs)) sp) secrets rs paths w4 = (Inr new, w5)"
    "invalidate V A qs False w5 = (Inr inv', w')" "keep = take (length ko) new" "send = drop (length ko) new"
  using assms
  by (auto simp: wallet_split_def elim!: thenS_OkE bindS_OkE dest!: check_used_same; rule that; (assumption | rule refl))

lemma construct_proofs_known:
  assumes "mapS (construct_proof V A) (zip sigs (zip secrets (zip rs paths))) w = (Inr nps, w)"
    and "construct_proofs V A sigs secrets rs paths w = (Inr new, w')"
  shows "new = nps \<and> wmint w' = wmint w"
proof -
  have loop: "wmint (snd (forS ps (\<lambda>p. exec_db (wallet_store_proof p)) u)) = wmint u" for ps and u :: "'a world"
  proof -
    have "keeps (\<lambda>v. wmint v = wmint u) (forS ps (\<lambda>p. exec_db (wallet_store_proof p)))"
      by (rule keeps_forS) (auto simp: keeps_def exec_db_def split: sum.splits)
    then show ?thesis by (auto dest: keepsD)
  qed
  have "wmint v = wmint u" if "store_proofs ps u = (Inr x, v)" for ps x and u v :: "'a world"
    using that loop[of ps u] by (cases "forS ps (\<lambda>p. exec_db (wallet_store_proof p)) u")
      (auto simp: store_proofs_def wtransaction_def split: sum.splits)
  with assms(2) show ?thesis
    by (auto simp: construct_proofs_def bindS_step(1)[where m = "mapS (construct_proof V A) (zip sigs (zip secrets (zip rs paths)))" and s = w, OF assms(1)] elim!: bindS_OkE thenS_OkE)
qed

lemma invalidate_loop:
  "forS qs invalidate_in_db w = (Inr u, w') \<Longrightarrow> ww w' = ww w \<and> wmint w' = wmint w \<and>
     wd_proofs (wdb w') = filter (\<lambda>r. wr_secret r \<notin> p_secret ` set qs) (wd_proofs (wdb w))"
proof (induction qs arbitrary: w)
  case (Cons q qs)
  define w1 where w1: "w1 = w\<lparr>wdb := snd (wallet_invalidate_proof q (wdb w))\<rparr>"
  have "invalidate_in_db q w = (Inr (), w1)" by (simp add: invalidate_in_db_def w1)
  then have "forS qs invalidate_in_db w1 = (Inr u, w')" using Cons.prems by (simp add: thenS_step(1)[of _ w "()" w1])
  with Cons.IH[of w1] show ?case by (simp add: w1 invalidate_secrets conj_commute)
qed simp

lemma invalidate_run:
  assumes "invalidate V A qs False w = (Inr l, w')"
  shows "wmint w' = wmint w \<and> w_proofs (ww w') = filter (\<lambda>p. p_secret p \<notin> p_secret ` set qs) (w_proofs (ww w)) \<and>
    wd_proofs (wdb w') = filter (\<lambda>r. wr_secret r \<notin> p_secret ` set qs) (wd_proofs (wdb w))"
  using assms by (auto simp: invalidate_def elim!: thenS_OkE bindS_OkE dest!: invalidate_loop)

lemma api_splitE:
  assumes "api_split V A qs outs w = (Inr sp, w')"
  obtains t where "w_keysets (ww w) \<noteq> [] \<Longrightarrow> http_swap A (List.map sent_proof qs) outs (wmint w) = (Inr sp, t)"
    "w_keysets (ww w) \<noteq> [] \<Longrightarrow> w' = w\<lparr>wmint := t\<rparr>"
proof (cases "w_keysets (ww w) = []")
  case False
  obtain r t where m: "http_swap A (List.map sent_proof qs) outs (wmint w) = (r, t)" by force
  then have "r = Inr sp \<and> w' = w\<lparr>wmint := t\<rparr>"
    using assms False
    by (cases r) (auto simp: api_split_def ensure_mint_loaded_def call_mint_def whenS_def bindS_def thenS_def guardS_def split: if_splits)
  then show ?thesis using that[of t] m by simp
qed (use that in simp)

lemma used_column: "d' = d\<lparr>promises := a, proofs_used := b, keyset_rows := c\<rparr> \<Longrightarrow> proofs_used d' = b"
  by simp

lemma used_row_Y: "q \<in> set qs \<Longrightarrow> p_Y q \<in> pr_y ` set (used_rows (List.map sent_proof qs) None)"
proof -
  assume "q \<in> set qs"
  then have "proof_to_row (sent_proof q) None \<in> set (used_rows (List.map sent_proof qs) None)" by (simp add: used_rows_def)
  moreover have "pr_y (proof_to_row (sent_proof q) None) = p_Y q"
    by (simp add: proof_to_row_sel sent_proof_def token_proof.truncate_def)
  ultimately show ?thesis by (metis imageI)
qed

lemma signed_wf:
  assumes "sign_proofs_inplace_swap V W ps outs = Inr qs" and "\<forall>p\<in>set ps. wf_proof E (token_proof.truncate p)"
  shows "\<forall>q\<in>set (List.map sent_proof qs). wf_proof E q"
proof -
  have "wf_proof E (sent_proof q)" if "q \<in> set qs" for q
  proof -
    from that signed_same[OF assms(1)] obtain p where "p \<in> set ps" "same_but_witness p q" by blast
    then show ?thesis
      using assms(2) same_but_witness_facts(2,3)[of p q] by (auto simp: wf_proof_def sent_proof_def token_proof.truncate_def)
  qed
  then show ?thesis by auto
qed

text \<open>The inputs that were sent, signed, are the wallet's own proofs: their points are among the spent ones.\<close>

lemma inputs_spent:
  assumes sg: "List.map p_secret qs = List.map p_secret ps" and wfq: "\<forall>q\<in>set (List.map sent_proof qs). wf_proof E q"
    and Y: "\<forall>p\<in>set ps. wf_proof E (token_proof.truncate p)"
    and used: "proofs_used d = before @ used_rows (List.map sent_proof qs) None" and p: "p \<in> set ps"
  shows "p_Y p \<in> pr_y ` set (proofs_used d) \<and> p_secret p \<in> p_secret ` set qs"
proof -
  have "p_secret p \<in> set (List.map p_secret qs)" unfolding sg using p by simp
  then obtain q where q: "q \<in> set qs" "p_secret q = p_secret p" by auto
  then have "p_Y q = p_Y p" using wfq Y p by (auto simp: wf_proof_def sent_proof_def token_proof.truncate_def)
  then have "p_Y p \<in> pr_y ` set (proofs_used d)" using used_row_Y[OF q(1)] used by (metis UnCI image_Un set_append)
  then show ?thesis using q by (metis imageI)
qed

section \<open>The whole swap\<close>

text \<open>C29. A swap from end to end, of a wallet that knows the mint's keysets with the mint behind its requests: when it
  returns, what is kept and what is sent are worth the inputs less the fee, what is sent at least the amount asked for;
  the mint accepts every new proof, with its DLEQ proof; and the inputs are spent at the mint and gone from the
  wallet's memory and table of proofs.\<close>

theorem swap_end_to_end:
  assumes run: "wallet_split Vw (ledger_api R info) ps amount None inc w = (Inr (keep, send), w')" and E: "E = renv R"
    and same: "same_curve Vw E V K" and src: "key_source Vw K" and mk: "mint_keys K (wmint w)"
    and kk: "keys_known (crv E) (w_keysets (ww w)) (wmint w)" and wf: "wf_ledger E (wmint w)"
    and loaded: "w_keysets (ww w) \<noteq> []" "w_keyset_id (ww w) \<noteq> []" and Y: "\<forall>p\<in>set ps. wf_proof E (token_proof.truncate p)"
  shows "\<exists>fee. wallet_fees (w_keysets (ww w)) ps = Inr fee \<and> sum_wallet keep + sum_wallet send + fee = sum_wallet ps \<and>
    amount \<le> sum_wallet send \<and> (\<forall>p\<in>set (keep @ send). good_money E (wmint w') (w_keysets (ww w)) p) \<and>
    (\<forall>p\<in>set ps. p_Y p \<in> pr_y ` set (proofs_used (db (wmint w'))) \<and> p_secret p \<notin> p_secret ` set (w_proofs (ww w')) \<and>
       p_secret p \<notin> wr_secret ` set (wd_proofs (wdb w')))"
proof -
  let ?A = "ledger_api R info"
  have C: "crv (wenv Vw) = crv E" and laws: "curve_laws (crv (wenv Vw)) V K" using same by (simp_all add: same_curve_def)
  from run show ?thesis
  proof (rule wallet_splitE)
    fix ko so secrets rs0 paths w1 outs rs w2 qs w3 sp w4 new w5 inv'
    assume amt: "0 \<le> amount"
      and det: "determine_output_amounts (target_amount_count Vw) (ww w) ps amount inc (Some (w_keyset_id (ww w))) = Inr (ko, so)"
      and gen: "generate_n_secrets Vw (int (length ko) + int (length so)) False w = (Inr (secrets, rs0, paths), w1)"
      and mk_outs: "construct_outputs Vw (ko @ so) secrets rs0 (Some (w_keyset_id (ww w1))) w1 = (Inr (outs, rs), w2)"
      and sgn: "sign_proofs_inplace_swap Vw (ww w2) ps outs = Inr qs" and shr: "share_witnesses qs w2 = (Inr (), w3)"
      and req: "api_split Vw ?A qs (List.map snd (sort_outputs outs)) w3 = (Inr sp, w4)"
      and cp: "construct_proofs Vw ?A (unsort (List.map fst (sort_outputs outs)) sp) secrets rs paths w4 = (Inr new, w5)"
      and inval: "invalidate Vw ?A qs False w5 = (Inr inv', w')" and ks: "keep = take (length ko) new" "send = drop (length ko) new"
    have g: "set rs0 \<subseteq> K" "length secrets = length (ko @ so)" "length rs0 = length (ko @ so)" "length paths = length (ko @ so)"
      "ww w1 = ww w" "wmint w1 = wmint w"
      using n_secrets_ok[OF gen laws] by simp_all
    have "rs0 = [] \<or> length rs0 = length (ko @ so)" using g(3) by simp
    note o = construct_outputs_ok[OF mk_outs same src g(1) this]
    have b: "list_all2 (blinded (crv E) K (w_keyset_id (ww w))) (zip secrets (zip (ko @ so) rs)) outs"
      and len: "length secrets = length (ko @ so)" "length rs = length (ko @ so)"
      using o loaded(2) g(5) by (simp_all add: truthy_str_def)
    have k3: "w_keysets (ww w3) = w_keysets (ww w)" "wmint w3 = wmint w"
      using share_witnesses_world[OF shr] o g by simp_all
    note sg = signed_same[OF sgn] and wfs = signed_wf[OF sgn Y]
    obtain t where sw: "swap E (List.map sent_proof qs) (List.map snd (sort_outputs outs)) (wmint w) = (Inr sp, t)"
      and w4: "w4 = w3\<lparr>wmint := t\<rparr>"
      by (rule api_splitE[OF req]) (use loaded(1) k3 wfs E in \<open>auto simp: ledger_api_def dest!: route_swap_Ok\<close>)
    have wk: "wf_keysets (wmint w)" using wf by (simp add: wf_ledger_def)
    have kk4: "keys_known (crv E) (w_keysets (ww w4)) (wmint w)" using kk w4 k3 by simp
    obtain nps where nps: "mapS (construct_proof Vw ?A) (zip (unsort (List.map fst (sort_outputs outs)) sp) (zip secrets (zip rs paths))) w4 = (Inr nps, w4)"
      "List.map p_amount nps = ko @ so" "\<forall>p\<in>set nps. good_money E t (w_keysets (ww w4)) p"
      by (rule swap_unblinds[OF same mk kk4 wk loaded(2) b len g(4) sw])
    have new: "new = nps" and t5: "wmint w5 = t" using construct_proofs_known[OF nps(1) cp] by (simp_all add: w4)
    note iv = invalidate_run[OF inval]
    have tw: "wmint w' = t" using iv t5 by simp
    have lnew: "length nps = length (ko @ so)" using nps(2) by (metis length_map)
    have sums: "sum_wallet keep = sum_list ko" "sum_wallet send = sum_list so"
      using nps(2) lnew by (simp_all add: sum_wallet_def ks new take_map[symmetric] drop_map[symmetric])
    have set_so: "set (List.map snd (sort_outputs outs)) = set outs" by (simp add: set_sort_outputs)
    have can: "\<forall>x\<in>set (List.map snd (sort_outputs outs)). canonical E x" unfolding set_so by (rule blinded_canonical[OF same b])
    have "proofs_used (db t) = proofs_used (db (wmint w)) @ used_rows (List.map sent_proof qs) None"
      by (rule swap_effect_aux[OF sw wf wfs can]) simp
    note spent = inputs_spent[OF conjunct1[OF sg] wfs Y this]
    have "set (keep @ send) = set nps" by (simp add: ks new)
    moreover obtain fee where "wallet_fees (w_keysets (ww w)) ps = Inr fee" "sum_list ko + sum_list so + fee = sum_wallet ps" "amount \<le> sum_list so"
      using determine_output_amounts_ok[OF det amt] by blast
    moreover have "\<forall>p\<in>set nps. good_money E t (w_keysets (ww w)) p" using nps(3) k3 w4 by simp
    moreover have "p_secret p \<notin> p_secret ` set (w_proofs (ww w')) \<and> p_secret p \<notin> wr_secret ` set (wd_proofs (wdb w'))"
      if "p \<in> set ps" for p
      using iv spent[OF that] by auto
    ultimately show ?thesis using spent unfolding tw sums by blast
  qed
qed

text \<open>The witness: a coin of 2, with a fee of 1, is swapped for a coin of 1.\<close>

definition sample_router :: router_env where
  "sample_router = \<lparr>renv = sample_env, max_request_length = 1000\<rparr>"

definition good_coin :: wallet_proof where
  "good_coin = token_proof.extend (sample_proof 2 ''a'') \<lparr>wp_reserved = Some False, wp_send_id = None, wp_derivation_path = None,
     wp_mint_id = None, wp_melt_id = None\<rparr>"

definition sample_split :: "(error + wallet_proof list \<times> wallet_proof list) \<times> ledger world" where
  "sample_split = wallet_split sample_venv (ledger_api sample_router ''{}'') [good_coin] 0 None False (sample_world sample_ledger)"

lemma sample_split_ok: "isOk (fst sample_split)"
  by code_simp

lemma good_coin_wf: "wf_proof sample_env (token_proof.truncate good_coin)"
  by code_simp

theorem swap_end_to_end_witness:
  "\<exists>keep send w'. sample_split = (Inr (keep, send), w') \<and> 0 \<le> sum_wallet send \<and>
     (\<forall>p\<in>set (keep @ send). good_money sample_env (wmint w') (w_keysets empty_wallet) p) \<and>
     p_Y good_coin \<in> pr_y ` set (proofs_used (db (wmint w')))"
proof -
  let ?w = "sample_world sample_ledger"
  obtain keep send w' where r: "sample_split = (Inr (keep, send), w')" using isOk_run[OF sample_split_ok] by (metis surj_pair)
  have w: "ww ?w = empty_wallet" "wmint ?w = sample_ledger" by (simp_all add: sample_world_def)
  have "sample_env = renv sample_router" by (simp add: sample_router_def)
  from swap_end_to_end[OF r[unfolded sample_split_def] this sample_same_curve] show ?thesis
    using sample_mint_keys(1,2) sample_wf(1) good_coin_wf r by (auto simp: w empty_wallet_def)
qed

end
