(* ===== verification/Restoring.thy ===== *)
theory Restoring
  imports WalletHistory
begin

text \<open>
  Restoring a wallet from its seed (theory \<open>WalletRestore\<close>): the loop over the batches ends when the mint has nothing
  to restore, and the counter of the keyset is then zero, whatever it was before.
\<close>

text \<open>A mint that knows none of the outputs it is asked for.\<close>

definition knows_nothing :: "'m mint_api \<Rightarrow> bool" where
  "knows_nothing A \<longleftrightarrow> (\<forall>outs m. http_restore A outs m = (Inr ([], []), m))"

lemma outputs_world:
  assumes "construct_outputs V amounts secrets rs kid s = (r, t)"
  shows "ww t = ww s \<and> wdb t = wdb s"
proof -
  let ?I = "\<lambda>u. ww u = ww s \<and> wdb u = wdb s"
  have made: "keeps ?I (construct_output V kid x)" for kid x
    unfolding construct_output_def
    by (intro keeps_prod keeps_bindS keeps_option keeps_returnS) (auto simp: keeps_def)
  have "keeps ?I (construct_outputs V amounts secrets rs kid)"
    unfolding construct_outputs_def Let_def
    by (intro made keeps_thenS keeps_bindS keeps_mapS keeps_guardS keeps_returnS) (simp add: keeps_def)
  then show ?thesis using assms keepsD2[of ?I] by blast
qed

lemma construct_no_proofs: "construct_proofs V A [] secrets rs paths s = (Inr [], s)"
  by (simp add: construct_proofs_def store_proofs_def wtransaction_def bindS_def thenS_def)

text \<open>A batch of which the mint knows nothing: the counter is set to the end of the batch.\<close>

lemma empty_batch:
  assumes "knows_nothing A" and "w_keysets (ww s) \<noteq> []" and "restore_promises_from_to V A kid a b s = (Inr (n, ps), t)"
  shows "n = 0 \<and> ps = [] \<and> ww t = ww s \<and> wdb t = set_secret_derivation kid (b + 1) (wdb s)"
proof -
  obtain secrets rs paths outs rs' s1 s2 where
    o: "construct_outputs V (replicate (length secrets) 1) secrets rs (Some kid) s = (Inr (outs, rs'), s1)"
    and p: "restore_promises V A outs secrets rs paths s1 = (Inr (n, ps), s2)" "t = s2\<lparr>wdb := set_secret_derivation kid (b + 1) (wdb s2)\<rparr>"
    using assms(3) by (auto simp: restore_promises_from_to_def elim!: bindS_OkE thenS_OkE split: prod.splits)
  have s1: "ww s1 = ww s" "wdb s1 = wdb s" using outputs_world[OF o] by simp_all
  have "matching_indices outs [] = []" by (simp add: matching_indices_def)
  then have "restore_promises V A outs secrets rs paths s1 = (Inr (0, []), s1)"
    using assms(1,2) s1
    by (simp add: restore_promises_def api_restore_promises_def ensure_mint_loaded_def bindS_def thenS_def whenS_def call_mint_def
        knows_nothing_def construct_no_proofs next_restored_index_def)
  with p s1 show ?thesis by (simp add: bindS_def thenS_def)
qed

lemma set_counter_of: "counter_of kid d = Some c \<Longrightarrow> counter_of kid (set_secret_derivation kid n d) = Some n"
  by (auto simp: counter_of_def set_secret_derivation_def map_counter_def find_map split: list.splits dest: filter_eq_ConsD)

lemma bump_counter_of: "counter_of kid d = Some c \<Longrightarrow> counter_of kid (snd (bump_secret_derivation kid n False d)) = Some (c + n)"
  by (auto simp: bump_keysets counter_of_def find_map split: list.splits dest: filter_eq_ConsD)

lemma empty_loop:
  assumes "knows_nothing A"
  shows "w_keysets (ww s) \<noteq> [] \<Longrightarrow> counter_of kid (wdb s) = Some c \<Longrightarrow> (eb < to \<or> c = i) \<Longrightarrow>
    \<exists>r t. restore_loop V A kid to batch eb i n s = Some (r, t) \<and>
      (\<forall>j m. r = Inr (j, m) \<longrightarrow> m = n \<and> counter_of kid (wdb t) = Some j)"
proof (induction "nat (to - eb)" arbitrary: eb i s c)
  case (0 eb i s c)
  then show ?case by (subst restore_loop.simps) auto
next
  case (Suc k)
  obtain r1 t1 where r: "restore_promises_from_to V A kid i (i + batch - 1) s = (r1, t1)" by force
  have lt: "eb < to" using Suc.hyps(2) by linarith
  show ?case
  proof (cases r1)
    case (Inl e)
    then show ?thesis using lt r by (subst restore_loop.simps) auto
  next
    case (Inr x)
    obtain m ps where x: "x = (m, ps)" by force
    note e = empty_batch[OF assms Suc.prems(1) r[unfolded Inr x]]
    have "counter_of kid (wdb t1) = Some (i + batch)" using e set_counter_of[OF Suc.prems(2)] by simp
    moreover have "k = nat (to - (eb + 1))" using Suc.hyps(2) by linarith
    ultimately obtain r t where "restore_loop V A kid to batch (eb + 1) (i + batch) n t1 = Some (r, t)"
      "\<forall>j m. r = Inr (j, m) \<longrightarrow> m = n \<and> counter_of kid (wdb t) = Some j"
      using Suc.hyps(1)[of "eb + 1" t1 "i + batch" "i + batch"] Suc.prems(1) e by auto
    then show ?thesis using lt r Inr x e by (subst restore_loop.simps) auto
  qed
qed

text \<open>C32. When the mint knows none of the secrets from the counter on, restoring a keyset ends, after as many batches as are
  asked for. If nothing fails, the counter of the keyset is then zero: the secrets that were counted before are lost
  from the count, and the next operation derives them a second time.\<close>

theorem restore_forgets_counter:
  assumes "knows_nothing A" and "w_keysets (ww s) \<noteq> []" and "counter_of kid (wdb s) = Some c" and "0 < to"
  shows "\<exists>r t. restore_tokens_for_keyset V A kid to batch s = Some (r, t) \<and> (r = Inr () \<longrightarrow> counter_of kid (wdb t) = Some 0)"
proof -
  obtain d where b: "bump_secret_derivation kid 0 False (wdb s) = (c, d)" and d: "counter_of kid d = Some c"
    using bump_counter_of[OF assms(3), of 0] assms(3) by (simp add: bump_secret_derivation_def)
  obtain r t where l: "restore_loop V A kid to batch 0 c 0 (s\<lparr>wdb := d\<rparr>) = Some (r, t)"
    and r: "\<forall>j m. r = Inr (j, m) \<longrightarrow> m = 0 \<and> counter_of kid (wdb t) = Some j"
    using empty_loop[OF assms(1), of "s\<lparr>wdb := d\<rparr>" kid c 0 to c V batch 0] assms(2,4) d by auto
  show ?thesis
  proof (cases r)
    case (Inl e)
    then show ?thesis using b l by (simp add: restore_tokens_for_keyset_def)
  next
    case (Inr x)
    then obtain j where "r = Inr (j, 0)" "counter_of kid (wdb t) = Some j" using r by (cases x) auto
    then show ?thesis using b l bump_counter_of[of kid "wdb t" j "- j"] by (simp add: restore_tokens_for_keyset_def)
  qed
qed

definition forgetful_mint :: "nat mint_api" where
  "forgetful_mint = no_mint\<lparr>http_restore := (\<lambda>outs. returnS ([], []))\<rparr>"

definition used_world :: "nat world" where
  "used_world = (sample_world 0)\<lparr>wdb := set_secret_derivation ''00ks'' 7 sample_wallet_db\<rparr>"

lemma used_world_restored: "map_option fst (restore_tokens_for_keyset sample_venv forgetful_mint ''00ks'' 1 2 used_world) = Some (Inr ())"
  by code_simp

text \<open>The witness: a wallet that has used seven secrets, restored in one batch of two.\<close>

theorem restore_forgets_counter_witness:
  "counter_of ''00ks'' (wdb used_world) = Some 7 \<and>
   (\<exists>t. restore_tokens_for_keyset sample_venv forgetful_mint ''00ks'' 1 2 used_world = Some (Inr (), t) \<and>
     counter_of ''00ks'' (wdb t) = Some 0)"
proof -
  have "counter_of ''00ks'' (wdb used_world) = Some 7" by code_simp
  moreover have "knows_nothing forgetful_mint" by (simp add: knows_nothing_def forgetful_mint_def)
  moreover have "w_keysets (ww used_world) \<noteq> []" by (simp add: used_world_def sample_world_def empty_wallet_def)
  ultimately show ?thesis
    using restore_forgets_counter[of forgetful_mint used_world "''00ks''" 7 1 sample_venv 2] used_world_restored by auto
qed

end
