(* ===== verification/Unlocking.thy ===== *)
theory Unlocking
  imports Exchange Locks
begin

text \<open>
  Locks across the two programs: a proof locked with \<open>create_p2pk_lock\<close> to the key of a wallet is given a witness by
  that wallet with which the mint lets it pass.
\<close>

section \<open>Texts\<close>

lemma lower_hex_digit: "d < 16 \<Longrightarrow> lower_char (hex_digit d) = hex_digit d"
  by (auto simp: hex_digit_def lower_char_def Let_def of_char_of)

lemma lower_to_hex [simp]: "lower (to_hex bs) = to_hex bs"
proof -
  have "of_char c div 16 < (16::nat) \<and> of_char c mod 16 < (16::nat)" for c :: char
  proof -
    have "of_char c < (256::nat)" by simp
    then show ?thesis by linarith
  qed
  then show ?thesis by (induction bs) (auto simp: to_hex_def lower_def lower_hex_digit)
qed

lemma p2pk_witness_read: "p2pk_witness_signatures (p2pk_witness_json sigs) = Inr sigs"
proof -
  have "json_loads (p2pk_witness_json sigs) = Inr (JObj [(''signatures'', strs_json sigs)])"
    unfolding p2pk_witness_json_def by (rule compact_separators.loads_dumps_sep) (auto simp: strs_json_def list_all_iff)
  then show ?thesis by (simp add: p2pk_witness_signatures_def json_obj_def strs_json_def json_list_def mapR_json_str)
qed

lemma filterR_all: "\<forall>x\<in>set xs. f x = Inr True \<Longrightarrow> filterR f xs = Inr xs"
  by (induction xs) auto

section \<open>The lock of a wallet\<close>

definition own_lock :: "wallet_env \<Rightarrow> string \<Rightarrow> int option \<Rightarrow> string \<Rightarrow> secret" where
  "own_lock Vw key lt nc = (create_p2pk_lock Vw key lt None False 1)\<lparr>s_nonce := Some nc\<rparr>"

lemma own_lock_read: "deserialize (serialize (create_p2pk_lock Vw key lt None False 1) nc) = Inr (own_lock Vw key lt nc)"
  by (simp add: deserialize_serialize own_lock_def) (simp add: create_p2pk_lock_def Let_def)

lemma own_lock_fields:
  "s_kind (own_lock Vw key lt nc) = ''P2PK''" "s_data (own_lock Vw key lt nc) = key"
  "get_tag (s_tags (own_lock Vw key lt nc)) ''sigflag'' = Inr (Some ''SIG_INPUTS'')"
  "get_tag_all (s_tags (own_lock Vw key lt nc)) ''pubkeys'' = Inr []"
  "get_tag_all (s_tags (own_lock Vw key lt nc)) ''refund'' = Inr []"
  "get_tag (s_tags (own_lock Vw key lt nc)) ''n_sigs'' = Inr None"
  by (simp_all add: own_lock_def create_p2pk_lock_def Let_def set_tag_def)

definition schnorr_signs :: "wallet_env \<Rightarrow> curve \<Rightarrow> int set \<Rightarrow> bool" where
  "schnorr_signs Vw C K \<longleftrightarrow>
     (\<forall>k\<in>K. \<forall>m. xonly_verify C (tl (pt_format C (pt_public C k))) (sign_schnorr Vw k m) m = Some True)"

definition own_signature :: "wallet_env \<Rightarrow> int \<Rightarrow> 'a token_proof_scheme \<Rightarrow> string" where
  "own_signature Vw k p = to_hex (schnorr_sign Vw k (encode_utf8 (p_secret p)))"

definition signed :: "wallet_env \<Rightarrow> int \<Rightarrow> 'a token_proof_scheme \<Rightarrow> 'a token_proof_scheme" where
  "signed Vw k p = p\<lparr>p_witness := Some (p2pk_witness_json [own_signature Vw k p])\<rparr>"

definition locked_to :: "wallet_env \<Rightarrow> string \<Rightarrow> 'a token_proof_scheme \<Rightarrow> bool" where
  "locked_to Vw key p \<longleftrightarrow> p_witness p = None \<and> (\<exists>lt nc. p_secret p = serialize (create_p2pk_lock Vw key lt None False 1) nc)"

text \<open>The wallet signs each of the proofs.\<close>

lemma add_own_signatures:
  "\<forall>p\<in>set ps. locked_to Vw key p \<Longrightarrow>
   mapR (\<lambda>(p, s). add_signature p s) (zip ps (List.map (own_signature Vw k) ps)) = Inr (List.map (signed Vw k) ps)"
proof (induction ps)
  case (Cons p ps)
  then obtain lt nc where "p_secret p = serialize (create_p2pk_lock Vw key lt None False 1) nc" "p_witness p = None"
    by (auto simp: locked_to_def)
  then have "add_signature p (own_signature Vw k p) = Inr (signed Vw k p)"
    by (simp add: add_signature_def own_lock_read own_lock_fields add_p2pk_signature_def truthy_str_def signed_def)
  then show ?case using Cons by simp
qed simp

lemma sign_own:
  assumes "\<forall>p\<in>set ps. locked_to Vw (pk_hex (crv (wenv Vw)) (pt_public (crv (wenv Vw)) k)) p" and "w_private_key W = Some k"
  shows "sign_p2pk_sig_inputs Vw W ps = Inr (List.map (signed Vw k) ps)"
proof -
  let ?key = "pk_hex (crv (wenv Vw)) (pt_public (crv (wenv Vw)) k)"
  have l: "\<exists>lt nc. deserialize (p_secret p) = Inr (own_lock Vw ?key lt nc)" if "p \<in> set ps" for p
    using assms(1) that own_lock_read unfolding locked_to_def by metis
  have 1: "filter (\<lambda>p. needs_signature (p_secret p)) ps = ps"
    by (rule filter_True) (use l in \<open>fastforce simp: needs_signature_def own_lock_fields\<close>)
  have 2: "filterR (\<lambda>p. bindR (deserialize (p_secret p)) (\<lambda>s. bindR (sigflag s) (\<lambda>f. Inr (f = SIG_INPUTS)))) ps = Inr ps"
    by (rule filterR_all) (use l in \<open>fastforce simp: sigflag_def own_lock_fields truthy_str_def sig_flag_of_def\<close>)
  have 3: "filter_proofs_locked_to_our_pubkey Vw W ps = Inr ps"
    unfolding filter_proofs_locked_to_our_pubkey_def need_key_def assms(2) ofOption_simps bindR_simps Let_def
    by (rule filterR_all) (use l in \<open>fastforce simp: lock_pubkeys_def own_lock_fields\<close>)
  have 4: "signatures_proofs_sig_inputs Vw W ps = Inr (List.map (own_signature Vw k) ps)"
    by (simp add: signatures_proofs_sig_inputs_def need_key_def assms(2) own_signature_def)
  show ?thesis
    using add_own_signatures[OF assms(1), of k]
    by (cases "ps = []") (simp_all add: sign_p2pk_sig_inputs_def 1 2 3 4 add_signatures_to_proofs_def)
qed

lemma find_signed:
  "distinct (List.map p_secret ps) \<Longrightarrow> p \<in> set ps \<Longrightarrow>
   List.find (\<lambda>q. p_secret q = p_secret p) (List.map (signed Vw k) ps) = Some (signed Vw k p)"
  by (induction ps) (auto simp: signed_def)

section \<open>What the mint says\<close>

lemma own_signature_valid:
  assumes "same_curve Vw E V K" and "schnorr_signs Vw (crv E) K" and "k \<in> K"
  shows "verify_schnorr_signature E (p_secret p) (pk_hex (crv E) (pt_public (crv E) k)) (own_signature Vw k p) = Inr True"
proof -
  have laws: "curve_laws (crv E) V K" and enc: "encodings (crv E) V K" and C: "crv (wenv Vw) = crv E"
    using assms(1) by (simp_all add: same_curve_def)
  have "pt_public (crv E) k \<in> V" using public_in[OF laws] assms(3) by simp
  then show ?thesis
    using assms(2,3) by (simp add: verify_schnorr_signature_def pk_hex_back[OF enc] own_signature_def schnorr_sign_def C schnorr_signs_def)
qed

lemma set_order_single: "set_order_ok E \<Longrightarrow> set_order E [x] = [x]"
proof -
  assume "set_order_ok E"
  then have "mset (set_order E [x]) = {#x#}" by (auto simp: set_order_ok_def)
  then show ?thesis by (cases "set_order E [x]") auto
qed

lemma pk_hex_lower [simp]: "lower (pk_hex C p) = pk_hex C p"
  by (simp add: pk_hex_def)

lemma own_signature_lower [simp]: "lower (own_signature Vw k p) = own_signature Vw k p"
  by (simp add: own_signature_def)

lemma own_lock_passes:
  assumes "same_curve Vw E V K" and "schnorr_signs Vw (crv E) K" and "k \<in> K" and "set_order_ok E"
    and "locked_to Vw (pk_hex (crv E) (pt_public (crv E) k)) p"
  shows "verify_input_spending_conditions E (token_proof.truncate (signed Vw k p)) = Inr True \<and>
    \<not> requires_sigall (token_proof.truncate (signed Vw k p))"
proof -
  let ?key = "pk_hex (crv E) (pt_public (crv E) k)" and ?q = "token_proof.truncate (signed Vw k p)"
  obtain lt nc where d: "deserialize (p_secret p) = Inr (own_lock Vw ?key lt nc)"
    using assms(5) own_lock_read unfolding locked_to_def by metis
  have q: "p_secret ?q = p_secret p" "p_witness ?q = Some (p2pk_witness_json [own_signature Vw k p])"
    by (simp_all add: signed_def token_proof.truncate_def)
  have "p2pk_witness_json [own_signature Vw k p] \<noteq> []" by (simp add: p2pk_witness_json_def)
  then have sigs: "p2pksigs ?q = Inr [own_signature Vw k p]" by (simp add: p2pksigs_def q truthy_str_def p2pk_witness_read)
  have one: "n_sigs (own_lock Vw ?key lt nc) = Inr 1"
    by (simp add: n_sigs_def get_tag_int_def own_lock_fields truthy_int_def)
  have "try_path E (p_secret p) [?key] ?q 1 = Inr True"
    by (simp add: try_path_def sigs verify_p2pk_signatures_def set_order_single[OF assms(4)] own_signature_valid[OF assms(1-3)])
  then have "verify_p2pk_sig_inputs E ?q (own_lock Vw ?key lt nc) None = Inr True"
    by (simp add: verify_p2pk_sig_inputs_def own_lock_fields truthy_str_def secret_kind_of_def one q)
  then show ?thesis
    by (simp add: verify_input_spending_conditions_def requires_sigall_def q d own_lock_fields secret_kind_of_def p2pk_from_secret_def
        htlc_from_secret_def sigflag_def truthy_str_def sig_flag_of_def)
qed

text \<open>C33. A wallet opens what is locked to it: proofs whose secrets are the lock that \<^verbatim>\<open>create_p2pk_lock\<close> makes for the
  wallet's key, with or without a lock time, are signed before a swap so that each passes the mint's check of its spending
  condition, and none asks for a signature of all inputs and outputs. Nothing but the witnesses changes.\<close>

theorem own_lock_opened:
  assumes "same_curve Vw E V K" and "schnorr_signs Vw (crv E) K" and "k \<in> K" and "set_order_ok E" and "w_private_key W = Some k"
    and "\<forall>p\<in>set ps. locked_to Vw (pk_hex (crv E) (pt_public (crv E) k)) p" and "distinct (List.map p_secret ps)"
  shows "\<exists>qs. sign_proofs_inplace_swap Vw W ps outs = Inr qs \<and>
    List.map (\<lambda>q. q\<lparr>p_witness := None\<rparr>) qs = List.map (\<lambda>p. p\<lparr>p_witness := None\<rparr>) ps \<and>
    mapR (verify_input_spending_conditions E) (List.map token_proof.truncate qs) = Inr (List.map (\<lambda>_. True) qs) \<and>
    \<not> inputs_require_sigall (List.map token_proof.truncate qs)"
proof -
  let ?qs = "List.map (signed Vw k) ps"
  have C: "crv (wenv Vw) = crv E" using assms(1) by (simp add: same_curve_def)
  have w: "add_witnesses_sig_inputs Vw W ps = Inr ?qs"
    using find_signed[OF assms(7), of _ Vw k]
    by (simp add: add_witnesses_sig_inputs_def sign_own[OF assms(6)[folded C] assms(5)] cong: map_cong)
  note passes = own_lock_passes[OF assms(1-4)]
  have same: "wallet_requires_sigall (p_secret q) = requires_sigall (token_proof.truncate q)" for q :: "'a token_proof_scheme"
    by (simp add: wallet_requires_sigall_def requires_sigall_def token_proof.truncate_def)
  have n: "\<not> wallet_inputs_require_sigall ?qs" "\<not> inputs_require_sigall (List.map token_proof.truncate ?qs)"
    using passes assms(6) by (auto simp: wallet_inputs_require_sigall_def inputs_require_sigall_def list_ex_iff same)
  have "mapR (verify_input_spending_conditions E) (List.map token_proof.truncate ?qs) = Inr (List.map (\<lambda>_. True) ?qs)"
    using assms(6) by (induction ps) (simp_all add: passes)
  then show ?thesis
    using w n by (intro exI[of _ ?qs]) (auto simp: sign_proofs_inplace_swap_def add_witness_swap_sig_all_def signed_def)
qed

text \<open>The witness: on the sample curve the signature of a key is the byte of its public key and the hash of the message.\<close>

definition signing_venv :: wallet_env where
  "signing_venv = sample_venv\<lparr>sign_schnorr := (\<lambda>k m. char_of (nat (min k (5 - k))) # m)\<rparr>"

definition locked_coin :: "int option \<Rightarrow> wallet_proof" where
  "locked_coin lt = (sample_coin 8)\<lparr>p_secret := serialize (create_p2pk_lock signing_venv (pk_hex z5_curve 2) lt None False 1) ''n''\<rparr>"

theorem own_lock_opened_witness:
  "\<exists>qs. sign_proofs_inplace_swap signing_venv empty_wallet [locked_coin None, locked_coin (Some 60)] [] = Inr qs \<and>
     mapR (verify_input_spending_conditions sample_env) (List.map token_proof.truncate qs) = Inr (List.map (\<lambda>_. True) qs)"
proof -
  have s: "same_curve signing_venv sample_env {1, 2, 3, 4} sample_K"
    using sample_same_curve(1) by (simp add: same_curve_def signing_venv_def)
  have l: "schnorr_signs signing_venv (crv sample_env) sample_K"
    by (simp add: schnorr_signs_def signing_venv_def sample_env_def z5_curve_def)
  have o: "set_order_ok sample_env" by (simp add: set_order_ok_def sample_env_def)
  have k: "w_private_key empty_wallet = Some 2" by (simp add: empty_wallet_def)
  have "pk_hex z5_curve (pt_public (crv sample_env) 2) = pk_hex z5_curve 2" by (simp add: sample_env_def z5_curve_def)
  then have p: "\<forall>p\<in>set [locked_coin None, locked_coin (Some 60)]. locked_to signing_venv (pk_hex (crv sample_env) (pt_public (crv sample_env) 2)) p"
    by (auto simp: locked_to_def locked_coin_def sample_coin_def sample_env_def)
  have d: "distinct (List.map p_secret [locked_coin None, locked_coin (Some 60)])" by code_simp
  show ?thesis using own_lock_opened[OF s l _ o k p d] by auto
qed

end
