(* ===== verification/MintInfo.thy ===== *)
theory MintInfo
  imports Json Samples
begin

text \<open>
  What a mint says of itself: the features it advertises (\<^verbatim>\<open>cashu/mint/features.py\<close>) and the questions that a wallet,
  and the mint's own middleware, ask of them (\<^verbatim>\<open>cashu/core/mint_info.py\<close>, \<^verbatim>\<open>cashu/wallet/mint_info.py\<close>). The dictionary
  \<^verbatim>\<open>nuts\<close> goes from the number of a protocol part to any JSON value, and the questions are asked of whatever a mint sent:
  a value of an unexpected shape raises as it does in Python.
\<close>

section \<open>JSON values as Python uses them\<close>

definition jtruthy :: "json \<Rightarrow> bool" where
  "jtruthy j = (case j of
     JNull \<Rightarrow> False
   | JBool b \<Rightarrow> b
   | JInt n \<Rightarrow> n \<noteq> 0
   | JFloat s \<Rightarrow> list_ex (\<lambda>c. c \<in> set ''123456789'') (takeWhile (\<lambda>c. c \<noteq> CHR ''e'' \<and> c \<noteq> CHR ''E'') s)
   | JStr s \<Rightarrow> s \<noteq> []
   | JList l \<Rightarrow> l \<noteq> []
   | JObj d \<Rightarrow> d \<noteq> [])"

definition type_error :: error where
  "type_error = PyException ''TypeError''"

text \<open>\<^verbatim>\<open>d.get(k)\<close>, \<^verbatim>\<open>d[k]\<close>, \<^verbatim>\<open>k in d\<close> and \<^verbatim>\<open>for x in d\<close>.\<close>

definition jget :: "string \<Rightarrow> json \<Rightarrow> error + json option" where
  "jget k j = (case j of JObj d \<Rightarrow> Inr (map_of d k) | _ \<Rightarrow> Inl (PyException ''AttributeError''))"

definition jindex :: "string \<Rightarrow> json \<Rightarrow> error + json" where
  "jindex k j = (case j of JObj d \<Rightarrow> ofOption (KeyError k) (map_of d k) | _ \<Rightarrow> Inl type_error)"

definition occurs_in :: "string \<Rightarrow> string \<Rightarrow> bool" where
  "occurs_in x s = list_ex (\<lambda>k. starts x (drop k s)) [0..<Suc (length s)]"

definition jin :: "string \<Rightarrow> json \<Rightarrow> error + bool" where
  "jin k j = (case j of
     JObj d \<Rightarrow> Inr (map_of d k \<noteq> None)
   | JList l \<Rightarrow> Inr (JStr k \<in> set l)
   | JStr s \<Rightarrow> Inr (occurs_in k s)
   | _ \<Rightarrow> Inl type_error)"

definition jiter :: "json \<Rightarrow> error + json list" where
  "jiter j = (case j of
     JList l \<Rightarrow> Inr l
   | JObj d \<Rightarrow> Inr (List.map (\<lambda>(k, _). JStr k) d)
   | JStr s \<Rightarrow> Inr (List.map (\<lambda>c. JStr [c]) s)
   | _ \<Rightarrow> Inl type_error)"

text \<open>A field of a model that must be a text.\<close>

definition jtext :: "string \<Rightarrow> json \<Rightarrow> error + string" where
  "jtext k j = (case j of
     JObj d \<Rightarrow> (case map_of d k of Some (JStr s) \<Rightarrow> Inr s | _ \<Rightarrow> Inl (ValueError ''validation error''))
   | _ \<Rightarrow> Inl (ValueError ''validation error''))"

section \<open>Questions\<close>

type_synonym nuts = "(int \<times> json) list"

definition MINT_NUT :: int where "MINT_NUT = 4"
definition MELT_NUT :: int where "MELT_NUT = 5"
definition STATE_NUT :: int where "STATE_NUT = 7"
definition FEE_RETURN_NUT :: int where "FEE_RETURN_NUT = 8"
definition RESTORE_NUT :: int where "RESTORE_NUT = 9"
definition SCRIPT_NUT :: int where "SCRIPT_NUT = 10"
definition P2PK_NUT :: int where "P2PK_NUT = 11"
definition DLEQ_NUT :: int where "DLEQ_NUT = 12"
definition HTLC_NUT :: int where "HTLC_NUT = 14"
definition MPP_NUT :: int where "MPP_NUT = 15"
definition WEBSOCKETS_NUT :: int where "WEBSOCKETS_NUT = 17"
definition CACHE_NUT :: int where "CACHE_NUT = 19"
definition MINT_QUOTE_SIGNATURE_NUT :: int where "MINT_QUOTE_SIGNATURE_NUT = 20"
definition CLEAR_AUTH_NUT :: int where "CLEAR_AUTH_NUT = 21"
definition BLIND_AUTH_NUT :: int where "BLIND_AUTH_NUT = 22"

lemmas nut_numbers = MINT_NUT_def MELT_NUT_def STATE_NUT_def FEE_RETURN_NUT_def RESTORE_NUT_def SCRIPT_NUT_def P2PK_NUT_def
  DLEQ_NUT_def HTLC_NUT_def MPP_NUT_def WEBSOCKETS_NUT_def CACHE_NUT_def MINT_QUOTE_SIGNATURE_NUT_def CLEAR_AUTH_NUT_def
  BLIND_AUTH_NUT_def

definition supports_nut :: "nuts option \<Rightarrow> int \<Rightarrow> bool" where
  "supports_nut nuts n = (case nuts of None \<Rightarrow> False | Some d \<Rightarrow> map_of d n \<noteq> None)"

text \<open>The loop of \<^verbatim>\<open>supports_mpp\<close>: an entry is validated when it is reached.\<close>

fun any_mpp :: "string \<Rightarrow> unit_t \<Rightarrow> json list \<Rightarrow> error + bool" where
  "any_mpp m u [] = Inr False"
| "any_mpp m u (e # es) =
     bindR (jtext ''method'' e) (\<lambda>em. bindR (jtext ''unit'' e) (\<lambda>eu.
     if em = m \<and> eu = unit_name u then Inr True else any_mpp m u es))"

definition info_supports_mpp :: "nuts option \<Rightarrow> string \<Rightarrow> unit_t \<Rightarrow> error + bool" where
  "info_supports_mpp nuts m u =
     (case nuts of None \<Rightarrow> Inr False | Some d \<Rightarrow>
      (case map_of d MPP_NUT of
         None \<Rightarrow> Inr False
       | Some nut15 \<Rightarrow>
           if \<not> jtruthy nut15 then Inr False
           else bindR (jget ''methods'' nut15) (\<lambda>ms.
             case ms of None \<Rightarrow> Inr False | Some l \<Rightarrow>
               if \<not> jtruthy l then Inr False else bindR (jiter l) (any_mpp m u))))"

definition entry_is :: "string \<Rightarrow> string \<Rightarrow> json \<Rightarrow> error + bool" where
  "entry_is k v e = bindR (jindex k e) (\<lambda>x. Inr (x = JStr v))"

fun any_websocket :: "string \<Rightarrow> string \<Rightarrow> json list \<Rightarrow> error + bool" where
  "any_websocket m u [] = Inr False"
| "any_websocket m u (e # es) =
     bindR (entry_is ''method'' m e) (\<lambda>a.
     bindR (if a then entry_is ''unit'' u e else Inr False) (\<lambda>b.
     bindR (if b then bindR (jindex ''commands'' e) (jin ''bolt11_mint_quote'') else Inr False) (\<lambda>c.
     if c then Inr True else any_websocket m u es)))"

definition supports_websocket_mint_quote :: "nuts option \<Rightarrow> method_t \<Rightarrow> unit_t \<Rightarrow> error + bool" where
  "supports_websocket_mint_quote nuts m u =
     (case nuts of None \<Rightarrow> Inr False | Some d \<Rightarrow>
      (case map_of d WEBSOCKETS_NUT of
         None \<Rightarrow> Inr False
       | Some ws \<Rightarrow>
           if \<not> jtruthy ws then Inr False
           else bindR (jin ''supported'' ws) (\<lambda>has.
             if \<not> has then Inr False
             else bindR (jindex ''supported'' ws) (\<lambda>l. bindR (jiter l) (any_websocket (method_name m) (unit_name u))))))"

definition supports_mint_quote_signature :: "nuts option \<Rightarrow> error + json" where
  "supports_mint_quote_signature nuts =
     (case nuts of None \<Rightarrow> Inr (JBool False) | Some d \<Rightarrow>
      (case map_of d MINT_QUOTE_SIGNATURE_NUT of
         None \<Rightarrow> Inr (JBool False)
       | Some n \<Rightarrow> if jtruthy n then jindex ''supported'' n else Inr (JBool False)))"

text \<open>\<^verbatim>\<open>self.nuts[n]\<close>.\<close>

definition nut :: "nuts option \<Rightarrow> int \<Rightarrow> error + json" where
  "nut nuts n = (case nuts of None \<Rightarrow> Inl type_error | Some d \<Rightarrow> ofOption (KeyError (str_int n)) (map_of d n))"

definition requires_clear_auth :: "nuts option \<Rightarrow> bool" where
  "requires_clear_auth nuts = supports_nut nuts CLEAR_AUTH_NUT"

definition requires_blind_auth :: "nuts option \<Rightarrow> bool" where
  "requires_blind_auth nuts = supports_nut nuts BLIND_AUTH_NUT"

definition oidc_discovery_url :: "nuts option \<Rightarrow> error + json" where
  "oidc_discovery_url nuts =
     bindR (checkR (requires_clear_auth nuts)
       (PyException ''Could not get OIDC discovery URL. Mint info does not support clear auth.'')) (\<lambda>_.
     bindR (nut nuts CLEAR_AUTH_NUT) (jindex ''openid_discovery''))"

definition oidc_client_id :: "nuts option \<Rightarrow> error + json" where
  "oidc_client_id nuts =
     bindR (checkR (requires_clear_auth nuts)
       (PyException ''Could not get client_id. Mint info does not support clear auth.'')) (\<lambda>_.
     bindR (nut nuts CLEAR_AUTH_NUT) (jindex ''client_id''))"

definition bat_max_mint :: "nuts option \<Rightarrow> error + json" where
  "bat_max_mint nuts =
     bindR (checkR (requires_blind_auth nuts)
       (PyException ''Could not get max mint. Mint info does not support blind auth.'')) (\<lambda>_.
     bindR (nut nuts BLIND_AUTH_NUT) (\<lambda>j.
     bindR (jget ''bat_max_mint'' j) (\<lambda>x.
     case x of
       None \<Rightarrow> Inl (PyException ''Could not get max mint. bat_max_mint not set.'')
     | Some v \<Rightarrow> if jtruthy v then Inr v else Inl (PyException ''Could not get max mint. bat_max_mint not set.''))))"

text \<open>Endpoints that ask for a token: a method and a path, where a last \<^verbatim>\<open>*\<close> stands for any continuation.\<close>

definition match_protected_endpoint :: "string \<Rightarrow> string \<Rightarrow> bool" where
  "match_protected_endpoint endpoint_path request_path =
     (if endpoint_path \<noteq> [] \<and> List.last endpoint_path = CHR ''*''
      then starts (butlast endpoint_path) request_path
      else request_path = endpoint_path)"

definition endpoints_of :: "json \<Rightarrow> error + (string \<times> string) list" where
  "endpoints_of j =
     bindR (jindex ''protected_endpoints'' j) (\<lambda>l.
     bindR (jiter l) (\<lambda>es.
     mapR (\<lambda>e. bindR (jtext ''method'' e) (\<lambda>m. bindR (jtext ''path'' e) (\<lambda>p. Inr (m, p)))) es))"

definition required_clear_auth_endpoints :: "nuts option \<Rightarrow> error + (string \<times> string) list" where
  "required_clear_auth_endpoints nuts =
     (if \<not> requires_clear_auth nuts then Inr [] else bindR (nut nuts CLEAR_AUTH_NUT) endpoints_of)"

definition required_blind_auth_paths :: "nuts option \<Rightarrow> error + (string \<times> string) list" where
  "required_blind_auth_paths nuts =
     (if \<not> requires_blind_auth nuts then Inr [] else bindR (nut nuts BLIND_AUTH_NUT) endpoints_of)"

definition rooted :: "string \<Rightarrow> string" where
  "rooted path = (if starts ''/'' path then path else ''/'' @ path)"

definition protected_by :: "(string \<times> string) list \<Rightarrow> string \<Rightarrow> string \<Rightarrow> bool" where
  "protected_by es m path = list_ex (\<lambda>(em, ep). m = em \<and> match_protected_endpoint ep (rooted path)) es"

definition requires_clear_auth_path :: "nuts option \<Rightarrow> string \<Rightarrow> string \<Rightarrow> error + bool" where
  "requires_clear_auth_path nuts m path =
     (if \<not> requires_clear_auth nuts then Inr False
      else bindR (required_clear_auth_endpoints nuts) (\<lambda>es. Inr (protected_by es m path)))"

definition requires_blind_auth_path :: "nuts option \<Rightarrow> string \<Rightarrow> string \<Rightarrow> error + bool" where
  "requires_blind_auth_path nuts m path =
     (if \<not> requires_blind_auth nuts then Inr False
      else bindR (required_blind_auth_paths nuts) (\<lambda>es. Inr (protected_by es m path)))"

section \<open>Features\<close>

text \<open>The settings behind the features; \<open>streams\<close> are the backends with \<^verbatim>\<open>supports_incoming_payment_stream\<close>.\<close>

record feature_env =
  fenv :: env
  streams :: "method_t \<Rightarrow> unit_t \<Rightarrow> bool"
  require_auth :: bool
  discovery_url :: "string option"
  client_id :: string
  clear_auth_paths :: "(string \<times> string) list"
  blind_auth_paths :: "(string \<times> string) list"
  max_blind_tokens :: int
  redis_cache :: bool
  redis_cache_ttl :: "int option"

definition pairs :: "feature_env \<Rightarrow> (method_t \<times> unit_t \<times> backend) list" where
  "pairs F = concat (List.map (\<lambda>(m, us). List.map (\<lambda>(u, b). (m, u, b)) us) (backends (fenv F)))"

text \<open>Models in the answer are objects without the fields that are not set.\<close>

definition limit_fields :: "int option \<Rightarrow> (string \<times> json) list" where
  "limit_fields limit = (if truthy_int limit then [(''min_amount'', JInt 0), (''max_amount'', JInt (the limit))] else [])"

definition mint_setting :: "feature_env \<Rightarrow> method_t \<times> unit_t \<times> backend \<Rightarrow> json" where
  "mint_setting F = (\<lambda>(m, u, b). JObj ([(''method'', JStr (method_name m)), (''unit'', JStr (unit_name u))] @
     limit_fields (mint_max_mint_bolt11_sat (fenv F)) @
     [(''options'', JObj [(''description'', JBool (supports_description b))])]))"

definition melt_setting :: "feature_env \<Rightarrow> method_t \<times> unit_t \<times> backend \<Rightarrow> json" where
  "melt_setting F = (\<lambda>(m, u, b). JObj ([(''method'', JStr (method_name m)), (''unit'', JStr (unit_name u))] @
     limit_fields (mint_max_melt_bolt11_sat (fenv F))))"

definition create_mint_features :: "feature_env \<Rightarrow> nuts" where
  "create_mint_features F =
     [(MINT_NUT, JObj [(''methods'', JList (List.map (mint_setting F) (pairs F))),
        (''disabled'', JBool (mint_bolt11_disable_mint (fenv F)))]),
      (MELT_NUT, JObj [(''methods'', JList (List.map (melt_setting F) (pairs F))),
        (''disabled'', JBool (mint_bolt11_disable_melt (fenv F)))])]"

definition set_nut :: "int \<Rightarrow> json \<Rightarrow> nuts \<Rightarrow> nuts" where
  "set_nut n j d = AList.update n j d"

definition add_supported_features :: "nuts \<Rightarrow> nuts" where
  "add_supported_features d = foldl (\<lambda>d n. set_nut n (JObj [(''supported'', JBool True)]) d) d
     [STATE_NUT, FEE_RETURN_NUT, RESTORE_NUT, SCRIPT_NUT, P2PK_NUT, DLEQ_NUT, HTLC_NUT, MINT_QUOTE_SIGNATURE_NUT]"

definition mpp_entry :: "method_t \<times> unit_t \<times> backend \<Rightarrow> json" where
  "mpp_entry = (\<lambda>(m, u, b). JObj [(''method'', JStr (method_name m)), (''unit'', JStr (unit_name u))])"

definition add_mpp_features :: "feature_env \<Rightarrow> nuts \<Rightarrow> nuts" where
  "add_mpp_features F d =
     (let mpp = List.map mpp_entry (filter (\<lambda>(m, u, b). supports_mpp b) (pairs F))
      in if mpp = [] then d else set_nut MPP_NUT (JObj [(''methods'', JList mpp)]) d)"

definition websocket_entry :: "feature_env \<Rightarrow> method_t \<times> unit_t \<times> backend \<Rightarrow> json" where
  "websocket_entry F = (\<lambda>(m, u, b). JObj [(''method'', JStr (method_name m)), (''unit'', JStr (unit_name u)),
     (''commands'', JList (List.map JStr ([''bolt11_melt_quote'', ''proof_state''] @
        (if streams F m u then [''bolt11_mint_quote''] else []))))])"

definition endpoint_entry :: "string \<times> string \<Rightarrow> json" where
  "endpoint_entry = (\<lambda>(m, p). JObj [(''method'', JStr m), (''path'', JStr p)])"

definition add_websocket_features :: "feature_env \<Rightarrow> nuts \<Rightarrow> error + nuts" where
  "add_websocket_features F d =
     (let ws = JObj [(''supported'', JList (List.map (websocket_entry F) (filter (\<lambda>(m, u, b). m = bolt11) (pairs F))))];
          d1 = set_nut WEBSOCKETS_NUT ws d
      in if \<not> require_auth F then Inr d1
         else if \<not> truthy_str (discovery_url F)
           then Inl (PyException ''Missing OpenID Connect discovery URL: MINT_AUTH_OICD_DISCOVERY_URL'')
         else let clear = JObj [(''openid_discovery'', JStr (the (discovery_url F))), (''client_id'', JStr (client_id F)),
                    (''protected_endpoints'', JList (List.map endpoint_entry (clear_auth_paths F)))];
                  blind = JObj [(''bat_max_mint'', JInt (max_blind_tokens F)),
                    (''protected_endpoints'', JList (List.map endpoint_entry (blind_auth_paths F)))]
              in Inr (set_nut BLIND_AUTH_NUT blind (set_nut CLEAR_AUTH_NUT clear d1)))"

definition cached_endpoint :: "string \<Rightarrow> json" where
  "cached_endpoint path = JObj [(''method'', JStr ''POST''), (''path'', JStr path)]"

definition add_cache_features :: "feature_env \<Rightarrow> nuts \<Rightarrow> nuts" where
  "add_cache_features F d =
     (if \<not> redis_cache F then d
      else set_nut CACHE_NUT (JObj ([(''cached_endpoints'', JList (List.map cached_endpoint
               [''/v1/mint/bolt11'', ''/v1/melt/bolt11'', ''/v1/swap'']))] @
             (if truthy_int (redis_cache_ttl F) then [(''ttl'', JInt (the (redis_cache_ttl F)))] else []))) d)"

definition mint_features :: "feature_env \<Rightarrow> error + nuts" where
  "mint_features F =
     bindR (add_websocket_features F (add_mpp_features F (add_supported_features (create_mint_features F)))) (\<lambda>d.
     Inr (add_cache_features F d))"

section \<open>What is advertised is what is read\<close>

lemma any_mpp_entries: "any_mpp m u (List.map mpp_entry l) = Inr (\<exists>(m', v, b)\<in>set l. method_name m' = m \<and> v = u)"
  by (induction l) (auto simp: mpp_entry_def jtext_def split: prod.splits)

lemma any_websocket_entries:
  "any_websocket m (unit_name u) (List.map (websocket_entry F) l) =
     Inr (\<exists>(m', v, b)\<in>set l. method_name m' = m \<and> v = u \<and> streams F m' v)"
  by (induction l) (auto simp: websocket_entry_def entry_is_def jindex_def jin_def split: prod.splits)

lemma endpoints_entries: "endpoints_of (JObj [(k, x), (''protected_endpoints'', JList (List.map endpoint_entry es))]) = Inr es"
  if "k \<noteq> ''protected_endpoints''"
proof -
  have "mapR (\<lambda>e. bindR (jtext ''method'' e) (\<lambda>m. bindR (jtext ''path'' e) (\<lambda>p. Inr (m, p)))) (List.map endpoint_entry es) = Inr es"
    by (induction es) (auto simp: endpoint_entry_def jtext_def split: prod.splits)
  then show ?thesis using that by (simp add: endpoints_of_def jindex_def jiter_def)
qed

lemma endpoints_entries3:
  "endpoints_of (JObj [(k, x), (l, y), (''protected_endpoints'', JList (List.map endpoint_entry es))]) = Inr es"
  if "k \<noteq> ''protected_endpoints''" "l \<noteq> ''protected_endpoints''"
  using endpoints_entries[OF that(2)] that by (simp add: endpoints_of_def jindex_def)

lemma method_name_inj [simp]: "method_name m = method_name m' \<longleftrightarrow> m = m'"
  by (cases m; cases m') simp

text \<open>The entries of the features under the numbers that the questions look at.\<close>

definition clear_auth_features :: "feature_env \<Rightarrow> json" where
  "clear_auth_features F = JObj [(''openid_discovery'', JStr (the (discovery_url F))), (''client_id'', JStr (client_id F)),
     (''protected_endpoints'', JList (List.map endpoint_entry (clear_auth_paths F)))]"

definition blind_auth_features :: "feature_env \<Rightarrow> json" where
  "blind_auth_features F = JObj [(''bat_max_mint'', JInt (max_blind_tokens F)),
     (''protected_endpoints'', JList (List.map endpoint_entry (blind_auth_paths F)))]"

lemma mpp_nut: "map_of (add_mpp_features F d) n =
  (if n = MPP_NUT \<and> filter (\<lambda>(m, u, b). supports_mpp b) (pairs F) \<noteq> []
   then Some (JObj [(''methods'', JList (List.map mpp_entry (filter (\<lambda>(m, u, b). supports_mpp b) (pairs F))))]) else map_of d n)"
  by (simp add: add_mpp_features_def Let_def set_nut_def update_conv')

lemma cache_nut: "n \<noteq> CACHE_NUT \<Longrightarrow> map_of (add_cache_features F d) n = map_of d n"
  by (simp add: add_cache_features_def set_nut_def update_conv')

lemma supported_nuts: "n \<in> {MPP_NUT, WEBSOCKETS_NUT, CLEAR_AUTH_NUT, BLIND_AUTH_NUT} \<Longrightarrow>
    map_of (add_supported_features (create_mint_features F)) n = None"
  by (auto simp: add_supported_features_def set_nut_def update_conv' create_mint_features_def nut_numbers)

lemma websocket_nut:
  assumes "add_websocket_features F d = Inr d'"
  shows "map_of d' n =
    (if n = BLIND_AUTH_NUT \<and> require_auth F then Some (blind_auth_features F)
     else if n = CLEAR_AUTH_NUT \<and> require_auth F then Some (clear_auth_features F)
     else if n = WEBSOCKETS_NUT then Some (JObj [(''supported'', JList (List.map (websocket_entry F) (pairs F)))])
     else map_of d n)"
proof -
  have b: "filter (\<lambda>(m, u, b). m = bolt11) (pairs F) = pairs F"
    by (rule filter_True) (auto intro: method_t.exhaust)
  from assms have "d' = (let d1 = set_nut WEBSOCKETS_NUT (JObj [(''supported'', JList (List.map (websocket_entry F) (pairs F)))]) d
     in if require_auth F then set_nut BLIND_AUTH_NUT (blind_auth_features F) (set_nut CLEAR_AUTH_NUT (clear_auth_features F) d1) else d1)"
    unfolding add_websocket_features_def Let_def b blind_auth_features_def clear_auth_features_def by (simp split: if_splits)
  then show ?thesis by (simp add: Let_def set_nut_def update_conv')
qed

lemma features_lookup:
  assumes "mint_features F = Inr d"
  shows "map_of d MPP_NUT = (let l = List.map mpp_entry (filter (\<lambda>(m, u, b). supports_mpp b) (pairs F))
      in if l = [] then None else Some (JObj [(''methods'', JList l)]))"
    and "map_of d WEBSOCKETS_NUT = Some (JObj [(''supported'', JList (List.map (websocket_entry F) (pairs F)))])"
    and "map_of d CLEAR_AUTH_NUT = (if require_auth F then Some (clear_auth_features F) else None)"
    and "map_of d BLIND_AUTH_NUT = (if require_auth F then Some (blind_auth_features F) else None)"
proof -
  obtain d' where d': "add_websocket_features F (add_mpp_features F (add_supported_features (create_mint_features F))) = Inr d'"
    and d: "d = add_cache_features F d'"
    using assms by (auto simp: mint_features_def bindR_Inr)
  have n: "MPP_NUT \<noteq> CACHE_NUT" "WEBSOCKETS_NUT \<noteq> CACHE_NUT" "CLEAR_AUTH_NUT \<noteq> CACHE_NUT" "BLIND_AUTH_NUT \<noteq> CACHE_NUT"
    "MPP_NUT \<noteq> WEBSOCKETS_NUT" "MPP_NUT \<noteq> CLEAR_AUTH_NUT" "MPP_NUT \<noteq> BLIND_AUTH_NUT" "WEBSOCKETS_NUT \<noteq> CLEAR_AUTH_NUT"
    "WEBSOCKETS_NUT \<noteq> BLIND_AUTH_NUT" "CLEAR_AUTH_NUT \<noteq> BLIND_AUTH_NUT" "CLEAR_AUTH_NUT \<noteq> WEBSOCKETS_NUT"
    "CLEAR_AUTH_NUT \<noteq> MPP_NUT" "BLIND_AUTH_NUT \<noteq> WEBSOCKETS_NUT" "BLIND_AUTH_NUT \<noteq> MPP_NUT" "WEBSOCKETS_NUT \<noteq> MPP_NUT"
    "BLIND_AUTH_NUT \<noteq> CLEAR_AUTH_NUT"
    by (simp_all add: nut_numbers)
  note l = cache_nut websocket_nut[OF d'] mpp_nut supported_nuts
  show "map_of d MPP_NUT = (let l = List.map mpp_entry (filter (\<lambda>(m, u, b). supports_mpp b) (pairs F))
      in if l = [] then None else Some (JObj [(''methods'', JList l)]))"
    by (simp add: d l n)
  show "map_of d WEBSOCKETS_NUT = Some (JObj [(''supported'', JList (List.map (websocket_entry F) (pairs F)))])"
    by (simp add: d l n)
  show "map_of d CLEAR_AUTH_NUT = (if require_auth F then Some (clear_auth_features F) else None)"
    by (simp add: d l n)
  show "map_of d BLIND_AUTH_NUT = (if require_auth F then Some (blind_auth_features F) else None)"
    by (simp add: d l n)
qed

text \<open>C34. What a mint advertises is what is read from it: no question raises; a wallet finds multi-path payments and the
  subscription to mint quotes for exactly the backends that have them; and the endpoints that ask for a token are those of the
  settings, if the mint requires authentication.\<close>

theorem features_read_back:
  assumes "mint_features F = Inr d"
  shows "info_supports_mpp (Some d) (method_name m) u = Inr (\<exists>b. (m, u, b) \<in> set (pairs F) \<and> supports_mpp b) \<and>
    supports_websocket_mint_quote (Some d) m u = Inr (\<exists>b. (m, u, b) \<in> set (pairs F) \<and> streams F m u) \<and>
    requires_clear_auth_path (Some d) verb path = Inr (require_auth F \<and> protected_by (clear_auth_paths F) verb path) \<and>
    requires_blind_auth_path (Some d) verb path = Inr (require_auth F \<and> protected_by (blind_auth_paths F) verb path)"
proof (intro conjI)
  note l = features_lookup[OF assms]
  show "info_supports_mpp (Some d) (method_name m) u = Inr (\<exists>b. (m, u, b) \<in> set (pairs F) \<and> supports_mpp b)"
    by (auto simp: info_supports_mpp_def l Let_def jtruthy_def jget_def jiter_def any_mpp_entries filter_empty_conv)
  show "supports_websocket_mint_quote (Some d) m u = Inr (\<exists>b. (m, u, b) \<in> set (pairs F) \<and> streams F m u)"
    by (auto simp: supports_websocket_mint_quote_def l jtruthy_def jin_def jindex_def jiter_def any_websocket_entries)
  show "requires_clear_auth_path (Some d) verb path = Inr (require_auth F \<and> protected_by (clear_auth_paths F) verb path)"
    by (simp add: requires_clear_auth_path_def requires_clear_auth_def supports_nut_def required_clear_auth_endpoints_def l nut_def
        clear_auth_features_def endpoints_entries3)
  show "requires_blind_auth_path (Some d) verb path = Inr (require_auth F \<and> protected_by (blind_auth_paths F) verb path)"
    by (simp add: requires_blind_auth_path_def requires_blind_auth_def supports_nut_def required_blind_auth_paths_def l nut_def
        blind_auth_features_def endpoints_entries)
qed

definition sample_features :: feature_env where
  "sample_features = \<lparr>fenv = sample_env, streams = (\<lambda>m u. u = sat), require_auth = True, discovery_url = Some ''http://oidc'',
     client_id = ''cashu-client'', clear_auth_paths = [(''POST'', ''/v1/auth/blind/mint'')],
     blind_auth_paths = [(''POST'', ''/v1/mint/*''), (''POST'', ''/v1/swap'')], max_blind_tokens = 100, redis_cache = True,
     redis_cache_ttl = Some 60\<rparr>"

lemma sample_pairs: "pairs sample_features = [(bolt11, sat, sample_backend)]" "\<not> supports_mpp sample_backend"
  by (simp_all add: pairs_def sample_features_def sample_env_def sample_backend_def)

theorem features_read_back_witness:
  "\<exists>d. mint_features sample_features = Inr d \<and> info_supports_mpp (Some d) ''bolt11'' sat = Inr False \<and>
     supports_websocket_mint_quote (Some d) bolt11 sat = Inr True \<and>
     requires_blind_auth_path (Some d) ''POST'' ''/v1/mint/bolt11'' = Inr True"
proof -
  have "isOk (mint_features sample_features)" by code_simp
  then obtain d where d: "mint_features sample_features = Inr d" by (auto simp: isOk_iff)
  have "protected_by (blind_auth_paths sample_features) ''POST'' ''/v1/mint/bolt11''" "require_auth sample_features"
    "streams sample_features bolt11 sat"
    by code_simp+
  then show ?thesis
    using d features_read_back[OF d, of bolt11 sat "''POST''" "''/v1/mint/bolt11''"] by (auto simp: sample_pairs)
qed

end
