(* ===== verification/AuthServer.thy ===== *)
theory AuthServer
  imports MintInfo Ledger Tokens
begin

text \<open>
  The mint's authentication (\<^verbatim>\<open>cashu/mint/auth/server.py\<close>, \<^verbatim>\<open>cashu/mint/auth/crud.py\<close>, \<^verbatim>\<open>cashu/mint/middleware.py\<close>): a ledger
  of its own, over a database of its own, that gives a user who shows a signed token (clear auth) blind authentication tokens,
  and takes one of these for each request to a protected endpoint.

  The ledger's routines are those of theory \<open>Ledger\<close>, but the tables are those of \<^verbatim>\<open>cashu/mint/auth/migrations.py\<close>: proofs
  are unique by their secret, nothing refers to quotes, and columns that the mint's own tables have are missing. A statement
  that names a missing column raises \<open>OperationalError\<close> (\<open>check_columns\<close>). The verification of the user's token (\<^verbatim>\<open>jwt\<close>)
  and the rate limiter (\<^verbatim>\<open>limits\<close>) are functions of the environment. The statements of \<^verbatim>\<open>AuthLedgerCrudSqlite\<close> on quotes and
  keysets are not modelled: nothing calls them, and there are no tables of quotes.
\<close>

section \<open>The tables\<close>

definition auth_columns :: "(string \<times> string list) list" where
  "auth_columns =
     [(''users'', [''id'', ''last_access'']),
      (''keysets'', [''id'', ''seed'', ''encrypted_seed'', ''seed_encryption_method'', ''derivation_path'', ''valid_from'', ''valid_to'',
         ''first_seen'', ''active'', ''version'', ''unit'', ''input_fee_ppk'', ''amounts'', ''balance'', ''fees_paid'']),
      (''promises'', [''id'', ''amount'', ''b_'', ''c_'', ''dleq_e'', ''dleq_s'', ''created'']),
      (''proofs_used'', [''id'', ''amount'', ''c'', ''secret'', ''y'', ''witness'', ''created'', ''melt_quote'']),
      (''proofs_pending'', [''id'', ''amount'', ''c'', ''secret'', ''y'', ''witness'', ''created'', ''melt_quote''])]"

definition check_columns :: "string \<Rightarrow> string list \<Rightarrow> error + unit" where
  "check_columns table cols =
     (case map_of auth_columns table of
        None \<Rightarrow> Inl (OperationalError (''no such table: '' @ table))
      | Some known \<Rightarrow>
          (case List.find (\<lambda>c. c \<notin> set known) cols of
             None \<Rightarrow> Inr ()
           | Some c \<Rightarrow> Inl (OperationalError (''table '' @ table @ '' has no column named '' @ c))))"

text \<open>The columns that statements of \<^verbatim>\<open>LedgerCrudSqlite\<close> name.\<close>

definition message_columns :: "string list" where
  "message_columns = [''amount'', ''b_'', ''id'', ''created'', ''mint_quote'', ''melt_quote'', ''swap_id'']"

definition keyset_columns :: "string list" where
  "keyset_columns = [''id'', ''seed'', ''encrypted_seed'', ''seed_encryption_method'', ''derivation_path'', ''valid_from'', ''valid_to'',
     ''first_seen'', ''active'', ''version'', ''unit'', ''input_fee_ppk'', ''amounts'', ''balance'', ''final_expiry'']"

section \<open>Statements\<close>

record user =
  u_id :: string
  u_last_access :: "int option"

record auth_state =
  au :: ledger
  users :: "user list"
  hits :: "string list"

type_synonym 'a aop = "(auth_state, error, 'a) sm"

definition on_ledger :: "'a op \<Rightarrow> 'a aop" where
  "on_ledger m = (\<lambda>a. case m (au a) of (r, s) \<Rightarrow> (r, a\<lparr>au := s\<rparr>))"

definition create_user :: "user \<Rightarrow> unit aop" where
  "create_user u = (\<lambda>a. case insert_unique u_id ''users.id'' \<lparr>u_id = u_id u, u_last_access = None\<rparr> (users a) of
     Inl e \<Rightarrow> (Inl e, a) | Inr t \<Rightarrow> (Inr (), a\<lparr>users := t\<rparr>))"

definition get_user :: "string \<Rightarrow> auth_state \<Rightarrow> user option" where
  "get_user user_id a = List.find (\<lambda>u. u_id u = user_id) (users a)"

definition update_user :: "env \<Rightarrow> string \<Rightarrow> unit aop" where
  "update_user E user_id = modifyS (\<lambda>a. a\<lparr>users := List.map (\<lambda>u.
     if u_id u = user_id then u\<lparr>u_last_access := Some (now_s E)\<rparr> else u) (users a)\<rparr>)"

definition auth_store_promise :: "int \<Rightarrow> string \<Rightarrow> string \<Rightarrow> string \<Rightarrow> string \<Rightarrow> string \<Rightarrow> unit op" where
  "auth_store_promise amount b c kid e s = execute (\<lambda>d.
     bindR (insert_promise \<lparr>pm_amount = amount, pm_b = b, pm_id = kid, pm_c = Some c, pm_e = Some e, pm_s = Some s,
       pm_mint_quote = None, pm_melt_quote = None, pm_swap_id = None\<rparr> (promises d)) (\<lambda>t. Inr (d\<lparr>promises := t\<rparr>)))"

definition auth_get_blind_signature :: "string \<Rightarrow> mint_db \<Rightarrow> error + blinded_signature option" where
  "auth_get_blind_signature b d = (case List.find (\<lambda>r. pm_b r = b) (promises d) of
     None \<Rightarrow> Inr None | Some r \<Rightarrow> bindR (row_to_signature r) (\<lambda>x. Inr (Some x)))"

definition insert_by_secret :: "string \<Rightarrow> proof_row \<Rightarrow> proof_row list \<Rightarrow> error + proof_row list" where
  "insert_by_secret name = insert_unique pr_secret name"

definition auth_invalidate_proof :: "token_proof \<Rightarrow> string option \<Rightarrow> unit op" where
  "auth_invalidate_proof p quote_id = execute (\<lambda>d.
     bindR (insert_by_secret ''proofs_used.secret'' (proof_to_row p quote_id) (proofs_used d)) (\<lambda>t. Inr (d\<lparr>proofs_used := t\<rparr>)))"

definition auth_set_proof_pending :: "token_proof \<Rightarrow> string option \<Rightarrow> unit op" where
  "auth_set_proof_pending p quote_id = execute (\<lambda>d.
     bindR (insert_by_secret ''proofs_pending.secret'' (proof_to_row p quote_id) (proofs_pending d)) (\<lambda>t. Inr (d\<lparr>proofs_pending := t\<rparr>)))"

text \<open>The statements of \<^verbatim>\<open>LedgerCrudSqlite\<close> on promises and keysets, on these tables.\<close>

definition auth_store_blinded_message :: "int \<Rightarrow> string \<Rightarrow> string \<Rightarrow> unit op" where
  "auth_store_blinded_message amount b kid =
     thenS (liftS (\<lambda>_. check_columns ''promises'' message_columns)) (store_blinded_message amount b kid None None None)"

definition auth_keyset_storable :: "mint_keyset \<Rightarrow> error + unit" where
  "auth_keyset_storable k = check_columns ''keysets'' keyset_columns"

section \<open>The ledger's routines over these tables\<close>

primrec auth_store_loop :: "mint_keyset option \<Rightarrow> blinded_message list \<Rightarrow> unit op" where
  "auth_store_loop keyset [] = returnS ()"
| "auth_store_loop keyset (x # xs) =
     bindS (case keyset of Some k \<Rightarrow> returnS k | None \<Rightarrow> liftS (\<lambda>s. the_keyset s (bm_id x))) (\<lambda>k.
     bindS (getS (\<lambda>s. keyset_of s (bm_id x) \<noteq> None)) (\<lambda>known.
     thenS (guardS known (tx_error (''keyset '' @ bm_id x @ '' not found'')))
    (thenS (guardS (bm_id x = k_id k) (tx_error ''keyset id does not match output id''))
    (thenS (guardS (k_active k) (tx_error ''keyset is not active''))
    (thenS (auth_store_blinded_message (bm_amount x) (bm_B x) (k_id k))
           (auth_store_loop (Some k) xs))))))"

definition auth_store_blinded_messages :: "blinded_message list \<Rightarrow> unit op" where
  "auth_store_blinded_messages outs = transaction (auth_store_loop None outs)"

definition auth_set_pending :: "env \<Rightarrow> token_proof list \<Rightarrow> unit op" where
  "auth_set_pending E ps =
     thenS (transaction
       (thenS (liftS (\<lambda>s. verify_proofs_spendable E ps (db s)))
       (thenS (liftS (\<lambda>s. validate_proofs_pending E ps (db s)))
       (forS ps (\<lambda>p. thenS (auth_set_proof_pending p None) (bump_for (p_id p) (- p_amount p)))))))
     (forS ps (\<lambda>p. submit_proof_state (p_Y p) PS_pending None))"

definition auth_invalidate_one :: "token_proof \<Rightarrow> unit op" where
  "auth_invalidate_one p =
     thenS (auth_invalidate_proof p None)
    (thenS (bump_for (p_id p) (- p_amount p))
           (submit_proof_state (p_Y p) PS_spent (or_none (p_witness p))))"

definition auth_invalidate_proofs :: "token_proof list \<Rightarrow> unit op" where
  "auth_invalidate_proofs ps = transaction (thenS (forS ps auth_invalidate_one) (forS (group_by_keyset ps) book_group_fees))"

section \<open>Users\<close>

text \<open>
  \<open>unverified_claims\<close> is \<^verbatim>\<open>jwt.decode\<close> without a check of the signature, \<open>verified_claims\<close> the one with the key of the issuer;
  \<open>rate_ok limit identifier earlier\<close> is the limiter's answer, given the identifiers it was asked for before.
\<close>

record auth_env =
  aenv :: env
  issuer :: string
  unverified_claims :: "string \<Rightarrow> error + (string \<times> string) list"
  verified_claims :: "string \<Rightarrow> error + (string \<times> string) list"
  transaction_rate_limit :: int
  rate_ok :: "int \<Rightarrow> string \<Rightarrow> string list \<Rightarrow> bool"
  max_auth_tokens :: nat

definition claim :: "string \<Rightarrow> (string \<times> string) list \<Rightarrow> error + string" where
  "claim k cs = ofOption (KeyError k) (map_of cs k)"

definition verify_oicd_issuer :: "auth_env \<Rightarrow> string \<Rightarrow> error + unit" where
  "verify_oicd_issuer A token =
     bindR (unverified_claims A token) (\<lambda>cs.
     bindR (claim ''iss'' cs) (\<lambda>i.
     checkR (i = issuer A) (PyException (''Invalid issuer: '' @ i @ ''. Expected: '' @ issuer A))))"

definition user_of_token :: "(string \<times> string) list \<Rightarrow> user aop" where
  "user_of_token cs =
     bindS (liftS (\<lambda>_. claim ''sub'' cs)) (\<lambda>user_id.
     bindS (getS (get_user user_id)) (\<lambda>found.
     case found of
       Some u \<Rightarrow> returnS u
     | None \<Rightarrow> let u = \<lparr>u_id = user_id, u_last_access = None\<rparr> in thenS (create_user u) (returnS u)))"

definition assert_limit :: "auth_env \<Rightarrow> string \<Rightarrow> int option \<Rightarrow> unit aop" where
  "assert_limit A identifier limit =
     bindS (getS (\<lambda>a. rate_ok A (if truthy_int limit then the limit else transaction_rate_limit A) identifier (hits a))) (\<lambda>ok.
     thenS (modifyS (\<lambda>a. a\<lparr>hits := hits a @ [identifier]\<rparr>))
           (guardS ok (PyException ''Rate limit exceeded'')))"

definition verify_clear_auth :: "auth_env \<Rightarrow> string \<Rightarrow> user aop" where
  "verify_clear_auth A token =
     bindS (catchS (thenS (liftS (\<lambda>_. verify_oicd_issuer A token))
         (bindS (liftS (\<lambda>_. verified_claims A token)) user_of_token)) (\<lambda>_. raiseS ClearAuthFailedError)) (\<lambda>u.
     thenS (catchS (assert_limit A (u_id u) None) (\<lambda>_. raiseS BlindAuthRateLimitExceededError))
           (returnS u))"

section \<open>Blind authentication tokens\<close>

definition mint_blind_auth :: "auth_env \<Rightarrow> blinded_message list \<Rightarrow> user \<Rightarrow> blinded_signature list aop" where
  "mint_blind_auth A outs u =
     thenS (guardS (length outs \<le> max_auth_tokens A) (BlindAuthAmountExceededError (Some
       (''Too many outputs. You can only mint '' @ str_int (int (max_auth_tokens A)) @ '' tokens.''))))
    (thenS (on_ledger (liftS (\<lambda>s. verify_outputs (aenv A) s outs False)))
    (thenS (on_ledger (auth_store_blinded_messages outs))
    (bindS (on_ledger (sign_blinded_messages (aenv A) outs False)) (\<lambda>sigs.
     thenS (update_user (aenv A) (u_id u)) (returnS sigs)))))"

text \<open>
  \<^verbatim>\<open>async with verify_blind_auth(token): body\<close>. The body is the rest of the request; it works on a state of its own.
\<close>

definition enter_blind_auth :: "auth_env \<Rightarrow> string \<Rightarrow> token_proof op" where
  "enter_blind_auth A token = catchS
     (bindS (liftS (\<lambda>_. bindR (auth_from_base64 token) (auth_to_proof (aenv A)))) (\<lambda>p.
      thenS (liftS (\<lambda>s. verify_inputs_and_outputs (aenv A) s [p] None))
     (thenS (auth_set_pending (aenv A) [p]) (returnS p))))
     (\<lambda>_. raiseS BlindAuthFailedError)"

definition outer :: "'a aop \<Rightarrow> (auth_state \<times> 'w, error, 'a) sm" where
  "outer m = (\<lambda>(a, w). case m a of (r, a') \<Rightarrow> (r, (a', w)))"

definition inner :: "('w, error, 'a) sm \<Rightarrow> (auth_state \<times> 'w, error, 'a) sm" where
  "inner m = (\<lambda>(a, w). case m w of (r, w') \<Rightarrow> (r, (a, w')))"

definition verify_blind_auth :: "auth_env \<Rightarrow> string \<Rightarrow> ('w, error, 'a) sm \<Rightarrow> (auth_state \<times> 'w, error, 'a) sm" where
  "verify_blind_auth A token body =
     bindS (outer (on_ledger (enter_blind_auth A token))) (\<lambda>p.
     finallyS
       (catchS (bindS (inner body) (\<lambda>x. thenS (outer (on_ledger (auth_invalidate_proofs [p]))) (returnS x)))
         (\<lambda>_. raiseS BlindAuthFailedError))
       (outer (on_ledger (unset_proofs_pending [p] True False))))"

text \<open>The middleware: a protected endpoint asks for its token, any other does not.\<close>

definition clear_auth_dispatch ::
  "bool \<Rightarrow> auth_env \<Rightarrow> nuts option \<Rightarrow> string \<Rightarrow> string \<Rightarrow> string option \<Rightarrow> user option aop" where
  "clear_auth_dispatch require A nuts verb path token =
     bindS (liftS (\<lambda>_. if require then requires_clear_auth_path nuts verb path else Inr False)) (\<lambda>needed.
     if \<not> needed then returnS None
     else thenS (guardS (truthy_str token) (PyException ''Missing clear auth token.''))
         (bindS (verify_clear_auth A (the token)) (\<lambda>u. returnS (Some u))))"

definition blind_auth_dispatch ::
  "bool \<Rightarrow> auth_env \<Rightarrow> nuts option \<Rightarrow> string \<Rightarrow> string \<Rightarrow> string option \<Rightarrow> ('w, error, 'a) sm \<Rightarrow> (auth_state \<times> 'w, error, 'a) sm" where
  "blind_auth_dispatch require A nuts verb path token body =
     bindS (liftS (\<lambda>_. if require then requires_blind_auth_path nuts verb path else Inr False)) (\<lambda>needed.
     if \<not> needed then inner body
     else thenS (guardS (truthy_str token) (PyException ''Missing blind auth token.''))
               (verify_blind_auth A (the token) body))"

end
