(* ===== verification/AuthFacts.thy ===== *)
theory AuthFacts
  imports AuthServer Swapping TokenFacts Samples
begin

text \<open>
  What the mint's authentication guarantees: a blind authentication token is good for one request, and is given back when the
  request fails; and what its tables make impossible.
\<close>

section \<open>The tables lack columns\<close>

lemma message_columns_missing:
  "check_columns ''promises'' message_columns = Inl (OperationalError ''table promises has no column named mint_quote'')"
  by code_simp

lemma keyset_columns_missing:
  "auth_keyset_storable k = Inl (OperationalError ''table keysets has no column named final_expiry'')"
  unfolding auth_keyset_storable_def by code_simp

lemma auth_store_loop_fails: "\<exists>e. auth_store_loop keyset (x # xs) s = (Inl e, s)"
proof -
  have "\<exists>e. auth_store_blinded_message n b kid t = (Inl e, t)" for n b kid t
    by (simp add: auth_store_blinded_message_def thenS_def bindS_def message_columns_missing)
  then have "\<exists>e. thenS (auth_store_blinded_message n b kid) m t = (Inl e, t)" for n b kid m t
    by (metis thenS_step(2))
  then show ?thesis
    by (cases keyset) (auto simp: thenS_def bindS_def guardS_def split: sum.splits)
qed

lemma on_ledger_lift: "on_ledger (liftS f) a = (f (au a), a)"
  by (simp add: on_ledger_def)

text \<open>The mint can give no blind authentication token: its statement on the messages names columns that the tables of the
  authentication database do not have. Every request raises and changes nothing.\<close>

theorem no_blind_auth_minted: "\<not> isOk (fst (mint_blind_auth A outs u a)) \<and> snd (mint_blind_auth A outs u a) = a"
proof (cases outs)
  case Nil
  then show ?thesis
    by (simp add: mint_blind_auth_def thenS_def bindS_def guardS_def on_ledger_lift verify_outputs_def)
next
  case (Cons x xs)
  obtain e where "auth_store_loop None outs (au a) = (Inl e, au a)" using auth_store_loop_fails Cons by blast
  then have "on_ledger (auth_store_blinded_messages outs) a = (Inl e, a)"
    by (simp add: on_ledger_def auth_store_blinded_messages_def transaction_def)
  then show ?thesis
    by (auto simp: mint_blind_auth_def thenS_def bindS_def guardS_def on_ledger_lift split: sum.splits)
qed

section \<open>Taking a token\<close>

lemma set_pending_one:
  assumes "auth_set_pending E [p] s = (Inr u, t)" and "wf_keysets s"
  shows "keyset_of s (p_id p) \<noteq> None" and "p_secret p \<notin> pr_secret ` set (proofs_pending (db s))"
    and "p_Y p \<notin> pr_y ` set (proofs_used (db s))"
    and "t = s\<lparr>db := (db s)\<lparr>proofs_pending := proofs_pending (db s) @ [proof_to_row p None],
           keyset_rows := bump_all [(p_id p, - p_amount p)] (keyset_rows (db s))\<rparr>,
         events := events s @ state_events [p] PS_pending\<rparr>"
proof -
  from assms(1) obtain t0 t1 where v: "verify_proofs_spendable E [p] (db s) = Inr ()"
    and ins: "auth_set_proof_pending p None s = (Inr (), t0)" and b0: "bump_for (p_id p) (- p_amount p) t0 = (Inr (), t1)"
    and t: "t = t1\<lparr>events := events t1 @ state_events [p] PS_pending\<rparr>"
    by (auto simp: auth_set_pending_def transaction_Ok state_events_def elim!: thenS_OkE)
  let ?s1 = "s\<lparr>db := (db s)\<lparr>proofs_pending := proofs_pending (db s) @ [proof_to_row p None]\<rparr>\<rparr>"
  have sec: "p_secret p \<notin> pr_secret ` set (proofs_pending (db s))" and t0: "t0 = ?s1"
    using ins by (auto simp: auth_set_proof_pending_def execute_Ok bindR_Inr insert_by_secret_def insert_unique_iff proof_to_row_def)
  note b = b0[unfolded t0]
  have "wf_keysets ?s1" using assms(2) by simp
  note b' = b[unfolded bump_for_Ok[OF this]]
  show "keyset_of s (p_id p) \<noteq> None" and "p_secret p \<notin> pr_secret ` set (proofs_pending (db s))"
    and "p_Y p \<notin> pr_y ` set (proofs_used (db s))"
    using b' sec spendable_unspent[OF v] by simp_all
  show "t = s\<lparr>db := (db s)\<lparr>proofs_pending := proofs_pending (db s) @ [proof_to_row p None],
           keyset_rows := bump_all [(p_id p, - p_amount p)] (keyset_rows (db s))\<rparr>,
         events := events s @ state_events [p] PS_pending\<rparr>"
    unfolding t using b' by simp
qed

lemma execute_only_db: "keeps (\<lambda>u. \<exists>d. u = s\<lparr>db := d\<rparr>) (execute f)"
  by (auto simp: keeps_def execute_def split: sum.splits)

lemma modify_only_db: "keeps (\<lambda>u. \<exists>d. u = s\<lparr>db := d\<rparr>) (modifyS (\<lambda>u. u\<lparr>db := g u\<rparr>))"
  by (auto simp: keeps_def)

lemma transaction_restores: "keeps (\<lambda>u. \<exists>d. u = s\<lparr>db := d\<rparr>) m \<Longrightarrow> transaction m s = (Inl e, t) \<Longrightarrow> t = s"
proof -
  assume k: "keeps (\<lambda>u. \<exists>d. u = s\<lparr>db := d\<rparr>) m" and e: "transaction m s = (Inl e, t)"
  have "\<exists>d. s = s\<lparr>db := d\<rparr>" by (rule exI[of _ "db s"]) simp
  with k have "\<exists>d. snd (m s) = s\<lparr>db := d\<rparr>" by (rule keepsD)
  then show "t = s" using e by (auto simp: transaction_def split: prod.splits sum.splits)
qed

lemma auth_set_pending_Err: "auth_set_pending E ps s = (Inl e, t) \<Longrightarrow> t = s"
  by (auto simp: auth_set_pending_def auth_set_proof_pending_def bump_for_def bump_keyset_balance_def update_db_def
      elim!: thenS_ErrE dest!: transaction_restores[rotated] intro!: keeps_intros execute_only_db modify_only_db)

text \<open>A token is taken with its proof verified and locked, or it is refused and nothing has changed.\<close>

lemma enter_Ok:
  assumes "enter_blind_auth A token s = (Inr p, t)"
  shows "bindR (auth_from_base64 token) (auth_to_proof (aenv A)) = Inr p"
    "verify_inputs_and_outputs (aenv A) s [p] None = Inr ()" "auth_set_pending (aenv A) [p] s = (Inr (), t)"
  using assms by (auto simp: enter_blind_auth_def catchS_def bindS_def thenS_def split: prod.splits sum.splits)

lemma enter_Err: "enter_blind_auth A token s = (Inl e, t) \<Longrightarrow> e = BlindAuthFailedError \<and> t = s"
  by (auto simp: enter_blind_auth_def catchS_def bindS_def thenS_def split: prod.splits sum.splits dest: auth_set_pending_Err)

text \<open>A token that the tables hold as spent is refused.\<close>

lemma spendable_iff:
  "verify_proofs_spendable E [p] d = Inr () \<longleftrightarrow> p_Y p \<notin> pr_y ` set (proofs_used d)"
proof
  assume "p_Y p \<notin> pr_y ` set (proofs_used d)"
  then have "filter (\<lambda>r. pr_y r \<in> set (List.map p_Y [p])) (proofs_used d) = []"
    by (auto simp: filter_empty_conv) (metis image_eqI)
  then show "verify_proofs_spendable E [p] d = Inr ()"
    by (simp add: verify_proofs_spendable_def get_proofs_spent_dict_def get_proofs_used_def dict_of_def)
qed (use spendable_unspent in auto)

lemma enter_spent:
  assumes "bindR (auth_from_base64 token) (auth_to_proof (aenv A)) = Inr p" and "p_Y p \<in> pr_y ` set (proofs_used (db s))"
  shows "enter_blind_auth A token s = (Inl BlindAuthFailedError, s)"
proof (cases "enter_blind_auth A token s")
  case (Pair r t)
  show ?thesis
  proof (cases r)
    case (Inr q)
    note ok = enter_Ok[OF Pair[unfolded Inr]]
    have "q = p" using ok(1) assms(1) by simp
    then have "verify_proofs_spendable (aenv A) [p] (db s) = Inr ()"
      using ok(3) by (auto simp: auth_set_pending_def transaction_Ok elim!: thenS_OkE)
    then show ?thesis using assms(2) by (simp add: spendable_iff)
  qed (use Pair enter_Err in auto)
qed

lemma invalidate_one_token:
  assumes "auth_invalidate_proofs [p] s = (Inr u, t)" and "wf_keysets s"
  shows "p_Y p \<in> pr_y ` set (proofs_used (db t)) \<and> keysets t = keysets s"
proof -
  obtain t1 where one: "auth_invalidate_one p s = (Inr (), t1)" and fees: "forS (group_by_keyset [p]) book_group_fees t1 = (Inr (), t)"
    using assms(1) by (auto simp: auth_invalidate_proofs_def transaction_Ok elim!: thenS_OkE)
  have t1: "wf_keysets t1 \<and> keysets t1 = keysets s \<and> p_Y p \<in> pr_y ` set (proofs_used (db t1))"
    using one assms(2)
    by (auto simp: auth_invalidate_one_def auth_invalidate_proof_def execute_Ok bindR_Inr insert_by_secret_def insert_unique_iff
        proof_to_row_def bump_for_Ok elim!: thenS_OkE)
  then show ?thesis using book_fees_loop_Ok[OF fees] by simp
qed

lemma wf_keysets_same: "keysets t = keysets s \<Longrightarrow> wf_keysets t = wf_keysets s"
  by (simp add: wf_keysets_def)

lemma keyset_of_same: "keysets t = keysets s \<Longrightarrow> keyset_of t k = keyset_of s k"
  by (simp add: keyset_of_def)

section \<open>One request for one token\<close>

text \<open>C35. A blind authentication token is good for one request: once a request under it has succeeded, every later use of the same
  token is refused, whatever the request, and changes nothing.\<close>

theorem blind_auth_used_once:
  assumes run: "verify_blind_auth A token body (a, w) = (Inr x, (a', w'))" and wf: "wf_keysets (au a)"
  shows "verify_blind_auth A token body' (a', w'') = (Inl BlindAuthFailedError, (a', w''))"
proof -
  obtain p t where e: "enter_blind_auth A token (au a) = (Inr p, t)"
    using run by (cases "enter_blind_auth A token (au a)"; cases "fst (enter_blind_auth A token (au a))")
      (auto simp: verify_blind_auth_def outer_def on_ledger_def bindS_def)
  note ok = enter_Ok[OF e] and pend = set_pending_one[OF enter_Ok(3)[OF e] wf]
  have wft: "wf_keysets t" using wf by (simp add: pend(4))
  obtain v u where body: "body w = (Inr v, w')" and i: "auth_invalidate_proofs [p] t = (Inr (), u)"
    and un: "snd (unset_proofs_pending [p] True False u) = au a'"
    using run e by (auto simp: verify_blind_auth_def outer_def inner_def on_ledger_def bindS_def thenS_def catchS_def finallyS_def
        split: prod.splits sum.splits)
  note spent = invalidate_one_token[OF i wft]
  have "keyset_of u (p_id p) \<noteq> None" "wf_keysets u"
    using spent pend(1) wft keyset_of_same[of u t] wf_keysets_same[of u t] by (simp_all add: pend(4))
  then have "p_Y p \<in> pr_y ` set (proofs_used (db (au a')))"
    using un unset_proofs_pending_spent[of u "[p]" False] spent by (auto dest: sym)
  then have "enter_blind_auth A token (au a') = (Inl BlindAuthFailedError, au a')" by (rule enter_spent[OF ok(1)])
  then show ?thesis by (simp add: verify_blind_auth_def outer_def on_ledger_def bindS_def)
qed

text \<open>C36. A request that fails gives its token back: the caller sees the failure as one of the authentication, and the database of the
  authentication is what it was before, so that the token can be used again.\<close>

theorem blind_auth_given_back:
  assumes run: "verify_blind_auth A token body (a, w) = (r, (a', w'))" and fails: "body w = (Inl e, w1)" and wf: "wf_keysets (au a)"
  shows "r = Inl BlindAuthFailedError \<and> db (au a') = db (au a) \<and> users a' = users a"
proof (cases "enter_blind_auth A token (au a)")
  case (Pair q t)
  show ?thesis
  proof (cases q)
    case (Inl e')
    then show ?thesis
      using run Pair enter_Err[of A token "au a" e' t] by (auto simp: verify_blind_auth_def outer_def on_ledger_def bindS_def)
  next
    case (Inr p)
    note en = Pair[unfolded Inr]
    note pend = set_pending_one[OF enter_Ok(3)[OF en] wf]
    have t: "wf_keysets t" "\<forall>q\<in>set [p]. keyset_of t (p_id q) \<noteq> None" using wf pend(1) by (simp_all add: pend(4))
    have rows: "filter (\<lambda>r. pr_secret r \<noteq> p_secret p) (proofs_pending (db (au a))) = proofs_pending (db (au a))"
      using pend(2) by (auto simp: filter_id_conv image_iff)
    have "bump_all [(p_id p, - p_amount p), (p_id p, p_amount p)] ks = ks" for ks
      by (simp add: bump_all_def total_def map_idI)
    then have "db (snd (unset_proofs_pending [p] True False t)) = db (au a)"
      unfolding unset_proofs_pending_spent[OF t]
      by (simp add: pend(4) drop_secrets_def proof_to_row_def proof_bumps_def rows)
    then show ?thesis
      using run fails en unset_proofs_pending_spent[OF t, of False]
      by (auto simp: verify_blind_auth_def outer_def inner_def on_ledger_def bindS_def thenS_def catchS_def finallyS_def)
  qed
qed

section \<open>Witnesses\<close>

definition sample_auth :: auth_env where
  "sample_auth = \<lparr>aenv = sample_env, issuer = ''oidc'', unverified_claims = (\<lambda>t. Inr [(''iss'', ''oidc'')]),
     verified_claims = (\<lambda>t. Inr [(''sub'', t)]), transaction_rate_limit = 20, rate_ok = (\<lambda>n i earlier. True), max_auth_tokens = 10\<rparr>"

definition sample_auth_state :: auth_state where
  "sample_auth_state = \<lparr>au = sample_ledger, users = [], hits = []\<rparr>"

definition sample_token :: string where
  "sample_token = auth_to_base64 (auth_from_proof (sample_proof 1 ''a''))"

lemma sample_token_proof: "bindR (auth_from_base64 sample_token) (auth_to_proof (aenv sample_auth)) = Inr (sample_proof 1 ''a'')"
proof -
  have "auth_to_proof (aenv sample_auth) ((auth_from_proof (sample_proof 1 ''a''))\<lparr>ap_amount := 1\<rparr>) = Inr (sample_proof 1 ''a'')"
    by code_simp
  then show ?thesis by (simp add: sample_token_def auth_token_roundtrip)
qed

text \<open>A use of the sample token, with the token read.\<close>

definition sample_use :: "(unit, error, nat) sm \<Rightarrow> (error + nat) \<times> (auth_state \<times> unit)" where
  "sample_use body = bindS (outer (on_ledger (catchS
     (thenS (liftS (\<lambda>s. verify_inputs_and_outputs sample_env s [sample_proof 1 ''a''] None))
     (thenS (auth_set_pending sample_env [sample_proof 1 ''a'']) (returnS (sample_proof 1 ''a''))))
     (\<lambda>_. raiseS BlindAuthFailedError)))) (\<lambda>p.
     finallyS
       (catchS (bindS (inner body) (\<lambda>x. thenS (outer (on_ledger (auth_invalidate_proofs [p]))) (returnS x)))
         (\<lambda>_. raiseS BlindAuthFailedError))
       (outer (on_ledger (unset_proofs_pending [p] True False)))) (sample_auth_state, ())"

lemma sample_use: "verify_blind_auth sample_auth sample_token body (sample_auth_state, ()) = sample_use body"
proof -
  have "enter_blind_auth sample_auth sample_token = catchS
     (thenS (liftS (\<lambda>s. verify_inputs_and_outputs sample_env s [sample_proof 1 ''a''] None))
     (thenS (auth_set_pending sample_env [sample_proof 1 ''a'']) (returnS (sample_proof 1 ''a''))))
     (\<lambda>_. raiseS BlindAuthFailedError)"
    by (simp add: enter_blind_auth_def sample_token_proof fun_eq_iff catchS_def bindS_def) (simp add: sample_auth_def)
  then show ?thesis by (simp add: verify_blind_auth_def sample_use_def)
qed

lemma sample_use_ok: "fst (sample_use (returnS 7)) = Inr 7"
  by code_simp

lemma sample_auth_wf: "wf_keysets (au sample_auth_state)"
  using sample_wf(1) by (simp add: sample_auth_state_def wf_ledger_def)

theorem blind_auth_used_once_witness:
  "\<exists>a'. fst (verify_blind_auth sample_auth sample_token (returnS (7::nat)) (sample_auth_state, ())) = Inr 7 \<and>
     verify_blind_auth sample_auth sample_token (returnS (8::nat)) (a', ()) = (Inl BlindAuthFailedError, (a', ()))"
proof -
  obtain a' where r: "sample_use (returnS (7::nat)) = (Inr 7, (a', ()))"
    using sample_use_ok by (cases "sample_use (returnS 7)") auto
  have run: "verify_blind_auth sample_auth sample_token (returnS (7::nat)) (sample_auth_state, ()) = (Inr 7, (a', ()))"
    using r sample_use by simp
  show ?thesis
    using blind_auth_used_once[OF run sample_auth_wf, of "returnS (8::nat)" "()"] run by auto
qed

theorem blind_auth_given_back_witness:
  "\<exists>r a'. verify_blind_auth sample_auth sample_token (raiseS QuoteNotPaidError :: (unit, error, nat) sm) (sample_auth_state, ()) = (r, (a', ())) \<and>
     r = Inl BlindAuthFailedError \<and> db (au a') = empty_db"
proof -
  let ?run = "verify_blind_auth sample_auth sample_token (raiseS QuoteNotPaidError :: (unit, error, nat) sm) (sample_auth_state, ())"
  obtain r a' where r: "?run = (r, (a', ()))" by (cases ?run) auto
  show ?thesis using blind_auth_given_back[OF r raiseS_apply sample_auth_wf] r by (simp add: sample_auth_state_def sample_ledger_def)
qed

end
