(* ===== verification/Subscriptions.thy ===== *)
theory Subscriptions
  imports MintInfo Tokens Router
begin

text \<open>
  The subscriptions of clients to events of the mint over a websocket (\<^verbatim>\<open>cashu/mint/events/client.py\<close>, \<^verbatim>\<open>events.py\<close>), with the
  requests of \<^verbatim>\<open>cashu/core/json_rpc/base.py\<close>. What the code hands to \<^verbatim>\<open>asyncio.create_task\<close> is put in the client's queue of
  tasks, which \<open>run_task\<close> works off in order; what it sends is appended to \<open>cl_sent\<close>. The texts of error messages are
  not modelled.
\<close>

section \<open>Messages\<close>

datatype sub_kind = SK_mint_quote | SK_melt_quote | SK_proof_state

fun kind_value :: "sub_kind \<Rightarrow> string" where
  "kind_value SK_mint_quote = ''bolt11_mint_quote''"
| "kind_value SK_melt_quote = ''bolt11_melt_quote''"
| "kind_value SK_proof_state = ''proof_state''"

definition kind_of_value :: "string \<Rightarrow> error + sub_kind" where
  "kind_of_value v = ofOption (ValueError ''validation error'')
     (List.find (\<lambda>k. kind_value k = v) [SK_mint_quote, SK_melt_quote, SK_proof_state])"

datatype rpc_error = PARSE_ERROR | INVALID_REQUEST | METHOD_NOT_FOUND | INTERNAL_ERROR | SERVER_ERROR

fun rpc_code :: "rpc_error \<Rightarrow> int" where
  "rpc_code PARSE_ERROR = -32700"
| "rpc_code INVALID_REQUEST = -32600"
| "rpc_code METHOD_NOT_FOUND = -32601"
| "rpc_code INTERNAL_ERROR = -32603"
| "rpc_code SERVER_ERROR = -32000"

datatype payload = P_mint mint_quote_response | P_melt melt_response | P_proof proof_state

datatype message =
    M_error rpc_error int
  | M_ok string int
  | M_notification string payload

record rpc_request =
  rq_id :: int
  rq_method :: string
  rq_params :: json

text \<open>\<^verbatim>\<open>JSONRPCRequest.model_validate\<close>.\<close>

definition rpc_invalid :: error where
  "rpc_invalid = ValueError ''validation error''"

definition parse_request :: "json \<Rightarrow> error + rpc_request" where
  "parse_request j = (case j of
     JObj d \<Rightarrow>
       bindR (case map_of d ''jsonrpc'' of None \<Rightarrow> Inr () | Some (JStr v) \<Rightarrow> Inr () | Some _ \<Rightarrow> Inl rpc_invalid) (\<lambda>_.
       bindR (bindR (ofOption rpc_invalid (map_of d ''id'')) lax_int) (\<lambda>i.
       bindR (jtext ''method'' j) (\<lambda>m.
       bindR (case map_of d ''params'' of Some (JObj p) \<Rightarrow> Inr (JObj p) | _ \<Rightarrow> Inl rpc_invalid) (\<lambda>p.
       Inr \<lparr>rq_id = i, rq_method = m, rq_params = p\<rparr>))))
   | _ \<Rightarrow> Inl rpc_invalid)"

record subscribe_params =
  sp_kind :: sub_kind
  sp_filters :: "string list"
  sp_sub :: string

definition parse_filters :: "nat \<Rightarrow> json \<Rightarrow> error + string list" where
  "parse_filters limit j = (case j of
     JObj d \<Rightarrow> (case map_of d ''filters'' of
        Some (JList l) \<Rightarrow>
          bindR (checkR (length l \<le> limit) rpc_invalid) (\<lambda>_.
          mapR (\<lambda>x. case x of JStr s \<Rightarrow> Inr s | _ \<Rightarrow> Inl rpc_invalid) l)
      | _ \<Rightarrow> Inl rpc_invalid)
   | _ \<Rightarrow> Inl rpc_invalid)"

definition parse_subscribe :: "nat \<Rightarrow> json \<Rightarrow> error + subscribe_params" where
  "parse_subscribe limit j =
     bindR (bindR (jtext ''kind'' j) kind_of_value) (\<lambda>k.
     bindR (parse_filters limit j) (\<lambda>fs.
     bindR (jtext ''subId'' j) (\<lambda>s.
     Inr \<lparr>sp_kind = k, sp_filters = fs, sp_sub = s\<rparr>)))"

section \<open>A client\<close>

datatype task = T_init string string sub_kind | T_notify string payload

type_synonym filters = "(string \<times> string list) list"

record client =
  cl_subs :: "(sub_kind \<times> filters) list"
  cl_tasks :: "task list"
  cl_sent :: "message list"

definition new_client :: client where
  "new_client = \<lparr>cl_subs = [], cl_tasks = [], cl_sent = []\<rparr>"

definition max_subscriptions :: nat where
  "max_subscriptions = 1000"

definition send_msg :: "message \<Rightarrow> client \<Rightarrow> client" where
  "send_msg m c = c\<lparr>cl_sent := cl_sent c @ [m]\<rparr>"

definition ids_of :: "string \<Rightarrow> filters \<Rightarrow> string list" where
  "ids_of f d = (case map_of d f of None \<Rightarrow> [] | Some l \<Rightarrow> l)"

definition filters_of :: "sub_kind \<Rightarrow> client \<Rightarrow> filters" where
  "filters_of k c = (case map_of (cl_subs c) k of None \<Rightarrow> [] | Some d \<Rightarrow> d)"

text \<open>\<^verbatim>\<open>self.subscriptions[kind].setdefault(f, []).append(subId)\<close>.\<close>

definition add_filter :: "string \<Rightarrow> filters \<Rightarrow> string \<Rightarrow> filters" where
  "add_filter sub d f = AList.update f (ids_of f d @ [sub]) d"

definition add_subscription :: "sub_kind \<Rightarrow> string list \<Rightarrow> string \<Rightarrow> client \<Rightarrow> (error + unit) \<times> client" where
  "add_subscription k fs sub c =
     (let c1 = (if map_of (cl_subs c) k = None then c\<lparr>cl_subs := AList.update k [] (cl_subs c)\<rparr> else c)
      in if length (filters_of k c1) \<ge> max_subscriptions then (Inl (ValueError ''Max subscriptions reached''), c1)
         else (Inr (), c1\<lparr>cl_subs := AList.update k (foldl (add_filter sub) (filters_of k c1) fs) (cl_subs c1),
                 cl_tasks := cl_tasks c1 @ List.map (\<lambda>f. T_init sub f k) fs\<rparr>))"

text \<open>\<^verbatim>\<open>remove_subscription\<close> returns at the first filter, in the order of the dictionaries, that has the identifier.\<close>

fun remove_in_filters :: "string \<Rightarrow> filters \<Rightarrow> filters option" where
  "remove_in_filters sub [] = None"
| "remove_in_filters sub ((f, l) # d) =
     (if sub \<in> set l then Some ((f, remove1 sub l) # d) else map_option (Cons (f, l)) (remove_in_filters sub d))"

fun remove_in_kinds :: "string \<Rightarrow> (sub_kind \<times> filters) list \<Rightarrow> (sub_kind \<times> filters) list option" where
  "remove_in_kinds sub [] = None"
| "remove_in_kinds sub ((k, d) # ks) =
     (case remove_in_filters sub d of Some d' \<Rightarrow> Some ((k, d') # ks) | None \<Rightarrow> map_option (Cons (k, d)) (remove_in_kinds sub ks))"

definition remove_subscription :: "string \<Rightarrow> client \<Rightarrow> (error + unit) \<times> client" where
  "remove_subscription sub c = (case remove_in_kinds sub (cl_subs c) of
     None \<Rightarrow> (Inl (ValueError (''Subscription not found: '' @ sub)), c)
   | Some ks \<Rightarrow> (Inr (), c\<lparr>cl_subs := ks\<rparr>))"

definition handle_request :: "nat \<Rightarrow> rpc_request \<Rightarrow> client \<Rightarrow> (error + message) \<times> client" where
  "handle_request limit r c =
     (if rq_method r = ''subscribe'' then
        (case parse_subscribe limit (rq_params r) of
           Inl e \<Rightarrow> (Inl e, c)
         | Inr p \<Rightarrow> (case add_subscription (sp_kind p) (sp_filters p) (sp_sub p) c of
             (Inl e, c') \<Rightarrow> (Inl e, c') | (Inr _, c') \<Rightarrow> (Inr (M_ok (sp_sub p) (rq_id r)), c')))
      else if rq_method r = ''unsubscribe'' then
        (case jtext ''subId'' (rq_params r) of
           Inl e \<Rightarrow> (Inl e, c)
         | Inr sub \<Rightarrow> (case remove_subscription sub c of
             (Inl e, c') \<Rightarrow> (Inl e, c') | (Inr _, c') \<Rightarrow> (Inr (M_ok sub (rq_id r)), c')))
      else (Inl (ValueError (''Invalid method: '' @ rq_method r)), c))"

text \<open>One round of the loop of \<^verbatim>\<open>start\<close>: a message arrives, with or without a text; \<open>allowed\<close> is the rate limiter's answer.\<close>

definition on_message :: "nat \<Rightarrow> bool \<Rightarrow> string option \<Rightarrow> client \<Rightarrow> client" where
  "on_message limit allowed text c =
     (if \<not> allowed then send_msg (M_error SERVER_ERROR 0) c
      else if \<not> truthy_str text then c
      else case json_loads (the text) of
        Inl _ \<Rightarrow> send_msg (M_error PARSE_ERROR 0) c
      | Inr j \<Rightarrow> (case parse_request j of
          Inl _ \<Rightarrow> send_msg (M_error INVALID_REQUEST 0) c
        | Inr r \<Rightarrow>
            if rq_method r \<noteq> ''subscribe'' \<and> rq_method r \<noteq> ''unsubscribe''
            then send_msg (M_error METHOD_NOT_FOUND (rq_id r)) c
            else (case handle_request limit r c of
                (Inr m, c') \<Rightarrow> send_msg m c'
              | (Inl _, c') \<Rightarrow> send_msg (M_error INTERNAL_ERROR (rq_id r)) c')))"

text \<open>\<^verbatim>\<open>_init_subscription\<close>: the present state of what the client asked for. An exception ends the task and nothing else.\<close>

definition init_subscription :: "env \<Rightarrow> mint_db \<Rightarrow> string \<Rightarrow> sub_kind \<Rightarrow> error + payload option" where
  "init_subscription E d f k = (case k of
     SK_mint_quote \<Rightarrow> bindR (get_mint_quote (Some f) None None d) (\<lambda>q. Inr (map_option (\<lambda>q. P_mint (quote_response q)) q))
   | SK_melt_quote \<Rightarrow> bindR (get_melt_quote_row (Some f) None None d) (\<lambda>q. Inr (map_option (\<lambda>q. P_melt (from_melt_quote q)) q))
   | SK_proof_state \<Rightarrow> bindR (get_proofs_states E [f] d) (\<lambda>l. Inr (case l of [] \<Rightarrow> None | p # _ \<Rightarrow> Some (P_proof p))))"

definition run_task :: "env \<Rightarrow> mint_db \<Rightarrow> client \<Rightarrow> client" where
  "run_task E d c = (case cl_tasks c of
     [] \<Rightarrow> c
   | t # ts \<Rightarrow>
       let c' = c\<lparr>cl_tasks := ts\<rparr> in
       (case t of
          T_notify sub p \<Rightarrow> send_msg (M_notification sub p) c'
        | T_init sub f k \<Rightarrow> (case init_subscription E d f k of
             Inr (Some p) \<Rightarrow> send_msg (M_notification sub p) c' | _ \<Rightarrow> c')))"

section \<open>The manager\<close>

fun event_kind :: "event \<Rightarrow> sub_kind" where
  "event_kind (EvMint q) = SK_mint_quote"
| "event_kind (EvMelt q) = SK_melt_quote"
| "event_kind (EvProof p) = SK_proof_state"

fun event_identifier :: "event \<Rightarrow> string" where
  "event_identifier (EvMint q) = mq_quote q"
| "event_identifier (EvMelt q) = lq_quote q"
| "event_identifier (EvProof p) = ps_Y p"

fun serialize_event :: "event \<Rightarrow> payload" where
  "serialize_event (EvMint q) = P_mint (quote_response q)"
| "serialize_event (EvMelt q) = P_melt (from_melt_quote q)"
| "serialize_event (EvProof p) = P_proof p"

definition recipients :: "sub_kind \<Rightarrow> string \<Rightarrow> client \<Rightarrow> string list" where
  "recipients k f c = ids_of f (filters_of k c)"

definition notify_client :: "event \<Rightarrow> client \<Rightarrow> client" where
  "notify_client ev c = c\<lparr>cl_tasks := cl_tasks c @
     List.map (\<lambda>sub. T_notify sub (serialize_event ev)) (recipients (event_kind ev) (event_identifier ev) c)\<rparr>"

type_synonym manager = "(nat \<times> client) list"

definition max_clients :: nat where
  "max_clients = 1000"

definition add_client :: "nat \<Rightarrow> manager \<Rightarrow> error + manager" where
  "add_client n m = (if length m \<ge> max_clients then Inl (PyException ''too many clients'') else Inr (m @ [(n, new_client)]))"

definition remove_client :: "nat \<Rightarrow> manager \<Rightarrow> manager" where
  "remove_client n m = filter (\<lambda>(i, c). i \<noteq> n) m"

definition submit :: "event \<Rightarrow> manager \<Rightarrow> manager" where
  "submit ev m = List.map (\<lambda>(i, c). (i, notify_client ev c)) m"

text \<open>The end of a session in \<^verbatim>\<open>websocket_endpoint\<close>: with \<^verbatim>\<open>WebSocketDisconnect\<close>, or with any other exception.\<close>

datatype ending = Disconnected | Failed

definition end_session :: "ending \<Rightarrow> nat \<Rightarrow> manager \<Rightarrow> manager" where
  "end_session e n m = (case e of Disconnected \<Rightarrow> m | Failed \<Rightarrow> remove_client n m)"

section \<open>Subscribing and unsubscribing\<close>

text \<open>The dictionaries of a client have each key once.\<close>

definition wf_client :: "client \<Rightarrow> bool" where
  "wf_client c \<longleftrightarrow> distinct (List.map fst (cl_subs c)) \<and> (\<forall>(k, d)\<in>set (cl_subs c). distinct (List.map fst d))"

lemma ids_add: "ids_of g (foldl (add_filter sub) d fs) = ids_of g d @ replicate (count_list fs g) sub"
proof (induction fs arbitrary: d)
  case (Cons f fs)
  have "ids_of g (add_filter sub d f) = ids_of g d @ (if f = g then [sub] else [])"
    by (auto simp: add_filter_def ids_of_def update_conv')
  then show ?case using Cons.IH[of "add_filter sub d f"] by simp
qed simp

lemma distinct_add: "distinct (List.map fst d) \<Longrightarrow> distinct (List.map fst (foldl (add_filter sub) d fs))"
  by (induction fs arbitrary: d) (simp_all add: add_filter_def distinct_update)

lemma remove_filters_None: "remove_in_filters sub d = None \<longleftrightarrow> (\<forall>(f, l)\<in>set d. sub \<notin> set l)"
  by (induction d) (auto split: if_splits)

lemma remove_filters_Some:
  "remove_in_filters sub d = Some d' \<Longrightarrow> distinct (List.map fst d) \<Longrightarrow>
   \<exists>g. sub \<in> set (ids_of g d) \<and> (\<forall>h. ids_of h d' = (if h = g then remove1 sub (ids_of g d) else ids_of h d))"
proof (induction d arbitrary: d')
  case (Cons x d)
  obtain f l where x: "x = (f, l)" by force
  show ?case
  proof (cases "sub \<in> set l")
    case True
    then have "d' = (f, remove1 sub l) # d" using Cons.prems by (simp add: x)
    then show ?thesis using True by (intro exI[of _ f]) (simp add: x ids_of_def)
  next
    case False
    then obtain d1 where d1: "remove_in_filters sub d = Some d1" "d' = (f, l) # d1" using Cons.prems by (auto simp: x)
    obtain g where g: "sub \<in> set (ids_of g d)" "\<forall>h. ids_of h d1 = (if h = g then remove1 sub (ids_of g d) else ids_of h d)"
      using Cons.IH[OF d1(1)] Cons.prems(2) by auto
    have "g \<noteq> f"
    proof
      assume "g = f"
      then obtain l' where "map_of d f = Some l'" using g(1) by (cases "map_of d f") (auto simp: ids_of_def)
      then have "(f, l') \<in> set d" by (rule map_of_SomeD)
      then have "f \<in> fst ` set d" by (metis fst_conv image_eqI)
      then show False using Cons.prems(2) by (simp add: x)
    qed
    then show ?thesis using g by (intro exI[of _ g]) (auto simp: x d1(2) ids_of_def)
  qed
qed simp

lemma filters_in: "map_of ks k = Some d \<Longrightarrow> sub \<in> set (ids_of g d) \<Longrightarrow> \<exists>(k, d)\<in>set ks. \<exists>(f, l)\<in>set d. sub \<in> set l"
proof -
  assume k: "map_of ks k = Some d" and s: "sub \<in> set (ids_of g d)"
  obtain l where "map_of d g = Some l" "sub \<in> set l" using s by (cases "map_of d g") (auto simp: ids_of_def)
  then have "(g, l) \<in> set d" "sub \<in> set l" by (auto dest: map_of_SomeD)
  then show ?thesis using map_of_SomeD[OF k] by blast
qed

lemma remove_kinds_None: "remove_in_kinds sub ks = None \<longleftrightarrow> (\<forall>(k, d)\<in>set ks. \<forall>(f, l)\<in>set d. sub \<notin> set l)"
  by (induction ks) (auto simp: remove_filters_None[symmetric] split: option.splits)

text \<open>Removing takes one occurrence of the identifier away, somewhere.\<close>

lemma remove_kinds_Some:
  assumes "remove_in_kinds sub ks = Some ks'" and "distinct (List.map fst ks)" and "\<forall>(k, d)\<in>set ks. distinct (List.map fst d)"
  shows "\<exists>k d d'. map_of ks k = Some d \<and> remove_in_filters sub d = Some d' \<and> distinct (List.map fst d) \<and>
    map_of ks' = (map_of ks)(k \<mapsto> d')"
  using assms
proof (induction ks arbitrary: ks')
  case (Cons x ks)
  obtain k d where x: "x = (k, d)" by force
  show ?case
  proof (cases "remove_in_filters sub d")
    case (Some d')
    then have "ks' = (k, d') # ks" using Cons.prems(1) by (simp add: x)
    then show ?thesis using Some Cons.prems(3) by (intro exI[of _ k] exI[of _ d] exI[of _ d']) (auto simp: x)
  next
    case None
    then obtain ks1 where k1: "remove_in_kinds sub ks = Some ks1" "ks' = (k, d) # ks1" using Cons.prems(1) by (auto simp: x)
    have "distinct (List.map fst ks)" "\<forall>(k, d)\<in>set ks. distinct (List.map fst d)" using Cons.prems(2,3) by auto
    from Cons.IH[OF k1(1) this] obtain k0 d0 d0' where o: "map_of ks k0 = Some d0" "remove_in_filters sub d0 = Some d0'" "distinct (List.map fst d0)"
      "map_of ks1 = (map_of ks)(k0 \<mapsto> d0')"
      by blast
    have "k0 \<noteq> k" using map_of_SomeD[OF o(1)] Cons.prems(2) by (auto simp: x image_iff)
    then show ?thesis using o by (intro exI[of _ k0] exI[of _ d0] exI[of _ d0']) (auto simp: x k1(2) fun_upd_twist)
  qed
qed simp

lemma remove_recipients:
  assumes "remove_subscription sub c = (Inr u, c')" and "wf_client c"
  shows "\<exists>k g. sub \<in> set (recipients k g c) \<and>
    (\<forall>k' h. recipients k' h c' = (if k' = k \<and> h = g then remove1 sub (recipients k g c) else recipients k' h c))"
proof -
  obtain ks where ks: "remove_in_kinds sub (cl_subs c) = Some ks" "c' = c\<lparr>cl_subs := ks\<rparr>"
    using assms(1) by (auto simp: remove_subscription_def split: option.splits)
  obtain k d d' where r: "map_of (cl_subs c) k = Some d" "remove_in_filters sub d = Some d'" "distinct (List.map fst d)"
    "map_of ks = (map_of (cl_subs c))(k \<mapsto> d')"
    using remove_kinds_Some[OF ks(1)] assms(2) by (auto simp: wf_client_def)
  obtain g where g: "sub \<in> set (ids_of g d)" "\<forall>h. ids_of h d' = (if h = g then remove1 sub (ids_of g d) else ids_of h d)"
    using remove_filters_Some[OF r(2,3)] by blast
  show ?thesis using g r(1,4) by (intro exI[of _ k] exI[of _ g]) (auto simp: recipients_def filters_of_def ks(2))
qed

lemma add_recipients:
  assumes "add_subscription k fs sub c = (Inr u, c')" and "wf_client c"
  shows "wf_client c' \<and> (\<forall>k' h. recipients k' h c' = recipients k' h c @ (if k' = k then replicate (count_list fs h) sub else []))"
proof -
  let ?c1 = "if map_of (cl_subs c) k = None then c\<lparr>cl_subs := AList.update k [] (cl_subs c)\<rparr> else c"
  have f: "filters_of k' ?c1 = filters_of k' c" for k' by (simp add: filters_of_def update_conv')
  have "c' = ?c1\<lparr>cl_subs := AList.update k (foldl (add_filter sub) (filters_of k c) fs) (cl_subs ?c1),
      cl_tasks := cl_tasks ?c1 @ List.map (\<lambda>f. T_init sub f k) fs\<rparr>"
    using assms(1) by (simp add: add_subscription_def f Let_def split: if_splits)
  then have c': "cl_subs c' = AList.update k (foldl (add_filter sub) (filters_of k c) fs) (cl_subs ?c1)" by simp
  have rec: "recipients k' h c' = recipients k' h c @ (if k' = k then replicate (count_list fs h) sub else [])" for k' h
    unfolding recipients_def filters_of_def c' by (simp add: update_conv' ids_add filters_of_def)
  have in_upd: "set (AList.update k v l) \<subseteq> insert (k, v) (set l)" for v and l :: "(sub_kind \<times> filters) list"
    by (induction l) auto
  have "distinct (List.map fst (filters_of k c))"
    using assms(2) by (auto simp: filters_of_def wf_client_def dest: map_of_SomeD split: option.split)
  then have d: "distinct (List.map fst (foldl (add_filter sub) (filters_of k c) fs))" by (rule distinct_add)
  have "wf_client ?c1" using assms(2) in_upd[of "[]" "cl_subs c"] by (auto simp: wf_client_def distinct_update)
  then have "wf_client c'"
    using d in_upd[of "foldl (add_filter sub) (filters_of k c) fs" "cl_subs ?c1"] by (auto simp: wf_client_def c' distinct_update)
  then show ?thesis using rec by blast
qed

text \<open>C37. Unsubscribing ends one of the filters of a subscription and no other: after a client has subscribed to a list of filters
  under a new identifier, an unsubscription under that identifier succeeds, for exactly one of these filters the events no
  longer reach it, and for all the others they still do; every other subscription receives what it did.\<close>

theorem unsubscribe_ends_one_filter:
  assumes add: "add_subscription k (f # fs) sub c = (Inr u, c1)" and wf: "wf_client c"
    and new: "\<forall>k g. sub \<notin> set (recipients k g c)"
  shows "\<exists>c2 g. remove_subscription sub c1 = (Inr (), c2) \<and> g \<in> set (f # fs) \<and>
    (\<forall>k' h. recipients k' h c2 = recipients k' h c @
       (if k' = k then replicate (count_list (f # fs) h - (if h = g then 1 else 0)) sub else []))"
proof -
  note a = add_recipients[OF add wf]
  have "recipients k f c1 \<noteq> recipients k f c" using a by simp
  then have "sub \<in> set (recipients k f c1)" using a by simp
  then have "remove_in_kinds sub (cl_subs c1) \<noteq> None"
    using filters_in[of "cl_subs c1" k] unfolding remove_kinds_None
    by (auto simp: recipients_def filters_of_def ids_of_def split: option.splits) blast+
  then obtain c2 where c2: "remove_subscription sub c1 = (Inr (), c2)" by (auto simp: remove_subscription_def)
  obtain k0 g where g: "sub \<in> set (recipients k0 g c1)"
    "\<forall>k' h. recipients k' h c2 = (if k' = k0 \<and> h = g then remove1 sub (recipients k0 g c1) else recipients k' h c1)"
    using remove_recipients[OF c2] a by blast
  have k0: "k0 = k" "count_list (f # fs) g \<noteq> 0" using g(1) a new by (auto split: if_splits)
  then have "g \<in> set (f # fs)" by (metis count_list_0_iff)
  moreover have "recipients k' h c2 = recipients k' h c @
       (if k' = k then replicate (count_list (f # fs) h - (if h = g then 1 else 0)) sub else [])" for k' h
  proof (cases "k' = k \<and> h = g")
    case True
    have "remove1 sub (l @ replicate n sub) = l @ replicate (n - 1) sub" if "sub \<notin> set l" for l n
      using that by (cases n) (simp_all add: remove1_append remove1_idem)
    then show ?thesis using g(2) a new k0(1) True by simp
  next
    case False
    then show ?thesis using g(2) a k0(1) by auto
  qed
  ultimately show ?thesis using c2 by blast
qed

theorem unsubscribe_ends_one_filter_witness:
  "\<exists>c1 c2. add_subscription SK_mint_quote [''q1'', ''q2''] ''s'' new_client = (Inr (), c1) \<and>
     remove_subscription ''s'' c1 = (Inr (), c2) \<and>
     length (recipients SK_mint_quote ''q1'' c2) + length (recipients SK_mint_quote ''q2'' c2) = 1"
proof -
  obtain c1 where a: "add_subscription SK_mint_quote [''q1'', ''q2''] ''s'' new_client = (Inr (), c1)"
    by (auto simp: add_subscription_def new_client_def filters_of_def max_subscriptions_def Let_def)
  have r: "recipients k g new_client = []" for k g by (simp add: recipients_def filters_of_def new_client_def ids_of_def)
  have "wf_client new_client" by (simp add: wf_client_def new_client_def)
  from unsubscribe_ends_one_filter[OF a this] a show ?thesis by (auto simp: r)
qed

end
