(* ===== verification/WalletHelpers.thy ===== *)
theory WalletHelpers
  imports WalletQuotes Samples
begin

text \<open>
  What users of a wallet call (\<^verbatim>\<open>cashu/wallet/helpers.py\<close>, \<^verbatim>\<open>cashu/wallet/utils.py\<close>, \<^verbatim>\<open>cashu/wallet/lightning/lightning.py\<close> and
  the opening of a wallet, \<^verbatim>\<open>Wallet.with_db\<close>): to receive a token, to send one, and to use the wallet like a Lightning node.

  A wallet that is opened for another mint works on the same database (same directory, same name) and reaches its mint under
  its address: \<open>mints\<close> gives for each address the mint behind it. The memory of the wallet that opened it stays as it was
  (\<open>in_other_wallet\<close>). What the functions print is not modelled, nor the migrations of the database.
\<close>

section \<open>Addresses\<close>

text \<open>The parts of a text before and after the first occurrence of a separator.\<close>

primrec break_at :: "string \<Rightarrow> string \<Rightarrow> (string \<times> string) option" where
  "break_at sep [] = None"
| "break_at sep (c # cs) =
     (if starts sep (c # cs) then Some ([], drop (length sep) (c # cs))
      else map_option (\<lambda>(a, b). (c # a, b)) (break_at sep cs))"

definition first_piece :: "string \<Rightarrow> string \<Rightarrow> string" where
  "first_piece sep s = (case break_at sep s of None \<Rightarrow> s | Some (a, _) \<Rightarrow> a)"

definition rstrip_slash :: "string \<Rightarrow> string" where
  "rstrip_slash s = rev (dropWhile (\<lambda>c. c = CHR ''/'') (rev s))"

definition sanitize_url :: "string \<Rightarrow> error + string" where
  "sanitize_url url = (case break_at ''://'' url of
     None \<Rightarrow> Inl IndexError
   | Some (protocol, after) \<Rightarrow>
       let rest = first_piece ''://'' after;
           host = lower (first_piece ''/'' rest);
           path = (case break_at ''/'' rest of None \<Rightarrow> [] | Some (_, p) \<Rightarrow> rstrip_slash p)
       in Inr (protocol @ ''://'' @ host @ (if path \<noteq> [] then ''/'' @ path else [])))"

section \<open>Opening a wallet\<close>

definition fresh_wallet :: "string \<Rightarrow> unit_t \<Rightarrow> wallet" where
  "fresh_wallet url u = \<lparr>w_url = url, w_unit = u, w_keysets = [], w_keyset_id = [], w_proofs = [], w_seed = None,
     w_bip32 = None, w_private_key = None, w_mint_info = None\<rparr>"

definition with_db :: "wallet_env \<Rightarrow> (string \<Rightarrow> 'm mint_api) \<Rightarrow> string \<Rightarrow> string \<Rightarrow> bool \<Rightarrow> ('m, unit) wop" where
  "with_db V mints url unit load_all_keysets =
     bindS (lift_res (unit_of_name unit)) (\<lambda>u.
     bindS (lift_res (sanitize_url url)) (\<lambda>clean.
     thenS (mod_w (\<lambda>_. fresh_wallet clean u))
    (thenS (init_private_key V None)
    (bindS (read_db (wallet_get_keysets (crv (wenv V)) [] (if load_all_keysets then None else Some url) None)) (\<lambda>l.
     thenS (mod_w (\<lambda>W. W\<lparr>w_keysets := dict_from (List.map (\<lambda>k. (wk_id k, k))
         (if load_all_keysets then l else filter (\<lambda>k. wk_unit k = w_unit W) l))\<rparr>))
           (load_mint_info (mints clean) False True))))))"

definition in_other_wallet :: "('m, 'a) wop \<Rightarrow> ('m, 'a) wop" where
  "in_other_wallet m = (\<lambda>s. case m s of (r, t) \<Rightarrow> (r, t\<lparr>ww := ww s\<rparr>))"

definition init_wallet :: "wallet_env \<Rightarrow> bool \<Rightarrow> ('m, unit) wop" where
  "init_wallet V with_proofs = thenS (init_private_key V None) (whenS with_proofs (load_proofs V True False))"

definition list_mints :: "wallet_env \<Rightarrow> ('m, string list) wop" where
  "list_mints V =
     thenS (load_proofs V False False)
    (bindS (liftS (\<lambda>s. balance_per_minturl (wenv V) (wdb s) (ww s) None)) (\<lambda>balances.
     get_w (\<lambda>W. let urls = List.map fst balances in if w_url W \<in> set urls then urls else urls @ [w_url W])))"

section \<open>Receiving\<close>

datatype token = Token_V3 token_v3 | Token_V4 token_v4

definition deserialize_token_from_string :: "env \<Rightarrow> cbor2 \<Rightarrow> string \<Rightarrow> error + token" where
  "deserialize_token_from_string E B s =
     (if starts ''cashuA'' s then
        bindR (v3_deserialize E s) (\<lambda>t3.
        case v4_from_tokenv3 E t3 of
          Inr t4 \<Rightarrow> Inr (Token_V4 t4)
        | Inl e \<Rightarrow> (case e of ValueError _ \<Rightarrow> Inr (Token_V3 t3) | _ \<Rightarrow> Inl e))
      else if starts ''cashuB'' s then bindR (v4_deserialize B s) (\<lambda>t4. Inr (Token_V4 t4))
      else Inl (PyException ''Invalid token''))"

text \<open>A proof of a token as the wallet's class has it: the attributes for coin management at their defaults.\<close>

definition received :: "token_proof \<Rightarrow> wallet_proof" where
  "received p = token_proof.extend p \<lparr>wp_reserved = Some False, wp_send_id = Some [], wp_derivation_path = Some [],
     wp_mint_id = None, wp_melt_id = None\<rparr>"

definition redeem_expanded :: "wallet_env \<Rightarrow> 'm mint_api \<Rightarrow> token_proof list \<Rightarrow> ('m, wallet_proof list \<times> wallet_proof list) wop" where
  "redeem_expanded V A ps = bindS (liftS (\<lambda>s. expand_short_keyset_ids (ww s) ps)) (\<lambda>qs. redeem V A (List.map received qs))"

text \<open>The unit of a token that does not name one: that of the keyset of its first proof, when the wallet knows it.\<close>

definition unit_of_token :: "wallet_env \<Rightarrow> token_v3 \<Rightarrow> ('m, string) wop" where
  "unit_of_token V t =
     (if v3_unit t \<noteq> [] then returnS (v3_unit t)
      else bindS (lift_res (case v3_token t of [] \<Rightarrow> Inl IndexError
             | x # _ \<Rightarrow> (case t3_proofs x of [] \<Rightarrow> Inl IndexError | p # _ \<Rightarrow> Inr (p_id p)))) (\<lambda>kid.
           bindS (read_db (wallet_get_keysets (crv (wenv V)) kid None None)) (\<lambda>found.
           bindS (if found = [] \<and> starts ''01'' kid \<and> length kid = 16
                  then bindS (read_db (wallet_get_keysets (crv (wenv V)) [] None None)) (\<lambda>l.
                       returnS (filter (\<lambda>k. starts kid (wk_id k)) l))
                  else returnS found) (\<lambda>ks.
           returnS (case ks of [] \<Rightarrow> [] | k # _ \<Rightarrow> unit_name (wk_unit k))))))"

definition redeem_part :: "wallet_env \<Rightarrow> (string \<Rightarrow> 'm mint_api) \<Rightarrow> string \<Rightarrow> token_v3_token \<Rightarrow> ('m, unit) wop" where
  "redeem_part V mints unit x =
     thenS (guardS (truthy_str (t3_mint x)) (AssertionError ''redeem_TokenV3: multimint redeem without URL''))
    (bindS (get_w (\<lambda>W. if unit = [] then unit_name (w_unit W) else unit)) (\<lambda>u.
     in_other_wallet
      (thenS (with_db V mints (the (t3_mint x)) u False)
      (bindS (get_w w_url) (\<lambda>url.
       thenS (load_mint V (mints url) [] False)
      (thenS (redeem_expanded V (mints url) (t3_proofs x)) (returnS ())))))))"

definition redeem_TokenV3 :: "wallet_env \<Rightarrow> (string \<Rightarrow> 'm mint_api) \<Rightarrow> token_v3 \<Rightarrow> ('m, unit) wop" where
  "redeem_TokenV3 V mints t =
     bindS (unit_of_token V t) (\<lambda>u.
     thenS (forS (v3_token t) (redeem_part V mints u))
           (guardS (v3_token t \<noteq> []) (UnboundLocalError ''mint_wallet'')))"

definition redeem_TokenV4 :: "wallet_env \<Rightarrow> (string \<Rightarrow> 'm mint_api) \<Rightarrow> token_v4 \<Rightarrow> ('m, unit) wop" where
  "redeem_TokenV4 V mints t =
     bindS (get_w w_url) (\<lambda>url.
     thenS (load_mint V (mints url) [] False)
    (bindS (lift_res (v4_proofs (wenv V) t)) (\<lambda>ps.
     thenS (redeem_expanded V (mints url) ps) (returnS ()))))"

definition redeem_universal :: "wallet_env \<Rightarrow> (string \<Rightarrow> 'm mint_api) \<Rightarrow> token \<Rightarrow> ('m, unit) wop" where
  "redeem_universal V mints t = (case t of Token_V3 t3 \<Rightarrow> redeem_TokenV3 V mints t3 | Token_V4 t4 \<Rightarrow> redeem_TokenV4 V mints t4)"

definition receive :: "wallet_env \<Rightarrow> (string \<Rightarrow> 'm mint_api) \<Rightarrow> token \<Rightarrow> ('m, unit) wop" where
  "receive V mints t =
     thenS (load_proofs V False False) (thenS (redeem_universal V mints t) (load_proofs V True False))"

section \<open>Sending\<close>

text \<open>\<^verbatim>\<open>lock.split(":")[1]\<close>.\<close>

definition after_colon :: "string \<Rightarrow> error + string" where
  "after_colon s = (case break_at '':'' s of None \<Rightarrow> Inl IndexError | Some (_, r) \<Rightarrow> Inr (first_piece '':'' r))"

definition lock_of :: "wallet_env \<Rightarrow> int \<Rightarrow> string \<Rightarrow> string list option \<Rightarrow> error + secret option" where
  "lock_of V locktime_delta lock refund_pubkeys =
     (if lock = [] then Inr None
      else if \<not> length lock > 21 then Inl (AssertionError ''Error: lock has to be at least 22 characters long.'')
      else if starts ''P2PK:'' lock \<or> starts ''P2PK-SIGALL:'' lock then
        bindR (after_colon lock) (\<lambda>pubkey.
        Inr (Some (create_p2pk_lock V pubkey (Some locktime_delta)
          (if truthy_list refund_pubkeys then Some (set_tag_list [] ''refund'' (the refund_pubkeys)) else None)
          (starts ''P2PK-SIGALL:'' lock) 1)))
      else Inl (PyException ''Error: lock has to start with P2PK: or P2PK-SIGALL:''))"

definition send ::
  "wallet_env \<Rightarrow> cbor2 \<Rightarrow> int \<Rightarrow> 'm mint_api \<Rightarrow> int \<Rightarrow> string \<Rightarrow> bool \<Rightarrow> bool \<Rightarrow> bool \<Rightarrow> bool \<Rightarrow> string option \<Rightarrow> bool \<Rightarrow>
   string list option \<Rightarrow> ('m, amount \<times> string) wop" where
  "send V B locktime_delta A amount lock legacy offline include_dleq include_fees memo force_swap refund_pubkeys =
     bindS (lift_res (lock_of V locktime_delta lock refund_pubkeys)) (\<lambda>secret_lock.
     thenS (load_proofs V False False)
    (thenS (load_mint V A [] False)
    (bindS (get_w w_proofs) (\<lambda>ps.
     bindS (if secret_lock \<noteq> None \<or> force_swap
            then bindS (swap_to_send V A ps amount secret_lock False False) (\<lambda>(_, sent). returnS sent)
            else bindS (select_to_send V A ps amount False offline include_fees) (\<lambda>(sent, _). returnS sent)) (\<lambda>send_proofs.
     bindS (liftS (\<lambda>s. serialize_proofs (wenv V) B (ww s) (wdb s) send_proofs include_dleq legacy memo)) (\<lambda>token.
     thenS (set_reserved_for_send V send_proofs True)
    (bindS (get_w available_balance) (\<lambda>left.
     returnS (left, token)))))))))"

definition check_payment_preimage :: "curve \<Rightarrow> string \<Rightarrow> string \<Rightarrow> error + bool" where
  "check_payment_preimage C payment_hash preimage =
     bindR (fromhex payment_hash) (\<lambda>h. bindR (fromhex preimage) (\<lambda>p. Inr (h = sha256 C p)))"

section \<open>A wallet as a Lightning node\<close>

definition lightning_create_invoice :: "wallet_env \<Rightarrow> 'm mint_api \<Rightarrow> int \<Rightarrow> string option \<Rightarrow> ('m, invoice_response) wop" where
  "lightning_create_invoice V A amount memo =
     bindS (request_mint V A amount memo) (\<lambda>q.
     returnS \<lparr>ir_ok = True, ir_checking_id = None, ir_payment_request = Some (mq_request q), ir_error_message = None\<rparr>)"

definition payment_failed :: "string option \<Rightarrow> payment_response" where
  "payment_failed msg = \<lparr>py_result = PR_failed, py_checking_id = None, py_fee = None, py_preimage = None, py_error_message = msg\<rparr>"

definition lightning_pay_invoice ::
  "wallet_env \<Rightarrow> 'm mint_api \<Rightarrow> (string \<Rightarrow> error + string) \<Rightarrow> string \<Rightarrow> ('m, payment_response) wop" where
  "lightning_pay_invoice V A payment_hash request =
     bindS (wallet_melt_quote V A False request None) (\<lambda>quote.
     let total_amount = lq_amount quote + lq_fee_reserve quote
     in thenS (guardS (total_amount > 0) (AssertionError ''amount is not positive''))
       (bindS (get_w available_balance) (\<lambda>available.
        if a_amount available < total_amount then returnS (payment_failed None)
        else bindS (get_w w_proofs) (\<lambda>ps.
             bindS (swap_to_send V A ps total_amount None False False) (\<lambda>(_, send_proofs).
             catchS
               (bindS (wallet_melt V A send_proofs request (lq_fee_reserve quote) (lq_quote quote)) (\<lambda>resp.
                let fees_paid = (case mr_change resp of
                      Some l \<Rightarrow> if l \<noteq> [] then lq_fee_reserve quote - sum_promises l else lq_fee_reserve quote
                    | None \<Rightarrow> lq_fee_reserve quote)
                in bindS (lift_res (payment_hash request)) (\<lambda>h.
                   returnS \<lparr>py_result = PR_settled, py_checking_id = Some h, py_fee = Some (Amount msat fees_paid),
                     py_preimage = mr_payment_preimage resp, py_error_message = None\<rparr>)))
               (\<lambda>e. returnS (payment_failed (Some (error_detail e)))))))))"

definition payment_state :: "payment_result \<Rightarrow> string option \<Rightarrow> payment_status" where
  "payment_state r preimage = \<lparr>st_result = r, st_fee = None, st_preimage = preimage, st_error_message = None\<rparr>"

definition lightning_get_invoice_status :: "wallet_env \<Rightarrow> 'm mint_api \<Rightarrow> string \<Rightarrow> ('m, payment_status) wop" where
  "lightning_get_invoice_status V A request =
     bindS (read_db (get_bolt11_mint_quote None (Some request))) (\<lambda>found.
     case found of
       None \<Rightarrow> returnS (payment_state PR_unknown None)
     | Some q \<Rightarrow>
         if mq_state q = MQ_paid then returnS (payment_state PR_settled None)
         else catchS (thenS (wallet_mint V A (mq_amount q) (mq_quote q) None) (returnS (payment_state PR_settled None)))
                (\<lambda>_. returnS (payment_state PR_failed None)))"

definition status_of_states :: "proof_state list \<Rightarrow> payment_result" where
  "status_of_states l =
     (if list_all (\<lambda>p. ps_state p = PS_pending) l then PR_pending
      else if list_ex (\<lambda>p. ps_state p = PS_spent) l then PR_settled
      else if list_all (\<lambda>p. ps_state p = PS_unspent) l then PR_failed
      else PR_unknown)"

definition lightning_get_payment_status :: "wallet_env \<Rightarrow> 'm mint_api \<Rightarrow> string \<Rightarrow> ('m, payment_status) wop" where
  "lightning_get_payment_status V A request =
     bindS (read_db (get_bolt11_melt_quote None (Some request))) (\<lambda>found.
     case found of
       None \<Rightarrow> returnS (payment_state PR_failed None)
     | Some q \<Rightarrow>
         if lq_state q = LQ_paid then returnS (payment_state PR_settled (lq_payment_preimage q))
         else bindS (read_db (wallet_get_proofs (wenv V) None (lq_quote q) [])) (\<lambda>ps.
              if ps = [] then returnS (payment_state PR_failed None)
              else bindS (api_check_proof_state V A ps) (\<lambda>l. returnS (payment_state (status_of_states l) None))))"

definition lightning_get_balance :: "wallet \<Rightarrow> amount" where
  "lightning_get_balance W = amount_mul (available_balance W) 1000"

section \<open>Tokens of several mints\<close>

text \<open>A token of version 3 with proofs of more than one mint can not be received: the attempt to turn it into a token of version 4
  raises an exception that is not the one that is caught, although \<^verbatim>\<open>redeem_TokenV3\<close> redeems one mint after the other.\<close>

theorem multimint_token_refused:
  assumes "v3_deserialize E s = Inr t" and "length (v3_mints E t) \<noteq> 1"
  shows "deserialize_token_from_string E B s = Inl (PyException ''TokenV3 must contain proofs from only one mint.'')"
proof -
  have "starts ''cashuA'' s" using assms(1) by (auto simp: v3_deserialize_def bindR_Inr)
  then show ?thesis using assms by (simp add: deserialize_token_from_string_def v4_from_tokenv3_def)
qed

definition two_mints :: token_v3 where
  "two_mints = \<lparr>v3_token = [\<lparr>t3_mint = Some ''https://a'', t3_proofs = [sample_proof 1 ''a'']\<rparr>,
     \<lparr>t3_mint = Some ''https://b'', t3_proofs = [sample_proof 2 ''b'']\<rparr>], v3_memo = None, v3_unit = ''sat''\<rparr>"

theorem multimint_token_refused_witness:
  "\<exists>s t. v3_serialize False two_mints = Inr s \<and> v3_deserialize sample_env s = Inr t \<and> List.map t3_mint (v3_token t) = [Some ''https://a'', Some ''https://b''] \<and>
     (\<forall>B. deserialize_token_from_string sample_env B s = Inl (PyException ''TokenV3 must contain proofs from only one mint.''))"
proof -
  define r where "r = bindR (v3_serialize False two_mints) (\<lambda>s. bindR (v3_deserialize sample_env s) (\<lambda>t. Inr (s, t)))"
  have c: "case r of Inl e \<Rightarrow> False | Inr (s, t) \<Rightarrow> List.map t3_mint (v3_token t) = [Some ''https://a'', Some ''https://b''] \<and>
      length (v3_mints sample_env t) \<noteq> 1"
    unfolding r_def by code_simp
  then obtain s t where r: "r = Inr (s, t)" by (auto split: sum.splits prod.splits)
  then have d: "v3_serialize False two_mints = Inr s" "v3_deserialize sample_env s = Inr t" by (auto simp: r_def bindR_Inr)
  have n: "length (v3_mints sample_env t) \<noteq> 1" and m: "List.map t3_mint (v3_token t) = [Some ''https://a'', Some ''https://b'']"
    using c r by simp_all
  show ?thesis
    by (intro exI[of _ s] exI[of _ t] conjI allI d m) (rule multimint_token_refused[OF d(2) n])
qed

end
