(* ===== verification/Backends.thy ===== *)
theory Backends
  imports MintInfo Floats Base64
begin

text \<open>
  The clients of Lightning services over HTTP: what they share (\<^verbatim>\<open>cashu/core/helpers.py\<close>, \<^verbatim>\<open>cashu/lightning/base.py\<close>,
  \<^verbatim>\<open>cashu/lightning/macaroon.py\<close>), and the client of LNbits (\<^verbatim>\<open>cashu/lightning/lnbits.py\<close>). A service has a state of its own, of any
  type \<open>'s\<close>; what it answers to a request is a function of that state, or an exception of the package \<^verbatim>\<open>httpx\<close>. The package \<^verbatim>\<open>bolt11\<close> is the
  function \<open>ln_decode\<close>.

  An answer is text, read as JSON. Amounts in it are integers, as these services write them; where the code takes a number as it is,
  any other value is refused here with \<open>TypeError\<close>.
\<close>

section \<open>Requests and answers\<close>

record http_request =
  hr_method :: string
  hr_url :: string
  hr_body :: json

record http_response =
  rs_status :: int
  rs_text :: string
  rs_reason :: string

text \<open>\<^verbatim>\<open>r.is_success\<close>, \<^verbatim>\<open>r.is_error\<close>, \<^verbatim>\<open>r.json()\<close>, and the exception of \<^verbatim>\<open>r.raise_for_status()\<close>.\<close>

definition is_success :: "http_response \<Rightarrow> bool" where
  "is_success r = (200 \<le> rs_status r \<and> rs_status r < 300)"

definition is_error :: "http_response \<Rightarrow> bool" where
  "is_error r = (400 \<le> rs_status r \<and> rs_status r < 600)"

definition rs_json :: "http_response \<Rightarrow> error + json" where
  "rs_json r = json_loads (rs_text r)"

definition status_error :: "http_response \<Rightarrow> error" where
  "status_error r = PyException (str_int (rs_status r) @ '' '' @ rs_reason r)"

definition raise_for_status :: "http_response \<Rightarrow> error + unit" where
  "raise_for_status r = checkR (is_success r) (status_error r)"

record ln_invoice =
  li_payment_hash :: string
  li_amount_msat :: "int option"
  li_payee :: "string option"
  li_secret :: "string option"

datatype decoded = Decoded ln_invoice | Bolt11Exception string

record 's ln_env =
  ln_http :: "http_request \<Rightarrow> 's \<Rightarrow> (error + http_response) \<times> 's"
  ln_stream :: "http_request \<Rightarrow> 's \<Rightarrow> (error + string list) \<times> 's"
  ln_decode :: "string \<Rightarrow> decoded"
  ln_random :: string
  lightning_fee_percent :: rat
  lightning_reserve_fee_min :: int

type_synonym ('s, 'a) ln = "('s, error, 'a) sm"

record status_response =
  sr_balance :: amount
  sr_error :: "string option"

definition bolt11_of :: "'s ln_env \<Rightarrow> string \<Rightarrow> error + ln_invoice" where
  "bolt11_of N s = (case ln_decode N s of Decoded i \<Rightarrow> Inr i | Bolt11Exception m \<Rightarrow> Inl (PyException m))"

text \<open>
  The usual shape of a request: \<^verbatim>\<open>try\<close>, the request, \<^verbatim>\<open>raise_for_status\<close> and \<^verbatim>\<open>json\<close>, with a branch for an answer that is no success, one for
  any other exception, and the code that follows the \<^verbatim>\<open>try\<close> statement.
\<close>

definition http_json ::
  "'s ln_env \<Rightarrow> http_request \<Rightarrow> (http_response \<Rightarrow> ('s, 'a) ln) \<Rightarrow> (error \<Rightarrow> ('s, 'a) ln) \<Rightarrow> (json \<Rightarrow> ('s, 'a) ln) \<Rightarrow> ('s, 'a) ln" where
  "http_json N q on_status on_exc on_data s =
     (case ln_http N q s of
        (Inl e, t) \<Rightarrow> on_exc e t
      | (Inr r, t) \<Rightarrow>
          if \<not> is_success r then on_status r t
          else case rs_json r of Inl e \<Rightarrow> on_exc e t | Inr data \<Rightarrow> on_data data t)"

text \<open>\<^verbatim>\<open>except Exception\<close> for both branches.\<close>

definition http_try ::
  "'s ln_env \<Rightarrow> http_request \<Rightarrow> (error \<Rightarrow> ('s, 'a) ln) \<Rightarrow> (json \<Rightarrow> ('s, 'a) ln) \<Rightarrow> ('s, 'a) ln" where
  "http_try N q on_exc on_data = http_json N q (\<lambda>r. on_exc (status_error r)) on_exc on_data"

section \<open>JSON values as Python values\<close>

text \<open>\<^verbatim>\<open>d.get(k)\<close>, \<^verbatim>\<open>d.get(k, {})\<close> and \<^verbatim>\<open>d[k]\<close> along a path of keys.\<close>

definition jnone :: "string \<Rightarrow> json \<Rightarrow> error + json" where
  "jnone k j = bindR (jget k j) (\<lambda>x. Inr (case x of None \<Rightarrow> JNull | Some v \<Rightarrow> v))"

definition jdict :: "string \<Rightarrow> json \<Rightarrow> error + json" where
  "jdict k j = bindR (jget k j) (\<lambda>x. Inr (case x of None \<Rightarrow> JObj [] | Some v \<Rightarrow> v))"

primrec jdicts :: "string list \<Rightarrow> json \<Rightarrow> error + json" where
  "jdicts [] j = Inr j"
| "jdicts (k # ks) j = bindR (jdict k j) (jdicts ks)"

primrec jpath :: "string list \<Rightarrow> json \<Rightarrow> error + json" where
  "jpath [] j = Inr j"
| "jpath (k # ks) j = bindR (jindex k j) (jpath ks)"

text \<open>\<^verbatim>\<open>l[i]\<close> with an index that may count from the end.\<close>

definition jat :: "int \<Rightarrow> json \<Rightarrow> error + json" where
  "jat i j = (case j of
     JList l \<Rightarrow> (let n = int (length l); k = (if i < 0 then i + n else i)
                 in if 0 \<le> k \<and> k < n then Inr (l ! nat k) else Inl IndexError)
   | JObj d \<Rightarrow> Inl (KeyError (str_int i))
   | _ \<Rightarrow> Inl type_error)"

definition jint :: "json \<Rightarrow> error + int" where
  "jint j = (case j of JInt n \<Rightarrow> Inr n | JBool b \<Rightarrow> Inr (of_bool b) | _ \<Rightarrow> Inl type_error)"

text \<open>\<^verbatim>\<open>int(x)\<close>; an optional text of a model.\<close>

definition jint_of :: "json \<Rightarrow> error + int" where
  "jint_of j = (case j of JStr s \<Rightarrow> ofOption (ValueError ''invalid literal for int()'') (py_int s) | _ \<Rightarrow> jint j)"

definition jopt_text :: "json \<Rightarrow> error + string option" where
  "jopt_text j = (if j = JNull then Inr None else bindR (json_str j) (\<lambda>s. Inr (Some s)))"

text \<open>
  \<^verbatim>\<open>str(x)\<close>: a text is itself, everything else is its \<^verbatim>\<open>repr\<close>. A number with a fraction is the text that was read.
\<close>

definition repr_char :: "char \<Rightarrow> char \<Rightarrow> string" where
  "repr_char q c = (let n = (of_char c :: nat) in
     if c = q \<or> n = 92 then [ch 92, c]
     else if n = 10 then [ch 92, CHR ''n''] else if n = 13 then [ch 92, CHR ''r''] else if n = 9 then [ch 92, CHR ''t'']
     else if n < 32 \<or> (127 \<le> n \<and> n \<le> 160) \<or> n = 173 then [ch 92, CHR ''x'', hex_digit (n div 16), hex_digit (n mod 16)]
     else [c])"

definition repr_str :: "string \<Rightarrow> string" where
  "repr_str s = (let q = (if ch 39 \<in> set s \<and> ch 34 \<notin> set s then ch 34 else ch 39)
                 in q # concat (List.map (repr_char q) s) @ [q])"

fun py_repr :: "json \<Rightarrow> string" where
  "py_repr JNull = ''None''"
| "py_repr (JBool b) = (if b then ''True'' else ''False'')"
| "py_repr (JInt n) = str_int n"
| "py_repr (JFloat s) = s"
| "py_repr (JStr s) = repr_str s"
| "py_repr (JList l) = ''['' @ sep_by '', '' (List.map py_repr l) @ '']''"
| "py_repr (JObj d) = ''{'' @ sep_by '', '' (List.map (\<lambda>(k, v). repr_str k @ '': '' @ py_repr v) d) @ ''}''"

definition py_str :: "json \<Rightarrow> string" where
  "py_str j = (case j of JStr s \<Rightarrow> s | _ \<Rightarrow> py_repr j)"

section \<open>Fees in floating point\<close>

definition f_mul :: "rat \<Rightarrow> rat \<Rightarrow> rat" where
  "f_mul x y = f64 (x * y)"

definition f_div :: "rat \<Rightarrow> rat \<Rightarrow> rat" where
  "f_div x y = f64 (x / y)"

text \<open>\<^verbatim>\<open>int(x)\<close> of a float.\<close>

definition f_trunc :: "rat \<Rightarrow> int" where
  "f_trunc x = (if 0 \<le> x then \<lfloor>x\<rfloor> else \<lceil>x\<rceil>)"

definition fee_reserve :: "'s ln_env \<Rightarrow> int \<Rightarrow> int" where
  "fee_reserve N amount_msat =
     max (lightning_reserve_fee_min N) (f_trunc (f_div (f_mul (f_of_int amount_msat) (lightning_fee_percent N)) 100))"

text \<open>The quote that the clients of LNbits, of both kinds of Core Lightning and of LND make of an amount.\<close>

definition quote_of_msat :: "'s ln_env \<Rightarrow> unit_t \<Rightarrow> ln_invoice \<Rightarrow> int \<Rightarrow> error + payment_quote" where
  "quote_of_msat N u i amount_msat =
     bindR (amount_to (Amount msat (fee_reserve N amount_msat)) u round_up) (\<lambda>fee.
     bindR (amount_to (Amount msat amount_msat) u round_up) (\<lambda>amount.
     Inr \<lparr>pq_checking_id = li_payment_hash i, pq_amount = amount, pq_fee = fee\<rparr>))"

definition invoice_msat :: "ln_invoice \<Rightarrow> error + int" where
  "invoice_msat i = (if truthy_int (li_amount_msat i) then Inr (the (li_amount_msat i)) else Inl (AssertionError ''invoice has no amount.''))"

definition quote_of_invoice :: "'s ln_env \<Rightarrow> unit_t \<Rightarrow> melt_quote_request \<Rightarrow> error + payment_quote" where
  "quote_of_invoice N u r =
     bindR (bolt11_of N (lr_request r)) (\<lambda>i. bindR (invoice_msat i) (quote_of_msat N u i))"

section \<open>Answers\<close>

definition assert_unit_supported :: "unit_t set \<Rightarrow> unit_t \<Rightarrow> error + unit" where
  "assert_unit_supported us u = checkR (u \<in> us) (PyException (''Unit '' @ unit_name u @ '' is not supported''))"

definition no_invoice :: "string \<Rightarrow> invoice_response" where
  "no_invoice m = \<lparr>ir_ok = False, ir_checking_id = None, ir_payment_request = None, ir_error_message = Some m\<rparr>"

definition invoice_made :: "string option \<Rightarrow> string option \<Rightarrow> invoice_response" where
  "invoice_made c p = \<lparr>ir_ok = True, ir_checking_id = c, ir_payment_request = p, ir_error_message = None\<rparr>"

definition no_payment :: "payment_result \<Rightarrow> string option \<Rightarrow> payment_response" where
  "no_payment r m = \<lparr>py_result = r, py_checking_id = None, py_fee = None, py_preimage = None, py_error_message = m\<rparr>"

definition no_status :: "payment_result \<Rightarrow> string option \<Rightarrow> payment_status" where
  "no_status r m = \<lparr>st_result = r, st_fee = None, st_preimage = None, st_error_message = m\<rparr>"

definition no_balance :: "unit_t \<Rightarrow> string \<Rightarrow> status_response" where
  "no_balance u m = \<lparr>sr_balance = Amount u 0, sr_error = Some m\<rparr>"

text \<open>\<^verbatim>\<open>load_macaroon\<close>, of a text that names no file.\<close>

definition load_macaroon :: "string \<Rightarrow> string" where
  "load_macaroon m = (case from_hex m of Some _ \<Rightarrow> m | None \<Rightarrow> (case b64_decode m of Some b \<Rightarrow> to_hex b | None \<Rightarrow> m))"

end
