(* ===== verification/Lnbits.thy ===== *)
theory Lnbits
  imports Backends
begin

text \<open>
  \<^verbatim>\<open>LNbitsWallet\<close> of \<^verbatim>\<open>cashu/lightning/lnbits.py\<close>, a backend over the HTTP interface of LNbits. The stream of paid invoices is modelled from
  the lines of the event stream on: which payment hashes it yields, and whether it finds the interface to be the new one.
\<close>

definition lnbits_units :: "unit_t set" where
  "lnbits_units = {sat}"

definition lnbits_status :: "'s ln_env \<Rightarrow> string \<Rightarrow> unit_t \<Rightarrow> ('s, status_response) ln" where
  "lnbits_status N endpoint u =
     http_try N \<lparr>hr_method = ''GET'', hr_url = endpoint @ ''/api/v1/wallet'', hr_body = JNull\<rparr>
       (\<lambda>e. returnS (no_balance u (''Failed to connect to '' @ endpoint @ '' due to: '' @ error_detail e)))
       (\<lambda>data. liftS (\<lambda>_.
          bindR (jnone ''detail'' data) (\<lambda>d.
          if jtruthy d then Inr (no_balance u (''LNbits error: '' @ py_str d))
          else bindR (bindR (jindex ''balance'' data) jint) (\<lambda>b.
               Inr \<lparr>sr_balance = Amount sat (b div 1000), sr_error = None\<rparr>))))"

definition lnbits_invoice_body :: "int \<Rightarrow> string option \<Rightarrow> string option \<Rightarrow> string option \<Rightarrow> json" where
  "lnbits_invoice_body n memo description_hash unhashed =
     JObj ([(''out'', JBool False), (''amount'', JInt n)] @
       (if truthy_str description_hash then [(''description_hash'', JStr (to_hex (the description_hash)))] else []) @
       (if truthy_str unhashed then [(''unhashed_description'', JStr (to_hex (the unhashed)))] else []) @
       [(''memo'', JStr (if truthy_str memo then the memo else []))])"

definition lnbits_invoice_of :: "json \<Rightarrow> error + invoice_response" where
  "lnbits_invoice_of data =
     bindR (jnone ''detail'' data) (\<lambda>d.
     if jtruthy d then bindR (json_str d) (\<lambda>m. Inr (no_invoice m))
     else bindR (jindex ''checking_id'' data) (\<lambda>c.
          bindR (jnone ''bolt11'' data) (\<lambda>b.
          bindR (if jtruthy b then Inr b else jnone ''payment_request'' data) (\<lambda>p.
          bindR (jopt_text c) (\<lambda>c. bindR (jopt_text p) (\<lambda>p. Inr (invoice_made c p)))))))"

definition lnbits_create_invoice ::
  "'s ln_env \<Rightarrow> string \<Rightarrow> amount \<Rightarrow> string option \<Rightarrow> string option \<Rightarrow> string option \<Rightarrow> ('s, invoice_response) ln" where
  "lnbits_create_invoice N endpoint a memo description_hash unhashed =
     thenS (liftS (\<lambda>_. assert_unit_supported lnbits_units (a_unit a)))
    (bindS (liftS (\<lambda>_. amount_to a sat round_none)) (\<lambda>n.
     http_json N \<lparr>hr_method = ''POST'', hr_url = endpoint @ ''/api/v1/payments'',
                  hr_body = lnbits_invoice_body (a_amount n) memo description_hash unhashed\<rparr>
       (\<lambda>r. returnS (no_invoice (''HTTP status: '' @ rs_reason r)))
       (\<lambda>e. returnS (no_invoice (error_detail e)))
       (\<lambda>data. liftS (\<lambda>_. lnbits_invoice_of data))))"

text \<open>What both status requests make of a payment.\<close>

definition lnbits_result :: "json \<Rightarrow> error + payment_result" where
  "lnbits_result data =
     bindR (bindR (jdict ''details'' data) (jnone ''status'')) (\<lambda>status.
     bindR (jnone ''paid'' data) (\<lambda>paid.
     if jtruthy paid then Inr PR_settled
     else if status = JStr ''pending'' then Inr PR_pending
     else bindR (bindR (jdict ''details'' data) (jnone ''pending'')) (\<lambda>pending.
          Inr (if jtruthy pending then PR_pending else if status = JStr ''failed'' then PR_failed else PR_unknown))))"

definition lnbits_fee :: "json \<Rightarrow> error + amount" where
  "lnbits_fee data = bindR (bindR (jpath [''details'', ''fee''] data) jint) (\<lambda>n. Inr (Amount msat \<bar>n\<bar>))"

definition lnbits_invoice_status_of :: "json \<Rightarrow> error + payment_status" where
  "lnbits_invoice_status_of data =
     bindR (jnone ''detail'' data) (\<lambda>d.
     if jtruthy d then bindR (json_str d) (\<lambda>m. Inr (no_status PR_unknown (Some m)))
     else bindR (lnbits_result data) (\<lambda>r. bindR (lnbits_fee data) (\<lambda>fee.
          bindR (bindR (jindex ''preimage'' data) jopt_text) (\<lambda>pre.
          Inr \<lparr>st_result = r, st_fee = Some fee, st_preimage = pre, st_error_message = None\<rparr>))))"

definition lnbits_get_invoice_status :: "'s ln_env \<Rightarrow> string \<Rightarrow> string \<Rightarrow> ('s, payment_status) ln" where
  "lnbits_get_invoice_status N endpoint checking_id =
     http_try N \<lparr>hr_method = ''GET'', hr_url = endpoint @ ''/api/v1/payments/'' @ checking_id, hr_body = JNull\<rparr>
       (\<lambda>e. returnS (no_status PR_unknown (Some (error_detail e))))
       (\<lambda>data. liftS (\<lambda>_. lnbits_invoice_status_of data))"

definition lnbits_payment_status_of :: "json \<Rightarrow> error + payment_status" where
  "lnbits_payment_status_of data =
     bindR (jin ''paid'' data) (\<lambda>p. bindR (if p then Inr True else jin ''details'' data) (\<lambda>valid.
     if \<not> valid then Inr (no_status PR_unknown (Some ''invalid response''))
     else bindR (lnbits_result data) (\<lambda>r. bindR (lnbits_fee data) (\<lambda>fee.
          bindR (bindR (jnone ''preimage'' data) jopt_text) (\<lambda>pre.
          Inr \<lparr>st_result = r, st_fee = Some fee, st_preimage = pre, st_error_message = None\<rparr>)))))"

definition lnbits_get_payment_status :: "'s ln_env \<Rightarrow> string \<Rightarrow> string \<Rightarrow> ('s, payment_status) ln" where
  "lnbits_get_payment_status N endpoint checking_id =
     http_json N \<lparr>hr_method = ''GET'', hr_url = endpoint @ ''/api/v1/payments/'' @ checking_id, hr_body = JNull\<rparr>
       (\<lambda>r. if rs_status r \<noteq> 404 then raiseS (status_error r) else returnS (no_status PR_unknown (Some (rs_text r))))
       (\<lambda>e. returnS (no_status PR_unknown (Some (error_detail e))))
       (\<lambda>data. liftS (\<lambda>_. lnbits_payment_status_of data))"

definition lnbits_pay_invoice :: "'s ln_env \<Rightarrow> string \<Rightarrow> melt_quote \<Rightarrow> int \<Rightarrow> ('s, payment_response) ln" where
  "lnbits_pay_invoice N endpoint q fee_limit_msat =
     http_json N \<lparr>hr_method = ''POST'', hr_url = endpoint @ ''/api/v1/payments'',
                  hr_body = JObj [(''out'', JBool True), (''bolt11'', JStr (lq_request q))]\<rparr>
       (\<lambda>r. returnS (no_payment PR_failed (Some (''HTTP status: '' @ rs_reason r))))
       (\<lambda>e. returnS (no_payment PR_failed (Some (error_detail e))))
       (\<lambda>data.
          bindS (liftS (\<lambda>_. jnone ''detail'' data)) (\<lambda>d.
          if jtruthy d then bindS (liftS (\<lambda>_. json_str d)) (\<lambda>m. returnS (no_payment PR_failed (Some m)))
          else bindS (liftS (\<lambda>_. jnone ''payment_hash'' data)) (\<lambda>c.
          if \<not> jtruthy c then returnS (no_payment PR_unknown (Some ''No payment_hash received''))
          else bindS (lnbits_get_payment_status N endpoint (py_str c)) (\<lambda>payment.
               bindS (liftS (\<lambda>_. json_str c)) (\<lambda>checking_id.
               returnS \<lparr>py_result = st_result payment, py_checking_id = Some checking_id, py_fee = st_fee payment,
                        py_preimage = st_preimage payment, py_error_message = None\<rparr>)))))"

definition lnbits_get_payment_quote :: "'s ln_env \<Rightarrow> unit_t \<Rightarrow> melt_quote_request \<Rightarrow> error + payment_quote" where
  "lnbits_get_payment_quote N u r = quote_of_invoice N u r"

section \<open>The stream of paid invoices\<close>

text \<open>
  The lines of \<^verbatim>\<open>/api/v1/payments/sse\<close>: a line of data counts right after the line that announces it. The answer holds the payment
  hashes, whether the new interface was detected, and the exception that ended the reading, if one did.
\<close>

definition sse_hash :: "string \<Rightarrow> error + json" where
  "sse_hash line = bindR (json_loads (drop 5 line)) (jindex ''payment_hash'')"

fun sse_lines :: "string list \<Rightarrow> bool \<Rightarrow> bool \<Rightarrow> json list \<times> bool \<times> error option" where
  "sse_lines [] trigger old = ([], old, None)"
| "sse_lines (l # ls) trigger old =
     (let old' = (old \<and> \<not> occurs_in ''Payment does not exist.'' l)
      in if starts ''event: payment-received'' l then sse_lines ls True old'
         else if trigger \<and> starts ''data:'' l then
           (case sse_hash l of
              Inl e \<Rightarrow> ([], old', Some e)
            | Inr h \<Rightarrow> (let (hs, r) = sse_lines ls False old' in (h # hs, r)))
         else sse_lines ls False old')"

text \<open>A message of the websocket of the new interface: \<open>JNull\<close> when it yields nothing.\<close>

definition ws_payment :: "string \<Rightarrow> error + json" where
  "ws_payment message =
     bindR (json_loads message) (\<lambda>d.
     if \<not> jtruthy d then Inr JNull
     else bindR (jnone ''payment'' d) (\<lambda>p.
     if \<not> jtruthy p then Inr JNull
     else bindR (jnone ''payment_hash'' p) (\<lambda>h.
     if \<not> jtruthy h then Inr JNull
     else bindR (bindR (jnone ''amount'' p) jint) (\<lambda>n. Inr (if n > 0 then h else JNull)))))"

end
