(* ===== verification/Lnd.thy ===== *)
theory Lnd
  imports Backends
begin

text \<open>
  \<^verbatim>\<open>LndRestWallet\<close> of \<^verbatim>\<open>cashu/lightning/lndrest.py\<close>, a backend over the REST interface of LND, with partial payments. The lines of a streamed
  answer are those that arrive before the service closes it (\<open>ln_stream\<close>).
\<close>

section \<open>The result maps\<close>

definition lnd_payment_results :: "(string \<times> payment_result) list" where
  "lnd_payment_results = [(''UNKNOWN'', PR_unknown), (''IN_FLIGHT'', PR_pending), (''INITIATED'', PR_pending),
     (''SUCCEEDED'', PR_settled), (''FAILED'', PR_failed)]"

definition lnd_invoice_results :: "(string \<times> payment_result) list" where
  "lnd_invoice_results = [(''OPEN'', PR_pending), (''SETTLED'', PR_settled), (''CANCELED'', PR_failed), (''ACCEPTED'', PR_pending)]"

text \<open>\<^verbatim>\<open>MAP[j]\<close> and \<^verbatim>\<open>MAP.get(j, UNKNOWN)\<close>.\<close>

definition hashable :: "json \<Rightarrow> error + unit" where
  "hashable j = (case j of JList _ \<Rightarrow> Inl type_error | JObj _ \<Rightarrow> Inl type_error | _ \<Rightarrow> Inr ())"

definition lookup_result :: "(string \<times> payment_result) list \<Rightarrow> json \<Rightarrow> payment_result option" where
  "lookup_result m j = (case j of JStr s \<Rightarrow> map_of m s | _ \<Rightarrow> None)"

definition map_item :: "(string \<times> payment_result) list \<Rightarrow> json \<Rightarrow> error + payment_result" where
  "map_item m j = bindR (hashable j) (\<lambda>_. ofOption (KeyError (py_str j)) (lookup_result m j))"

definition map_get :: "(string \<times> payment_result) list \<Rightarrow> json \<Rightarrow> error + payment_result" where
  "map_get m j = bindR (hashable j) (\<lambda>_. Inr (case lookup_result m j of None \<Rightarrow> PR_unknown | Some r \<Rightarrow> r))"

text \<open>\<^verbatim>\<open>base64.b64decode(j).hex()\<close>.\<close>

definition unbase64 :: "json \<Rightarrow> error + string" where
  "unbase64 j = (case j of
     JStr s \<Rightarrow> bindR (ofOption (ValueError ''Incorrect padding'') (b64_decode s)) (\<lambda>b. Inr (to_hex b))
   | _ \<Rightarrow> Inl type_error)"

section \<open>The client\<close>

definition lnd_units :: "unit_t set" where
  "lnd_units = {sat, msat}"

text \<open>The endpoint that \<^verbatim>\<open>__init__\<close> settles on.\<close>

definition lnd_endpoint :: "string \<Rightarrow> error + string" where
  "lnd_endpoint endpoint =
     (if endpoint = [] then Inl (PyException ''cannot initialize LndRestWallet: no endpoint'')
      else let e = (if last endpoint = CHR ''/'' then butlast endpoint else endpoint)
           in Inr (if starts ''http'' e then e else ''https://'' @ e))"

text \<open>\<^verbatim>\<open>status\<close>: an answer that is no success raises, as only failures of the connection are caught there.\<close>

definition lnd_status :: "'s ln_env \<Rightarrow> string \<Rightarrow> unit_t \<Rightarrow> ('s, status_response) ln" where
  "lnd_status N endpoint u s =
     (case ln_http N \<lparr>hr_method = ''GET'', hr_url = ''/v1/balance/channels'', hr_body = JNull\<rparr> s of
        (Inl e, t) \<Rightarrow> (Inr (no_balance u (''Unable to connect to '' @ endpoint @ ''. '' @ error_detail e)), t)
      | (Inr r, t) \<Rightarrow>
          (bindR (raise_for_status r) (\<lambda>_.
             case rs_json r of
               Inl e \<Rightarrow> Inr (no_balance u (take 200 (rs_text r)))
             | Inr data \<Rightarrow>
                 bindR (bindR (jindex ''balance'' data) jint_of) (\<lambda>n. Inr \<lparr>sr_balance = Amount u n, sr_error = None\<rparr>)), t))"

definition lnd_invoice_body :: "'s ln_env \<Rightarrow> (string \<Rightarrow> string) \<Rightarrow> int \<Rightarrow> string option \<Rightarrow> string option \<Rightarrow> string option \<Rightarrow> int option \<Rightarrow> json" where
  "lnd_invoice_body N sha n memo description_hash unhashed expiry =
     JObj ([(''value'', JInt n), (''private'', JBool True), (''memo'', JStr (if truthy_str memo then the memo else []))] @
       (if truthy_int expiry then [(''expiry'', JInt (the expiry))] else []) @
       (if truthy_str description_hash then [(''description_hash'', JStr (b64_encode False (the description_hash)))]
        else if truthy_str unhashed then [(''description_hash'', JStr (b64_encode False (sha (the unhashed))))] else []))"

definition lnd_invoice_of :: "http_response \<Rightarrow> error + invoice_response" where
  "lnd_invoice_of r =
     (if is_error r then
        bindR (json_str (case bindR (rs_json r) (jindex ''error'') of Inl _ \<Rightarrow> JStr (rs_text r) | Inr e \<Rightarrow> e)) (\<lambda>m. Inr (no_invoice m))
      else bindR (rs_json r) (\<lambda>data.
           bindR (jindex ''payment_request'' data) (\<lambda>p.
           bindR (bindR (jindex ''r_hash'' data) unbase64) (\<lambda>h.
           bindR (jopt_text p) (\<lambda>p. Inr (invoice_made (Some h) p))))))"

definition lnd_create_invoice ::
  "'s ln_env \<Rightarrow> (string \<Rightarrow> string) \<Rightarrow> amount \<Rightarrow> string option \<Rightarrow> string option \<Rightarrow> string option \<Rightarrow> int option \<Rightarrow> ('s, invoice_response) ln" where
  "lnd_create_invoice N sha a memo description_hash unhashed expiry =
     thenS (liftS (\<lambda>_. assert_unit_supported lnd_units (a_unit a)))
    (bindS (liftS (\<lambda>_. amount_to a sat round_none)) (\<lambda>n.
     bindS (\<lambda>s. case ln_http N \<lparr>hr_method = ''POST'', hr_url = ''/v1/invoices'',
                    hr_body = lnd_invoice_body N sha (a_amount n) memo description_hash unhashed expiry\<rparr> s of
                  (Inl e, t) \<Rightarrow> (Inl (PyException (''failed to create invoice: '' @ error_detail e)), t) | x \<Rightarrow> x) (\<lambda>r.
     liftS (\<lambda>_. lnd_invoice_of r))))"

section \<open>Payments\<close>

definition fee_limit_json :: "int \<Rightarrow> json" where
  "fee_limit_json limit = JObj [(''fixed_msat'', JStr (str_int limit))]"

definition lnd_fee :: "int \<Rightarrow> amount option" where
  "lnd_fee n = (if n = 0 then None else Some (Amount msat n))"

definition lnd_paid_of :: "http_response \<Rightarrow> error + payment_response" where
  "lnd_paid_of r =
     bindR (if is_error r then Inr True else bindR (bindR (rs_json r) (jnone ''payment_error'')) (\<lambda>e. Inr (jtruthy e))) (\<lambda>failed.
     bindR (rs_json r) (\<lambda>data.
     if failed then
       bindR (jnone ''payment_error'' data) (\<lambda>e. bindR (if jtruthy e then json_str e else Inr (rs_text r)) (\<lambda>m. Inr (no_payment PR_failed (Some m))))
     else
       bindR (bindR (jindex ''payment_hash'' data) unbase64) (\<lambda>c.
       bindR (bindR (jpath [''payment_route'', ''total_fees_msat''] data) jint_of) (\<lambda>fee.
       bindR (bindR (jindex ''payment_preimage'' data) unbase64) (\<lambda>pre.
       Inr \<lparr>py_result = PR_settled, py_checking_id = Some c, py_fee = lnd_fee fee, py_preimage = Some pre, py_error_message = None\<rparr>)))))"

text \<open>The first route with the record of a multi-path payment in its last hop.\<close>

definition mpp_route :: "json \<Rightarrow> json \<Rightarrow> error + json" where
  "mpp_route mpp_record route_data =
     bindR (bindR (jindex ''routes'' route_data) (jat 0)) (\<lambda>route.
     bindR (jindex ''hops'' route) (\<lambda>hops.
     bindR (jat (-1) hops) (\<lambda>hop.
     case (route, hops, hop) of
       (JObj r, JList hs, JObj h) \<Rightarrow>
         Inr (JObj (AList.update ''hops'' (JList (butlast hs @ [JObj (AList.update ''mpp_record'' mpp_record h)])) r))
     | _ \<Rightarrow> Inl (PyException ''AttributeError''))))"

text \<open>Both ends of the channel that failed: they are only logged, but they are looked up.\<close>

definition failed_channel :: "json \<Rightarrow> json \<Rightarrow> error + unit" where
  "failed_channel route response_data =
     bindR (bindR (jpath [''failure'', ''failure_source_index''] response_data) jint) (\<lambda>i.
     bindR (jindex ''hops'' route) (\<lambda>hops.
     bindR (bindR (jat (i - 1) hops) (jindex ''pub_key'')) (\<lambda>_.
     bindR (bindR (jat i hops) (jindex ''pub_key'')) (\<lambda>_. Inr ()))))"

text \<open>Whether to try again: the payment failed for a temporary failure of a channel.\<close>

definition try_again :: "json \<Rightarrow> json \<Rightarrow> error + bool" where
  "try_again route response_data =
     bindR (jnone ''status'' response_data) (\<lambda>st.
     if st \<noteq> JStr ''FAILED'' then Inr False
     else bindR (jpath [''failure'', ''code''] response_data) (\<lambda>code.
          if code \<noteq> JStr ''TEMPORARY_CHANNEL_FAILURE'' then Inr False
          else bindR (failed_channel route response_data) (\<lambda>_. Inr True)))"

definition bytes_of_hex :: "string \<Rightarrow> error + string" where
  "bytes_of_hex h = ofOption (ValueError ''non-hexadecimal number found in fromhex() arg'') (from_hex h)"

text \<open>What is sent along a route: \<open>payer_addr\<close> and \<open>payment_hash\<close> are those of the invoice, in hexadecimal.\<close>

definition mpp_record_of :: "string \<Rightarrow> int \<Rightarrow> error + json" where
  "mpp_record_of payer_addr amt =
     bindR (bytes_of_hex payer_addr) (\<lambda>b. Inr (JObj [(''payment_addr'', JStr (b64_encode False b)), (''total_amt_msat'', JInt amt)]))"

definition send_body :: "string \<Rightarrow> json \<Rightarrow> error + json" where
  "send_body payment_hash route =
     bindR (bytes_of_hex payment_hash) (\<lambda>b. Inr (JObj [(''payment_hash'', JStr (b64_encode False b)), (''route'', route)]))"

text \<open>
  The loop over at most \<^verbatim>\<open>MAX_ROUTE_RETRIES\<close> routes: \<open>Inl\<close> is an early return, \<open>Inr\<close> the last response and the number of attempts.
\<close>

primrec lnd_tries ::
  "'s ln_env \<Rightarrow> http_request \<Rightarrow> string \<Rightarrow> int \<Rightarrow> string \<Rightarrow> nat \<Rightarrow> int \<Rightarrow> http_response option \<Rightarrow> ('s, payment_response + http_response option \<times> int) ln" where
  "lnd_tries N ask payer_addr amt payment_hash 0 k response = returnS (Inr (response, k))"
| "lnd_tries N ask payer_addr amt payment_hash (Suc n) k response =
     bindS (ln_http N ask) (\<lambda>route.
     bindS (liftS (\<lambda>_. rs_json route)) (\<lambda>route_data.
     bindS (liftS (\<lambda>_. jnone ''message'' route_data)) (\<lambda>message.
     if is_error route \<or> jtruthy message then
       liftS (\<lambda>_. bindR (if jtruthy message then json_str message else Inr (rs_text route)) (\<lambda>m. Inr (Inl (no_payment PR_failed (Some m)))))
     else bindS (liftS (\<lambda>_. mpp_record_of payer_addr amt)) (\<lambda>record.
          bindS (liftS (\<lambda>_. mpp_route record route_data)) (\<lambda>r.
          bindS (liftS (\<lambda>_. send_body payment_hash r)) (\<lambda>body.
          bindS (ln_http N \<lparr>hr_method = ''POST'', hr_url = ''/v2/router/route/send'', hr_body = body\<rparr>) (\<lambda>resp.
          bindS (liftS (\<lambda>_. bindR (rs_json resp) (try_again r))) (\<lambda>again.
          if again then lnd_tries N ask payer_addr amt payment_hash n (k + 1) (Some resp) else returnS (Inr (Some resp, k + 1))))))))))"

definition lnd_partial_of :: "string \<Rightarrow> int \<Rightarrow> http_response \<Rightarrow> error + payment_response" where
  "lnd_partial_of payment_hash attempts r =
     bindR (rs_json r) (\<lambda>data.
     bindR (if is_error r then Inr True
            else bindR (jnone ''message'' data) (\<lambda>m. if jtruthy m then Inr True
                 else bindR (jnone ''status'' data) (\<lambda>st. Inr (st = JStr ''FAILED'')))) (\<lambda>failed.
     if failed then
       bindR (bindR (jnone ''failure'' data) (jnone ''code'')) (\<lambda>code.
       Inr (no_payment PR_failed (Some (''Sending to route failed with code '' @ py_str code @ '' after '' @ str_int attempts @ '' tries.''))))
     else
       bindR (bindR (jnone ''status'' data) (map_get lnd_payment_results)) (\<lambda>result.
       bindR (jnone ''route'' data) (\<lambda>route.
       bindR (if jtruthy route then bindR (jpath [''route'', ''total_fees_msat''] data) jint_of else Inr 0) (\<lambda>fee.
       bindR (jnone ''preimage'' data) (\<lambda>pre.
       bindR (if jtruthy pre then bindR (unbase64 pre) (\<lambda>h. Inr (Some h)) else Inr None) (\<lambda>preimage.
       Inr \<lparr>py_result = result, py_checking_id = Some payment_hash, py_fee = lnd_fee fee, py_preimage = preimage, py_error_message = None\<rparr>)))))))"

definition max_route_retries :: nat where
  "max_route_retries = 50"

definition pay_partial_invoice :: "'s ln_env \<Rightarrow> melt_quote \<Rightarrow> amount \<Rightarrow> int \<Rightarrow> ('s, payment_response) ln" where
  "pay_partial_invoice N q a limit =
     bindS (liftS (\<lambda>_. bolt11_of N (lq_request q))) (\<lambda>i.
     bindS (liftS (\<lambda>_. invoice_msat i)) (\<lambda>total.
     bindS (liftS (\<lambda>_. ofOption (AssertionError []) (li_payee i))) (\<lambda>pubkey.
     bindS (liftS (\<lambda>_. ofOption (AssertionError []) (li_secret i))) (\<lambda>payer_addr.
     bindS (liftS (\<lambda>_. amount_to a sat round_none)) (\<lambda>sats.
     bindS (lnd_tries N \<lparr>hr_method = ''POST'', hr_url = ''/v1/graph/routes/'' @ pubkey @ ''/'' @ str_int (a_amount sats),
                hr_body = JObj [(''fee_limit'', fee_limit_json limit), (''use_mission_control'', JBool True)]\<rparr>
              payer_addr total (li_payment_hash i) max_route_retries 0 None) (\<lambda>x.
     case x of
       Inl early \<Rightarrow> returnS early
     | Inr (response, attempts) \<Rightarrow> liftS (\<lambda>_. bindR (ofOption (AssertionError []) response) (lnd_partial_of (li_payment_hash i) attempts))))))))"

definition lnd_pay_invoice :: "'s ln_env \<Rightarrow> bool \<Rightarrow> melt_quote \<Rightarrow> int \<Rightarrow> ('s, payment_response) ln" where
  "lnd_pay_invoice N mpp q limit =
     bindS (liftS (\<lambda>_. bolt11_of N (lq_request q))) (\<lambda>i.
     if truthy_int (li_amount_msat i) \<and> li_amount_msat i \<noteq> Some (lq_amount q * 1000) \<and> mpp
     then pay_partial_invoice N q (Amount sat (lq_amount q)) limit
     else bindS (ln_http N \<lparr>hr_method = ''POST'', hr_url = ''/v1/channels/transactions'',
              hr_body = JObj [(''payment_request'', JStr (lq_request q)), (''fee_limit'', fee_limit_json limit)]\<rparr>) (\<lambda>r.
          liftS (\<lambda>_. lnd_paid_of r)))"

section \<open>Status\<close>

definition lnd_invoice_status_of :: "http_response \<Rightarrow> error + payment_status" where
  "lnd_invoice_status_of r =
     (if is_error r then Inr (no_status PR_unknown (Some (rs_text r)))
      else case rs_json r of
        Inl e \<Rightarrow> Inr (no_status PR_unknown (Some (error_detail e)))
      | Inr data \<Rightarrow>
          bindR (if jtruthy data then jnone ''state'' data else Inr JNull) (\<lambda>st.
          if \<not> jtruthy st then Inr (no_status PR_unknown (Some ''no invoice state''))
          else bindR (map_item lnd_invoice_results st) (\<lambda>x. Inr (no_status x None))))"

definition lnd_get_invoice_status :: "'s ln_env \<Rightarrow> string \<Rightarrow> ('s, payment_status) ln" where
  "lnd_get_invoice_status N checking_id =
     bindS (ln_http N \<lparr>hr_method = ''GET'', hr_url = ''/v1/invoice/'' @ checking_id, hr_body = JNull\<rparr>) (\<lambda>r.
     liftS (\<lambda>_. lnd_invoice_status_of r))"

text \<open>
  One line of the tracked payment; an exception means that the next line is read. The fee is the JSON value that LND wrote, which the
  code puts into an amount as it is: the third component, in millisatoshi.
\<close>

type_synonym tracked = "payment_result \<times> string option \<times> json option \<times> string option"

definition tracked_unknown :: "string \<Rightarrow> tracked" where
  "tracked_unknown m = (PR_unknown, Some m, None, None)"

definition tracked_line :: "string \<Rightarrow> error + tracked" where
  "tracked_line json_line =
     bindR (json_loads json_line) (\<lambda>line.
     bindR (jnone ''error'' line) (\<lambda>e.
     if jtruthy e then
       bindR (bindR (jin ''message'' e) (\<lambda>b. if b then jindex ''message'' e else Inr e)) (\<lambda>m. bindR (json_str m) (\<lambda>m. Inr (tracked_unknown m)))
     else bindR (jnone ''result'' line) (\<lambda>payment.
       bindR (if payment = JNull then Inr JNull else jnone ''status'' payment) (\<lambda>st.
       if \<not> jtruthy st then Inr (tracked_unknown ''no payment status'')
       else bindR (jnone ''payment_preimage'' payment) (\<lambda>pre.
            bindR (map_item lnd_payment_results st) (\<lambda>result.
            bindR (jnone ''fee_msat'' payment) (\<lambda>fee.
            bindR (if pre = JStr (replicate 64 (CHR ''0'')) then Inr None else jopt_text pre) (\<lambda>preimage.
            Inr (result, None, if jtruthy fee then Some fee else None, preimage)))))))))"

primrec tracked_lines :: "string list \<Rightarrow> tracked" where
  "tracked_lines [] = tracked_unknown ''timeout''"
| "tracked_lines (l # ls) = (case tracked_line l of Inr x \<Rightarrow> x | Inl _ \<Rightarrow> tracked_lines ls)"

definition lnd_get_payment_status :: "'s ln_env \<Rightarrow> string \<Rightarrow> ('s, tracked) ln" where
  "lnd_get_payment_status N checking_id =
     bindS (liftS (\<lambda>_. bytes_of_hex checking_id)) (\<lambda>b.
     bindS (ln_stream N \<lparr>hr_method = ''GET'', hr_url = ''/v2/router/track/'' @ b64_encode True b, hr_body = JNull\<rparr>) (\<lambda>ls.
     returnS (tracked_lines ls)))"

definition lnd_get_payment_quote :: "'s ln_env \<Rightarrow> unit_t \<Rightarrow> melt_quote_request \<Rightarrow> error + payment_quote" where
  "lnd_get_payment_quote N u r =
     bindR (if is_mpp r then bindR (mpp_amount r) (\<lambda>n. Inr (Some n)) else Inr None) (\<lambda>part.
     bindR (bolt11_of N (lr_request r)) (\<lambda>i.
     bindR (invoice_msat i) (\<lambda>n.
     quote_of_msat N u i (case part of None \<Rightarrow> n | Some p \<Rightarrow> p))))"

text \<open>One line of the stream of invoices: the payment hash of a settled one. A line that can not be read is skipped.\<close>

definition lnd_invoice_line :: "string \<Rightarrow> error + string option" where
  "lnd_invoice_line line =
     (case bindR (bindR (json_loads line) (jindex ''result'')) (\<lambda>i. bindR (jindex ''settled'' i) (\<lambda>b. Inr (jtruthy b, i))) of
        Inl _ \<Rightarrow> Inr None
      | Inr (settled, i) \<Rightarrow>
          if \<not> settled then Inr None else bindR (bindR (jindex ''r_hash'' i) unbase64) (\<lambda>h. Inr (Some h)))"

end
