(* ===== verification/Blink.thy ===== *)
theory Blink
  imports Backends
begin

text \<open>
  \<^verbatim>\<open>BlinkWallet\<close> of \<^verbatim>\<open>cashu/lightning/blink.py\<close>. The state holds the identifiers of the account's wallets, as \<^verbatim>\<open>status\<close> has found them, with the
  state of the service. A GraphQL request is the name of its operation and its variables: the text of a query is fixed by its name.
\<close>

type_synonym 's blink_state = "(unit_t \<times> json) list \<times> 's"

definition blink_units :: "unit_t set" where
  "blink_units = {sat, msat, usd}"

definition graphql :: "string \<Rightarrow> json \<Rightarrow> http_request" where
  "graphql operation variables = \<lparr>hr_method = ''POST'', hr_url = ''https://api.blink.sv/graphql'',
     hr_body = JObj [(''query'', JStr operation), (''variables'', variables)]\<rparr>"

definition blink_ask :: "'s ln_env \<Rightarrow> http_request \<Rightarrow> ('s blink_state, http_response) ln" where
  "blink_ask N q = (\<lambda>(ids, s). let (r, t) = ln_http N q s in (r, (ids, t)))"

text \<open>A request, \<^verbatim>\<open>raise_for_status\<close>, and \<^verbatim>\<open>except Exception\<close> around both.\<close>

definition blink_try ::
  "'s ln_env \<Rightarrow> http_request \<Rightarrow> (error \<Rightarrow> ('s blink_state, 'a) ln) \<Rightarrow> (http_response \<Rightarrow> ('s blink_state, 'a) ln) \<Rightarrow> ('s blink_state, 'a) ln" where
  "blink_try N q failed k s =
     (case blink_ask N q s of
        (Inl e, t) \<Rightarrow> failed e t
      | (Inr r, t) \<Rightarrow> if is_success r then k r t else failed (status_error r) t)"

definition unsupported_unit :: "unit_t \<Rightarrow> error" where
  "unsupported_unit u = PyException (''Unsupported unit: '' @ unit_name u)"

definition fee_unit :: "unit_t \<Rightarrow> error + unit_t" where
  "fee_unit u = (if u = sat \<or> u = msat then Inr sat else if u = usd then Inr usd else Inl (unsupported_unit u))"

text \<open>\<^verbatim>\<open>self.wallet_ids[unit]\<close>, for the wallet that a unit belongs to.\<close>

definition wallet_id :: "unit_t \<Rightarrow> 's blink_state \<Rightarrow> error + json" where
  "wallet_id u s = bindR (fee_unit u) (\<lambda>w. ofOption (KeyError (unit_name w)) (map_of (fst s) w))"

section \<open>Status\<close>

fun wallet_entries :: "unit_t \<Rightarrow> json list \<Rightarrow> json \<Rightarrow> ('s blink_state, json) ln" where
  "wallet_entries u [] balance = returnS balance"
| "wallet_entries u (w # ws) balance =
     bindS (liftS (\<lambda>_. jnone ''walletCurrency'' w)) (\<lambda>c.
     if c = JStr ''USD'' then
       bindS (liftS (\<lambda>_. jindex ''id'' w)) (\<lambda>i.
       thenS (modifyS (\<lambda>(ids, s). (AList.update usd i ids, s)))
      (bindS (liftS (\<lambda>_. if u = usd then jindex ''balance'' w else Inr balance)) (\<lambda>b. wallet_entries u ws b)))
     else if c = JStr ''BTC'' then
       bindS (liftS (\<lambda>_. jindex ''id'' w)) (\<lambda>i.
       thenS (modifyS (\<lambda>(ids, s). (AList.update sat i ids, s)))
      (bindS (liftS (\<lambda>_. if u = sat \<or> u = msat then jindex ''balance'' w else Inr balance)) (\<lambda>b. wallet_entries u ws b)))
     else wallet_entries u ws balance)"

definition blink_status :: "'s ln_env \<Rightarrow> unit_t \<Rightarrow> ('s blink_state, status_response) ln" where
  "blink_status N u =
     blink_try N (graphql ''me'' (JObj []))
       (\<lambda>e. returnS (no_balance u (''Failed to connect to https://api.blink.sv/graphql due to: '' @ error_detail e)))
       (\<lambda>r. case rs_json r of
          Inl _ \<Rightarrow> returnS (no_balance u (''Received invalid response from https://api.blink.sv/graphql: '' @ rs_text r))
        | Inr resp \<Rightarrow>
            bindS (liftS (\<lambda>_. bindR (bindR (jdicts [''data'', ''me'', ''defaultAccount''] resp) (jnone ''wallets'')) jiter)) (\<lambda>ws.
            bindS (wallet_entries u ws (JInt 0)) (\<lambda>b.
            bindS (liftS (\<lambda>_. jint b)) (\<lambda>n. returnS \<lparr>sr_balance = Amount u n, sr_error = None\<rparr>))))"

section \<open>Invoices\<close>

definition invoice_variables :: "int \<Rightarrow> json \<Rightarrow> string option \<Rightarrow> string option \<Rightarrow> json" where
  "invoice_variables n i description_hash memo =
     JObj [(''input'', JObj ([(''amount'', JStr (str_int n)), (''recipientWalletId'', i)] @
       (if truthy_str description_hash then [(''descriptionHash'', JStr (to_hex (the description_hash)))] else []) @
       (if truthy_str memo then [(''memo'', JStr (the memo))] else [])))]"

definition blink_invoice_of :: "string \<Rightarrow> http_response \<Rightarrow> error + invoice_response" where
  "blink_invoice_of key r =
     bindR (rs_json r) (\<lambda>resp.
     bindR (checkR (jtruthy resp) (AssertionError ''invalid response'')) (\<lambda>_.
     bindR (bindR (jdicts [''data'', key, ''invoice''] resp) (jnone ''paymentRequest'')) (\<lambda>p.
     bindR (checkR (jtruthy p) (AssertionError ''payment request not found'')) (\<lambda>_.
     bindR (json_str p) (\<lambda>p. Inr (invoice_made (Some p) (Some p)))))))"

definition blink_create_invoice ::
  "'s ln_env \<Rightarrow> unit_t \<Rightarrow> amount \<Rightarrow> string option \<Rightarrow> string option \<Rightarrow> ('s blink_state, invoice_response) ln" where
  "blink_create_invoice N u a memo description_hash =
     thenS (liftS (\<lambda>_. assert_unit_supported blink_units (a_unit a)))
    (bindS (liftS (\<lambda>_. fee_unit u)) (\<lambda>w.
     bindS (liftS (\<lambda>_. amount_to a w round_none)) (\<lambda>n.
     bindS (liftS (wallet_id u)) (\<lambda>i.
     let key = (if w = usd then ''lnUsdInvoiceCreateOnBehalfOfRecipient'' else ''lnInvoiceCreateOnBehalfOfRecipient'')
     in blink_try N (graphql key (invoice_variables (a_amount n) i description_hash memo))
          (\<lambda>e. returnS (no_invoice (error_detail e)))
          (\<lambda>r. liftS (\<lambda>_. blink_invoice_of key r))))))"

definition blink_invoice_result :: "json \<Rightarrow> error + payment_result" where
  "blink_invoice_result j = (case j of
     JStr s \<Rightarrow> ofOption (KeyError s) (map_of [(''PENDING'', PR_pending), (''PAID'', PR_settled), (''EXPIRED'', PR_failed)] s)
   | JList _ \<Rightarrow> Inl type_error | JObj _ \<Rightarrow> Inl type_error | _ \<Rightarrow> Inl (KeyError (py_str j)))"

text \<open>The errors of an answer are a list, which is no error message of a \<^verbatim>\<open>PaymentStatus\<close>.\<close>

definition blink_invoice_status_of :: "http_response \<Rightarrow> error + payment_status" where
  "blink_invoice_status_of r =
     bindR (rs_json r) (\<lambda>resp.
     bindR (jdicts [''data'', ''lnInvoicePaymentStatus''] resp) (\<lambda>d.
     bindR (jnone ''errors'' d) (\<lambda>e.
     if jtruthy e then bindR (json_str e) (\<lambda>m. Inr (no_status PR_unknown (Some m)))
     else bindR (bindR (jnone ''status'' d) blink_invoice_result) (\<lambda>x. Inr (no_status x None)))))"

definition blink_get_invoice_status :: "'s ln_env \<Rightarrow> string \<Rightarrow> ('s blink_state, payment_status) ln" where
  "blink_get_invoice_status N checking_id =
     blink_try N (graphql ''lnInvoicePaymentStatus'' (JObj [(''input'', JObj [(''paymentRequest'', JStr checking_id)])]))
       (\<lambda>e. returnS (no_status PR_unknown (Some (error_detail e))))
       (\<lambda>r. liftS (\<lambda>_. blink_invoice_status_of r))"

section \<open>Payments\<close>

definition blink_payment_result :: "json \<Rightarrow> error + payment_result" where
  "blink_payment_result j = (case j of
     JStr s \<Rightarrow> ofOption (KeyError s) (map_of [(''SUCCESS'', PR_settled), (''PENDING'', PR_pending), (''FAILURE'', PR_failed)] s)
   | JList _ \<Rightarrow> Inl type_error | JObj _ \<Rightarrow> Inl type_error | _ \<Rightarrow> Inl (KeyError (py_str j)))"

definition blink_execution_result :: "json \<Rightarrow> error + payment_result" where
  "blink_execution_result j = (case j of
     JStr s \<Rightarrow> ofOption (KeyError s) (map_of [(''SUCCESS'', PR_settled), (''ALREADY_PAID'', PR_failed), (''FAILURE'', PR_failed)] s)
   | JList _ \<Rightarrow> Inl type_error | JObj _ \<Rightarrow> Inl type_error | _ \<Rightarrow> Inl (KeyError (py_str j)))"

text \<open>\<^verbatim>\<open>all(p["direction"] in [SEND, RECEIVE] for p in payments)\<close>, which stops at the first that is not.\<close>

primrec all_directed :: "json list \<Rightarrow> error + bool" where
  "all_directed [] = Inr True"
| "all_directed (p # ps) =
     bindR (jindex ''direction'' p) (\<lambda>d. if d = JStr ''SEND'' \<or> d = JStr ''RECEIVE'' then all_directed ps else Inr False)"

primrec first_sent :: "json list \<Rightarrow> error + json" where
  "first_sent [] = Inr JNull"
| "first_sent (p # ps) = bindR (jnone ''direction'' p) (\<lambda>d. if d = JStr ''SEND'' then Inr p else first_sent ps)"

definition sent_status :: "unit_t \<Rightarrow> json \<Rightarrow> error + payment_status" where
  "sent_status u payment =
     bindR (bindR (jindex ''status'' payment) blink_payment_result) (\<lambda>result.
     bindR (bindR (jindex ''settlementVia'' payment) (jnone ''preImage'')) (\<lambda>pre.
     bindR (bindR (jindex ''settlementFee'' payment) jint) (\<lambda>fee.
     bindR (fee_unit u) (\<lambda>w.
     bindR (jopt_text pre) (\<lambda>preimage.
     Inr \<lparr>st_result = result, st_fee = Some (Amount w fee), st_preimage = preimage, st_error_message = None\<rparr>)))))"

text \<open>Two payments under one hash, one sent and one received, are a failed one.\<close>

definition transactions_status :: "unit_t \<Rightarrow> json \<Rightarrow> error + payment_status" where
  "transactions_status u payments =
     (if \<not> jtruthy payments then Inr (no_status PR_unknown (Some ''No payment found''))
      else bindR (jiter payments) (\<lambda>ps.
           bindR (if length ps = 2 then all_directed ps else Inr False) (\<lambda>returned.
           if returned then Inr (no_status PR_failed (Some ''Payment failed''))
           else bindR (first_sent ps) (\<lambda>p.
                if \<not> jtruthy p then Inr (no_status PR_unknown (Some ''No payment found'')) else sent_status u p))))"

definition blink_get_payment_status :: "'s ln_env \<Rightarrow> unit_t \<Rightarrow> string \<Rightarrow> ('s blink_state, payment_status) ln" where
  "blink_get_payment_status N u checking_id =
     bindS (liftS (\<lambda>_. bolt11_of N checking_id)) (\<lambda>i.
     bindS (liftS (wallet_id u)) (\<lambda>w.
     bindS (blink_ask N (graphql ''TransactionsByPaymentHash''
              (JObj [(''paymentHash'', JStr (li_payment_hash i)), (''walletId'', w)]))) (\<lambda>r.
     thenS (liftS (\<lambda>_. raise_for_status r))
    (bindS (liftS (\<lambda>_. rs_json r)) (\<lambda>resp.
     liftS (\<lambda>_. bindR (bindR (jdicts [''data'', ''me'', ''defaultAccount'', ''walletById''] resp) (jnone ''transactionsByPaymentHash''))
       (transactions_status u)))))))"

definition first_message :: "json \<Rightarrow> error + json" where
  "first_message sent =
     bindR (bindR (jindex ''errors'' sent) (jat 0)) (\<lambda>e. bindR (jnone ''message'' e) (\<lambda>m. Inr (if jtruthy m then m else JStr ''Unknown error'')))"

definition settlement_fee :: "unit_t \<Rightarrow> json \<Rightarrow> error + amount option" where
  "settlement_fee u tr =
     (if \<not> jtruthy tr then Inr None
      else bindR (jnone ''settlementFee'' tr) (\<lambda>fee.
           if fee = JNull then Inr None else bindR (fee_unit u) (\<lambda>w. bindR (jint fee) (\<lambda>n. Inr (Some (Amount w n))))))"

text \<open>The answer to a payment: a failure is reported at once, anything else after a look at the payment itself.\<close>

definition blink_sent_of :: "'s ln_env \<Rightarrow> unit_t \<Rightarrow> string \<Rightarrow> http_response \<Rightarrow> ('s blink_state, payment_response) ln" where
  "blink_sent_of N u request r =
     bindS (liftS (\<lambda>_. bindR (rs_json r) (jdicts [''data'', ''lnInvoicePaymentSend'']))) (\<lambda>sent.
     bindS (liftS (\<lambda>_. jnone ''errors'' sent)) (\<lambda>errors.
     bindS (liftS (\<lambda>_. if jtruthy errors then first_message sent else Inr JNull)) (\<lambda>m.
     bindS (liftS (\<lambda>_. jnone ''status'' sent)) (\<lambda>st.
     bindS (liftS (\<lambda>_. blink_execution_result st)) (\<lambda>result.
     let message = (if st = JStr ''ALREADY_PAID'' then JStr ''Invoice already paid'' else m)
     in if result = PR_failed then
          liftS (\<lambda>_. bindR (jopt_text message) (\<lambda>msg. Inr ((no_payment result msg)\<lparr>py_checking_id := Some request\<rparr>)))
        else
          bindS (liftS (\<lambda>_. jdict ''transaction'' sent)) (\<lambda>tr.
          bindS (blink_get_payment_status N u request) (\<lambda>status.
          bindS (liftS (\<lambda>_. settlement_fee u tr)) (\<lambda>fee.
          liftS (\<lambda>_. bindR (jopt_text message) (\<lambda>msg.
            Inr \<lparr>py_result = result, py_checking_id = Some request, py_fee = fee,
                 py_preimage = (if st_result status = PR_settled then st_preimage status else None), py_error_message = msg\<rparr>))))))))))"

definition blink_pay_invoice :: "'s ln_env \<Rightarrow> unit_t \<Rightarrow> melt_quote \<Rightarrow> int \<Rightarrow> ('s blink_state, payment_response) ln" where
  "blink_pay_invoice N u q limit =
     bindS (liftS (wallet_id u)) (\<lambda>w.
     blink_try N (graphql ''lnInvoicePaymentSend''
         (JObj [(''input'', JObj [(''paymentRequest'', JStr (lq_request q)), (''walletId'', w)])]))
       (\<lambda>e. returnS (no_payment PR_unknown (Some (error_detail e))))
       (blink_sent_of N u (lq_request q)))"

section \<open>Quotes\<close>

definition blink_rate_of :: "http_response \<Rightarrow> error + int" where
  "blink_rate_of r =
     bindR (bindR (bindR (rs_json r) (jdict ''data'')) (jnone ''currencyConversionEstimation'')) (\<lambda>conversion.
     if \<not> jtruthy conversion then Inl (PyException ''Currency conversion service unavailable'')
     else bindR (jnone ''btcSatAmount'' conversion) (\<lambda>n.
          if \<not> jtruthy n then Inl (PyException ''Invalid conversion data: btcSatAmount is missing or zero'') else jint_of n))"

definition get_sats_per_usd :: "'s ln_env \<Rightarrow> ('s blink_state, int) ln" where
  "get_sats_per_usd N =
     blink_try N (graphql ''currencyConversionEstimation'' (JObj [(''amount'', JInt 1), (''currency'', JStr ''USD'')]))
       (\<lambda>e. raiseS (PyException (''Failed to fetch conversion rate from Blink: '' @ error_detail e)))
       (\<lambda>r. liftS (\<lambda>_. blink_rate_of r))"

text \<open>\<^verbatim>\<open>math.ceil(sats * 100 / sats_per_usd)\<close>.\<close>

definition sats_to_cents_with_rate :: "int \<Rightarrow> int \<Rightarrow> error + int" where
  "sats_to_cents_with_rate sats sats_per_usd =
     (if sats_per_usd = 0 then Inl (PyException ''division by zero'') else Inr \<lceil>f_div_int (sats * 100) sats_per_usd\<rceil>)"

text \<open>The fee that the probe answered, in millisatoshi; no fee when the probe reports an error. A probe that takes too long is
  \<open>ReadTimeout\<close>, which is no failure.\<close>

definition probe_fee_of :: "string \<Rightarrow> json \<Rightarrow> error + int" where
  "probe_fee_of key resp =
     bindR (jdicts [''data'', key] resp) (\<lambda>p.
     bindR (jnone ''errors'' p) (\<lambda>e.
     if jtruthy e then bindR (bindR (bindR (jpath [''data'', key, ''errors''] resp) (jat 0)) (jnone ''message'')) (\<lambda>_. Inr 0)
     else bindR (bindR (jnone ''amount'' p) jint_of) (\<lambda>n. Inr (n * 1000))))"

definition probe_fee :: "'s ln_env \<Rightarrow> (error \<Rightarrow> bool) \<Rightarrow> string \<Rightarrow> string \<Rightarrow> json \<Rightarrow> ('s blink_state, int) ln" where
  "probe_fee N is_timeout key request w =
     blink_try N (graphql key (JObj [(''input'', JObj [(''paymentRequest'', JStr request), (''walletId'', w)])]))
       (\<lambda>e. if is_timeout e then returnS 0 else raiseS e)
       (\<lambda>r. liftS (\<lambda>_. bindR (rs_json r) (probe_fee_of key)))"

text \<open>\<^verbatim>\<open>math.ceil(amount_msat / 100 * BLINK_MAX_FEE_PERCENT / 1000) * 1000\<close>, and the fee of a quote.\<close>

definition max_fee_msat :: "int \<Rightarrow> int" where
  "max_fee_msat n = \<lceil>f_div (f_mul (f_div_int n 100) (1 / 2)) 1000\<rceil> * 1000"

definition blink_fee_msat :: "int \<Rightarrow> int \<Rightarrow> int" where
  "blink_fee_msat probed n = max probed (max (max_fee_msat n) 10000)"

text \<open>The price may move by a tenth before the payment.\<close>

definition price_swing :: "int \<Rightarrow> int" where
  "price_swing cents = \<lceil>f_div_int (cents * 10) 100\<rceil>"

definition blink_get_payment_quote ::
  "'s ln_env \<Rightarrow> (error \<Rightarrow> bool) \<Rightarrow> unit_t \<Rightarrow> melt_quote_request \<Rightarrow> ('s blink_state, payment_quote) ln" where
  "blink_get_payment_quote N is_timeout u q =
     bindS (liftS (\<lambda>_. bolt11_of N (lr_request q))) (\<lambda>i.
     bindS (liftS (\<lambda>_. invoice_msat i)) (\<lambda>n.
     bindS (liftS (wallet_id u)) (\<lambda>w.
     bindS (probe_fee N is_timeout (if u = usd then ''lnUsdInvoiceFeeProbe'' else ''lnInvoiceFeeProbe'') (lr_request q) w) (\<lambda>probed.
     let fees = blink_fee_msat probed n
     in if u = usd then
          bindS (get_sats_per_usd N) (\<lambda>rate.
          liftS (\<lambda>_. bindR (sats_to_cents_with_rate (n div 1000) rate) (\<lambda>cents.
            bindR (sats_to_cents_with_rate (fees div 1000) rate) (\<lambda>fee_cents.
            Inr \<lparr>pq_checking_id = lr_request q, pq_amount = Amount usd cents, pq_fee = Amount usd (fee_cents + price_swing cents)\<rparr>))))
        else
          liftS (\<lambda>_. bindR (amount_to (Amount msat fees) u round_up) (\<lambda>fee. bindR (amount_to (Amount msat n) u round_up) (\<lambda>a.
            Inr \<lparr>pq_checking_id = lr_request q, pq_amount = a, pq_fee = fee\<rparr>)))))))"

section \<open>What the client reports\<close>

text \<open>An answer with errors makes \<^verbatim>\<open>get_invoice_status\<close> raise, although it means to report the status as unknown.\<close>

lemma invoice_errors_raise:
  assumes "rs_json r = Inr (JObj [(''data'', JObj [(''lnInvoicePaymentStatus'', JObj [(''errors'', JList (e # es))])])])"
  shows "blink_invoice_status_of r = Inl (ValueError ''Input should be a valid string'')"
  using assms by (simp add: blink_invoice_status_of_def jdict_def jget_def jnone_def jtruthy_def json_str_def)

end
