(* ===== verification/FloatFacts.thy ===== *)
theory FloatFacts
  imports Floats
begin

text \<open>
  The rounding of theory \<open>Floats\<close> in general: the exponent of a positive number is the one of its leading bit, and rounding to 53 bits
  moves a number by at most its \<open>2 ^ 53\<close>rd part.
\<close>

lemma pow2_pos [simp]: "0 < pow2 e"
  by (simp add: pow2_def)

lemma pow2_eq: "pow2 e = 2 powi e"
  by (auto simp: pow2_def power_int_def field_simps)

lemma pow2_add: "pow2 (a + b) = pow2 a * pow2 b"
  by (simp add: pow2_eq power_int_add)

lemma pow2_mono: "a \<le> b \<Longrightarrow> pow2 a \<le> pow2 b"
  by (simp add: pow2_eq power_int_increasing)

lemma pow2_nat: "pow2 (int n) = 2 ^ n"
  by (simp add: pow2_def)

lemma bit_length_pow2:
  assumes "0 < n"
  shows "pow2 (int (bit_length (nat n)) - 1) \<le> of_int n" and "of_int n < pow2 (int (bit_length (nat n)))"
proof -
  define b where "b = bit_length (nat n)"
  have b: "0 < b" "2 ^ (b - 1) \<le> nat n" "nat n < 2 ^ b" using bit_length_bounds[of "nat n"] assms by (auto simp: b_def)
  have "2 ^ (b - 1) \<le> n" using b(2) assms by (simp add: nat_le_eq_zle le_nat_iff)
  moreover have "n < 2 ^ b" using b(3) assms by (simp add: nat_less_iff)
  ultimately have "(of_int (2 ^ (b - 1)) :: rat) \<le> of_int n" "(of_int n :: rat) < of_int (2 ^ b)"
    by (simp_all only: of_int_le_iff of_int_less_iff)
  then have l: "(2 :: rat) ^ (b - 1) \<le> of_int n" "(of_int n :: rat) < 2 ^ b" by simp_all
  have "int b - 1 = int (b - 1)" using b(1) by simp
  then have "pow2 (int b - 1) = 2 ^ (b - 1)" by (simp only: pow2_nat)
  then show "pow2 (int (bit_length (nat n)) - 1) \<le> of_int n" "of_int n < pow2 (int (bit_length (nat n)))"
    unfolding b_def[symmetric] using l by (simp_all only: pow2_nat)
qed

lemma exponent_of_bounds:
  assumes "0 < x"
  shows "pow2 (exponent_of x) \<le> x" and "x < pow2 (exponent_of x + 1)"
proof -
  obtain n d where q: "quotient_of x = (n, d)" by force
  then have x: "x = of_int n / of_int d" and d: "0 < d" using quotient_of_div quotient_of_denom_pos by auto
  have n: "0 < n" using assms x d by (simp add: zero_less_divide_iff)
  define k where "k = int (bit_length (nat n)) - int (bit_length (nat d))"
  note bn = bit_length_pow2[OF n] and bd = bit_length_pow2[OF d]
  have dq: "(0 :: rat) < of_int d" using d by simp
  have "x * of_int d = of_int n" using x d by simp
  have "pow2 (k - 1) * of_int d \<le> pow2 (k - 1) * pow2 (int (bit_length (nat d)))"
    using bd(2) by (intro mult_left_mono) (auto intro: less_imp_le)
  also have "\<dots> = pow2 (int (bit_length (nat n)) - 1)" by (simp add: pow2_add[symmetric] k_def algebra_simps)
  also have "\<dots> \<le> x * of_int d" using bn(1) x d by simp
  finally have lower: "pow2 (k - 1) \<le> x" using dq by (simp add: mult_le_cancel_right)
  have "x * of_int d < pow2 (int (bit_length (nat n)))" using bn(2) x d by simp
  also have "\<dots> = pow2 (k + 1) * pow2 (int (bit_length (nat d)) - 1)" by (simp add: pow2_add[symmetric] k_def algebra_simps)
  also have "\<dots> \<le> pow2 (k + 1) * of_int d" using bd(1) by (intro mult_left_mono) (auto intro: less_imp_le)
  finally have upper: "x < pow2 (k + 1)" using dq by (simp add: mult_less_cancel_right)
  have e: "exponent_of x = (if pow2 k \<le> x then k else k - 1)" by (simp add: exponent_of_def q k_def)
  show "pow2 (exponent_of x) \<le> x" "x < pow2 (exponent_of x + 1)" using lower upper by (auto simp: e)
qed

lemma exponent_of_eq:
  assumes "pow2 e \<le> x" and "x < pow2 (e + 1)"
  shows "exponent_of x = e"
proof -
  have x: "0 < x" using assms(1) pow2_pos[of e] by linarith
  note b = exponent_of_bounds[OF x]
  have "\<not> e + 1 \<le> exponent_of x" using pow2_mono[of "e + 1" "exponent_of x"] b(1) assms(2) by linarith
  moreover have "\<not> exponent_of x + 1 \<le> e" using pow2_mono[of "exponent_of x + 1" e] b(2) assms(1) by linarith
  ultimately show ?thesis by simp
qed

lemma round_even_error: "\<bar>of_int (round_even x) - x\<bar> \<le> 1 / 2"
proof -
  have "of_int \<lfloor>x\<rfloor> \<le> x" "x < of_int \<lfloor>x\<rfloor> + 1" using floor_correct[of x] by simp_all
  then show ?thesis by (auto simp: round_even_def Let_def abs_le_iff)
qed

lemma f64_error: "\<bar>f64 x - x\<bar> \<le> \<bar>x\<bar> / 2 ^ 53"
proof (cases "x = 0")
  case False
  define e where "e = exponent_of \<bar>x\<bar>"
  have low: "pow2 e \<le> \<bar>x\<bar>" using exponent_of_bounds(1)[of "\<bar>x\<bar>"] False by (simp add: e_def)
  have unit: "pow2 (52 - e) * pow2 (e - 52) = 1" by (simp add: pow2_add[symmetric]) (simp add: pow2_def)
  have "f64 x - x = (of_int (round_even (x * pow2 (52 - e))) - x * pow2 (52 - e)) * pow2 (e - 52)"
    using False unit by (simp add: f64_def Let_def e_def left_diff_distrib mult.assoc)
  then have "\<bar>f64 x - x\<bar> = \<bar>of_int (round_even (x * pow2 (52 - e))) - x * pow2 (52 - e)\<bar> * pow2 (e - 52)"
    by (simp add: abs_mult abs_of_pos)
  also have "\<dots> \<le> 1 / 2 * pow2 (e - 52)"
    using round_even_error by (intro mult_right_mono) (auto intro: less_imp_le)
  also have "\<dots> = pow2 e / 2 ^ 53" by (simp add: pow2_add[of e "- 52", simplified]) (simp add: pow2_def)
  also have "\<dots> \<le> \<bar>x\<bar> / 2 ^ 53" using low by (simp add: divide_right_mono)
  finally show ?thesis .
qed simp

lemma f64_at:
  assumes "pow2 e \<le> x" and "x < pow2 (e + 1)"
  shows "f64 x = of_int (round_even (x * pow2 (52 - e))) * pow2 (e - 52)"
proof -
  have "0 < x" using assms(1) pow2_pos[of e] by linarith
  then show ?thesis using exponent_of_eq[OF assms] by (simp add: f64_def Let_def)
qed

text \<open>Rounding twice, as a value that is read and then multiplied.\<close>

lemma f64_twice:
  assumes "0 \<le> q" and "0 \<le> c"
  shows "\<bar>f64 (f64 q * c) - q * c\<bar> \<le> q * c / 2 ^ 51"
proof -
  have a: "\<bar>f64 q - q\<bar> \<le> q / 2 ^ 53" using f64_error[of q] assms(1) by simp
  then have b: "\<bar>f64 q * c - q * c\<bar> \<le> q * c / 2 ^ 53"
    using assms(2) mult_right_mono[OF a assms(2)] by (simp add: abs_mult left_diff_distrib[symmetric])
  have d: "\<bar>f64 (f64 q * c) - f64 q * c\<bar> \<le> \<bar>f64 q * c\<bar> / 2 ^ 53" by (rule f64_error)
  have nonneg: "0 \<le> q * c" using assms by simp
  have "\<bar>z - x\<bar> \<le> x / 2 ^ 51" if "\<bar>y - x\<bar> \<le> x / 2 ^ 53" "\<bar>z - y\<bar> \<le> \<bar>y\<bar> / 2 ^ 53" "0 \<le> x" for x y z :: rat
  proof -
    have small: "x / 2 ^ 53 \<le> x" using that(3) by (simp add: divide_le_eq)
    then have "\<bar>y\<bar> \<le> 2 * x" using that(1,3) by linarith
    then have "\<bar>z - y\<bar> \<le> 2 * x / 2 ^ 53" using that(2) divide_right_mono[of "\<bar>y\<bar>" "2 * x" "2 ^ 53"] by simp
    then have "\<bar>z - x\<bar> \<le> 3 * (x / 2 ^ 53)" using that(1) abs_triangle_ineq[of "z - y" "y - x"] by simp
    also have "\<dots> \<le> x / 2 ^ 51" using that(3) by simp
    finally show ?thesis .
  qed
  from this[OF b d nonneg] show ?thesis .
qed

end
