(* ===== verification/Strike.thy ===== *)
theory Strike
  imports Backends FloatFacts
begin

text \<open>
  \<^verbatim>\<open>StrikeWallet\<close> of \<^verbatim>\<open>cashu/lightning/strike.py\<close>. The state is the currency of the wallet, which may change to USDT, with the state of the
  service. The texts of amounts are read as floating-point numbers, in decimal notation with an optional exponent.
\<close>

section \<open>Decimal numbers\<close>

definition ten_to :: "int \<Rightarrow> rat" where
  "ten_to e = (if 0 \<le> e then 10 ^ nat e else 1 / 10 ^ nat (- e))"

definition signed_tail :: "string \<Rightarrow> bool \<times> string" where
  "signed_tail s = (case s of
     c # cs \<Rightarrow> if c = CHR ''-'' then (True, cs) else if c = CHR ''+'' then (False, cs) else (False, s) | [] \<Rightarrow> (False, s))"

definition exponent_value :: "string \<Rightarrow> int option" where
  "exponent_value s = (case s of
     [] \<Rightarrow> Some 0
   | c # cs \<Rightarrow>
       if c = CHR ''e'' \<or> c = CHR ''E'' then
         (let (neg, ds) = signed_tail cs
          in if ds \<noteq> [] \<and> list_all is_digit ds then Some (if neg then - int (digits_val ds) else int (digits_val ds)) else None)
       else None)"

text \<open>The number that a text denotes, and \<^verbatim>\<open>float(s)\<close>.\<close>

definition decimal_value :: "string \<Rightarrow> error + rat" where
  "decimal_value t =
     (let (neg, s) = signed_tail (strip t); a = takeWhile is_digit s; r = dropWhile is_digit s;
          (b, r') = (case r of c # cs \<Rightarrow> if c = CHR ''.'' then (takeWhile is_digit cs, dropWhile is_digit cs) else ([], r) | [] \<Rightarrow> ([], []))
      in case exponent_value r' of
           Some e \<Rightarrow>
             if a = [] \<and> b = [] then Inl (ValueError ''could not convert string to float'')
             else (let x = of_nat (digits_val (a @ b)) * ten_to (e - int (length b)) in Inr (if neg then - x else x))
         | None \<Rightarrow> Inl (ValueError ''could not convert string to float''))"

definition py_float :: "string \<Rightarrow> error + rat" where
  "py_float t = bindR (decimal_value t) (\<lambda>x. Inr (f64 x))"

text \<open>\<^verbatim>\<open>f"{x:.kf}"\<close> of a float that is not negative.\<close>

definition format_fixed :: "nat \<Rightarrow> rat \<Rightarrow> string" where
  "format_fixed k x =
     (let m = nat (round_even (x * 10 ^ k)); ds = str_nat (m mod 10 ^ k)
      in str_nat (m div 10 ^ k) @ ''.'' @ replicate (k - length ds) (CHR ''0'') @ ds)"

text \<open>\<^verbatim>\<open>Amount.to_float_string\<close> and \<^verbatim>\<open>Amount.from_float\<close>.\<close>

definition to_float_string :: "amount \<Rightarrow> error + string" where
  "to_float_string a = (case a_unit a of
     usd \<Rightarrow> Inr (format_fixed 2 (f_div_int (a_amount a) 100))
   | eur \<Rightarrow> Inr (format_fixed 2 (f_div_int (a_amount a) 100))
   | sat \<Rightarrow> Inr (format_fixed 8 (f_div (f_of_int (a_amount a)) 100000000))
   | msat \<Rightarrow> bindR (amount_to a sat round_up) (\<lambda>b. Inr (format_fixed 8 (f_div (f_of_int (a_amount b)) 100000000)))
   | _ \<Rightarrow> Inl (PyException ''Amount must be in satoshis or cents''))"

definition from_float :: "rat \<Rightarrow> unit_t \<Rightarrow> error + amount" where
  "from_float x u = (case u of
     usd \<Rightarrow> Inr (Amount u (round_even (f_mul x 100)))
   | eur \<Rightarrow> Inr (Amount u (round_even (f_mul x 100)))
   | sat \<Rightarrow> Inr (Amount u (round_even (f_mul x 100000000)))
   | msat \<Rightarrow> Inr (Amount u (round_even (f_mul x 100000000000)))
   | _ \<Rightarrow> Inl (PyException ''Amount must be in satoshis or cents''))"

section \<open>Answers\<close>

record strike_amount =
  sa_amount :: string
  sa_currency :: string

definition v_str :: "string \<Rightarrow> json \<Rightarrow> error + string" where
  "v_str k j = jtext k j"

definition v_opt :: "string \<Rightarrow> json \<Rightarrow> error + string option" where
  "v_opt k j = bindR (jindex k j) jopt_text"

definition v_strike :: "json \<Rightarrow> error + strike_amount" where
  "v_strike j = bindR (v_str ''amount'' j) (\<lambda>a. bindR (v_str ''currency'' j) (\<lambda>c. Inr \<lparr>sa_amount = a, sa_currency = c\<rparr>))"

definition v_amount :: "string \<Rightarrow> json \<Rightarrow> error + strike_amount" where
  "v_amount k j = bindR (jindex k j) v_strike"

text \<open>An integer field takes whole numbers, also as text.\<close>

definition v_int :: "string \<Rightarrow> json \<Rightarrow> error + int" where
  "v_int k j = bindR (jindex k j) jint_of"

text \<open>\<^verbatim>\<open>model_validate\<close>: any field that is not as declared is a \<^verbatim>\<open>ValidationError\<close>.\<close>

definition validated :: "error + 'a \<Rightarrow> error + 'a" where
  "validated x = (case x of Inl _ \<Rightarrow> Inl (ValueError ''validation error'') | Inr v \<Rightarrow> Inr v)"

text \<open>\<^verbatim>\<open>StrikeCreateInvoiceResponse\<close>: the identifier of the invoice.\<close>

definition strike_invoice :: "json \<Rightarrow> error + string" where
  "strike_invoice j = validated (
     bindR (v_str ''invoiceId'' j) (\<lambda>i. bindR (v_amount ''amount'' j) (\<lambda>_. bindR (v_str ''state'' j) (\<lambda>_.
     bindR (v_str ''description'' j) (\<lambda>_. Inr i)))))"

text \<open>\<^verbatim>\<open>InvoiceQuoteResponse\<close>: its Lightning invoice.\<close>

definition strike_invoice_quote :: "json \<Rightarrow> error + string" where
  "strike_invoice_quote j = validated (
     bindR (v_str ''quoteId'' j) (\<lambda>_. bindR (v_str ''description'' j) (\<lambda>_. bindR (v_str ''lnInvoice'' j) (\<lambda>i.
     bindR (v_str ''expiration'' j) (\<lambda>_. bindR (v_int ''expirationInSec'' j) (\<lambda>_.
     bindR (v_amount ''targetAmount'' j) (\<lambda>_. bindR (v_amount ''sourceAmount'' j) (\<lambda>_.
     bindR (jindex ''conversionRate'' j) (\<lambda>r. bindR (v_str ''amount'' r) (\<lambda>_. bindR (v_str ''sourceCurrency'' r) (\<lambda>_.
     bindR (v_str ''targetCurrency'' r) (\<lambda>_. Inr i))))))))))))"

record strike_payment_quote =
  sq_id :: string
  sq_amount :: strike_amount
  sq_total_fee :: strike_amount

definition strike_payment_quote_of :: "json \<Rightarrow> error + strike_payment_quote" where
  "strike_payment_quote_of j = validated (
     bindR (v_amount ''lightningNetworkFee'' j) (\<lambda>_. bindR (v_str ''paymentQuoteId'' j) (\<lambda>i. bindR (v_str ''validUntil'' j) (\<lambda>_.
     bindR (v_amount ''amount'' j) (\<lambda>a. bindR (v_amount ''totalFee'' j) (\<lambda>f. bindR (v_amount ''totalAmount'' j) (\<lambda>_.
     Inr \<lparr>sq_id = i, sq_amount = a, sq_total_fee = f\<rparr>)))))))"

record strike_payment =
  sp_id :: string
  sp_state :: string
  sp_total_fee :: strike_amount

definition strike_payment_of :: "json \<Rightarrow> error + strike_payment" where
  "strike_payment_of j = validated (
     bindR (v_str ''paymentId'' j) (\<lambda>i. bindR (v_str ''state'' j) (\<lambda>st. bindR (v_str ''result'' j) (\<lambda>_.
     bindR (v_opt ''completed'' j) (\<lambda>_. bindR (v_opt ''delivered'' j) (\<lambda>_. bindR (v_amount ''amount'' j) (\<lambda>_.
     bindR (v_amount ''totalFee'' j) (\<lambda>f. bindR (v_amount ''lightningNetworkFee'' j) (\<lambda>_. bindR (v_amount ''totalAmount'' j) (\<lambda>_.
     bindR (bindR (jindex ''lightning'' j) json_obj) (\<lambda>l. bindR (mapR (\<lambda>(_, v). v_strike v) l) (\<lambda>_.
     Inr \<lparr>sp_id = i, sp_state = st, sp_total_fee = f\<rparr>))))))))))))"

definition strike_payment_result :: "string \<Rightarrow> error + payment_result" where
  "strike_payment_result s = ofOption (KeyError s) (map_of [(''PENDING'', PR_pending), (''COMPLETED'', PR_settled), (''FAILED'', PR_failed)] s)"

definition strike_invoice_result :: "json \<Rightarrow> error + payment_result" where
  "strike_invoice_result j = (case j of
     JStr s \<Rightarrow> ofOption (KeyError s) (map_of [(''PENDING'', PR_pending), (''UNPAID'', PR_pending), (''PAID'', PR_settled), (''CANCELLED'', PR_failed)] s)
   | JList _ \<Rightarrow> Inl type_error | JObj _ \<Rightarrow> Inl type_error | _ \<Rightarrow> Inl (KeyError (py_str j)))"

text \<open>\<^verbatim>\<open>fee_int\<close>: the fee in the unit, cut off after the multiplication.\<close>

definition fee_int :: "strike_amount \<Rightarrow> unit_t \<Rightarrow> error + int" where
  "fee_int fee u =
     (if sa_currency fee = ''BTC'' then
        (if u = sat then bindR (py_float (sa_amount fee)) (\<lambda>x. Inr (f_trunc (f_mul x 100000000)))
         else if u = msat then bindR (py_float (sa_amount fee)) (\<lambda>x. Inr (f_trunc (f_mul x 100000000000)))
         else Inr 0)
      else if sa_currency fee \<in> {''USD'', ''EUR'', ''USDT''} then bindR (py_float (sa_amount fee)) (\<lambda>x. Inr (f_trunc (f_mul x 100)))
      else Inl (PyException (''Unexpected currency '' @ sa_currency fee @ '' in fee'')))"

section \<open>The client\<close>

definition strike_units :: "unit_t set" where
  "strike_units = {sat, msat, usd, eur}"

definition currency_map :: "unit_t \<Rightarrow> string" where
  "currency_map u = (case u of usd \<Rightarrow> ''USD'' | eur \<Rightarrow> ''EUR'' | _ \<Rightarrow> ''BTC'')"

type_synonym 's strike_state = "string \<times> 's"

definition ask :: "'s ln_env \<Rightarrow> http_request \<Rightarrow> ('s strike_state, http_response) ln" where
  "ask N q = (\<lambda>(c, s). let (r, t) = ln_http N q s in (r, (c, t)))"

definition strike_url :: "string \<Rightarrow> string" where
  "strike_url path = ''https://api.strike.me'' @ path"

definition strike_request :: "string \<Rightarrow> string \<Rightarrow> json \<Rightarrow> http_request" where
  "strike_request meth path body = \<lparr>hr_method = meth, hr_url = strike_url path, hr_body = body\<rparr>"

text \<open>The first balance in a currency.\<close>

primrec find_balance :: "string \<Rightarrow> json list \<Rightarrow> error + json option" where
  "find_balance c [] = Inr None"
| "find_balance c (b # bs) = bindR (jindex ''currency'' b) (\<lambda>x. if x = JStr c then Inr (Some b) else find_balance c bs)"

definition strike_balance :: "unit_t \<Rightarrow> json \<Rightarrow> error + status_response" where
  "strike_balance u b =
     bindR (jindex ''total'' b) (\<lambda>t. bindR (case t of JStr s \<Rightarrow> py_float s | JFloat s \<Rightarrow> py_float s | _ \<Rightarrow> bindR (jint t) (\<lambda>n. Inr (f_of_int n))) (\<lambda>x.
     bindR (from_float x u) (\<lambda>a. Inr \<lparr>sr_balance = a, sr_error = None\<rparr>)))"

definition strike_balance_of :: "unit_t \<Rightarrow> json \<Rightarrow> ('s strike_state, status_response) ln" where
  "strike_balance_of u data =
     bindS (liftS (\<lambda>_. jiter data)) (\<lambda>bs.
     bindS (liftS (\<lambda>s. find_balance (fst s) bs)) (\<lambda>found.
     case found of
       Some b \<Rightarrow> liftS (\<lambda>_. strike_balance u b)
     | None \<Rightarrow>
         bindS (liftS (\<lambda>_. if u = usd then find_balance ''USDT'' bs else Inr None)) (\<lambda>usdt.
         case usdt of
           Some b \<Rightarrow> thenS (modifyS (\<lambda>(_, s). (''USDT'', s))) (liftS (\<lambda>_. strike_balance u b))
         | None \<Rightarrow> bindS (getS fst) (\<lambda>c. returnS (no_balance u (''Could not find balance for currency '' @ c))))))"

definition strike_status :: "'s ln_env \<Rightarrow> unit_t \<Rightarrow> ('s strike_state, status_response) ln" where
  "strike_status N u s =
     (case ask N (strike_request ''GET'' ''/v1/balances'' JNull) s of
        (Inl e, t) \<Rightarrow> (Inr (no_balance u (''Failed to connect to '' @ strike_url [] @ '' due to: '' @ error_detail e)), t)
      | (Inr r, t) \<Rightarrow>
          if \<not> is_success r then (Inr (no_balance u (''Failed to connect to '' @ strike_url [] @ '' due to: '' @ error_detail (status_error r))), t)
          else case rs_json r of
            Inl _ \<Rightarrow> (Inr (no_balance u (''Failed to connect to '' @ strike_url [] @ '', got: '' @ [ch 39] @ take 200 (rs_text r) @ ''...'' @ [ch 39])), t)
          | Inr data \<Rightarrow> strike_balance_of u data t)"

text \<open>
  A request whose failure is answered with a message out of the response: when there is no response, its name is unbound. \<open>old\<close> is the
  response that the handler reads instead, if there is one.
\<close>

definition ask_or ::
  "'s ln_env \<Rightarrow> http_request \<Rightarrow> http_response option \<Rightarrow> string list \<Rightarrow> (string \<Rightarrow> ('s strike_state, 'a) ln) \<Rightarrow>
   (http_response \<Rightarrow> ('s strike_state, 'a) ln) \<Rightarrow> ('s strike_state, 'a) ln" where
  "ask_or N q old path failed k s =
     (let (x, t) = ask N q s;
          message = (\<lambda>r. bindS (liftS (\<lambda>_. bindR (bindR (rs_json r) (jpath path)) json_str)) failed t)
      in case x of
           Inl _ \<Rightarrow> (case old of Some r \<Rightarrow> message r | None \<Rightarrow> (Inl (UnboundLocalError ''r''), t))
         | Inr r \<Rightarrow> if is_success r then k r t else message (case old of Some o' \<Rightarrow> o' | None \<Rightarrow> r))"

definition strike_create_invoice ::
  "'s ln_env \<Rightarrow> (nat \<Rightarrow> string) \<Rightarrow> amount \<Rightarrow> string option \<Rightarrow> ('s strike_state, invoice_response) ln" where
  "strike_create_invoice N token_hex a memo =
     thenS (liftS (\<lambda>_. assert_unit_supported strike_units (a_unit a)))
    (bindS (liftS (\<lambda>_. to_float_string a)) (\<lambda>amount.
     bindS (getS fst) (\<lambda>currency.
     ask_or N (strike_request ''POST'' ''/v1/invoices''
         (JObj [(''correlationId'', JStr (token_hex 16)),
                (''description'', JStr (if truthy_str memo then the memo else ''Invoice for order 123'')),
                (''amount'', JObj [(''amount'', JStr amount), (''currency'', JStr currency)])]))
       None [''detail''] (\<lambda>m. returnS (no_invoice m)) (\<lambda>r.
     bindS (liftS (\<lambda>_. bindR (rs_json r) strike_invoice)) (\<lambda>invoice.
     ask_or N (strike_request ''POST'' (''/v1/invoices/'' @ invoice @ ''/quote'') (JObj [(''descriptionHash'', JStr (token_hex 32))]))
       (Some r) [''detail''] (\<lambda>m. returnS (no_invoice m)) (\<lambda>r2.
     liftS (\<lambda>_. bindR (bindR (rs_json r2) strike_invoice_quote) (\<lambda>p. Inr (invoice_made (Some invoice) (Some p))))))))))"

definition strike_quote_of :: "string \<Rightarrow> unit_t \<Rightarrow> json \<Rightarrow> error + payment_quote" where
  "strike_quote_of currency u j =
     bindR (strike_payment_quote_of j) (\<lambda>q.
     if sa_currency (sq_amount q) \<noteq> currency
     then Inl (PyException (''Expected currency '' @ currency @ '', got '' @ sa_currency (sq_amount q)))
     else bindR (py_float (sa_amount (sq_amount q))) (\<lambda>x. bindR (from_float x u) (\<lambda>a. bindR (fee_int (sq_total_fee q) u) (\<lambda>fee.
          Inr \<lparr>pq_checking_id = sq_id q, pq_amount = a, pq_fee = Amount u fee\<rparr>))))"

definition strike_get_payment_quote :: "'s ln_env \<Rightarrow> unit_t \<Rightarrow> melt_quote_request \<Rightarrow> ('s strike_state, payment_quote) ln" where
  "strike_get_payment_quote N u q =
     bindS (getS fst) (\<lambda>currency.
     ask_or N (strike_request ''POST'' ''/v1/payment-quotes/lightning''
         (JObj [(''sourceCurrency'', JStr currency), (''lnInvoice'', JStr (lr_request q))]))
       None [''data'', ''message''] (\<lambda>m. raiseS (PyException m)) (\<lambda>r. liftS (\<lambda>_. bindR (rs_json r) (strike_quote_of currency u))))"

definition strike_paid_of :: "unit_t \<Rightarrow> json \<Rightarrow> error + payment_response" where
  "strike_paid_of u j =
     bindR (strike_payment_of j) (\<lambda>p. bindR (fee_int (sp_total_fee p) u) (\<lambda>fee. bindR (strike_payment_result (sp_state p)) (\<lambda>r.
     Inr \<lparr>py_result = r, py_checking_id = Some (sp_id p), py_fee = Some (Amount u fee), py_preimage = None, py_error_message = None\<rparr>)))"

definition strike_pay_invoice :: "'s ln_env \<Rightarrow> unit_t \<Rightarrow> melt_quote \<Rightarrow> int \<Rightarrow> ('s strike_state, payment_response) ln" where
  "strike_pay_invoice N u q limit =
     ask_or N (strike_request ''PATCH'' (''/v1/payment-quotes/'' @ lq_checking_id q @ ''/execute'') JNull)
       None [''data'', ''message''] (\<lambda>m. returnS (no_payment PR_failed (Some m))) (\<lambda>r. liftS (\<lambda>_. bindR (rs_json r) (strike_paid_of u)))"

definition strike_get_invoice_status :: "'s ln_env \<Rightarrow> string \<Rightarrow> ('s, payment_status) ln" where
  "strike_get_invoice_status N checking_id s =
     (case ln_http N (strike_request ''GET'' (''/v1/invoices/'' @ checking_id) JNull) s of
        (Inl e, t) \<Rightarrow> (Inr (no_status PR_unknown (Some (error_detail e))), t)
      | (Inr r, t) \<Rightarrow>
          if \<not> is_success r then (Inr (no_status PR_unknown (Some (error_detail (status_error r)))), t)
          else (bindR (bindR (rs_json r) (jnone ''state'')) (\<lambda>st. bindR (strike_invoice_result st) (\<lambda>x. Inr (no_status x None))), t))"

definition strike_payment_status_of :: "unit_t \<Rightarrow> json \<Rightarrow> error + payment_status" where
  "strike_payment_status_of u j =
     bindR (strike_payment_of j) (\<lambda>p. bindR (fee_int (sp_total_fee p) u) (\<lambda>fee. bindR (strike_payment_result (sp_state p)) (\<lambda>r.
     Inr \<lparr>st_result = r, st_fee = Some (Amount u fee), st_preimage = None, st_error_message = None\<rparr>)))"

definition strike_get_payment_status :: "'s ln_env \<Rightarrow> unit_t \<Rightarrow> string \<Rightarrow> ('s, payment_status) ln" where
  "strike_get_payment_status N u checking_id =
     http_json N (strike_request ''GET'' (''/v1/payments/'' @ checking_id) JNull)
       (\<lambda>r. if rs_status r \<noteq> 404 then raiseS (status_error r) else returnS (no_status PR_unknown (Some (rs_text r))))
       raiseS
       (\<lambda>data. liftS (\<lambda>_. strike_payment_status_of u data))"

section \<open>Reading amounts\<close>

lemma read_satoshi:
  assumes "0 \<le> n" and "n < 2 ^ 49"
  defines "y \<equiv> f_mul (f64 (of_int n / 100000000)) 100000000"
  shows "\<bar>y - of_int n\<bar> < 1 / 4" and "0 \<le> y"
proof -
  have "(of_int n :: rat) < of_int (2 ^ 49)" using assms(2) by (simp only: of_int_less_iff)
  then have "(of_int n :: rat) / 2 ^ 51 < 1 / 4" by simp
  moreover have "\<bar>y - of_int n\<bar> \<le> of_int n / 2 ^ 51"
    using f64_twice[of "of_int n / 100000000" 100000000] assms(1) by (simp add: y_def f_mul_def)
  ultimately show near: "\<bar>y - of_int n\<bar> < 1 / 4" by linarith
  show "0 \<le> y"
  proof (cases "n = 0")
    case False
    then have "1 \<le> n" using assms(1) by simp
    then have "(1 :: rat) \<le> of_int n" by simp
    then show ?thesis using near by linarith
  qed (simp add: y_def f_mul_def)
qed

lemma round_near:
  assumes "\<bar>y - of_int n\<bar> < 1 / 4"
  shows "round_even y = n" and "\<lfloor>y\<rfloor> = n \<or> \<lfloor>y\<rfloor> = n - 1"
proof -
  have f: "of_int \<lfloor>y\<rfloor> \<le> y" "y < of_int \<lfloor>y\<rfloor> + 1" using floor_correct[of y] by simp_all
  then have "(of_int \<lfloor>y\<rfloor> :: rat) < of_int (n + 1)" "(of_int (n - 2) :: rat) < of_int \<lfloor>y\<rfloor>"
    using assms by (simp_all only: of_int_add of_int_diff of_int_1 of_int_numeral)
  then show c: "\<lfloor>y\<rfloor> = n \<or> \<lfloor>y\<rfloor> = n - 1" by (simp only: of_int_less_iff) linarith
  then show "round_even y = n" using assms f by (auto simp: round_even_def Let_def)
qed

text \<open>C40. Strike writes amounts in bitcoin. A balance of \<open>n\<close> satoshi is read as exactly \<open>n\<close>, as it is rounded; a fee of \<open>n\<close> satoshi is
  cut off instead, and read as \<open>n\<close> or as one satoshi less.
\<close>

theorem strike_amounts_read:
  assumes "decimal_value t = Inr (of_int n / 100000000)" and "0 \<le> n" and "n < 2 ^ 49"
  shows "bindR (py_float t) (\<lambda>x. from_float x sat) = Inr (Amount sat n) \<and>
    (fee_int \<lparr>sa_amount = t, sa_currency = ''BTC''\<rparr> sat = Inr n \<or> fee_int \<lparr>sa_amount = t, sa_currency = ''BTC''\<rparr> sat = Inr (n - 1))"
proof -
  let ?y = "f_mul (f64 (of_int n / 100000000)) 100000000"
  note y = read_satoshi[OF assms(2,3)] and r = round_near[OF read_satoshi(1)[OF assms(2,3)]]
  have "fee_int \<lparr>sa_amount = t, sa_currency = ''BTC''\<rparr> sat = Inr \<lfloor>?y\<rfloor>"
    using y(2) assms(1) by (simp add: fee_int_def py_float_def f_trunc_def)
  then show ?thesis using r assms(1) by (auto simp: py_float_def from_float_def)
qed

text \<open>A fee of 29 satoshi is read as 28: the product in floating point is just below 29.\<close>

lemma value_29: "decimal_value ''0.00000029'' = Inr (of_int 29 / 100000000)"
  by code_simp

lemma round_even_at: "of_int k - 1 / 2 < x \<Longrightarrow> x < of_int k + 1 / 2 \<Longrightarrow> round_even x = k"
proof -
  assume k: "of_int k - 1 / 2 < x" "x < of_int k + 1 / 2"
  have f: "of_int \<lfloor>x\<rfloor> \<le> x" "x < of_int \<lfloor>x\<rfloor> + 1" using floor_correct[of x] by simp_all
  then have "(of_int \<lfloor>x\<rfloor> :: rat) < of_int (k + 1)" "(of_int (k - 2) :: rat) < of_int \<lfloor>x\<rfloor>"
    using k by (simp_all only: of_int_add of_int_diff of_int_1 of_int_numeral)
  then have "\<lfloor>x\<rfloor> = k \<or> \<lfloor>x\<rfloor> = k - 1" by (simp only: of_int_less_iff) linarith
  then show ?thesis using k f by (auto simp: round_even_def Let_def)
qed

lemma float_29: "f64 (29 / 100000000) = 5477945120128788 / 2 ^ 74"
proof -
  have r: "round_even (29 / 100000000 * pow2 (52 - (- 22))) = 5477945120128788"
    by (rule round_even_at) (simp_all add: pow2_def)
  have "f64 (29 / 100000000) = of_int (round_even (29 / 100000000 * pow2 (52 - (- 22)))) * pow2 (- 22 - 52)"
    by (rule f64_at) (simp_all add: pow2_def)
  then show ?thesis unfolding r by (simp add: pow2_def)
qed

lemma float_29_scaled: "f64 (5477945120128788 / 2 ^ 74 * 100000000) = 8162774324609023 / 2 ^ 48"
proof -
  have r: "round_even (5477945120128788 / 2 ^ 74 * 100000000 * pow2 (52 - 4)) = 8162774324609023"
    by (rule round_even_at) (simp_all add: pow2_def)
  have "f64 (5477945120128788 / 2 ^ 74 * 100000000) = of_int (round_even (5477945120128788 / 2 ^ 74 * 100000000 * pow2 (52 - 4))) * pow2 (4 - 52)"
    by (rule f64_at) (simp_all add: pow2_def)
  then show ?thesis unfolding r by (simp add: pow2_def)
qed

lemma fee_int_loses: "fee_int \<lparr>sa_amount = ''0.00000029'', sa_currency = ''BTC''\<rparr> sat = Inr 28"
proof -
  have p: "f_mul (f64 (29 / 100000000)) 100000000 = 8162774324609023 / 2 ^ 48"
    unfolding f_mul_def float_29 float_29_scaled ..
  have "\<lfloor>8162774324609023 / 2 ^ 48 :: rat\<rfloor> = 28" by (simp add: floor_eq_iff)
  then show ?thesis by (simp add: fee_int_def py_float_def value_29 p f_trunc_def)
qed

theorem strike_amounts_read_witness:
  "bindR (py_float ''0.00000029'') (\<lambda>x. from_float x sat) = Inr (Amount sat 29)"
  using strike_amounts_read[OF value_29] by simp

end
