(* ===== verification/FakeWallet.thy ===== *)
theory FakeWallet
  imports Backends
begin

text \<open>
  \<^verbatim>\<open>FakeWallet\<close> of \<^verbatim>\<open>cashu/lightning/fake.py\<close>, the backend that keeps its own books. An invoice of the package \<^verbatim>\<open>bolt11\<close> is of any type \<open>'i\<close>,
  with the functions of the package in the record \<open>bolt11_pkg\<close>: \<open>b_same\<close> is its comparison by \<^verbatim>\<open>==\<close>. Random bytes are those that the state
  has left in \<open>fk_random\<close>.

  The task that marks a new invoice as paid looks whether it is paid already, sleeps, and then books it: it is two steps here, and other
  requests come between them.
\<close>

section \<open>The state\<close>

record 'i bolt11_pkg =
  b_amount :: "'i \<Rightarrow> int option"
  b_hash :: "'i \<Rightarrow> string"
  b_same :: "'i \<Rightarrow> 'i \<Rightarrow> bool"
  b_encode :: "'i \<Rightarrow> string"
  b_decode :: "string \<Rightarrow> error + 'i"
  b_invoice :: "int \<Rightarrow> (string \<times> string) list \<Rightarrow> 'i"
  b_sha256 :: "string \<Rightarrow> string"

record fake_env =
  fn_brr :: bool
  fn_delay_incoming :: bool
  fn_pay_state :: "string option"
  fn_pay_exception :: bool
  fn_payment_state :: "string option"
  fn_payment_exception :: bool

record 'i fake =
  fk_balance :: "(unit_t \<times> int) list"
  fk_secrets :: "(string \<times> string) list"
  fk_created :: "'i list"
  fk_paid_in :: "'i list"
  fk_paid_out :: "'i list"
  fk_queue :: "'i list"
  fk_tasks :: "'i list"
  fk_sleeping :: "'i list"
  fk_random :: "string list"

type_synonym ('i, 'a) fk = "('i fake, error, 'a) sm"

definition fake_units :: "unit_t set" where
  "fake_units = {sat, msat, usd, eur}"

text \<open>\<^verbatim>\<open>i in l\<close>, and \<^verbatim>\<open>urandom(32).hex()\<close>.\<close>

definition among :: "'i bolt11_pkg \<Rightarrow> 'i \<Rightarrow> 'i list \<Rightarrow> bool" where
  "among P i l = list_ex (b_same P i) l"

definition urandom_hex :: "('i, string) fk" where
  "urandom_hex s = (case fk_random s of
     [] \<Rightarrow> (Inr [], s) | r # rs \<Rightarrow> (Inr (to_hex r), s\<lparr>fk_random := rs\<rparr>))"

section \<open>Balances\<close>

definition fake_btc_price :: rat where
  "fake_btc_price = f64 (100000000 / 1337)"

definition not_implemented :: error where
  "not_implemented = PyException ''NotImplementedError''"

text \<open>What an amount in millisatoshi is worth in the unit of the wallet.\<close>

definition fiat_of_msat :: "int \<Rightarrow> int" where
  "fiat_of_msat n = \<lceil>f_mul (f_div (f_of_int n) 1000000000) fake_btc_price\<rceil>"

definition balance_amount :: "'i bolt11_pkg \<Rightarrow> unit_t \<Rightarrow> 'i \<Rightarrow> error + int" where
  "balance_amount P u i =
     bindR (if truthy_int (b_amount P i) then Inr (the (b_amount P i)) else Inl (AssertionError ''invoice has no amount.'')) (\<lambda>n.
     case u of
       sat \<Rightarrow> Inr (n div 1000)
     | usd \<Rightarrow> Inr (fiat_of_msat n)
     | eur \<Rightarrow> Inr (fiat_of_msat n)
     | msat \<Rightarrow> Inr n
     | _ \<Rightarrow> Inl not_implemented)"

definition balance_of :: "unit_t \<Rightarrow> 'i fake \<Rightarrow> error + int" where
  "balance_of u s = ofOption (KeyError (unit_name u)) (map_of (fk_balance s) u)"

definition update_balance :: "'i bolt11_pkg \<Rightarrow> unit_t \<Rightarrow> 'i \<Rightarrow> bool \<Rightarrow> ('i, unit) fk" where
  "update_balance P u i incoming =
     bindS (liftS (\<lambda>_. balance_amount P u i)) (\<lambda>n.
     bindS (liftS (balance_of u)) (\<lambda>b.
     modifyS (\<lambda>s. s\<lparr>fk_balance := AList.update u (if incoming then b + n else b - n) (fk_balance s)\<rparr>)))"

definition fake_status :: "unit_t \<Rightarrow> ('i, status_response) fk" where
  "fake_status u = bindS (liftS (balance_of u)) (\<lambda>b. returnS \<lparr>sr_balance = Amount u b, sr_error = None\<rparr>)"

section \<open>Incoming payments\<close>

text \<open>The parts of \<^verbatim>\<open>mark_invoice_paid\<close> before and after the sleep.\<close>

definition to_be_marked :: "'i bolt11_pkg \<Rightarrow> fake_env \<Rightarrow> 'i \<Rightarrow> 'i fake \<Rightarrow> bool" where
  "to_be_marked P N i s = (\<not> among P i (fk_paid_in s) \<and> fn_brr N)"

definition book_incoming :: "'i bolt11_pkg \<Rightarrow> unit_t \<Rightarrow> 'i \<Rightarrow> ('i, unit) fk" where
  "book_incoming P u i =
     thenS (modifyS (\<lambda>s. s\<lparr>fk_paid_in := fk_paid_in s @ [i], fk_queue := fk_queue s @ [i]\<rparr>)) (update_balance P u i True)"

text \<open>\<^verbatim>\<open>mark_invoice_paid(invoice, delay=False)\<close>, and the task with its delay: it may fall asleep after the check.\<close>

definition mark_now :: "'i bolt11_pkg \<Rightarrow> fake_env \<Rightarrow> unit_t \<Rightarrow> 'i \<Rightarrow> ('i, unit) fk" where
  "mark_now P N u i = bindS (getS (to_be_marked P N i)) (\<lambda>b. whenS b (book_incoming P u i))"

definition start_task :: "'i bolt11_pkg \<Rightarrow> fake_env \<Rightarrow> unit_t \<Rightarrow> ('i, unit) fk" where
  "start_task P N u s = (case fk_tasks s of
     [] \<Rightarrow> (Inr (), s)
   | i # is \<Rightarrow>
       bindS (getS (to_be_marked P N i)) (\<lambda>b.
       whenS b (if fn_delay_incoming N then modifyS (\<lambda>s. s\<lparr>fk_sleeping := fk_sleeping s @ [i]\<rparr>) else book_incoming P u i))
       (s\<lparr>fk_tasks := is\<rparr>))"

definition wake_task :: "'i bolt11_pkg \<Rightarrow> unit_t \<Rightarrow> ('i, unit) fk" where
  "wake_task P u s = (case fk_sleeping s of
     [] \<Rightarrow> (Inr (), s)
   | i # is \<Rightarrow> book_incoming P u i (s\<lparr>fk_sleeping := is\<rparr>))"

text \<open>The tags of an invoice, in the order in which they are added.\<close>

definition description_tag :: "'i bolt11_pkg \<Rightarrow> string option \<Rightarrow> string option \<Rightarrow> string option \<Rightarrow> string \<times> string" where
  "description_tag P memo description_hash unhashed =
     (if truthy_str description_hash then (''description_hash'', to_hex (the description_hash))
      else if truthy_str unhashed then (''description_hash'', to_hex (b_sha256 P (the unhashed)))
      else (''description'', if truthy_str memo then the memo else []))"

definition invoice_amount :: "unit_t \<Rightarrow> amount \<Rightarrow> error + int" where
  "invoice_amount u a = (case u of
     sat \<Rightarrow> bindR (amount_to a msat round_up) (\<lambda>b. Inr (a_amount b))
   | msat \<Rightarrow> Inr (a_amount a)
   | usd \<Rightarrow> Inr \<lceil>f_mul (f_div (f_of_int (a_amount a)) fake_btc_price) 1000000000\<rceil>
   | eur \<Rightarrow> Inr \<lceil>f_mul (f_div (f_of_int (a_amount a)) fake_btc_price) 1000000000\<rceil>
   | _ \<Rightarrow> Inl not_implemented)"

definition fake_create_invoice ::
  "'i bolt11_pkg \<Rightarrow> fake_env \<Rightarrow> unit_t \<Rightarrow> amount \<Rightarrow> string option \<Rightarrow> string option \<Rightarrow> string option \<Rightarrow> int option \<Rightarrow> string option \<Rightarrow>
   ('i, invoice_response) fk" where
  "fake_create_invoice P N u a memo description_hash unhashed expiry payment_secret =
     thenS (liftS (\<lambda>_. assert_unit_supported fake_units (a_unit a)))
    (bindS (if truthy_str payment_secret then returnS (to_hex (the payment_secret)) else urandom_hex) (\<lambda>secret.
     let payment_hash = to_hex (b_sha256 P (encode_utf8 secret));
         tags = [(''features'', ''payment_secret''), description_tag P memo description_hash unhashed,
                 (''expire_time'', str_int (if truthy_int expiry then the expiry else 3600)),
                 (''payment_secret'', secret), (''payment_hash'', payment_hash)]
     in thenS (modifyS (\<lambda>s. s\<lparr>fk_secrets := AList.update payment_hash secret (fk_secrets s)\<rparr>))
       (bindS (liftS (\<lambda>_. invoice_amount u a)) (\<lambda>n.
        let i = b_invoice P n tags
        in bindS (getS fk_created) (\<lambda>created.
           thenS (guardS (\<not> among P i created) (ValueError ''Invoice already created''))
          (thenS (modifyS (\<lambda>s. s\<lparr>fk_created := fk_created s @ [i]\<rparr>))
          (thenS (whenS (fn_brr N) (modifyS (\<lambda>s. s\<lparr>fk_tasks := fk_tasks s @ [i]\<rparr>)))
                 (returnS (invoice_made (Some payment_hash) (Some (b_encode P i)))))))))))"

text \<open>An invoice that is not known is replaced by a dummy of 1337 millisatoshi.\<close>

definition create_dummy_bolt11 :: "'i bolt11_pkg \<Rightarrow> string \<Rightarrow> ('i, 'i) fk" where
  "create_dummy_bolt11 P payment_hash =
     bindS urandom_hex (\<lambda>r. returnS (b_invoice P 1337 [(''payment_hash'', payment_hash), (''payment_secret'', r)]))"

definition fake_get_invoice_status :: "'i bolt11_pkg \<Rightarrow> fake_env \<Rightarrow> unit_t \<Rightarrow> string \<Rightarrow> ('i, payment_status) fk" where
  "fake_get_invoice_status P N u checking_id =
     bindS (getS (\<lambda>s. List.find (\<lambda>i. b_hash P i = checking_id) (fk_created s))) (\<lambda>found.
     bindS (case found of Some i \<Rightarrow> returnS i | None \<Rightarrow> create_dummy_bolt11 P checking_id) (\<lambda>i.
     bindS (getS (\<lambda>s. checking_id \<in> set (List.map (b_hash P) (fk_paid_in s)))) (\<lambda>paid.
     if paid \<or> fn_brr N then thenS (mark_now P N u i) (returnS (no_status PR_settled None))
     else returnS (no_status PR_unknown (Some ''Invoice not found'')))))"

definition fake_stream_next :: "'i bolt11_pkg \<Rightarrow> ('i, string option) fk" where
  "fake_stream_next P s = (case fk_queue s of
     [] \<Rightarrow> (Inr None, s) | i # is \<Rightarrow> (Inr (Some (b_hash P i)), s\<lparr>fk_queue := is\<rparr>))"

section \<open>Outgoing payments\<close>

text \<open>\<^verbatim>\<open>PaymentResult[name]\<close>.\<close>

definition result_named :: "string \<Rightarrow> error + payment_result" where
  "result_named n = ofOption (KeyError n)
     (map_of [(''SETTLED'', PR_settled), (''FAILED'', PR_failed), (''PENDING'', PR_pending), (''UNKNOWN'', PR_unknown)] n)"

definition known_preimage :: "string \<Rightarrow> 'i fake \<Rightarrow> string" where
  "known_preimage h s = (case map_of (fk_secrets s) h of
     None \<Rightarrow> replicate 64 (CHR ''0'') | Some x \<Rightarrow> if x = [] then replicate 64 (CHR ''0'') else x)"

definition fake_paid :: "'i bolt11_pkg \<Rightarrow> unit_t \<Rightarrow> payment_result \<Rightarrow> 'i \<Rightarrow> 'i fake \<Rightarrow> payment_response" where
  "fake_paid P u r i s = \<lparr>py_result = r, py_checking_id = Some (b_hash P i), py_fee = Some (Amount u 1),
     py_preimage = Some (known_preimage (b_hash P i) s), py_error_message = None\<rparr>"

definition book_outgoing :: "'i bolt11_pkg \<Rightarrow> unit_t \<Rightarrow> 'i \<Rightarrow> ('i, unit) fk" where
  "book_outgoing P u i =
     bindS (getS (\<lambda>s. among P i (fk_paid_out s))) (\<lambda>again.
     thenS (guardS (\<not> again) (ValueError ''Invoice already paid''))
    (thenS (modifyS (\<lambda>s. s\<lparr>fk_paid_out := fk_paid_out s @ [i]\<rparr>)) (update_balance P u i False)))"

definition fake_pay_invoice :: "'i bolt11_pkg \<Rightarrow> fake_env \<Rightarrow> unit_t \<Rightarrow> melt_quote \<Rightarrow> int \<Rightarrow> ('i, payment_response) fk" where
  "fake_pay_invoice P N u q fee_limit =
     thenS (guardS (\<not> fn_pay_exception N) (PyException ''FakeWallet pay_invoice exception''))
    (bindS (liftS (\<lambda>_. b_decode P (lq_request q))) (\<lambda>i.
     if truthy_str (fn_pay_state N) then
       thenS (whenS (fn_pay_state N = Some ''SETTLED'') (update_balance P u i False))
      (bindS (liftS (\<lambda>_. result_named (the (fn_pay_state N)))) (\<lambda>r. getS (fake_paid P u r i)))
     else bindS (getS (\<lambda>s. b_hash P i \<in> set (List.map fst (fk_secrets s)))) (\<lambda>internal.
       if internal \<or> fn_brr N then thenS (book_outgoing P u i) (getS (fake_paid P u PR_settled i))
       else returnS (no_payment PR_failed (Some ''Only internal invoices can be used!'')))))"

definition fake_get_payment_status :: "fake_env \<Rightarrow> string \<Rightarrow> error + payment_status" where
  "fake_get_payment_status N checking_id =
     bindR (checkR (\<not> fn_payment_exception N) (PyException ''FakeWallet get_payment_status exception'')) (\<lambda>_.
     if truthy_str (fn_payment_state N) then bindR (result_named (the (fn_payment_state N))) (\<lambda>r. Inr (no_status r None))
     else Inr (no_status PR_settled None))"

definition fake_get_payment_quote :: "'i bolt11_pkg \<Rightarrow> 's ln_env \<Rightarrow> unit_t \<Rightarrow> melt_quote_request \<Rightarrow> error + payment_quote" where
  "fake_get_payment_quote P N u r =
     bindR (b_decode P (lr_request r)) (\<lambda>i.
     bindR (if truthy_int (b_amount P i) then Inr (the (b_amount P i)) else Inl (AssertionError ''invoice has no amount.'')) (\<lambda>n.
     bindR (if u = sat \<or> u = msat then Inr (Amount msat n, Amount msat (fee_reserve N n))
            else if u = usd \<or> u = eur then Inr (Amount u (fiat_of_msat n), Amount u 2)
            else Inl not_implemented) (\<lambda>(amount, fees).
     bindR (amount_to fees u round_up) (\<lambda>fee. bindR (amount_to amount u round_up) (\<lambda>amount.
     Inr \<lparr>pq_checking_id = b_hash P i, pq_amount = amount, pq_fee = fee\<rparr>)))))"

section \<open>The wallet over time\<close>

inductive fake_step :: "'i bolt11_pkg \<Rightarrow> fake_env \<Rightarrow> unit_t \<Rightarrow> 'i fake \<Rightarrow> 'i fake \<Rightarrow> bool" for P N u where
  create: "t = snd (fake_create_invoice P N u a memo dh un ex ps s) \<Longrightarrow> fake_step P N u s t"
| pay: "t = snd (fake_pay_invoice P N u q limit s) \<Longrightarrow> fake_step P N u s t"
| status: "t = snd (fake_get_invoice_status P N u c s) \<Longrightarrow> fake_step P N u s t"
| start: "t = snd (start_task P N u s) \<Longrightarrow> fake_step P N u s t"
| wake: "t = snd (wake_task P u s) \<Longrightarrow> fake_step P N u s t"
| stream: "t = snd (fake_stream_next P s) \<Longrightarrow> fake_step P N u s t"

definition worth :: "'i bolt11_pkg \<Rightarrow> unit_t \<Rightarrow> 'i \<Rightarrow> int" where
  "worth P u i = (case balance_amount P u i of Inl _ \<Rightarrow> 0 | Inr n \<Rightarrow> n)"

definition once :: "'i bolt11_pkg \<Rightarrow> 'i list \<Rightarrow> bool" where
  "once P l = sorted_wrt (\<lambda>i j. \<not> b_same P j i) l"

text \<open>The books since a balance \<open>b\<close> with the payments \<open>xs\<close> and \<open>ys\<close> on record.\<close>

definition books :: "'i bolt11_pkg \<Rightarrow> unit_t \<Rightarrow> int \<Rightarrow> 'i list \<Rightarrow> 'i list \<Rightarrow> 'i fake \<Rightarrow> bool" where
  "books P u b xs ys s =
     (\<exists>xs' ys'. fk_paid_in s = xs @ xs' \<and> fk_paid_out s = ys @ ys' \<and>
        map_of (fk_balance s) u = Some (b + sum_list (List.map (worth P u) xs') - sum_list (List.map (worth P u) ys')) \<and>
        once P (fk_paid_out s))"

lemma books_update [simp]:
  "books P u b xs ys (s\<lparr>fk_secrets := a\<rparr>) = books P u b xs ys s"
  "books P u b xs ys (s\<lparr>fk_created := c\<rparr>) = books P u b xs ys s"
  "books P u b xs ys (s\<lparr>fk_queue := c\<rparr>) = books P u b xs ys s"
  "books P u b xs ys (s\<lparr>fk_tasks := c\<rparr>) = books P u b xs ys s"
  "books P u b xs ys (s\<lparr>fk_sleeping := c\<rparr>) = books P u b xs ys s"
  "books P u b xs ys (s\<lparr>fk_random := d\<rparr>) = books P u b xs ys s"
  by (simp_all add: books_def)

lemma keeps_urandom [keeps_intros]: "keeps (books P u b xs ys) urandom_hex"
  by (auto simp: keeps_def urandom_hex_def split: list.split)

lemma update_balance_worth:
  assumes "map_of (fk_balance s) u = Some c"
  shows "snd (update_balance P u i incoming s) =
    (case balance_amount P u i of Inl _ \<Rightarrow> s
     | Inr n \<Rightarrow> s\<lparr>fk_balance := AList.update u (if incoming then c + n else c - n) (fk_balance s)\<rparr>)"
  using assms by (auto simp: update_balance_def bindS_def liftS_def balance_of_def modifyS_def split: sum.split)

lemma keeps_book_incoming [keeps_intros]: "keeps (books P u b xs ys) (book_incoming P u i)"
proof (rule keepsI)
  fix s :: "'a fake" assume "books P u b xs ys s"
  then obtain xs' ys' where s: "fk_paid_in s = xs @ xs'" "fk_paid_out s = ys @ ys'" "once P (fk_paid_out s)"
    "map_of (fk_balance s) u = Some (b + sum_list (List.map (worth P u) xs') - sum_list (List.map (worth P u) ys'))"
    by (auto simp: books_def)
  show "books P u b xs ys (snd (book_incoming P u i s))"
    unfolding books_def
    by (intro exI[of _ "xs' @ [i]"] exI[of _ ys'])
      (use s in \<open>auto simp: book_incoming_def thenS_def bindS_def modifyS_def update_balance_worth update_conv' worth_def split: sum.split\<close>)
qed

lemma keeps_book_outgoing [keeps_intros]: "keeps (books P u b xs ys) (book_outgoing P u i)"
proof (rule keepsI)
  fix s :: "'a fake" assume "books P u b xs ys s"
  then obtain xs' ys' where s: "fk_paid_in s = xs @ xs'" "fk_paid_out s = ys @ ys'" "once P (fk_paid_out s)"
    "map_of (fk_balance s) u = Some (b + sum_list (List.map (worth P u) xs') - sum_list (List.map (worth P u) ys'))"
    by (auto simp: books_def)
  show "books P u b xs ys (snd (book_outgoing P u i s))"
  proof (cases "among P i (fk_paid_out s)")
    case True
    with \<open>books P u b xs ys s\<close> show ?thesis by (simp add: book_outgoing_def thenS_def bindS_def)
  next
    case False
    then have "once P (fk_paid_out s @ [i])"
      using s(3) by (auto simp: once_def among_def sorted_wrt_append list_ex_iff)
    then show ?thesis
      unfolding books_def
      by (intro exI[of _ xs'] exI[of _ "ys' @ [i]"])
        (use s False in \<open>auto simp: book_outgoing_def thenS_def bindS_def modifyS_def update_balance_worth update_conv' worth_def split: sum.split\<close>)
  qed
qed

lemma keeps_mark_now [keeps_intros]: "keeps (books P u b xs ys) (mark_now P N u i)"
  unfolding mark_now_def by (intro keeps_intros)

lemma keeps_start_task: "keeps (books P u b xs ys) (start_task P N u)"
proof (rule keepsI)
  fix s :: "'a fake" assume s: "books P u b xs ys s"
  show "books P u b xs ys (snd (start_task P N u s))"
  proof (cases "fk_tasks s")
    case (Cons i rest)
    have "keeps (books P u b xs ys) (bindS (getS (to_be_marked P N i)) (\<lambda>b.
       whenS b (if fn_delay_incoming N then modifyS (\<lambda>s. s\<lparr>fk_sleeping := fk_sleeping s @ [i]\<rparr>) else book_incoming P u i)))"
      by (intro keeps_intros keeps_modifyS) simp_all
    then show ?thesis using s Cons by (simp add: start_task_def keeps_def)
  qed (simp add: start_task_def s)
qed

lemma keeps_wake_task: "keeps (books P u b xs ys) (wake_task P u)"
  using keeps_book_incoming[of P u b xs ys] by (auto simp: keeps_def wake_task_def split: list.split)

lemma keeps_create: "keeps (books P u b xs ys) (fake_create_invoice P N u a memo dh un ex ps)"
  unfolding fake_create_invoice_def Let_def by (intro keeps_intros keeps_modifyS) simp_all

lemma keeps_pay:
  assumes "\<not> truthy_str (fn_pay_state N)"
  shows "keeps (books P u b xs ys) (fake_pay_invoice P N u q limit)"
  unfolding fake_pay_invoice_def using assms by (intro keeps_intros) simp_all

lemma keeps_status: "keeps (books P u b xs ys) (fake_get_invoice_status P N u c)"
  unfolding fake_get_invoice_status_def create_dummy_bolt11_def by (intro keeps_intros)

lemma keeps_stream: "keeps (books P u b xs ys) (fake_stream_next P)"
  by (auto simp: keeps_def fake_stream_next_def split: list.split)

inductive_cases fake_stepE: "fake_step P N u s t"

lemma fake_step_books:
  assumes "fake_step P N u s t" and "\<not> truthy_str (fn_pay_state N)" and "books P u b xs ys s"
  shows "books P u b xs ys t"
  using assms(1)
  by (rule fake_stepE) (use assms(2,3) in \<open>auto intro: keepsD keeps_create keeps_pay keeps_status keeps_start_task keeps_wake_task keeps_stream\<close>)


section \<open>A wallet at work\<close>

text \<open>An invoice that is its amount and its payment hash; the text of an invoice is its hash, and it is worth 5000 millisatoshi.\<close>

definition sample_pkg :: "(int \<times> string) bolt11_pkg" where
  "sample_pkg = \<lparr>b_amount = (\<lambda>i. Some (fst i)), b_hash = snd, b_same = (=), b_encode = snd, b_decode = (\<lambda>s. Inr (5000, s)),
     b_invoice = (\<lambda>n tags. (n, case map_of tags ''payment_hash'' of None \<Rightarrow> [] | Some h \<Rightarrow> h)), b_sha256 = (\<lambda>s. take 2 s)\<rparr>"

definition sample_fake_env :: fake_env where
  "sample_fake_env = \<lparr>fn_brr = True, fn_delay_incoming = True, fn_pay_state = None, fn_pay_exception = False,
     fn_payment_state = None, fn_payment_exception = False\<rparr>"

definition new_fake :: "(int \<times> string) fake" where
  "new_fake = \<lparr>fk_balance = [(sat, 1337)], fk_secrets = [], fk_created = [], fk_paid_in = [], fk_paid_out = [], fk_queue = [],
     fk_tasks = [], fk_sleeping = [], fk_random = [''ab'']\<rparr>"

definition after_create :: "(int \<times> string) fake" where
  "after_create = snd (fake_create_invoice sample_pkg sample_fake_env sat (Amount sat 5) None None None None None new_fake)"

definition after_start :: "(int \<times> string) fake" where
  "after_start = snd (start_task sample_pkg sample_fake_env sat after_create)"

definition after_status :: "(int \<times> string) fake" where
  "after_status = snd (fake_get_invoice_status sample_pkg sample_fake_env sat ''3631'' after_start)"

definition after_wake :: "(int \<times> string) fake" where
  "after_wake = snd (wake_task sample_pkg sat after_status)"

text \<open>
  The task has looked and sleeps; meanwhile somebody asks for the invoice, which is then marked as paid at once. When the task wakes it
  books the same invoice again: the balance grows twice by its amount.
\<close>

lemma booked_twice:
  "fk_created after_wake = [(5000, ''3631'')]" "fk_paid_in after_wake = [(5000, ''3631''), (5000, ''3631'')]"
  "map_of (fk_balance after_wake) sat = Some 1347"
  by code_simp+


end
