(* ===== verification/CoreLightning.thy ===== *)
theory CoreLightning
  imports Backends
begin

text \<open>
  The two clients of Core Lightning: \<^verbatim>\<open>CLNRestWallet\<close> of \<^verbatim>\<open>cashu/lightning/clnrest.py\<close> and \<^verbatim>\<open>CoreLightningRestWallet\<close> of
  \<^verbatim>\<open>cashu/lightning/corelightningrest.py\<close>. They report an error under different keys, \<open>key\<close> below, and use different requests; what they
  make of the answers is nearly the same.
\<close>

section \<open>The result maps\<close>

definition cln_payment_result :: "string \<Rightarrow> payment_result option" where
  "cln_payment_result s = map_of [(''complete'', PR_settled), (''pending'', PR_pending), (''failed'', PR_failed)] s"

definition cln_invoice_result :: "string \<Rightarrow> payment_result option" where
  "cln_invoice_result s = map_of [(''paid'', PR_settled), (''unpaid'', PR_pending), (''expired'', PR_failed)] s"

text \<open>\<^verbatim>\<open>MAP[j]\<close>.\<close>

definition mapped :: "(string \<Rightarrow> payment_result option) \<Rightarrow> json \<Rightarrow> error + payment_result" where
  "mapped m j = (case j of
     JStr s \<Rightarrow> ofOption (KeyError s) (m s) | JList _ \<Rightarrow> Inl type_error | JObj _ \<Rightarrow> Inl type_error | _ \<Rightarrow> Inl (KeyError (py_str j)))"

section \<open>Answers\<close>

text \<open>\<^verbatim>\<open>r.is_error or key in r.json()\<close>, and the message in such an answer.\<close>

definition cln_failed :: "string \<Rightarrow> http_response \<Rightarrow> error + bool" where
  "cln_failed key r = (if is_error r then Inr True else bindR (rs_json r) (jin key))"

definition message_or_text :: "string list \<Rightarrow> http_response \<Rightarrow> json" where
  "message_or_text path r = (case bindR (rs_json r) (jpath path) of Inl _ \<Rightarrow> JStr (rs_text r) | Inr v \<Rightarrow> v)"

definition cln_url :: "string \<Rightarrow> string" where
  "cln_url url =
     (let u = (if url \<noteq> [] \<and> last url = CHR ''/'' then butlast url else url)
      in if starts ''http'' u then u else ''https://'' @ u)"

definition cln_funds_of :: "string \<Rightarrow> string \<Rightarrow> unit_t \<Rightarrow> http_response \<Rightarrow> error + status_response" where
  "cln_funds_of key url u r =
     bindR (raise_for_status r) (\<lambda>_. bindR (cln_failed key r) (\<lambda>failed.
     if failed then Inr (no_balance u (''Failed to connect to '' @ url @ '', got: '' @ [ch 39] @ py_str (message_or_text [key] r) @ ''...'' @ [ch 39]))
     else bindR (rs_json r) (\<lambda>data.
          case data of
            JObj [] \<Rightarrow> Inr (no_balance u ''no data'')
          | JList [] \<Rightarrow> Inr (no_balance u ''no data'')
          | JStr [] \<Rightarrow> Inr (no_balance u ''no data'')
          | _ \<Rightarrow> bindR (bindR (jindex ''channels'' data) jiter) (\<lambda>cs.
                 bindR (mapR (\<lambda>c. bindR (jindex ''our_amount_msat'' c) jint) cs) (\<lambda>ns.
                 Inr \<lparr>sr_balance = Amount u (sum_list ns div 1000), sr_error = None\<rparr>)))))"

definition cln_invoice_of :: "string \<Rightarrow> http_response \<Rightarrow> error + invoice_response" where
  "cln_invoice_of key r =
     bindR (cln_failed key r) (\<lambda>failed.
     if failed then bindR (json_str (message_or_text [key] r)) (\<lambda>m. Inr (no_invoice m))
     else bindR (rs_json r) (\<lambda>data.
          bindR (bindR (jin ''payment_hash'' data) (\<lambda>b. checkR b (AssertionError []))) (\<lambda>_.
          bindR (bindR (jin ''bolt11'' data) (\<lambda>b. checkR b (AssertionError []))) (\<lambda>_.
          bindR (bindR (jindex ''payment_hash'' data) jopt_text) (\<lambda>h.
          bindR (bindR (jindex ''bolt11'' data) jopt_text) (\<lambda>p. Inr (invoice_made h p)))))))"

text \<open>The answer to a payment: what was sent beyond the amount is the fee.\<close>

definition some_msat :: "int \<Rightarrow> amount option" where
  "some_msat n = (if n = 0 then None else Some (Amount msat n))"

definition cln_paid_of :: "json \<Rightarrow> error + payment_response" where
  "cln_paid_of data =
     bindR (jindex ''payment_hash'' data) (\<lambda>c. bindR (jindex ''payment_preimage'' data) (\<lambda>pre.
     bindR (bindR (jindex ''amount_sent_msat'' data) jint) (\<lambda>sent. bindR (bindR (jindex ''amount_msat'' data) jint) (\<lambda>n.
     bindR (bindR (jindex ''status'' data) (mapped cln_payment_result)) (\<lambda>r.
     bindR (jopt_text c) (\<lambda>c. bindR (jopt_text pre) (\<lambda>pre.
     Inr \<lparr>py_result = r, py_checking_id = c, py_fee = some_msat (sent - n), py_preimage = pre, py_error_message = None\<rparr>)))))))"

text \<open>
  The first of the payments under a hash. The code computes its fee as \<^verbatim>\<open>-int(pay["amount_sent_msat"]) - int(pay["amount_msat"])\<close>.
\<close>

definition cln_pay_of :: "json \<Rightarrow> error + payment_status" where
  "cln_pay_of pay =
     bindR (bindR (jindex ''status'' pay) (mapped cln_payment_result)) (\<lambda>r.
     if r = PR_settled then
       bindR (bindR (jindex ''amount_sent_msat'' pay) jint_of) (\<lambda>sent. bindR (bindR (jindex ''amount_msat'' pay) jint_of) (\<lambda>n.
       bindR (bindR (jindex ''preimage'' pay) jopt_text) (\<lambda>pre.
       Inr \<lparr>st_result = r, st_fee = some_msat (- sent - n), st_preimage = pre, st_error_message = None\<rparr>)))
     else Inr (no_status r None))"

definition cln_pays_of :: "string \<Rightarrow> string \<Rightarrow> http_response \<Rightarrow> error + payment_status" where
  "cln_pays_of key name r =
     bindR (raise_for_status r) (\<lambda>_. bindR (rs_json r) (\<lambda>data.
     bindR (jnone ''pays'' data) (\<lambda>pays.
     if \<not> jtruthy pays then Inr (no_status PR_unknown (Some ''payment not found''))
     else bindR (if is_error r then Inr True else jin key data) (\<lambda>failed.
       if failed then bindR (jnone key data) (\<lambda>m.
         Inl (PyException (''error in '' @ name @ '' response: '' @ py_str (if jtruthy m then m else data))))
       else bindR (jat 0 pays) cln_pay_of))))"

definition cln_invoice_status_of :: "string \<Rightarrow> http_response \<Rightarrow> error + payment_status" where
  "cln_invoice_status_of key r =
     bindR (raise_for_status r) (\<lambda>_. bindR (rs_json r) (\<lambda>data.
     bindR (if is_error r then Inr True else jin key data) (\<lambda>failed.
     bindR (if failed then Inr JNull else jnone ''invoices'' data) (\<lambda>invoices.
     if invoices = JNull then Inl (PyException ''error in cln response'')
     else bindR (jat 0 invoices) (\<lambda>i. bindR (bindR (jindex ''status'' i) (mapped cln_invoice_result)) (\<lambda>s.
          Inr (no_status s None)))))))"

text \<open>\<^verbatim>\<open>except Exception\<close> around all of it.\<close>

definition unknown_on_error :: "error + payment_status \<Rightarrow> payment_status" where
  "unknown_on_error x = (case x of Inr s \<Rightarrow> s | Inl e \<Rightarrow> no_status PR_unknown (Some (error_detail e)))"

section \<open>The format of the fee limit\<close>

text \<open>
  \<^verbatim>\<open>f"{x:.11}"\<close> of a float: eleven significant digits, without trailing zeros, as a fraction with at least one digit after the point when
  its leading digit has an exponent from \<open>- 4\<close> to \<open>9\<close>, and with an exponent of at least two digits otherwise.
\<close>

definition pow10 :: "int \<Rightarrow> rat" where
  "pow10 e = (if 0 \<le> e then 10 ^ nat e else 1 / 10 ^ nat (- e))"

text \<open>The exponent of the leading decimal digit, from a guess that is at most one too large.\<close>

definition dec_exponent :: "rat \<Rightarrow> int" where
  "dec_exponent x =
     (let (n, d) = quotient_of x; k = int (length (str_nat (nat n))) - int (length (str_nat (nat d)))
      in if pow10 k \<le> x then k else k - 1)"

definition zeros :: "nat \<Rightarrow> string" where
  "zeros n = replicate n (CHR ''0'')"

definition rstrip_zeros :: "string \<Rightarrow> string" where
  "rstrip_zeros s = rev (dropWhile (\<lambda>c. c = CHR ''0'') (rev s))"

definition fraction_of :: "string \<Rightarrow> string" where
  "fraction_of s = (if rstrip_zeros s = [] then ''.0'' else CHR ''.'' # rstrip_zeros s)"

definition exponent_text :: "int \<Rightarrow> string" where
  "exponent_text e = CHR ''e'' # (if e < 0 then CHR ''-'' else CHR ''+'') # (let s = str_nat (nat \<bar>e\<bar>) in if length s < 2 then zeros 1 @ s else s)"

definition format_11 :: "rat \<Rightarrow> string" where
  "format_11 x =
     (if x = 0 then ''0.0''
      else let y = \<bar>x\<bar>; e0 = dec_exponent y; m0 = round_even (y / pow10 (e0 - 10));
               e = (if m0 = 10 ^ 11 then e0 + 1 else e0); m = (if m0 = 10 ^ 11 then 10 ^ 10 else m0);
               ds = str_nat (nat m)
           in (if x < 0 then ''-'' else []) @
              (if 0 \<le> e \<and> e < 10 then take (nat e + 1) ds @ fraction_of (drop (nat e + 1) ds)
               else if - 4 \<le> e \<and> e < 0 then ''0.'' @ zeros (nat (- e) - 1) @ rstrip_zeros ds
               else (let r = rstrip_zeros (tl ds) in hd ds # (if r = [] then [] else CHR ''.'' # r) @ exponent_text e)))"

text \<open>\<^verbatim>\<open>limit / amount * 100\<close>.\<close>

definition fee_limit_percent :: "int \<Rightarrow> int \<Rightarrow> error + string" where
  "fee_limit_percent limit n = (if n = 0 then Inl (PyException ''division by zero'') else Inr (format_11 (f_mul (f_div_int limit n) 100)))"

section \<open>CLNRestWallet\<close>

definition cln_units :: "unit_t set" where
  "cln_units = {sat, msat}"

definition post :: "string \<Rightarrow> json \<Rightarrow> http_request" where
  "post url body = \<lparr>hr_method = ''POST'', hr_url = url, hr_body = body\<rparr>"

definition send_for :: "'s ln_env \<Rightarrow> http_request \<Rightarrow> (http_response \<Rightarrow> error + 'a) \<Rightarrow> ('s, 'a) ln" where
  "send_for N q f = bindS (ln_http N q) (\<lambda>r. liftS (\<lambda>_. f r))"

definition cln_status :: "'s ln_env \<Rightarrow> string \<Rightarrow> unit_t \<Rightarrow> ('s, status_response) ln" where
  "cln_status N url u = send_for N (post ''/v1/listfunds'' JNull) (cln_funds_of ''message'' url u)"

text \<open>
  The body of an invoice request; \<open>key\<close> names the amount. Of the two descriptions of bytes, a hash alone is refused. The expiry and the
  preimage are those of \<^verbatim>\<open>kwargs\<close>.
\<close>

definition cln_invoice_body ::
  "string \<Rightarrow> string \<Rightarrow> string \<Rightarrow> amount \<Rightarrow> string option \<Rightarrow> string option \<Rightarrow> string option \<Rightarrow> int option \<Rightarrow> string option \<Rightarrow> error + json" where
  "cln_invoice_body key name random a memo description_hash unhashed expiry preimage =
     bindR (assert_unit_supported cln_units (a_unit a)) (\<lambda>_.
     bindR (amount_to a msat round_up) (\<lambda>n.
     if truthy_str description_hash \<and> \<not> truthy_str unhashed
     then Inl (PyException (ch 39 # ''description_hash'' @ [ch 39] @ '' unsupported by '' @ name @ '', provide '' @ [ch 39] @ ''unhashed_description'' @ [ch 39]))
     else bindR (if truthy_str unhashed then bindR (ofOption (ValueError ''utf-8'') (decode_utf8 (the unhashed))) (\<lambda>s. Inr (JStr s))
                 else Inr (case memo of None \<Rightarrow> JNull | Some s \<Rightarrow> JStr s)) (\<lambda>description.
          Inr (JObj ([(key, JInt (a_amount n)), (''description'', description), (''label'', JStr (''lbl'' @ random))] @
            (if truthy_int expiry then [(''expiry'', JInt (the expiry))] else []) @
            (if truthy_str preimage then [(''preimage'', JStr (the preimage))] else []))))))"

definition cln_create_invoice ::
  "'s ln_env \<Rightarrow> amount \<Rightarrow> string option \<Rightarrow> string option \<Rightarrow> string option \<Rightarrow> int option \<Rightarrow> string option \<Rightarrow> ('s, invoice_response) ln" where
  "cln_create_invoice N a memo description_hash unhashed expiry preimage =
     bindS (liftS (\<lambda>_. cln_invoice_body ''amount_msat'' ''CLNRestWallet'' (ln_random N) a memo description_hash unhashed expiry preimage)) (\<lambda>body.
     send_for N (post ''/v1/invoice'' body) (cln_invoice_of ''message''))"

text \<open>The amount of a quote in millisatoshi.\<close>

definition quote_msat :: "melt_quote \<Rightarrow> error + int" where
  "quote_msat q =
     bindR (unit_of_name (lq_unit q)) (\<lambda>u.
     bindR (amount_to (Amount u (lq_amount q)) msat round_none) (\<lambda>a. Inr (a_amount a)))"

definition cln_pay_body :: "melt_quote \<Rightarrow> string \<Rightarrow> int option \<Rightarrow> json" where
  "cln_pay_body q percent partial =
     JObj ([(''bolt11'', JStr (lq_request q)), (''maxfeepercent'', JStr percent), (''exemptfee'', JInt 0)] @
       (case partial of None \<Rightarrow> [] | Some n \<Rightarrow> [(''partial_msat'', JInt n)]))"

definition cln_paid_or_failed :: "http_response \<Rightarrow> error + payment_response" where
  "cln_paid_or_failed r =
     bindR (cln_failed ''message'' r) (\<lambda>failed.
     if failed then Inr (no_payment PR_failed (Some (py_str (message_or_text [''message''] r))))
     else bindR (rs_json r) cln_paid_of)"

definition cln_pay_invoice :: "'s ln_env \<Rightarrow> bool \<Rightarrow> melt_quote \<Rightarrow> int \<Rightarrow> ('s, payment_response) ln" where
  "cln_pay_invoice N mpp q fee_limit_msat =
     (case ln_decode N (lq_request q) of
        Bolt11Exception m \<Rightarrow> returnS (no_payment PR_failed (Some m))
      | Decoded i \<Rightarrow>
          if \<not> truthy_int (li_amount_msat i) \<or> the (li_amount_msat i) \<le> 0
          then returnS (no_payment PR_failed (Some ''0 amount invoices are not allowed''))
          else bindS (liftS (\<lambda>_. quote_msat q)) (\<lambda>n.
               bindS (liftS (\<lambda>_. fee_limit_percent fee_limit_msat n)) (\<lambda>percent.
               if Some n \<noteq> li_amount_msat i \<and> \<not> mpp then returnS (no_payment PR_failed (Some ''mint does not support MPP''))
               else send_for N (post ''/v1/pay'' (cln_pay_body q percent (if Some n \<noteq> li_amount_msat i then Some n else None)))
                      cln_paid_or_failed)))"

definition cln_get_invoice_status :: "'s ln_env \<Rightarrow> string \<Rightarrow> ('s, payment_status) ln" where
  "cln_get_invoice_status N checking_id =
     send_for N (post ''/v1/listinvoices'' (JObj [(''payment_hash'', JStr checking_id)]))
       (\<lambda>r. Inr (unknown_on_error (cln_invoice_status_of ''message'' r)))"

definition cln_get_payment_status :: "'s ln_env \<Rightarrow> string \<Rightarrow> ('s, payment_status) ln" where
  "cln_get_payment_status N checking_id =
     send_for N (post ''/v1/listpays'' (JObj [(''payment_hash'', JStr checking_id)])) (cln_pays_of ''message'' ''clnrest'')"

definition cln_get_payment_quote :: "'s ln_env \<Rightarrow> unit_t \<Rightarrow> melt_quote_request \<Rightarrow> error + payment_quote" where
  "cln_get_payment_quote N u r =
     bindR (bolt11_of N (lr_request r)) (\<lambda>i.
     bindR (invoice_msat i) (\<lambda>n.
     bindR (checkR (n > 0) (AssertionError ''invoice has 0 amount.'')) (\<lambda>_.
     bindR (if is_mpp r then mpp_amount r else Inr n) (quote_of_msat N u i))))"

section \<open>CoreLightningRestWallet\<close>

definition get :: "string \<Rightarrow> json \<Rightarrow> http_request" where
  "get url params = \<lparr>hr_method = ''GET'', hr_url = url, hr_body = params\<rparr>"

definition core_status :: "'s ln_env \<Rightarrow> string \<Rightarrow> unit_t \<Rightarrow> ('s, status_response) ln" where
  "core_status N url u = send_for N (get ''/v1/listFunds'' JNull) (cln_funds_of ''error'' url u)"

definition core_create_invoice ::
  "'s ln_env \<Rightarrow> amount \<Rightarrow> string option \<Rightarrow> string option \<Rightarrow> string option \<Rightarrow> int option \<Rightarrow> string option \<Rightarrow> ('s, invoice_response) ln" where
  "core_create_invoice N a memo description_hash unhashed expiry preimage =
     bindS (liftS (\<lambda>_. cln_invoice_body ''amount'' ''CoreLightningRest'' (ln_random N) a memo description_hash unhashed expiry preimage)) (\<lambda>body.
     send_for N (post ''/v1/invoice/genInvoice'' body) (cln_invoice_of ''error''))"

definition core_paid_or_failed :: "http_response \<Rightarrow> error + payment_response" where
  "core_paid_or_failed r =
     bindR (cln_failed ''error'' r) (\<lambda>failed.
     if failed then bindR (json_str (message_or_text [''error'', ''message''] r)) (\<lambda>m. Inr (no_payment PR_failed (Some m)))
     else bindR (rs_json r) cln_paid_of)"

definition core_pay_invoice :: "'s ln_env \<Rightarrow> melt_quote \<Rightarrow> int \<Rightarrow> ('s, payment_response) ln" where
  "core_pay_invoice N q fee_limit_msat =
     (case ln_decode N (lq_request q) of
        Bolt11Exception m \<Rightarrow> returnS (no_payment PR_failed (Some m))
      | Decoded i \<Rightarrow>
          if \<not> truthy_int (li_amount_msat i) \<or> the (li_amount_msat i) \<le> 0
          then returnS (no_payment PR_failed (Some ''0 amount invoices are not allowed''))
          else bindS (liftS (\<lambda>_. fee_limit_percent fee_limit_msat (the (li_amount_msat i)))) (\<lambda>percent.
               send_for N (post ''/v1/pay''
                   (JObj [(''invoice'', JStr (lq_request q)), (''maxfeepercent'', JStr percent), (''exemptfee'', JInt 0)]))
                 core_paid_or_failed))"

definition core_get_invoice_status :: "'s ln_env \<Rightarrow> string \<Rightarrow> ('s, payment_status) ln" where
  "core_get_invoice_status N checking_id =
     send_for N (get ''/v1/invoice/listInvoices'' (JObj [(''payment_hash'', JStr checking_id)]))
       (\<lambda>r. Inr (unknown_on_error (cln_invoice_status_of ''error'' r)))"

definition core_get_payment_status :: "'s ln_env \<Rightarrow> string \<Rightarrow> ('s, payment_status) ln" where
  "core_get_payment_status N checking_id =
     send_for N (get ''/v1/pay/listPays'' (JObj [(''payment_hash'', JStr checking_id)])) (cln_pays_of ''error'' ''corelightning-rest'')"

definition core_get_payment_quote :: "'s ln_env \<Rightarrow> unit_t \<Rightarrow> melt_quote_request \<Rightarrow> error + payment_quote" where
  "core_get_payment_quote N u r = quote_of_invoice N u r"

section \<open>The streams of paid invoices\<close>

text \<open>
  Where the stream starts: the index of the last paid invoice of the list, \<open>JInt 0\<close> if there is none.
\<close>

primrec find_paid :: "json list \<Rightarrow> error + json" where
  "find_paid [] = Inr JNull"
| "find_paid (i # is) = bindR (jindex ''status'' i) (\<lambda>s. if s = JStr ''paid'' then Inr i else find_paid is)"

definition last_pay_index_of :: "string \<Rightarrow> http_response \<Rightarrow> error + json" where
  "last_pay_index_of key r =
     bindR (raise_for_status r) (\<lambda>_. bindR (rs_json r) (\<lambda>data.
     bindR (if is_error r then Inr True else jin key data) (\<lambda>failed.
     if failed then Inl (PyException ''error in cln response'')
     else bindR (bindR (jindex ''invoices'' data) jiter) (\<lambda>is.
          bindR (find_paid (rev is)) (\<lambda>i. if jtruthy i then jnone ''pay_index'' i else Inr (JInt 0))))))"

text \<open>
  One line of the stream of \<^verbatim>\<open>CLNRestWallet\<close>: the new index, and the payment hash that is yielded, if one is. A line that is no paid invoice
  with an index is skipped; an error of the service ends the connection.
\<close>

definition cln_stream_line :: "json \<Rightarrow> string \<Rightarrow> error + json \<times> json option" where
  "cln_stream_line index line =
     bindR (json_loads line) (\<lambda>inv.
     bindR (jin ''code'' inv) (\<lambda>c. bindR (if c then jin ''message'' inv else Inr False) (\<lambda>failed.
     if failed then bindR (jindex ''message'' inv) (\<lambda>m. Inl (PyException (py_str m)))
     else case bindR (jindex ''status'' inv) (\<lambda>s.
                 if s \<noteq> JStr ''paid'' then Inr None
                 else bindR (jnone ''pay_index'' inv) (\<lambda>n.
                      if jtruthy n then Inr (Some n) else Inl (PyException ''missing pay_index in invoice''))) of
            Inr (Some n) \<Rightarrow> bindR (jnone ''payment_hash'' inv) (\<lambda>h. Inr (n, if jtruthy h then Some h else None))
          | _ \<Rightarrow> Inr (index, None))))"

text \<open>
  One line of the stream of \<^verbatim>\<open>CoreLightningRestWallet\<close>, which asks the service for the invoice under the label of the line. The state
  holds the index, which is set before that request.
\<close>

definition core_stream_line :: "'s ln_env \<Rightarrow> string \<Rightarrow> (json \<times> 's, json option) ln" where
  "core_stream_line N line =
     bindS (liftS (\<lambda>_. json_loads line)) (\<lambda>inv.
     bindS (liftS (\<lambda>_. bindR (jin ''error'' inv) (\<lambda>e. if e then bindR (jindex ''error'' inv) (jin ''message'') else Inr False))) (\<lambda>failed.
     if failed then liftS (\<lambda>_. bindR (jpath [''error'', ''message''] inv) (\<lambda>m. Inl (PyException (py_str m))))
     else case bindR (jindex ''status'' inv) (\<lambda>s. if s \<noteq> JStr ''paid'' then Inr None else bindR (jindex ''pay_index'' inv) (\<lambda>n. Inr (Some n))) of
       Inr (Some n) \<Rightarrow>
         thenS (modifyS (\<lambda>(_, s). (n, s)))
        (bindS (liftS (\<lambda>_. jindex ''label'' inv)) (\<lambda>l.
         bindS (\<lambda>(i, s). let (x, t) = ln_http N (get ''/v1/invoice/listInvoices'' (JObj [(''label'', l)])) s in (x, (i, t))) (\<lambda>r.
         liftS (\<lambda>_. bindR (rs_json r) (\<lambda>paid.
           bindR (bindR (jindex ''invoices'' paid) (jat 0)) (\<lambda>i.
           bindR (bindR (jindex ''status'' i) (mapped cln_invoice_result)) (\<lambda>st.
           if st \<noteq> PR_settled then Inl (PyException ''invoice not paid'')
           else bindR (jindex ''payment_hash'' i) (\<lambda>h. Inr (Some h)))))))))
     | _ \<Rightarrow> returnS None))"

end
