(* ===== verification/Payments.thy ===== *)
theory Payments
  imports Change Melting CoreLightning
begin

text \<open>
  The clients of Core Lightning at work in the mint: what becomes of the change of a melt whose payment was pending and is settled by the
  time that somebody asks for the quote.
\<close>

section \<open>A settled payment of Core Lightning\<close>

text \<open>
  The service answers that the payment under a hash is complete: \<open>n\<close> is the amount that reached the payee and \<open>sent\<close> is what it cost.
\<close>

definition completed_pay :: "json \<Rightarrow> int \<Rightarrow> int \<Rightarrow> bool" where
  "completed_pay pay sent n =
     (jindex ''status'' pay = Inr (JStr ''complete'') \<and> jindex ''amount_sent_msat'' pay = Inr (JInt sent) \<and>
      jindex ''amount_msat'' pay = Inr (JInt n) \<and> isOk (bindR (jindex ''preimage'' pay) jopt_text))"

definition reports_payment :: "'s ln_env \<Rightarrow> 's \<Rightarrow> string \<Rightarrow> int \<Rightarrow> int \<Rightarrow> bool" where
  "reports_payment N w checking_id sent n =
     (\<exists>r pay more. fst (ln_http N (post ''/v1/listpays'' (JObj [(''payment_hash'', JStr checking_id)])) w) = Inr r \<and>
        is_success r \<and> rs_json r = Inr (JObj [(''pays'', JList (pay # more))]) \<and> completed_pay pay sent n)"

lemma completed_pay_of:
  assumes "completed_pay pay sent n"
  obtains pre where "cln_pay_of pay = Inr \<lparr>st_result = PR_settled, st_fee = some_msat (- sent - n), st_preimage = pre, st_error_message = None\<rparr>"
proof -
  from assms obtain pre where "bindR (jindex ''preimage'' pay) jopt_text = Inr pre"
    by (auto simp: completed_pay_def isOk_iff)
  then have "cln_pay_of pay = Inr \<lparr>st_result = PR_settled, st_fee = some_msat (- sent - n), st_preimage = pre, st_error_message = None\<rparr>"
    using assms by (simp add: completed_pay_def cln_pay_of_def mapped_def cln_payment_result_def jint_of_def jint_def ofOption_def)
  then show ?thesis by (rule that)
qed

text \<open>The fee that the client reports is below zero.\<close>

lemma reported_fee:
  assumes "reports_payment N w checking_id sent n"
  obtains st where "fst (cln_get_payment_status N checking_id w) = Inr st" "st_result st = PR_settled" "st_fee st = some_msat (- sent - n)"
proof -
  from assms obtain r pay more t where
    http: "ln_http N (post ''/v1/listpays'' (JObj [(''payment_hash'', JStr checking_id)])) w = (Inr r, t)" and
    r: "is_success r" "rs_json r = Inr (JObj [(''pays'', JList (pay # more))])" and pay: "completed_pay pay sent n"
    by (auto simp: reports_payment_def) (metis prod.collapse)
  from completed_pay_of[OF pay] obtain pre where
    pre: "cln_pay_of pay = Inr \<lparr>st_result = PR_settled, st_fee = some_msat (- sent - n), st_preimage = pre, st_error_message = None\<rparr>" .
  have "\<not> is_error r" using r(1) by (simp add: is_success_def is_error_def)
  then have "cln_pays_of ''message'' ''clnrest'' r = cln_pay_of pay"
    using r by (simp add: cln_pays_of_def raise_for_status_def checkR_def jnone_def jget_def jtruthy_def jin_def jat_def)
  then show ?thesis
    using that http pre by (simp add: cln_get_payment_status_def send_for_def bindS_def liftS_def)
qed

section \<open>The settlement of a pending melt\<close>

lemma settlement_change:
  assumes run: "settle_pending_melt E q u st s = (Inr q', t)" and wf: "wf_keysets s"
    and inputs: "get_pending_proofs_for_quote E (lq_quote q) (db s) = Inr ps" "get_fees_for_proofs s ps = Inr fees"
    and fee: "st_fee st = Some a" "amount_to a u round_none = Inr paid"
    and outs: "get_blinded_messages_melt_id (lq_quote q) (db s) = outs" "outs \<noteq> []"
  obtains sigs s1 t1 where "lq_change q' = Some sigs" "wf_keysets s1"
    "generate_change_promises E (sum_proofs ps - lq_amount q - fees) (a_amount paid) (Some outs) (Some (lq_quote q)) s1 = (Inr sigs, t1)"
proof -
  obtain q1 u1 s0 where q1: "melt_set_state q LQ_paid = Inr q1" and inv: "invalidate_proofs ps (Some (lq_quote q)) True s = (Inr u1, s0)"
    using run inputs(1) fee by (auto simp: settle_pending_melt_def Let_def transaction_Ok keep_fee_def sm_units elim!: bindS_OkE thenS_OkE)
  note i = invalidate_proofs_Ok[OF inv wf]
  have wf0: "wf_keysets s0" using wf i(1) by simp
  have "\<forall>p\<in>set ps. keyset_of s0 (p_id p) \<noteq> None" using i(1,2) by simp
  note un = unset_proofs_pending_spent[OF wf0 this, of True]
  obtain s1 where un1: "unset_proofs_pending ps True True s0 = (Inr (), s1)" and s1_def: "s1 = s0\<lparr>db := (db s0)\<lparr>proofs_pending :=
      drop_secrets (p_secret ` set ps) (proofs_pending (db s0)), keyset_rows := bump_all (proof_bumps ps) (keyset_rows (db s0))\<rparr>\<rparr>"
    using un by blast
  have s1: "wf_keysets s1" "get_fees_for_proofs s1 ps = Inr fees" "get_blinded_messages_melt_id (lq_quote q) (db s1) = outs"
    using wf0 inputs(2) outs(1) by (simp_all add: s1_def i(1) get_blinded_messages_melt_id_def)
  define q3 where "q3 = (keep_preimage (st_preimage st) (q1\<lparr>lq_fee_paid := a_amount paid\<rparr>))\<lparr>lq_paid_time := Some (now_s E)\<rparr>"
  have q3: "lq_fee_paid q3 = a_amount paid" by (simp add: q3_def keep_preimage_def)
  from run obtain sigs t1 where
    "generate_change_promises E (sum_proofs ps - lq_amount q - fees) (a_amount paid) (Some outs) (Some (lq_quote q)) s1 = (Inr sigs, t1)"
    and "q' = q3\<lparr>lq_change := Some sigs\<rparr>"
    using q1 inputs(1) fee inv un1 s1 outs(2) q3
    by (auto simp: settle_pending_melt_def Let_def transaction_Ok transaction_def keep_fee_def sm_units q3_def get_db_def
        bindS_step thenS_step elim!: bindS_OkE thenS_OkE)
  then show ?thesis using that s1(1) by simp
qed

section \<open>The mint\<close>

text \<open>C38. The client of Core Lightning reports the fee of a completed payment with the wrong sign: minus what was sent, minus the amount. A
  mint that asks for a pending melt after the payment went through therefore takes the fee for a negative number, and gives change for
  more than the whole fee reserve: with enough blank outputs, the reserve and on top of it at least twice the amount that it has paid,
  as new money.
\<close>

theorem settlement_prints_money:
  assumes run: "ledger_get_melt_quote E qid rollback_unknown s = (Inr q', t)" and wf: "wf_keysets s"
    and quote: "get_melt_quote_row (Some qid) None None (db s) = Inr (Some q)" "lq_state q = LQ_pending"
      "get_mint_quote None None (Some (lq_request q)) (db s) = Inr None"
      "verify_and_get_unit_method E s (lq_unit q) (lq_method q) = Inr (sat, m)"
    and backend: "get_backend E m sat = Inr b" "get_payment_status b = (\<lambda>c. fst (cln_get_payment_status N c w))"
    and paid: "reports_payment N w (lq_checking_id q) sent n" "0 < n" "n \<le> sent"
    and inputs: "get_pending_proofs_for_quote E (lq_quote q) (db s) = Inr ps" "get_fees_for_proofs s ps = Inr fees"
      "lq_amount q + fees \<le> sum_proofs ps"
    and blank: "length (amount_split (sum_proofs ps - lq_amount q - fees - (- sent - n) div 1000))
      \<le> length (get_blinded_messages_melt_id (lq_quote q) (db s))"
  shows "\<exists>sigs. lq_change q' = Some sigs \<and>
    1000 * sum_promises sigs \<ge> 1000 * (sum_proofs ps - lq_amount q - fees) + 2 * n"
proof -
  let ?fee = "(- sent - n) div 1000" and ?reserve = "sum_proofs ps - lq_amount q - fees"
  let ?outs = "get_blinded_messages_melt_id (lq_quote q) (db s)"
  obtain st where st: "fst (cln_get_payment_status N (lq_checking_id q) w) = Inr st" "st_result st = PR_settled"
    "st_fee st = Some (Amount msat (- sent - n))"
    using reported_fee[OF paid(1)] paid(2,3) by (auto simp: some_msat_def)
  have fee: "1000 * ?fee \<le> - 2 * n" "?fee < 0" using paid(2,3) by linarith+
  have "settle_pending_melt E q sat st s = (Inr q', t)"
    using run quote backend st by (auto simp: ledger_get_melt_quote_def liftS_def bindS_def bindR_def ofOption_def split: prod.splits sum.splits if_splits)
  moreover have "?outs \<noteq> []"
  proof
    assume "?outs = []"
    then have "amount_split (?reserve - ?fee) = []" using blank by simp
    then have "sum_list (amount_split (?reserve - ?fee)) = 0" by simp
    then show False using inputs(3) fee(2) sum_amount_split[of "?reserve - ?fee"] by simp
  qed
  moreover have "amount_to (Amount msat (- sent - n)) sat round_none = Inr (Amount sat ?fee)" by (simp add: amount_to_def)
  ultimately obtain sigs s1 t1 where change: "lq_change q' = Some sigs" "wf_keysets s1"
    "generate_change_promises E ?reserve ?fee (Some ?outs) (Some (lq_quote q)) s1 = (Inr sigs, t1)"
    using settlement_change[OF _ wf inputs(1,2) st(3) _ refl] by (metis amount.select_convs(2))
  have "List.map bs_amount sigs = take (length ?outs) (return_amounts (?reserve - ?fee))"
    using generate_change_Ok[OF change(3,2)] inputs(3) fee(2) by simp
  then have "sum_promises sigs = ?reserve - ?fee"
    using blank sum_return_amounts[of "?reserve - ?fee"] inputs(3) fee(2)
    by (simp add: sum_promises_def return_amounts_rev)
  then show ?thesis using change(1) fee(1) by auto
qed

text \<open>The witness: a payment of one satoshi was pending and is complete; its answer is read from its text.\<close>

definition cln_answer :: string where
  "cln_answer = json_dumps (JObj [(''pays'', JList [JObj [(''status'', JStr ''complete''), (''amount_sent_msat'', JInt 1000),
     (''amount_msat'', JInt 1000), (''preimage'', JStr ''00'')]])])"

definition sample_cln :: "unit ln_env" where
  "sample_cln = \<lparr>ln_http = (\<lambda>q s. (Inr \<lparr>rs_status = 200, rs_text = cln_answer, rs_reason = ''OK''\<rparr>, s)),
     ln_stream = (\<lambda>q s. (Inr [], s)), ln_decode = (\<lambda>s. Bolt11Exception []), ln_random = ''0.5'', lightning_fee_percent = 1, lightning_reserve_fee_min = 2000\<rparr>"

definition cln_backend :: backend where
  "cln_backend = sample_backend\<lparr>get_payment_status := (\<lambda>c. fst (cln_get_payment_status sample_cln c ()))\<rparr>"

definition cln_env :: env where
  "cln_env = sample_env\<lparr>backends := [(bolt11, [(sat, cln_backend)])]\<rparr>"

definition pending_melt :: ledger where
  "pending_melt = snd (melt pending_env swap_in ''m1'' (Some blanks) (melt_start LQ_unpaid))"

definition pending_inputs :: "token_proof list" where
  "pending_inputs = [(sample_proof 8 ''a'')\<lparr>p_C := []\<rparr>]"

lemma pending_melt_ok:
  "isOk (fst (ledger_get_melt_quote cln_env ''m1'' False pending_melt))" "wf_keysets pending_melt"
  "get_melt_quote_row (Some ''m1'') None None (db pending_melt) = Inr (Some ((sample_melt_quote LQ_pending)\<lparr>lq_change := Some []\<rparr>))"
  "get_mint_quote None None (Some ''lnbc4'') (db pending_melt) = Inr None"
  "verify_and_get_unit_method cln_env pending_melt ''sat'' ''bolt11'' = Inr (sat, bolt11)"
  "get_pending_proofs_for_quote cln_env ''m1'' (db pending_melt) = Inr pending_inputs"
  "get_fees_for_proofs pending_melt pending_inputs = Inr 1" "sum_proofs pending_inputs = 8"
  "length (amount_split 5) \<le> length (get_blinded_messages_melt_id ''m1'' (db pending_melt))"
  by code_simp+

lemma sample_cln_reports: "reports_payment sample_cln () c 1000 1000"
proof -
  have "rs_json \<lparr>rs_status = 200, rs_text = cln_answer, rs_reason = ''OK''\<rparr> =
    Inr (JObj [(''pays'', JList [JObj [(''status'', JStr ''complete''), (''amount_sent_msat'', JInt 1000),
      (''amount_msat'', JInt 1000), (''preimage'', JStr ''00'')]])])" by code_simp
  then show ?thesis
    by (auto simp: reports_payment_def sample_cln_def is_success_def completed_pay_def jindex_def ofOption_def jopt_text_def json_str_def isOk_def bindR_def)
qed

theorem settlement_prints_money_witness:
  "\<exists>sigs. lq_change (projr (fst (ledger_get_melt_quote cln_env ''m1'' False pending_melt))) = Some sigs \<and> 5 \<le> sum_promises sigs"
proof -
  have b: "get_backend cln_env bolt11 sat = Inr cln_backend"
    "get_payment_status cln_backend = (\<lambda>c. fst (cln_get_payment_status sample_cln c ()))"
    by (simp_all add: cln_env_def cln_backend_def sample_env_def get_backend_def ofOption_def bindR_def)
  show ?thesis
    using settlement_prints_money[OF isOk_run[OF pending_melt_ok(1)] pending_melt_ok(2) pending_melt_ok(3) _ _ _ b sample_cln_reports]
      pending_melt_ok by (simp add: sample_melt_quote_def)
qed

end
