(* ===== verification/Spec2Isabelle.thy ===== *)
theory Spec2Isabelle
  imports Swapping Minting Change Melting MeltFailure ProofStates Amounts Blinding Locks Keysets TokenFacts Selection
    EndToEnd Restoring Unlocking MintInfo AuthFacts Subscriptions WalletHelpers
    Lnbits Lnd Blink Strike FakeWallet Payments
begin

text \<open>
  A verification of nutshell, a mint and a wallet for Chaumian e-cash (\<^verbatim>\<open>src/cashu\<close>).

  A mint signs blinded messages, each for an amount, with the key of its keyset for that amount. Unblinded, a signature on a secret
  is a proof, which is money: the mint accepts it once, in a swap for new signatures or in a melt that pays a Lightning invoice. New
  money is minted against a quote whose invoice was paid. A wallet keeps the proofs, its secrets derived from a seed and a counter,
  and talks to the mint over HTTP.

  \<^bold>\<open>The effects.\<close> Code that changes state is a function \<open>'s \<Rightarrow> (error + 'a) * 's\<close> (theory \<open>Prelude\<close>): a Python exception is \<open>Inl\<close> of
  a constructor of \<open>error\<close> (theory \<open>Errors\<close>) and the state that it left behind stays, unless the code was inside a transaction of the
  database, which \<open>transaction\<close> rolls back. \<open>finallyS\<close> and \<open>catchS\<close> are the statements of Python. What the mint sees of the world is
  an argument, the record \<open>env\<close> (theory \<open>Env\<close>): settings, clock, random numbers, the curve, the package \<^verbatim>\<open>bolt11\<close>, and the Lightning
  backends with all their answers. The wallet sees the world through \<open>venv\<close> and the record \<open>mint_api\<close>, whose functions answer its
  requests. A theorem for every \<open>env\<close> thus holds for every behaviour of the services. The operations are atomic here: a request or a
  wallet operation runs to its end before the next one starts. What the code does against interleaved requests, the pending proofs
  and pending quotes, is modelled as it is; the properties over time hold for every sequence of whole requests.

  \<^bold>\<open>Core\<close> (\<^verbatim>\<open>core/\<close>).
  \<^item> \<open>Split\<close>: \<^verbatim>\<open>split.py\<close> and \<^verbatim>\<open>helpers.py\<close>; \<open>Amounts\<close>: the split is the binary representation, and the fees that spending books, per keyset and in all.
  \<^item> \<open>Base\<close>, \<open>Errors\<close>: \<^verbatim>\<open>base.py\<close>, \<^verbatim>\<open>models.py\<close>, \<^verbatim>\<open>errors.py\<close>. Quotes change state only through \<open>mint_transition\<close> and \<open>melt_transition\<close>,
    as \<^verbatim>\<open>__setattr__\<close> of the quotes allows.
  \<^item> \<open>Curve\<close>: \<^verbatim>\<open>crypto/b_dhke.py\<close> and \<^verbatim>\<open>crypto/secp.py\<close> over a \<open>curve\<close> (package \<^verbatim>\<open>coincurve\<close>); \<open>Blinding\<close>: what is signed blind verifies.
  \<^item> \<open>Keys\<close>: \<^verbatim>\<open>crypto/keys.py\<close>, \<^verbatim>\<open>legacy.py\<close> and the keysets of \<^verbatim>\<open>base.py\<close>; \<open>Cipher\<close>: \<^verbatim>\<open>crypto/aes.py\<close> and its round trip.
  \<^item> \<open>Json\<close>, \<open>JsonFacts\<close>, \<open>Base64\<close>: the modules \<^verbatim>\<open>json\<close> and \<^verbatim>\<open>base64\<close> as the code uses them; \<open>Secrets\<close>: \<^verbatim>\<open>secret.py\<close>, \<^verbatim>\<open>p2pk.py\<close>, \<^verbatim>\<open>htlc.py\<close>,
    \<^verbatim>\<open>nuts/nut14.py\<close>; \<open>Tokens\<close>, \<open>TokenFacts\<close>: \<^verbatim>\<open>TokenV3\<close> and \<^verbatim>\<open>TokenV4\<close> of \<^verbatim>\<open>base.py\<close>, with their round trips and conversions.

  \<^bold>\<open>The mint\<close> (\<^verbatim>\<open>mint/\<close>). Its state is the record of theory \<open>Store\<close>: the tables as lists of rows with their constraints, the keysets in
  memory, and the events sent.
  \<^item> \<open>Crud\<close>: the statements of \<^verbatim>\<open>crud.py\<close>; \<open>DbAccess\<close>: \<^verbatim>\<open>db/read.py\<close> and \<^verbatim>\<open>db/write.py\<close>; \<open>Effects\<close>: what statements and loops do, in closed
    form, for the proofs of all that follows.
  \<^item> \<open>Verification\<close>, \<open>Conditions\<close>: \<^verbatim>\<open>verification.py\<close>, \<^verbatim>\<open>conditions.py\<close>; \<open>Locks\<close>: a lock opens only for enough signatures of the right keys, and what a melt
    makes of \<^verbatim>\<open>SIG_ALL\<close>.
  \<^item> \<open>Ledger\<close>: \<^verbatim>\<open>ledger.py\<close> and \<^verbatim>\<open>tasks.py\<close>. \<open>Swapping\<close>, \<open>Minting\<close>, \<open>Melting\<close>, \<open>MeltFailure\<close>, \<open>Change\<close>: what each request verifies, what it
    writes when it succeeds, that it writes nothing when it raises, and that value is conserved.
  \<^item> \<open>History\<close>, \<open>Timeline\<close>: the mint over time, an inductive relation whose steps are all requests and one round of each background
    task, with the invariants of the tables and the safety properties: what is spent, issued or paid stays so and is refused ever after.
  \<^item> \<open>ProofStates\<close>: no proof is spent and pending at once when a request has ended, however it ended.
  \<^item> \<open>Keysets\<close>: \<^verbatim>\<open>keysets.py\<close>; \<open>Watchdog\<close>: \<^verbatim>\<open>watchdog.py\<close>; \<open>MintInfo\<close>: \<^verbatim>\<open>features.py\<close> and \<^verbatim>\<open>core/mint_info.py\<close>; \<open>Router\<close>: \<^verbatim>\<open>router.py\<close> with the
    validation by \<^verbatim>\<open>models.py\<close>; \<open>AuthServer\<close>, \<open>AuthFacts\<close>: \<^verbatim>\<open>auth/\<close> and \<^verbatim>\<open>middleware.py\<close>; \<open>Subscriptions\<close>: \<^verbatim>\<open>events/\<close>.

  \<^bold>\<open>Backends\<close> (\<^verbatim>\<open>lightning/\<close>). The ledger is proved over any backend; the clients of the services are modelled on their own, each over a
  function that answers its HTTP requests.
  \<^item> \<open>Backends\<close>: what they share; \<open>Lnbits\<close>, \<open>CoreLightning\<close>, \<open>Lnd\<close>, \<open>Blink\<close>, \<open>Strike\<close>: \<^verbatim>\<open>lnbits.py\<close>, \<^verbatim>\<open>clnrest.py\<close> and \<^verbatim>\<open>corelightningrest.py\<close>,
    \<^verbatim>\<open>lndrest.py\<close>, \<^verbatim>\<open>blink.py\<close>, \<^verbatim>\<open>strike.py\<close>, with what Strike's amounts lose when they are read (over the rounding of theory \<open>FloatFacts\<close>).
  \<^item> \<open>FakeWallet\<close>: \<^verbatim>\<open>fake.py\<close>, and that its books balance in every order of its requests and tasks.
  \<^item> \<open>Payments\<close>: a client of Core Lightning plugged into the ledger, and what its wrong fee makes of the change of a melt.

  \<^bold>\<open>The wallet\<close> (\<^verbatim>\<open>wallet/\<close>). Its state is the record of theory \<open>World\<close>: memory, database, random numbers, and the state of the mint behind
  its API, of any type.
  \<^item> \<open>WalletStore\<close>: \<^verbatim>\<open>crud.py\<close>; \<open>Floats\<close>, \<open>WalletAmounts\<close>: \<^verbatim>\<open>transactions.py\<close>; \<open>WalletTokens\<close>: \<^verbatim>\<open>proofs.py\<close>, \<^verbatim>\<open>keyset_manager.py\<close>;
    \<open>WalletSecrets\<close>: \<^verbatim>\<open>secrets.py\<close>; \<open>WalletLocks\<close>: \<^verbatim>\<open>p2pk.py\<close>, \<^verbatim>\<open>htlc.py\<close>; \<open>WalletApi\<close>: \<^verbatim>\<open>v1_api.py\<close>; \<open>Wallet\<close>, \<open>WalletQuotes\<close>, \<open>WalletRestore\<close>:
    \<^verbatim>\<open>wallet.py\<close>; \<open>WalletHelpers\<close>: \<^verbatim>\<open>helpers.py\<close> and the lightning wallet.
  \<^item> \<open>Selection\<close>: coin selection, and outputs that balance as the mint asks; \<open>WalletHistory\<close>: no operation loses a secret, and only a
    restore takes a counter back; \<open>Restoring\<close>: a restore ends.

  \<^bold>\<open>Both together.\<close> \<open>Unlocking\<close>: what a wallet signs for its own lock opens at the mint. \<open>Exchange\<close>, \<open>EndToEnd\<close>: a swap of a wallet, run
  against the endpoints of the mint (\<open>ledger_api\<close> in theory \<open>Router\<close>), leaves the wallet with proofs that verify and the mint with
  the inputs spent.

  \<^bold>\<open>Interfaces.\<close> The locales state what one part promises to another: a table with a unique key, what the statements, the requests and the
  background tasks keep of the mint's tables, the separators with which \<^verbatim>\<open>json\<close> writes, and what the operations of a wallet keep of its
  database. Each is interpreted on the definitions of the model, and the properties over time rest on these interpretations.

  \<^bold>\<open>Bounds and fuel.\<close> The JSON parser runs with fuel \<open>2 * length + 2\<close>, which is enough for every text (theory \<open>JsonFacts\<close>).
  \<open>hash_to_curve\<close> tries \<open>2 ^ 16\<close> counters, as the code does. The loops that the code does not bound, \<open>hash_to_curve_deprecated\<close> and the
  loop of a restore, are \<open>partial_function (option)\<close>; the restore is shown to end. Python integers are \<open>int\<close>. Floats are exact below
  \<open>2 ^ 53\<close>, where theory \<open>Floats\<close> models them; the number of blank outputs is exact for reserves below \<open>2 ^ 48\<close>. Characters are the code
  points below 256, that is, texts are in Latin-1 when they contain more than ASCII.

  \<^bold>\<open>Not modelled.\<close> Packages are parameters: the curve, AES, bip32 and mnemonics, \<^verbatim>\<open>cbor2\<close>, \<^verbatim>\<open>bolt11\<close>, JWTs, HTTP. Left out are the input and
  output around the program (command lines, FastAPI, redis, Tor, Nostr, gRPC and the code generated for it), the OpenID flows, the
  clients of Lightning nodes over gRPC, the migrations, the deprecated API, and the loops that schedule the background tasks.
\<close>

end
